(* ===== verification/Prelude.thy ===== *)
theory Prelude
  imports Complex_Main "HOL-Library.Word" "HOL-Library.Sublist"
begin

text \<open>
  Shared vocabulary of the development: the C integer types of the firmware
  (\<open>AllInOneDSP/src/header/AllInOneDSP_conf.h\<close>), the enumerations of
  \<open>AllInOneDSP/src/header/utilities.h\<close> that several modules use, the theorem
  collections, byte extraction and its converse, the formatting part of
  \<open>vsnprintf\<close> that \<open>AIO_printf\<close> relies on, and the generic list, word and
  option lemmas the component proofs rest on.
\<close>

unbundle bit_operations_syntax

section \<open>C integer types\<close>

type_synonym u8 = "8 word"
type_synonym u16 = "16 word"
type_synonym u32 = "32 word"
type_synonym s32 = "32 word"
type_synonym bytes = "8 word list"

section \<open>Theorem collections\<close>

named_theorems hw_defs \<open>definitions of straight-line register code\<close>
named_theorems frame \<open>what an operation leaves unchanged\<close>
named_theorems ring_simps \<open>index arithmetic of the circular buffers\<close>

section \<open>Enumerations of utilities.h\<close>

datatype RETURN_TypeDef = RETURN_OK | RETURN_ERROR

datatype EnableOrDisable = ENABLE | DISABLE

datatype StatusFlag_TypeDef = IDEL_FLAG | BUSY_FLAG | WORK_FLAG

datatype UploadFormat_TypeDef =
    FMT_PACKET | FMT_ADC_DEC | FMT_ADC_HEX | FMT_VOLTAGE
  | FMT_CENTIGRADE | FMT_FILTER_DATA | FMT_UPLOAD_OFF

datatype PATIENT_TypeDef = ADULT | CHILD | NEWBORN

fun patient_code :: "PATIENT_TypeDef \<Rightarrow> u8" where
  "patient_code ADULT = 1"
| "patient_code CHILD = 2"
| "patient_code NEWBORN = 3"

datatype WorkMode_TypeDef = SURGICAL | MONITOR | DIAGNOSE

fun workmode_code :: "WorkMode_TypeDef \<Rightarrow> u8" where
  "workmode_code SURGICAL = 1"
| "workmode_code MONITOR = 2"
| "workmode_code DIAGNOSE = 3"

section \<open>Straight-line code\<close>

text \<open>A block of C statements is the list of its state transformers in source order.\<close>

definition run :: "('s \<Rightarrow> 's) list \<Rightarrow> 's \<Rightarrow> 's" where
  "run fs s = fold (\<lambda>f t. f t) fs s"

lemma run_simps [simp]:
  "run [] s = s"
  "run (f # fs) s = run fs (f s)"
  by (simp_all add: run_def)

lemma run_append [simp]: "run (fs @ gs) s = run gs (run fs s)"
  by (simp add: run_def)

section \<open>Bytes of a machine word\<close>

text \<open>\<open>(x >> k) & 0xFF\<close>, stored in an \<open>unsigned char\<close>: byte extraction as the
  firmware writes it everywhere it serialises a value, and its converses
  \<open>(b1 << 8) | b0\<close> and \<open>(b3 << 24) | (b2 << 16) | (b1 << 8) | b0\<close>.\<close>

definition byte_of :: "nat \<Rightarrow> 'a::len word \<Rightarrow> u8" where
  "byte_of k x = ucast (drop_bit k x AND 255)"

definition u16_of_bytes :: "u8 \<Rightarrow> u8 \<Rightarrow> u16" where
  "u16_of_bytes h l = push_bit 8 (ucast h) OR ucast l"

definition u32_of_bytes :: "u8 \<Rightarrow> u8 \<Rightarrow> u8 \<Rightarrow> u8 \<Rightarrow> u32" where
  "u32_of_bytes b3 b2 b1 b0 =
     push_bit 24 (ucast b3) OR push_bit 16 (ucast b2) OR push_bit 8 (ucast b1) OR ucast b0"

lemma bit_255: "bit (255 :: 'a::len word) n \<longleftrightarrow> n < 8 \<and> n < LENGTH('a)"
proof -
  have "(255 :: 'a word) = mask 8" by (simp add: mask_eq_exp_minus_1)
  then show ?thesis by (metis bit_mask_iff possible_bit_word)
qed

lemma bit_byte_of: "bit (byte_of k x) n \<longleftrightarrow> n < 8 \<and> bit x (k + n)"
proof -
  have "bit x (k + n) \<Longrightarrow> n < LENGTH('a)" by (auto dest: bit_imp_le_length)
  then show ?thesis
    unfolding byte_of_def bit_ucast_iff bit_and_iff bit_drop_bit_eq bit_255 comp_apply
    by auto
qed

lemma bit_u16_of_bytes: "bit (u16_of_bytes h l) n \<longleftrightarrow> (if n < 8 then bit l n else bit h (n - 8))"
  unfolding u16_of_bytes_def bit_or_iff bit_push_bit_iff bit_ucast_iff
  by (auto dest: bit_imp_le_length)

lemma bit_u32_of_bytes:
  "bit (u32_of_bytes b3 b2 b1 b0) n \<longleftrightarrow>
     (if n < 8 then bit b0 n else if n < 16 then bit b1 (n - 8)
      else if n < 24 then bit b2 (n - 16) else bit b3 (n - 24))"
  unfolding u32_of_bytes_def bit_or_iff bit_push_bit_iff bit_ucast_iff
  by (auto dest: bit_imp_le_length)

lemma u16_bytes_roundtrip [simp]: "u16_of_bytes (byte_of 8 x) (byte_of 0 x) = (x :: u16)"
  by (rule bit_word_eqI) (simp only: bit_u16_of_bytes bit_byte_of, auto)

lemma byte_of_u16 [simp]:
  "byte_of 8 (u16_of_bytes h l) = h" "byte_of 0 (u16_of_bytes h l) = l"
  by (rule bit_word_eqI, simp only: bit_u16_of_bytes bit_byte_of, auto dest: bit_imp_le_length)+

lemma u32_bytes_roundtrip [simp]:
  "u32_of_bytes (byte_of 24 x) (byte_of 16 x) (byte_of 8 x) (byte_of 0 x) = (x :: u32)"
  by (rule bit_word_eqI) (simp only: bit_u32_of_bytes bit_byte_of, auto)

lemma byte_of_u32 [simp]:
  "byte_of 24 (u32_of_bytes a b c d) = a" "byte_of 16 (u32_of_bytes a b c d) = b"
  "byte_of 8 (u32_of_bytes a b c d) = c" "byte_of 0 (u32_of_bytes a b c d) = d"
  by (rule bit_word_eqI, simp only: bit_u32_of_bytes bit_byte_of, auto dest: bit_imp_le_length)+

lemma unat_lt2p: "unat (x :: 'a::len word) < 2 ^ LENGTH('a)"
  by (fact unsigned_less)

lemma unat_minus: "x \<noteq> 0 \<Longrightarrow> unat (- x) = 2 ^ LENGTH('a) - unat (x :: 'a::len word)"
  using unat_sub_if_size [of 0 x] by (simp add: word_size word_le_nat_alt unat_eq_0)

lemma unat_plus_1_less: "x < y \<Longrightarrow> unat (x + 1) = Suc (unat (x :: 'a::len word))"
proof -
  assume "x < y"
  then have "unat x < unat y" by (simp add: word_less_nat_alt)
  then have "Suc (unat x) < 2 ^ LENGTH('a)" using unat_lt2p [of y] by linarith
  then show ?thesis by (simp add: unat_word_ariths)
qed

lemma unat_of_nat_small: "n < 2 ^ LENGTH('a) \<Longrightarrow> unat (of_nat n :: 'a::len word) = n"
  by (simp add: unsigned_of_nat take_bit_nat_eq_self)

lemma unat_minus_1: "x \<noteq> 0 \<Longrightarrow> unat (x - 1) = unat (x :: 'a::len word) - 1"
  by (metis One_nat_def unat_minus_one)

section \<open>Formatted text\<close>

text \<open>The conversions of \<open>vsnprintf\<close> that the firmware's format strings use:
  \<open>%d\<close>/\<open>%ld\<close> of an \<open>int\<close>, \<open>%x\<close>/\<open>%X\<close> with an optional zero-padded width, and \<open>%f\<close>.\<close>

datatype parg = PI u32 | PF real

definition str :: "string \<Rightarrow> bytes" where
  "str cs = List.map of_char cs"

definition crnl :: bytes where
  "crnl = [13, 10]"

fun nat_digits :: "nat \<Rightarrow> nat \<Rightarrow> nat list" where
  "nat_digits b n = (if b < 2 \<or> n < b then [n] else nat_digits b (n div b) @ [n mod b])"

declare nat_digits.simps [simp del]

definition digit_char :: "bool \<Rightarrow> nat \<Rightarrow> u8" where
  "digit_char upper d =
     (if d < 10 then 48 + of_nat d else (if upper then 55 else 87) + of_nat d)"

definition fmt_u :: "bool \<Rightarrow> nat \<Rightarrow> nat \<Rightarrow> nat \<Rightarrow> bytes" where
  "fmt_u upper b w n =
     (let ds = List.map (digit_char upper) (nat_digits b n)
      in replicate (w - length ds) 48 @ ds)"

definition fmt_d :: "u32 \<Rightarrow> bytes" where
  "fmt_d x = (if sint x < 0 then 45 # fmt_u False 10 1 (nat (- sint x))
              else fmt_u False 10 1 (nat (sint x)))"

definition fmt_f :: "real \<Rightarrow> bytes" where
  "fmt_f r =
     (let n = round (abs r * 1000000)
      in (if r < 0 then [45] else []) @ fmt_u False 10 1 (nat (n div 1000000)) @ [46]
         @ fmt_u False 10 6 (nat (n mod 1000000)))"

section \<open>Lists\<close>

definition keep_last :: "nat \<Rightarrow> 'a list \<Rightarrow> 'a list" where
  "keep_last n xs = drop (length xs - n) xs"

lemma keep_last_short [simp]: "length xs \<le> n \<Longrightarrow> keep_last n xs = xs"
  by (simp add: keep_last_def)

lemma length_keep_last [simp]: "length (keep_last n xs) = min n (length xs)"
  by (simp add: keep_last_def)

lemma keep_last_keep_last: "keep_last n (keep_last n xs @ ys) = keep_last n (xs @ ys)"
  by (cases "length xs \<le> n") (simp_all add: keep_last_def add.commute)

lemma suffix_keep_last: "suffix (keep_last n xs) xs"
  by (simp add: keep_last_def suffix_drop)

lemma subseq_drop: "subseq (drop n xs) xs"
  by (simp add: suffix_imp_subseq suffix_drop)

lemma take_Suc_nth_append: "n < length xs \<Longrightarrow> take (Suc n) xs = take n xs @ [xs ! n]"
  by (rule take_Suc_conv_app_nth)

end
