(* ===== verification/Hw.thy ===== *)
theory Hw
  imports Prelude
begin

text \<open>
  The Blackfin memory-mapped registers the firmware writes, as a register file,
  and the log of the firmware's effects on the hardware.  A register
  is named as the board's \<open>cdefBF512.h\<close> names it, without the \<open>p\<close>.  \<open>wr\<close> is
  \<open>*pREG = v\<close>, \<open>orw\<close> is \<open>*pREG |= v\<close>, \<open>andw\<close> is \<open>*pREG &= v\<close>.
  The value of an input register is what the environment last put in \<open>regs\<close>.
  The log is newest first.  The \<open>fault\<close> flag records that the code ran into behaviour
  C leaves undefined (a write past an array, a read of a variable never set); it is never reset.
\<close>

type_synonym mmr = string

datatype handler =
    H_CoreTimer_ISR | H_IVG8_ISR | H_IVG9_ISR | H_IVG10_ISR | H_IVG11_SpO2_UART_ISR
  | H_IVG12_AIO_UART_ISR | H_IVG13_ISR

datatype effect =
    Wr mmr u32
  | Ssync
  | BusyDelay u32
  | Register_handler nat handler
  | Soft_Reset
  | Alg_Call string "bytes"

record hw_sys =
  regs :: "mmr \<Rightarrow> u32"
  trace :: "effect list"
  fault :: bool

definition emit :: "effect \<Rightarrow> 'a hw_sys_scheme \<Rightarrow> 'a hw_sys_scheme" where
  "emit e s = s\<lparr>trace := e # trace s\<rparr>"

definition wr :: "mmr \<Rightarrow> u32 \<Rightarrow> 'a hw_sys_scheme \<Rightarrow> 'a hw_sys_scheme" where
  "wr r v s = s\<lparr>regs := (regs s)(r := v), trace := Wr r v # trace s\<rparr>"

definition orw :: "mmr \<Rightarrow> u32 \<Rightarrow> 'a hw_sys_scheme \<Rightarrow> 'a hw_sys_scheme" where
  "orw r v s = wr r (regs s r OR v) s"

definition andw :: "mmr \<Rightarrow> u32 \<Rightarrow> 'a hw_sys_scheme \<Rightarrow> 'a hw_sys_scheme" where
  "andw r v s = wr r (regs s r AND v) s"

definition ssync :: "'a hw_sys_scheme \<Rightarrow> 'a hw_sys_scheme" where
  "ssync s = emit Ssync s"

definition register_handler :: "nat \<Rightarrow> handler \<Rightarrow> 'a hw_sys_scheme \<Rightarrow> 'a hw_sys_scheme" where
  "register_handler ivg h s = emit (Register_handler ivg h) s"

definition raise_fault :: "'a hw_sys_scheme \<Rightarrow> 'a hw_sys_scheme" where
  "raise_fault s = s\<lparr>fault := True\<rparr>"

definition alg_call :: "string \<Rightarrow> bytes \<Rightarrow> 'a hw_sys_scheme \<Rightarrow> 'a hw_sys_scheme" where
  "alg_call f args s = emit (Alg_Call f args) s"

lemmas hw_prims = emit_def wr_def orw_def andw_def ssync_def register_handler_def raise_fault_def
  alg_call_def

lemma hw_select [simp]:
  "fault (emit e s) = fault s" "fault (wr r v s) = fault s" "fault (orw r v s) = fault s"
  "fault (andw r v s) = fault s" "fault (ssync s) = fault s" "fault (register_handler i h s) = fault s"
  "fault (raise_fault s)" "fault (alg_call f xs s) = fault s"
  "regs (emit e s) = regs s" "regs (wr r v s) = (regs s)(r := v)"
  "regs (orw r v s) = (regs s)(r := regs s r OR v)" "regs (andw r v s) = (regs s)(r := regs s r AND v)"
  "regs (ssync s) = regs s" "regs (register_handler i h s) = regs s" "regs (raise_fault s) = regs s"
  "regs (alg_call f xs s) = regs s"
  "trace (emit e s) = e # trace s" "trace (wr r v s) = Wr r v # trace s"
  "trace (orw r v s) = Wr r (regs s r OR v) # trace s"
  "trace (andw r v s) = Wr r (regs s r AND v) # trace s"
  "trace (ssync s) = Ssync # trace s" "trace (register_handler i h s) = Register_handler i h # trace s"
  "trace (raise_fault s) = trace s" "trace (alg_call f xs s) = Alg_Call f xs # trace s"
  by (simp_all add: hw_prims)

lemma hw_more [simp]:
  "hw_sys.more (emit e s) = hw_sys.more s" "hw_sys.more (wr r v s) = hw_sys.more s"
  "hw_sys.more (orw r v s) = hw_sys.more s" "hw_sys.more (andw r v s) = hw_sys.more s"
  "hw_sys.more (ssync s) = hw_sys.more s" "hw_sys.more (register_handler i h s) = hw_sys.more s"
  "hw_sys.more (raise_fault s) = hw_sys.more s" "hw_sys.more (alg_call f xs s) = hw_sys.more s"
  by (simp_all add: hw_prims)

section \<open>Output pins\<close>

text \<open>The level of an output pin is set by the last write of its mask to the port's
  \<open>_SET\<close> or \<open>_CLEAR\<close> register (write-one-to-set, write-one-to-clear).\<close>

fun pin_level :: "mmr \<Rightarrow> mmr \<Rightarrow> u32 \<Rightarrow> effect list \<Rightarrow> bool option" where
  "pin_level rs rc pin [] = None"
| "pin_level rs rc pin (Wr r v # es) =
     (if r = rs \<and> v AND pin \<noteq> 0 then Some True
      else if r = rc \<and> v AND pin \<noteq> 0 then Some False
      else pin_level rs rc pin es)"
| "pin_level rs rc pin (e # es) = pin_level rs rc pin es"

definition PF5 :: u32 where "PF5 = 0x20"

section \<open>system_clock.c\<close>

definition SYSTEM_CLKIN :: u32 where "SYSTEM_CLKIN = 12000000"

definition getVCOFreq :: "'a hw_sys_scheme \<Rightarrow> u32" where
  "getVCOFreq s =
     (let v = regs s ''PLL_CTL'' AND 0xFFFF;
          mul = drop_bit 9 v AND 0x3F
      in if v AND 1 \<noteq> 0
         then (if mul = 0 then SYSTEM_CLKIN * 32 else (SYSTEM_CLKIN div 2) * mul)
         else (if mul = 0 then SYSTEM_CLKIN * 64 else SYSTEM_CLKIN * mul))"

definition getCodeCLK :: "'a hw_sys_scheme \<Rightarrow> u32" where
  "getCodeCLK s =
     (let d = drop_bit 4 (regs s ''PLL_DIV'' AND 0xFFFF) AND 3
      in getVCOFreq s div push_bit (unat d) 1)"

text \<open>The divider \<open>SSEL = 0\<close> makes the C division undefined; HOL's \<open>x div 0\<close> is 0.\<close>

definition getSystemCLK :: "'a hw_sys_scheme \<Rightarrow> u32" where
  "getSystemCLK s = getVCOFreq s div (regs s ''PLL_DIV'' AND 0x0F)"

end
