(* ===== verification/SysTick.thy ===== *)
theory SysTick
  imports Hw
begin

text \<open>
  \<open>AllInOneDSP/src/source/system_tick.c\<close>: the 100 us tick counter, wrap-around time
  comparison, the five count-down timers, and the code every periodic handler of the
  firmware repeats (\<open>if (IsOnTime(next)) { ...; next += period; }\<close>), stated as a locale.
\<close>

section \<open>State\<close>

record countdowntimer =
  m_IsActive :: bool
  m_ulTimeoutCounter :: u32

definition MAX_NUM_COUNTDOWN_TIMERS :: nat where "MAX_NUM_COUNTDOWN_TIMERS = 5"

record tick_st =
  g_ulTickCount :: u32
  sCountDownTimer :: "countdowntimer list"
  g_u8TickN10us :: u8

record tick_sys = hw_sys +
  tick :: tick_st

definition tick_inv :: "tick_st \<Rightarrow> bool" where
  "tick_inv t \<longleftrightarrow> length (sCountDownTimer t) = MAX_NUM_COUNTDOWN_TIMERS"

lemma hw_tick [simp]:
  "tick (emit e s) = tick s" "tick (wr r v s) = tick s" "tick (orw r v s) = tick s"
  "tick (andw r v s) = tick s" "tick (ssync s) = tick s" "tick (register_handler i h s) = tick s"
  "tick (raise_fault s) = tick s" "tick (alg_call f xs s) = tick s"
  by (simp_all add: hw_prims)

section \<open>Configuration\<close>

definition SysTick_TimeCfg :: "u8 \<Rightarrow> 'a tick_sys_scheme \<Rightarrow> 'a tick_sys_scheme" where
  "SysTick_TimeCfg N10us s =
     (let ulPeriod = getCodeCLK s div 100000;
          s = run [wr ''TCNTL'' 0x0D, wr ''TPERIOD'' ulPeriod] s;
          s = (if N10us < 1 then wr ''TSCALE'' 0 s
               else wr ''TSCALE'' (ucast N10us - 1) (s\<lparr>tick := (tick s)\<lparr>g_u8TickN10us := N10us\<rparr>\<rparr>))
      in wr ''TCOUNT'' ulPeriod s)"

definition SysTick_Start :: "'a tick_sys_scheme \<Rightarrow> 'a tick_sys_scheme" where
  "SysTick_Start s = orw ''TCNTL'' 0x02 s"

definition SysTick_Stop :: "'a tick_sys_scheme \<Rightarrow> 'a tick_sys_scheme" where
  "SysTick_Stop s = andw ''TCNTL'' (NOT 0x02) s"

definition Init_Timer_Interrupts :: "'a tick_sys_scheme \<Rightarrow> 'a tick_sys_scheme" where
  "Init_Timer_Interrupts s = register_handler 6 H_CoreTimer_ISR s"

definition SysTick_Init :: "'a tick_sys_scheme \<Rightarrow> 'a tick_sys_scheme" where
  "SysTick_Init s =
     run [\<lambda>s. s\<lparr>tick := (tick s)\<lparr>g_ulTickCount := 0\<rparr>\<rparr>, SysTick_TimeCfg 10, Init_Timer_Interrupts] s"

section \<open>The timer interrupt\<close>

definition countdown_dec :: "countdowntimer \<Rightarrow> countdowntimer" where
  "countdown_dec c =
     (if m_ulTimeoutCounter c \<noteq> 0
      then c\<lparr>m_ulTimeoutCounter := m_ulTimeoutCounter c - 1\<rparr> else c)"

definition CoreTimer_ISR :: "tick_st \<Rightarrow> tick_st" where
  "CoreTimer_ISR t =
     t\<lparr>g_ulTickCount := g_ulTickCount t + 1,
       sCountDownTimer := List.map countdown_dec (sCountDownTimer t)\<rparr>"

section \<open>Blocking delays\<close>

text \<open>The only progress of the wait loop is the interrupt's.\<close>

function Delay1ms_wait :: "u32 \<Rightarrow> tick_st \<Rightarrow> tick_st" where
  "Delay1ms_wait ulEnd t =
     (if g_ulTickCount t < ulEnd then Delay1ms_wait ulEnd (CoreTimer_ISR t) else t)"
  by pat_completeness auto
termination
proof (relation "measure (\<lambda>(e, t). unat e - unat (g_ulTickCount t))", goal_cases)
  case (2 ulEnd t)
  then have "unat (g_ulTickCount t + 1) = unat (g_ulTickCount t) + 1"
    by (simp add: unat_plus_1_less)
  moreover have "unat (g_ulTickCount t) < unat ulEnd" using 2 by (simp add: word_less_nat_alt)
  ultimately show ?case by (simp add: CoreTimer_ISR_def)
qed simp

declare Delay1ms_wait.simps [simp del]

definition Delay1ms :: "u32 \<Rightarrow> 'a tick_sys_scheme \<Rightarrow> 'a tick_sys_scheme" where
  "Delay1ms ulMs s =
     (let scale = regs s ''TSCALE'';
          ulTime = (ulMs * 1000) div (((scale AND 0xFF) + 1) * 10);
          ulEnd = g_ulTickCount (tick s) + ulTime
      in s\<lparr>tick := Delay1ms_wait ulEnd (tick s)\<rparr>)"

definition delay :: "u32 \<Rightarrow> 'a tick_sys_scheme \<Rightarrow> 'a tick_sys_scheme" where
  "delay count s = emit (BusyDelay count) s"

section \<open>Count-down timers\<close>

fun find_free_timer :: "countdowntimer list \<Rightarrow> nat \<Rightarrow> nat option" where
  "find_free_timer [] n = None"
| "find_free_timer (c # cs) n = (if \<not> m_IsActive c then Some n else find_free_timer cs (Suc n))"

definition SetTimeout :: "u32 \<Rightarrow> tick_st \<Rightarrow> u32 \<times> tick_st" where
  "SetTimeout ulTicks t =
     (case find_free_timer (sCountDownTimer t) 0 of
        Some n \<Rightarrow> (of_nat n, t\<lparr>sCountDownTimer := (sCountDownTimer t)
                     [n := \<lparr>m_IsActive = True, m_ulTimeoutCounter = ulTicks\<rparr>]\<rparr>)
      | None \<Rightarrow> (- 1, t))"

text \<open>The guard of \<open>ResetTimeout\<close> is \<open>nIndex > MAX_NUM_COUNTDOWN_TIMERS\<close>: index 5 passes it and
  the code then reads past \<open>sCountDownTimer\<close>, which is \<open>None\<close> here.\<close>

definition ResetTimeout :: "u32 \<Rightarrow> u32 \<Rightarrow> tick_st \<Rightarrow> (bool \<times> tick_st) option" where
  "ResetTimeout nIndex ulTicks t =
     (let n = unat nIndex in
      if n > MAX_NUM_COUNTDOWN_TIMERS then Some (False, t)
      else if n \<ge> length (sCountDownTimer t) then None
      else if \<not> m_IsActive (sCountDownTimer t ! n) then Some (False, t)
      else Some (True, t\<lparr>sCountDownTimer := (sCountDownTimer t)
                   [n := (sCountDownTimer t ! n)\<lparr>m_ulTimeoutCounter := ulTicks\<rparr>]\<rparr>))"

definition ClearTimeout :: "u32 \<Rightarrow> tick_st \<Rightarrow> u32 \<times> tick_st" where
  "ClearTimeout nIndex t =
     (let n = unat nIndex in
      if n < MAX_NUM_COUNTDOWN_TIMERS
      then (m_ulTimeoutCounter (sCountDownTimer t ! n),
            t\<lparr>sCountDownTimer := (sCountDownTimer t)
              [n := \<lparr>m_IsActive = False, m_ulTimeoutCounter = 0\<rparr>]\<rparr>)
      else (- 1, t))"

definition IsTimedout :: "u32 \<Rightarrow> tick_st \<Rightarrow> bool" where
  "IsTimedout nIndex t =
     (let n = unat nIndex in
      n < MAX_NUM_COUNTDOWN_TIMERS \<and> m_ulTimeoutCounter (sCountDownTimer t ! n) = 0)"

section \<open>Reading and comparing time\<close>

definition SysTick_Get :: "tick_st \<Rightarrow> u32" where
  "SysTick_Get t = g_ulTickCount t"

definition getTickNumberByMS :: "u32 \<Rightarrow> tick_st \<Rightarrow> u32" where
  "getTickNumberByMS N1ms t = (N1ms * 100) div ucast (g_u8TickN10us t)"

definition getMSByTickcount :: "u32 \<Rightarrow> tick_st \<Rightarrow> u32" where
  "getMSByTickcount count t = (count * ucast (g_u8TickN10us t)) div 100"

definition SysTick_Compare :: "u32 \<Rightarrow> u32 \<Rightarrow> int" where
  "SysTick_Compare ulTick1 ulTick2 =
     (if ulTick1 = ulTick2 then 0
      else if ulTick1 < ulTick2
      then (if ulTick2 - ulTick1 < 0x80000000 then - 1 else 1)
      else (if ulTick1 - ulTick2 < 0x80000000 then 1 else - 1))"

definition IsOnTime :: "u32 \<Rightarrow> tick_st \<Rightarrow> bool" where
  "IsOnTime ulTarget t = (SysTick_Compare (SysTick_Get t) ulTarget \<noteq> - 1)"

definition IsOverTime :: "u32 \<Rightarrow> u32 \<Rightarrow> tick_st \<Rightarrow> bool" where
  "IsOverTime ulBase ulDuration t =
     (let u32Target = ulBase + ulDuration in SysTick_Compare (SysTick_Get t) u32Target = 1)"

section \<open>Comparison is wrap-safe\<close>

definition on_time :: "u32 \<Rightarrow> u32 \<Rightarrow> bool" where
  "on_time now target = (SysTick_Compare now target \<noteq> - 1)"

lemma IsOnTime_on_time: "IsOnTime tgt t = on_time (g_ulTickCount t) tgt"
  by (simp add: IsOnTime_def on_time_def SysTick_Get_def)

lemma neg_less_half:
  fixes d :: u32
  assumes "d \<noteq> 0"
  shows "- d < 0x80000000 \<longleftrightarrow> 0x80000000 < d"
proof -
  have "unat (- d) = 2 ^ 32 - unat d"
    using assms by (simp add: unat_minus)
  moreover have "unat d < 2 ^ 32" using unat_lt2p [of d] by simp
  ultimately show ?thesis by (auto simp: word_less_nat_alt)
qed

lemma SysTick_Compare_diff:
  "SysTick_Compare a b =
     (let d = a - b in
      if d = 0 then 0 else if d < 0x80000000 then 1 else if 0x80000000 < d then - 1
      else if a < b then 1 else - 1)"
proof (cases "a = b")
  case False
  then have d: "a - b \<noteq> 0" by simp
  have "b - a = - (a - b)" by simp
  then have e: "b - a < 0x80000000 \<longleftrightarrow> 0x80000000 < a - b"
    by (simp only: neg_less_half [OF d])
  have x: "0x80000000 < a - b \<Longrightarrow> \<not> a - b < 0x80000000" by (simp only: not_less less_imp_le)
  show ?thesis
    unfolding SysTick_Compare_def Let_def e
    by (use False d x in \<open>simp only: if_False if_True split: if_split\<close>) blast
qed (simp add: SysTick_Compare_def)

lemma on_time_diff:
  "on_time now tgt \<longleftrightarrow> now - tgt < 0x80000000 \<or> (now - tgt = 0x80000000 \<and> now < tgt)"
  by (auto simp: on_time_def SysTick_Compare_diff Let_def)

lemma on_time_late: "unat (now - tgt) < 2 ^ 31 \<Longrightarrow> on_time now tgt"
  by (simp add: on_time_diff word_less_nat_alt)

lemma not_on_time_early: "0 < unat d \<Longrightarrow> unat d < 2 ^ 31 \<Longrightarrow> \<not> on_time now (now + d)"
proof -
  assume d: "0 < unat d" "unat d < 2 ^ 31"
  then have "d \<noteq> 0" by auto
  then have "unat (- d) = 2 ^ 32 - unat d" by (simp add: unat_minus)
  with d have "0x80000000 < - d" by (simp add: word_less_nat_alt)
  then show ?thesis by (auto simp: on_time_diff)
qed

section \<open>Delays\<close>

lemma tick_CoreTimer_ISR [simp]:
  "g_ulTickCount (CoreTimer_ISR t) = g_ulTickCount t + 1"
  "g_u8TickN10us (CoreTimer_ISR t) = g_u8TickN10us t"
  "sCountDownTimer (CoreTimer_ISR t) = List.map countdown_dec (sCountDownTimer t)"
  "tick_inv (CoreTimer_ISR t) = tick_inv t"
  by (simp_all add: CoreTimer_ISR_def tick_inv_def)

lemma Delay1ms_wait_tick:
  "g_ulTickCount (Delay1ms_wait e t) = (if g_ulTickCount t < e then e else g_ulTickCount t)"
proof (induction e t rule: Delay1ms_wait.induct)
  case (1 e t)
  show ?case
  proof (cases "g_ulTickCount t < e")
    case True
    then have "g_ulTickCount t + 1 \<le> e" by (metis inc_le)
    with True 1 show ?thesis by (subst Delay1ms_wait.simps) auto
  qed (subst Delay1ms_wait.simps, simp)
qed

lemma Delay1ms_wait_N10us [simp]: "g_u8TickN10us (Delay1ms_wait e t) = g_u8TickN10us t"
  by (induction e t rule: Delay1ms_wait.induct) (subst Delay1ms_wait.simps, simp)

lemma Delay1ms_wait_inv [simp]: "tick_inv (Delay1ms_wait e t) = tick_inv t"
  by (induction e t rule: Delay1ms_wait.induct) (subst Delay1ms_wait.simps, simp)

lemma Delay1ms_wait_id: "\<not> g_ulTickCount t < e \<Longrightarrow> Delay1ms_wait e t = t"
  by (subst Delay1ms_wait.simps) simp

lemma Delay1ms_frame [simp]:
  "fault (Delay1ms ms s) = fault s" "regs (Delay1ms ms s) = regs s" "trace (Delay1ms ms s) = trace s"
  "tick_sys.more (Delay1ms ms s) = tick_sys.more s"
  "g_u8TickN10us (tick (Delay1ms ms s)) = g_u8TickN10us (tick s)"
  "tick_inv (tick (Delay1ms ms s)) = tick_inv (tick s)"
  by (simp_all add: Delay1ms_def Let_def)

section \<open>Count-down timers\<close>

lemma unat_countdown_dec: "unat (m_ulTimeoutCounter (countdown_dec c)) = unat (m_ulTimeoutCounter c) - 1"
  by (simp add: countdown_dec_def unat_minus_1)

lemma active_countdown_dec [simp]: "m_IsActive (countdown_dec c) = m_IsActive c"
  by (simp add: countdown_dec_def)

lemma length_timers_ISR_pow:
  "length (sCountDownTimer ((CoreTimer_ISR ^^ k) t)) = length (sCountDownTimer t)"
  by (induction k) (simp_all add: CoreTimer_ISR_def)

lemma counter_ISR_pow:
  "n < length (sCountDownTimer t) \<Longrightarrow>
     unat (m_ulTimeoutCounter (sCountDownTimer ((CoreTimer_ISR ^^ k) t) ! n))
     = unat (m_ulTimeoutCounter (sCountDownTimer t ! n)) - k"
proof (induction k)
  case (Suc k)
  then have "n < length (sCountDownTimer ((CoreTimer_ISR ^^ k) t))" by (simp add: length_timers_ISR_pow)
  with Suc show ?case by (simp add: unat_countdown_dec)
qed simp

lemma find_free_timer_Some:
  "find_free_timer cs k = Some n \<Longrightarrow> k \<le> n \<and> n - k < length cs \<and> \<not> m_IsActive (cs ! (n - k))"
proof (induction cs k rule: find_free_timer.induct)
  case (2 c cs k)
  show ?case
  proof (cases "m_IsActive c")
    case True
    with 2 have *: "Suc k \<le> n" "n - Suc k < length cs" "\<not> m_IsActive (cs ! (n - Suc k))" by auto
    then have "n - k = Suc (n - Suc k)" by simp
    with * show ?thesis by simp
  qed (use 2 in auto)
qed simp

lemma find_free_timer_None: "find_free_timer cs k = None \<longleftrightarrow> (\<forall>c \<in> set cs. m_IsActive c)"
  by (induction cs k rule: find_free_timer.induct) auto

section \<open>Periodic handlers\<close>

text \<open>The interface of every handler of the form
  \<open>if (IsOnTime(next)) { body; next += period; }\<close>; \<open>body\<close> includes the update of \<open>next\<close>.
  The body runs inside the call, so the clock the guard read is the clock afterwards.\<close>

locale periodic_task =
  fixes now :: "'s \<Rightarrow> u32"
    and next_time :: "'s \<Rightarrow> u32"
    and period :: "'s \<Rightarrow> u32"
    and body :: "'s \<Rightarrow> 's"
    and step :: "'s \<Rightarrow> 's"
  assumes step_due: "on_time (now s) (next_time s) \<Longrightarrow> step s = body s"
    and step_idle: "\<not> on_time (now s) (next_time s) \<Longrightarrow> step s = s"
    and next_body: "next_time (body s) = next_time s + period s"
    and now_body: "now (body s) = now s"
    and period_body: "period (body s) = period s"
begin

definition lateness :: "'s \<Rightarrow> nat" where
  "lateness s = unat (now s - next_time s)"

lemma body_pow: "next_time ((body ^^ k) s) = next_time s + of_nat k * period s"
  "now ((body ^^ k) s) = now s" "period ((body ^^ k) s) = period s"
  by (induction k) (simp_all add: next_body now_body period_body algebra_simps)

lemma lateness_body:
  assumes "unat (period s) \<le> lateness s"
  shows "lateness (body s) = lateness s - unat (period s)"
proof -
  have "period s \<le> now s - next_time s" using assms by (simp add: lateness_def word_le_nat_alt)
  moreover have "now s - (next_time s + period s) = (now s - next_time s) - period s" by simp
  ultimately show ?thesis
    unfolding lateness_def now_body next_body by (metis unat_sub)
qed

lemma settled:
  assumes "lateness s < unat (period s)" "unat (period s) < 2 ^ 31"
  shows "\<not> on_time (now (body s)) (next_time (body s))"
proof -
  let ?d = "period s - (now s - next_time s)"
  have "now s - next_time s \<le> period s"
    using assms(1) by (simp add: lateness_def word_le_nat_alt)
  then have "unat ?d = unat (period s) - lateness s" by (simp add: lateness_def unat_sub)
  with assms have "0 < unat ?d" "unat ?d < 2 ^ 31" by auto
  then have "\<not> on_time (now s) (now s + ?d)" by (rule not_on_time_early)
  then show ?thesis by (simp add: now_body next_body algebra_simps)
qed

lemma steps_idle: "\<not> on_time (now s) (next_time s) \<Longrightarrow> (step ^^ n) s = s"
  by (induction n) (simp_all add: step_idle)

text \<open>A handler called \<open>n\<close> times in a row while \<open>L\<close> ticks late runs its body once per period
  missed and once more, and is then idle.\<close>

lemma catch_up:
  assumes "unat (period s) < 2 ^ 31" "0 < unat (period s)" "lateness s < 2 ^ 31"
  shows "(step ^^ n) s = (body ^^ min n (lateness s div unat (period s) + 1)) s"
  using assms
proof (induction n arbitrary: s)
  case (Suc n)
  have due: "step s = body s"
    using Suc.prems(3) by (intro step_due on_time_late) (simp add: lateness_def)
  show ?case
  proof (cases "lateness s < unat (period s)")
    case True
    with settled Suc.prems have "(step ^^ n) (body s) = body s" by (intro steps_idle) simp
    with True due show ?thesis by (simp add: funpow_Suc_right del: funpow.simps)
  next
    case False
    then have l: "lateness (body s) = lateness s - unat (period s)" by (simp add: lateness_body)
    with Suc.prems have "(step ^^ n) (body s) = (body ^^ min n (lateness (body s) div unat (period s) + 1)) (body s)"
      using Suc.IH [of "body s"] by (simp add: period_body)
    moreover have "lateness s div unat (period s) = Suc (lateness (body s) div unat (period s))"
      using False Suc.prems(2) l by (simp add: le_div_geq)
    ultimately show ?thesis
      using due by (simp add: funpow_Suc_right del: funpow.simps)
  qed
qed simp

lemma not_twice:
  assumes "unat (period s) < 2 ^ 31" "lateness s < unat (period s)"
  shows "step (step s) = body s"
  using catch_up [of s 2] assms by (simp add: numeral_2_eq_2 min_def)

end

lemma ticks_ISR_pow: "g_ulTickCount ((CoreTimer_ISR ^^ k) t) = g_ulTickCount t + of_nat k"
  by (induction k) (simp_all add: algebra_simps)

text \<open>C28: a deadline set \<open>d\<close> ticks ahead, with \<open>d\<close> below half the range of the counter, is reported as
  reached exactly from the \<open>d\<close>-th timer interrupt on, for the next half range, whether or not the
  32-bit tick counter wraps in between.\<close>

theorem deadline_exact:
  assumes "unat d < 2 ^ 31" "k < 2 ^ 31"
  shows "IsOnTime (SysTick_Get t + d) ((CoreTimer_ISR ^^ k) t) \<longleftrightarrow> unat d \<le> k"
proof -
  let ?now = "g_ulTickCount t + of_nat k" and ?tgt = "g_ulTickCount t + d"
  have k: "unat (of_nat k :: u32) = k" using assms(2) by (intro unat_of_nat_small) simp
  have "on_time ?now ?tgt \<longleftrightarrow> unat d \<le> k"
  proof (cases "unat d \<le> k")
    case True
    then have "d \<le> of_nat k" by (simp add: word_le_nat_alt k)
    then have "unat (?now - ?tgt) = k - unat d" by (simp add: unat_sub k)
    with True assms(2) show ?thesis by (intro iffI on_time_late) simp_all
  next
    case False
    let ?e = "d - of_nat k"
    have "of_nat k \<le> d" using False by (simp add: word_le_nat_alt k)
    then have "unat ?e = unat d - k" by (simp add: unat_sub k)
    then have "\<not> on_time ?now (?now + ?e)" using False assms(1) by (intro not_on_time_early) simp_all
    with False show ?thesis by simp
  qed
  then show ?thesis by (simp add: IsOnTime_on_time ticks_ISR_pow SysTick_Get_def)
qed

lemma deadline_exact_witness:
  "\<exists>t :: tick_st. IsOnTime (SysTick_Get t + 5) ((CoreTimer_ISR ^^ 4) t) = (unat (5 :: u32) \<le> 4)"
  by (rule exI, rule deadline_exact) simp_all

text \<open>C29: a count-down timer works for every duration.  When one of the five timers is free,
  \<open>SetTimeout\<close> returns the index of a timer that was free, and this timer reports its timeout
  exactly from the \<open>n\<close>-th interrupt after the call on; the other timers are left alone.\<close>

theorem timeout_exact:
  assumes "tick_inv t" "find_free_timer (sCountDownTimer t) 0 \<noteq> None" "SetTimeout n t = (i, t')"
  shows "unat i < 5 \<and> \<not> m_IsActive (sCountDownTimer t ! unat i) \<and> m_IsActive (sCountDownTimer t' ! unat i)
     \<and> IsTimedout i ((CoreTimer_ISR ^^ k) t') = (unat n \<le> k)
     \<and> (j \<noteq> unat i \<longrightarrow> sCountDownTimer t' ! j = sCountDownTimer t ! j)"
proof -
  obtain f where f: "find_free_timer (sCountDownTimer t) 0 = Some f" using assms(2) by auto
  have l: "length (sCountDownTimer t) = 5" using assms(1) by (simp add: tick_inv_def MAX_NUM_COUNTDOWN_TIMERS_def)
  from find_free_timer_Some [OF f] l have f5: "f < 5" "\<not> m_IsActive (sCountDownTimer t ! f)" by simp_all
  have i: "unat i = f" "sCountDownTimer t' = (sCountDownTimer t)[f := \<lparr>m_IsActive = True, m_ulTimeoutCounter = n\<rparr>]"
    using assms(3) f f5 by (auto simp: SetTimeout_def unat_of_nat_small)
  have "unat (m_ulTimeoutCounter (sCountDownTimer ((CoreTimer_ISR ^^ k) t') ! f)) = unat n - k"
    using counter_ISR_pow [of f t' k] f5 l i(2) by simp
  then have "IsTimedout i ((CoreTimer_ISR ^^ k) t') = (unat n \<le> k)"
    using f5(1) i(1) unfolding IsTimedout_def Let_def MAX_NUM_COUNTDOWN_TIMERS_def
    by (metis diff_is_0_eq unat_eq_0)
  with f5 i l show ?thesis by simp
qed

lemma timeout_exact_witness:
  "\<exists>t :: tick_st. IsTimedout 2 ((CoreTimer_ISR ^^ 6) t) = (unat (7 :: u32) \<le> 6)"
proof -
  let ?c = "\<lambda>b. \<lparr>m_IsActive = b, m_ulTimeoutCounter = 0\<rparr>"
  let ?t = "\<lparr>g_ulTickCount = 0, sCountDownTimer = [?c True, ?c True, ?c False, ?c False, ?c False], g_u8TickN10us = 10\<rparr>"
  have "tick_inv ?t" "find_free_timer (sCountDownTimer ?t) 0 \<noteq> None" by (simp_all add: tick_inv_def MAX_NUM_COUNTDOWN_TIMERS_def)
  moreover obtain t' where "SetTimeout 7 ?t = (2, t')" by (simp add: SetTimeout_def eval_nat_numeral)
  ultimately show ?thesis using timeout_exact [of ?t 7 2 t' 6 0] by blast
qed

text \<open>\<open>Delay1ms\<close> returns, and when the end of the delay does not lie beyond the wrap of the tick
  counter exactly the requested number of ticks has passed; when the end wraps, the comparison
  \<open>g_ulTickCount < ulEnd\<close> fails at once and no time passes at all.\<close>

theorem delay_ticks:
  defines "n \<equiv> \<lambda>s ms. (ms * 1000) div (((regs s ''TSCALE'' AND 0xFF) + 1) * 10) :: u32"
  shows "unat (g_ulTickCount (tick (Delay1ms ms s)) - g_ulTickCount (tick s))
     = (if unat (g_ulTickCount (tick s)) + unat (n s ms) < 2 ^ 32 then unat (n s ms) else 0)"
proof -
  let ?t = "g_ulTickCount (tick s)" and ?n = "n s ms"
  have e: "g_ulTickCount (tick (Delay1ms ms s)) = (if ?t < ?t + ?n then ?t + ?n else ?t)"
    by (simp add: Delay1ms_def Delay1ms_wait_tick n_def Let_def)
  show ?thesis
  proof (cases "unat ?t + unat ?n < 2 ^ 32")
    case True
    then have "unat (?t + ?n) = unat ?t + unat ?n" by (simp add: unat_word_ariths)
    then have "?t < ?t + ?n \<longleftrightarrow> ?n \<noteq> 0" by (auto simp: word_less_nat_alt unat_gt_0)
    with True e show ?thesis by auto
  next
    case False
    have "unat (?t + ?n) = unat ?t + unat ?n - 2 ^ 32"
      using False unat_lt2p [of ?t] unat_lt2p [of ?n] by (simp add: unat_word_ariths mod_if)
    then have "\<not> ?t < ?t + ?n" using unat_lt2p [of ?n] by (simp add: word_less_nat_alt)
    with False e show ?thesis by simp
  qed
qed

lemma N10us_ISR_pow [simp]: "g_u8TickN10us ((CoreTimer_ISR ^^ k) t) = g_u8TickN10us t"
  by (induction k) simp_all

definition timer_ticks :: "nat \<Rightarrow> 'a tick_sys_scheme \<Rightarrow> 'a tick_sys_scheme" where
  "timer_ticks k s = s\<lparr>tick := (CoreTimer_ISR ^^ k) (tick s)\<rparr>"

end
