(* ===== verification/Ring.thy ===== *)
theory Ring
  imports Prelude
begin

text \<open>
  The circular buffers of the firmware.  Every module has one of its own (UART receive
  and transmit, ECG, RESP and NIBP samples, filter output), all with a start and an end
  index into an array of \<open>N\<close> cells, one of which stays free, and an overflow that drops the oldest
  element.  This theory has the list such a buffer stands for, the three index
  lemmas all of them need, the abstract bounded queue, and the interface
  \<open>drop_oldest_queue\<close> under which each module's buffer is an implementation of it.
\<close>

section \<open>Index arithmetic\<close>

definition ring_inc :: "nat \<Rightarrow> nat \<Rightarrow> nat" where
  "ring_inc N i = (if i + 1 \<ge> N then 0 else i + 1)"

definition ring_drop :: "nat \<Rightarrow> nat \<Rightarrow> nat \<Rightarrow> nat" where
  "ring_drop N st en = (if st = en then ring_inc N st else st)"

definition ring_items :: "'a list \<Rightarrow> nat \<Rightarrow> nat \<Rightarrow> 'a list" where
  "ring_items buf st en =
     (if st \<le> en then take (en - st) (drop st buf) else drop st buf @ take en buf)"

definition ring_ok :: "nat \<Rightarrow> 'a list \<Rightarrow> nat \<Rightarrow> nat \<Rightarrow> bool" where
  "ring_ok N buf st en \<longleftrightarrow> length buf = N \<and> st < N \<and> en < N"

lemma ring_inc_less [simp]: "0 < N \<Longrightarrow> ring_inc N i < N"
  by (simp add: ring_inc_def)

lemma ring_inc_mod: "i < N \<Longrightarrow> ring_inc N i = (i + 1) mod N"
  by (simp add: ring_inc_def mod_if)

lemma ring_drop_less [simp]: "st < N \<Longrightarrow> ring_drop N st en < N"
  by (auto simp: ring_drop_def)

lemma length_ring_items:
  "ring_ok N buf st en \<Longrightarrow> length (ring_items buf st en) = (if st \<le> en then en - st else en + N - st)"
  by (auto simp: ring_ok_def ring_items_def)

lemma length_ring_items_less: "ring_ok N buf st en \<Longrightarrow> length (ring_items buf st en) < N"
  by (simp add: length_ring_items) (auto simp: ring_ok_def)

lemma ring_items_Nil: "ring_ok N buf st en \<Longrightarrow> ring_items buf st en = [] \<longleftrightarrow> st = en"
  by (auto simp: ring_ok_def ring_items_def)

lemma ring_items_same [simp]: "ring_items buf i i = []"
  by (simp add: ring_items_def)

lemma ring_items_pop:
  assumes "ring_ok N buf st en" "st \<noteq> en"
  shows "ring_items buf st en = buf ! st # ring_items buf (ring_inc N st) en"
proof -
  have d: "drop st buf = buf ! st # drop (Suc st) buf"
    using assms(1) by (simp add: ring_ok_def Cons_nth_drop_Suc)
  consider "st < en" | "en < st" "Suc st < N" | "en < st" "Suc st = N"
    using assms by (auto simp: ring_ok_def) linarith
  then show ?thesis
  proof cases
    case 1
    then have "ring_inc N st = Suc st" "en - st = Suc (en - Suc st)"
      using assms by (auto simp: ring_ok_def ring_inc_def)
    with 1 d show ?thesis by (simp add: ring_items_def)
  next
    case 2
    with d show ?thesis by (simp add: ring_items_def ring_inc_def)
  next
    case 3
    with d assms show ?thesis by (simp add: ring_items_def ring_inc_def ring_ok_def)
  qed
qed

lemma ring_items_snoc:
  assumes "ring_ok N buf st en" "ring_inc N en \<noteq> st"
  shows "ring_items (buf[en := x]) st (ring_inc N en) = ring_items buf st en @ [x]"
proof (cases "st \<le> en")
  case True
  have len: "length buf = N" "st < N" "en < N" using assms(1) by (auto simp: ring_ok_def)
  show ?thesis
  proof (cases "Suc en < N")
    case True
    then have "take (Suc en - st) (drop st (buf[en := x])) = take (en - st) (drop st buf) @ [x]"
      using \<open>st \<le> en\<close> len by (simp add: drop_update_swap Suc_diff_le take_Suc_nth_append)
    with True \<open>st \<le> en\<close> show ?thesis by (simp add: ring_items_def ring_inc_def)
  next
    case False
    with len have e: "en = N - 1" "0 < st" using assms(2) by (auto simp: ring_inc_def)
    have "drop st (buf[en := x]) = take (en - st) (drop st buf) @ [x]"
      using \<open>st \<le> en\<close> len e
      by (simp add: drop_update_swap list_eq_iff_nth_eq nth_append nth_list_update) (auto simp: less_Suc_eq_le)
    with e \<open>st \<le> en\<close> len show ?thesis by (simp add: ring_items_def ring_inc_def)
  qed
next
  case False
  with assms have "Suc en < N" "Suc en < st" by (auto simp: ring_ok_def ring_inc_def split: if_splits)
  with False assms show ?thesis
    by (simp add: ring_items_def ring_inc_def ring_ok_def take_Suc_nth_append)
qed

lemma ring_items_push:
  assumes "ring_ok N buf st en" "1 < N"
  shows "ring_items (buf[en := x]) (ring_drop N st (ring_inc N en)) (ring_inc N en)
         = keep_last (N - 1) (ring_items buf st en @ [x])"
proof (cases "ring_inc N en = st")
  case False
  then have "length (ring_items buf st en) < N - 1"
    using assms by (auto simp: length_ring_items) (auto simp: ring_ok_def ring_inc_def split: if_splits)
  with False assms show ?thesis
    by (simp add: ring_drop_def ring_items_snoc)
next
  case True
  have ok: "ring_ok N buf (ring_inc N st) en" "ring_inc N en \<noteq> ring_inc N st" "st \<noteq> en"
    using assms True by (auto simp: ring_ok_def ring_inc_def split: if_splits)
  have "length (ring_items buf st en) = N - 1"
    using assms True by (auto simp: length_ring_items) (auto simp: ring_ok_def ring_inc_def split: if_splits)
  moreover have "ring_items buf st en = buf ! st # ring_items buf (ring_inc N st) en"
    using assms(1) ok(3) by (rule ring_items_pop)
  ultimately have "keep_last (N - 1) (ring_items buf st en @ [x]) = ring_items buf (ring_inc N st) en @ [x]"
    by (simp add: keep_last_def)
  with True ring_items_snoc [OF ok(1,2)] show ?thesis by (simp add: ring_drop_def)
qed

lemma ring_ok_push: "ring_ok N buf st en \<Longrightarrow>
    ring_ok N (buf[en := x]) (ring_drop N st (ring_inc N en)) (ring_inc N en)"
  by (auto simp: ring_ok_def)

lemma ring_ok_pop: "ring_ok N buf st en \<Longrightarrow> ring_ok N buf (ring_inc N st) en"
  by (auto simp: ring_ok_def)

section \<open>The abstract queue\<close>

text \<open>A first-in first-out queue that holds at most \<open>cap\<close> elements and forgets the oldest.\<close>

datatype 'a queue_op = Put 'a | Get

definition bq_put :: "nat \<Rightarrow> 'a \<Rightarrow> 'a list \<Rightarrow> 'a list" where
  "bq_put cap x q = keep_last cap (q @ [x])"

definition bq_get :: "'a list \<Rightarrow> 'a option \<times> 'a list" where
  "bq_get q = (case q of [] \<Rightarrow> (None, []) | x # xs \<Rightarrow> (Some x, xs))"

fun bq_run :: "nat \<Rightarrow> 'a queue_op list \<Rightarrow> 'a list \<Rightarrow> 'a list \<times> 'a list" where
  "bq_run cap [] q = ([], q)"
| "bq_run cap (Put x # ops) q = bq_run cap ops (bq_put cap x q)"
| "bq_run cap (Get # ops) q =
     (case q of [] \<Rightarrow> bq_run cap ops [] | x # xs \<Rightarrow> (let (out, r) = bq_run cap ops xs in (x # out, r)))"

fun puts :: "'a queue_op list \<Rightarrow> 'a list" where
  "puts [] = []"
| "puts (Put x # ops) = x # puts ops"
| "puts (Get # ops) = puts ops"

lemma bq_run_subseq: "bq_run cap ops q = (out, r) \<Longrightarrow> subseq (out @ r) (q @ puts ops)"
proof (induction cap ops q arbitrary: out r rule: bq_run.induct)
  case (2 cap x ops q)
  then have "subseq (out @ r) (keep_last cap (q @ [x]) @ puts ops)" by (simp add: bq_put_def)
  moreover have "subseq (keep_last cap (q @ [x]) @ puts ops) ((q @ [x]) @ puts ops)"
    by (intro list_emb_append_mono subseq_order.refl suffix_imp_subseq suffix_keep_last)
  ultimately show ?case by (auto intro: subseq_order.trans)
qed (auto split: list.splits prod.splits)

lemma bq_run_lossless:
  "bq_run cap ops q = (out, r) \<Longrightarrow> length q + length (puts ops) \<le> cap \<Longrightarrow> out @ r = q @ puts ops"
proof (induction cap ops q arbitrary: out r rule: bq_run.induct)
  case (2 cap x ops q)
  from 2(1) [of out r] 2(2,3) show ?case by (simp add: bq_put_def)
next
  case (3 cap ops q)
  show ?case
  proof (cases q)
    case Nil
    with 3(1) [of out r] 3(3,4) show ?thesis by simp
  next
    case (Cons x xs)
    obtain o1 r1 where "bq_run cap ops xs = (o1, r1)" by (cases "bq_run cap ops xs")
    with Cons 3(2) [of x xs o1 r1] 3(3,4) show ?thesis by auto
  qed
qed simp

section \<open>The interface of a buffer\<close>

locale drop_oldest_queue =
  fixes cap :: nat
    and inv :: "'s \<Rightarrow> bool"
    and items :: "'s \<Rightarrow> 'a list"
    and put :: "'a \<Rightarrow> 's \<Rightarrow> 's"
    and get :: "'s \<Rightarrow> ('a \<times> 's) option"
  assumes inv_put: "inv s \<Longrightarrow> inv (put x s)"
    and items_put: "inv s \<Longrightarrow> items (put x s) = keep_last cap (items s @ [x])"
    and get_None: "inv s \<Longrightarrow> get s = None \<longleftrightarrow> items s = []"
    and get_Some: "inv s \<Longrightarrow> get s = Some (x, s') \<Longrightarrow> inv s' \<and> items s = x # items s'"
    and items_bound: "inv s \<Longrightarrow> length (items s) \<le> cap"
begin

fun ops_run :: "'a queue_op list \<Rightarrow> 's \<Rightarrow> 'a list \<times> 's" where
  "ops_run [] s = ([], s)"
| "ops_run (Put x # ops) s = ops_run ops (put x s)"
| "ops_run (Get # ops) s =
     (case get s of None \<Rightarrow> ops_run ops s
      | Some (x, s') \<Rightarrow> (let (out, t) = ops_run ops s' in (x # out, t)))"

lemma simulates:
  "inv s \<Longrightarrow> ops_run ops s = (out, t) \<Longrightarrow> inv t \<and> bq_run cap ops (items s) = (out, items t)"
proof (induction ops s arbitrary: out t rule: ops_run.induct)
  case (2 x ops s)
  then show ?case by (simp add: bq_put_def items_put inv_put)
next
  case (3 ops s)
  show ?case
  proof (cases "get s")
    case None
    with 3 get_None [of s] show ?thesis by simp
  next
    case (Some p)
    obtain x s' where p: "p = (x, s')" by (cases p)
    with Some get_Some [of s x s'] 3 show ?thesis
      by (auto split: prod.splits)
  qed
qed simp

lemma in_order: "inv s \<Longrightarrow> ops_run ops s = (out, t) \<Longrightarrow> subseq (out @ items t) (items s @ puts ops)"
  using simulates bq_run_subseq by blast

lemma lossless:
  "inv s \<Longrightarrow> ops_run ops s = (out, t) \<Longrightarrow> length (items s) + length (puts ops) \<le> cap \<Longrightarrow>
     out @ items t = items s @ puts ops"
  using simulates bq_run_lossless by blast

end

section \<open>One reader of a shared ring\<close>

text \<open>The sample rings have one writer and two readers, each with its own start index into the
  same array.  Whatever the representation, a reader that advances its index on a read and whose
  index the writer pushes ahead when it runs into it sees a bounded queue.\<close>

locale ring_reader =
  fixes N :: nat
    and inv :: "'s \<Rightarrow> bool"
    and cells :: "'s \<Rightarrow> 'a list"
    and rd :: "'s \<Rightarrow> nat"
    and wr :: "'s \<Rightarrow> nat"
    and put :: "'a \<Rightarrow> 's \<Rightarrow> 's"
    and get :: "'s \<Rightarrow> ('a \<times> 's) option"
  assumes size: "1 < N"
    and ok: "inv s \<Longrightarrow> ring_ok N (cells s) (rd s) (wr s)"
    and put_inv: "inv s \<Longrightarrow> inv (put x s)"
    and put_cells: "inv s \<Longrightarrow> cells (put x s) = (cells s)[wr s := x]"
    and put_wr: "inv s \<Longrightarrow> wr (put x s) = ring_inc N (wr s)"
    and put_rd: "inv s \<Longrightarrow> rd (put x s) = ring_drop N (rd s) (ring_inc N (wr s))"
    and get_empty: "inv s \<Longrightarrow> rd s = wr s \<Longrightarrow> get s = None"
    and get_item: "inv s \<Longrightarrow> rd s \<noteq> wr s \<Longrightarrow> \<exists>s'. get s = Some (cells s ! rd s, s') \<and> inv s'
          \<and> cells s' = cells s \<and> wr s' = wr s \<and> rd s' = ring_inc N (rd s)"
begin

lemma get_cases: "inv s \<Longrightarrow> get s = None \<longleftrightarrow> rd s = wr s"
  using get_empty get_item by fastforce

end

sublocale ring_reader \<subseteq> drop_oldest_queue "N - 1" inv "\<lambda>s. ring_items (cells s) (rd s) (wr s)" put get
proof
  fix s x s'
  assume i: "inv s"
  show "inv (put x s)" using i by (rule put_inv)
  show "ring_items (cells (put x s)) (rd (put x s)) (wr (put x s))
      = keep_last (N - 1) (ring_items (cells s) (rd s) (wr s) @ [x])"
    using ring_items_push [OF ok [OF i] size] by (simp add: put_cells [OF i] put_wr [OF i] put_rd [OF i])
  show "get s = None \<longleftrightarrow> ring_items (cells s) (rd s) (wr s) = []"
    by (simp add: get_cases [OF i] ring_items_Nil [OF ok [OF i]])
  show "length (ring_items (cells s) (rd s) (wr s)) \<le> N - 1"
    using length_ring_items_less [OF ok [OF i]] by simp
  assume g: "get s = Some (x, s')"
  then have ne: "rd s \<noteq> wr s" using get_cases [OF i] by auto
  with get_item [OF i] g show "inv s' \<and> ring_items (cells s) (rd s) (wr s)
      = x # ring_items (cells s') (rd s') (wr s')"
    using ring_items_pop [OF ok [OF i] ne] by auto
qed

section \<open>Two readers of one ring\<close>

text \<open>A sample ring is read from two places, the upload and the algorithm, each with an index of
  its own.  \<open>taps_run\<close> interleaves the writer and both readers in any order.\<close>

datatype 'a tap_op = Sample 'a | ReadA | ReadB

fun taps_run :: "('a \<Rightarrow> 's \<Rightarrow> 's) \<Rightarrow> ('s \<Rightarrow> ('a \<times> 's) option) \<Rightarrow> ('s \<Rightarrow> ('a \<times> 's) option)
    \<Rightarrow> 'a tap_op list \<Rightarrow> 's \<Rightarrow> 'a list \<times> 'a list \<times> 's" where
  "taps_run put getA getB [] s = ([], [], s)"
| "taps_run put getA getB (Sample x # ops) s = taps_run put getA getB ops (put x s)"
| "taps_run put getA getB (ReadA # ops) s =
     (case getA s of None \<Rightarrow> taps_run put getA getB ops s
      | Some (x, s') \<Rightarrow> (let (a, b, t) = taps_run put getA getB ops s' in (x # a, b, t)))"
| "taps_run put getA getB (ReadB # ops) s =
     (case getB s of None \<Rightarrow> taps_run put getA getB ops s
      | Some (x, s') \<Rightarrow> (let (a, b, t) = taps_run put getA getB ops s' in (a, x # b, t)))"

fun ops_A :: "'a tap_op list \<Rightarrow> 'a queue_op list" where
  "ops_A [] = []"
| "ops_A (Sample x # ops) = Put x # ops_A ops"
| "ops_A (ReadA # ops) = Get # ops_A ops"
| "ops_A (ReadB # ops) = ops_A ops"

fun ops_B :: "'a tap_op list \<Rightarrow> 'a queue_op list" where
  "ops_B [] = []"
| "ops_B (Sample x # ops) = Put x # ops_B ops"
| "ops_B (ReadA # ops) = ops_B ops"
| "ops_B (ReadB # ops) = Get # ops_B ops"

locale two_readers = A: ring_reader N inv cells rdA wr put getA + B: ring_reader N inv cells rdB wr put getB
  for N :: nat and inv :: "'s \<Rightarrow> bool" and cells :: "'s \<Rightarrow> 'a list" and rdA rdB wr :: "'s \<Rightarrow> nat"
    and put :: "'a \<Rightarrow> 's \<Rightarrow> 's" and getA getB :: "'s \<Rightarrow> ('a \<times> 's) option" +
  assumes A_keeps_B: "inv s \<Longrightarrow> getA s = Some (x, s') \<Longrightarrow> rdB s' = rdB s"
    and B_keeps_A: "inv s \<Longrightarrow> getB s = Some (x, s') \<Longrightarrow> rdA s' = rdA s"
begin

lemma get_frame:
  assumes "inv s"
  shows "getA s = Some (x, s') \<Longrightarrow> cells s' = cells s \<and> wr s' = wr s \<and> inv s'"
    and "getB s = Some (x, s') \<Longrightarrow> cells s' = cells s \<and> wr s' = wr s \<and> inv s'"
  using A.get_cases [OF assms] A.get_item [OF assms] B.get_cases [OF assms] B.get_item [OF assms]
  by fastforce+

lemma both_queues:
  "inv s \<Longrightarrow> taps_run put getA getB ops s = (a, b, t) \<Longrightarrow>
     inv t \<and> bq_run (N - 1) (ops_A ops) (ring_items (cells s) (rdA s) (wr s))
               = (a, ring_items (cells t) (rdA t) (wr t))
           \<and> bq_run (N - 1) (ops_B ops) (ring_items (cells s) (rdB s) (wr s))
               = (b, ring_items (cells t) (rdB t) (wr t))"
proof (induction ops arbitrary: s a b t)
  case (Cons op ops)
  show ?case
  proof (cases op)
    case (Sample x)
    with Cons.IH [of "put x s" a b t] Cons.prems show ?thesis
      by (simp add: bq_put_def A.items_put B.items_put A.put_inv)
  next
    case ReadA
    show ?thesis
    proof (cases "getA s")
      case None
      then have "ring_items (cells s) (rdA s) (wr s) = []" using A.get_None [OF Cons.prems(1)] by simp
      moreover have "taps_run put getA getB ops s = (a, b, t)" using Cons.prems(2) None ReadA by simp
      ultimately show ?thesis using Cons.IH [OF Cons.prems(1), of a b t] ReadA by simp
    next
      case (Some p)
      obtain x s' where p: "getA s = Some (x, s')" using Some by (cases p) simp
      obtain a' where r: "taps_run put getA getB ops s' = (a', b, t)" "a = x # a'"
        using ReadA Cons.prems(2) p by (auto split: prod.splits)
      from Cons.IH [OF _ r(1)] get_frame(1) [OF Cons.prems(1) p] A.get_Some [OF Cons.prems(1) p]
        A_keeps_B [OF Cons.prems(1) p] ReadA r(2)
      show ?thesis by simp
    qed
  next
    case ReadB
    show ?thesis
    proof (cases "getB s")
      case None
      then have "ring_items (cells s) (rdB s) (wr s) = []" using B.get_None [OF Cons.prems(1)] by simp
      moreover have "taps_run put getA getB ops s = (a, b, t)" using Cons.prems(2) None ReadB by simp
      ultimately show ?thesis using Cons.IH [OF Cons.prems(1), of a b t] ReadB by simp
    next
      case (Some p)
      obtain x s' where p: "getB s = Some (x, s')" using Some by (cases p) simp
      obtain b' where r: "taps_run put getA getB ops s' = (a, b', t)" "b = x # b'"
        using ReadB Cons.prems(2) p by (auto split: prod.splits)
      from Cons.IH [OF _ r(1)] get_frame(2) [OF Cons.prems(1) p] B.get_Some [OF Cons.prems(1) p]
        B_keeps_A [OF Cons.prems(1) p] ReadB r(2)
      show ?thesis by simp
    qed
  qed
qed simp

end

end
