(* ===== verification/AioUart.thy ===== *)
theory AioUart
  imports SysTick Ring
begin

text \<open>
  \<open>AllInOneDSP/src/source/system_uart.c\<close>: UART1 to the main control unit, its receive ring
  (with the flag \<open>bAIOIsOverBufLenght\<close>), its transmit ring, the interrupt handler and
  \<open>AIO_printf\<close>.  The interrupt can run between any two statements of the foreground code; the
  model lets it run at the points where the foreground reads an index the handler
  moves: before each \<open>AIO_UART_GetByte\<close> and before each test of \<open>IsAIOTxBufFull\<close>.
  \<open>sched\<close> lists, for each such point to come, the interrupts taken there (what the
  handler reads from the line status and receive registers); every theorem holds for all schedules.
\<close>

section \<open>State\<close>

definition AIO_UART_COM_RxBUFSIZE :: nat where "AIO_UART_COM_RxBUFSIZE = 1024"
definition AIO_UART_COM_TxBUFSIZE :: nat where "AIO_UART_COM_TxBUFSIZE = 2048"

lemma AIO_bufsizes [simp]: "AIO_UART_COM_RxBUFSIZE = 1024" "AIO_UART_COM_TxBUFSIZE = 2048"
  by (simp_all add: AIO_UART_COM_RxBUFSIZE_def AIO_UART_COM_TxBUFSIZE_def)

record uart_event =
  ev_lsr :: u32
  ev_rbr :: u8

record uart_st =
  chAIORxBuf :: bytes
  chAIOTxBuf :: bytes
  uiAIORxIdxStart :: nat
  uiAIORxIdxEnd :: nat
  uiAIOTxIdxStart :: nat
  uiAIOTxIdxEnd :: nat
  bAIOIsOverBufLenght :: bool
  pUART1_IER :: u32
  pUART1_THR :: bytes
  sched :: "uart_event list list"

record uart_sys = tick_sys +
  uart :: uart_st

lemma hw_uart [simp]:
  "uart (emit e s) = uart s" "uart (wr r v s) = uart s" "uart (orw r v s) = uart s"
  "uart (andw r v s) = uart s" "uart (ssync s) = uart s" "uart (register_handler i h s) = uart s"
  "uart (raise_fault s) = uart s" "uart (alg_call f xs s) = uart s" "uart (Delay1ms ms s) = uart s"
  by (simp_all add: hw_prims Delay1ms_def Let_def)

abbreviation DR :: u32 where "DR \<equiv> 0x01"
abbreviation THRE :: u32 where "THRE \<equiv> 0x20"
abbreviation ERBFI :: u32 where "ERBFI \<equiv> 0x01"
abbreviation ETBEI :: u32 where "ETBEI \<equiv> 0x02"
abbreviation ELSI :: u32 where "ELSI \<equiv> 0x04"

section \<open>Initialisation\<close>

definition UartSetBitrate :: "nat \<Rightarrow> u32 \<Rightarrow> 'a hw_sys_scheme \<Rightarrow> s32 \<times> 'a hw_sys_scheme" where
  "UartSetBitrate UartNum UartBitrate s =
     (if UartBitrate = 0 then (- 1, s)
      else if UartNum \<noteq> 0 \<and> UartNum \<noteq> 1 then (- 1, s)
      else let p = (if UartNum = 0 then ''UART0'' else ''UART1'');
               q = (ucast (getSystemCLK s div UartBitrate) :: u16);
               UartDivisor = drop_bit 4 (q + 8)
           in (scast UartDivisor,
               run [wr (p @ ''_GCTL'') 1, wr (p @ ''_LCR'') 0x80,
                    wr (p @ ''_DLH'') (drop_bit 8 (ucast UartDivisor AND 0xFF00)),
                    wr (p @ ''_DLL'') (ucast UartDivisor AND 0x00FF),
                    wr (p @ ''_LCR'') 0x03] s))"

definition UART1_BAUD_RATE :: u32 where "UART1_BAUD_RATE = 256000"

definition UART1_Init :: "'a hw_sys_scheme \<Rightarrow> 'a hw_sys_scheme" where
  "UART1_Init s =
     run [orw ''PORTH_FER'' 0x00C0, ssync, orw ''PORTH_MUX'' 0x0050, ssync,
          \<lambda>s. snd (UartSetBitrate 1 UART1_BAUD_RATE s)] s"

definition Init_UART1_Interrupts :: "'a hw_sys_scheme \<Rightarrow> 'a hw_sys_scheme" where
  "Init_UART1_Interrupts s =
     run [\<lambda>s. wr ''SIC_IMASK0'' (regs s ''SIC_IMASK0'' OR push_bit 24 1 OR push_bit 25 1) s,
          \<lambda>s. wr ''SIC_IAR3'' ((regs s ''SIC_IAR3'' AND 0xFFFFFF00) OR 0x00000055) s,
          register_handler 12 H_IVG12_AIO_UART_ISR] s"

definition AIO_UART_SetInterrupt :: "uart_st \<Rightarrow> uart_st" where
  "AIO_UART_SetInterrupt u = u\<lparr>pUART1_IER := ELSI OR ERBFI\<rparr>"

definition Uart2MCU_Init :: "'a uart_sys_scheme \<Rightarrow> 'a uart_sys_scheme" where
  "Uart2MCU_Init s =
     run [\<lambda>s. s\<lparr>uart := (uart s)\<lparr>uiAIORxIdxStart := 0, uiAIORxIdxEnd := 0, uiAIOTxIdxStart := 0,
                        uiAIOTxIdxEnd := 0, bAIOIsOverBufLenght := False\<rparr>\<rparr>,
          UART1_Init, Init_UART1_Interrupts] s"

section \<open>Receive\<close>

definition IsAIORxBufEmpty :: "uart_st \<Rightarrow> bool" where
  "IsAIORxBufEmpty u = (uiAIORxIdxEnd u = uiAIORxIdxStart u)"

definition AIO_UART_GetByte :: "uart_st \<Rightarrow> u8 option \<times> uart_st" where
  "AIO_UART_GetByte u =
     (if IsAIORxBufEmpty u then (None, u)
      else let v = chAIORxBuf u ! uiAIORxIdxStart u;
               u = u\<lparr>uiAIORxIdxStart := uiAIORxIdxStart u + 1\<rparr>;
               u = (if uiAIORxIdxStart u \<ge> AIO_UART_COM_RxBUFSIZE
                    then u\<lparr>uiAIORxIdxStart := 0, bAIOIsOverBufLenght := False\<rparr> else u)
           in (Some v, u))"

section \<open>Transmit\<close>

definition IsAIOTxBufFull :: "nat \<Rightarrow> uart_st \<Rightarrow> bool" where
  "IsAIOTxBufFull uiIdxEnd u \<longleftrightarrow>
     uiAIOTxIdxStart u = 0 \<and> uiIdxEnd = AIO_UART_COM_TxBUFSIZE - 1
     \<or> uiAIOTxIdxStart u = uiIdxEnd + 1"

section \<open>The interrupt handler\<close>

text \<open>The receive branch, as the handler's own step: store, wrap, drop the oldest byte.\<close>

definition AIO_rx_store :: "u8 \<Rightarrow> uart_st \<Rightarrow> uart_st" where
  "AIO_rx_store b u =
     (let u = u\<lparr>chAIORxBuf := (chAIORxBuf u)[uiAIORxIdxEnd u := b],
                uiAIORxIdxEnd := uiAIORxIdxEnd u + 1\<rparr>;
          u = (if uiAIORxIdxEnd u \<ge> AIO_UART_COM_RxBUFSIZE
               then u\<lparr>uiAIORxIdxEnd := 0, bAIOIsOverBufLenght := True\<rparr> else u)
      in if bAIOIsOverBufLenght u \<and> uiAIORxIdxEnd u \<ge> uiAIORxIdxStart u
         then let u = u\<lparr>uiAIORxIdxStart := uiAIORxIdxEnd u + 1\<rparr>
              in if uiAIORxIdxStart u \<ge> AIO_UART_COM_RxBUFSIZE then u\<lparr>uiAIORxIdxStart := 0\<rparr> else u
         else u)"

definition AIO_tx_next :: "uart_st \<Rightarrow> uart_st" where
  "AIO_tx_next u =
     (if uiAIOTxIdxStart u = uiAIOTxIdxEnd u
      then u\<lparr>pUART1_IER := pUART1_IER u AND NOT ETBEI\<rparr>
      else let u = u\<lparr>pUART1_THR := pUART1_THR u @ [chAIOTxBuf u ! uiAIOTxIdxStart u],
                     uiAIOTxIdxStart := uiAIOTxIdxStart u + 1\<rparr>
           in if uiAIOTxIdxStart u \<ge> AIO_UART_COM_TxBUFSIZE then u\<lparr>uiAIOTxIdxStart := 0\<rparr> else u)"

definition IVG12_AIO_UART_ISR :: "uart_event \<Rightarrow> uart_st \<Rightarrow> uart_st" where
  "IVG12_AIO_UART_ISR ev u =
     (if ev_lsr ev AND DR \<noteq> 0 then AIO_rx_store (ev_rbr ev) u
      else if ev_lsr ev AND THRE \<noteq> 0 then AIO_tx_next u
      else u)"

text \<open>The UART raises the interrupt only for conditions its interrupt enable register selects.\<close>

definition uart_deliver :: "uart_event \<Rightarrow> uart_st \<Rightarrow> uart_st" where
  "uart_deliver ev u =
     (if (ev_lsr ev AND DR \<noteq> 0 \<and> pUART1_IER u AND ERBFI \<noteq> 0)
       \<or> (ev_lsr ev AND THRE \<noteq> 0 \<and> pUART1_IER u AND ETBEI \<noteq> 0)
      then IVG12_AIO_UART_ISR ev u else u)"

definition preempt :: "uart_st \<Rightarrow> uart_st" where
  "preempt u = (case sched u of [] \<Rightarrow> u | evs # rest \<Rightarrow> fold uart_deliver evs (u\<lparr>sched := rest\<rparr>))"

section \<open>Sending\<close>

definition set_ETBEI :: "uart_st \<Rightarrow> uart_st" where
  "set_ETBEI u = u\<lparr>pUART1_IER := pUART1_IER u OR ETBEI\<rparr>"

definition AIO_tx_store :: "u8 \<Rightarrow> uart_st \<Rightarrow> uart_st" where
  "AIO_tx_store b u =
     (let u = u\<lparr>chAIOTxBuf := (chAIOTxBuf u)[uiAIOTxIdxEnd u := b],
                uiAIOTxIdxEnd := uiAIOTxIdxEnd u + 1\<rparr>
      in if uiAIOTxIdxEnd u \<ge> AIO_UART_COM_TxBUFSIZE then u\<lparr>uiAIOTxIdxEnd := 0\<rparr> else u)"

text \<open>\<open>AIO_UART_SendByte\<close> has no bound on its wait: \<open>None\<close> is a wait that outlasts the schedule.\<close>

partial_function (option) AIO_SendByte_wait :: "uart_st \<Rightarrow> uart_st option" where
  "AIO_SendByte_wait u =
     (let u' = preempt u in
      if IsAIOTxBufFull (uiAIOTxIdxEnd u') u' then AIO_SendByte_wait (set_ETBEI u') else Some u')"

definition AIO_UART_SendByte :: "u8 \<Rightarrow> uart_st \<Rightarrow> uart_st option" where
  "AIO_UART_SendByte chByte u =
     map_option (\<lambda>u. set_ETBEI (AIO_tx_store chByte u)) (AIO_SendByte_wait u)"

text \<open>\<open>AIO_UART_SendBuf\<close> waits at most \<open>0x1000\<close> times in all, then gives the rest up.\<close>

function AIO_SendBuf_loop :: "bytes \<Rightarrow> nat \<Rightarrow> uart_st \<Rightarrow> uart_st" where
  "AIO_SendBuf_loop [] count u = set_ETBEI u"
| "AIO_SendBuf_loop (b # bs) count u =
     (let u = preempt u in
      if IsAIOTxBufFull (uiAIOTxIdxEnd u) u
      then let u = set_ETBEI u in
           if count = 0 then u else AIO_SendBuf_loop (b # bs) (count - 1) u
      else AIO_SendBuf_loop bs count (AIO_tx_store b u))"
  by pat_completeness auto
termination
  by (relation "measure (\<lambda>(bs, count, u). length bs + count)") auto

definition AIO_UART_SendBuf :: "bytes \<Rightarrow> uart_st \<Rightarrow> uart_st" where
  "AIO_UART_SendBuf p_chBuf u = AIO_SendBuf_loop p_chBuf 0x1000 u"

text \<open>\<open>vsnprintf\<close> into 1024 bytes keeps 1023 characters, and \<open>strlen\<close> stops at a zero byte.\<close>

definition AIO_printf :: "bytes \<Rightarrow> 'a uart_sys_scheme \<Rightarrow> 'a uart_sys_scheme" where
  "AIO_printf text s =
     (let czBuffer = takeWhile (\<lambda>b. b \<noteq> 0) (take 1023 text)
      in s\<lparr>uart := AIO_UART_SendBuf czBuffer (uart s)\<rparr>)"

section \<open>The receive ring is a bounded queue\<close>

definition aio_rx_items :: "uart_st \<Rightarrow> bytes" where
  "aio_rx_items u = ring_items (chAIORxBuf u) (uiAIORxIdxStart u) (uiAIORxIdxEnd u)"

text \<open>The overflow flag says that the write index has wrapped and the read index has not, except
  that it may be stale while the write index is at the last cell.\<close>

definition aio_rx_inv :: "uart_st \<Rightarrow> bool" where
  "aio_rx_inv u \<longleftrightarrow>
     ring_ok 1024 (chAIORxBuf u) (uiAIORxIdxStart u) (uiAIORxIdxEnd u) \<and>
     (if bAIOIsOverBufLenght u then uiAIORxIdxEnd u < uiAIORxIdxStart u \<or> uiAIORxIdxEnd u = 1023
      else uiAIORxIdxStart u \<le> uiAIORxIdxEnd u)"

lemma AIO_rx_store_ring:
  assumes "aio_rx_inv u"
  shows "chAIORxBuf (AIO_rx_store b u) = (chAIORxBuf u)[uiAIORxIdxEnd u := b]"
    and "uiAIORxIdxEnd (AIO_rx_store b u) = ring_inc 1024 (uiAIORxIdxEnd u)"
    and "uiAIORxIdxStart (AIO_rx_store b u)
         = ring_drop 1024 (uiAIORxIdxStart u) (ring_inc 1024 (uiAIORxIdxEnd u))"
  using assms
  by (auto simp: AIO_rx_store_def Let_def aio_rx_inv_def ring_ok_def ring_inc_def ring_drop_def
      split: if_splits)

lemma aio_rx_inv_store [simp]: "aio_rx_inv u \<Longrightarrow> aio_rx_inv (AIO_rx_store b u)"
  by (auto simp: AIO_rx_store_def Let_def aio_rx_inv_def ring_ok_def split: if_splits)

definition aio_rx_get :: "uart_st \<Rightarrow> (u8 \<times> uart_st) option" where
  "aio_rx_get u = (case AIO_UART_GetByte u of (None, _) \<Rightarrow> None | (Some b, u') \<Rightarrow> Some (b, u'))"

lemma AIO_UART_GetByte_ring:
  assumes "aio_rx_inv u" "aio_rx_get u = Some (b, u')"
  shows "uiAIORxIdxStart u \<noteq> uiAIORxIdxEnd u" "b = chAIORxBuf u ! uiAIORxIdxStart u"
    "chAIORxBuf u' = chAIORxBuf u" "uiAIORxIdxEnd u' = uiAIORxIdxEnd u"
    "uiAIORxIdxStart u' = ring_inc 1024 (uiAIORxIdxStart u)" "aio_rx_inv u'"
  using assms
  by (auto simp: aio_rx_get_def AIO_UART_GetByte_def IsAIORxBufEmpty_def Let_def aio_rx_inv_def
      ring_ok_def ring_inc_def split: if_splits)

interpretation aio_rx: drop_oldest_queue 1023 aio_rx_inv aio_rx_items AIO_rx_store aio_rx_get
proof
  fix u :: uart_st and b u'
  assume i: "aio_rx_inv u"
  then have ok: "ring_ok 1024 (chAIORxBuf u) (uiAIORxIdxStart u) (uiAIORxIdxEnd u)"
    by (simp add: aio_rx_inv_def)
  show "aio_rx_inv (AIO_rx_store b u)" using i by simp
  show "aio_rx_items (AIO_rx_store b u) = keep_last 1023 (aio_rx_items u @ [b])"
    using ring_items_push [OF ok, of b] by (simp add: aio_rx_items_def AIO_rx_store_ring [OF i])
  show "aio_rx_get u = None \<longleftrightarrow> aio_rx_items u = []"
    using ring_items_Nil [OF ok]
    by (auto simp: aio_rx_items_def aio_rx_get_def AIO_UART_GetByte_def IsAIORxBufEmpty_def Let_def)
  show "length (aio_rx_items u) \<le> 1023"
    using length_ring_items_less [OF ok] by (simp add: aio_rx_items_def)
  assume g: "aio_rx_get u = Some (b, u')"
  show "aio_rx_inv u' \<and> aio_rx_items u = b # aio_rx_items u'"
    using AIO_UART_GetByte_ring [OF i g] ring_items_pop [OF ok] by (simp add: aio_rx_items_def)
qed

section \<open>The transmit ring\<close>

definition aio_tx_items :: "uart_st \<Rightarrow> bytes" where
  "aio_tx_items u = ring_items (chAIOTxBuf u) (uiAIOTxIdxStart u) (uiAIOTxIdxEnd u)"

definition aio_tx_inv :: "uart_st \<Rightarrow> bool" where
  "aio_tx_inv u \<longleftrightarrow> ring_ok 2048 (chAIOTxBuf u) (uiAIOTxIdxStart u) (uiAIOTxIdxEnd u)"

definition uart_inv :: "uart_st \<Rightarrow> bool" where
  "uart_inv u \<longleftrightarrow> aio_rx_inv u \<and> aio_tx_inv u"

text \<open>What has been handed to the transmitter, in order: sent already, then still buffered.\<close>

definition aio_tx_line :: "uart_st \<Rightarrow> bytes" where
  "aio_tx_line u = pUART1_THR u @ aio_tx_items u"

lemma IsAIOTxBufFull_ring:
  "aio_tx_inv u \<Longrightarrow> IsAIOTxBufFull (uiAIOTxIdxEnd u) u \<longleftrightarrow> ring_inc 2048 (uiAIOTxIdxEnd u) = uiAIOTxIdxStart u"
  by (auto simp: aio_tx_inv_def ring_ok_def IsAIOTxBufFull_def ring_inc_def)

lemma AIO_rx_store_tx [simp]:
  "aio_tx_inv (AIO_rx_store b u) = aio_tx_inv u" "aio_tx_items (AIO_rx_store b u) = aio_tx_items u"
  "pUART1_THR (AIO_rx_store b u) = pUART1_THR u" "sched (AIO_rx_store b u) = sched u"
  by (simp_all add: AIO_rx_store_def Let_def aio_tx_inv_def aio_tx_items_def)

lemma AIO_tx_next_rx [simp]:
  "aio_rx_inv (AIO_tx_next u) = aio_rx_inv u" "aio_rx_items (AIO_tx_next u) = aio_rx_items u"
  "sched (AIO_tx_next u) = sched u"
  by (simp_all add: AIO_tx_next_def Let_def aio_rx_inv_def aio_rx_items_def)

lemma AIO_tx_store_rx [simp]:
  "aio_rx_inv (AIO_tx_store b u) = aio_rx_inv u" "aio_rx_items (AIO_tx_store b u) = aio_rx_items u"
  "sched (AIO_tx_store b u) = sched u" "pUART1_THR (AIO_tx_store b u) = pUART1_THR u"
  by (simp_all add: AIO_tx_store_def Let_def aio_rx_inv_def aio_rx_items_def)

lemma set_ETBEI_simps [simp]:
  "aio_rx_inv (set_ETBEI u) = aio_rx_inv u" "aio_rx_items (set_ETBEI u) = aio_rx_items u"
  "aio_tx_inv (set_ETBEI u) = aio_tx_inv u" "aio_tx_items (set_ETBEI u) = aio_tx_items u"
  "aio_tx_line (set_ETBEI u) = aio_tx_line u" "sched (set_ETBEI u) = sched u"
  by (simp_all add: set_ETBEI_def aio_rx_inv_def aio_rx_items_def aio_tx_inv_def aio_tx_items_def
      aio_tx_line_def)

lemma AIO_tx_next_line: "aio_tx_inv u \<Longrightarrow> aio_tx_inv (AIO_tx_next u) \<and> aio_tx_line (AIO_tx_next u) = aio_tx_line u"
  using ring_items_pop [of 2048 "chAIOTxBuf u" "uiAIOTxIdxStart u" "uiAIOTxIdxEnd u"]
  by (auto simp: AIO_tx_next_def Let_def aio_tx_inv_def aio_tx_line_def aio_tx_items_def ring_ok_def
      ring_inc_def)

lemma aio_tx_items_next_le: "aio_tx_inv u \<Longrightarrow> length (aio_tx_items (AIO_tx_next u)) \<le> length (aio_tx_items u)"
proof -
  assume "aio_tx_inv u"
  then have "aio_tx_line (AIO_tx_next u) = aio_tx_line u" by (simp add: AIO_tx_next_line)
  then have "length (pUART1_THR (AIO_tx_next u)) + length (aio_tx_items (AIO_tx_next u))
             = length (pUART1_THR u) + length (aio_tx_items u)"
    unfolding aio_tx_line_def by (metis length_append)
  moreover have "length (pUART1_THR u) \<le> length (pUART1_THR (AIO_tx_next u))"
    by (simp add: AIO_tx_next_def Let_def)
  ultimately show ?thesis by linarith
qed

lemma uart_deliver_inv:
  "uart_inv u \<Longrightarrow> uart_inv (uart_deliver ev u) \<and> aio_tx_line (uart_deliver ev u) = aio_tx_line u
     \<and> length (aio_tx_items (uart_deliver ev u)) \<le> length (aio_tx_items u)"
  by (auto simp: uart_deliver_def IVG12_AIO_UART_ISR_def uart_inv_def AIO_tx_next_line
      aio_tx_items_next_le aio_tx_line_def [of "AIO_rx_store _ _"] aio_tx_line_def [of u])

lemma fold_uart_deliver_inv:
  "uart_inv u \<Longrightarrow> uart_inv (fold uart_deliver evs u) \<and> aio_tx_line (fold uart_deliver evs u) = aio_tx_line u
     \<and> length (aio_tx_items (fold uart_deliver evs u)) \<le> length (aio_tx_items u)"
proof (induction evs arbitrary: u)
  case (Cons ev evs)
  note d = uart_deliver_inv [OF Cons.prems, of ev]
  note r = Cons.IH [OF d [THEN conjunct1]]
  from d r show ?case by (simp only: fold_Cons comp_apply) (meson le_trans)
qed simp

lemma preempt_inv:
  assumes "uart_inv u"
  shows "uart_inv (preempt u)" "aio_tx_line (preempt u) = aio_tx_line u"
    "length (aio_tx_items (preempt u)) \<le> length (aio_tx_items u)"
proof -
  have "uart_inv (preempt u) \<and> aio_tx_line (preempt u) = aio_tx_line u
        \<and> length (aio_tx_items (preempt u)) \<le> length (aio_tx_items u)"
  proof (cases "sched u")
    case (Cons evs rest)
    have "uart_inv (u\<lparr>sched := rest\<rparr>)" "aio_tx_line (u\<lparr>sched := rest\<rparr>) = aio_tx_line u"
      "aio_tx_items (u\<lparr>sched := rest\<rparr>) = aio_tx_items u"
      using assms by (simp_all add: uart_inv_def aio_rx_inv_def aio_tx_inv_def aio_tx_line_def aio_tx_items_def)
    with Cons fold_uart_deliver_inv [of "u\<lparr>sched := rest\<rparr>" evs] show ?thesis by (simp add: preempt_def)
  qed (use assms in \<open>simp add: preempt_def\<close>)
  then show "uart_inv (preempt u)" "aio_tx_line (preempt u) = aio_tx_line u"
    "length (aio_tx_items (preempt u)) \<le> length (aio_tx_items u)" by auto
qed

lemma AIO_tx_store_append:
  assumes "aio_tx_inv u" "\<not> IsAIOTxBufFull (uiAIOTxIdxEnd u) u"
  shows "aio_tx_inv (AIO_tx_store b u)" "aio_tx_items (AIO_tx_store b u) = aio_tx_items u @ [b]"
proof -
  have e: "uiAIOTxIdxEnd (AIO_tx_store b u) = ring_inc 2048 (uiAIOTxIdxEnd u)"
    "chAIOTxBuf (AIO_tx_store b u) = (chAIOTxBuf u)[uiAIOTxIdxEnd u := b]"
    "uiAIOTxIdxStart (AIO_tx_store b u) = uiAIOTxIdxStart u"
    by (simp_all add: AIO_tx_store_def Let_def ring_inc_def)
  have "ring_inc 2048 (uiAIOTxIdxEnd u) \<noteq> uiAIOTxIdxStart u"
    using assms by (simp add: IsAIOTxBufFull_ring)
  with assms show "aio_tx_items (AIO_tx_store b u) = aio_tx_items u @ [b]"
    unfolding aio_tx_items_def aio_tx_inv_def e by (intro ring_items_snoc)
  show "aio_tx_inv (AIO_tx_store b u)"
    using assms(1) unfolding aio_tx_inv_def e by (simp add: ring_ok_def)
qed

lemma full_length:
  assumes "aio_tx_inv u"
  shows "IsAIOTxBufFull (uiAIOTxIdxEnd u) u \<longleftrightarrow> length (aio_tx_items u) = 2047"
proof -
  from assms have ok: "ring_ok 2048 (chAIOTxBuf u) (uiAIOTxIdxStart u) (uiAIOTxIdxEnd u)"
    by (simp add: aio_tx_inv_def)
  then show ?thesis
    unfolding IsAIOTxBufFull_ring [OF assms] aio_tx_items_def length_ring_items [OF ok]
    by (auto simp: ring_ok_def ring_inc_def)
qed

lemma AIO_SendBuf_loop_prefix:
  "uart_inv u \<Longrightarrow> uart_inv (AIO_SendBuf_loop bs count u) \<and>
     (\<exists>k \<le> length bs. aio_tx_line (AIO_SendBuf_loop bs count u) = aio_tx_line u @ take k bs \<and>
        (length (aio_tx_items u) + length bs \<le> 2047 \<longrightarrow> k = length bs))"
proof (induction bs count u rule: AIO_SendBuf_loop.induct)
  case (1 count u)
  then show ?case by (simp add: uart_inv_def)
next
  case (2 b bs count u)
  let ?u = "preempt u"
  note pre = preempt_inv [OF 2(3)]
  have tx: "aio_tx_inv ?u" using pre(1) by (simp add: uart_inv_def)
  show ?case
  proof (cases "IsAIOTxBufFull (uiAIOTxIdxEnd ?u) ?u")
    case True
    with full_length [OF tx] pre(3) have n: "\<not> length (aio_tx_items u) + length (b # bs) \<le> 2047" by simp
    have e: "uart_inv (set_ETBEI ?u)" "aio_tx_line (set_ETBEI ?u) = aio_tx_line u"
      using pre by (simp_all add: uart_inv_def)
    show ?thesis
    proof (cases "count = 0")
      case True
      with \<open>IsAIOTxBufFull _ _\<close> e n show ?thesis by (auto simp: Let_def intro!: exI [of _ 0])
    next
      case False
      with True have *: "AIO_SendBuf_loop (b # bs) count u = AIO_SendBuf_loop (b # bs) (count - 1) (set_ETBEI ?u)"
        by (simp add: Let_def)
      from 2(1) [OF refl True refl False e(1)] obtain k where
        "k \<le> length (b # bs)" "uart_inv (AIO_SendBuf_loop (b # bs) (count - 1) (set_ETBEI ?u))"
        "aio_tx_line (AIO_SendBuf_loop (b # bs) (count - 1) (set_ETBEI ?u)) = aio_tx_line (set_ETBEI ?u) @ take k (b # bs)"
        by blast
      then show ?thesis unfolding * e(2) using n by blast
    qed
  next
    case False
    let ?v = "AIO_tx_store b ?u"
    have v: "uart_inv ?v" "aio_tx_line ?v = aio_tx_line u @ [b]"
      "length (aio_tx_items ?v) \<le> Suc (length (aio_tx_items u))"
      using AIO_tx_store_append [OF tx False, of b] pre by (auto simp: uart_inv_def aio_tx_line_def)
    from 2(2) [OF refl False v(1)] obtain k where
      k: "k \<le> length bs" "aio_tx_line (AIO_SendBuf_loop bs count ?v) = aio_tx_line ?v @ take k bs"
      "length (aio_tx_items ?v) + length bs \<le> 2047 \<longrightarrow> k = length bs"
      "uart_inv (AIO_SendBuf_loop bs count ?v)" by blast
    have *: "AIO_SendBuf_loop (b # bs) count u = AIO_SendBuf_loop bs count ?v"
      using False by (simp add: Let_def)
    have "length (aio_tx_items u) + length (b # bs) \<le> 2047 \<longrightarrow> Suc k = length (b # bs)"
      using k(3) v(3) by auto
    moreover have "aio_tx_line (AIO_SendBuf_loop bs count ?v) = aio_tx_line u @ take (Suc k) (b # bs)"
      using k(2) v(2) by simp
    ultimately show ?thesis unfolding * using k(1,4) by (intro conjI exI [of _ "Suc k"]) auto
  qed
qed

section \<open>The receive and send sides as wholes\<close>

text \<open>The receive side as the main loop sees it: \<open>Some ev\<close> is an interrupt, \<open>None\<close> a call of
  \<open>AIO_UART_GetByte\<close>.\<close>

fun rx_run :: "uart_event option list \<Rightarrow> uart_st \<Rightarrow> bytes \<times> uart_st" where
  "rx_run [] u = ([], u)"
| "rx_run (Some ev # evs) u = rx_run evs (uart_deliver ev u)"
| "rx_run (None # evs) u =
     (case AIO_UART_GetByte u of (None, u') \<Rightarrow> rx_run evs u'
      | (Some b, u') \<Rightarrow> (let (out, v) = rx_run evs u' in (b # out, v)))"

fun rx_abs :: "uart_event option list \<Rightarrow> u8 queue_op list" where
  "rx_abs [] = []"
| "rx_abs (Some ev # evs) = (if ev_lsr ev AND DR \<noteq> 0 then Put (ev_rbr ev) # rx_abs evs else rx_abs evs)"
| "rx_abs (None # evs) = Get # rx_abs evs"

lemma GetByte_simps:
  "pUART1_IER (snd (AIO_UART_GetByte u)) = pUART1_IER u"
  "aio_tx_inv (snd (AIO_UART_GetByte u)) = aio_tx_inv u"
  by (simp_all add: AIO_UART_GetByte_def Let_def aio_tx_inv_def)

lemma IER_deliver: "pUART1_IER (uart_deliver ev u) AND ERBFI = pUART1_IER u AND ERBFI"
  by (rule bit_eqI) (auto simp: uart_deliver_def IVG12_AIO_UART_ISR_def AIO_rx_store_def AIO_tx_next_def Let_def bit_simps)

lemma deliver_items:
  assumes "aio_rx_inv u" "pUART1_IER u AND ERBFI \<noteq> 0"
  shows "aio_rx_inv (uart_deliver ev u)" 
    "aio_rx_items (uart_deliver ev u)
       = (if ev_lsr ev AND DR \<noteq> 0 then bq_put 1023 (ev_rbr ev) (aio_rx_items u) else aio_rx_items u)"
  using assms
  by (auto simp: uart_deliver_def IVG12_AIO_UART_ISR_def bq_put_def aio_rx.items_put)

text \<open>C5: the receive side of the MCU line implements a queue of 1023 bytes that forgets the oldest.
  However interrupts and reads interleave, the bytes the main loop gets are those the
  queue would give for the same arrivals and reads, and what is left in the ring is what is left in
  the queue.\<close>

theorem uart_rx_refines:
  assumes "aio_rx_inv u" "pUART1_IER u AND ERBFI \<noteq> 0"
  shows "aio_rx_inv (snd (rx_run evs u))
     \<and> bq_run 1023 (rx_abs evs) (aio_rx_items u) = (fst (rx_run evs u), aio_rx_items (snd (rx_run evs u)))"
  using assms
proof (induction evs u rule: rx_run.induct)
  case (2 ev evs u)
  then show ?case using deliver_items [OF 2(2,3), of ev] IER_deliver [of ev u] by (simp split: if_splits)
next
  case (3 evs u)
  show ?case
  proof (cases "AIO_UART_GetByte u")
    case (Pair r u')
    have ier: "pUART1_IER u' = pUART1_IER u" using GetByte_simps(1) [of u] Pair by simp
    show ?thesis
    proof (cases r)
      case None
      then have "u' = u" "aio_rx_get u = None"
        using Pair by (auto simp: AIO_UART_GetByte_def Let_def aio_rx_get_def split: if_splits)
      with 3 Pair None show ?thesis by (simp add: aio_rx.get_None)
    next
      case (Some b)
      then have "aio_rx_get u = Some (b, u')" using Pair by (simp add: aio_rx_get_def)
      from aio_rx.get_Some [OF 3(3) this] 3(2) [OF Pair [symmetric] Some] Pair Some ier 3(4)
      show ?thesis by (simp add: case_prod_beta Let_def)
    qed
  qed
qed simp

lemma uart_rx_refines_witness:
  "\<exists>u. bq_run 1023 (rx_abs [Some \<lparr>ev_lsr = DR, ev_rbr = 7\<rparr>, None]) [] = ([7], aio_rx_items u)"
proof -
  let ?u = "\<lparr>chAIORxBuf = replicate 1024 0, chAIOTxBuf = [], uiAIORxIdxStart = 0, uiAIORxIdxEnd = 0,
    uiAIOTxIdxStart = 0, uiAIOTxIdxEnd = 0, bAIOIsOverBufLenght = False, pUART1_IER = ERBFI,
    pUART1_THR = [], sched = []\<rparr>"
  let ?e = "[Some \<lparr>ev_lsr = DR, ev_rbr = 7\<rparr>, None]"
  have "aio_rx_inv ?u" "pUART1_IER ?u AND ERBFI \<noteq> 0" "aio_rx_items ?u = []"
    by (simp_all add: aio_rx_inv_def ring_ok_def aio_rx_items_def)
  moreover have "bq_run 1023 (rx_abs ?e) [] = ([7], [])" by (simp add: bq_put_def)
  ultimately show ?thesis using uart_rx_refines [of ?u ?e] by metis
qed

text \<open>C30: sending a buffer to the MCU always returns, keeps the rings well-formed and puts an
  initial part of the buffer behind the bytes already on their way, in order and without a gap,
  whatever UART1 interrupts come meanwhile, received bytes and transmitter requests alike.  When the transmit ring has
  room for it, this part is the whole buffer.  The interrupts are those of UART1 only: what a handler
  does that sends itself is shown by \<open>nested_send_splits\<close> below.\<close>

theorem uart_send_in_order:
  assumes "uart_inv u"
  shows "uart_inv (AIO_UART_SendBuf bs u)
     \<and> (\<exists>k \<le> length bs. aio_tx_line (AIO_UART_SendBuf bs u) = aio_tx_line u @ take k bs)
     \<and> (length (aio_tx_items u) + length bs < AIO_UART_COM_TxBUFSIZE
          \<longrightarrow> aio_tx_line (AIO_UART_SendBuf bs u) = aio_tx_line u @ bs)"
  using AIO_SendBuf_loop_prefix [OF assms, of bs "0x1000"] unfolding AIO_UART_SendBuf_def by auto

lemma uart_send_in_order_witness:
  "\<exists>u. uart_inv u \<and> aio_tx_line u = [1, 2, 3]"
proof -
  let ?u = "\<lparr>chAIORxBuf = replicate 1024 0, chAIOTxBuf = replicate 2048 0, uiAIORxIdxStart = 0, uiAIORxIdxEnd = 0,
    uiAIOTxIdxStart = 5, uiAIOTxIdxEnd = 5, bAIOIsOverBufLenght = False, pUART1_IER = ERBFI,
    pUART1_THR = [], sched = []\<rparr>"
  have "uart_inv ?u" by (simp add: uart_inv_def aio_rx_inv_def aio_tx_inv_def ring_ok_def)
  moreover have "aio_tx_line ?u = []" "aio_tx_items ?u = []" by (simp_all add: aio_tx_line_def aio_tx_items_def)
  ultimately show ?thesis using uart_send_in_order [of ?u "[1, 2, 3]"] by auto
qed

section \<open>A send inside a send\<close>

text \<open>The first passes of the loop, while the ring has room: \<open>send_split\<close> shows that the loop is these passes and then
  the loop over the rest.\<close>

primrec send_first :: "bytes \<Rightarrow> uart_st \<Rightarrow> uart_st" where
  "send_first [] u = u"
| "send_first (b # bs) u = send_first bs (AIO_tx_store b (preempt u))"

lemma store_step:
  assumes "uart_inv u" "length (aio_tx_items u) < 2047"
  shows "\<not> IsAIOTxBufFull (uiAIOTxIdxEnd (preempt u)) (preempt u)"
    "uart_inv (AIO_tx_store b (preempt u))" "aio_tx_line (AIO_tx_store b (preempt u)) = aio_tx_line u @ [b]"
    "length (aio_tx_items (AIO_tx_store b (preempt u))) \<le> Suc (length (aio_tx_items u))"
proof -
  note pre = preempt_inv [OF assms(1)]
  have tx: "aio_tx_inv (preempt u)" using pre(1) by (simp add: uart_inv_def)
  show f: "\<not> IsAIOTxBufFull (uiAIOTxIdxEnd (preempt u)) (preempt u)" using full_length [OF tx] pre(3) assms(2) by simp
  show "uart_inv (AIO_tx_store b (preempt u))" "aio_tx_line (AIO_tx_store b (preempt u)) = aio_tx_line u @ [b]"
    "length (aio_tx_items (AIO_tx_store b (preempt u))) \<le> Suc (length (aio_tx_items u))"
    using AIO_tx_store_append [OF tx f, of b] pre by (auto simp: uart_inv_def aio_tx_line_def)
qed

lemma send_first_line:
  assumes "uart_inv u" "length (aio_tx_items u) + length bs \<le> 2047"
  shows "uart_inv (send_first bs u)" "aio_tx_line (send_first bs u) = aio_tx_line u @ bs"
    "length (aio_tx_items (send_first bs u)) \<le> length (aio_tx_items u) + length bs"
  using assms
proof (induction bs arbitrary: u)
  case (Cons b bs)
  have v: "uart_inv (AIO_tx_store b (preempt u))" "aio_tx_line (AIO_tx_store b (preempt u)) = aio_tx_line u @ [b]"
    "length (aio_tx_items (AIO_tx_store b (preempt u))) \<le> Suc (length (aio_tx_items u))"
    "length (aio_tx_items (AIO_tx_store b (preempt u))) + length bs \<le> 2047"
    if "uart_inv u" "length (aio_tx_items u) + length (b # bs) \<le> 2047" for u
    using store_step(2,3,4) [of u b] that by simp_all
  { case 1 then show ?case using Cons.IH(1) [OF v(1) [OF 1] v(4) [OF 1]] by simp }
  { case 2 then show ?case using Cons.IH(2) [OF v(1) [OF 2] v(4) [OF 2]] v(2) [OF 2] by simp }
  { case 3 then show ?case using Cons.IH(3) [OF v(1) [OF 3] v(4) [OF 3]] v(3) [OF 3] by simp }
qed simp_all

lemma send_split:
  "uart_inv u \<Longrightarrow> length (aio_tx_items u) + length as \<le> 2047 \<Longrightarrow>
     AIO_SendBuf_loop (as @ bs) count u = AIO_SendBuf_loop bs count (send_first as u)"
proof (induction as arbitrary: u)
  case (Cons a as)
  let ?v = "AIO_tx_store a (preempt u)"
  have "length (aio_tx_items ?v) + length as \<le> 2047" using store_step(4) [of u a] Cons.prems by simp
  then have "AIO_SendBuf_loop (as @ bs) count ?v = AIO_SendBuf_loop bs count (send_first as ?v)"
    using Cons.IH [of ?v] store_step(2) [of u a] Cons.prems by simp
  then show ?case using store_step(1) [of u] Cons.prems by (simp add: Let_def)
qed simp

lemma aio_tx_items_line: "length (aio_tx_items u) \<le> length (aio_tx_line u)"
  by (simp add: aio_tx_line_def)

text \<open>A send from an interrupt handler cuts a packet in two.  The transmit index is shared and moves with
  every byte, and nothing keeps a handler that sends (the handler of timer 1, which uploads the temperature) from
  interrupting a send of the main loop.  When that happens after the first \<open>as\<close> of the bytes \<open>as @ bs\<close>, and the ring
  has room, then all the bytes \<open>cs\<close> of the handler go out between the two parts: neither packet reaches the MCU as it was
  built.  Without the interruption the loop over \<open>as @ bs\<close> is the same two parts one after the other.\<close>

theorem nested_send_splits:
  assumes "uart_inv u" "length (aio_tx_items u) + length as + length bs + length cs < AIO_UART_COM_TxBUFSIZE"
  shows "AIO_UART_SendBuf (as @ bs) u = AIO_SendBuf_loop bs 0x1000 (send_first as u)
    \<and> aio_tx_line (AIO_SendBuf_loop bs 0x1000 (AIO_UART_SendBuf cs (send_first as u))) = aio_tx_line u @ as @ cs @ bs"
proof -
  have room: "length (aio_tx_items u) + length as \<le> 2047" using assms(2) by simp
  note f = send_first_line [OF assms(1) room]
  define v where "v = AIO_UART_SendBuf cs (send_first as u)"
  have s: "AIO_SendBuf_loop [] 0x1000 (send_first cs (send_first as u)) = v"
    using send_split [OF f(1), of cs "[]" "0x1000"] f(3) assms(2) by (simp add: v_def AIO_UART_SendBuf_def)
  have g: "uart_inv (send_first cs (send_first as u))"
    "aio_tx_line (send_first cs (send_first as u)) = aio_tx_line u @ as @ cs"
    "length (aio_tx_items (send_first cs (send_first as u))) \<le> length (aio_tx_items u) + length as + length cs"
    using send_first_line [OF f(1), of cs] f assms(2) by simp_all
  have v: "uart_inv v" "aio_tx_line v = aio_tx_line u @ as @ cs" "length (aio_tx_items v) + length bs \<le> 2047"
    using g assms(2) unfolding s [symmetric] by (simp_all add: uart_inv_def)
  have "aio_tx_line (AIO_SendBuf_loop bs 0x1000 v) = aio_tx_line v @ bs"
    using AIO_SendBuf_loop_prefix [OF v(1), of bs "0x1000"] v(3) by auto
  then show ?thesis using send_split [OF assms(1) room, of bs "0x1000"] v(2) by (simp add: AIO_UART_SendBuf_def v_def)
qed

lemma nested_send_splits_witness:
  "\<exists>u. aio_tx_line (AIO_SendBuf_loop [3, 4] 0x1000 (AIO_UART_SendBuf [9] (send_first [1, 2] u))) = [1, 2, 9, 3, 4]"
proof -
  let ?u = "\<lparr>chAIORxBuf = replicate 1024 0, chAIOTxBuf = replicate 2048 0, uiAIORxIdxStart = 0, uiAIORxIdxEnd = 0,
    uiAIOTxIdxStart = 5, uiAIOTxIdxEnd = 5, bAIOIsOverBufLenght = False, pUART1_IER = ERBFI,
    pUART1_THR = [], sched = []\<rparr>"
  have "uart_inv ?u" by (simp add: uart_inv_def aio_rx_inv_def aio_tx_inv_def ring_ok_def)
  moreover have "aio_tx_line ?u = []" "aio_tx_items ?u = []" by (simp_all add: aio_tx_line_def aio_tx_items_def)
  ultimately show ?thesis using nested_send_splits [of ?u "[1, 2]" "[3, 4]" "[9]"] by auto
qed

end
