(* ===== verification/Protocol.thy ===== *)
theory Protocol
  imports AioUart
begin

text \<open>
  \<open>AllInOneDSP/src/source/uart_protocol.c\<close> without the dispatcher (theory \<open>Dispatch\<close>): the
  packet format, the CRC, the receiver of one packet and the sender
  \<open>UploadDataByID\<close>.  The receiver is written over a byte source, because
  \<open>Uart_RxPacketCheck\<close> and \<open>SpO2_RxPacketCheck\<close> (module_spo2_uart.c) are the same code over
  two UARTs.
\<close>

section \<open>Packets\<close>

abbreviation UART_AIO_ADDR :: u8 where "UART_AIO_ADDR \<equiv> 0x55"
abbreviation UART_MCU_ADDR :: u8 where "UART_MCU_ADDR \<equiv> 0xAA"
abbreviation UART_SpO2_ADDR :: u8 where "UART_SpO2_ADDR \<equiv> 0xCC"

definition PACKET_FIXED_LENGHT :: nat where "PACKET_FIXED_LENGHT = 6"
definition TRY_MAX_COUNT :: nat where "TRY_MAX_COUNT = 500"
definition DATA_AND_CRC_SIZE :: nat where "DATA_AND_CRC_SIZE = 251"

lemma packet_sizes [simp]: "PACKET_FIXED_LENGHT = 6" "TRY_MAX_COUNT = 500" "DATA_AND_CRC_SIZE = 251"
  by (simp_all add: PACKET_FIXED_LENGHT_def TRY_MAX_COUNT_def DATA_AND_CRC_SIZE_def)

record UartProtocolPacket =
  DR_Addr :: u8
  SR_Addr :: u8
  PacketNum :: u8
  PacketID :: u8
  PLength :: u8
  DataAndCRC :: bytes

definition zero_packet :: UartProtocolPacket where
  "zero_packet = \<lparr>DR_Addr = 0, SR_Addr = 0, PacketNum = 0, PacketID = 0, PLength = 0,
                  DataAndCRC = replicate DATA_AND_CRC_SIZE 0\<rparr>"

definition InitUartPacketStruct :: UartProtocolPacket where
  "InitUartPacketStruct = zero_packet\<lparr>DR_Addr := UART_MCU_ADDR, SR_Addr := UART_AIO_ADDR\<rparr>"

text \<open>The layout of the struct in memory, which the code sends and checks byte by byte.\<close>

definition packet_bytes :: "UartProtocolPacket \<Rightarrow> bytes" where
  "packet_bytes p = [DR_Addr p, SR_Addr p, PacketNum p, PacketID p, PLength p] @ DataAndCRC p"

section \<open>CRC\<close>

definition crc8_bit :: "u8 \<Rightarrow> u8" where
  "crc8_bit c = (if c AND 0x01 \<noteq> 0 then drop_bit 1 c XOR 0x8C else drop_bit 1 c)"

definition crc8_byte :: "u8 \<Rightarrow> u8 \<Rightarrow> u8" where
  "crc8_byte b c = (crc8_bit ^^ 8) (c XOR b)"

definition crc8 :: "bytes \<Rightarrow> u8 \<Rightarrow> u8" where
  "crc8 ptr len = fold crc8_byte (take (unat len) ptr) 0"

definition CalculatePacketCRC8 :: "UartProtocolPacket \<Rightarrow> u8" where
  "CalculatePacketCRC8 p = crc8 (drop 2 (packet_bytes p)) (3 + PLength p)"

section \<open>Receiving one packet\<close>

text \<open>\<open>for (tryTime = 0; ERROR == Get(&x) && tryTime < n; tryTime++);\<close> calls \<open>Get\<close> up to
  \<open>n + 1\<close> times and leaves \<open>x\<close> alone when all of them fail.\<close>

fun rx_try :: "('u \<Rightarrow> u8 option \<times> 'u) \<Rightarrow> nat \<Rightarrow> u8 \<Rightarrow> 'u \<Rightarrow> u8 \<times> 'u" where
  "rx_try gt n old u =
     (case gt u of
        (Some b, u') \<Rightarrow> (b, u')
      | (None, u') \<Rightarrow> (if n = 0 then (old, u') else rx_try gt (n - 1) old u'))"

declare rx_try.simps [simp del]

fun rx_data :: "('u \<Rightarrow> u8 option \<times> 'u) \<Rightarrow> nat \<Rightarrow> nat \<Rightarrow> nat \<Rightarrow> bytes \<Rightarrow> 'u \<Rightarrow> bytes \<times> 'u" where
  "rx_data gt tries 0 i d u = (d, u)"
| "rx_data gt tries (Suc n) i d u =
     (let (b, u) = rx_try gt tries (d ! i) u in rx_data gt tries n (Suc i) (d[i := b]) u)"

datatype rx_outcome =
    Rx_none
  | Rx_skip
  | Rx_overrun
  | Rx_endless
  | Rx_bad_crc UartProtocolPacket
  | Rx_packet UartProtocolPacket

text \<open>\<open>Length\<close> comes from the line.  Above 250 the loop \<open>for (i = 0; i <= Length; i++)\<close> writes
  past \<open>DataAndCRC[251]\<close>; the model stops there with \<open>Rx_overrun\<close>.  For 255 the loop never ends, because \<open>i\<close> is an
  \<open>u8\<close>: \<open>Rx_endless\<close>.\<close>

definition rx_packet :: "('u \<Rightarrow> u8 option \<times> 'u) \<Rightarrow> nat \<Rightarrow> u8 \<Rightarrow> u8 \<Rightarrow> 'u \<Rightarrow> rx_outcome \<times> 'u" where
  "rx_packet gt tries dr sr u =
     (case gt u of
        (None, u) \<Rightarrow> (Rx_none, u)
      | (Some d, u) \<Rightarrow>
          if d \<noteq> dr then (Rx_skip, u)
          else let (a, u) = rx_try gt tries 0 u in
               if a \<noteq> sr then (Rx_skip, u)
               else let (num, u) = rx_try gt tries 0 u;
                        (pid, u) = rx_try gt tries 0 u;
                        (len, u) = rx_try gt tries 0 u;
                        zeros = replicate DATA_AND_CRC_SIZE 0
                    in if unat len \<ge> DATA_AND_CRC_SIZE
                       then (if len = 255 then Rx_endless else Rx_overrun, snd (rx_data gt tries DATA_AND_CRC_SIZE 0 zeros u))
                       else let (dat, u) = rx_data gt tries (unat len + 1) 0 zeros u;
                                p = \<lparr>DR_Addr = d, SR_Addr = a, PacketNum = num, PacketID = pid,
                                     PLength = len, DataAndCRC = dat\<rparr>
                            in (if DataAndCRC p ! unat len = CalculatePacketCRC8 p
                                then Rx_packet p else Rx_bad_crc p, u))"

definition AIO_get_poll :: "uart_st \<Rightarrow> u8 option \<times> uart_st" where
  "AIO_get_poll u = AIO_UART_GetByte (preempt u)"

record prot_st =
  s_packetNum :: u8
  up_log :: "(u8 \<times> bytes) list"

text \<open>\<open>up_log\<close> is a ghost: the identifier and data of every call of \<open>UploadDataByID\<close>, newest
  first.  No definition reads it.\<close>

record prot_sys = uart_sys +
  prot :: prot_st

text \<open>The handler of a packet may not return, nor may the receiver itself, which is the value \<open>None\<close>.\<close>

definition Uart_RxPacketCheck ::
  "(UartProtocolPacket \<Rightarrow> 'a uart_sys_scheme \<Rightarrow> 'a uart_sys_scheme option) \<Rightarrow> 'a uart_sys_scheme \<Rightarrow> 'a uart_sys_scheme option"
where
  "Uart_RxPacketCheck handler s =
     (let (r, u) = rx_packet AIO_get_poll TRY_MAX_COUNT UART_AIO_ADDR UART_MCU_ADDR (uart s);
          s = s\<lparr>uart := u\<rparr>
      in case r of Rx_packet p \<Rightarrow> handler p s
                 | Rx_overrun \<Rightarrow> Some (raise_fault s)
                 | Rx_endless \<Rightarrow> None
                 | _ \<Rightarrow> Some s)"

section \<open>Sending\<close>

definition upload_packet :: "u8 \<Rightarrow> u8 \<Rightarrow> bool \<Rightarrow> bytes \<Rightarrow> u8 \<Rightarrow> UartProtocolPacket" where
  "upload_packet num pid IsPassData pData lenght =
     (let p = InitUartPacketStruct\<lparr>PacketID := pid\<rparr>;
          p = (if IsPassData
               then p\<lparr>PLength := lenght,
                      DataAndCRC := take (unat lenght) pData @ drop (unat lenght) (DataAndCRC p)\<rparr>
               else p);
          p = p\<lparr>PacketNum := num\<rparr>
      in p\<lparr>DataAndCRC := (DataAndCRC p)[unat (PLength p) := CalculatePacketCRC8 p]\<rparr>)"

definition wire :: "UartProtocolPacket \<Rightarrow> bytes" where
  "wire p = take (unat (PLength p) + PACKET_FIXED_LENGHT) (packet_bytes p)"

text \<open>A length above 250 leaves no room for the CRC in \<open>DataAndCRC\<close>: a fault.\<close>

definition UploadDataByID :: "u8 \<Rightarrow> bool \<Rightarrow> bytes \<Rightarrow> u8 \<Rightarrow> 'a prot_sys_scheme \<Rightarrow> 'a prot_sys_scheme" where
  "UploadDataByID pid IsPassData pData lenght s =
     (if IsPassData \<and> unat lenght \<ge> DATA_AND_CRC_SIZE then raise_fault s
      else let p = upload_packet (s_packetNum (prot s)) pid IsPassData pData lenght
           in s\<lparr>uart := AIO_UART_SendBuf (wire p) (uart s),
                prot := (prot s)\<lparr>s_packetNum := s_packetNum (prot s) + 1,
                                 up_log := (pid, if IsPassData then take (unat lenght) pData else [])
                                           # up_log (prot s)\<rparr>\<rparr>)"

text \<open>The call \<open>UploadDataByID(id, TRUE, pValue, sizeof(pValue))\<close>, the one the modules use.\<close>

definition upload :: "u8 \<Rightarrow> bytes \<Rightarrow> 'a prot_sys_scheme \<Rightarrow> 'a prot_sys_scheme" where
  "upload pid pValue s = UploadDataByID pid True pValue (of_nat (length pValue)) s"

section \<open>The CRC is linear and detects bursts\<close>

lemma bit_8C: "bit (0x8C :: u8) n \<longleftrightarrow> n = 2 \<or> n = 3 \<or> n = 7"
proof (cases "n < 8")
  case True
  then consider "n = 0" | "n = 1" | "n = 2" | "n = 3" | "n = 4" | "n = 5" | "n = 6" | "n = 7" by linarith
  then show ?thesis by cases simp_all
qed (auto dest: bit_imp_le_length)

lemma crc8_bit_alt: "crc8_bit c = drop_bit 1 c XOR (if bit c 0 then 0x8C else 0)"
  by (simp add: crc8_bit_def bit_0 and_one_eq odd_iff_mod_2_eq_one)

lemma bit_crc8_bit: "bit (crc8_bit c) n \<longleftrightarrow> (bit c (n + 1) \<noteq> (bit c 0 \<and> (n = 2 \<or> n = 3 \<or> n = 7)))"
proof -
  have "bit (if bit c 0 then 0x8C else 0 :: u8) n \<longleftrightarrow> bit c 0 \<and> (n = 2 \<or> n = 3 \<or> n = 7)"
    using bit_8C [of n] by (cases "bit c 0") simp_all
  then show ?thesis by (simp only: crc8_bit_alt bit_xor_iff bit_drop_bit_eq comp_apply add.commute [of 1] simp_thms)
qed

lemma crc8_bit_xor: "crc8_bit (a XOR b) = crc8_bit a XOR crc8_bit b"
  by (rule bit_word_eqI) (auto simp: bit_crc8_bit bit_xor_iff)

lemma crc8_bit_0 [simp]: "crc8_bit 0 = 0"
  by (simp add: crc8_bit_def)

lemma crc8_bit_inj: "crc8_bit a = crc8_bit b \<Longrightarrow> a = b"
proof (rule bit_word_eqI)
  fix n assume e: "crc8_bit a = crc8_bit b" and n: "n < LENGTH(8)"
  have bits: "bit a (k + 1) \<noteq> (bit a 0 \<and> (k = 2 \<or> k = 3 \<or> k = 7))
      \<longleftrightarrow> bit b (k + 1) \<noteq> (bit b 0 \<and> (k = 2 \<or> k = 3 \<or> k = 7))" for k
    using e by (simp only: bit_crc8_bit [symmetric])
  have "\<not> bit a 8" "\<not> bit b 8" by (auto dest: bit_imp_le_length)
  then have z: "bit a 0 \<longleftrightarrow> bit b 0" using bits [of 7] by auto
  show "bit a n \<longleftrightarrow> bit b n"
    using z bits [of "n - 1"] by (cases n) auto
qed

lemma crc8_pow_xor: "(crc8_bit ^^ n) (a XOR b) = (crc8_bit ^^ n) a XOR (crc8_bit ^^ n) b"
  by (induction n) (simp_all add: crc8_bit_xor)

lemma crc8_pow_0 [simp]: "(crc8_bit ^^ n) 0 = 0"
  by (induction n) simp_all

lemma crc8_pow_eq: "(crc8_bit ^^ n) a = (crc8_bit ^^ n) b \<longleftrightarrow> a = b"
  by (induction n) (auto dest: crc8_bit_inj)

definition xor_bytes :: "bytes \<Rightarrow> bytes \<Rightarrow> bytes" where
  "xor_bytes xs ys = map2 (XOR) xs ys"

lemma funpow_8: "(f ^^ 8) x = f (f (f (f (f (f (f (f x)))))))"
  by (simp add: numeral_eq_Suc)

lemma crc8_byte_xor: "crc8_byte (a XOR b) (c XOR d) = crc8_byte a c XOR crc8_byte b d"
proof -
  have "(c XOR d) XOR (a XOR b) = (c XOR a) XOR (d XOR b)" by (simp add: ac_simps)
  then show ?thesis by (simp only: crc8_byte_def crc8_pow_xor)
qed

lemma fold_crc8_xor:
  "length xs = length ys \<Longrightarrow>
     fold crc8_byte (xor_bytes xs ys) (c XOR d) = fold crc8_byte xs c XOR fold crc8_byte ys d"
  by (induction xs ys arbitrary: c d rule: list_induct2) (simp_all add: xor_bytes_def crc8_byte_xor)

lemma fold_crc8_zeros: "fold crc8_byte (replicate n 0) c = (crc8_bit ^^ (8 * n)) c"
  by (induction n arbitrary: c)
     (simp_all add: crc8_byte_def funpow_add [symmetric, unfolded comp_def fun_eq_iff] mult_Suc_right add.commute)

lemma crc8_byte_eq: "crc8_byte x c = crc8_byte y d \<longleftrightarrow> c XOR x = d XOR y"
  by (simp add: crc8_byte_def crc8_pow_eq)

lemma xor_right_eq: "(c :: u8) XOR x = d XOR x \<longleftrightarrow> c = d"
  by (metis xor.assoc xor.right_neutral xor_self_eq)

lemma fold_crc8_eq: "fold crc8_byte bs c = fold crc8_byte bs d \<longleftrightarrow> c = d"
  by (induction bs arbitrary: c d) (auto simp: crc8_byte_eq xor_right_eq)

text \<open>A burst spans at most eight consecutive bits on the line (bytes are sent least significant bit
  first): bits \<open>k..7\<close> of one byte and bits \<open>0..k-1\<close> of the next.\<close>

definition burst8 :: "u8 \<Rightarrow> u8 \<Rightarrow> bool" where
  "burst8 d0 d1 \<longleftrightarrow> (d0 \<noteq> 0 \<or> d1 \<noteq> 0) \<and> (\<exists>k \<le> 8. (\<forall>n < k. \<not> bit d0 n) \<and> (\<forall>n \<ge> k. \<not> bit d1 n))"

lemma crc8_pow_shift: "\<forall>n < m. \<not> bit c n \<Longrightarrow> bit ((crc8_bit ^^ m) c) n \<longleftrightarrow> bit c (n + m)"
proof (induction m arbitrary: c n)
  case (Suc m)
  have b: "bit (crc8_bit c) i \<longleftrightarrow> bit c (Suc i)" for i
    using Suc.prems by (simp add: bit_crc8_bit)
  then have "\<forall>n < m. \<not> bit (crc8_bit c) n" using Suc.prems by simp
  from Suc.IH [OF this] b show ?case by (simp add: funpow_Suc_right del: funpow.simps)
qed simp

lemma crc8_pow_low:
  "k + m \<le> 8 \<Longrightarrow> \<forall>n \<ge> k. \<not> bit ((crc8_bit ^^ m) c) n \<Longrightarrow> \<forall>n < m. \<not> bit c n"
proof (induction m arbitrary: c)
  case (Suc m)
  then have low: "\<forall>n < m. \<not> bit (crc8_bit c) n"
    by (simp add: funpow_Suc_right del: funpow.simps)
  have "bit ((crc8_bit ^^ m) (crc8_bit c)) (7 - m) \<longleftrightarrow> bit (crc8_bit c) (7 - m + m)"
    using crc8_pow_shift [OF low] .
  then have "\<not> bit (crc8_bit c) 7"
    using Suc.prems by (simp add: funpow_Suc_right del: funpow.simps)
  moreover have "\<not> bit c 8" by (auto dest: bit_imp_le_length)
  ultimately have c0: "\<not> bit c 0" by (simp add: bit_crc8_bit)
  show ?case
  proof (intro allI impI)
    fix n assume "n < Suc m"
    with low c0 show "\<not> bit c n" by (cases n) (auto simp: bit_crc8_bit)
  qed
qed simp

lemma burst8_crc: "burst8 d0 d1 \<Longrightarrow> (crc8_bit ^^ 8) d0 \<noteq> d1"
proof
  assume "burst8 d0 d1" and e: "(crc8_bit ^^ 8) d0 = d1"
  then obtain k where k: "k \<le> 8" "\<forall>n < k. \<not> bit d0 n" "\<forall>n \<ge> k. \<not> bit d1 n" and nz: "d0 \<noteq> 0 \<or> d1 \<noteq> 0"
    by (auto simp: burst8_def)
  let ?c = "(crc8_bit ^^ k) d0"
  have "(crc8_bit ^^ (8 - k)) ?c = (crc8_bit ^^ (8 - k + k)) d0" by (simp only: funpow_add comp_apply)
  then have "(crc8_bit ^^ (8 - k)) ?c = d1" using e k(1) by simp
  then have low: "\<forall>n < 8 - k. \<not> bit ?c n"
    using crc8_pow_low [of k "8 - k" ?c] k(1,3) by simp
  have "\<not> bit d0 n" for n
  proof (cases "n < k \<or> 8 \<le> n")
    case True
    with k(2) show ?thesis by (auto dest: bit_imp_le_length)
  next
    case False
    then have "\<not> bit ?c (n - k)" using low by auto
    with False crc8_pow_shift [OF k(2)] show ?thesis by simp
  qed
  then have "d0 = 0" by (intro bit_word_eqI) simp
  with e nz show False by simp
qed

lemma fold_crc8_burst:
  assumes "burst8 d0 d1"
  shows "fold crc8_byte (xs @ [a XOR d0, b XOR d1] @ ys) c \<noteq> fold crc8_byte (xs @ [a, b] @ ys) c"
proof -
  let ?c = "fold crc8_byte xs c"
  have "(?c XOR (a XOR d0)) = (?c XOR a) XOR d0" by (simp add: ac_simps)
  then have "crc8_byte (a XOR d0) ?c = crc8_byte a ?c XOR (crc8_bit ^^ 8) d0"
    by (simp only: crc8_byte_def crc8_pow_xor)
  then have "crc8_byte (a XOR d0) ?c XOR (b XOR d1) = (crc8_byte a ?c XOR b) XOR ((crc8_bit ^^ 8) d0 XOR d1)"
    by (simp add: ac_simps)
  moreover have "(crc8_bit ^^ 8) d0 XOR d1 \<noteq> 0"
    using burst8_crc [OF assms] by (metis xor_right_eq xor_self_eq)
  then have "(crc8_byte a ?c XOR b) XOR ((crc8_bit ^^ 8) d0 XOR d1) \<noteq> crc8_byte a ?c XOR b"
    by (metis xor.right_neutral xor.commute xor_right_eq xor.left_neutral)
  ultimately have "crc8_byte (b XOR d1) (crc8_byte (a XOR d0) ?c) \<noteq> crc8_byte b (crc8_byte a ?c)"
    by (simp add: crc8_byte_eq)
  then show ?thesis by (simp add: fold_crc8_eq)
qed

section \<open>The receiver over a byte source\<close>

locale byte_source =
  fixes inv :: "'u \<Rightarrow> bool"
    and items :: "'u \<Rightarrow> bytes"
    and gt :: "'u \<Rightarrow> u8 option \<times> 'u"
  assumes get_byte: "inv u \<Longrightarrow> items u = b # bs \<Longrightarrow> \<exists>u'. gt u = (Some b, u') \<and> inv u' \<and> items u' = bs"
    and get_empty: "inv u \<Longrightarrow> items u = [] \<Longrightarrow> \<exists>u'. gt u = (None, u') \<and> inv u' \<and> items u' = []"
begin

lemma try_byte:
  assumes "inv u" "items u = b # bs"
  obtains u' where "rx_try gt n old u = (b, u')" "inv u'" "items u' = bs"
  using get_byte [OF assms] by (subst (asm) rx_try.simps) auto

lemma try_empty:
  assumes "inv u" "items u = []"
  obtains u' where "rx_try gt n old u = (old, u')" "inv u'" "items u' = []"
proof -
  have "\<exists>u'. rx_try gt n old u = (old, u') \<and> inv u' \<and> items u' = []"
    using assms
  proof (induction n arbitrary: u)
    case 0
    with get_empty [of u] show ?case by (subst rx_try.simps) auto
  next
    case (Suc n)
    from get_empty [OF Suc.prems] obtain u' where "gt u = (None, u')" "inv u'" "items u' = []" by blast
    with Suc.IH [of u'] show ?case by (subst rx_try.simps) simp
  qed
  then show thesis using that by blast
qed

lemma data_bytes:
  "inv u \<Longrightarrow> items u = ds @ rest \<Longrightarrow> i + length ds \<le> length d \<Longrightarrow>
     \<exists>u'. rx_data gt n (length ds) i d u = (take i d @ ds @ drop (i + length ds) d, u') \<and> inv u' \<and> items u' = rest"
proof (induction ds arbitrary: i d u)
  case (Cons b ds)
  from Cons.prems(2) have "items u = b # (ds @ rest)" by simp
  with Cons.prems(1) obtain u1
    where u1: "rx_try gt n (d ! i) u = (b, u1)" "inv u1" "items u1 = ds @ rest"
    by (rule try_byte)
  with Cons.IH [of u1 "Suc i" "d[i := b]"] Cons.prems(3) obtain u' where
    u': "rx_data gt n (length ds) (Suc i) (d[i := b]) u1
         = (take (Suc i) (d[i := b]) @ ds @ drop (Suc i + length ds) (d[i := b]), u')"
    "inv u'" "items u' = rest" by auto
  have "take (Suc i) (d[i := b]) = take i d @ [b]"
    using Cons.prems(3) by (simp add: take_Suc_nth_append)
  with u1 u' show ?case by simp
qed simp

lemma packet_received:
  assumes "inv u" "items u = [dr, sr, num, pid, len] @ ds @ rest"
    and "unat len \<le> 250" "length ds = unat len + 1"
  obtains u' where "inv u'" "items u' = rest"
    and "rx_packet gt n dr sr u =
         (let p = \<lparr>DR_Addr = dr, SR_Addr = sr, PacketNum = num, PacketID = pid, PLength = len,
                   DataAndCRC = ds @ replicate (250 - unat len) 0\<rparr>
          in (if ds ! unat len = CalculatePacketCRC8 p then Rx_packet p else Rx_bad_crc p, u'))"
proof -
  from assms get_byte [of u dr "[sr, num, pid, len] @ ds @ rest"] obtain u1 where
    u1: "gt u = (Some dr, u1)" "inv u1" "items u1 = sr # ([num, pid, len] @ ds @ rest)" by auto
  from u1(2,3) obtain u2 where
    u2: "rx_try gt n 0 u1 = (sr, u2)" "inv u2" "items u2 = [num, pid, len] @ ds @ rest" by (rule try_byte)
  from u2(3) have "items u2 = num # ([pid, len] @ ds @ rest)" by simp
  with u2(2) obtain u3 where
    u3: "rx_try gt n 0 u2 = (num, u3)" "inv u3" "items u3 = [pid, len] @ ds @ rest" by (rule try_byte)
  from u3(3) have "items u3 = pid # ([len] @ ds @ rest)" by simp
  with u3(2) obtain u4 where
    u4: "rx_try gt n 0 u3 = (pid, u4)" "inv u4" "items u4 = [len] @ ds @ rest" by (rule try_byte)
  from u4(3) have "items u4 = len # (ds @ rest)" by simp
  with u4(2) obtain u5 where
    u5: "rx_try gt n 0 u4 = (len, u5)" "inv u5" "items u5 = ds @ rest" by (rule try_byte)
  have "0 + length ds \<le> length (replicate DATA_AND_CRC_SIZE (0 :: u8))" using assms(3,4) by simp
  from data_bytes [OF u5(2,3) this, of n] obtain u6 where
    u6: "rx_data gt n (length ds) 0 (replicate DATA_AND_CRC_SIZE 0) u5
         = (ds @ replicate (250 - unat len) 0, u6)" "inv u6" "items u6 = rest"
    using assms(4) by auto
  show thesis
    by (rule that [OF u6(2,3)])
       (use u1 u2 u3 u4 u5 u6(1) assms(3,4) in
         \<open>simp add: rx_packet_def Let_def nth_append\<close>)
qed

end

text \<open>An invariant the byte getter keeps and a measure it never increases are kept and not
  increased by the receiver, which calls the getter at least once.\<close>

lemma rx_try_measure:
  assumes "\<And>u. I u \<Longrightarrow> I (snd (gt u)) \<and> M (snd (gt u)) \<le> (M u :: nat)"
  shows "I u \<Longrightarrow> I (snd (rx_try gt n old u)) \<and> M (snd (rx_try gt n old u)) \<le> M u"
proof (induction n arbitrary: u)
  case 0
  with assms [of u] show ?case by (subst (1 2) rx_try.simps) (auto split: prod.splits option.splits)
next
  case (Suc n)
  obtain r u' where g: "gt u = (r, u')" by (cases "gt u")
  with assms [of u] Suc.prems have "I u'" "M u' \<le> M u" by simp_all
  with g Suc.IH [of u'] show ?case by (subst (1 2) rx_try.simps) (auto split: option.splits)
qed

lemma rx_data_measure:
  assumes "\<And>u. I u \<Longrightarrow> I (snd (gt u)) \<and> M (snd (gt u)) \<le> (M u :: nat)"
  shows "I u \<Longrightarrow> I (snd (rx_data gt tries n i d u)) \<and> M (snd (rx_data gt tries n i d u)) \<le> M u"
proof (induction n arbitrary: i d u)
  case (Suc n)
  obtain b u' where t: "rx_try gt tries (d ! i) u = (b, u')" by (cases "rx_try gt tries (d ! i) u")
  with rx_try_measure [of I gt M, OF assms Suc.prems, of tries "d ! i"] have "I u'" "M u' \<le> M u" by simp_all
  with t Suc.IH [of u' "Suc i" "d[i := b]"] show ?case by simp
qed simp

lemma rx_packet_measure:
  assumes m: "\<And>u. I u \<Longrightarrow> I (snd (gt u)) \<and> M (snd (gt u)) \<le> (M u :: nat)" and "I u"
  shows "I (snd (rx_packet gt tries dr sr u)) \<and> M (snd (rx_packet gt tries dr sr u)) \<le> M (snd (gt u))"
proof (cases "gt u")
  case (Pair r u1)
  have t: "I (snd (rx_try gt tries 0 u)) \<and> M (snd (rx_try gt tries 0 u)) \<le> M u" if "I u" for u
    using rx_try_measure [of I gt M, OF m that] by simp
  obtain a u2 where 2: "rx_try gt tries 0 u1 = (a, u2)" by (cases "rx_try gt tries 0 u1")
  obtain b u3 where 3: "rx_try gt tries 0 u2 = (b, u3)" by (cases "rx_try gt tries 0 u2")
  obtain c u4 where 4: "rx_try gt tries 0 u3 = (c, u4)" by (cases "rx_try gt tries 0 u3")
  obtain l u5 where 5: "rx_try gt tries 0 u4 = (l, u5)" by (cases "rx_try gt tries 0 u4")
  have i1: "I u1" using m [OF assms(2)] Pair by simp
  have i2: "I u2 \<and> M u2 \<le> M u1" using t [OF i1] 2 by simp
  have i3: "I u3 \<and> M u3 \<le> M u2" using t [of u2] i2 3 by simp
  have i4: "I u4 \<and> M u4 \<le> M u3" using t [of u3] i3 4 by simp
  have i5: "I u5 \<and> M u5 \<le> M u4" using t [of u4] i4 5 by simp
  have "I (snd (rx_data gt tries n i d u5)) \<and> M (snd (rx_data gt tries n i d u5)) \<le> M u5" for n i d
    by (rule rx_data_measure [of I gt M, OF m]) (use i5 in auto)
  then have "I (snd (rx_data gt tries n i d u5)) \<and> M (snd (rx_data gt tries n i d u5)) \<le> M u1" for n i d
    using i2 i3 i4 i5 by (meson le_trans)
  with Pair 2 3 4 5 i1 i2 show ?thesis
    by (cases r) (simp_all add: rx_packet_def Let_def case_prod_beta del: rx_data.simps)
qed

section \<open>What the CRC check accepts\<close>

lemma CalculatePacketCRC8_fold:
  "unat (PLength p) \<le> 250 \<Longrightarrow> CalculatePacketCRC8 p =
     fold crc8_byte ([PacketNum p, PacketID p, PLength p] @ take (unat (PLength p)) (DataAndCRC p)) 0"
proof -
  assume "unat (PLength p) \<le> 250"
  then have "unat (3 + PLength p) = 3 + unat (PLength p)" by (simp add: unat_word_ariths)
  then show ?thesis by (simp add: CalculatePacketCRC8_def crc8_def packet_bytes_def numeral_3_eq_3)
qed

lemma crc_accepts:
  "fold crc8_byte (xs @ [c]) 0 = 0 \<longleftrightarrow> fold crc8_byte xs 0 = c"
proof -
  have "crc8_byte c (fold crc8_byte xs 0) = 0 \<longleftrightarrow> crc8_byte c (fold crc8_byte xs 0) = crc8_byte c c"
    by (simp add: crc8_byte_def)
  also have "\<dots> \<longleftrightarrow> fold crc8_byte xs 0 = c" by (simp only: crc8_byte_eq xor_right_eq)
  finally show ?thesis by simp
qed

lemma packet_crc_accepts:
  assumes "unat (PLength p) \<le> 250" "length ds = unat (PLength p) + 1" "DataAndCRC p = ds @ z"
  shows "ds ! unat (PLength p) = CalculatePacketCRC8 p \<longleftrightarrow>
         fold crc8_byte ([PacketNum p, PacketID p, PLength p] @ ds) 0 = 0"
proof -
  let ?n = "unat (PLength p)"
  have ds: "ds = take ?n ds @ [ds ! ?n]"
    using assms(2) by (metis Suc_eq_plus1 lessI take_Suc_conv_app_nth take_all_iff order_refl)
  have "take ?n (DataAndCRC p) = take ?n ds" using assms(2,3) by simp
  then have c: "CalculatePacketCRC8 p = fold crc8_byte ([PacketNum p, PacketID p, PLength p] @ take ?n ds) 0"
    using CalculatePacketCRC8_fold [OF assms(1)] by simp
  have "fold crc8_byte (([PacketNum p, PacketID p, PLength p] @ take ?n ds) @ [ds ! ?n]) 0 = 0
        \<longleftrightarrow> CalculatePacketCRC8 p = ds ! ?n"
    unfolding c by (rule crc_accepts)
  also have "([PacketNum p, PacketID p, PLength p] @ take ?n ds) @ [ds ! ?n]
             = [PacketNum p, PacketID p, PLength p] @ ds"
    by (subst (3) ds) simp
  finally show ?thesis by auto
qed

section \<open>The AIO receive ring as a byte source\<close>

text \<open>When no interrupt is due the polls of the receiver read the ring undisturbed.\<close>

definition aio_quiet :: "uart_st \<Rightarrow> bool" where
  "aio_quiet u \<longleftrightarrow> aio_rx_inv u \<and> sched u = []"

lemma preempt_quiet: "sched u = [] \<Longrightarrow> preempt u = u"
  by (simp add: preempt_def)

lemma AIO_UART_GetByte_sched: "AIO_UART_GetByte u = (r, u') \<Longrightarrow> sched u' = sched u"
  by (auto simp: AIO_UART_GetByte_def Let_def split: if_splits)

interpretation aio_src: byte_source aio_quiet aio_rx_items AIO_get_poll
proof
  fix u b bs assume u: "aio_quiet u" "aio_rx_items u = b # bs"
  then have "aio_rx_get u \<noteq> None" by (simp add: aio_rx.get_None aio_quiet_def)
  then obtain c u' where g: "aio_rx_get u = Some (c, u')" by auto
  then have e: "AIO_UART_GetByte u = (Some c, u')"
    by (auto simp: aio_rx_get_def split: prod.splits option.splits)
  have "aio_rx_inv u' \<and> aio_rx_items u = c # aio_rx_items u'"
    using aio_rx.get_Some [OF _ g] u(1) by (simp add: aio_quiet_def)
  with u e AIO_UART_GetByte_sched [OF e]
  show "\<exists>u'. AIO_get_poll u = (Some b, u') \<and> aio_quiet u' \<and> aio_rx_items u' = bs"
    by (simp add: AIO_get_poll_def aio_quiet_def preempt_quiet)
next
  fix u assume u: "aio_quiet u" "aio_rx_items u = []"
  then have "aio_rx_get u = None" by (simp add: aio_rx.get_None aio_quiet_def)
  then have "AIO_UART_GetByte u = (None, u)"
    by (auto simp: aio_rx_get_def AIO_UART_GetByte_def Let_def split: if_splits)
  with u show "\<exists>u'. AIO_get_poll u = (None, u') \<and> aio_quiet u' \<and> aio_rx_items u' = []"
    by (simp add: AIO_get_poll_def aio_quiet_def preempt_quiet)
qed

section \<open>The sender\<close>

lemma CalculatePacketCRC8_cong:
  "unat (PLength p) \<le> 250 \<Longrightarrow> PacketNum q = PacketNum p \<Longrightarrow> PacketID q = PacketID p \<Longrightarrow>
     PLength q = PLength p \<Longrightarrow>
     take (unat (PLength p)) (DataAndCRC q) = take (unat (PLength p)) (DataAndCRC p) \<Longrightarrow>
     CalculatePacketCRC8 q = CalculatePacketCRC8 p"
  by (simp add: CalculatePacketCRC8_fold)

lemma wire_upload:
  assumes "unat len \<le> 250" "unat len \<le> length dat"
  obtains c where
    "wire (upload_packet num pid True dat len)
     = [UART_MCU_ADDR, UART_AIO_ADDR, num, pid, len] @ take (unat len) dat @ [c]"
    "c = CalculatePacketCRC8 \<lparr>DR_Addr = UART_MCU_ADDR, SR_Addr = UART_AIO_ADDR, PacketNum = num,
           PacketID = pid, PLength = len, DataAndCRC = take (unat len) dat @ [c] @ replicate (250 - unat len) 0\<rparr>"
proof -
  let ?n = "unat len"
  define q where "q = \<lparr>DR_Addr = UART_MCU_ADDR, SR_Addr = UART_AIO_ADDR, PacketNum = num, PacketID = pid,
     PLength = len, DataAndCRC = take ?n dat @ drop ?n (replicate 251 0)\<rparr>"
  define c where "c = CalculatePacketCRC8 q"
  have q: "upload_packet num pid True dat len = q\<lparr>DataAndCRC := (DataAndCRC q)[?n := c]\<rparr>"
    by (simp add: upload_packet_def q_def c_def InitUartPacketStruct_def zero_packet_def Let_def)
  have u: "(DataAndCRC q)[?n := c] = take ?n dat @ [c] @ replicate (250 - ?n) 0"
  proof -
    have "drop ?n (replicate 251 (0 :: u8)) = 0 # replicate (250 - ?n) 0"
      using assms(1) by (simp add: drop_replicate Suc_diff_le replicate_Suc [symmetric] del: replicate_Suc)
    then show ?thesis using assms(2) by (simp add: q_def list_update_append)
  qed
  have "c = CalculatePacketCRC8 (q\<lparr>DataAndCRC := take ?n dat @ [c] @ replicate (250 - ?n) 0\<rparr>)"
    unfolding c_def using assms by (intro CalculatePacketCRC8_cong) (simp_all add: q_def)
  moreover have "wire (upload_packet num pid True dat len)
     = [UART_MCU_ADDR, UART_AIO_ADDR, num, pid, len] @ take ?n dat @ [c]"
    unfolding q u wire_def packet_bytes_def using assms(2)
    by (simp add: q_def numeral_eq_Suc)
  ultimately show thesis by (intro that [of c]) (simp_all add: q_def)
qed

lemma length_wire: "length (wire p) \<le> 261"
  using unat_lt2p [of "PLength p"] by (simp add: wire_def)

lemma UploadDataByID_frame [simp]:
  "fault (UploadDataByID pid True dat len s) = (fault s \<or> 251 \<le> unat len)"
  "regs (UploadDataByID pid t dat len s) = regs s" "trace (UploadDataByID pid t dat len s) = trace s"
  "tick (UploadDataByID pid t dat len s) = tick s"
  "prot_sys.more (UploadDataByID pid t dat len s) = prot_sys.more s"
  by (simp_all add: UploadDataByID_def Let_def raise_fault_def)

lemma upload_frame [simp]:
  "regs (upload pid dat s) = regs s" "trace (upload pid dat s) = trace s" "tick (upload pid dat s) = tick s"
  "prot_sys.more (upload pid dat s) = prot_sys.more s"
  by (simp_all add: upload_def)

lemma upload_log:
  assumes "length dat \<le> 250"
  shows "up_log (prot (upload pid dat s)) = (pid, dat) # up_log (prot s)"
    "fault (upload pid dat s) = fault s"
    "s_packetNum (prot (upload pid dat s)) = s_packetNum (prot s) + 1"
proof -
  have "unat (of_nat (length dat) :: u8) = length dat"
    using assms by (simp add: unat_of_nat_small)
  with assms show "up_log (prot (upload pid dat s)) = (pid, dat) # up_log (prot s)"
    "fault (upload pid dat s) = fault s" "s_packetNum (prot (upload pid dat s)) = s_packetNum (prot s) + 1"
    by (simp_all add: upload_def UploadDataByID_def Let_def)
qed

lemma AIO_printf_frame [simp]:
  "regs (AIO_printf txt s) = regs s" "trace (AIO_printf txt s) = trace s" "tick (AIO_printf txt s) = tick s"
  "fault (AIO_printf txt s) = fault s" "uart_sys.more (AIO_printf txt s) = uart_sys.more s"
  by (simp_all add: AIO_printf_def Let_def)

lemma AIO_UART_SendBuf_inv: "uart_inv u \<Longrightarrow> uart_inv (AIO_UART_SendBuf bs u)"
  using AIO_SendBuf_loop_prefix by (simp add: AIO_UART_SendBuf_def)

text \<open>A UART at rest whose receive ring holds the given bytes.\<close>

definition uart_holding :: "bytes \<Rightarrow> uart_st" where
  "uart_holding bs = \<lparr>chAIORxBuf = bs @ replicate (1024 - length bs) 0, chAIOTxBuf = replicate 2048 0,
     uiAIORxIdxStart = 0, uiAIORxIdxEnd = length bs, uiAIOTxIdxStart = 0, uiAIOTxIdxEnd = 0,
     bAIOIsOverBufLenght = False, pUART1_IER = ELSI OR ERBFI, pUART1_THR = [], sched = []\<rparr>"

lemma uart_holding:
  assumes "length bs < 1024"
  shows "aio_quiet (uart_holding bs)" "aio_rx_items (uart_holding bs) = bs" "uart_inv (uart_holding bs)"
    "aio_tx_items (uart_holding bs) = []"
  using assms
  by (simp_all add: uart_holding_def aio_quiet_def aio_rx_inv_def ring_ok_def aio_rx_items_def
      ring_items_def uart_inv_def aio_tx_inv_def aio_tx_items_def)

lemma hw_prot [simp]:
  "prot (emit e s) = prot s" "prot (wr r v s) = prot s" "prot (orw r v s) = prot s"
  "prot (andw r v s) = prot s" "prot (ssync s) = prot s" "prot (register_handler i h s) = prot s"
  "prot (raise_fault s) = prot s" "prot (alg_call f xs s) = prot s" "prot (Delay1ms ms s) = prot s"
  "prot (AIO_printf txt s) = prot s"
  by (simp_all add: hw_prims Delay1ms_def AIO_printf_def Let_def)

section \<open>Properties\<close>

text \<open>C4: the CRC of the serial protocol detects every transmission error confined to at most
  eight consecutive bits.  Whatever the receiver is sent after the two address bytes and before or after
  the length byte, if those bytes are a valid packet except for one such burst (in the packet
  number and identifier, or in the data and the CRC byte itself), the receiver consumes exactly
  this frame and reports a wrong CRC, so the packet is never dispatched.  The whole frame is in the receive ring
  when the receiver starts, and no UART interrupt comes while it reads.\<close>

theorem burst_rejected:
  assumes "aio_quiet u" "burst8 d0 d1" "unat len \<le> 250" "length ds = unat len + 1"
    and good: "fold crc8_byte ([num, pid, len] @ ds) 0 = 0"
    and hit: "([num', pid'] = [num XOR d0, pid XOR d1] \<and> ds' = ds) \<or>
              (num' = num \<and> pid' = pid \<and>
               (\<exists>xs a b ys. ds = xs @ [a, b] @ ys \<and> ds' = xs @ [a XOR d0, b XOR d1] @ ys))"
    and "aio_rx_items u = [UART_AIO_ADDR, UART_MCU_ADDR, num', pid', len] @ ds' @ rest"
  shows "\<exists>p u'. rx_packet AIO_get_poll TRY_MAX_COUNT UART_AIO_ADDR UART_MCU_ADDR u = (Rx_bad_crc p, u')
           \<and> aio_rx_items u' = rest"
proof -
  have l: "length ds' = unat len + 1" using hit assms(4) by auto
  have bad: "fold crc8_byte ([num', pid', len] @ ds') 0 \<noteq> 0"
  proof (cases "num' = num XOR d0 \<and> pid' = pid XOR d1 \<and> ds' = ds")
    case True
    then show ?thesis using fold_crc8_burst [OF assms(2), of "[]" num pid "len # ds" 0] good by simp
  next
    case False
    with hit obtain xs a b ys where "num' = num" "pid' = pid" "ds = xs @ [a, b] @ ys"
      "ds' = xs @ [a XOR d0, b XOR d1] @ ys" by auto
    then show ?thesis
      using fold_crc8_burst [OF assms(2), of "[num, pid, len] @ xs" a b ys 0] good by simp
  qed
  let ?p = "\<lparr>DR_Addr = UART_AIO_ADDR, SR_Addr = UART_MCU_ADDR, PacketNum = num', PacketID = pid',
              PLength = len, DataAndCRC = ds' @ replicate (250 - unat len) 0\<rparr>"
  obtain u' where "aio_quiet u'" "aio_rx_items u' = rest" and
    "rx_packet AIO_get_poll TRY_MAX_COUNT UART_AIO_ADDR UART_MCU_ADDR u =
       (let p = ?p in (if ds' ! unat len = CalculatePacketCRC8 p then Rx_packet p else Rx_bad_crc p, u'))"
    by (rule aio_src.packet_received [OF assms(1) assms(7) assms(3) l])
  moreover have "ds' ! unat len \<noteq> CalculatePacketCRC8 ?p"
    using packet_crc_accepts [of ?p ds' "replicate (250 - unat len) 0"] assms(3) l bad by simp
  ultimately show ?thesis by auto
qed

lemma burst_rejected_witness:
  "\<exists>p u'. rx_packet AIO_get_poll TRY_MAX_COUNT UART_AIO_ADDR UART_MCU_ADDR
       (uart_holding [0x55, 0xAA, 7, 0x40, 1, 0x70, 0x7, 0x55]) = (Rx_bad_crc p, u') \<and> aio_rx_items u' = [0x55]"
proof (rule burst_rejected [where ?d0.0 = "0x80" and ?d1.0 = 0 and ds = "[0xF0, 0x7]" and ds' = "[0x70, 0x7]"
      and len = 1 and num = 7 and pid = "0x40" and num' = 7 and pid' = "0x40"])
  have "\<not> bit (0x80 :: u8) n" if "n < 7" for n
  proof -
    from that consider "n = 0" | "n = 1" | "n = 2" | "n = 3" | "n = 4" | "n = 5" | "n = 6" by linarith
    then show ?thesis by cases simp_all
  qed
  then show "burst8 0x80 0" by (simp add: burst8_def exI [of _ 7])
  show "fold crc8_byte ([7, 0x40, 1] @ [0xF0, 0x7]) 0 = 0"
    by (simp add: crc8_byte_def crc8_bit_def funpow_8)
  show "([7, 0x40] = [7 XOR 0x80, 0x40 XOR 0] \<and> [0x70, 0x7] = [0xF0, 0x7]) \<or>
        ((7 :: u8) = 7 \<and> (0x40 :: u8) = 0x40 \<and> (\<exists>xs a b ys. [0xF0, 0x7] = xs @ [a, b] @ ys \<and>
           [0x70, 0x7] = xs @ [a XOR 0x80, b XOR (0 :: u8)] @ ys))"
    by (rule disjI2, simp, rule exI [of _ "[]"], simp)
qed (simp_all add: uart_holding)

text \<open>C24: round trip.  The frame \<open>UploadDataByID\<close> puts on the line for a payload of up to 250
  bytes, read by this protocol's receiver with the addresses of the other side, is accepted and gives
  back the packet number, the identifier, the length and exactly the payload, and the
  receiver has then consumed exactly that frame.  The whole frame is in the receive ring when the receiver
  starts, and no UART interrupt comes while it reads.\<close>

theorem upload_roundtrip:
  assumes "aio_quiet u" "unat len \<le> 250" "unat len \<le> length dat"
    and "aio_rx_items u = wire (upload_packet num pid True dat len) @ rest"
  shows "\<exists>p u'. rx_packet AIO_get_poll TRY_MAX_COUNT UART_MCU_ADDR UART_AIO_ADDR u = (Rx_packet p, u')
           \<and> aio_rx_items u' = rest \<and> PacketNum p = num \<and> PacketID p = pid \<and> PLength p = len
           \<and> take (unat len) (DataAndCRC p) = take (unat len) dat"
proof -
  obtain c where w: "wire (upload_packet num pid True dat len)
      = [UART_MCU_ADDR, UART_AIO_ADDR, num, pid, len] @ take (unat len) dat @ [c]"
    and c: "c = CalculatePacketCRC8 \<lparr>DR_Addr = UART_MCU_ADDR, SR_Addr = UART_AIO_ADDR, PacketNum = num,
        PacketID = pid, PLength = len, DataAndCRC = take (unat len) dat @ [c] @ replicate (250 - unat len) 0\<rparr>"
    by (rule wire_upload [OF assms(2,3)])
  let ?ds = "take (unat len) dat @ [c]"
  let ?p = "\<lparr>DR_Addr = UART_MCU_ADDR, SR_Addr = UART_AIO_ADDR, PacketNum = num, PacketID = pid,
              PLength = len, DataAndCRC = ?ds @ replicate (250 - unat len) 0\<rparr>"
  have i: "aio_rx_items u = [UART_MCU_ADDR, UART_AIO_ADDR, num, pid, len] @ ?ds @ rest"
    and l: "length ?ds = unat len + 1" using assms(3,4) w by simp_all
  obtain u' where "aio_quiet u'" "aio_rx_items u' = rest" and
    "rx_packet AIO_get_poll TRY_MAX_COUNT UART_MCU_ADDR UART_AIO_ADDR u =
       (let p = ?p in (if ?ds ! unat len = CalculatePacketCRC8 p then Rx_packet p else Rx_bad_crc p, u'))"
    by (rule aio_src.packet_received [OF assms(1) i assms(2) l])
  moreover have "?ds ! unat len = CalculatePacketCRC8 ?p"
    using c assms(3) by (simp add: nth_append)
  ultimately show ?thesis using assms(3) by auto
qed

lemma upload_roundtrip_witness:
  "\<exists>p u'. rx_packet AIO_get_poll TRY_MAX_COUNT UART_MCU_ADDR UART_AIO_ADDR
       (uart_holding (wire (upload_packet 9 0xE2 True [0, 5] 2) @ [0xAA])) = (Rx_packet p, u')
     \<and> aio_rx_items u' = [0xAA] \<and> PacketNum p = 9 \<and> PacketID p = 0xE2 \<and> PLength p = 2
     \<and> take (unat (2 :: u8)) (DataAndCRC p) = take (unat (2 :: u8)) [0, 5]"
proof (rule upload_roundtrip)
  have "length (wire (upload_packet 9 0xE2 True [0, 5] 2) @ [0xAA]) < 1024"
    using length_wire [of "upload_packet 9 0xE2 True [0, 5] 2"] by simp
  then show "aio_quiet (uart_holding (wire (upload_packet 9 0xE2 True [0, 5] 2) @ [0xAA]))"
    "aio_rx_items (uart_holding (wire (upload_packet 9 0xE2 True [0, 5] 2) @ [0xAA]))
     = wire (upload_packet 9 0xE2 True [0, 5] 2) @ [0xAA]" by (simp_all only: uart_holding)
qed simp_all

end
