(* ===== verification/Globals.thy ===== *)
theory Globals
  imports Protocol
begin

text \<open>
  The global variables that several modules write (the upload switches, the patient type, the
  work mode, the update mask counters), \<open>external_watchdog.c\<close>, and the sign conversions of
  \<open>common_handle.h\<close>.
\<close>

section \<open>Shared variables\<close>

definition UPDATE_MASK_AIO_TIME_S :: u8 where "UPDATE_MASK_AIO_TIME_S = 5"

record glob_st =
  g_PatientType :: PATIENT_TypeDef
  g_WorkMode :: WorkMode_TypeDef
  g_IsECG_Upload :: bool
  g_IsRESP_Upload :: bool
  g_IsTemp_Upload :: bool
  g_IsCommon_Upload :: bool
  g_IsNIBP_Upload :: bool
  g_IsSpO2_Upload :: bool
  g_spo2_mask_count :: u8
  g_stm32_mask_count :: u8
  ExtWatchDog_status :: bool
  ExtWatchDog_ulNextChangeTime :: u32

text \<open>The last two fields are the function-local statics of \<open>ExtWatchDog_Reset\<close> and \<open>ExtWatchDog_Feed\<close>.\<close>

record glob_sys = prot_sys +
  glob :: glob_st

lemma hw_glob [simp]:
  "glob (emit e s) = glob s" "glob (wr r v s) = glob s" "glob (orw r v s) = glob s"
  "glob (andw r v s) = glob s" "glob (ssync s) = glob s" "glob (register_handler i h s) = glob s"
  "glob (raise_fault s) = glob s" "glob (alg_call f xs s) = glob s" "glob (Delay1ms ms s) = glob s"
  "glob (AIO_printf txt s) = glob s" "glob (UploadDataByID pid t dat len s) = glob s"
  "glob (upload pid dat s) = glob s"
  by (simp_all add: hw_prims Delay1ms_def AIO_printf_def UploadDataByID_def upload_def Let_def)

definition set_uploads :: "bool \<Rightarrow> glob_st \<Rightarrow> glob_st" where
  "set_uploads b g = g\<lparr>g_IsECG_Upload := b, g_IsRESP_Upload := b, g_IsTemp_Upload := b,
                      g_IsCommon_Upload := b, g_IsNIBP_Upload := b\<rparr>"

section \<open>external_watchdog.c\<close>

definition DSP_WATCHDOG_PIN :: u32 where "DSP_WATCHDOG_PIN = PF5"
definition WATCHDOG_TIMEOUT_MS :: u32 where "WATCHDOG_TIMEOUT_MS = 800"

definition ExtWatchDog_IOInit :: "'a hw_sys_scheme \<Rightarrow> 'a hw_sys_scheme" where
  "ExtWatchDog_IOInit s =
     run [andw ''PORTFIO_INEN'' (NOT DSP_WATCHDOG_PIN), orw ''PORTFIO_DIR'' DSP_WATCHDOG_PIN,
          andw ''PORTFIO_EDGE'' (NOT DSP_WATCHDOG_PIN), wr ''PORTFIO_MASKA_CLEAR'' DSP_WATCHDOG_PIN,
          wr ''PORTFIO_CLEAR'' DSP_WATCHDOG_PIN] s"

definition ExtWatchDog_Init :: "'a hw_sys_scheme \<Rightarrow> 'a hw_sys_scheme" where
  "ExtWatchDog_Init s = ExtWatchDog_IOInit s"

definition ExtWatchDog_Reset :: "'a glob_sys_scheme \<Rightarrow> 'a glob_sys_scheme" where
  "ExtWatchDog_Reset s =
     (let s = (if ExtWatchDog_status (glob s) then wr ''PORTFIO_SET'' DSP_WATCHDOG_PIN s
               else wr ''PORTFIO_CLEAR'' DSP_WATCHDOG_PIN s)
      in s\<lparr>glob := (glob s)\<lparr>ExtWatchDog_status := \<not> ExtWatchDog_status (glob s)\<rparr>\<rparr>)"

definition ExtWatchDog_Feed :: "'a glob_sys_scheme \<Rightarrow> 'a glob_sys_scheme" where
  "ExtWatchDog_Feed s =
     (if IsOnTime (ExtWatchDog_ulNextChangeTime (glob s)) (tick s)
      then let s = ExtWatchDog_Reset s
           in s\<lparr>glob := (glob s)\<lparr>ExtWatchDog_ulNextChangeTime := ExtWatchDog_ulNextChangeTime (glob s)
                 + getTickNumberByMS (WATCHDOG_TIMEOUT_MS div 2) (tick s)\<rparr>\<rparr>
      else s)"

lemma tick_ExtWatchDog_Reset [simp]: "tick (ExtWatchDog_Reset s) = tick s"
  by (simp add: ExtWatchDog_Reset_def Let_def)

interpretation wdog: periodic_task
  "\<lambda>s. g_ulTickCount (tick s)" "\<lambda>s. ExtWatchDog_ulNextChangeTime (glob s)"
  "\<lambda>s. getTickNumberByMS (WATCHDOG_TIMEOUT_MS div 2) (tick s)"
  "\<lambda>s. let s = ExtWatchDog_Reset s
       in s\<lparr>glob := (glob s)\<lparr>ExtWatchDog_ulNextChangeTime := ExtWatchDog_ulNextChangeTime (glob s)
             + getTickNumberByMS (WATCHDOG_TIMEOUT_MS div 2) (tick s)\<rparr>\<rparr>"
  "ExtWatchDog_Feed :: 'a glob_sys_scheme \<Rightarrow> 'a glob_sys_scheme"
  by unfold_locales
     (simp_all add: ExtWatchDog_Feed_def IsOnTime_on_time ExtWatchDog_Reset_def Let_def)

section \<open>The sign conversions of common_handle.h\<close>

definition s32_to_s24 :: "s32 \<Rightarrow> u32" where
  "s32_to_s24 Data32 =
     (if Data32 AND 0x80000000 \<noteq> 0 then (Data32 AND 0x00FFFFFF) OR 0x00800000
      else Data32 AND 0x007FFFFF)"

definition s24_to_s32 :: "u32 \<Rightarrow> s32" where
  "s24_to_s32 Data24 =
     (if Data24 AND 0x00800000 \<noteq> 0 then - ((NOT Data24 + 1) AND 0x007FFFFF) else Data24)"

section \<open>The watchdog is fed in time\<close>

text \<open>The watchdog calls of successive passes of the main loop, \<open>k\<close> timer interrupts apart.\<close>

fun feed_run :: "nat list \<Rightarrow> 'a glob_sys_scheme \<Rightarrow> 'a glob_sys_scheme" where
  "feed_run [] s = s"
| "feed_run (k # ks) s = feed_run ks (ExtWatchDog_Feed (timer_ticks k s))"

abbreviation feed_period :: "'a tick_sys_scheme \<Rightarrow> nat" where
  "feed_period s \<equiv> unat (getTickNumberByMS (WATCHDOG_TIMEOUT_MS div 2) (tick s))"

lemma feed_step:
  assumes "ExtWatchDog_ulNextChangeTime (glob s) = g_ulTickCount (tick s) + of_nat r"
    "0 < r" "r \<le> feed_period s" "feed_period s < 2 ^ 31" "k \<le> feed_period s"
  defines "t \<equiv> ExtWatchDog_Feed (timer_ticks k s)"
  shows "feed_period t = feed_period s"
    "ExtWatchDog_ulNextChangeTime (glob t) = g_ulTickCount (tick t) + of_nat (if k < r then r - k else r + feed_period s - k)"
    "length (trace t) = length (trace s) + (if k < r then 0 else 1)"
    "ExtWatchDog_status (glob t) = (ExtWatchDog_status (glob s) = (k < r))"
proof -
  let ?n = "g_ulTickCount (tick s)" and ?P = "feed_period s" and ?s = "timer_ticks k s"
  have s: "g_ulTickCount (tick ?s) = ?n + of_nat k" "feed_period ?s = ?P" "trace ?s = trace s" "glob ?s = glob s"
    by (simp_all add: timer_ticks_def ticks_ISR_pow getTickNumberByMS_def)
  have due: "IsOnTime (ExtWatchDog_ulNextChangeTime (glob ?s)) (tick ?s) \<longleftrightarrow> r \<le> k"
  proof (cases "r \<le> k")
    case True
    then have "?n + of_nat k - (?n + of_nat r) = (of_nat (k - r) :: u32)" by (simp add: of_nat_diff)
    moreover have "unat (of_nat (k - r) :: u32) = k - r" using assms by (intro unat_of_nat_small) simp
    ultimately have "on_time (?n + of_nat k) (?n + of_nat r)" using assms by (intro on_time_late) simp
    with True show ?thesis by (simp add: IsOnTime_on_time s assms(1))
  next
    case False
    have "unat (of_nat (r - k) :: u32) = r - k" using assms by (intro unat_of_nat_small) simp
    with False assms have "\<not> on_time (?n + of_nat k) (?n + of_nat k + of_nat (r - k))"
      by (intro not_on_time_early) simp_all
    with False show ?thesis by (simp add: IsOnTime_on_time s assms(1) of_nat_diff)
  qed
  show "feed_period t = feed_period s"
    using s(2) by (simp add: t_def ExtWatchDog_Feed_def Let_def)
  show "length (trace t) = length (trace s) + (if k < r then 0 else 1)"
    using due s by (auto simp: t_def ExtWatchDog_Feed_def ExtWatchDog_Reset_def Let_def hw_prims)
  show "ExtWatchDog_status (glob t) = (ExtWatchDog_status (glob s) = (k < r))"
    using due s by (auto simp: t_def ExtWatchDog_Feed_def ExtWatchDog_Reset_def Let_def)
  have "getTickNumberByMS (WATCHDOG_TIMEOUT_MS div 2) (tick ?s) = of_nat ?P"
    unfolding s(2) [symmetric] by simp
  then show "ExtWatchDog_ulNextChangeTime (glob t)
      = g_ulTickCount (tick t) + of_nat (if k < r then r - k else r + ?P - k)"
    using due s assms by (auto simp: t_def ExtWatchDog_Feed_def ExtWatchDog_Reset_def Let_def of_nat_diff)
qed

text \<open>As long as no pass of the main loop takes longer than half the timeout (400 ms), the
  watchdog pin changes its level exactly once per 400 ms, however the passes fall: the number of
  pin writes after any run is the number of 400 ms deadlines that have gone by.\<close>

theorem watchdog_toggles:
  assumes "ExtWatchDog_ulNextChangeTime (glob s) = g_ulTickCount (tick s) + of_nat r"
    "0 < r" "r \<le> feed_period s" "feed_period s < 2 ^ 31" "list_all (\<lambda>k. k \<le> feed_period s) ks"
  shows "length (trace (feed_run ks s)) = length (trace s) + 
           (if sum_list ks < r then 0 else (sum_list ks - r) div feed_period s + 1)"
  using assms
proof (induction ks arbitrary: s r)
  case (Cons k ks)
  let ?t = "ExtWatchDog_Feed (timer_ticks k s)" and ?P = "feed_period s"
  let ?r = "if k < r then r - k else r + ?P - k"
  have k: "k \<le> ?P" using Cons.prems(5) by simp
  note st = feed_step [OF Cons.prems(1-4) k]
  have "0 < ?r" "?r \<le> feed_period ?t" "feed_period ?t < 2 ^ 31" "list_all (\<lambda>k. k \<le> feed_period ?t) ks"
    using Cons.prems k st(1) by (auto simp: list_all_iff)
  from Cons.IH [OF st(2) this] have ih: "length (trace (feed_run ks ?t)) = length (trace s) + (if k < r then 0 else 1)
     + (if sum_list ks < ?r then 0 else (sum_list ks - ?r) div ?P + 1)"
    unfolding st(1,3) .
  show ?case
  proof (cases "k < r")
    case True
    with ih show ?thesis by (auto simp: algebra_simps)
  next
    case False
    have "sum_list ks < r + ?P - k \<Longrightarrow> (k + sum_list ks - r) div ?P = 0" using False by (intro div_less) linarith
    moreover have "\<not> sum_list ks < r + ?P - k \<Longrightarrow>
        (k + sum_list ks - r) div ?P = (sum_list ks - (r + ?P - k)) div ?P + 1"
      using False k Cons.prems(2,3) by (subst le_div_geq) (auto simp: add.commute)
    ultimately show ?thesis using ih False by simp
  qed
qed simp

lemma watchdog_toggles_witness:
  "\<exists>s :: glob_sys. length (trace (feed_run [2000, 2000, 4000, 3999] s)) = length (trace s) + 2"
proof -
  let ?s = "(undefined :: glob_sys)\<lparr>tick := \<lparr>g_ulTickCount = 0xFFFFFFFF, sCountDownTimer = [], g_u8TickN10us = 10\<rparr>,
    glob := (undefined :: glob_st)\<lparr>ExtWatchDog_ulNextChangeTime := 0xFFFFFFFF + of_nat 4000\<rparr>\<rparr>"
  have p: "feed_period ?s = 4000" by (simp add: getTickNumberByMS_def WATCHDOG_TIMEOUT_MS_def)
  let ?ks = "[2000, 2000, 4000, 3999] :: nat list"
  have "length (trace (feed_run ?ks ?s)) = length (trace ?s) + (if sum_list ?ks < 4000 then 0 else (sum_list ?ks - 4000) div 4000 + 1)"
    by (rule watchdog_toggles [of ?s 4000 ?ks, unfolded p]) (simp_all del: of_nat_numeral)
  then have "length (trace (feed_run ?ks ?s)) = length (trace ?s) + 2" by (simp del: feed_run.simps)
  then show ?thesis by (rule exI)
qed

end
