(* ===== verification/Twi.thy ===== *)
theory Twi
  imports Globals
begin

text \<open>
  \<open>AllInOneDSP/src/source/system_twi.c\<close>: the two-wire bus master.  The controller's
  status bits are inputs: for each wait loop to come, how often the flag is polled before it is
  set (\<open>twi_polls\<close>), the received bytes (\<open>twi_rx\<close>), whether a master error is pending
  (\<open>twi_merr\<close>) and the level of SDA (\<open>twi_sda\<close>).  An empty list stands for the undisturbed bus.
  \<open>twi_log\<close> is a ghost, newest first: what each call was asked to transfer and what it returned.
\<close>

section \<open>State\<close>

datatype twi_op =
    TwiWrite u16 bytes int
  | TwiRead u16 nat int

record twi_st =
  g_u8PRESCALE :: u8
  twi_polls :: "nat list"
  twi_rx :: bytes
  twi_merr :: "bool list"
  twi_sda :: "bool list"
  twi_log :: "twi_op list"

record twi_sys = glob_sys +
  twi :: twi_st

lemma hw_twi [simp]:
  "twi (emit e s) = twi s" "twi (wr r v s) = twi s" "twi (orw r v s) = twi s"
  "twi (andw r v s) = twi s" "twi (ssync s) = twi s" "twi (register_handler i h s) = twi s"
  "twi (raise_fault s) = twi s" "twi (alg_call f xs s) = twi s" "twi (Delay1ms ms s) = twi s"
  "twi (AIO_printf msg s) = twi s" "twi (UploadDataByID pid t dat len s) = twi s"
  "twi (upload pid dat s) = twi s" "twi (ExtWatchDog_Reset s) = twi s" "twi (ExtWatchDog_Feed s) = twi s"
  by (simp_all add: hw_prims Delay1ms_def AIO_printf_def UploadDataByID_def upload_def
      ExtWatchDog_Reset_def ExtWatchDog_Feed_def Let_def)

abbreviation MEN :: u32 where "MEN \<equiv> 0x0001"
abbreviation MDIR :: u32 where "MDIR \<equiv> 0x0004"
abbreviation FAST :: u32 where "FAST \<equiv> 0x0008"
abbreviation DCNT :: u32 where "DCNT \<equiv> 0x3FC0"
abbreviation SDAOVR :: u32 where "SDAOVR \<equiv> 0x4000"
abbreviation SCLOVR :: u32 where "SCLOVR \<equiv> 0x8000"
abbreviation MCOMP :: u32 where "MCOMP \<equiv> 0x10"
abbreviation MERR :: u32 where "MERR \<equiv> 0x20"
abbreviation XMTSERV :: u32 where "XMTSERV \<equiv> 0x40"
abbreviation RCVSERV :: u32 where "RCVSERV \<equiv> 0x80"

definition TWICount :: "u16 \<Rightarrow> u32" where
  "TWICount x = DCNT AND push_bit 6 (ucast x)"

section \<open>Initialisation\<close>

definition TWI_Init :: "'a twi_sys_scheme \<Rightarrow> 'a twi_sys_scheme" where
  "TWI_Init s =
     run [wr ''TWI_CONTROL'' (0x80 OR ucast (g_u8PRESCALE (twi s))),
          wr ''TWI_CLKDIV'' (push_bit 8 10 OR 21),
          wr ''TWI_INT_MASK'' (RCVSERV OR XMTSERV OR MERR OR MCOMP),
          wr ''TWI_FIFO_CTL'' (1 OR 2), ssync] s"

definition SystemTWI_Init :: "'a twi_sys_scheme \<Rightarrow> 'a twi_sys_scheme" where
  "SystemTWI_Init s =
     TWI_Init (s\<lparr>twi := (twi s)\<lparr>g_u8PRESCALE := ucast ((getSystemCLK s + 10000000 div 2) div 10000000)\<rparr>\<rparr>)"

section \<open>Inputs\<close>

definition next_sda :: "'a twi_sys_scheme \<Rightarrow> bool \<times> 'a twi_sys_scheme" where
  "next_sda s = (case twi_sda (twi s) of [] \<Rightarrow> (False, s)
     | b # bs \<Rightarrow> (b, s\<lparr>twi := (twi s)\<lparr>twi_sda := bs\<rparr>\<rparr>))"

definition next_merr :: "'a twi_sys_scheme \<Rightarrow> bool \<times> 'a twi_sys_scheme" where
  "next_merr s = (case twi_merr (twi s) of [] \<Rightarrow> (False, s)
     | b # bs \<Rightarrow> (b, s\<lparr>twi := (twi s)\<lparr>twi_merr := bs\<rparr>\<rparr>))"

definition next_rx :: "'a twi_sys_scheme \<Rightarrow> u8 \<times> 'a twi_sys_scheme" where
  "next_rx s = (case twi_rx (twi s) of [] \<Rightarrow> (0xFF, s)
     | b # bs \<Rightarrow> (b, s\<lparr>twi := (twi s)\<lparr>twi_rx := bs\<rparr>\<rparr>))"

text \<open>\<open>while (!ready && --timeout > 0) ssync();\<close> over the number of polls that find the flag clear;
  the value is \<open>timeout\<close> after the loop.\<close>

fun twi_wait :: "nat \<Rightarrow> nat \<Rightarrow> nat" where
  "twi_wait 0 k = 0"
| "twi_wait (Suc t) 0 = Suc t"
| "twi_wait (Suc t) (Suc k) = twi_wait t k"

lemma twi_wait: "twi_wait t k = t - k"
  by (induction t k rule: twi_wait.induct) simp_all

definition wait_flag :: "'a twi_sys_scheme \<Rightarrow> nat \<times> 'a twi_sys_scheme" where
  "wait_flag s = (case twi_polls (twi s) of [] \<Rightarrow> (twi_wait 0x1000 0, s)
     | k # ks \<Rightarrow> (twi_wait 0x1000 k, s\<lparr>twi := (twi s)\<lparr>twi_polls := ks\<rparr>\<rparr>))"

section \<open>Freeing the bus\<close>

text \<open>\<open>do { clock } while (SDASEN && cnt++ < 8)\<close>, from a given \<open>cnt\<close>; the first component is \<open>cnt\<close> after it.\<close>

function ClrSclSda_loop :: "nat \<Rightarrow> 'a twi_sys_scheme \<Rightarrow> nat \<times> 'a twi_sys_scheme" where
  "ClrSclSda_loop cnt s =
     (let s = run [wr ''TWI_MASTER_CTL'' SCLOVR, Delay1ms 6, wr ''TWI_MASTER_CTL'' 0, Delay1ms 6] s;
          (sda, s) = next_sda s
      in if sda then (if cnt < 8 then ClrSclSda_loop (cnt + 1) s else (cnt + 1, s)) else (cnt, s))"
  by pat_completeness auto
termination
  by (relation "measure (\<lambda>(cnt, s). 9 - cnt)") auto

declare ClrSclSda_loop.simps [simp del]

definition ClrSclSda :: "'a twi_sys_scheme \<Rightarrow> bool \<times> 'a twi_sys_scheme" where
  "ClrSclSda s =
     (let (cnt, s) = ClrSclSda_loop 0 s;
          s = run [wr ''TWI_MASTER_CTL'' (SDAOVR OR SCLOVR), Delay1ms 6, wr ''TWI_MASTER_CTL'' SDAOVR,
                   Delay1ms 6, wr ''TWI_MASTER_CTL'' 0] s;
          (sda, s) = next_sda s
      in (\<not> (sda \<or> cnt = 8), s))"

section \<open>Reading\<close>

definition twi_note :: "twi_op \<Rightarrow> 'a twi_sys_scheme \<Rightarrow> 'a twi_sys_scheme" where
  "twi_note e s = s\<lparr>twi := (twi s)\<lparr>twi_log := e # twi_log (twi s)\<rparr>\<rparr>"

fun TWI_read_bytes :: "nat \<Rightarrow> 'a twi_sys_scheme \<Rightarrow> bytes \<times> bool \<times> 'a twi_sys_scheme" where
  "TWI_read_bytes 0 s = ([], True, s)"
| "TWI_read_bytes (Suc n) s =
     (let (timeout, s) = wait_flag s;
          (b, s) = next_rx s;
          s = ssync s
      in if timeout = 0
         then ([b], False, AIO_printf (crnl @ str ''[TWI]TWI READ RCV FIFO EMPTY Timeout ERROR!'') s)
         else let (bs, ok, s) = TWI_read_bytes n s in (b # bs, ok, s))"

text \<open>The result is the returned value and the bytes stored through the pointer, which are fewer
  than asked for after a timeout.\<close>

definition TWI_MasterMode_Read :: "u16 \<Rightarrow> nat \<Rightarrow> 'a twi_sys_scheme \<Rightarrow> int \<times> bytes \<times> 'a twi_sys_scheme" where
  "TWI_MasterMode_Read DeviceAddr TWI_Length s =
     (let s = run [wr ''TWI_MASTER_ADDR'' (ucast (drop_bit 1 DeviceAddr)), wr ''TWI_FIFO_CTL'' 0,
                   wr ''TWI_MASTER_CTL'' (TWICount (of_nat TWI_Length) OR MEN OR MDIR OR FAST), ssync] s;
          (bs, ok, s) = TWI_read_bytes TWI_Length s
      in if \<not> ok then (- 1, bs, twi_note (TwiRead DeviceAddr TWI_Length (- 1)) s)
         else let (timeout, s) = wait_flag s
              in if timeout = 0
                 then (- 2, bs, twi_note (TwiRead DeviceAddr TWI_Length (- 2))
                         (AIO_printf (crnl @ str ''[TWI]TWI READ WAIT MCOMP Timeout ERROR!'') s))
                 else (int TWI_Length, bs, twi_note (TwiRead DeviceAddr TWI_Length (int TWI_Length))
                         (wr ''TWI_INT_STAT'' (RCVSERV OR MCOMP) s)))"

section \<open>Writing\<close>

text \<open>The bytes after the first of one transfer; \<open>False\<close> when the FIFO stays full.\<close>

fun TWI_write_bytes :: "bytes \<Rightarrow> 'a twi_sys_scheme \<Rightarrow> bool \<times> 'a twi_sys_scheme" where
  "TWI_write_bytes [] s = (True, s)"
| "TWI_write_bytes (b # bs) s =
     (let (timeout, s) = wait_flag s
      in if timeout = 0
         then (False, AIO_printf (crnl @ str ''[TWI]TWI WRITE WAIT XMTSERV Timeout ERROR!'') s)
         else TWI_write_bytes bs (run [wr ''TWI_XMT_DATA8'' (ucast b), ssync] s))"

text \<open>\<open>Count\<close> transfers of \<open>TWI_Length\<close> bytes each, taken in turn from the pointer.\<close>

fun TWI_write_loop :: "nat \<Rightarrow> nat \<Rightarrow> bytes \<Rightarrow> 'a twi_sys_scheme \<Rightarrow> int \<times> 'a twi_sys_scheme" where
  "TWI_write_loop 0 len dat s = (int len, s)"
| "TWI_write_loop (Suc n) len dat s =
     (let s = run [wr ''TWI_XMT_DATA8'' (ucast (hd dat)), ssync,
                   wr ''TWI_MASTER_CTL'' (TWICount (of_nat len) OR FAST OR MEN)] s;
          (ok, s) = TWI_write_bytes (take (len - 1) (tl dat)) s
      in if \<not> ok then (- 1, s)
         else let (timeout, s) = wait_flag s
              in if timeout = 0
                 then (- 2, AIO_printf (crnl @ str ''[TWI]TWI WRITE WAIT MCOMP Timeout ERROR!'') s)
                 else let (merr, s) = next_merr s;
                          s = (if merr then AIO_printf (crnl @ str ''[TWI]TWI WRITE MERR Timeout ERROR!'')
                                              (orw ''TWI_INT_STAT'' MERR s) else s);
                          s = run [wr ''TWI_INT_STAT'' (XMTSERV OR MCOMP), ssync] s
                      in TWI_write_loop n len (drop (len - 1) (tl dat)) s)"

definition TWI_MasterMode_Write :: "u16 \<Rightarrow> bytes \<Rightarrow> nat \<Rightarrow> nat \<Rightarrow> 'a twi_sys_scheme \<Rightarrow> int \<times> 'a twi_sys_scheme" where
  "TWI_MasterMode_Write DeviceAddr dat Count TWI_Length s =
     (let (sda, s) = next_sda s;
          (free, s) = (if sda then ClrSclSda s else (True, s))
      in if \<not> free
         then (- 1, twi_note (TwiWrite DeviceAddr [] (- 1))
                 (AIO_printf (crnl @ str ''[TWI]TWI_MasterMode_Write ClrSclSda ERROR!'') s))
         else let s = run [wr ''TWI_MASTER_ADDR'' (ucast (drop_bit 1 DeviceAddr)), wr ''TWI_FIFO_CTL'' 0] s;
                  (r, s) = TWI_write_loop Count TWI_Length dat s
              in (r, twi_note (TwiWrite DeviceAddr (take (Count * TWI_Length) dat) r) s))"

section \<open>What a transfer leaves alone\<close>

text \<open>A transfer writes bus registers, may wait, and may print: everything a client keeps in its own
  fields, the shared variables and the packet counter stay as they are.\<close>

definition twi_same :: "'a twi_sys_scheme \<Rightarrow> 'a twi_sys_scheme \<Rightarrow> bool" where
  "twi_same s t \<longleftrightarrow> glob t = glob s \<and> prot t = prot s \<and> fault t = fault s
     \<and> twi_sys.more t = twi_sys.more s \<and> g_u8TickN10us (tick t) = g_u8TickN10us (tick s)"

lemma twi_same_refl [simp]: "twi_same s s"
  by (simp add: twi_same_def)

lemma twi_same_trans: "twi_same s t \<Longrightarrow> twi_same t u \<Longrightarrow> twi_same s u"
  by (simp add: twi_same_def)

lemma twi_same_prims [simp]:
  "twi_same s (wr r v t) = twi_same s t" "twi_same s (orw r v t) = twi_same s t"
  "twi_same s (ssync t) = twi_same s t" "twi_same s (Delay1ms ms t) = twi_same s t"
  "twi_same s (AIO_printf msg t) = twi_same s t" "twi_same s (twi_note e t) = twi_same s t"
  "twi_same s (t\<lparr>twi := w\<rparr>) = twi_same s t"
  by (simp_all add: twi_same_def twi_note_def hw_prims Delay1ms_def AIO_printf_def Let_def)

lemma twi_same_inputs [simp]:
  "twi_same s (snd (wait_flag t)) = twi_same s t" "twi_same s (snd (next_rx t)) = twi_same s t"
  "twi_same s (snd (next_merr t)) = twi_same s t" "twi_same s (snd (next_sda t)) = twi_same s t"
  by (simp_all add: wait_flag_def next_rx_def next_merr_def next_sda_def split: list.splits)

lemma TWI_read_bytes_same [simp]: "twi_same s (snd (snd (TWI_read_bytes n t))) = twi_same s t"
  by (induction n arbitrary: t) (simp_all add: case_prod_beta Let_def)

lemma TWI_write_bytes_same [simp]: "twi_same s (snd (TWI_write_bytes bs t)) = twi_same s t"
  by (induction bs arbitrary: t) (simp_all add: case_prod_beta Let_def)

lemma TWI_write_loop_same [simp]: "twi_same s (snd (TWI_write_loop n len dat t)) = twi_same s t"
  by (induction n arbitrary: dat t) (simp_all add: case_prod_beta Let_def)

lemma ClrSclSda_loop_same [simp]: "twi_same s (snd (ClrSclSda_loop cnt t)) = twi_same s t"
proof (induction "9 - cnt" arbitrary: cnt t rule: less_induct)
  case less
  let ?t0 = "run [wr ''TWI_MASTER_CTL'' SCLOVR, Delay1ms 6, wr ''TWI_MASTER_CTL'' 0, Delay1ms 6] t"
  obtain b t' where n: "next_sda ?t0 = (b, t')" by (cases "next_sda ?t0")
  have "twi_same s (snd (next_sda ?t0)) = twi_same s t" by simp
  then have t': "twi_same s t' = twi_same s t" unfolding n by simp
  show ?case
  proof (cases "cnt < 8")
    case True
    with less.hyps [of "cnt + 1" t'] n t' show ?thesis by (subst ClrSclSda_loop.simps) (simp add: Let_def)
  qed (use n t' in \<open>subst ClrSclSda_loop.simps, simp add: Let_def\<close>)
qed

lemma ClrSclSda_same [simp]: "twi_same s (snd (ClrSclSda t)) = twi_same s t"
  by (simp add: ClrSclSda_def case_prod_beta Let_def)

lemma TWI_MasterMode_Write_same [simp]: "twi_same s (snd (TWI_MasterMode_Write d dat n len t)) = twi_same s t"
  by (simp add: TWI_MasterMode_Write_def case_prod_beta Let_def)

lemma TWI_MasterMode_Read_same [simp]: "twi_same s (snd (snd (TWI_MasterMode_Read d len t))) = twi_same s t"
  by (simp add: TWI_MasterMode_Read_def case_prod_beta Let_def)

end
