(* ===== verification/Spo2.thy ===== *)
theory Spo2
  imports Twi
begin

text \<open>
  \<open>AllInOneDSP/src/source/module_spo2_uart.c\<close>: UART0 to the oxygen saturation board, its rings,
  the receiver of the board's packets, which are passed on to the control unit, the supervision of
  the board, and the switch that silences the other modules while the board is being
  updated.  Interrupts are scheduled as in theory \<open>AioUart\<close>.
\<close>

section \<open>State\<close>

definition SpO2_UART_COM_RxBUFSIZE :: nat where "SpO2_UART_COM_RxBUFSIZE = 1024"
definition SpO2_UART_COM_TxBUFSIZE :: nat where "SpO2_UART_COM_TxBUFSIZE = 1024"
definition SpO2_RX_TRY_COUNT :: nat where "SpO2_RX_TRY_COUNT = 1000"
definition UART0_BAUD_RATE :: u32 where "UART0_BAUD_RATE = 115200"

lemma SpO2_sizes [simp]: "SpO2_UART_COM_RxBUFSIZE = 1024" "SpO2_UART_COM_TxBUFSIZE = 1024"
  "SpO2_RX_TRY_COUNT = 1000"
  by (simp_all add: SpO2_UART_COM_RxBUFSIZE_def SpO2_UART_COM_TxBUFSIZE_def SpO2_RX_TRY_COUNT_def)

record spo2_uart_st =
  chSpO2RxBuf :: bytes
  chSpO2TxBuf :: bytes
  u32SpO2RxPopIndex :: nat
  u32SpO2RxPushIndex :: nat
  uiSpO2TxIdxStart :: nat
  uiSpO2TxIdxEnd :: nat
  pUART0_IER :: u32
  pUART0_THR :: bytes
  spo2_sched :: "uart_event list list"

record spo2_st =
  spo2_uart :: spo2_uart_st
  g_is_aio_spo2_error :: u8
  g_spo2_test_tick :: u32
  SpO2_ResetMask_ulNextChangeTime :: u32

record spo2_sys = twi_sys +
  spo2 :: spo2_st

lemma hw_spo2 [simp]:
  "spo2 (emit e s) = spo2 s" "spo2 (wr r v s) = spo2 s" "spo2 (orw r v s) = spo2 s"
  "spo2 (andw r v s) = spo2 s" "spo2 (ssync s) = spo2 s" "spo2 (register_handler i h s) = spo2 s"
  "spo2 (raise_fault s) = spo2 s" "spo2 (alg_call f xs s) = spo2 s" "spo2 (Delay1ms ms s) = spo2 s"
  "spo2 (AIO_printf txt s) = spo2 s" "spo2 (UploadDataByID pid t dat len s) = spo2 s"
  "spo2 (upload pid dat s) = spo2 s" "spo2 (ExtWatchDog_Reset s) = spo2 s" "spo2 (ExtWatchDog_Feed s) = spo2 s"
  by (simp_all add: hw_prims Delay1ms_def AIO_printf_def UploadDataByID_def upload_def
      ExtWatchDog_Reset_def ExtWatchDog_Feed_def Let_def)

section \<open>Initialisation\<close>

definition UART0_Init :: "'a hw_sys_scheme \<Rightarrow> 'a hw_sys_scheme" where
  "UART0_Init s =
     run [orw ''PORTG_FER'' 0x0600, ssync, orw ''PORTG_MUX'' 0x400, ssync,
          \<lambda>s. snd (UartSetBitrate 0 UART0_BAUD_RATE s)] s"

definition Init_UART0_Interrupts :: "'a hw_sys_scheme \<Rightarrow> 'a hw_sys_scheme" where
  "Init_UART0_Interrupts s =
     run [\<lambda>s. wr ''SIC_IMASK0'' (regs s ''SIC_IMASK0'' OR push_bit 22 1 OR push_bit 23 1) s,
          \<lambda>s. wr ''SIC_IAR2'' ((regs s ''SIC_IAR2'' AND 0x00FFFFFF) OR 0x44000000) s,
          register_handler 11 H_IVG11_SpO2_UART_ISR] s"

definition SpO2_UART_SetInterrupt :: "spo2_uart_st \<Rightarrow> spo2_uart_st" where
  "SpO2_UART_SetInterrupt u = u\<lparr>pUART0_IER := ELSI OR ERBFI\<rparr>"

definition SpO2_Module_Init :: "'a spo2_sys_scheme \<Rightarrow> 'a spo2_sys_scheme" where
  "SpO2_Module_Init s =
     run [\<lambda>s. s\<lparr>spo2 := (spo2 s)\<lparr>
             spo2_uart := (spo2_uart (spo2 s))\<lparr>u32SpO2RxPopIndex := 0, u32SpO2RxPushIndex := 0,
               uiSpO2TxIdxStart := 0, uiSpO2TxIdxEnd := 0\<rparr>,
             g_is_aio_spo2_error := 0, g_spo2_test_tick := SysTick_Get (tick s)\<rparr>,
           glob := (glob s)\<lparr>g_spo2_mask_count := UPDATE_MASK_AIO_TIME_S + 1, g_IsSpO2_Upload := True\<rparr>\<rparr>,
          UART0_Init, Init_UART0_Interrupts] s"

section \<open>Receive\<close>

definition SpO2RxGetDataLen :: "spo2_uart_st \<Rightarrow> int" where
  "SpO2RxGetDataLen u =
     (let s32Len = int (u32SpO2RxPushIndex u) - int (u32SpO2RxPopIndex u)
      in if s32Len < 0 then s32Len + int SpO2_UART_COM_RxBUFSIZE else s32Len)"

definition SpO2_UART_GetByte :: "spo2_uart_st \<Rightarrow> u8 option \<times> spo2_uart_st" where
  "SpO2_UART_GetByte u =
     (if SpO2RxGetDataLen u \<noteq> 0
      then (Some (chSpO2RxBuf u ! u32SpO2RxPopIndex u),
            u\<lparr>u32SpO2RxPopIndex := (u32SpO2RxPopIndex u + 1) mod SpO2_UART_COM_RxBUFSIZE\<rparr>)
      else (None, u))"

section \<open>The interrupt handler\<close>

definition SpO2_rx_store :: "u8 \<Rightarrow> spo2_uart_st \<Rightarrow> spo2_uart_st" where
  "SpO2_rx_store b u =
     (let u = u\<lparr>chSpO2RxBuf := (chSpO2RxBuf u)[u32SpO2RxPushIndex u := b],
                u32SpO2RxPushIndex := (u32SpO2RxPushIndex u + 1) mod SpO2_UART_COM_RxBUFSIZE\<rparr>
      in if u32SpO2RxPopIndex u = u32SpO2RxPushIndex u
         then u\<lparr>u32SpO2RxPopIndex := (u32SpO2RxPopIndex u + 1) mod SpO2_UART_COM_RxBUFSIZE\<rparr> else u)"

definition SpO2_tx_next :: "spo2_uart_st \<Rightarrow> spo2_uart_st" where
  "SpO2_tx_next u =
     (if uiSpO2TxIdxStart u = uiSpO2TxIdxEnd u
      then u\<lparr>pUART0_IER := pUART0_IER u AND NOT ETBEI\<rparr>
      else let u = u\<lparr>pUART0_THR := pUART0_THR u @ [chSpO2TxBuf u ! uiSpO2TxIdxStart u],
                     uiSpO2TxIdxStart := uiSpO2TxIdxStart u + 1\<rparr>
           in if uiSpO2TxIdxStart u \<ge> SpO2_UART_COM_TxBUFSIZE then u\<lparr>uiSpO2TxIdxStart := 0\<rparr> else u)"

definition IVG11_SpO2_UART_ISR :: "uart_event \<Rightarrow> spo2_uart_st \<Rightarrow> spo2_uart_st" where
  "IVG11_SpO2_UART_ISR ev u =
     (if ev_lsr ev AND DR \<noteq> 0 then SpO2_rx_store (ev_rbr ev) u
      else if ev_lsr ev AND THRE \<noteq> 0 then SpO2_tx_next u
      else u)"

definition spo2_deliver :: "uart_event \<Rightarrow> spo2_uart_st \<Rightarrow> spo2_uart_st" where
  "spo2_deliver ev u =
     (if (ev_lsr ev AND DR \<noteq> 0 \<and> pUART0_IER u AND ERBFI \<noteq> 0)
       \<or> (ev_lsr ev AND THRE \<noteq> 0 \<and> pUART0_IER u AND ETBEI \<noteq> 0)
      then IVG11_SpO2_UART_ISR ev u else u)"

definition spo2_preempt :: "spo2_uart_st \<Rightarrow> spo2_uart_st" where
  "spo2_preempt u =
     (case spo2_sched u of [] \<Rightarrow> u | evs # rest \<Rightarrow> fold spo2_deliver evs (u\<lparr>spo2_sched := rest\<rparr>))"

section \<open>Transmit\<close>

definition IsSpO2TxBufFull :: "nat \<Rightarrow> spo2_uart_st \<Rightarrow> bool" where
  "IsSpO2TxBufFull uiIdxEnd u \<longleftrightarrow>
     uiSpO2TxIdxStart u = 0 \<and> uiIdxEnd = SpO2_UART_COM_TxBUFSIZE - 1
     \<or> uiSpO2TxIdxStart u = uiIdxEnd + 1"

definition spo2_set_ETBEI :: "spo2_uart_st \<Rightarrow> spo2_uart_st" where
  "spo2_set_ETBEI u = u\<lparr>pUART0_IER := pUART0_IER u OR ETBEI\<rparr>"

text \<open>Both senders wait without bound; \<open>None\<close> is a wait that never ends.\<close>

partial_function (option) SpO2_SendByte_wait :: "spo2_uart_st \<Rightarrow> spo2_uart_st option" where
  "SpO2_SendByte_wait u =
     (let u' = spo2_preempt u in
      if IsSpO2TxBufFull (uiSpO2TxIdxEnd u') u' then SpO2_SendByte_wait (spo2_set_ETBEI u') else Some u')"

definition SpO2_UART_SendByte :: "u8 \<Rightarrow> spo2_uart_st \<Rightarrow> spo2_uart_st option" where
  "SpO2_UART_SendByte chByte u =
     map_option (\<lambda>u. spo2_set_ETBEI
        (u\<lparr>chSpO2TxBuf := (chSpO2TxBuf u)[uiSpO2TxIdxEnd u := chByte],
           uiSpO2TxIdxEnd := (if uiSpO2TxIdxEnd u < SpO2_UART_COM_TxBUFSIZE - 1
                              then uiSpO2TxIdxEnd u + 1 else 0)\<rparr>))
       (SpO2_SendByte_wait u)"

partial_function (option) SpO2_SendBuf_loop :: "bytes \<Rightarrow> nat \<Rightarrow> spo2_uart_st \<Rightarrow> (nat \<times> spo2_uart_st) option" where
  "SpO2_SendBuf_loop bs uiIdxTemp u =
     (case bs of
        [] \<Rightarrow> Some (uiIdxTemp, u)
      | b # rest \<Rightarrow>
          let u' = spo2_preempt u in
          if IsSpO2TxBufFull uiIdxTemp u' then SpO2_SendBuf_loop bs uiIdxTemp (spo2_set_ETBEI u')
          else SpO2_SendBuf_loop rest
                 (if uiIdxTemp + 1 \<ge> SpO2_UART_COM_TxBUFSIZE then 0 else uiIdxTemp + 1)
                 (u'\<lparr>chSpO2TxBuf := (chSpO2TxBuf u')[uiIdxTemp := b]\<rparr>))"

definition SpO2_UART_SendBuf :: "bytes \<Rightarrow> spo2_uart_st \<Rightarrow> spo2_uart_st option" where
  "SpO2_UART_SendBuf p_chBuf u =
     map_option (\<lambda>(uiIdxTemp, u). spo2_set_ETBEI (u\<lparr>uiSpO2TxIdxEnd := uiIdxTemp\<rparr>))
       (SpO2_SendBuf_loop p_chBuf (uiSpO2TxIdxEnd u) u)"

section \<open>Packets of the board\<close>

definition SpO2_get_poll :: "spo2_uart_st \<Rightarrow> u8 option \<times> spo2_uart_st" where
  "SpO2_get_poll u = SpO2_UART_GetByte (spo2_preempt u)"

definition SpO2_to_AIO_UART :: "UartProtocolPacket \<Rightarrow> 'a glob_sys_scheme \<Rightarrow> 'a glob_sys_scheme" where
  "SpO2_to_AIO_UART p s =
     (if g_IsSpO2_Upload (glob s) then UploadDataByID (PacketID p) True (DataAndCRC p) (PLength p) s else s)"

text \<open>\<open>None\<close>: the check does not return.\<close>

definition SpO2_RxPacketCheck :: "'a spo2_sys_scheme \<Rightarrow> 'a spo2_sys_scheme option" where
  "SpO2_RxPacketCheck s =
     (let (r, u) = rx_packet SpO2_get_poll SpO2_RX_TRY_COUNT UART_AIO_ADDR UART_SpO2_ADDR (spo2_uart (spo2 s));
          s = s\<lparr>spo2 := (spo2 s)\<lparr>spo2_uart := u\<rparr>\<rparr>
      in case r of Rx_packet p \<Rightarrow> Some (SpO2_to_AIO_UART p s)
                 | Rx_overrun \<Rightarrow> Some (raise_fault s)
                 | Rx_endless \<Rightarrow> None
                 | _ \<Rightarrow> Some s)"

text \<open>The handler empties the ring down to 20 bytes; bytes may arrive meanwhile.\<close>

partial_function (option) SpO2_RxHandler_loop :: "'a spo2_sys_scheme \<Rightarrow> 'a spo2_sys_scheme option" where
  "SpO2_RxHandler_loop s =
     (if SpO2RxGetDataLen (spo2_uart (spo2 s)) > 20
      then Option.bind (SpO2_RxPacketCheck
             (s\<lparr>spo2 := (spo2 s)\<lparr>g_spo2_test_tick := SysTick_Get (tick s), g_is_aio_spo2_error := 0\<rparr>\<rparr>))
             SpO2_RxHandler_loop
      else Some s)"

definition SpO2_RxHandler :: "'a spo2_sys_scheme \<Rightarrow> 'a spo2_sys_scheme option" where
  "SpO2_RxHandler s =
     map_option (\<lambda>s.
        if g_is_aio_spo2_error (spo2 s) = 0
           \<and> getMSByTickcount (SysTick_Get (tick s) - g_spo2_test_tick (spo2 s)) (tick s) > 10000
        then s\<lparr>spo2 := (spo2 s)\<lparr>g_is_aio_spo2_error := 1\<rparr>\<rparr> else s)
       (SpO2_RxHandler_loop s)"

section \<open>Silencing the other modules during an update\<close>

definition mask_tick :: "u8 \<Rightarrow> (u8 \<Rightarrow> glob_st \<Rightarrow> glob_st) \<Rightarrow> glob_st \<Rightarrow> glob_st" where
  "mask_tick count set_count g =
     (let g = (if count = 0 then set_uploads False g else g);
          g = (if count = UPDATE_MASK_AIO_TIME_S then set_uploads True g else g)
      in if count > UPDATE_MASK_AIO_TIME_S then set_count (UPDATE_MASK_AIO_TIME_S + 1) g
         else set_count (count + 1) g)"

definition SpO2_ResetMaskAIOTick :: "'a spo2_sys_scheme \<Rightarrow> 'a spo2_sys_scheme" where
  "SpO2_ResetMaskAIOTick s =
     (if IsOnTime (SpO2_ResetMask_ulNextChangeTime (spo2 s)) (tick s)
      then s\<lparr>glob := mask_tick (g_spo2_mask_count (glob s)) (\<lambda>c g. g\<lparr>g_spo2_mask_count := c\<rparr>) (glob s),
             spo2 := (spo2 s)\<lparr>SpO2_ResetMask_ulNextChangeTime :=
               SpO2_ResetMask_ulNextChangeTime (spo2 s) + getTickNumberByMS 1000 (tick s)\<rparr>\<rparr>
      else s)"

definition SpO2_Module_Handler :: "'a spo2_sys_scheme \<Rightarrow> 'a spo2_sys_scheme option" where
  "SpO2_Module_Handler s = map_option SpO2_ResetMaskAIOTick (SpO2_RxHandler s)"

section \<open>The rings\<close>

definition spo2_rx_items :: "spo2_uart_st \<Rightarrow> bytes" where
  "spo2_rx_items u = ring_items (chSpO2RxBuf u) (u32SpO2RxPopIndex u) (u32SpO2RxPushIndex u)"

definition spo2_rx_inv :: "spo2_uart_st \<Rightarrow> bool" where
  "spo2_rx_inv u \<longleftrightarrow> ring_ok 1024 (chSpO2RxBuf u) (u32SpO2RxPopIndex u) (u32SpO2RxPushIndex u)"

definition spo2_rx_get :: "spo2_uart_st \<Rightarrow> (u8 \<times> spo2_uart_st) option" where
  "spo2_rx_get u = (case SpO2_UART_GetByte u of (None, _) \<Rightarrow> None | (Some b, u') \<Rightarrow> Some (b, u'))"

lemma SpO2RxGetDataLen_items: "spo2_rx_inv u \<Longrightarrow> SpO2RxGetDataLen u = int (length (spo2_rx_items u))"
  by (auto simp: SpO2RxGetDataLen_def spo2_rx_inv_def spo2_rx_items_def length_ring_items Let_def)
     (auto simp: ring_ok_def)

lemma SpO2_rx_store_ring:
  assumes "spo2_rx_inv u"
  shows "chSpO2RxBuf (SpO2_rx_store b u) = (chSpO2RxBuf u)[u32SpO2RxPushIndex u := b]"
    "u32SpO2RxPushIndex (SpO2_rx_store b u) = ring_inc 1024 (u32SpO2RxPushIndex u)"
    "u32SpO2RxPopIndex (SpO2_rx_store b u)
     = ring_drop 1024 (u32SpO2RxPopIndex u) (ring_inc 1024 (u32SpO2RxPushIndex u))"
  using assms
  by (simp_all add: SpO2_rx_store_def Let_def spo2_rx_inv_def ring_ok_def ring_inc_mod ring_drop_def)

lemma spo2_rx_inv_store [simp]: "spo2_rx_inv u \<Longrightarrow> spo2_rx_inv (SpO2_rx_store b u)"
  using ring_ok_push unfolding spo2_rx_inv_def [of "SpO2_rx_store b u"]
  by (simp add: SpO2_rx_store_ring) (simp add: spo2_rx_inv_def)

interpretation spo2_rx: drop_oldest_queue 1023 spo2_rx_inv spo2_rx_items SpO2_rx_store spo2_rx_get
proof
  fix u :: spo2_uart_st and b u'
  assume i: "spo2_rx_inv u"
  then have ok: "ring_ok 1024 (chSpO2RxBuf u) (u32SpO2RxPopIndex u) (u32SpO2RxPushIndex u)"
    by (simp add: spo2_rx_inv_def)
  show "spo2_rx_inv (SpO2_rx_store b u)" using i by simp
  show "spo2_rx_items (SpO2_rx_store b u) = keep_last 1023 (spo2_rx_items u @ [b])"
    using ring_items_push [OF ok, of b] by (simp add: spo2_rx_items_def SpO2_rx_store_ring [OF i])
  show "spo2_rx_get u = None \<longleftrightarrow> spo2_rx_items u = []"
    using SpO2RxGetDataLen_items [OF i] by (simp add: spo2_rx_get_def SpO2_UART_GetByte_def)
  show "length (spo2_rx_items u) \<le> 1023"
    using length_ring_items_less [OF ok] by (simp add: spo2_rx_items_def)
  assume g: "spo2_rx_get u = Some (b, u')"
  then have ne: "spo2_rx_items u \<noteq> []" and b: "b = chSpO2RxBuf u ! u32SpO2RxPopIndex u"
    and u': "u' = u\<lparr>u32SpO2RxPopIndex := (u32SpO2RxPopIndex u + 1) mod 1024\<rparr>"
    using SpO2RxGetDataLen_items [OF i] by (auto simp: spo2_rx_get_def SpO2_UART_GetByte_def split: if_splits)
  have m: "Suc (u32SpO2RxPopIndex u) mod 1024 = ring_inc 1024 (u32SpO2RxPopIndex u)"
    using ok by (simp add: ring_inc_mod ring_ok_def)
  have "u32SpO2RxPopIndex u \<noteq> u32SpO2RxPushIndex u"
    using ne by (auto simp: spo2_rx_items_def)
  with ring_items_pop [OF ok] ring_ok_pop [OF ok] b
  show "spo2_rx_inv u' \<and> spo2_rx_items u = b # spo2_rx_items u'"
    by (simp add: u' m spo2_rx_inv_def spo2_rx_items_def)
qed

lemma SpO2_tx_next_rx [simp]:
  "spo2_rx_inv (SpO2_tx_next u) = spo2_rx_inv u" "spo2_rx_items (SpO2_tx_next u) = spo2_rx_items u"
  "spo2_sched (SpO2_tx_next u) = spo2_sched u"
  by (simp_all add: SpO2_tx_next_def Let_def spo2_rx_inv_def spo2_rx_items_def)

lemma SpO2_rx_store_sched [simp]: "spo2_sched (SpO2_rx_store b u) = spo2_sched u"
  by (simp add: SpO2_rx_store_def Let_def)

section \<open>The receive loop ends\<close>

text \<open>Bytes in the ring and interrupts still to come.\<close>

definition spo2_pending :: "spo2_uart_st \<Rightarrow> nat" where
  "spo2_pending u = (if spo2_rx_inv u then length (spo2_rx_items u) + length (concat (spo2_sched u)) else 0)"

lemma spo2_deliver_items:
  assumes "spo2_rx_inv u"
  shows "spo2_rx_inv (spo2_deliver ev u)" "length (spo2_rx_items (spo2_deliver ev u)) \<le> length (spo2_rx_items u) + 1"
    "spo2_sched (spo2_deliver ev u) = spo2_sched u"
    "length (spo2_rx_items u) \<le> length (spo2_rx_items (spo2_deliver ev u))"
  using assms spo2_rx.items_bound [OF assms]
  by (auto simp: spo2_deliver_def IVG11_SpO2_UART_ISR_def spo2_rx.items_put)

lemma fold_spo2_deliver_items:
  "spo2_rx_inv u \<Longrightarrow> spo2_rx_inv (fold spo2_deliver evs u) \<and>
     length (spo2_rx_items (fold spo2_deliver evs u)) \<le> length (spo2_rx_items u) + length evs \<and>
     length (spo2_rx_items u) \<le> length (spo2_rx_items (fold spo2_deliver evs u)) \<and>
     spo2_sched (fold spo2_deliver evs u) = spo2_sched u"
proof (induction evs arbitrary: u)
  case (Cons ev evs)
  note d = spo2_deliver_items [OF Cons.prems, of ev]
  with Cons.IH [OF d(1)] show ?case by simp
qed simp

lemma spo2_preempt_items:
  assumes "spo2_rx_inv u"
  shows "spo2_rx_inv (spo2_preempt u)" "spo2_pending (spo2_preempt u) \<le> spo2_pending u"
    "length (spo2_rx_items u) \<le> length (spo2_rx_items (spo2_preempt u))"
proof -
  have "spo2_rx_inv (spo2_preempt u) \<and> spo2_pending (spo2_preempt u) \<le> spo2_pending u \<and>
        length (spo2_rx_items u) \<le> length (spo2_rx_items (spo2_preempt u))"
  proof (cases "spo2_sched u")
    case (Cons evs rest)
    have "spo2_rx_inv (u\<lparr>spo2_sched := rest\<rparr>)" "spo2_rx_items (u\<lparr>spo2_sched := rest\<rparr>) = spo2_rx_items u"
      using assms by (simp_all add: spo2_rx_inv_def spo2_rx_items_def)
    with fold_spo2_deliver_items [of "u\<lparr>spo2_sched := rest\<rparr>" evs] Cons assms
    show ?thesis by (simp add: spo2_preempt_def spo2_pending_def)
  qed (use assms in \<open>simp add: spo2_preempt_def\<close>)
  then show "spo2_rx_inv (spo2_preempt u)" "spo2_pending (spo2_preempt u) \<le> spo2_pending u"
    "length (spo2_rx_items u) \<le> length (spo2_rx_items (spo2_preempt u))" by auto
qed

lemma SpO2_GetByte_items:
  assumes "spo2_rx_inv u"
  shows "spo2_rx_inv (snd (SpO2_UART_GetByte u))" "spo2_sched (snd (SpO2_UART_GetByte u)) = spo2_sched u"
    "length (spo2_rx_items (snd (SpO2_UART_GetByte u))) = length (spo2_rx_items u) - 1"
proof -
  have s: "spo2_sched (snd (SpO2_UART_GetByte u)) = spo2_sched u" by (simp add: SpO2_UART_GetByte_def)
  have "spo2_rx_inv (snd (SpO2_UART_GetByte u)) \<and>
        length (spo2_rx_items (snd (SpO2_UART_GetByte u))) = length (spo2_rx_items u) - 1"
  proof (cases "spo2_rx_get u")
    case None
    then have "spo2_rx_items u = []" using assms by (simp add: spo2_rx.get_None)
    with assms show ?thesis by (simp add: SpO2_UART_GetByte_def SpO2RxGetDataLen_items)
  next
    case (Some p)
    obtain b u' where p: "p = (b, u')" by (cases p)
    with Some have g: "SpO2_UART_GetByte u = (Some b, u')"
      by (auto simp: spo2_rx_get_def split: prod.splits option.splits)
    with spo2_rx.get_Some [OF assms Some [unfolded p]] show ?thesis by simp
  qed
  with s show "spo2_rx_inv (snd (SpO2_UART_GetByte u))" "spo2_sched (snd (SpO2_UART_GetByte u)) = spo2_sched u"
    "length (spo2_rx_items (snd (SpO2_UART_GetByte u))) = length (spo2_rx_items u) - 1" by auto
qed

lemma SpO2_get_poll_pending:
  assumes "spo2_rx_inv u"
  shows "spo2_rx_inv (snd (SpO2_get_poll u))" "spo2_pending (snd (SpO2_get_poll u)) \<le> spo2_pending u"
    "spo2_rx_items u \<noteq> [] \<Longrightarrow> spo2_pending (snd (SpO2_get_poll u)) < spo2_pending u"
proof -
  let ?v = "spo2_preempt u"
  note p = spo2_preempt_items [OF assms]
  note g = SpO2_GetByte_items [OF p(1)]
  show "spo2_rx_inv (snd (SpO2_get_poll u))" using g(1) by (simp add: SpO2_get_poll_def)
  have e: "spo2_pending (snd (SpO2_get_poll u)) = (length (spo2_rx_items ?v) - 1) + length (concat (spo2_sched ?v))"
    using g by (simp add: SpO2_get_poll_def spo2_pending_def)
  have v: "spo2_pending ?v = length (spo2_rx_items ?v) + length (concat (spo2_sched ?v))"
    using p(1) by (simp add: spo2_pending_def)
  show "spo2_pending (snd (SpO2_get_poll u)) \<le> spo2_pending u" using e v p(2) by linarith
  assume "spo2_rx_items u \<noteq> []"
  with p(3) have "0 < length (spo2_rx_items ?v)" by (cases "spo2_rx_items u") auto
  with e v p(2) show "spo2_pending (snd (SpO2_get_poll u)) < spo2_pending u" by linarith
qed

lemma SpO2_to_AIO_UART_spo2 [simp]:
  "spo2 (SpO2_to_AIO_UART p s) = spo2 s" "tick (SpO2_to_AIO_UART p s) = tick s"
  "glob (SpO2_to_AIO_UART p s) = glob s"
  by (simp_all add: SpO2_to_AIO_UART_def)

definition SpO2_takes :: "'a spo2_sys_scheme \<Rightarrow> rx_outcome" where
  "SpO2_takes s = fst (rx_packet SpO2_get_poll SpO2_RX_TRY_COUNT UART_AIO_ADDR UART_SpO2_ADDR (spo2_uart (spo2 s)))"

lemma SpO2_RxPacketCheck_spo2:
  "SpO2_RxPacketCheck s = Some t \<Longrightarrow> spo2_uart (spo2 t)
   = snd (rx_packet SpO2_get_poll SpO2_RX_TRY_COUNT UART_AIO_ADDR UART_SpO2_ADDR (spo2_uart (spo2 s)))"
  by (auto simp add: SpO2_RxPacketCheck_def Let_def case_prod_beta split: rx_outcome.splits)

lemma SpO2_RxPacketCheck_consumes:
  assumes "spo2_rx_inv (spo2_uart (spo2 s))" "spo2_rx_items (spo2_uart (spo2 s)) \<noteq> []" "SpO2_RxPacketCheck s = Some t"
  shows "spo2_rx_inv (spo2_uart (spo2 t))" "spo2_pending (spo2_uart (spo2 t)) < spo2_pending (spo2_uart (spo2 s))"
proof -
  let ?u = "spo2_uart (spo2 s)"
  have "spo2_rx_inv v \<Longrightarrow> spo2_rx_inv (snd (SpO2_get_poll v)) \<and>
        spo2_pending (snd (SpO2_get_poll v)) \<le> spo2_pending v" for v
    using SpO2_get_poll_pending by blast
  from rx_packet_measure [of spo2_rx_inv SpO2_get_poll spo2_pending, OF this assms(1)]
    SpO2_get_poll_pending(3) [OF assms(1,2)]
  show "spo2_rx_inv (spo2_uart (spo2 t))" "spo2_pending (spo2_uart (spo2 t)) < spo2_pending ?u"
    unfolding SpO2_RxPacketCheck_spo2 [OF assms(3)] by (auto intro: le_less_trans)
qed

lemma rx_packet_length: "fst (rx_packet gt n dr sr u) = Rx_packet p \<Longrightarrow> unat (PLength p) \<le> 250"
  by (auto simp: rx_packet_def Let_def split: prod.splits option.splits if_splits)

text \<open>A check fails to return, or overruns the packet, for the outcomes of these names.\<close>

lemma SpO2_RxPacketCheck_result:
  "SpO2_RxPacketCheck s = None \<longleftrightarrow> SpO2_takes s = Rx_endless"
  "SpO2_RxPacketCheck s = Some t \<Longrightarrow> fault t = (fault s \<or> SpO2_takes s = Rx_overrun)"
  using rx_packet_length [of SpO2_get_poll SpO2_RX_TRY_COUNT UART_AIO_ADDR UART_SpO2_ADDR "spo2_uart (spo2 s)"]
  by (auto simp: SpO2_RxPacketCheck_def SpO2_takes_def SpO2_to_AIO_UART_def Let_def case_prod_beta
      split: rx_outcome.splits if_splits)

text \<open>The packets the handler takes: the state after at most \<open>n\<close> checks, and whether some check meets a given outcome.\<close>

abbreviation SpO2_alive :: "'a spo2_sys_scheme \<Rightarrow> 'a spo2_sys_scheme" where
  "SpO2_alive s \<equiv> s\<lparr>spo2 := (spo2 s)\<lparr>g_spo2_test_tick := SysTick_Get (tick s), g_is_aio_spo2_error := 0\<rparr>\<rparr>"

primrec SpO2_checks :: "nat \<Rightarrow> 'a spo2_sys_scheme \<Rightarrow> 'a spo2_sys_scheme option" where
  "SpO2_checks 0 s = Some s"
| "SpO2_checks (Suc n) s =
     (if SpO2RxGetDataLen (spo2_uart (spo2 s)) > 20 then Option.bind (SpO2_RxPacketCheck (SpO2_alive s)) (SpO2_checks n)
      else Some s)"

definition SpO2_meets :: "rx_outcome \<Rightarrow> 'a spo2_sys_scheme \<Rightarrow> bool" where
  "SpO2_meets r s \<longleftrightarrow> (\<exists>n t. SpO2_checks n s = Some t \<and> SpO2RxGetDataLen (spo2_uart (spo2 t)) > 20 \<and> SpO2_takes t = r)"

lemma SpO2_meets_step:
  "SpO2_meets r s \<longleftrightarrow> SpO2RxGetDataLen (spo2_uart (spo2 s)) > 20
     \<and> (SpO2_takes s = r \<or> (\<exists>t. SpO2_RxPacketCheck (SpO2_alive s) = Some t \<and> SpO2_meets r t))"
proof
  assume "SpO2_meets r s"
  then obtain n t where t: "SpO2_checks n s = Some t" "SpO2RxGetDataLen (spo2_uart (spo2 t)) > 20" "SpO2_takes t = r"
    by (auto simp: SpO2_meets_def)
  then show "SpO2RxGetDataLen (spo2_uart (spo2 s)) > 20
     \<and> (SpO2_takes s = r \<or> (\<exists>t. SpO2_RxPacketCheck (SpO2_alive s) = Some t \<and> SpO2_meets r t))"
    by (cases n) (auto simp: SpO2_meets_def split: if_splits bind_splits)
next
  assume h: "SpO2RxGetDataLen (spo2_uart (spo2 s)) > 20
     \<and> (SpO2_takes s = r \<or> (\<exists>t. SpO2_RxPacketCheck (SpO2_alive s) = Some t \<and> SpO2_meets r t))"
  then consider "SpO2_takes s = r" | t n u where "SpO2_RxPacketCheck (SpO2_alive s) = Some t" "SpO2_checks n t = Some u"
      "SpO2RxGetDataLen (spo2_uart (spo2 u)) > 20" "SpO2_takes u = r"
    unfolding SpO2_meets_def by blast
  then show "SpO2_meets r s"
  proof cases
    case 1
    then have "SpO2_checks 0 s = Some s \<and> SpO2RxGetDataLen (spo2_uart (spo2 s)) > 20 \<and> SpO2_takes s = r" using h by simp
    then show ?thesis unfolding SpO2_meets_def by blast
  next
    case 2
    then have "SpO2_checks (Suc n) s = Some u \<and> SpO2RxGetDataLen (spo2_uart (spo2 u)) > 20 \<and> SpO2_takes u = r"
      using h by simp
    then show ?thesis unfolding SpO2_meets_def by blast
  qed
qed

lemma SpO2_RxHandler_loop_ends:
  "spo2_rx_inv (spo2_uart (spo2 s)) \<Longrightarrow>
     if SpO2_meets Rx_endless s then SpO2_RxHandler_loop s = None
     else \<exists>t. SpO2_RxHandler_loop s = Some t \<and> spo2_rx_inv (spo2_uart (spo2 t)) \<and>
         length (spo2_rx_items (spo2_uart (spo2 t))) \<le> 20 \<and> fault t = (fault s \<or> SpO2_meets Rx_overrun s)"
proof (induction "spo2_pending (spo2_uart (spo2 s))" arbitrary: s rule: less_induct)
  case less
  let ?s = "SpO2_alive s"
  have T: "SpO2_takes ?s = SpO2_takes s" by (simp add: SpO2_takes_def)
  show ?case
  proof (cases "SpO2RxGetDataLen (spo2_uart (spo2 s)) > 20")
    case True
    then have ne: "spo2_rx_items (spo2_uart (spo2 ?s)) \<noteq> []"
      using SpO2RxGetDataLen_items [OF less.prems] by auto
    have l: "SpO2_RxHandler_loop s = Option.bind (SpO2_RxPacketCheck ?s) SpO2_RxHandler_loop"
      using True by (subst SpO2_RxHandler_loop.simps) simp
    have m: "SpO2_meets r s \<longleftrightarrow> SpO2_takes s = r \<or> (\<exists>t. SpO2_RxPacketCheck ?s = Some t \<and> SpO2_meets r t)" for r
      using True SpO2_meets_step [of r s] by simp
    show ?thesis
    proof (cases "SpO2_RxPacketCheck ?s")
      case None
      then have "SpO2_meets Rx_endless s" using SpO2_RxPacketCheck_result(1) [of ?s] T m by simp
      then show ?thesis using l None by simp
    next
      case (Some t)
      have i: "spo2_rx_inv (spo2_uart (spo2 ?s))" using less.prems by simp
      note c = SpO2_RxPacketCheck_consumes [OF i ne Some]
      have e: "SpO2_takes s \<noteq> Rx_endless" using SpO2_RxPacketCheck_result(1) [of ?s] Some T by auto
      have f: "fault t = (fault s \<or> SpO2_takes s = Rx_overrun)" using SpO2_RxPacketCheck_result(2) [OF Some] T by simp
      from c(2) have "spo2_pending (spo2_uart (spo2 t)) < spo2_pending (spo2_uart (spo2 s))" by simp
      from less.hyps [OF this c(1)] show ?thesis using e f Some unfolding l m by auto
    qed
  next
    case False
    then have "\<not> SpO2_meets r s" for r using SpO2_meets_step [of r s] by simp
    then show ?thesis using False less.prems SpO2RxGetDataLen_items [OF less.prems]
      by (subst (1 2) SpO2_RxHandler_loop.simps) simp
  qed
qed

text \<open>C31: the handler of the SpO2 line returns, however many bytes wait and however many arrive while it works, and
  leaves at most 20 bytes in the receive ring, unless it takes a packet that declares a length of 255: then, and only
  then, it never returns.  It runs into a fault exactly when it takes a packet that declares 251 to 254 bytes (or had one
  before), which writes behind the packet structure; what the overwritten memory does then is beyond the model.\<close>

theorem SpO2_handler_returns:
  assumes "spo2_rx_inv (spo2_uart (spo2 s))"
  shows "if SpO2_meets Rx_endless s then SpO2_Module_Handler s = None
    else \<exists>t. SpO2_Module_Handler s = Some t \<and> spo2_rx_inv (spo2_uart (spo2 t))
           \<and> length (spo2_rx_items (spo2_uart (spo2 t))) \<le> 20 \<and> fault t = (fault s \<or> SpO2_meets Rx_overrun s)"
proof (cases "SpO2_meets Rx_endless s")
  case True
  then show ?thesis using SpO2_RxHandler_loop_ends [OF assms] by (simp add: SpO2_Module_Handler_def SpO2_RxHandler_def)
next
  case False
  then obtain t where t: "SpO2_RxHandler_loop s = Some t" "spo2_rx_inv (spo2_uart (spo2 t))"
    "length (spo2_rx_items (spo2_uart (spo2 t))) \<le> 20" "fault t = (fault s \<or> SpO2_meets Rx_overrun s)"
    using SpO2_RxHandler_loop_ends [OF assms] by auto
  then show ?thesis using False by (auto simp: SpO2_Module_Handler_def SpO2_RxHandler_def SpO2_ResetMaskAIOTick_def)
qed

text \<open>Twenty-one bytes, the first five of which announce a packet of 255 bytes: the handler hangs.\<close>

definition endless_uart :: spo2_uart_st where
  "endless_uart = \<lparr>chSpO2RxBuf = [0x55, 0xCC, 0, 0, 255] @ replicate 1019 0, chSpO2TxBuf = replicate 1024 0,
     u32SpO2RxPopIndex = 0, u32SpO2RxPushIndex = 21, uiSpO2TxIdxStart = 0, uiSpO2TxIdxEnd = 0, pUART0_IER = 1,
     pUART0_THR = [], spo2_sched = []\<rparr>"

lemma SpO2_handler_returns_witness:
  "\<exists>s :: spo2_sys. SpO2_Module_Handler s = None"
proof -
  obtain s0 :: spo2_sys where True by simp
  define s where "s = s0\<lparr>spo2 := (spo2 s0)\<lparr>spo2_uart := endless_uart\<rparr>\<rparr>"
  have i: "spo2_rx_inv (spo2_uart (spo2 s))" by (simp add: s_def endless_uart_def spo2_rx_inv_def ring_ok_def)
  have "SpO2_takes s = Rx_endless"
    by (simp add: s_def SpO2_takes_def endless_uart_def rx_packet_def SpO2_get_poll_def spo2_preempt_def
        SpO2_UART_GetByte_def SpO2RxGetDataLen_def rx_try.simps)
  moreover have "SpO2RxGetDataLen (spo2_uart (spo2 s)) > 20" by (simp add: s_def endless_uart_def SpO2RxGetDataLen_def)
  ultimately have "SpO2_meets Rx_endless s" using SpO2_meets_step [of Rx_endless s] by simp
  then show ?thesis using SpO2_handler_returns [OF i] by auto
qed

end
