(* ===== verification/Eeprom.thy ===== *)
theory Eeprom
  imports Spo2
begin

text \<open>
  \<open>AllInOneDSP/src/source/eeprom.c\<close>: the calibration memory (a GT24C16 of 2048 bytes in pages
  of 16) behind the two-wire bus, and the structure \<open>EEPROM_StructureDef\<close> it holds.
  In memory that structure is 68 bytes long (\<open>enum\<close> is four bytes wide and aligned): the model
  keeps it as those bytes, and names the offsets the code computes by pointer subtraction.
\<close>

section \<open>Layout\<close>

definition EEPROM_SIZE :: nat where "EEPROM_SIZE = 2048"
definition EEPROM_END_ADDR :: nat where "EEPROM_END_ADDR = EEPROM_SIZE - 1"
definition PAGE_WRITE_LENGHT :: nat where "PAGE_WRITE_LENGHT = 16"
definition EEPROM_ADDRESS :: u8 where "EEPROM_ADDRESS = 0xA0"
definition BLOCK_SELECT_MASK :: u16 where "BLOCK_SELECT_MASK = 0x07"
definition EEPROM_HEAD :: bytes where "EEPROM_HEAD = str ''HEAD''"
definition EEPROM_TAIL :: bytes where "EEPROM_TAIL = str ''TAIL''"

lemma EEPROM_consts [simp]: "EEPROM_SIZE = 2048" "EEPROM_END_ADDR = 2047" "PAGE_WRITE_LENGHT = 16"
  "length EEPROM_HEAD = 4" "length EEPROM_TAIL = 4"
  by (simp_all add: EEPROM_SIZE_def EEPROM_END_ADDR_def PAGE_WRITE_LENGHT_def EEPROM_HEAD_def
      EEPROM_TAIL_def str_def)

text \<open>\<open>HeadOfEeprom[8]\<close>, \<open>u16 nibp_Verify_mmHg[6]\<close>, \<open>u32 nibp_Verify_Val[6]\<close>, \<open>nibp_IsVerify\<close>,
  \<open>u16 nibp_protect_mmHg[2]\<close>, \<open>u16 nibp_protect_adc[2]\<close>, \<open>char chIsProtectVerify\<close>, \<open>TailOfEeprom[8]\<close>.\<close>

definition off_Head :: nat where "off_Head = 0"
definition off_Verify_mmHg :: nat where "off_Verify_mmHg = 8"
definition off_Verify_Val :: nat where "off_Verify_Val = 20"
definition off_IsVerify :: nat where "off_IsVerify = 44"
definition off_protect_mmHg :: nat where "off_protect_mmHg = 48"
definition off_protect_adc :: nat where "off_protect_adc = 52"
definition off_IsProtectVerify :: nat where "off_IsProtectVerify = 56"
definition off_Tail :: nat where "off_Tail = 57"
definition EEPROM_STRUCT_LEN :: nat where "EEPROM_STRUCT_LEN = 68"

lemmas eeprom_offsets = off_Head_def off_Verify_mmHg_def off_Verify_Val_def off_IsVerify_def
  off_protect_mmHg_def off_protect_adc_def off_IsProtectVerify_def off_Tail_def EEPROM_STRUCT_LEN_def

record eeprom_st =
  g_eeprom_struct :: bytes
  EEPROM_LoopTest_ulNextChangeTime :: u32
  EEPROM_LoopTest_addr :: nat

record eeprom_sys = spo2_sys +
  eep :: eeprom_st

lemma hw_eep [simp]:
  "eep (emit e s) = eep s" "eep (wr r v s) = eep s" "eep (orw r v s) = eep s"
  "eep (andw r v s) = eep s" "eep (ssync s) = eep s" "eep (register_handler i h s) = eep s"
  "eep (raise_fault s) = eep s" "eep (alg_call f xs s) = eep s" "eep (Delay1ms ms s) = eep s"
  "eep (AIO_printf txt s) = eep s" "eep (UploadDataByID pid t dat len s) = eep s"
  "eep (upload pid dat s) = eep s" "eep (twi_note e' s) = eep s"
  by (simp_all add: hw_prims Delay1ms_def AIO_printf_def UploadDataByID_def upload_def twi_note_def Let_def)

text \<open>A field of the structure, little endian as on the Blackfin, and its update.\<close>

definition put_bytes :: "nat \<Rightarrow> bytes \<Rightarrow> bytes \<Rightarrow> bytes" where
  "put_bytes off bs m = take off m @ bs @ drop (off + length bs) m"

definition get_bytes :: "nat \<Rightarrow> nat \<Rightarrow> bytes \<Rightarrow> bytes" where
  "get_bytes off n m = take n (drop off m)"

definition le16 :: "u16 \<Rightarrow> bytes" where "le16 x = [byte_of 0 x, byte_of 8 x]"
definition le32 :: "u32 \<Rightarrow> bytes" where "le32 x = [byte_of 0 x, byte_of 8 x, byte_of 16 x, byte_of 24 x]"

definition get16 :: "nat \<Rightarrow> bytes \<Rightarrow> u16" where
  "get16 off m = u16_of_bytes (m ! (off + 1)) (m ! off)"

definition get32 :: "nat \<Rightarrow> bytes \<Rightarrow> u32" where
  "get32 off m = u32_of_bytes (m ! (off + 3)) (m ! (off + 2)) (m ! (off + 1)) (m ! off)"

definition eep_struct :: "(bytes \<Rightarrow> bytes) \<Rightarrow> 'a eeprom_sys_scheme \<Rightarrow> 'a eeprom_sys_scheme" where
  "eep_struct f s = s\<lparr>eep := (eep s)\<lparr>g_eeprom_struct := f (g_eeprom_struct (eep s))\<rparr>\<rparr>"

section \<open>Writing\<close>

definition EEPROM_WaitStandbyState :: "'a tick_sys_scheme \<Rightarrow> 'a tick_sys_scheme" where
  "EEPROM_WaitStandbyState s = Delay1ms 6 s"

definition eeprom_device :: "u16 \<Rightarrow> u16" where
  "eeprom_device u16Addr =
     ucast EEPROM_ADDRESS OR ucast (ucast (push_bit 1 (drop_bit 8 u16Addr AND BLOCK_SELECT_MASK)) :: u8)"

definition EEPROM_ByteWrite :: "u16 \<Rightarrow> u8 \<Rightarrow> 'a eeprom_sys_scheme \<Rightarrow> RETURN_TypeDef \<times> 'a eeprom_sys_scheme" where
  "EEPROM_ByteWrite u16Addr u8Data s =
     (if unat u16Addr > EEPROM_END_ADDR then (RETURN_ERROR, s)
      else (RETURN_OK, snd (TWI_MasterMode_Write (eeprom_device u16Addr) [byte_of 0 u16Addr, u8Data] 1 2 s)))"

definition EEPROM_PageWrite :: "u16 \<Rightarrow> bytes \<Rightarrow> u8 \<Rightarrow> 'a eeprom_sys_scheme \<Rightarrow> RETURN_TypeDef \<times> 'a eeprom_sys_scheme" where
  "EEPROM_PageWrite u16Addr pData u8Len s =
     (if unat u8Len > PAGE_WRITE_LENGHT
      then (RETURN_ERROR, AIO_printf (crnl @ str ''EEPROM_PageWrite over Lenght error!'') s)
      else (RETURN_OK, snd (TWI_MasterMode_Write (eeprom_device u16Addr)
             (byte_of 0 u16Addr # take (unat u8Len) pData) 1 (1 + unat u8Len) s)))"

definition EEPROM_page_wait :: "u16 \<Rightarrow> bytes \<Rightarrow> u8 \<Rightarrow> 'a eeprom_sys_scheme \<Rightarrow> 'a eeprom_sys_scheme" where
  "EEPROM_page_wait u16Addr pData u8Len s =
     run [\<lambda>s. snd (EEPROM_PageWrite u16Addr pData u8Len s), EEPROM_WaitStandbyState] s"

text \<open>The page writes of \<open>EEPROM_BufferWrite\<close>, as (address, data, length) triples: \<open>numOfPage\<close> full
  pages, then what is left.\<close>

fun full_pages :: "nat \<Rightarrow> u16 \<Rightarrow> bytes \<Rightarrow> (u16 \<times> bytes \<times> u8) list" where
  "full_pages 0 a dat = []"
| "full_pages (Suc n) a dat =
     (a, dat, of_nat PAGE_WRITE_LENGHT) # full_pages n (a + of_nat PAGE_WRITE_LENGHT) (drop PAGE_WRITE_LENGHT dat)"

definition pages_and_rest :: "nat \<Rightarrow> u8 \<Rightarrow> u16 \<Rightarrow> bytes \<Rightarrow> (u16 \<times> bytes \<times> u8) list" where
  "pages_and_rest numOfPage numOfSinglePage a dat =
     full_pages numOfPage a dat @
     (if numOfSinglePage \<noteq> 0
      then [(a + of_nat (numOfPage * PAGE_WRITE_LENGHT), drop (numOfPage * PAGE_WRITE_LENGHT) dat, numOfSinglePage)]
      else [])"

definition EEPROM_BufferWrite_plan :: "u16 \<Rightarrow> bytes \<Rightarrow> u16 \<Rightarrow> (u16 \<times> bytes \<times> u8) list" where
  "EEPROM_BufferWrite_plan u16Addr pData u8Len =
     (let addr = (ucast (u16Addr mod of_nat PAGE_WRITE_LENGHT) :: u8);
          count = of_nat PAGE_WRITE_LENGHT - addr;
          numOfPage = (ucast (u8Len div of_nat PAGE_WRITE_LENGHT) :: u8);
          numOfSinglePage = (ucast (u8Len mod of_nat PAGE_WRITE_LENGHT) :: u8)
      in if addr = 0
         then (if numOfPage = 0 then [(u16Addr, pData, numOfSinglePage)]
               else pages_and_rest (unat numOfPage) numOfSinglePage u16Addr pData)
         else (if numOfPage = 0 then [(u16Addr, pData, numOfSinglePage)]
               else let u8Len = u8Len - ucast count;
                        numOfPage = (ucast (u8Len div of_nat PAGE_WRITE_LENGHT) :: u8);
                        numOfSinglePage = (ucast (u8Len mod of_nat PAGE_WRITE_LENGHT) :: u8)
                    in (if count \<noteq> 0 then [(u16Addr, pData, count)] else []) @
                       pages_and_rest (unat numOfPage) numOfSinglePage (u16Addr + ucast count)
                         (drop (unat count) pData)))"

definition EEPROM_BufferWrite :: "u16 \<Rightarrow> bytes \<Rightarrow> u16 \<Rightarrow> 'a eeprom_sys_scheme \<Rightarrow> RETURN_TypeDef \<times> 'a eeprom_sys_scheme" where
  "EEPROM_BufferWrite u16Addr pData u8Len s =
     (RETURN_OK, run (List.map (\<lambda>(a, dat, n). EEPROM_page_wait a dat n)
                        (EEPROM_BufferWrite_plan u16Addr pData u8Len)) s)"

section \<open>Reading\<close>

definition EEPROM_CurrentRead :: "'a eeprom_sys_scheme \<Rightarrow> bytes \<times> 'a eeprom_sys_scheme" where
  "EEPROM_CurrentRead s = snd (TWI_MasterMode_Read (ucast EEPROM_ADDRESS) 1 s)"

text \<open>The result has the status, the bytes stored through the pointer and the state.\<close>

definition EEPROM_RandomRead :: "u16 \<Rightarrow> 'a eeprom_sys_scheme \<Rightarrow> RETURN_TypeDef \<times> bytes \<times> 'a eeprom_sys_scheme" where
  "EEPROM_RandomRead u16Addr s =
     (if unat u16Addr > EEPROM_END_ADDR then (RETURN_ERROR, [], s)
      else let s = snd (TWI_MasterMode_Write (eeprom_device u16Addr) [byte_of 0 u16Addr] 1 1 s)
           in (RETURN_OK, snd (TWI_MasterMode_Read (eeprom_device u16Addr) 1 s)))"

definition EEPROM_SequentialRead :: "u16 \<Rightarrow> u16 \<Rightarrow> 'a eeprom_sys_scheme \<Rightarrow> RETURN_TypeDef \<times> bytes \<times> 'a eeprom_sys_scheme" where
  "EEPROM_SequentialRead u16Addr u8Len s =
     (if unat u16Addr + unat u8Len > EEPROM_END_ADDR then (RETURN_ERROR, [], s)
      else let s = snd (TWI_MasterMode_Write (eeprom_device u16Addr) [byte_of 0 u16Addr] 1 1 s)
           in (RETURN_OK, snd (TWI_MasterMode_Read (eeprom_device u16Addr) (unat u8Len) s)))"

section \<open>The structure\<close>

definition EEPROM_ExamineHeadTail :: "'a eeprom_sys_scheme \<Rightarrow> RETURN_TypeDef \<times> 'a eeprom_sys_scheme" where
  "EEPROM_ExamineHeadTail s =
     (if get_bytes off_Head 4 (g_eeprom_struct (eep s)) \<noteq> EEPROM_HEAD
      then (RETURN_ERROR, AIO_printf (crnl @ str ''[EEPROM] examine head error!'') s)
      else if get_bytes off_Tail 4 (g_eeprom_struct (eep s)) \<noteq> EEPROM_TAIL
      then (RETURN_ERROR, AIO_printf (crnl @ str ''[EEPROM] examine Tail error!'') s)
      else (RETURN_OK, s))"

definition EEPROM_RestoreHeadTail :: "'a eeprom_sys_scheme \<Rightarrow> RETURN_TypeDef \<times> 'a eeprom_sys_scheme" where
  "EEPROM_RestoreHeadTail s =
     (let s = eep_struct (put_bytes off_Tail EEPROM_TAIL) (eep_struct (put_bytes off_Head EEPROM_HEAD) s);
          (r, s) = EEPROM_BufferWrite (of_nat off_Head) (drop off_Head (g_eeprom_struct (eep s))) 4 s
      in EEPROM_BufferWrite (of_nat off_Tail) (drop off_Tail (g_eeprom_struct (eep s))) 4 s)"

definition EEPROM_Init :: "'a eeprom_sys_scheme \<Rightarrow> 'a eeprom_sys_scheme" where
  "EEPROM_Init s =
     (let (r, bs, s) = EEPROM_SequentialRead 0 (of_nat (off_Tail + 8)) s
      in eep_struct (put_bytes 0 bs) s)"

definition EEPROM_ExamineAll :: "'a eeprom_sys_scheme \<Rightarrow> 'a eeprom_sys_scheme" where
  "EEPROM_ExamineAll s =
     (let (r, s) = EEPROM_ExamineHeadTail s
      in if r = RETURN_ERROR then snd (EEPROM_RestoreHeadTail s) else s)"

definition EEPROM_RefreshNIBPVerify :: "'a eeprom_sys_scheme \<Rightarrow> RETURN_TypeDef \<times> 'a eeprom_sys_scheme" where
  "EEPROM_RefreshNIBPVerify s =
     (let (r, bs, s) = EEPROM_SequentialRead (of_nat off_Verify_mmHg) (of_nat (off_IsVerify + 4 - off_Verify_mmHg)) s
      in (r, eep_struct (put_bytes off_Verify_mmHg bs) s))"

definition EEPROM_saveRAMSTM32NIBPVerify :: "u8 \<Rightarrow> u16 \<Rightarrow> u16 \<Rightarrow> 'a eeprom_sys_scheme \<Rightarrow> RETURN_TypeDef \<times> 'a eeprom_sys_scheme" where
  "EEPROM_saveRAMSTM32NIBPVerify index mmHg adc s =
     (if index < 2
      then (RETURN_OK, eep_struct (put_bytes (off_protect_adc + 2 * unat index) (le16 adc))
                         (eep_struct (put_bytes (off_protect_mmHg + 2 * unat index) (le16 mmHg)) s))
      else (RETURN_ERROR, s))"

definition EEPROM_saveSTM32NIBPVerify :: "'a eeprom_sys_scheme \<Rightarrow> RETURN_TypeDef \<times> 'a eeprom_sys_scheme" where
  "EEPROM_saveSTM32NIBPVerify s =
     (let s = eep_struct (put_bytes off_IsProtectVerify [1]) s
      in EEPROM_BufferWrite (of_nat off_protect_mmHg) (drop off_protect_mmHg (g_eeprom_struct (eep s)))
           (of_nat (off_IsProtectVerify + 1 - off_protect_mmHg)) s)"

section \<open>Whole-memory operations and tests\<close>

definition EEPROM_RestoreAllBank :: "'a eeprom_sys_scheme \<Rightarrow> 'a eeprom_sys_scheme" where
  "EEPROM_RestoreAllBank s =
     AIO_printf (crnl @ str ''EEPROM_Restore Done!'')
       (fold (\<lambda>i s. Delay1ms 10 (snd (EEPROM_BufferWrite (of_nat (16 * i)) (replicate 16 0xFF) 16 s)))
          [0..<EEPROM_SIZE div 16] s)"

definition EEPROM_WriteTestAllBank :: "'a eeprom_sys_scheme \<Rightarrow> 'a eeprom_sys_scheme" where
  "EEPROM_WriteTestAllBank s =
     AIO_printf (crnl @ str ''EEPROM_WriteTest Done!'')
       (fold (\<lambda>i s. Delay1ms 10 (snd (EEPROM_ByteWrite (of_nat i) (of_nat (i mod 256)) s))) [0..<EEPROM_SIZE] s)"

definition fmt_x02 :: "u8 \<Rightarrow> bytes" where
  "fmt_x02 b = str ''0x'' @ fmt_u True 16 2 (unat b)"

text \<open>\<open>rData\<close> is a local array that a failed read leaves as it was.\<close>

definition EEPROM_ReadAllBank :: "bytes \<Rightarrow> 'a eeprom_sys_scheme \<Rightarrow> 'a eeprom_sys_scheme" where
  "EEPROM_ReadAllBank rData s =
     (let s = AIO_printf (crnl @ str ''EEPROM_ReadAll Start!'' @ [10]) s;
          (rData, s) = fold (\<lambda>i (rData, s).
             let (r, bs, s) = EEPROM_SequentialRead (of_nat (16 * i)) (of_nat PAGE_WRITE_LENGHT) s;
                 rData = put_bytes 0 bs rData
             in (rData, AIO_printf (crnl @ fmt_u True 10 3 (16 * i) @ str '':'' @ fmt_x02 (rData ! 0) @
                   concat (List.map (\<lambda>b. str '' '' @ fmt_x02 b) (take 15 (drop 1 rData)))) s))
           [0..<EEPROM_SIZE div 16] (rData, s)
      in AIO_printf (crnl @ str ''EEPROM_ReadAll End!'' @ [10]) s)"

datatype EEPROM_Debug_TypeDef =
    EEPROM_TEST_ALL_W | EEPROM_TEST_ALL_R | EEPROM_RESTORE_ALL | EEPROM_TEST_BYTE
  | EEPROM_TEST_PAGE_WRITE | EEPROM_TEST_PAGE_READ

fun EEPROM_TestInterface :: "EEPROM_Debug_TypeDef \<Rightarrow> 'a eeprom_sys_scheme \<Rightarrow> 'a eeprom_sys_scheme" where
  "EEPROM_TestInterface EEPROM_TEST_ALL_W s = EEPROM_WriteTestAllBank s"
| "EEPROM_TestInterface EEPROM_TEST_ALL_R s = EEPROM_ReadAllBank (replicate 16 0) s"
| "EEPROM_TestInterface EEPROM_RESTORE_ALL s = EEPROM_RestoreAllBank s"
| "EEPROM_TestInterface EEPROM_TEST_BYTE s =
     (let s = Delay1ms 10 (snd (EEPROM_ByteWrite 100 0x12 s));
          (r, bs, s) = EEPROM_RandomRead 100 s
      in AIO_printf (crnl @ str ''Addr=100 Val='' @ fmt_x02 (put_bytes 0 bs [0] ! 0)) s)"
| "EEPROM_TestInterface EEPROM_TEST_PAGE_WRITE s =
     Delay1ms 10 (snd (EEPROM_PageWrite (of_nat (PAGE_WRITE_LENGHT div 2)) (List.map of_nat [0..<PAGE_WRITE_LENGHT])
                         (of_nat PAGE_WRITE_LENGHT) s))"
| "EEPROM_TestInterface EEPROM_TEST_PAGE_READ s =
     (let (r, bs, s) = EEPROM_SequentialRead (of_nat (PAGE_WRITE_LENGHT div 2)) (of_nat PAGE_WRITE_LENGHT) s;
          ee_r_buf = put_bytes 0 bs (replicate PAGE_WRITE_LENGHT 0)
      in fold (\<lambda>i s. let s = AIO_printf (fmt_x02 (ee_r_buf ! i) @ [9]) s
                     in if i mod 8 = 7 then AIO_printf crnl s else s) [0..<PAGE_WRITE_LENGHT] s)"

definition EEPROM_LoopTest :: "'a eeprom_sys_scheme \<Rightarrow> 'a eeprom_sys_scheme" where
  "EEPROM_LoopTest s =
     (if IsOnTime (EEPROM_LoopTest_ulNextChangeTime (eep s)) (tick s)
      then let addr = (if EEPROM_LoopTest_addr (eep s) > EEPROM_END_ADDR then 0 else EEPROM_LoopTest_addr (eep s));
               (r, bs, s) = EEPROM_RandomRead (of_nat addr) s;
               rData = put_bytes 0 bs [0] ! 0;
               s = (if of_nat addr \<noteq> rData
                    then AIO_printf (crnl @ str ''[EEPROM] Read [Addr]0x'' @ fmt_u True 16 4 addr @
                           str '' [Value]'' @ fmt_x02 rData) s else s)
           in s\<lparr>eep := (eep s)\<lparr>EEPROM_LoopTest_addr := addr + 1,
                  EEPROM_LoopTest_ulNextChangeTime :=
                    EEPROM_LoopTest_ulNextChangeTime (eep s) + getTickNumberByMS 2000 (tick s)\<rparr>\<rparr>
      else s)"

section \<open>Splitting a buffer into page writes\<close>

text \<open>What a list of page writes stores, address by address, and when a write stays in one
  page of the device (which would otherwise wrap around inside the page).\<close>

definition chunk_writes :: "u16 \<times> bytes \<times> u8 \<Rightarrow> (nat \<times> u8) list" where
  "chunk_writes c = (case c of (a, dat, n) \<Rightarrow> zip [unat a..<unat a + unat n] (take (unat n) dat))"

definition plan_writes :: "(u16 \<times> bytes \<times> u8) list \<Rightarrow> (nat \<times> u8) list" where
  "plan_writes cs = concat (List.map chunk_writes cs)"

definition in_one_page :: "u16 \<times> bytes \<times> u8 \<Rightarrow> bool" where
  "in_one_page c = (case c of (a, dat, n) \<Rightarrow> unat a mod 16 + unat n \<le> 16)"

definition page_safe :: "nat \<Rightarrow> nat \<Rightarrow> bool" where
  "page_safe a len \<longleftrightarrow> a mod 16 = 0 \<or> 16 \<le> len \<or> a mod 16 + len \<le> 16"

definition range_writes :: "nat \<Rightarrow> bytes \<Rightarrow> nat \<Rightarrow> (nat \<times> u8) list" where
  "range_writes a dat n = zip [a..<a + n] (take n dat)"

lemma plan_writes_simps [simp]:
  "plan_writes [] = []" "plan_writes (c # cs) = chunk_writes c @ plan_writes cs"
  "plan_writes (cs @ ds) = plan_writes cs @ plan_writes ds"
  by (simp_all add: plan_writes_def)

lemma range_writes_append:
  "m \<le> length dat \<Longrightarrow> range_writes a dat m @ range_writes (a + m) (drop m dat) n = range_writes a dat (m + n)"
proof -
  assume m: "m \<le> length dat"
  have "[a..<a + (m + n)] = [a..<a + m] @ [a + m..<a + m + n]"
    by (metis add.assoc le_add1 upt_add_eq_append)
  moreover have "take (m + n) dat = take m dat @ take n (drop m dat)" by (rule take_add)
  ultimately show ?thesis using m by (simp add: range_writes_def)
qed

lemma unat_u16_add: "unat (a :: u16) + n < 65536 \<Longrightarrow> unat (a + of_nat n) = unat a + n"
proof -
  assume h: "unat a + n < 65536"
  then have "unat (of_nat n :: u16) = n" by (intro unat_of_nat_small) simp
  with h show ?thesis by (simp add: unat_word_ariths)
qed

lemma full_pages_writes:
  "unat a + 16 * n < 65536 \<Longrightarrow> 16 * n \<le> length dat \<Longrightarrow> unat a mod 16 = 0 \<Longrightarrow>
     plan_writes (full_pages n a dat) = range_writes (unat a) dat (16 * n) \<and>
     (\<forall>c \<in> set (full_pages n a dat). in_one_page c)"
proof (induction n arbitrary: a dat)
  case 0
  then show ?case by (simp add: range_writes_def)
next
  case (Suc n)
  have a: "unat (a + 16) = unat a + 16" using unat_u16_add [of a 16] Suc.prems by simp
  with Suc.prems Suc.IH [of "a + 16" "drop 16 dat"]
  have ih: "plan_writes (full_pages n (a + 16) (drop 16 dat)) = range_writes (unat a + 16) (drop 16 dat) (16 * n)"
    "\<forall>c \<in> set (full_pages n (a + 16) (drop 16 dat)). in_one_page c" by simp_all
  have "chunk_writes (a, dat, 16) = range_writes (unat a) dat 16"
    by (simp add: chunk_writes_def range_writes_def)
  with ih range_writes_append [of 16 dat "unat a" "16 * n"] Suc.prems
  show ?case by (simp add: in_one_page_def)
qed

lemma pages_and_rest_writes:
  assumes "unat a + (16 * n + unat r) < 65536" "16 * n + unat r \<le> length dat" "unat a mod 16 = 0" "unat r < 16"
  shows "plan_writes (pages_and_rest n r a dat) = range_writes (unat a) dat (16 * n + unat r)"
    "\<forall>c \<in> set (pages_and_rest n r a dat). in_one_page c"
proof -
  have f: "plan_writes (full_pages n a dat) = range_writes (unat a) dat (16 * n)"
    "\<forall>c \<in> set (full_pages n a dat). in_one_page c"
    using full_pages_writes [of a n dat] assms by auto
  have a: "unat (a + of_nat (n * 16)) = unat a + 16 * n" using unat_u16_add [of a "n * 16"] assms by simp
  have "chunk_writes (a + of_nat (n * 16), drop (n * 16) dat, r) = range_writes (unat a + 16 * n) (drop (16 * n) dat) (unat r)"
    unfolding chunk_writes_def range_writes_def prod.case a by (simp add: mult.commute)
  with f(1) range_writes_append [of "16 * n" dat "unat a" "unat r"] assms
  show "plan_writes (pages_and_rest n r a dat) = range_writes (unat a) dat (16 * n + unat r)"
    by (auto simp: pages_and_rest_def unat_eq_0)
  have "(unat a + 16 * n) mod 16 = 0" using assms(3) by simp
  then have "in_one_page (a + of_nat (n * 16), drop (n * 16) dat, r)"
    unfolding in_one_page_def prod.case a using assms(4) by simp
  with f(2) show "\<forall>c \<in> set (pages_and_rest n r a dat). in_one_page c"
    by (auto simp: pages_and_rest_def)
qed

lemma u8_of_small_u16: "unat (x :: u16) < 256 \<Longrightarrow> unat (ucast x :: u8) = unat x"
  by (simp add: unsigned_ucast_eq take_bit_nat_eq_self)

lemma u16_div_16: "unat ((x :: u16) div 16) = unat x div 16" "unat ((x :: u16) mod 16) = unat x mod 16"
  by (simp_all add: unat_div unat_mod)

lemma BufferWrite_plan_split:
  fixes A L :: u16
  assumes "unat A + unat L \<le> 2048"
  defines "addr \<equiv> (ucast (A mod 16) :: u8)"
  shows "unat addr = unat A mod 16" "unat (ucast (L div 16) :: u8) = unat L div 16"
    "unat (ucast (L mod 16) :: u8) = unat L mod 16" "unat (16 - addr) = 16 - unat A mod 16"
    "unat (ucast (16 - addr) :: u16) = 16 - unat A mod 16"
proof -
  show a: "unat addr = unat A mod 16"
    unfolding addr_def using u8_of_small_u16 [of "A mod 16"] by (simp add: u16_div_16)
  show "unat (ucast (L div 16) :: u8) = unat L div 16"
    using u8_of_small_u16 [of "L div 16"] assms(1) by (simp add: u16_div_16)
  show "unat (ucast (L mod 16) :: u8) = unat L mod 16"
    using u8_of_small_u16 [of "L mod 16"] by (simp add: u16_div_16)
  have "addr \<le> 16" using a by (simp add: word_le_nat_alt)
  then show c: "unat (16 - addr) = 16 - unat A mod 16" using a by (simp add: unat_sub)
  show "unat (ucast (16 - addr) :: u16) = 16 - unat A mod 16"
    using c by (simp add: unsigned_ucast_eq take_bit_nat_eq_self)
qed

lemma BufferWrite_single:
  assumes "unat (n :: u8) = unat L" "unat A mod 16 + unat n \<le> 16"
  shows "plan_writes [(A, dat, n)] = range_writes (unat A) dat (unat (L :: u16)) \<and>
         (\<forall>c \<in> set [(A, dat, n)]. in_one_page c)"
  using assms by (simp add: chunk_writes_def range_writes_def in_one_page_def)


lemma BufferWrite_plan_exact:
  assumes "unat A + unat L \<le> 2048" "page_safe (unat A) (unat L)" "unat L \<le> length dat"
  shows "plan_writes (EEPROM_BufferWrite_plan A dat L) = range_writes (unat A) dat (unat L)
         \<and> (\<forall>c \<in> set (EEPROM_BufferWrite_plan A dat L). in_one_page c)"
proof -
  define addr where "addr = (ucast (A mod 16) :: u8)"
  note sp = BufferWrite_plan_split [OF assms(1), folded addr_def]
  have a0: "addr = 0 \<longleftrightarrow> unat A mod 16 = 0" using sp(1) by (metis unat_eq_0)
  have p0: "(ucast (L div 16) :: u8) = 0 \<longleftrightarrow> unat L < 16"
    using sp(2) by (metis unat_eq_0 div_eq_0_iff zero_neq_numeral)
  have L: "16 * (unat L div 16) + unat L mod 16 = unat L" by simp
  show ?thesis
  proof (cases "unat L < 16")
    case True
    then have "EEPROM_BufferWrite_plan A dat L = [(A, dat, ucast (L mod 16))]"
      using p0 by (simp add: EEPROM_BufferWrite_plan_def Let_def)
    moreover have "unat (ucast (L mod 16) :: u8) = unat L" using sp(3) True by simp
    moreover have "unat A mod 16 + unat L \<le> 16" using assms(2) True by (auto simp: page_safe_def)
    ultimately show ?thesis using BufferWrite_single [of "ucast (L mod 16)" L A dat] by simp
  next
    case False
    show ?thesis
    proof (cases "addr = 0")
      case True
      with False p0 have "EEPROM_BufferWrite_plan A dat L
          = pages_and_rest (unat L div 16) (ucast (L mod 16)) A dat"
        using sp(2) by (simp add: EEPROM_BufferWrite_plan_def Let_def addr_def)
      moreover have "unat A mod 16 = 0" using True a0 by simp
      ultimately show ?thesis
        using pages_and_rest_writes [of A "unat L div 16" "ucast (L mod 16)" dat] sp(3) L assms by simp
    next
      case a: False
      let ?c = "16 - addr" and ?L = "L - ucast (16 - addr)"
      have c: "unat ?c = 16 - unat A mod 16" "0 < unat ?c" using sp(4) by auto
      have cz: "?c \<noteq> 0" using c(2) by auto
      have le: "ucast ?c \<le> L" using False sp(5) by (simp add: word_le_nat_alt)
      then have uL: "unat ?L = unat L - unat ?c" using sp(5) c by (simp add: unat_sub)
      have h: "unat A + unat ?L \<le> 2048" using uL assms(1) by simp
      note sp' = BufferWrite_plan_split [OF h]
      have A': "unat (A + ucast ?c) = unat A + unat ?c"
        using unat_u16_add [of A "unat ?c"] sp(5) c(1) assms(1) False
        by (simp add: unat_word_ariths)
      have A16: "(unat A + unat ?c) mod 16 = 0"
        using c(1) by (metis add_diff_inverse_nat mod_add_left_eq mod_less_divisor mod_self not_less_iff_gr_or_eq order_less_imp_le zero_less_numeral le_add_diff_inverse)
      have "EEPROM_BufferWrite_plan A dat L = (A, dat, ?c) #
          pages_and_rest (unat (ucast (?L div 16) :: u8)) (ucast (?L mod 16)) (A + ucast ?c) (drop (unat ?c) dat)"
        using a False p0 cz by (simp add: EEPROM_BufferWrite_plan_def Let_def addr_def)
      moreover have r: "unat (ucast (?L mod 16) :: u8) = unat ?L mod 16" "unat ?L mod 16 < 16"
        and sum: "16 * (unat ?L div 16) + unat ?L mod 16 = unat ?L" using sp'(3) by simp_all
      have p1: "unat (A + ucast ?c) + (16 * (unat ?L div 16) + unat (ucast (?L mod 16) :: u8)) < 65536"
        unfolding r(1) sum A' using uL assms(1) le c False by linarith
      have p2: "16 * (unat ?L div 16) + unat (ucast (?L mod 16) :: u8) \<le> length (drop (unat ?c) dat)"
        unfolding r(1) sum using uL assms(3) by simp
      have p3: "unat (A + ucast ?c) mod 16 = 0" unfolding A' by (rule A16)
      have p4: "unat (ucast (?L mod 16) :: u8) < 16" unfolding r(1) by (rule r(2))
      note pages_and_rest_writes [OF p1 p2 p3 p4, unfolded r(1) sum A']
      moreover have "chunk_writes (A, dat, ?c) = range_writes (unat A) dat (unat ?c)"
        by (simp add: chunk_writes_def range_writes_def)
      moreover have "range_writes (unat A) dat (unat ?c) @ range_writes (unat A + unat ?c) (drop (unat ?c) dat) (unat ?L)
          = range_writes (unat A) dat (unat L)"
        using range_writes_append [of "unat ?c" dat "unat A" "unat ?L"] uL c assms False by simp
      moreover have "in_one_page (A, dat, ?c)" using c(1) by (simp add: in_one_page_def)
      ultimately show ?thesis unfolding sp'(2) by simp
    qed
  qed
qed

text \<open>C21: for every buffer the EEPROM can hold whose write does not start inside a page and cross
  its end within fewer than 16 bytes, the page writes \<open>EEPROM_BufferWrite\<close> issues store exactly
  the buffer, byte by byte at consecutive addresses and in order, and none of them crosses a page
  boundary, where the device would wrap around and overwrite the start of the page.\<close>
theorem BufferWrite_exact:
  assumes "unat A + unat L \<le> 2048" "page_safe (unat A) (unat L)" "unat L \<le> length dat"
  shows "plan_writes (EEPROM_BufferWrite_plan A dat L) = range_writes (unat A) dat (unat L)
         \<and> list_all in_one_page (EEPROM_BufferWrite_plan A dat L)"
  using BufferWrite_plan_exact [OF assms] by (simp add: list_all_iff)

lemma BufferWrite_exact_witness:
  "plan_writes (EEPROM_BufferWrite_plan 8 (replicate 40 1) 40) = range_writes (unat (8 :: u16)) (replicate 40 1) (unat (40 :: u16))
   \<and> list_all in_one_page (EEPROM_BufferWrite_plan 8 (replicate 40 1) 40)"
  by (rule BufferWrite_exact) (simp_all add: page_safe_def)

end
