(* ===== verification/Stm32.thy ===== *)
theory Stm32
  imports Eeprom
begin

text \<open>
  \<open>AllInOneDSP/src/source/module_onboard_stm32.c\<close>: the companion microcontroller on the two-wire
  bus (identified packets of up to 62 bytes), its software update over the control unit's
  serial line and the boot loader's commands, and the update mask.  Every transfer goes
  through \<open>TWI_MasterMode_Write\<close>/\<open>Read\<close> of theory \<open>Twi\<close>.  The scratch array
  \<open>stm32_sw_update_buf\<close> is rewritten before each transfer up to the length sent; the model
  passes those bytes instead.
\<close>

section \<open>State\<close>

definition STM32_I2C_ADDR :: u16 where "STM32_I2C_ADDR = 0x60"
definition AIO_STM32_RESET_PIN :: u32 where "AIO_STM32_RESET_PIN = 0x10"
definition I2C_PACKET_VAL_MAX_LEN :: nat where "I2C_PACKET_VAL_MAX_LEN = 62"
definition STM_UPDATE_BUF_LEN :: nat where "STM_UPDATE_BUF_LEN = 1200"
definition STM_FLASH_SIZE :: u32 where "STM_FLASH_SIZE = 0x10000"
definition STM_BOOT_SIZE :: u32 where "STM_BOOT_SIZE = 0x4000"
definition STM_USER_START_ADDRESS :: u32 where "STM_USER_START_ADDRESS = 0x08004000"
abbreviation OPC_READ :: u8 where "OPC_READ \<equiv> 0x03"
abbreviation OPC_WREN :: u8 where "OPC_WREN \<equiv> 0x06"
abbreviation OPC_ERPG :: u8 where "OPC_ERPG \<equiv> 0x20"
abbreviation OPC_ERUSM :: u8 where "OPC_ERUSM \<equiv> 0x60"
abbreviation OPC_USRCD :: u8 where "OPC_USRCD \<equiv> 0x77"
abbreviation DUM_BYTE :: u8 where "DUM_BYTE \<equiv> 0xFF"

definition MASTER_UPDATE_TAG :: bytes where
  "MASTER_UPDATE_TAG = [0xAA,0x99,0x88,0x77,0x66,0x55,0x44,0x33,0x22,0x11,0x00]"
definition SLAVER_UPDATE_TAG :: bytes where
  "SLAVER_UPDATE_TAG = [0x00,0x11,0x22,0x33,0x44,0x55,0x66,0x77,0x88,0x99,0xAA]"

datatype I2C_PacketID =
    POWER_STATUS | SELF_CHECK | ECG_PROBE_RESULT | PROTECT_PRESSURE | CURRENT_PRESSURE
  | SOFTWARE_UPDATE | NIBP_VERIFY | NIBP_PROTECT_STATE

fun i2c_code :: "I2C_PacketID \<Rightarrow> u8" where
  "i2c_code POWER_STATUS = 0" | "i2c_code SELF_CHECK = 1" | "i2c_code ECG_PROBE_RESULT = 2"
| "i2c_code PROTECT_PRESSURE = 3" | "i2c_code CURRENT_PRESSURE = 4" | "i2c_code SOFTWARE_UPDATE = 5"
| "i2c_code NIBP_VERIFY = 6" | "i2c_code NIBP_PROTECT_STATE = 7"

datatype UPDATE_COMMUNICATE_CID =
    UPDATE_ACK | UPDATE_NAK | UPDATE_EOT | UPDATE_SOL | UPDATE_SOD | UPDATE_CA | UPDATE_RP

fun cid_code :: "UPDATE_COMMUNICATE_CID \<Rightarrow> u8" where
  "cid_code UPDATE_ACK = 1" | "cid_code UPDATE_NAK = 2" | "cid_code UPDATE_EOT = 3"
| "cid_code UPDATE_SOL = 4" | "cid_code UPDATE_SOD = 5" | "cid_code UPDATE_CA = 6" | "cid_code UPDATE_RP = 7"

abbreviation SF_AIO_STM_UPDATE :: u8 where "SF_AIO_STM_UPDATE \<equiv> 0xD2"

text \<open>\<open>data_number\<close> and \<open>wFlashAddr\<close> are the statics of \<open>aio_stm32_UpdateHandle\<close>,
  \<open>aio_stm32_comm_fail_cnt\<close> that of \<open>aio_stm32_readByID\<close>.\<close>

record stm32_st =
  g_is_aio_stm_error :: u8
  aio_stm32_comm_fail_cnt :: u32
  stm32_Mask_ulNextChangeTime :: u32
  STM32_I2C_Test_ulNextChangeTime :: u32
  data_number :: u8
  wFlashAddr :: u32

record stm32_sys = eeprom_sys +
  stm32 :: stm32_st

section \<open>Reset line\<close>

definition STM32_ResetIO_Init :: "'a hw_sys_scheme \<Rightarrow> 'a hw_sys_scheme" where
  "STM32_ResetIO_Init s =
     run [andw ''PORTHIO_INEN'' (NOT AIO_STM32_RESET_PIN), orw ''PORTHIO_DIR'' AIO_STM32_RESET_PIN,
          andw ''PORTHIO_EDGE'' (NOT AIO_STM32_RESET_PIN), wr ''PORTHIO_MASKA_CLEAR'' AIO_STM32_RESET_PIN,
          wr ''PORTHIO_SET'' AIO_STM32_RESET_PIN] s"

definition STM32_Reset :: "'a tick_sys_scheme \<Rightarrow> 'a tick_sys_scheme" where
  "STM32_Reset s =
     run [wr ''PORTHIO_CLEAR'' AIO_STM32_RESET_PIN, Delay1ms 10, wr ''PORTHIO_SET'' AIO_STM32_RESET_PIN] s"

definition OnBoardSTM32_Module_Init :: "'a stm32_sys_scheme \<Rightarrow> 'a stm32_sys_scheme" where
  "OnBoardSTM32_Module_Init s =
     STM32_ResetIO_Init
       (s\<lparr>glob := (glob s)\<lparr>g_stm32_mask_count := UPDATE_MASK_AIO_TIME_S + 1\<rparr>,
          stm32 := (stm32 s)\<lparr>g_is_aio_stm_error := 0\<rparr>\<rparr>)"

section \<open>Identified packets\<close>

definition aio_stm32_writeByID :: "I2C_PacketID \<Rightarrow> bytes \<Rightarrow> 'a stm32_sys_scheme \<Rightarrow> int \<times> 'a stm32_sys_scheme" where
  "aio_stm32_writeByID i pWBuf s =
     (if length pWBuf > I2C_PACKET_VAL_MAX_LEN then (- 1, s)
      else TWI_MasterMode_Write STM32_I2C_ADDR
             ((push_bit 1 (i2c_code i) OR 0) # of_nat (length pWBuf) # pWBuf) 1 (2 + length pWBuf) s)"

definition aio_stm32_readByID :: "I2C_PacketID \<Rightarrow> nat \<Rightarrow> 'a stm32_sys_scheme \<Rightarrow> int \<times> bytes \<times> 'a stm32_sys_scheme" where
  "aio_stm32_readByID i nBufLen s =
     (if nBufLen > I2C_PACKET_VAL_MAX_LEN then (- 1, [], s)
      else let u8ID = push_bit 1 (i2c_code i) OR 1;
               s = snd (TWI_MasterMode_Write STM32_I2C_ADDR [u8ID] 1 1 s);
               (result, bs, s) = TWI_MasterMode_Read STM32_I2C_ADDR nBufLen s;
               s = (if result < 0
                    then (let c = aio_stm32_comm_fail_cnt (stm32 s)
                          in s\<lparr>stm32 := (stm32 s)\<lparr>aio_stm32_comm_fail_cnt := c + 1,
                                g_is_aio_stm_error := (if sint c > 10 then 1 else g_is_aio_stm_error (stm32 s))\<rparr>\<rparr>)
                    else s\<lparr>stm32 := (stm32 s)\<lparr>aio_stm32_comm_fail_cnt := 0, g_is_aio_stm_error := 0\<rparr>\<rparr>)
           in (result, bs, s))"

definition aio_stm32_readProtect :: "'a stm32_sys_scheme \<Rightarrow> int \<times> u8 \<times> u16 \<times> 'a stm32_sys_scheme" where
  "aio_stm32_readProtect s =
     (let (result, bs, s) = aio_stm32_readByID PROTECT_PRESSURE 3 s;
          buf = put_bytes 0 bs [0, 0, 0]
      in (result, buf ! 0, u16_of_bytes (buf ! 1) (buf ! 2), s))"

definition aio_stm32_writeProtect :: "u8 \<Rightarrow> u16 \<Rightarrow> 'a stm32_sys_scheme \<Rightarrow> int \<times> 'a stm32_sys_scheme" where
  "aio_stm32_writeProtect index maxPress s =
     aio_stm32_writeByID PROTECT_PRESSURE [index, byte_of 8 maxPress, byte_of 0 maxPress] s"

definition aio_stm32_setVerify :: "u8 \<Rightarrow> 'a stm32_sys_scheme \<Rightarrow> int \<times> 'a stm32_sys_scheme" where
  "aio_stm32_setVerify st s = aio_stm32_writeByID NIBP_VERIFY [st] s"

definition aio_stm32_readNIBPState :: "'a stm32_sys_scheme \<Rightarrow> int \<times> bytes \<times> 'a stm32_sys_scheme" where
  "aio_stm32_readNIBPState s = aio_stm32_readByID NIBP_PROTECT_STATE 1 s"

definition aio_stm32_writeNIBPState :: "u8 \<Rightarrow> 'a stm32_sys_scheme \<Rightarrow> int \<times> 'a stm32_sys_scheme" where
  "aio_stm32_writeNIBPState st s = aio_stm32_writeByID NIBP_PROTECT_STATE [st] s"

section \<open>Update mask\<close>

definition set_uploads_stm32 :: "bool \<Rightarrow> glob_st \<Rightarrow> glob_st" where
  "set_uploads_stm32 b g = (set_uploads b g)\<lparr>g_IsSpO2_Upload := b\<rparr>"

definition aio_stm32_ResetMaskAIOTick :: "'a stm32_sys_scheme \<Rightarrow> 'a stm32_sys_scheme" where
  "aio_stm32_ResetMaskAIOTick s =
     (if IsOnTime (stm32_Mask_ulNextChangeTime (stm32 s)) (tick s)
      then let g = glob s;
               c = g_stm32_mask_count g;
               g = (if c = 0 then set_uploads_stm32 False g else g);
               g = (if c = UPDATE_MASK_AIO_TIME_S then set_uploads_stm32 True g else g);
               g = g\<lparr>g_stm32_mask_count := (if c > UPDATE_MASK_AIO_TIME_S then UPDATE_MASK_AIO_TIME_S + 1 else c + 1)\<rparr>
           in s\<lparr>glob := g,
                stm32 := (stm32 s)\<lparr>stm32_Mask_ulNextChangeTime :=
                  stm32_Mask_ulNextChangeTime (stm32 s) + getTickNumberByMS 1000 (tick s)\<rparr>\<rparr>
      else s)"

definition STM32_I2C_Handler :: "'a stm32_sys_scheme \<Rightarrow> 'a stm32_sys_scheme" where
  "STM32_I2C_Handler s = aio_stm32_ResetMaskAIOTick s"

definition STM32_I2C_Test :: "'a stm32_sys_scheme \<Rightarrow> 'a stm32_sys_scheme" where
  "STM32_I2C_Test s =
     (if IsOnTime (STM32_I2C_Test_ulNextChangeTime (stm32 s)) (tick s)
      then let (r, bs, s) = aio_stm32_readByID CURRENT_PRESSURE 2 s;
               buf = put_bytes 0 bs [0, 0];
               v = u16_of_bytes (buf ! 0) (buf ! 1);
               s = AIO_printf (crnl @ str ''[STM32] ADC u16 = 0x'' @ fmt_u True 16 4 (unat v)) s
           in s\<lparr>stm32 := (stm32 s)\<lparr>STM32_I2C_Test_ulNextChangeTime :=
                  STM32_I2C_Test_ulNextChangeTime (stm32 s) + getTickNumberByMS 1000 (tick s)\<rparr>\<rparr>
      else s)"

section \<open>Boot loader commands\<close>

text \<open>The header every command with an address has: opcode, address, count, most significant byte first.\<close>

definition stm_cmd :: "u8 \<Rightarrow> u32 \<Rightarrow> u16 \<Rightarrow> bytes" where
  "stm_cmd opc addr n =
     [opc, byte_of 24 addr, byte_of 16 addr, byte_of 8 addr, byte_of 0 addr, byte_of 8 n, byte_of 0 n]"

definition aio_stm32_enter_boot :: "'a stm32_sys_scheme \<Rightarrow> int \<times> 'a stm32_sys_scheme" where
  "aio_stm32_enter_boot s = aio_stm32_writeByID SOFTWARE_UPDATE [0xAA] s"

definition stm_update_read_op :: "u32 \<Rightarrow> u16 \<Rightarrow> 'a stm32_sys_scheme \<Rightarrow> int \<times> bytes \<times> 'a stm32_sys_scheme" where
  "stm_update_read_op addr nByte s =
     (let (result, s) = TWI_MasterMode_Write STM32_I2C_ADDR (stm_cmd OPC_READ addr nByte) 1 7 s
      in if result < 0 then (result, [], s)
         else TWI_MasterMode_Read STM32_I2C_ADDR (unat nByte) s)"

definition stm_update_read_op_result :: "'a stm32_sys_scheme \<Rightarrow> int \<times> 'a stm32_sys_scheme" where
  "stm_update_read_op_result s =
     (let (result, bs, s) = stm_update_read_op 1 1 s
      in if result < 0 then (0, s)
         else if put_bytes 0 bs [0] ! 0 = 1 then (1, s) else (0, s))"

definition stm_write_packet :: "u32 \<Rightarrow> u16 \<Rightarrow> bytes \<Rightarrow> bytes" where
  "stm_write_packet addr nByte pData = stm_cmd OPC_WREN addr nByte @ [DUM_BYTE] @ take (unat nByte) pData"

definition stm_update_write_op :: "u32 \<Rightarrow> u16 \<Rightarrow> bytes \<Rightarrow> 'a stm32_sys_scheme \<Rightarrow> int \<times> 'a stm32_sys_scheme" where
  "stm_update_write_op addr nByte pData s =
     (if unat nByte > STM_UPDATE_BUF_LEN - 8 then (- 1, s)
      else TWI_MasterMode_Write STM32_I2C_ADDR (stm_write_packet addr nByte pData) 1 (8 + unat nByte) s)"

definition stm_update_erase_page_op :: "u32 \<Rightarrow> u32 \<Rightarrow> 'a stm32_sys_scheme \<Rightarrow> int \<times> 'a stm32_sys_scheme" where
  "stm_update_erase_page_op addr nPage s =
     TWI_MasterMode_Write STM32_I2C_ADDR (stm_cmd OPC_ERPG addr (ucast nPage)) 1 7 s"

definition stm_update_erase_user_op :: "'a stm32_sys_scheme \<Rightarrow> int \<times> 'a stm32_sys_scheme" where
  "stm_update_erase_user_op s = TWI_MasterMode_Write STM32_I2C_ADDR [OPC_ERUSM] 1 1 s"

definition stm_update_go_user_op :: "'a stm32_sys_scheme \<Rightarrow> int \<times> 'a stm32_sys_scheme" where
  "stm_update_go_user_op s = TWI_MasterMode_Write STM32_I2C_ADDR [OPC_USRCD] 1 1 s"

section \<open>The update dialogue\<close>

definition stm_update_download_ready :: "'a prot_sys_scheme \<Rightarrow> 'a prot_sys_scheme" where
  "stm_update_download_ready s = upload SF_AIO_STM_UPDATE SLAVER_UPDATE_TAG s"

definition stm_update_packet_resend :: "u8 \<Rightarrow> 'a prot_sys_scheme \<Rightarrow> 'a prot_sys_scheme" where
  "stm_update_packet_resend number s = upload SF_AIO_STM_UPDATE [cid_code UPDATE_SOD, number] s"

definition stm_update_respond :: "UPDATE_COMMUNICATE_CID \<Rightarrow> 'a prot_sys_scheme \<Rightarrow> 'a prot_sys_scheme" where
  "stm_update_respond cid s = upload SF_AIO_STM_UPDATE [cid_code cid] s"

text \<open>\<open>while (timeout--) { ...; if (ready) break; }\<close>: the value of \<open>timeout\<close> after the loop.\<close>

fun boot_wait :: "nat \<Rightarrow> 'a stm32_sys_scheme \<Rightarrow> int \<times> 'a stm32_sys_scheme" where
  "boot_wait 0 s = (- 1, s)"
| "boot_wait (Suc t) s =
     (let (reslut, bs, s) = stm_update_read_op 0 2 s;
          pBuf = put_bytes 0 bs [0, 0]
      in if reslut \<ge> 0 \<and> pBuf ! 0 = 0xAA \<and> pBuf ! 1 = 0x55 then (int t, s) else boot_wait t s)"

definition update_start :: "'a stm32_sys_scheme \<Rightarrow> 'a stm32_sys_scheme" where
  "update_start s =
     (let s = snd (aio_stm32_enter_boot s);
          (timeout, s) = boot_wait 0x1000 s
      in if timeout > 0
         then let s = stm_update_download_ready s
              in s\<lparr>stm32 := (stm32 s)\<lparr>wFlashAddr := STM_USER_START_ADDRESS\<rparr>\<rparr>
         else s)"

definition update_length :: "bytes \<Rightarrow> 'a stm32_sys_scheme \<Rightarrow> 'a stm32_sys_scheme" where
  "update_length d s =
     (if d ! 0 = cid_code UPDATE_SOL \<and> d ! 1 = 0
      then let file_len = u32_of_bytes (d ! 2) (d ! 3) (d ! 4) (d ! 5)
           in if file_len > STM_FLASH_SIZE - STM_BOOT_SIZE then stm_update_respond UPDATE_CA s
              else stm_update_respond UPDATE_ACK (s\<lparr>stm32 := (stm32 s)\<lparr>data_number := 1\<rparr>\<rparr>)
      else s)"

definition update_data :: "u8 \<Rightarrow> bytes \<Rightarrow> 'a stm32_sys_scheme \<Rightarrow> 'a stm32_sys_scheme" where
  "update_data len d s =
     (if d ! 0 = cid_code UPDATE_SOD
      then if data_number (stm32 s) = d ! 1
           then let nLen = (ucast len - 2 :: u16);
                    nLen = (if nLen AND 1 \<noteq> 0 then nLen + 1 else nLen);
                    (reslut, s) = stm_update_write_op (wFlashAddr (stm32 s)) nLen (drop 2 d) s;
                    s = Delay1ms 40 s;
                    (ok, s) = (if reslut > 0 then stm_update_read_op_result s else (0, s))
                in if ok = 1
                   then stm_update_respond UPDATE_ACK
                          (s\<lparr>stm32 := (stm32 s)\<lparr>data_number := data_number (stm32 s) + 1,
                                               wFlashAddr := wFlashAddr (stm32 s) + ucast nLen\<rparr>\<rparr>)
                   else stm_update_packet_resend (data_number (stm32 s)) s
           else stm_update_packet_resend (data_number (stm32 s)) s
      else s)"

definition update_end :: "bytes \<Rightarrow> 'a stm32_sys_scheme \<Rightarrow> 'a stm32_sys_scheme" where
  "update_end d s =
     (let s = (if d ! 0 = cid_code UPDATE_EOT then stm_update_respond UPDATE_NAK s else s)
      in if d ! 0 = cid_code UPDATE_CA then stm_update_respond UPDATE_ACK s else s)"

definition aio_stm32_UpdateHandle :: "UartProtocolPacket \<Rightarrow> 'a stm32_sys_scheme \<Rightarrow> RETURN_TypeDef \<times> 'a stm32_sys_scheme" where
  "aio_stm32_UpdateHandle p s =
     (let d = DataAndCRC p in
      if unat (PLength p) = length MASTER_UPDATE_TAG \<and> take (length MASTER_UPDATE_TAG) d = MASTER_UPDATE_TAG
      then (RETURN_OK, update_start s)
      else (RETURN_OK, run [update_length d, update_data (PLength p) d, update_end d] s))"

section \<open>Frame facts\<close>

lemma hw_stm32 [simp]:
  "stm32 (Delay1ms ms s) = stm32 s" "stm32 (AIO_printf msg s) = stm32 s"
  "stm32 (UploadDataByID pid t dat len s) = stm32 s" "stm32 (upload pid dat s) = stm32 s"
  "stm32 (wr r v s) = stm32 s" "stm32 (orw r v s) = stm32 s" "stm32 (andw r v s) = stm32 s"
  "stm32 (ssync s) = stm32 s" "stm32 (emit e s) = stm32 s"
  by (simp_all add: hw_prims Delay1ms_def AIO_printf_def UploadDataByID_def upload_def Let_def)

lemma twi_same_client:
  fixes s t :: "'a stm32_sys_scheme"
  assumes "twi_same s t"
  shows "stm32 t = stm32 s" "eep t = eep s" "spo2 t = spo2 s" "glob t = glob s" "prot t = prot s" "fault t = fault s"
  using assms by (cases s; cases t; simp add: twi_same_def)+

lemma TWI_Write_client [simp]:
  fixes s :: "'a stm32_sys_scheme"
  shows "stm32 (snd (TWI_MasterMode_Write d dat n len s)) = stm32 s"
    "prot (snd (TWI_MasterMode_Write d dat n len s)) = prot s"
    "glob (snd (TWI_MasterMode_Write d dat n len s)) = glob s"
    "fault (snd (TWI_MasterMode_Write d dat n len s)) = fault s"
  by (rule twi_same_client, simp)+

lemma TWI_Read_client [simp]:
  fixes s :: "'a stm32_sys_scheme"
  shows "stm32 (snd (snd (TWI_MasterMode_Read d len s))) = stm32 s"
    "prot (snd (snd (TWI_MasterMode_Read d len s))) = prot s"
    "glob (snd (snd (TWI_MasterMode_Read d len s))) = glob s"
    "fault (snd (snd (TWI_MasterMode_Read d len s))) = fault s"
  by (rule twi_same_client, simp)+

lemma stm_update_write_op_client [simp]:
  "stm32 (snd (stm_update_write_op addr n dat s)) = stm32 s"
  "prot (snd (stm_update_write_op addr n dat s)) = prot s"
  by (simp_all add: stm_update_write_op_def)

lemma stm_update_read_op_client [simp]:
  "stm32 (snd (snd (stm_update_read_op addr n s))) = stm32 s"
  "prot (snd (snd (stm_update_read_op addr n s))) = prot s"
  by (simp_all add: stm_update_read_op_def case_prod_beta Let_def)

lemma stm_update_read_op_result_client [simp]:
  "stm32 (snd (stm_update_read_op_result s)) = stm32 s"
  "prot (snd (stm_update_read_op_result s)) = prot s"
  by (simp_all add: stm_update_read_op_result_def case_prod_beta Let_def)

section \<open>The update dialogue\<close>

definition even_len :: "u8 \<Rightarrow> u16" where
  "even_len len = (let n = ucast len - 2 in if n AND 1 \<noteq> 0 then n + 1 else n)"

definition update_acked :: "u8 \<Rightarrow> bytes \<Rightarrow> 'a stm32_sys_scheme \<Rightarrow> bool" where
  "update_acked len d s \<longleftrightarrow>
     d ! 0 = cid_code UPDATE_SOD \<and> d ! 1 = data_number (stm32 s) \<and>
     (let (r, t) = stm_update_write_op (wFlashAddr (stm32 s)) (even_len len) (drop 2 d) s
      in r > 0 \<and> fst (stm_update_read_op_result (Delay1ms 40 t)) = 1)"

lemma update_data_acked:
  assumes "update_acked len d s"
  shows "stm32 (update_data len d s) = (stm32 s)\<lparr>data_number := data_number (stm32 s) + 1,
           wFlashAddr := wFlashAddr (stm32 s) + ucast (even_len len)\<rparr>"
    "up_log (prot (update_data len d s)) = (SF_AIO_STM_UPDATE, [cid_code UPDATE_ACK]) # up_log (prot s)"
proof -
  obtain r t where w: "stm_update_write_op (wFlashAddr (stm32 s)) (even_len len) (drop 2 d) s = (r, t)"
    by (cases "stm_update_write_op (wFlashAddr (stm32 s)) (even_len len) (drop 2 d) s")
  obtain ok u where q: "stm_update_read_op_result (Delay1ms 40 t) = (ok, u)"
    by (cases "stm_update_read_op_result (Delay1ms 40 t)")
  have st: "stm32 t = stm32 s" "prot t = prot s"
    using stm_update_write_op_client [of "wFlashAddr (stm32 s)" "even_len len" "drop 2 d" s] w by simp_all
  then have su: "stm32 u = stm32 s" "prot u = prot s"
    using stm_update_read_op_result_client [of "Delay1ms 40 t"] q by simp_all
  from assms w q have c: "d ! 0 = cid_code UPDATE_SOD" "d ! 1 = data_number (stm32 s)" "r > 0" "ok = 1"
    by (auto simp: update_acked_def Let_def)
  have e: "update_data len d s = stm_update_respond UPDATE_ACK
      (u\<lparr>stm32 := (stm32 u)\<lparr>data_number := data_number (stm32 u) + 1,
          wFlashAddr := wFlashAddr (stm32 u) + ucast (even_len len)\<rparr>\<rparr>)"
    using c w q by (simp add: update_data_def even_len_def Let_def)
  show "stm32 (update_data len d s) = (stm32 s)\<lparr>data_number := data_number (stm32 s) + 1,
           wFlashAddr := wFlashAddr (stm32 s) + ucast (even_len len)\<rparr>"
    unfolding e by (simp add: stm_update_respond_def su)
  show "up_log (prot (update_data len d s)) = (SF_AIO_STM_UPDATE, [cid_code UPDATE_ACK]) # up_log (prot s)"
    unfolding e by (simp add: stm_update_respond_def upload_log su)
qed

lemma update_data_not_acked:
  assumes "\<not> update_acked len d s" "d ! 0 = cid_code UPDATE_SOD"
  shows "stm32 (update_data len d s) = stm32 s"
    "up_log (prot (update_data len d s))
     = (SF_AIO_STM_UPDATE, [cid_code UPDATE_SOD, data_number (stm32 s)]) # up_log (prot s)"
proof -
  obtain r t where w: "stm_update_write_op (wFlashAddr (stm32 s)) (even_len len) (drop 2 d) s = (r, t)"
    by (cases "stm_update_write_op (wFlashAddr (stm32 s)) (even_len len) (drop 2 d) s")
  obtain ok u where q: "stm_update_read_op_result (Delay1ms 40 t) = (ok, u)"
    by (cases "stm_update_read_op_result (Delay1ms 40 t)")
  have st: "stm32 t = stm32 s" "prot t = prot s"
    using stm_update_write_op_client [of "wFlashAddr (stm32 s)" "even_len len" "drop 2 d" s] w by simp_all
  then have su: "stm32 u = stm32 s" "prot u = prot s"
    using stm_update_read_op_result_client [of "Delay1ms 40 t"] q by simp_all
  have "update_data len d s = stm_update_packet_resend (data_number (stm32 s))
      (if d ! 1 = data_number (stm32 s) then (if r > 0 then u else Delay1ms 40 t) else s)"
    using assms w q su(1) st(1)
    by (auto simp: update_data_def update_acked_def even_len_def [of len] Let_def)
  then show "stm32 (update_data len d s) = stm32 s"
    "up_log (prot (update_data len d s))
     = (SF_AIO_STM_UPDATE, [cid_code UPDATE_SOD, data_number (stm32 s)]) # up_log (prot s)"
    using su st by (auto simp: stm_update_packet_resend_def upload_log)
qed

text \<open>A run over data packets, and the flash writes the boot loader confirmed, in order, with the
  packet number, the address and the length.\<close>

fun update_run :: "(u8 \<times> bytes) list \<Rightarrow> 'a stm32_sys_scheme \<Rightarrow> (u8 \<times> u32 \<times> u16) list \<times> 'a stm32_sys_scheme" where
  "update_run [] s = ([], s)"
| "update_run ((len, d) # ps) s =
     (let (ws, t) = update_run ps (update_data len d s)
      in (if update_acked len d s then (d ! 1, wFlashAddr (stm32 s), even_len len) # ws else ws, t))"

fun tiled :: "u8 \<Rightarrow> u32 \<Rightarrow> (u8 \<times> u32 \<times> u16) list \<Rightarrow> u8 \<Rightarrow> u32 \<Rightarrow> bool" where
  "tiled n a [] m b \<longleftrightarrow> n = m \<and> a = b"
| "tiled n a ((k, x, len) # ws) m b \<longleftrightarrow> k = n \<and> x = a \<and> tiled (n + 1) (a + ucast len) ws m b"

text \<open>C3: the firmware update writes the image without gaps, overlaps, repetitions or reordering.
  Whatever data packets arrive (lost, repeated, out of order, with failing transfers), the
  confirmed writes have consecutive packet numbers, each starts where the one before ended, and
  the handler's packet counter and flash pointer are exactly behind the last of them.\<close>

theorem update_tiles:
  assumes "\<forall>(len, d) \<in> set ps. d ! 0 = cid_code UPDATE_SOD" "update_run ps s = (ws, t)"
  shows "tiled (data_number (stm32 s)) (wFlashAddr (stm32 s)) ws (data_number (stm32 t)) (wFlashAddr (stm32 t))"
  using assms
proof (induction ps arbitrary: s ws)
  case (Cons p ps)
  obtain len d where p: "p = (len, d)" by (cases p)
  obtain ws' where r: "update_run ps (update_data len d s) = (ws', t)"
    and ws: "ws = (if update_acked len d s then (d ! 1, wFlashAddr (stm32 s), even_len len) # ws' else ws')"
    using Cons.prems(2) p by (auto simp: Let_def split: prod.splits)
  have ih: "tiled (data_number (stm32 (update_data len d s))) (wFlashAddr (stm32 (update_data len d s))) ws'
      (data_number (stm32 t)) (wFlashAddr (stm32 t))"
    using Cons.IH [OF _ r] Cons.prems(1) by simp
  show ?case
  proof (cases "update_acked len d s")
    case True
    then have "d ! 1 = data_number (stm32 s)" by (simp add: update_acked_def)
    with True ih ws show ?thesis by (simp add: update_data_acked)
  next
    case False
    with ih ws Cons.prems(1) p show ?thesis by (simp add: update_data_not_acked)
  qed
qed simp

lemma update_tiles_witness:
  "\<forall>s :: stm32_sys. tiled (data_number (stm32 s)) (wFlashAddr (stm32 s))
     (fst (update_run [(5, [5, 1, 0xAA, 0xBB, 0xCC]), (4, [5, 1, 0xDD, 0xEE])] s))
     (data_number (stm32 (snd (update_run [(5, [5, 1, 0xAA, 0xBB, 0xCC]), (4, [5, 1, 0xDD, 0xEE])] s))))
     (wFlashAddr (stm32 (snd (update_run [(5, [5, 1, 0xAA, 0xBB, 0xCC]), (4, [5, 1, 0xDD, 0xEE])] s))))"
  by (rule allI, rule update_tiles [where ps = "[(5, [5, 1, 0xAA, 0xBB, 0xCC]), (4, [5, 1, 0xDD, 0xEE])]"])
     (simp_all del: update_run.simps)

end
