(* ===== verification/Temperature.thy ===== *)
theory Temperature
  imports Stm32
begin

text \<open>
  \<open>AllInOneDSP/src/source/sn74hc595.c\<close>, the serial-in parallel-out register that selects the
  analog channels, and \<open>module_temperature.c\<close>: the periodic channel switch, the conversion of an
  ADC value to a resistance and of a resistance to tenths of a degree by the probe's
  table, and the upload.
\<close>

section \<open>The shift register\<close>

abbreviation HCT595_SER_PIN :: u32 where "HCT595_SER_PIN \<equiv> 0x20"
abbreviation HCT595_SRCLK_PIN :: u32 where "HCT595_SRCLK_PIN \<equiv> 0x800"
abbreviation HCT595_RCLK_PIN :: u32 where "HCT595_RCLK_PIN \<equiv> 0x80"
abbreviation HCT595_IBP_ZERO_MASK :: u8 where "HCT595_IBP_ZERO_MASK \<equiv> 0x01"
abbreviation HCT595_TEMP_SELE_MASK :: u8 where "HCT595_TEMP_SELE_MASK \<equiv> 0x06"
abbreviation HCT595_ADC_CHANNEL_MASK :: u8 where "HCT595_ADC_CHANNEL_MASK \<equiv> 0x18"

datatype COMADC_Channel_TypeDef = TEMP_channel | IBP1_channel | NIBP_channel | IBP2_channel
datatype TEMP_Channel_TypeDef = TEMP_COM | TEMP_CH1 | TEMP_CH2 | TEMP_COM_R

fun comadc_code :: "COMADC_Channel_TypeDef \<Rightarrow> u8" where
  "comadc_code TEMP_channel = 0" | "comadc_code IBP1_channel = 1"
| "comadc_code NIBP_channel = 2" | "comadc_code IBP2_channel = 3"

fun temp_code :: "TEMP_Channel_TypeDef \<Rightarrow> u8" where
  "temp_code TEMP_COM = 0" | "temp_code TEMP_CH1 = 1" | "temp_code TEMP_CH2 = 2" | "temp_code TEMP_COM_R = 3"

record temp_st =
  g_HCT595Value :: u8
  g_TempADC_Val :: "u32 \<times> u32"
  IsTempNeedSample :: bool
  IsSampleTempCOM :: bool
  g_TempChannel :: TEMP_Channel_TypeDef
  g_TempUploadFormat :: UploadFormat_TypeDef
  Temperature_ulNextChangeTime :: u32
  channelStatus :: u8

record temp_sys = stm32_sys +
  tmp :: temp_st

lemma hw_tmp [simp]:
  "tmp (emit e s) = tmp s" "tmp (wr r v s) = tmp s" "tmp (orw r v s) = tmp s"
  "tmp (andw r v s) = tmp s" "tmp (ssync s) = tmp s" "tmp (raise_fault s) = tmp s"
  "tmp (alg_call f xs s) = tmp s" "tmp (Delay1ms ms s) = tmp s"
  "tmp (AIO_printf msg s) = tmp s" "tmp (UploadDataByID pid t dat len s) = tmp s"
  "tmp (upload pid dat s) = tmp s"
  by (simp_all add: hw_prims Delay1ms_def AIO_printf_def UploadDataByID_def upload_def Let_def)

definition AHCT595_IO_Init :: "'a hw_sys_scheme \<Rightarrow> 'a hw_sys_scheme" where
  "AHCT595_IO_Init s =
     (let m = HCT595_SER_PIN OR HCT595_SRCLK_PIN OR HCT595_RCLK_PIN
      in run [andw ''PORTGIO_INEN'' (NOT m), orw ''PORTGIO_DIR'' m, andw ''PORTGIO_EDGE'' (NOT m),
              wr ''PORTGIO_MASKA_CLEAR'' m, wr ''PORTGIO_CLEAR'' HCT595_SER_PIN,
              wr ''PORTGIO_CLEAR'' HCT595_SRCLK_PIN, wr ''PORTGIO_CLEAR'' HCT595_RCLK_PIN] s)"

definition hct595_shift :: "u8 \<Rightarrow> nat \<Rightarrow> 'a hw_sys_scheme \<Rightarrow> 'a hw_sys_scheme" where
  "hct595_shift v i s =
     run [wr ''PORTGIO_CLEAR'' HCT595_SRCLK_PIN,
          (if drop_bit i v AND 1 \<noteq> 0 then wr ''PORTGIO_SET'' HCT595_SER_PIN
           else wr ''PORTGIO_CLEAR'' HCT595_SER_PIN),
          wr ''PORTGIO_SET'' HCT595_SRCLK_PIN] s"

definition AHCT595_Refresh :: "'a temp_sys_scheme \<Rightarrow> 'a temp_sys_scheme" where
  "AHCT595_Refresh s =
     (let s = wr ''PORTGIO_CLEAR'' HCT595_RCLK_PIN s;
          s = fold (\<lambda>i s. hct595_shift (g_HCT595Value (tmp s)) i s) [7, 6, 5, 4, 3, 2, 1, 0] s
      in wr ''PORTGIO_SET'' HCT595_RCLK_PIN s)"

definition set_595 :: "u8 \<Rightarrow> 'a temp_sys_scheme \<Rightarrow> 'a temp_sys_scheme" where
  "set_595 v s = s\<lparr>tmp := (tmp s)\<lparr>g_HCT595Value := v\<rparr>\<rparr>"

definition AHCT595_SetComADCChannel :: "COMADC_Channel_TypeDef \<Rightarrow> 'a temp_sys_scheme \<Rightarrow> 'a temp_sys_scheme" where
  "AHCT595_SetComADCChannel channel s =
     AHCT595_Refresh (set_595 ((g_HCT595Value (tmp s) AND NOT HCT595_ADC_CHANNEL_MASK)
        OR (push_bit 3 (comadc_code channel) AND HCT595_ADC_CHANNEL_MASK)) s)"

definition AHCT595_SetTempChannel :: "TEMP_Channel_TypeDef \<Rightarrow> 'a temp_sys_scheme \<Rightarrow> 'a temp_sys_scheme" where
  "AHCT595_SetTempChannel channel s =
     AHCT595_Refresh (set_595 ((g_HCT595Value (tmp s) AND NOT HCT595_TEMP_SELE_MASK)
        OR (push_bit 1 (temp_code channel) AND HCT595_TEMP_SELE_MASK)) s)"

definition AHCT595_SetIBPzero :: "EnableOrDisable \<Rightarrow> 'a temp_sys_scheme \<Rightarrow> 'a temp_sys_scheme" where
  "AHCT595_SetIBPzero status s =
     AHCT595_Refresh (set_595 (if status = ENABLE then g_HCT595Value (tmp s) OR HCT595_IBP_ZERO_MASK
                               else g_HCT595Value (tmp s) AND NOT HCT595_IBP_ZERO_MASK) s)"

definition AHCT595_Init :: "'a temp_sys_scheme \<Rightarrow> 'a temp_sys_scheme" where
  "AHCT595_Init s = AHCT595_IO_Init (set_595 0 s)"

section \<open>Temperature\<close>

definition TEMP_TABLE_ohm :: "nat list" where
  "TEMP_TABLE_ohm =
    [7378,7341,7303,7266,7229,7192,7156,7119,7083,7047,7011,6976,6940,6905,6870,
     6835,6801,6767,6732,6698,6665,6631,6598,6564,6531,6499,6466,6433,6401,6369,
     6337,6305,6274,6242,6211,6180,6149,6119,6088,6058,6028,5998,5968,5938,5909,
     5879,5850,5821,5792,5763,5735,5707,5678,5650,5622,5595,5567,5540,5512,5485,
     5458,5431,5405,5378,5352,5326,5299,5273,5248,5222,5196,5171,5146,5121,5096,
     5071,5046,5022,4997,4973,4949,4925,4901,4877,4853,4830,4807,4783,4760,4737,
     4714,4692,4669,4646,4624,4602,4580,4558,4536,4514,4492,4471,4449,4428,4407,
     4386,4365,4344,4323,4303,4282,4262,4241,4221,4201,4181,4161,4141,4122,4102,
     4083,4063,4044,4025,4006,3987,3968,3950,3931,3912,3894,3876,3857,3839,3821,
     3803,3785,3768,3750,3732,3715,3698,3680,3663,3646,3629,3612,3595,3578,3562,
     3545,3529,3512,3496,3480,3464,3447,3431,3416,3400,3384,3368,3353,3337,3322,
     3307,3291,3276,3261,3246,3231,3216,3202,3187,3172,3158,3143,3129,3115,3100,
     3086,3072,3058,3044,3030,3016,3003,2989,2975,2962,2948,2935,2922,2908,2895,
     2882,2869,2856,2843,2830,2818,2805,2792,2780,2767,2755,2742,2730,2718,2705,
     2693,2681,2669,2657,2645,2633,2622,2610,2598,2587,2575,2564,2552,2541,2530,
     2518,2507,2496,2485,2474,2463,2452,2441,2430,2420,2409,2398,2388,2377,2367,
     2356,2346,2335,2325,2315,2305,2295,2284,2274,2264,2255,2245,2235,2225,2215,
     2206,2196,2186,2177,2167,2158,2148,2139,2130,2120,2111,2102,2093,2084,2075,
     2066,2057,2048,2039,2030,2021,2013,2004,1995,1987,1978,1970,1961,1953,1944,
     1936,1928,1919,1911,1903,1895,1887,1879,1871,1863,1855,1847,1839,1831,1823,
     1815,1808,1800,1792,1785,1777,1770,1762,1755,1747,1740,1732,1725,1718,1711,
     1703,1696,1689,1682,1675,1668,1661,1654,1647,1640,1633,1626,1619,1613,1606,
     1599,1592,1586,1579,1573,1566,1559,1553,1547,1540,1534,1527,1521,1515,1508,
     1502,1496,1490,1484,1477,1471,1465,1459,1453,1447,1441,1435,1429,1423,1418,
     1412,1406,1400,1394,1389,1383,1377,1372,1366,1361,1355,1350,1344,1339,1333,
     1328,1322,1317,1312,1306,1301,1296,1290,1285,1280,1275,1270,1264,1259,1254,
     1249,1244,1239,1234,1229,1224,1219,1214,1210,1205,1200,1195,1190,1185,1181,
     1176,1171,1167,1162,1157,1153,1148,1144,1139,1134,1130,1125,1121,1117,1112,
     1108,1103,1099,1095,1090,1086,1082,1077,1073,1069,1065,1061,1056,1052,1048,
     1044,1040,1036,1032,1028,1024,1020,1016,1012,1008,1004,1000,996,992,988,
     984,981,977,973,969,965,962,958,954,950,947,943,939,936,932,
     929,925,921,918,914,911,907,904,900,897,894,890,887,883,880,
     877,873,870,867,863,860,857,853,850,847,844,840,837,834,831,
     828,825,821,818,815,812]"

definition Temperature_Init :: "'a temp_sys_scheme \<Rightarrow> 'a temp_sys_scheme" where
  "Temperature_Init s =
     s\<lparr>tmp := (tmp s)\<lparr>IsTempNeedSample := False, IsSampleTempCOM := False, g_TempChannel := TEMP_COM,
                      g_TempUploadFormat := FMT_PACKET\<rparr>,
       glob := (glob s)\<lparr>g_IsTemp_Upload := True\<rparr>\<rparr>"

text \<open>\<open>fl\<close> is the rounding of the machine's floating point.  Converting a value outside the range of
  \<open>u16\<close> is undefined in C: \<open>None\<close>.\<close>

definition temp_adc2ohm :: "(real \<Rightarrow> real) \<Rightarrow> u32 \<Rightarrow> u16 option" where
  "temp_adc2ohm fl adcValue =
     (let r = fl (fl (fl (real (unat adcValue)) * fl 0.0008021689599616) - 270)
      in if - 1 < r \<and> r < 65536 then Some (of_int (if r < 0 then 0 else \<lfloor>r\<rfloor>)) else None)"

fun temp_lookup :: "nat \<Rightarrow> nat list \<Rightarrow> nat \<Rightarrow> nat" where
  "temp_lookup ohm [] i = i"
| "temp_lookup ohm (t # ts) i = (if ohm > t then i else temp_lookup ohm ts (Suc i))"

definition temp_adc2centigrade :: "(real \<Rightarrow> real) \<Rightarrow> u32 \<Rightarrow> u16 option" where
  "temp_adc2centigrade fl adcValue =
     map_option (\<lambda>u16Value. of_nat (temp_lookup (unat u16Value) TEMP_TABLE_ohm 0)) (temp_adc2ohm fl adcValue)"

definition Temperature_body :: "'a temp_sys_scheme \<Rightarrow> 'a temp_sys_scheme" where
  "Temperature_body s =
     (let s = s\<lparr>tmp := (tmp s)\<lparr>g_TempChannel :=
            (if IsSampleTempCOM (tmp s)
             then (if channelStatus (tmp s) = 0 then TEMP_COM else TEMP_COM_R)
             else (if channelStatus (tmp s) = 0 then TEMP_CH1 else TEMP_CH2))\<rparr>\<rparr>;
          s = (if \<not> IsTempNeedSample (tmp s)
               then let s = AHCT595_SetTempChannel (g_TempChannel (tmp s)) s
                    in s\<lparr>tmp := (tmp s)\<lparr>IsTempNeedSample := True\<rparr>\<rparr>
               else AIO_printf (crnl @ str ''Temperature_Handler lost sample.warning.'') s)
      in s\<lparr>tmp := (tmp s)\<lparr>channelStatus := NOT (channelStatus (tmp s)),
             Temperature_ulNextChangeTime := Temperature_ulNextChangeTime (tmp s) + getTickNumberByMS 500 (tick s)\<rparr>\<rparr>)"

definition Temperature_Handler :: "'a temp_sys_scheme \<Rightarrow> 'a temp_sys_scheme" where
  "Temperature_Handler s =
     (if IsOnTime (Temperature_ulNextChangeTime (tmp s)) (tick s) then Temperature_body s else s)"

definition temp_setChannel :: "u8 \<Rightarrow> 'a temp_sys_scheme \<Rightarrow> 'a temp_sys_scheme" where
  "temp_setChannel ch s = s\<lparr>tmp := (tmp s)\<lparr>IsSampleTempCOM := (ch \<noteq> 0)\<rparr>\<rparr>"

definition temp_setUploadFormat :: "u8 \<Rightarrow> 'a temp_sys_scheme \<Rightarrow> 'a temp_sys_scheme" where
  "temp_setUploadFormat ty s =
     (let f = (if ty = 0 then FMT_PACKET else if ty = 1 then FMT_CENTIGRADE else if ty = 2 then FMT_VOLTAGE
               else if ty = 3 then FMT_ADC_HEX else if ty = 4 then FMT_ADC_DEC else if ty = 5 then FMT_UPLOAD_OFF
               else g_TempUploadFormat (tmp s))
      in s\<lparr>tmp := (tmp s)\<lparr>g_TempUploadFormat := f\<rparr>\<rparr>)"

definition TEMP_DebugInterface :: "UartProtocolPacket \<Rightarrow> 'a temp_sys_scheme \<Rightarrow> RETURN_TypeDef \<times> 'a temp_sys_scheme" where
  "TEMP_DebugInterface p s =
     (let ty = DataAndCRC p ! 0
      in (RETURN_OK, if ty = 1 then temp_setChannel (DataAndCRC p ! 1) s
                     else if ty = 2 then temp_setUploadFormat (DataAndCRC p ! 1) s else s))"

abbreviation AIO_TX_TEMP_REALTIME_ID :: u8 where "AIO_TX_TEMP_REALTIME_ID \<equiv> 0xB8"

definition temp_print :: "UploadFormat_TypeDef \<Rightarrow> (real \<Rightarrow> real) \<Rightarrow> u32 \<Rightarrow> u32 \<Rightarrow> u16 \<Rightarrow> u16 \<Rightarrow> 'a temp_sys_scheme \<Rightarrow> 'a temp_sys_scheme" where
  "temp_print fmt fl a0 a1 r0 r1 s =
     (case fmt of
        FMT_CENTIGRADE \<Rightarrow> AIO_printf (crnl @ str ''[TEMP] '' @ fmt_f (fl (real (unat r0) / 10)) @ [39] @ str ''C''
             @ [9] @ fmt_f (fl (real (unat r1) / 10)) @ [39] @ str ''C'') s
      | FMT_VOLTAGE \<Rightarrow> AIO_printf (crnl @ str ''[TEMP] '' @ fmt_f (fl (fl (2.5 * fl (real (unat a0))) / 8388607)) @ str ''V''
             @ [9] @ fmt_f (fl (fl (2.5 * fl (real (unat a1))) / 8388607)) @ str ''V'') s
      | FMT_ADC_HEX \<Rightarrow> AIO_printf (crnl @ str ''[TEMP] 0x'' @ fmt_u True 16 8 (unat a0) @ [9] @ str ''0x''
             @ fmt_u True 16 8 (unat a1)) s
      | FMT_ADC_DEC \<Rightarrow>
          let r0 = (ucast (s24_to_s32 a0) :: u16); r1 = (ucast (s24_to_s32 a1) :: u16)
          in AIO_printf (crnl @ str ''[TEMP] '' @ fmt_d (ucast r0) @ [9] @ fmt_d (ucast r1)) s
      | _ \<Rightarrow> s)"

definition TempReslultUpload :: "(real \<Rightarrow> real) \<Rightarrow> 'a temp_sys_scheme \<Rightarrow> 'a temp_sys_scheme" where
  "TempReslultUpload fl s =
     (if \<not> g_IsTemp_Upload (glob s) then s
      else let (a0, a1) = g_TempADC_Val (tmp s)
           in case (temp_adc2centigrade fl a0, temp_adc2centigrade fl a1) of
                (Some r0, Some r1) \<Rightarrow>
                  (if g_TempUploadFormat (tmp s) = FMT_PACKET
                   then upload AIO_TX_TEMP_REALTIME_ID [0, byte_of 8 r0, byte_of 0 r0, byte_of 8 r1, byte_of 0 r1] s
                   else temp_print (g_TempUploadFormat (tmp s)) fl a0 a1 r0 r1 s)
              | _ \<Rightarrow> raise_fault s)"

section \<open>What the shift register receives\<close>

text \<open>The data line at each rising edge of the shift clock, and whether the storage clock rises last,
  read off a log of effects in the order they happened, from a given level of the data line.\<close>

fun shifted_bits :: "bool \<Rightarrow> effect list \<Rightarrow> bool list" where
  "shifted_bits ser [] = []"
| "shifted_bits ser (Wr r v # es) =
     (if r = ''PORTGIO_SET'' \<and> v = HCT595_SER_PIN then shifted_bits True es
      else if r = ''PORTGIO_CLEAR'' \<and> v = HCT595_SER_PIN then shifted_bits False es
      else if r = ''PORTGIO_SET'' \<and> v = HCT595_SRCLK_PIN then ser # shifted_bits ser es
      else shifted_bits ser es)"
| "shifted_bits ser (e # es) = shifted_bits ser es"

lemma tmp_hct595_shift [simp]:
  "tmp (hct595_shift v i s) = tmp s" "trace (hct595_shift v i s) =
     [Wr ''PORTGIO_SET'' HCT595_SRCLK_PIN,
      Wr (if bit v i then ''PORTGIO_SET'' else ''PORTGIO_CLEAR'') HCT595_SER_PIN,
      Wr ''PORTGIO_CLEAR'' HCT595_SRCLK_PIN] @ trace s"
proof -
  have "drop_bit i v AND 1 \<noteq> 0 \<longleftrightarrow> bit v i"
    by (simp add: and_one_eq bit_iff_odd_drop_bit odd_iff_mod_2_eq_one)
  then show "tmp (hct595_shift v i s) = tmp s" "trace (hct595_shift v i s) =
     [Wr ''PORTGIO_SET'' HCT595_SRCLK_PIN,
      Wr (if bit v i then ''PORTGIO_SET'' else ''PORTGIO_CLEAR'') HCT595_SER_PIN,
      Wr ''PORTGIO_CLEAR'' HCT595_SRCLK_PIN] @ trace s"
    by (simp_all add: hct595_shift_def)
qed

lemma AHCT595_Refresh_tmp [simp]: "tmp (AHCT595_Refresh s) = tmp s"
  by (simp add: AHCT595_Refresh_def Let_def)

lemma AHCT595_Refresh_trace:
  "\<exists>es. trace (AHCT595_Refresh s) = rev es @ trace s \<and> last es = Wr ''PORTGIO_SET'' HCT595_RCLK_PIN
     \<and> shifted_bits ser es = List.map (bit (g_HCT595Value (tmp s))) [7, 6, 5, 4, 3, 2, 1, 0]"
  by (rule exI [of _ "Wr ''PORTGIO_CLEAR'' HCT595_RCLK_PIN #
        concat (List.map (\<lambda>i. [Wr ''PORTGIO_CLEAR'' HCT595_SRCLK_PIN,
            Wr (if bit (g_HCT595Value (tmp s)) i then ''PORTGIO_SET'' else ''PORTGIO_CLEAR'') HCT595_SER_PIN,
            Wr ''PORTGIO_SET'' HCT595_SRCLK_PIN]) [7, 6, 5, 4, 3, 2, 1, 0]) @ [Wr ''PORTGIO_SET'' HCT595_RCLK_PIN]"])
     (simp add: AHCT595_Refresh_def Let_def)

text \<open>Selecting a temperature channel puts exactly the channel's two bits into the register image,
  leaves the ADC channel and the pressure zero bits as they were, and clocks the whole image out, most
  significant bit first, one bit per rising edge, with the storage clock raised last.\<close>

theorem SetTempChannel_shifts:
  "\<exists>es. trace (AHCT595_SetTempChannel ch s) = rev es @ trace s \<and> last es = Wr ''PORTGIO_SET'' HCT595_RCLK_PIN
     \<and> shifted_bits ser es = List.map (bit (g_HCT595Value (tmp (AHCT595_SetTempChannel ch s)))) [7, 6, 5, 4, 3, 2, 1, 0]
     \<and> g_HCT595Value (tmp (AHCT595_SetTempChannel ch s)) AND HCT595_TEMP_SELE_MASK = push_bit 1 (temp_code ch)
     \<and> g_HCT595Value (tmp (AHCT595_SetTempChannel ch s)) AND NOT HCT595_TEMP_SELE_MASK
       = g_HCT595Value (tmp s) AND NOT HCT595_TEMP_SELE_MASK"
proof -
  define v where "v = (g_HCT595Value (tmp s) AND NOT HCT595_TEMP_SELE_MASK)
        OR (push_bit 1 (temp_code ch) AND HCT595_TEMP_SELE_MASK)"
  have e: "AHCT595_SetTempChannel ch s = AHCT595_Refresh (set_595 v s)"
    by (simp add: AHCT595_SetTempChannel_def v_def)
  have v: "g_HCT595Value (tmp (AHCT595_SetTempChannel ch s)) = v" "trace (set_595 v s) = trace s"
    "g_HCT595Value (tmp (set_595 v s)) = v" by (simp_all add: e set_595_def)
  have "push_bit 1 (temp_code ch) AND HCT595_TEMP_SELE_MASK = push_bit 1 (temp_code ch)"
    by (cases ch) simp_all
  then have v': "v = (g_HCT595Value (tmp s) AND NOT HCT595_TEMP_SELE_MASK) OR (push_bit 1 (temp_code ch) AND HCT595_TEMP_SELE_MASK)"
    "push_bit 1 (temp_code ch) AND HCT595_TEMP_SELE_MASK = push_bit 1 (temp_code ch)" by (simp_all add: v_def)
  have "v AND HCT595_TEMP_SELE_MASK = push_bit 1 (temp_code ch) AND HCT595_TEMP_SELE_MASK"
    unfolding v_def by (rule bit_word_eqI) (simp only: bit_and_iff bit_or_iff bit_not_iff, blast)
  moreover have "v AND NOT HCT595_TEMP_SELE_MASK = g_HCT595Value (tmp s) AND NOT HCT595_TEMP_SELE_MASK"
    unfolding v_def by (rule bit_word_eqI) (simp only: bit_and_iff bit_or_iff bit_not_iff, blast)
  ultimately show ?thesis
    using AHCT595_Refresh_trace [of "set_595 v s" ser] v v'(2) by (simp only: e [symmetric]) auto
qed

section \<open>The temperature table\<close>

lemma TEMP_TABLE_decreasing: "sorted_wrt (>) TEMP_TABLE_ohm"
proof -
  have "successively (>) TEMP_TABLE_ohm" unfolding TEMP_TABLE_ohm_def by simp
  then show ?thesis by (simp add: successively_conv_sorted_wrt transp_on_greater)
qed

lemma length_TEMP_TABLE: "length TEMP_TABLE_ohm = 501"
  by (simp add: TEMP_TABLE_ohm_def)

lemma temp_lookup_spec:
  "sorted_wrt (>) ts \<Longrightarrow>
     (\<exists>n. temp_lookup r ts i = i + n \<and> n \<le> length ts \<and> (\<forall>j < n. r \<le> ts ! j) \<and> (\<forall>j < length ts. n \<le> j \<longrightarrow> ts ! j < r))"
proof (induction ts arbitrary: i)
  case (Cons t ts)
  show ?case
  proof (cases "r > t")
    case True
    with Cons.prems have "\<forall>j < length ts. ts ! j < r" by (auto dest!: nth_mem intro: less_trans)
    with True show ?thesis
      by (intro exI [of _ 0]) (auto simp: nth_Cons split: nat.splits)
  next
    case False
    have "sorted_wrt (>) ts" using Cons.prems by simp
    from Cons.IH [OF this, of "Suc i"] obtain n where n: "temp_lookup r ts (Suc i) = Suc i + n"
      "n \<le> length ts" "\<forall>j < n. r \<le> ts ! j" "\<forall>j < length ts. n \<le> j \<longrightarrow> ts ! j < r" by blast
    with False show ?thesis
      by (intro exI [of _ "Suc n"]) (auto simp: nth_Cons split: nat.splits)
  qed
qed simp

text \<open>C25: the temperature of a resistance is the one the table gives.  The number of tenths of a
  degree found is the number of table entries that are at least the resistance, wherever they stand;
  these are exactly the first entries of the table, so the search never skips or misplaces one; and
  a larger resistance never gives a higher temperature.\<close>

theorem temp_lookup_table:
  assumes "r \<le> r'"
  shows "temp_lookup r TEMP_TABLE_ohm 0 = length (filter ((\<le>) r) TEMP_TABLE_ohm)
    \<and> List.map ((\<le>) r) TEMP_TABLE_ohm = replicate (temp_lookup r TEMP_TABLE_ohm 0) True
        @ replicate (501 - temp_lookup r TEMP_TABLE_ohm 0) False
    \<and> temp_lookup r' TEMP_TABLE_ohm 0 \<le> temp_lookup r TEMP_TABLE_ohm 0"
proof -
  let ?n = "\<lambda>r. temp_lookup r TEMP_TABLE_ohm 0"
  have ex: "?n r \<le> 501 \<and> (\<forall>j < 501. (r \<le> TEMP_TABLE_ohm ! j) = (j < ?n r))" for r
    using temp_lookup_spec [OF TEMP_TABLE_decreasing, of r 0] unfolding length_TEMP_TABLE
    by (metis add_0 not_le not_less)
  have mono: "?n r' \<le> ?n r"
  proof (rule ccontr)
    assume "\<not> ?n r' \<le> ?n r"
    then have "?n r < ?n r'" "?n r < 501" using ex [of r'] by auto
    with ex [of r'] ex [of r] assms show False by (metis le_trans less_irrefl)
  qed
  have m: "List.map ((\<le>) r) TEMP_TABLE_ohm = replicate (?n r) True @ replicate (501 - ?n r) False"
    using ex [of r] by (intro nth_equalityI) (auto simp: length_TEMP_TABLE nth_append)
  have "length (filter ((\<le>) r) TEMP_TABLE_ohm) = length (filter id (List.map ((\<le>) r) TEMP_TABLE_ohm))"
    by (simp add: filter_map o_def)
  also have "\<dots> = ?n r" unfolding m by simp
  finally show ?thesis using m mono by simp
qed

lemma temp_lookup_table_witness:
  "temp_lookup 1000 TEMP_TABLE_ohm 0 = length (filter ((\<le>) 1000) TEMP_TABLE_ohm)
    \<and> List.map ((\<le>) 1000) TEMP_TABLE_ohm = replicate (temp_lookup 1000 TEMP_TABLE_ohm 0) True
        @ replicate (501 - temp_lookup 1000 TEMP_TABLE_ohm 0) False
    \<and> temp_lookup 2252 TEMP_TABLE_ohm 0 \<le> temp_lookup 1000 TEMP_TABLE_ohm 0"
  by (rule temp_lookup_table) simp

end
