(* ===== verification/Resp.thy ===== *)
theory Resp
  imports Temperature
begin

text \<open>
  \<open>AllInOneDSP/src/source/module_resp.c\<close> and \<open>algorithm_resp.c\<close>: the respiration channel.  The
  sampling interrupt writes one ring of time stamped samples; the uploader and the algorithm
  read it at their own positions.  The results of the respiration algorithm (theory \<open>RespAlg\<close>) are inputs here
  (\<open>resp_alg_outs\<close>), its calls are logged.
\<close>

section \<open>State\<close>

definition RESP_CARRIER_FREQ :: u32 where "RESP_CARRIER_FREQ = 62800"
definition RESP_Sampling_Buffer_Len :: nat where "RESP_Sampling_Buffer_Len = 1000 div 10 + 1"
definition RESP_VALUE_NORMAL :: u32 where "RESP_VALUE_NORMAL = (NOT 0x3FFFFF + 1) AND 0x00FFFFFF"
definition RESP_VALUE_OFFSET :: u32 where "RESP_VALUE_OFFSET = 335544"
definition RESP_VALUE_MAX :: u32 where "RESP_VALUE_MAX = RESP_VALUE_NORMAL + RESP_VALUE_OFFSET"
definition RESP_VALUE_MIN :: u32 where "RESP_VALUE_MIN = RESP_VALUE_NORMAL - RESP_VALUE_OFFSET"

lemma RESP_len [simp]: "RESP_Sampling_Buffer_Len = 101"
  by (simp add: RESP_Sampling_Buffer_Len_def)

abbreviation PG2 :: u32 where "PG2 \<equiv> 0x4"
abbreviation PG3 :: u32 where "PG3 \<equiv> 0x8"
abbreviation PG6 :: u32 where "PG6 \<equiv> 0x40"
abbreviation PF11 :: u32 where "PF11 \<equiv> 0x800"

datatype RESP_Channel_TypeDef = RESP_RA_LL | RESP_RA_LA | RESP_AUTO

fun resp_channel_code :: "RESP_Channel_TypeDef \<Rightarrow> u8" where
  "resp_channel_code RESP_RA_LL = 0" | "resp_channel_code RESP_RA_LA = 1" | "resp_channel_code RESP_AUTO = 2"

datatype RESP_AlertType = High_Boundary | Low_Boundary | Suffocation

record resp_device =
  rd_adc_val :: u32
  rd_tick :: u32
  rd_status :: StatusFlag_TypeDef
  rd_upload_type :: UploadFormat_TypeDef

text \<open>One item of the algorithm's output: the filtered sample, the rate and the alerts
  (\<open>None\<close> is the null pointer).\<close>

record resp_alg_out =
  ro_SysTick :: u32
  ro_RESP :: s32
  ro_Rate :: u32
  ro_Alerts :: "RESP_AlertType list option"

record resp_st =
  g_resp_dev :: resp_device
  g_RESP_channel :: RESP_Channel_TypeDef
  g_RR_Limits :: "u8 \<times> u8"
  g_resp_result :: "s32 list"
  g_resp_tick :: "u32 list"
  g_resp_receive_offset :: nat
  g_resp_algorithm_offset :: nat
  g_resp_raw_offset :: nat
  RESP_AsphyxiaUpload_ulNextSampleTime :: u32
  RESP_AlarmUpload_ulNextSampleTime :: u32
  g_Is_resp_algo_run :: bool
  resp_algorithm_out :: resp_alg_out
  resp_alg_outs :: "resp_alg_out option list"

record resp_sys = temp_sys +
  resp :: resp_st

lemma hw_resp [simp]:
  "resp (emit e s) = resp s" "resp (wr r v s) = resp s" "resp (orw r v s) = resp s"
  "resp (andw r v s) = resp s" "resp (ssync s) = resp s" "resp (raise_fault s) = resp s"
  "resp (alg_call f xs s) = resp s" "resp (Delay1ms ms s) = resp s"
  "resp (AIO_printf msg s) = resp s" "resp (UploadDataByID pid t dat len s) = resp s"
  "resp (upload pid dat s) = resp s"
  by (simp_all add: hw_prims Delay1ms_def AIO_printf_def UploadDataByID_def upload_def Let_def)

section \<open>Carrier, selection and reset lines\<close>

definition InitTimer0_gpio :: "'a hw_sys_scheme \<Rightarrow> 'a hw_sys_scheme" where
  "InitTimer0_gpio s =
     run [orw ''PORTG_FER'' PG6, andw ''PORTG_MUX'' (NOT (push_bit 6 3)), orw ''PORTG_MUX'' (push_bit 6 2)] s"

definition InitTimer0_config :: "'a hw_sys_scheme \<Rightarrow> 'a hw_sys_scheme" where
  "InitTimer0_config s =
     (let sclk = getSystemCLK s;
          s = wr ''TIMER0_CONFIG'' 0x0009 s;
          ratio = (sclk + RESP_CARRIER_FREQ div 2) div RESP_CARRIER_FREQ
      in run [wr ''TIMER0_PERIOD'' ratio, wr ''TIMER0_WIDTH'' (ratio div 2)] s)"

definition Timer0_setWorkState :: "EnableOrDisable \<Rightarrow> 'a hw_sys_scheme \<Rightarrow> 'a hw_sys_scheme" where
  "Timer0_setWorkState st s =
     (if st = ENABLE then wr ''TIMER_ENABLE'' 0x0001 s else wr ''TIMER_DISABLE'' 0x0001 s)"

definition InitTimer0 :: "'a hw_sys_scheme \<Rightarrow> 'a hw_sys_scheme" where
  "InitTimer0 s = run [InitTimer0_gpio, InitTimer0_config] s"

definition RESP_SelectIO_Init :: "'a hw_sys_scheme \<Rightarrow> 'a hw_sys_scheme" where
  "RESP_SelectIO_Init s =
     run [andw ''PORTGIO_INEN'' (NOT PG2), orw ''PORTGIO_DIR'' PG2, andw ''PORTGIO_EDGE'' (NOT PG2),
          wr ''PORTGIO_MASKA_CLEAR'' PG2, wr ''PORTGIO_CLEAR'' PG2,
          andw ''PORTFIO_INEN'' (NOT PF11), orw ''PORTFIO_DIR'' PF11, andw ''PORTFIO_EDGE'' (NOT PF11),
          wr ''PORTFIO_MASKA_CLEAR'' PF11, wr ''PORTFIO_CLEAR'' PF11] s"

definition RESP_ResetIO_Init :: "'a hw_sys_scheme \<Rightarrow> 'a hw_sys_scheme" where
  "RESP_ResetIO_Init s =
     run [andw ''PORTGIO_INEN'' (NOT PG3), orw ''PORTGIO_DIR'' PG3, andw ''PORTGIO_EDGE'' (NOT PG3),
          wr ''PORTGIO_MASKA_CLEAR'' PG3, wr ''PORTGIO_SET'' PG3] s"

definition RESP_Reset :: "EnableOrDisable \<Rightarrow> 'a hw_sys_scheme \<Rightarrow> 'a hw_sys_scheme" where
  "RESP_Reset status s = (if status = ENABLE then wr ''PORTGIO_CLEAR'' PG3 s else wr ''PORTGIO_SET'' PG3 s)"

definition RESP_ChannelSelect :: "RESP_Channel_TypeDef \<Rightarrow> 'a resp_sys_scheme \<Rightarrow> 'a resp_sys_scheme" where
  "RESP_ChannelSelect channel s =
     (let s = RESP_Reset DISABLE s;
          s = (if channel = RESP_RA_LL then run [wr ''PORTGIO_CLEAR'' PG2, wr ''PORTFIO_CLEAR'' PF11] s
               else if channel = RESP_RA_LA then run [wr ''PORTGIO_CLEAR'' PG2, wr ''PORTFIO_SET'' PF11] s
               else s)
      in s\<lparr>resp := (resp s)\<lparr>g_RESP_channel := channel\<rparr>\<rparr>)"

definition RESP_NormalLevelHandler :: "'a resp_sys_scheme \<Rightarrow> 'a resp_sys_scheme" where
  "RESP_NormalLevelHandler s =
     (let curResp = rd_adc_val (g_resp_dev (resp s))
      in if curResp > RESP_VALUE_MAX \<or> curResp < RESP_VALUE_MIN
         then AIO_printf (crnl @ str ''[RESP] RESP_Reset -> Enable!'') (RESP_Reset ENABLE s)
         else RESP_Reset DISABLE s)"

section \<open>The sample ring\<close>

definition resp_push :: "u32 \<Rightarrow> s32 \<Rightarrow> resp_st \<Rightarrow> resp_st" where
  "resp_push t v r =
     (let r = r\<lparr>g_resp_result := (g_resp_result r)[g_resp_receive_offset r := v],
                g_resp_tick := (g_resp_tick r)[g_resp_receive_offset r := t],
                g_resp_receive_offset := g_resp_receive_offset r + 1\<rparr>;
          r = (if g_resp_receive_offset r \<ge> RESP_Sampling_Buffer_Len
               then r\<lparr>g_resp_receive_offset := g_resp_receive_offset r - RESP_Sampling_Buffer_Len\<rparr> else r);
          r = (if g_resp_algorithm_offset r = g_resp_receive_offset r
               then r\<lparr>g_resp_algorithm_offset :=
                  (if g_resp_algorithm_offset r + 1 \<ge> RESP_Sampling_Buffer_Len
                   then g_resp_algorithm_offset r + 1 - RESP_Sampling_Buffer_Len else g_resp_algorithm_offset r + 1)\<rparr>
               else r)
      in if g_resp_raw_offset r = g_resp_receive_offset r
         then r\<lparr>g_resp_raw_offset :=
                  (if g_resp_raw_offset r + 1 \<ge> RESP_Sampling_Buffer_Len
                   then g_resp_raw_offset r + 1 - RESP_Sampling_Buffer_Len else g_resp_raw_offset r + 1)\<rparr>
         else r)"

definition RESP_adc_store_data :: "'a resp_sys_scheme \<Rightarrow> 'a resp_sys_scheme" where
  "RESP_adc_store_data s =
     (let t = SysTick_Get (tick s);
          r = (resp s)\<lparr>g_resp_dev := (g_resp_dev (resp s))\<lparr>rd_tick := t\<rparr>\<rparr>
      in s\<lparr>resp := resp_push t (rd_adc_val (g_resp_dev r)) r\<rparr>)"

definition RESP_GetResult :: "resp_st \<Rightarrow> s32" where
  "RESP_GetResult r =
     (let i = int (g_resp_receive_offset r) - 1;
          i = (if i < 0 then i + int RESP_Sampling_Buffer_Len else i)
      in g_resp_result r ! nat i)"

definition RESP_GetDataLen :: "resp_st \<Rightarrow> nat" where
  "RESP_GetDataLen r =
     (let l = int (g_resp_receive_offset r) - int (g_resp_raw_offset r)
      in nat (if l < 0 then l + int RESP_Sampling_Buffer_Len else l))"

text \<open>\<open>None\<close> stands for the result 0, which leaves the caller's variables alone.\<close>

definition RESP_PopResult :: "resp_st \<Rightarrow> (u32 \<times> s32) option \<times> resp_st" where
  "RESP_PopResult r =
     (let s32Len = RESP_GetDataLen r
      in if s32Len \<noteq> 0
         then (Some (g_resp_tick r ! g_resp_raw_offset r, g_resp_result r ! g_resp_raw_offset r),
               r\<lparr>g_resp_raw_offset := (if g_resp_raw_offset r + 1 \<ge> RESP_Sampling_Buffer_Len
                  then g_resp_raw_offset r + 1 - RESP_Sampling_Buffer_Len else g_resp_raw_offset r + 1)\<rparr>)
         else (None, r))"

definition RESP_GetAlgoDataLen :: "resp_st \<Rightarrow> nat" where
  "RESP_GetAlgoDataLen r =
     (let l = int (g_resp_receive_offset r) - int (g_resp_algorithm_offset r)
      in nat (if l < 0 then l + int RESP_Sampling_Buffer_Len else l))"

definition RESP_PopAlgoResult :: "resp_st \<Rightarrow> (u32 \<times> s32) option \<times> resp_st" where
  "RESP_PopAlgoResult r =
     (let s32Len = RESP_GetAlgoDataLen r
      in if s32Len \<noteq> 0
         then (Some (g_resp_tick r ! g_resp_algorithm_offset r, s24_to_s32 (g_resp_result r ! g_resp_algorithm_offset r)),
               r\<lparr>g_resp_algorithm_offset := (if g_resp_algorithm_offset r + 1 \<ge> RESP_Sampling_Buffer_Len
                  then g_resp_algorithm_offset r + 1 - RESP_Sampling_Buffer_Len else g_resp_algorithm_offset r + 1)\<rparr>)
         else (None, r))"

definition RESP_DataReset :: "resp_st \<Rightarrow> resp_st" where
  "RESP_DataReset r = r\<lparr>g_resp_algorithm_offset := g_resp_receive_offset r, g_resp_raw_offset := g_resp_receive_offset r\<rparr>"

section \<open>Initialisation and sampling\<close>

definition RESP_Init :: "'a resp_sys_scheme \<Rightarrow> 'a resp_sys_scheme" where
  "RESP_Init s =
     run [\<lambda>s. s\<lparr>resp := (resp s)\<lparr>
             g_resp_dev := (g_resp_dev (resp s))\<lparr>rd_status := IDEL_FLAG, rd_adc_val := 0, rd_upload_type := FMT_PACKET\<rparr>,
             g_resp_receive_offset := 0, g_resp_algorithm_offset := 0, g_resp_raw_offset := 0,
             g_resp_result := replicate RESP_Sampling_Buffer_Len 0, g_resp_tick := replicate RESP_Sampling_Buffer_Len 0,
             g_RR_Limits := (60, 10)\<rparr>,
           glob := (glob s)\<lparr>g_IsRESP_Upload := True\<rparr>\<rparr>,
          InitTimer0, Timer0_setWorkState ENABLE, RESP_SelectIO_Init, RESP_ResetIO_Init, RESP_Reset DISABLE,
          RESP_ChannelSelect RESP_RA_LL] s"

definition RESP_StartSample :: "'a resp_sys_scheme \<Rightarrow> 'a resp_sys_scheme" where
  "RESP_StartSample s =
     (if rd_status (g_resp_dev (resp s)) = IDEL_FLAG
      then s\<lparr>resp := (resp s)\<lparr>g_resp_dev := (g_resp_dev (resp s))\<lparr>rd_status := WORK_FLAG\<rparr>\<rparr>\<rparr> else s)"

section \<open>Uploads\<close>

abbreviation AIO_TX_RESP_REALTIME_ID :: u8 where "AIO_TX_RESP_REALTIME_ID \<equiv> 0xB0"
abbreviation AIO_TX_RESP_ASPHYXIA_ID :: u8 where "AIO_TX_RESP_ASPHYXIA_ID \<equiv> 0xB1"

definition RESP_AsphyxiaUpload :: "u8 \<Rightarrow> 'a resp_sys_scheme \<Rightarrow> 'a resp_sys_scheme" where
  "RESP_AsphyxiaUpload RR s =
     (if IsOnTime (RESP_AsphyxiaUpload_ulNextSampleTime (resp s)) (tick s) \<and> g_IsRESP_Upload (glob s)
      then let s = (if RR < snd (g_RR_Limits (resp s)) then upload AIO_TX_RESP_ASPHYXIA_ID [1] s else s)
           in s\<lparr>resp := (resp s)\<lparr>RESP_AsphyxiaUpload_ulNextSampleTime :=
                  RESP_AsphyxiaUpload_ulNextSampleTime (resp s) + getTickNumberByMS 1000 (tick s)\<rparr>\<rparr>
      else s)"

definition RESP_AlarmUpload :: "RESP_AlertType \<Rightarrow> 'a resp_sys_scheme \<Rightarrow> 'a resp_sys_scheme" where
  "RESP_AlarmUpload ty s =
     (if IsOnTime (RESP_AlarmUpload_ulNextSampleTime (resp s)) (tick s) \<and> g_IsRESP_Upload (glob s)
      then let s = (if ty = Suffocation then upload AIO_TX_RESP_ASPHYXIA_ID [1] s else s)
           in s\<lparr>resp := (resp s)\<lparr>RESP_AlarmUpload_ulNextSampleTime :=
                  RESP_AlarmUpload_ulNextSampleTime (resp s) + getTickNumberByMS 1000 (tick s)\<rparr>\<rparr>
      else s)"

definition resp_algorithm_PopFilterResult :: "resp_st \<Rightarrow> u32 \<times> s32" where
  "resp_algorithm_PopFilterResult r = (ro_SysTick (resp_algorithm_out r), ro_RESP (resp_algorithm_out r))"

definition resp_payload :: "RESP_Channel_TypeDef \<Rightarrow> s32 \<Rightarrow> u32 \<Rightarrow> bytes" where
  "resp_payload ch v t =
     [resp_channel_code ch, byte_of 16 v, byte_of 8 v, byte_of 0 v,
      byte_of 24 t, byte_of 16 t, byte_of 8 t, byte_of 0 t]"

definition RESP_ReslultUpload :: "'a resp_sys_scheme \<Rightarrow> 'a resp_sys_scheme" where
  "RESP_ReslultUpload s =
     (let ty = rd_upload_type (g_resp_dev (resp s)); ch = g_RESP_channel (resp s) in
      if ty = FMT_UPLOAD_OFF \<or> \<not> g_IsRESP_Upload (glob s) then s
      else if ty = FMT_PACKET
      then (case RESP_PopResult (resp s) of
              (None, r) \<Rightarrow> s\<lparr>resp := r\<rparr>
            | (Some (t, v), r) \<Rightarrow> upload AIO_TX_RESP_REALTIME_ID (resp_payload ch v t) (s\<lparr>resp := r\<rparr>))
      else let (t, v) = (if ty = FMT_FILTER_DATA then resp_algorithm_PopFilterResult (resp s) else (0, 0))
           in upload AIO_TX_RESP_REALTIME_ID (resp_payload ch v t) s)"

definition RESP_Handler :: "'a resp_sys_scheme \<Rightarrow> 'a resp_sys_scheme" where
  "RESP_Handler s = RESP_ReslultUpload s"

section \<open>Commands\<close>

definition RESP_SetChannel :: "u8 \<Rightarrow> 'a resp_sys_scheme \<Rightarrow> 'a resp_sys_scheme" where
  "RESP_SetChannel channel s =
     (if channel = resp_channel_code RESP_RA_LL then RESP_ChannelSelect RESP_RA_LL s
      else if channel = resp_channel_code RESP_RA_LA then RESP_ChannelSelect RESP_RA_LA s
      else if channel = resp_channel_code RESP_AUTO then RESP_ChannelSelect RESP_RA_LL s
      else s)"

definition RESP_setUploadDataType :: "UartProtocolPacket \<Rightarrow> 'a resp_sys_scheme \<Rightarrow> RETURN_TypeDef \<times> 'a resp_sys_scheme" where
  "RESP_setUploadDataType p s =
     (let ty = DataAndCRC p ! 0;
          u = (if ty = 0 then FMT_UPLOAD_OFF else if ty = 1 then FMT_PACKET else if ty = 2 then FMT_FILTER_DATA
               else rd_upload_type (g_resp_dev (resp s)))
      in (RETURN_OK, s\<lparr>resp := (resp s)\<lparr>g_resp_dev := (g_resp_dev (resp s))\<lparr>rd_upload_type := u\<rparr>\<rparr>\<rparr>))"

definition l_resp_DebugInterface :: "string \<Rightarrow> bytes \<Rightarrow> 'a hw_sys_scheme \<Rightarrow> 'a hw_sys_scheme" where
  "l_resp_DebugInterface what arg s = alg_call (''l_resp_DebugInterface:'' @ what) arg s"

definition RESP_setThreshold :: "UartProtocolPacket \<Rightarrow> 'a resp_sys_scheme \<Rightarrow> RETURN_TypeDef \<times> 'a resp_sys_scheme" where
  "RESP_setThreshold p s =
     (if PLength p \<noteq> 3 then (RETURN_ERROR, s)
      else let mx = DataAndCRC p ! 1; mn = DataAndCRC p ! 2
           in (RETURN_OK, run [\<lambda>s. s\<lparr>resp := (resp s)\<lparr>g_RR_Limits := (mx, mn)\<rparr>\<rparr>,
                 l_resp_DebugInterface ''RESP_SetHighBoundary'' [mx],
                 l_resp_DebugInterface ''RESP_SetLowBoundary'' [mn]] s))"

definition RESP_setCarrierWave :: "UartProtocolPacket \<Rightarrow> 'a resp_sys_scheme \<Rightarrow> RETURN_TypeDef \<times> 'a resp_sys_scheme" where
  "RESP_setCarrierWave p s =
     (if PLength p \<noteq> 1 then (RETURN_ERROR, s)
      else (RETURN_OK, if DataAndCRC p ! 0 \<noteq> 0 then Timer0_setWorkState DISABLE s else Timer0_setWorkState ENABLE s))"

text \<open>\<open>char\<close> is signed: a byte from 128 on is negative and clamps to 10.\<close>

definition asphyxia_clamp :: "u8 \<Rightarrow> u8" where
  "asphyxia_clamp b = (let t = b; t = (if sint t < 10 then 10 else t) in if sint t > 40 then 40 else t)"

definition RESP_setAsphyxiaTime :: "UartProtocolPacket \<Rightarrow> 'a resp_sys_scheme \<Rightarrow> RETURN_TypeDef \<times> 'a resp_sys_scheme" where
  "RESP_setAsphyxiaTime p s =
     (if PLength p \<noteq> 1 then (RETURN_ERROR, s)
      else (RETURN_OK, l_resp_DebugInterface ''RESP_SetSuffocationAlertDelay'' [asphyxia_clamp (DataAndCRC p ! 0)] s))"

definition RESP_DebugInterface :: "UartProtocolPacket \<Rightarrow> 'a resp_sys_scheme \<Rightarrow> RETURN_TypeDef \<times> 'a resp_sys_scheme" where
  "RESP_DebugInterface p s = (RETURN_OK, s)"

section \<open>algorithm_resp.c\<close>

definition resp_algorithm_init :: "'a resp_sys_scheme \<Rightarrow> 'a resp_sys_scheme" where
  "resp_algorithm_init s =
     alg_call ''l_resp_AlgorithmInit'' []
       (s\<lparr>resp := (resp s)\<lparr>g_Is_resp_algo_run := False,
            resp_algorithm_out := \<lparr>ro_SysTick = 0, ro_RESP = 0, ro_Rate = 0, ro_Alerts = None\<rparr>\<rparr>\<rparr>)"

definition resp_algo_refreshAlertType :: "'a resp_sys_scheme \<Rightarrow> 'a resp_sys_scheme" where
  "resp_algo_refreshAlertType s =
     (case ro_Alerts (resp_algorithm_out (resp s)) of
        None \<Rightarrow> s
      | Some as \<Rightarrow> fold RESP_AlarmUpload as s)"

definition l_resp_PopAlgorithmData :: "'a resp_sys_scheme \<Rightarrow> resp_alg_out option \<times> 'a resp_sys_scheme" where
  "l_resp_PopAlgorithmData s =
     (case resp_alg_outs (resp s) of
        [] \<Rightarrow> (None, s)
      | x # xs \<Rightarrow> (x, s\<lparr>resp := (resp s)\<lparr>resp_alg_outs := xs\<rparr>\<rparr>))"

definition resp_algorithm_result :: "'a resp_sys_scheme \<Rightarrow> nat \<times> 'a resp_sys_scheme" where
  "resp_algorithm_result s =
     (case l_resp_PopAlgorithmData s of
        (None, s) \<Rightarrow> (0, s)
      | (Some x, s) \<Rightarrow> (1, resp_algo_refreshAlertType (s\<lparr>resp := (resp s)\<lparr>resp_algorithm_out := x\<rparr>\<rparr>)))"

definition resp_algorithm_handler :: "'a resp_sys_scheme \<Rightarrow> 'a resp_sys_scheme" where
  "resp_algorithm_handler s =
     (case RESP_PopAlgoResult (resp s) of
        (None, r) \<Rightarrow> s\<lparr>resp := r\<rparr>
      | (Some (t, v), r) \<Rightarrow>
          let s = s\<lparr>resp := r\<lparr>g_Is_resp_algo_run := True\<rparr>\<rparr>;
              s = alg_call ''l_resp_PushAlgorithmData'' (le32 t @ le32 v) s;
              s = snd (resp_algorithm_result s)
          in s\<lparr>resp := (resp s)\<lparr>g_Is_resp_algo_run := False\<rparr>\<rparr>)"

definition resp_algorithm_getRR :: "resp_st \<Rightarrow> u8" where
  "resp_algorithm_getRR r = ucast (ro_Rate (resp_algorithm_out r))"

definition resp_algorithm_setFilter :: "u8 \<Rightarrow> 'a hw_sys_scheme \<Rightarrow> 'a hw_sys_scheme" where
  "resp_algorithm_setFilter mode s = l_resp_DebugInterface ''RESP_FILTER_SEL'' [mode] s"

section \<open>Both readers see a bounded queue\<close>

definition resp_cells :: "resp_st \<Rightarrow> (u32 \<times> s32) list" where
  "resp_cells r = zip (g_resp_tick r) (g_resp_result r)"

definition resp_inv :: "resp_st \<Rightarrow> bool" where
  "resp_inv r \<longleftrightarrow> length (g_resp_tick r) = 101 \<and> length (g_resp_result r) = 101 \<and>
     g_resp_receive_offset r < 101 \<and> g_resp_raw_offset r < 101 \<and> g_resp_algorithm_offset r < 101"

lemma resp_push_ring:
  assumes "resp_inv r"
  shows "resp_cells (resp_push t v r) = (resp_cells r)[g_resp_receive_offset r := (t, v)]"
    "g_resp_receive_offset (resp_push t v r) = ring_inc 101 (g_resp_receive_offset r)"
    "g_resp_raw_offset (resp_push t v r)
     = ring_drop 101 (g_resp_raw_offset r) (ring_inc 101 (g_resp_receive_offset r))"
    "g_resp_algorithm_offset (resp_push t v r)
     = ring_drop 101 (g_resp_algorithm_offset r) (ring_inc 101 (g_resp_receive_offset r))"
    "resp_inv (resp_push t v r)"
  using assms
  by (auto simp: resp_push_def Let_def resp_cells_def resp_inv_def ring_inc_def ring_drop_def zip_update)

lemma resp_ok:
  "resp_inv r \<Longrightarrow> ring_ok 101 (resp_cells r) (g_resp_raw_offset r) (g_resp_receive_offset r)"
  "resp_inv r \<Longrightarrow> ring_ok 101 (resp_cells r) (g_resp_algorithm_offset r) (g_resp_receive_offset r)"
  by (simp_all add: resp_inv_def ring_ok_def resp_cells_def)

definition resp_raw_get :: "resp_st \<Rightarrow> ((u32 \<times> s32) \<times> resp_st) option" where
  "resp_raw_get r = (case RESP_PopResult r of (None, _) \<Rightarrow> None | (Some x, r') \<Rightarrow> Some (x, r'))"

definition resp_algo_get :: "resp_st \<Rightarrow> ((u32 \<times> s32) \<times> resp_st) option" where
  "resp_algo_get r = (case RESP_PopAlgoResult r of (None, _) \<Rightarrow> None
     | (Some x, r') \<Rightarrow> Some (resp_cells r ! g_resp_algorithm_offset r, r'))"

interpretation resp_raw: ring_reader 101 resp_inv resp_cells g_resp_raw_offset g_resp_receive_offset
  "\<lambda>(t, v). resp_push t v" resp_raw_get
proof unfold_locales
  fix r :: resp_st and x :: "u32 \<times> s32"
  assume i: "resp_inv r"
  have z: "RESP_GetDataLen r = 0 \<longleftrightarrow> g_resp_raw_offset r = g_resp_receive_offset r"
    using i by (auto simp: RESP_GetDataLen_def resp_inv_def Let_def)
  show "g_resp_raw_offset r = g_resp_receive_offset r \<Longrightarrow> resp_raw_get r = None"
    using z by (simp add: resp_raw_get_def RESP_PopResult_def Let_def)
  show "g_resp_raw_offset r \<noteq> g_resp_receive_offset r \<Longrightarrow> \<exists>r'. resp_raw_get r = Some (resp_cells r ! g_resp_raw_offset r, r')
     \<and> resp_inv r' \<and> resp_cells r' = resp_cells r \<and> g_resp_receive_offset r' = g_resp_receive_offset r
     \<and> g_resp_raw_offset r' = ring_inc 101 (g_resp_raw_offset r)"
    using z i by (simp add: resp_raw_get_def RESP_PopResult_def Let_def resp_cells_def resp_inv_def ring_inc_def)
qed (auto simp: resp_ok resp_push_ring split: prod.splits)

interpretation resp_algo: ring_reader 101 resp_inv resp_cells g_resp_algorithm_offset g_resp_receive_offset
  "\<lambda>(t, v). resp_push t v" resp_algo_get
proof unfold_locales
  fix r :: resp_st and x :: "u32 \<times> s32"
  assume i: "resp_inv r"
  have z: "RESP_GetAlgoDataLen r = 0 \<longleftrightarrow> g_resp_algorithm_offset r = g_resp_receive_offset r"
    using i by (auto simp: RESP_GetAlgoDataLen_def resp_inv_def Let_def)
  show "g_resp_algorithm_offset r = g_resp_receive_offset r \<Longrightarrow> resp_algo_get r = None"
    using z by (simp add: resp_algo_get_def RESP_PopAlgoResult_def Let_def)
  show "g_resp_algorithm_offset r \<noteq> g_resp_receive_offset r \<Longrightarrow> \<exists>r'. resp_algo_get r = Some (resp_cells r ! g_resp_algorithm_offset r, r')
     \<and> resp_inv r' \<and> resp_cells r' = resp_cells r \<and> g_resp_receive_offset r' = g_resp_receive_offset r
     \<and> g_resp_algorithm_offset r' = ring_inc 101 (g_resp_algorithm_offset r)"
    using z i by (simp add: resp_algo_get_def RESP_PopAlgoResult_def Let_def resp_cells_def resp_inv_def ring_inc_def)
qed (auto simp: resp_ok resp_push_ring split: prod.splits)

interpretation resp_taps: two_readers 101 resp_inv resp_cells g_resp_raw_offset g_resp_algorithm_offset
  g_resp_receive_offset "\<lambda>(t, v). resp_push t v" resp_raw_get resp_algo_get
  by unfold_locales
     (auto simp: resp_raw_get_def RESP_PopResult_def resp_algo_get_def RESP_PopAlgoResult_def Let_def split: if_splits)

end
