(* ===== verification/AdcIo.thy ===== *)
theory AdcIo
  imports Resp
begin

text \<open>
  The pin level of the two ADS1254 converters and of the timers that pace them: the parts of
  \<open>AllInOneDSP/src/source/external_adc_ecg.c\<close>, \<open>external_adc_com.c\<close> and \<open>module_ecg.c\<close> that do
  not depend on what a conversion is for.  The levels the data pins show at successive reads are
  inputs (\<open>ecg_din\<close>, \<open>com_din\<close>); the interrupt handlers that use these operations are in theory
  \<open>Sampling\<close>.
\<close>

section \<open>State\<close>

datatype ECGADC_Channel_TypeDef = RESP2_channel | ECG1_channel | ECG2_channel | ECGV_channel
datatype ADCDataPinMode_TypeDef = DIN_MODE | DRDY_MODE
datatype TIM3_HANDLER_TypeDef = TIM3_ECG_ADC_R | TIM3_ECG_3Probe
datatype TIM1_HANDLER_TypeDef = TIM1_COM_ADC_R | TIM1_COM_ADC_START

definition ADC_MUX_CHANGE_DELAY :: u32 where "ADC_MUX_CHANGE_DELAY = 250"
definition ECG_ADC_CLOCK :: u32 where "ECG_ADC_CLOCK = 8000000"

abbreviation PF1 :: u32 where "PF1 \<equiv> 0x2"
abbreviation PF2 :: u32 where "PF2 \<equiv> 0x4"
abbreviation PF9 :: u32 where "PF9 \<equiv> 0x200"
abbreviation PF10 :: u32 where "PF10 \<equiv> 0x400"
abbreviation PG4 :: u32 where "PG4 \<equiv> 0x10"
abbreviation PH1 :: u32 where "PH1 \<equiv> 0x2"
abbreviation PH2 :: u32 where "PH2 \<equiv> 0x4"

abbreviation COM_ADC_SCLK_PIN :: u32 where "COM_ADC_SCLK_PIN \<equiv> PF1"
abbreviation COM_ADC_DATA_PIN :: u32 where "COM_ADC_DATA_PIN \<equiv> PF2"

record adc_st =
  g_ECGADC_channel :: ECGADC_Channel_TypeDef
  g_ECGADC_state :: u8
  g_COMADC_channel :: COMADC_Channel_TypeDef
  g_COMADC_state :: u8
  g_Tim1_target :: TIM1_HANDLER_TypeDef
  g_Tim3_target :: TIM3_HANDLER_TypeDef
  IVG8_timer2_count :: u8
  ecg_din :: "bool list"
  com_din :: "bool list"

record adc_sys = resp_sys +
  adc :: adc_st

lemma hw_adc [simp]:
  "adc (emit e s) = adc s" "adc (wr r v s) = adc s" "adc (orw r v s) = adc s"
  "adc (andw r v s) = adc s" "adc (ssync s) = adc s" "adc (raise_fault s) = adc s"
  "adc (register_handler i h s) = adc s"
  "adc (alg_call f xs s) = adc s" "adc (Delay1ms ms s) = adc s"
  "adc (AIO_printf msg s) = adc s" "adc (UploadDataByID pid t dat len s) = adc s"
  "adc (upload pid dat s) = adc s"
  by (simp_all add: hw_prims Delay1ms_def AIO_printf_def UploadDataByID_def upload_def Let_def)

section \<open>The ECG converter\<close>

definition ECG_ADC_SCLK_LOW :: "'a hw_sys_scheme \<Rightarrow> 'a hw_sys_scheme" where
  "ECG_ADC_SCLK_LOW s = wr ''PORTHIO_CLEAR'' PH2 s"

definition ECG_ADC_SCLK_HIGH :: "'a hw_sys_scheme \<Rightarrow> 'a hw_sys_scheme" where
  "ECG_ADC_SCLK_HIGH s = wr ''PORTHIO_SET'' PH2 s"

definition ECG_ADC_Select_IO_Init :: "'a hw_sys_scheme \<Rightarrow> 'a hw_sys_scheme" where
  "ECG_ADC_Select_IO_Init s =
     run [andw ''PORTFIO_INEN'' (NOT PF9), orw ''PORTFIO_DIR'' PF9,
          andw ''PORTFIO_INEN'' (NOT PF10), orw ''PORTFIO_DIR'' PF10,
          andw ''PORTFIO_EDGE'' (NOT PF9), wr ''PORTFIO_MASKA_CLEAR'' PF9,
          andw ''PORTFIO_EDGE'' (NOT PF10), wr ''PORTFIO_MASKA_CLEAR'' PF10,
          wr ''PORTFIO_CLEAR'' PF9, wr ''PORTFIO_CLEAR'' PF10] s"

definition ECG_ADC_SCLK_IO_Init :: "'a hw_sys_scheme \<Rightarrow> 'a hw_sys_scheme" where
  "ECG_ADC_SCLK_IO_Init s =
     run [andw ''PORTHIO_INEN'' (NOT PH2), orw ''PORTHIO_DIR'' PH2, andw ''PORTHIO_EDGE'' (NOT PH2),
          andw ''PORTHIO_POLAR'' (NOT PH2), wr ''PORTHIO_MASKA_CLEAR'' PH2, ECG_ADC_SCLK_LOW] s"

definition ECG_ADC_DataPin_Init :: "ADCDataPinMode_TypeDef \<Rightarrow> 'a hw_sys_scheme \<Rightarrow> 'a hw_sys_scheme" where
  "ECG_ADC_DataPin_Init mode s =
     (let s = run [orw ''PORTHIO_INEN'' PH1, andw ''PORTHIO_DIR'' (NOT PH1)] s
      in if mode = DIN_MODE
         then run [andw ''PORTHIO_EDGE'' (NOT PH1), wr ''PORTHIO_MASKA_CLEAR'' PH1, andw ''PORTHIO_POLAR'' (NOT PH1)] s
         else run [orw ''PORTHIO_EDGE'' PH1, andw ''PORTHIO_BOTH'' (NOT PH1), orw ''PORTHIO_POLAR'' PH1,
                   wr ''PORTHIO_MASKA_SET'' PH1] s)"

definition ECG_ADC_Interrupts_Init :: "'a hw_sys_scheme \<Rightarrow> 'a hw_sys_scheme" where
  "ECG_ADC_Interrupts_Init s =
     run [orw ''SIC_IMASK0'' (push_bit 29 1),
          \<lambda>s. wr ''SIC_IAR3'' ((regs s ''SIC_IAR3'' AND NOT (push_bit 20 0x0F)) OR push_bit 20 1) s,
          register_handler 8 H_IVG8_ISR] s"

definition ECG_ADC_ChannelSelect :: "ECGADC_Channel_TypeDef \<Rightarrow> 'a hw_sys_scheme \<Rightarrow> 'a hw_sys_scheme" where
  "ECG_ADC_ChannelSelect channel s =
     (case channel of
        RESP2_channel \<Rightarrow> run [wr ''PORTFIO_CLEAR'' PF10, wr ''PORTFIO_CLEAR'' PF9] s
      | ECG1_channel \<Rightarrow> run [wr ''PORTFIO_CLEAR'' PF10, wr ''PORTFIO_SET'' PF9] s
      | ECG2_channel \<Rightarrow> run [wr ''PORTFIO_SET'' PF10, wr ''PORTFIO_CLEAR'' PF9] s
      | ECGV_channel \<Rightarrow> run [wr ''PORTFIO_SET'' PF10, wr ''PORTFIO_SET'' PF9] s)"

definition ECG_ADC_CLK_Init :: "'a hw_sys_scheme \<Rightarrow> 'a hw_sys_scheme" where
  "ECG_ADC_CLK_Init s =
     (let sclk = getSystemCLK s;
          s = run [orw ''PORTG_FER'' PG4, andw ''PORTG_MUX'' (NOT (push_bit 4 3)), orw ''PORTG_MUX'' (push_bit 4 2),
                   wr ''TIMER5_CONFIG'' 0x0009] s;
          ratio = (sclk + ECG_ADC_CLOCK div 2) div ECG_ADC_CLOCK
      in run [wr ''TIMER5_PERIOD'' ratio, wr ''TIMER5_WIDTH'' (ratio div 2)] s)"

definition ECG_ADC_CLK_enable :: "'a hw_sys_scheme \<Rightarrow> 'a hw_sys_scheme" where
  "ECG_ADC_CLK_enable s = wr ''TIMER_ENABLE'' (push_bit 5 1) s"

definition ECG_ADC_CLK_disable :: "'a hw_sys_scheme \<Rightarrow> 'a hw_sys_scheme" where
  "ECG_ADC_CLK_disable s = wr ''TIMER_DISABLE'' (push_bit 5 1) s"

definition ADC_CLK_Init :: "'a hw_sys_scheme \<Rightarrow> 'a hw_sys_scheme" where
  "ADC_CLK_Init s = run [ECG_ADC_CLK_Init, ECG_ADC_CLK_enable] s"

definition ECG_ADC_Init :: "'a hw_sys_scheme \<Rightarrow> 'a hw_sys_scheme" where
  "ECG_ADC_Init s =
     run [ECG_ADC_Select_IO_Init, ECG_ADC_ChannelSelect ECG1_channel, ECG_ADC_SCLK_IO_Init,
          ECG_ADC_DataPin_Init DIN_MODE, ECG_ADC_Interrupts_Init] s"

text \<open>Each read of the data pin consumes one level; a pin nobody drives reads low.\<close>

definition ecg_read_pin :: "'a adc_sys_scheme \<Rightarrow> bool \<times> 'a adc_sys_scheme" where
  "ecg_read_pin s = (case ecg_din (adc s) of [] \<Rightarrow> (False, s) | b # bs \<Rightarrow> (b, s\<lparr>adc := (adc s)\<lparr>ecg_din := bs\<rparr>\<rparr>))"

primrec ECG_ADC_read_loop :: "nat \<Rightarrow> u32 \<Rightarrow> 'a adc_sys_scheme \<Rightarrow> u32 \<times> 'a adc_sys_scheme" where
  "ECG_ADC_read_loop 0 ulRData s = (ulRData, s)"
| "ECG_ADC_read_loop (Suc n) ulRData s =
     (let s = ECG_ADC_SCLK_HIGH s;
          (high, s) = ecg_read_pin s;
          ulRData = (if high then ulRData OR 0x1 else ulRData);
          ulRData = push_bit 1 ulRData;
          s = ECG_ADC_SCLK_LOW s
      in ECG_ADC_read_loop n ulRData s)"

definition ECG_ADC_ReadData :: "'a adc_sys_scheme \<Rightarrow> u32 \<times> 'a adc_sys_scheme" where
  "ECG_ADC_ReadData s = (let (ulRData, s) = ECG_ADC_read_loop 25 0 s in (drop_bit 2 ulRData, s))"

section \<open>The common converter\<close>

definition COM_ADC_SCLK_LOW :: "'a hw_sys_scheme \<Rightarrow> 'a hw_sys_scheme" where
  "COM_ADC_SCLK_LOW s = wr ''PORTFIO_CLEAR'' COM_ADC_SCLK_PIN s"

definition COM_ADC_SCLK_HIGH :: "'a hw_sys_scheme \<Rightarrow> 'a hw_sys_scheme" where
  "COM_ADC_SCLK_HIGH s = wr ''PORTFIO_SET'' COM_ADC_SCLK_PIN s"

definition COM_ADC_SCLK_IO_Init :: "'a hw_sys_scheme \<Rightarrow> 'a hw_sys_scheme" where
  "COM_ADC_SCLK_IO_Init s =
     run [andw ''PORTFIO_INEN'' (NOT COM_ADC_SCLK_PIN), orw ''PORTFIO_DIR'' COM_ADC_SCLK_PIN,
          andw ''PORTFIO_EDGE'' (NOT COM_ADC_SCLK_PIN), wr ''PORTFIO_MASKA_CLEAR'' COM_ADC_SCLK_PIN,
          COM_ADC_SCLK_LOW] s"

text \<open>The polarity register written here is the one of port H, as in the source.\<close>

definition COM_ADC_DataPin_Init :: "ADCDataPinMode_TypeDef \<Rightarrow> 'a hw_sys_scheme \<Rightarrow> 'a hw_sys_scheme" where
  "COM_ADC_DataPin_Init mode s =
     (let s = run [orw ''PORTFIO_INEN'' COM_ADC_DATA_PIN, andw ''PORTFIO_DIR'' (NOT COM_ADC_DATA_PIN)] s
      in if mode = DIN_MODE
         then run [andw ''PORTFIO_EDGE'' (NOT COM_ADC_DATA_PIN), wr ''PORTFIO_MASKA_CLEAR'' COM_ADC_DATA_PIN,
                   andw ''PORTHIO_POLAR'' (NOT COM_ADC_DATA_PIN)] s
         else run [orw ''PORTFIO_EDGE'' COM_ADC_DATA_PIN, andw ''PORTFIO_BOTH'' (NOT COM_ADC_DATA_PIN),
                   orw ''PORTHIO_POLAR'' COM_ADC_DATA_PIN, wr ''PORTFIO_MASKA_SET'' COM_ADC_DATA_PIN] s)"

definition com_read_pin :: "'a adc_sys_scheme \<Rightarrow> bool \<times> 'a adc_sys_scheme" where
  "com_read_pin s = (case com_din (adc s) of [] \<Rightarrow> (False, s) | b # bs \<Rightarrow> (b, s\<lparr>adc := (adc s)\<lparr>com_din := bs\<rparr>\<rparr>))"

primrec COM_ADC_read_loop :: "nat \<Rightarrow> u32 \<Rightarrow> 'a adc_sys_scheme \<Rightarrow> u32 \<times> 'a adc_sys_scheme" where
  "COM_ADC_read_loop 0 ulRData s = (ulRData, s)"
| "COM_ADC_read_loop (Suc n) ulRData s =
     (let s = COM_ADC_SCLK_HIGH s;
          (high, s) = com_read_pin s;
          ulRData = (if high then ulRData OR 0x1 else ulRData);
          ulRData = push_bit 1 ulRData;
          s = COM_ADC_SCLK_LOW s
      in COM_ADC_read_loop n ulRData s)"

definition COM_ADC_ReadData :: "'a adc_sys_scheme \<Rightarrow> u32 \<times> 'a adc_sys_scheme" where
  "COM_ADC_ReadData s = (let (ulRData, s) = COM_ADC_read_loop 25 0 s in (drop_bit 1 ulRData, s))"

definition COM_ADC_Interrupts_Init :: "'a hw_sys_scheme \<Rightarrow> 'a hw_sys_scheme" where
  "COM_ADC_Interrupts_Init s =
     run [orw ''SIC_IMASK1'' (push_bit 13 1),
          \<lambda>s. wr ''SIC_IAR5'' ((regs s ''SIC_IAR5'' AND NOT (push_bit 20 0x0F)) OR push_bit 20 2) s,
          register_handler 9 H_IVG9_ISR] s"

definition COM_ADC_SampleStart :: "'a hw_sys_scheme \<Rightarrow> 'a hw_sys_scheme" where
  "COM_ADC_SampleStart s = COM_ADC_DataPin_Init DRDY_MODE s"

definition ADC_Synchronize :: "'a hw_sys_scheme \<Rightarrow> 'a hw_sys_scheme" where
  "ADC_Synchronize s =
     run [ECG_ADC_SCLK_HIGH, COM_ADC_SCLK_HIGH, emit (BusyDelay 500), ECG_ADC_SCLK_LOW, COM_ADC_SCLK_LOW] s"

section \<open>Timers 1 and 3\<close>

definition Timer1_SetInterrupt :: "EnableOrDisable \<Rightarrow> 'a hw_sys_scheme \<Rightarrow> 'a hw_sys_scheme" where
  "Timer1_SetInterrupt status s =
     (if status = ENABLE then run [wr ''TIMER_ENABLE'' (push_bit 1 1), orw ''SIC_IMASK1'' (push_bit 1 1)] s
      else run [wr ''TIMER_DISABLE'' (push_bit 1 1), andw ''SIC_IMASK1'' (NOT (push_bit 1 1))] s)"

definition Timer1_Configure :: "u32 \<Rightarrow> TIM1_HANDLER_TypeDef \<Rightarrow> 'a adc_sys_scheme \<Rightarrow> 'a adc_sys_scheme" where
  "Timer1_Configure n1us target s =
     (let sclk = getSystemCLK s;
          s = Timer1_SetInterrupt DISABLE s;
          s = s\<lparr>adc := (adc s)\<lparr>g_Tim1_target := target\<rparr>\<rparr>;
          s = wr ''TIMER1_CONFIG'' 0x0059 s;
          freq = 1000000 div n1us;
          ratio = (sclk + freq div 2) div freq
      in run [wr ''TIMER1_PERIOD'' ratio, wr ''TIMER1_WIDTH'' (ratio div 2), Timer1_SetInterrupt ENABLE] s)"

definition Timer1_Interrupts :: "'a hw_sys_scheme \<Rightarrow> 'a hw_sys_scheme" where
  "Timer1_Interrupts s =
     run [orw ''SIC_IMASK1'' (push_bit 1 1),
          \<lambda>s. wr ''SIC_IAR4'' ((regs s ''SIC_IAR4'' AND 0xFFFFFF0F) OR 0x00000060) s,
          register_handler 13 H_IVG13_ISR] s"

text \<open>The handler table is fixed once initialised, so the initialisation writes no state of the
  model: \<open>IVG13_ISR\<close> selects by the target.\<close>

definition Tim1_ConfigInit :: "'a hw_sys_scheme \<Rightarrow> 'a hw_sys_scheme" where
  "Tim1_ConfigInit s = Timer1_Interrupts s"

definition COM_ADC_Init :: "'a adc_sys_scheme \<Rightarrow> 'a adc_sys_scheme" where
  "COM_ADC_Init s =
     run [AHCT595_SetComADCChannel NIBP_channel, COM_ADC_SCLK_IO_Init, COM_ADC_DataPin_Init DIN_MODE,
          COM_ADC_Interrupts_Init, Tim1_ConfigInit] s"

definition Timer3_SetInterrupt :: "EnableOrDisable \<Rightarrow> 'a hw_sys_scheme \<Rightarrow> 'a hw_sys_scheme" where
  "Timer3_SetInterrupt status s =
     (if status = ENABLE then run [wr ''TIMER_ENABLE'' (push_bit 3 1), orw ''SIC_IMASK1'' (push_bit 3 1)] s
      else run [wr ''TIMER_DISABLE'' (push_bit 3 1), andw ''SIC_IMASK1'' (NOT (push_bit 3 1))] s)"

definition Timer3_Configure :: "u32 \<Rightarrow> TIM3_HANDLER_TypeDef \<Rightarrow> 'a adc_sys_scheme \<Rightarrow> 'a adc_sys_scheme" where
  "Timer3_Configure n1us target s =
     (let sclk = getSystemCLK s;
          s = Timer3_SetInterrupt DISABLE s;
          s = s\<lparr>adc := (adc s)\<lparr>g_Tim3_target := target\<rparr>\<rparr>;
          s = wr ''TIMER3_CONFIG'' 0x0059 s;
          freq = 1000000 div n1us;
          ratio = (sclk + freq div 2) div freq
      in run [wr ''TIMER3_PERIOD'' ratio, wr ''TIMER3_WIDTH'' (ratio div 2), Timer3_SetInterrupt ENABLE] s)"

definition Timer3_Interrupts :: "'a hw_sys_scheme \<Rightarrow> 'a hw_sys_scheme" where
  "Timer3_Interrupts s =
     run [orw ''SIC_IMASK1'' (push_bit 3 1),
          \<lambda>s. wr ''SIC_IAR4'' ((regs s ''SIC_IAR4'' AND 0xFFFF0FFF) OR 0x00003000) s,
          register_handler 10 H_IVG10_ISR] s"

section \<open>Reading a conversion\<close>

definition shift_in :: "u32 \<Rightarrow> bool \<Rightarrow> u32" where
  "shift_in d b = push_bit 1 (if b then d OR 1 else d)"

lemma shift_in_word:
  "foldl shift_in d (map (bit (v :: u32)) (rev [0..<n])) = push_bit n d OR push_bit 1 (take_bit n v)"
proof (induction n arbitrary: d)
  case (Suc n)
  have "push_bit n (shift_in d (bit v n)) OR push_bit 1 (take_bit n v)
      = push_bit (Suc n) d OR push_bit 1 (take_bit (Suc n) v)"
  proof (rule bit_word_eqI)
    fix m assume "m < LENGTH(32)"
    show "bit (push_bit n (shift_in d (bit v n)) OR push_bit 1 (take_bit n v)) m
      = bit (push_bit (Suc n) d OR push_bit 1 (take_bit (Suc n) v)) m"
      by (cases "m = Suc n")
         (auto simp: shift_in_def bit_simps simp del: push_bit_Suc split: if_splits)
  qed
  with Suc.IH [of "shift_in d (bit v n)"] show ?case by simp
qed simp

lemma ECG_ADC_read_loop_bits:
  "ecg_din (adc s) = bits @ rest \<Longrightarrow> length bits = n \<Longrightarrow>
   fst (ECG_ADC_read_loop n d s) = foldl shift_in d bits
   \<and> adc (snd (ECG_ADC_read_loop n d s)) = (adc s)\<lparr>ecg_din := rest\<rparr>"
proof (induction n arbitrary: d s bits)
  case (Suc n)
  then obtain b bs where "bits = b # bs" by (cases bits) auto
  with Suc show ?case
    by (simp add: ecg_read_pin_def ECG_ADC_SCLK_HIGH_def ECG_ADC_SCLK_LOW_def shift_in_def Let_def)
qed simp

lemma COM_ADC_read_loop_bits:
  "com_din (adc s) = bits @ rest \<Longrightarrow> length bits = n \<Longrightarrow>
   fst (COM_ADC_read_loop n d s) = foldl shift_in d bits
   \<and> adc (snd (COM_ADC_read_loop n d s)) = (adc s)\<lparr>com_din := rest\<rparr>"
proof (induction n arbitrary: d s bits)
  case (Suc n)
  then obtain b bs where "bits = b # bs" by (cases bits) auto
  with Suc show ?case
    by (simp add: com_read_pin_def COM_ADC_SCLK_HIGH_def COM_ADC_SCLK_LOW_def shift_in_def Let_def)
qed simp

definition msb_first :: "nat \<Rightarrow> u32 \<Rightarrow> bool list" where
  "msb_first n v = map (bit v) (rev [0..<n])"

lemma length_msb_first [simp]: "length (msb_first n v) = n"
  by (simp add: msb_first_def)

lemma ECG_ADC_ReadData_bits:
  assumes "ecg_din (adc s) = msb_first 24 v @ b # rest"
  shows "fst (ECG_ADC_ReadData s) = take_bit 24 v"
    "adc (snd (ECG_ADC_ReadData s)) = (adc s)\<lparr>ecg_din := rest\<rparr>"
proof -
  have e: "ecg_din (adc s) = (msb_first 24 v @ [b]) @ rest" using assms by simp
  note l = ECG_ADC_read_loop_bits [OF e, of 25 0]
  have "drop_bit 2 (shift_in (push_bit 1 (take_bit 24 v)) b) = take_bit 24 v"
    by (rule bit_word_eqI) (auto simp: shift_in_def bit_simps simp del: push_bit_Suc drop_bit_Suc)
  with l show "fst (ECG_ADC_ReadData s) = take_bit 24 v"
    by (simp add: ECG_ADC_ReadData_def msb_first_def shift_in_word case_prod_beta Let_def del: upt_rec_numeral)
  from l show "adc (snd (ECG_ADC_ReadData s)) = (adc s)\<lparr>ecg_din := rest\<rparr>"
    by (simp add: ECG_ADC_ReadData_def case_prod_beta Let_def)
qed

text \<open>The common converter's reading keeps one bit more than the 24 of a conversion.\<close>

lemma COM_ADC_ReadData_bits:
  assumes "com_din (adc s) = msb_first 25 v @ rest"
  shows "fst (COM_ADC_ReadData s) = take_bit 25 v"
    "adc (snd (COM_ADC_ReadData s)) = (adc s)\<lparr>com_din := rest\<rparr>"
proof -
  note l = COM_ADC_read_loop_bits [OF assms, of 25 0]
  have "drop_bit 1 (push_bit 1 (take_bit 25 v)) = take_bit 25 v"
    by (rule bit_word_eqI) (auto simp: bit_simps simp del: push_bit_Suc drop_bit_Suc)
  with l show "fst (COM_ADC_ReadData s) = take_bit 25 v"
    by (simp add: COM_ADC_ReadData_def msb_first_def shift_in_word case_prod_beta Let_def del: upt_rec_numeral)
  from l show "adc (snd (COM_ADC_ReadData s)) = (adc s)\<lparr>com_din := rest\<rparr>"
    by (simp add: COM_ADC_ReadData_def case_prod_beta Let_def)
qed

end
