(* ===== verification/Ecg.thy ===== *)
theory Ecg
  imports AdcIo
begin

text \<open>
  \<open>AllInOneDSP/src/source/module_ecg.c\<close> and \<open>algorithm_ecg.c\<close>: lead selection, pace maker
  detection, the ring of ECG samples with its two readers, the uploads and commands, and the ring of
  the algorithm's filtered samples.  The analysis of the samples is theory \<open>EcgAlg\<close>, not modelled
  here: its results are inputs (\<open>ecg_alg_outs\<close>), its calls are logged.  The interrupt handler \<open>IVG10_ISR\<close> is
  in theory \<open>Sampling\<close>.
\<close>

section \<open>State\<close>

definition ECG_SAMPLE_FREQ :: u32 where "ECG_SAMPLE_FREQ = 500"
definition ECG_Sampling_Buffer_Len :: nat where "ECG_Sampling_Buffer_Len = 500 + 1"
definition ECG_CAL_OVERTURN_TIME :: u32 where "ECG_CAL_OVERTURN_TIME = 500"
definition PACE_RefreshPeriodMS :: u32 where "PACE_RefreshPeriodMS = 2000"
definition ECG1_DATA_VALID :: u8 where "ECG1_DATA_VALID = push_bit 5 1"
definition ECG2_DATA_VALID :: u8 where "ECG2_DATA_VALID = push_bit 4 1"
definition ECGV_DATA_VALID :: u8 where "ECGV_DATA_VALID = push_bit 3 1"

lemma ECG_len [simp]: "ECG_Sampling_Buffer_Len = 501"
  by (simp add: ECG_Sampling_Buffer_Len_def)

abbreviation PF0 :: u32 where "PF0 \<equiv> 0x1"
abbreviation PF6 :: u32 where "PF6 \<equiv> 0x40"
abbreviation PF7 :: u32 where "PF7 \<equiv> 0x80"
abbreviation PF8 :: u32 where "PF8 \<equiv> 0x100"
abbreviation PF12 :: u32 where "PF12 \<equiv> 0x1000"
abbreviation PF13 :: u32 where "PF13 \<equiv> 0x2000"
abbreviation PF14 :: u32 where "PF14 \<equiv> 0x4000"
abbreviation PF15 :: u32 where "PF15 \<equiv> 0x8000"
abbreviation PG0 :: u32 where "PG0 \<equiv> 0x1"
abbreviation PG1 :: u32 where "PG1 \<equiv> 0x2"
abbreviation PH0 :: u32 where "PH0 \<equiv> 0x1"
abbreviation PH5 :: u32 where "PH5 \<equiv> 0x20"

datatype ECG12_Channel_TypeDef = ECG12_RA_LA_I | ECG12_RA_LL_II | ECG12_LA_LL_III | ECG12_CAL
datatype ECGV_Channel_TypeDef = ECGV_V1 | ECGV_CAL
datatype ECG_DRV_Channel_TypeDef = ECG_DRV_RA | ECG_DRV_LA | ECG_DRV_LL | ECG_DRV_RL
datatype ECG_3P_Channel_TypeDef = ECG_3PROBE_I | ECG_3PROBE_II | ECG_3PROBE_III
datatype ECG_5P_Channel_TypeDef = ECG_5PROBE_I | ECG_5PROBE_II | ECG_5PROBE_III | ECG_5PROBE_V
datatype ECG_MODE_TypeDef = ECG_MODE_3PROBE | ECG_MODE_5PROBE
datatype PACE_Channel_TypeDef = CH_PACE1 | CH_PACE2 | CH_PACEV

fun lead3_code :: "ECG_3P_Channel_TypeDef \<Rightarrow> nat" where
  "lead3_code ECG_3PROBE_I = 0" | "lead3_code ECG_3PROBE_II = 1" | "lead3_code ECG_3PROBE_III = 2"

fun lead5_code :: "ECG_5P_Channel_TypeDef \<Rightarrow> nat" where
  "lead5_code ECG_5PROBE_I = 0" | "lead5_code ECG_5PROBE_II = 1" | "lead5_code ECG_5PROBE_III = 2"
| "lead5_code ECG_5PROBE_V = 3"

record CPACE_STRUCT =
  pace_channel :: PACE_Channel_TypeDef
  pace_sw :: bool
  pace_newState :: bool
  pace_oldState :: bool

text \<open>One item of the algorithm's output.  \<open>None\<close> is a null alert list.\<close>

record ecg_alg_out =
  eo_SysTick :: u32
  eo_ECG :: "s32 \<times> s32 \<times> s32"
  eo_pace :: u8
  eo_HeartRate :: u32
  eo_QuickQRSTick :: u32
  eo_Alerts :: "u32 list option"

record ecg_st =
  g_3probe_run :: bool
  g_5probe_run :: bool
  g_3probe_channel :: ECG_3P_Channel_TypeDef
  g_5probe_ECG1 :: ECG_5P_Channel_TypeDef
  g_5probe_ECG2 :: ECG_5P_Channel_TypeDef
  g_3PorbeResult :: "u32 list"
  g_5PorbeResult :: "u32 list"
  isECGUploadFilter :: bool
  g_pace_state :: CPACE_STRUCT
  g_ecg_result :: "s32 list list"
  g_ecg_tick :: "u32 list"
  g_ecg_pace :: "u8 list"
  g_ecg_receive_offset :: nat
  g_ecg_raw_offset :: nat
  g_ecg_algorithm_offset :: nat
  defibrillate_pulse_tick :: u32
  is_defibrillate_run :: bool
  ECG_PACE_ulNextChangeTime :: u32
  ECG_HR_RR_ulNextChangeTime :: u32
  ECG_lead_ulNextChangeTime :: u32
  ECG_CAL_ulNextChangeTime :: u32
  ECG_CAL_s8Status :: bool
  g_Is_ecg_algo_run :: bool
  g_ecg_algo_sw :: bool
  g_ecg_filResult :: "(s32 \<times> s32 \<times> s32) list"
  g_ecg_filTick :: "u32 list"
  g_ecg_filPace :: "u8 list"
  g_ecg_fil_offset_in :: nat
  g_ecg_fil_offset_out :: nat
  ecg_algorithm_out :: ecg_alg_out
  ecg_QuickQRSTick :: u32
  ecg_alg_outs :: "ecg_alg_out option list"

record ecg_sys = adc_sys +
  ecg :: ecg_st

lemma hw_ecg [simp]:
  "ecg (emit e s) = ecg s" "ecg (wr r v s) = ecg s" "ecg (orw r v s) = ecg s"
  "ecg (andw r v s) = ecg s" "ecg (ssync s) = ecg s" "ecg (raise_fault s) = ecg s"
  "ecg (register_handler i h s) = ecg s"
  "ecg (alg_call f xs s) = ecg s" "ecg (Delay1ms ms s) = ecg s"
  "ecg (AIO_printf msg s) = ecg s" "ecg (UploadDataByID pid t dat len s) = ecg s"
  "ecg (upload pid dat s) = ecg s"
  by (simp_all add: hw_prims Delay1ms_def AIO_printf_def UploadDataByID_def upload_def Let_def)

section \<open>Pins\<close>

definition ECG1_SelectIO_Init :: "'a hw_sys_scheme \<Rightarrow> 'a hw_sys_scheme" where
  "ECG1_SelectIO_Init s =
     run [andw ''PORTFIO_INEN'' (NOT PF6), orw ''PORTFIO_DIR'' PF6, andw ''PORTHIO_INEN'' (NOT PH0),
          orw ''PORTHIO_DIR'' PH0, andw ''PORTFIO_EDGE'' (NOT PF6), wr ''PORTFIO_MASKA_CLEAR'' PF6,
          andw ''PORTHIO_EDGE'' (NOT PH0), wr ''PORTHIO_MASKA_CLEAR'' PH0,
          wr ''PORTFIO_CLEAR'' PF6, wr ''PORTHIO_CLEAR'' PH0] s"

definition ECG2_SelectIO_Init :: "'a hw_sys_scheme \<Rightarrow> 'a hw_sys_scheme" where
  "ECG2_SelectIO_Init s =
     run [andw ''PORTFIO_INEN'' (NOT (PF12 OR PF13)), orw ''PORTFIO_DIR'' (PF12 OR PF13),
          andw ''PORTFIO_EDGE'' (NOT (PF12 OR PF13)), wr ''PORTFIO_MASKA_CLEAR'' (PF12 OR PF13),
          wr ''PORTFIO_CLEAR'' PF12, wr ''PORTFIO_CLEAR'' PF13] s"

definition ECGV_SelectIO_Init :: "'a hw_sys_scheme \<Rightarrow> 'a hw_sys_scheme" where
  "ECGV_SelectIO_Init s =
     run [andw ''PORTFIO_INEN'' (NOT PF14), orw ''PORTFIO_DIR'' PF14, andw ''PORTFIO_EDGE'' (NOT PF14),
          wr ''PORTFIO_MASKA_CLEAR'' PF14, wr ''PORTFIO_CLEAR'' PF14] s"

definition ECG_DRV_SelectIO_Init :: "'a hw_sys_scheme \<Rightarrow> 'a hw_sys_scheme" where
  "ECG_DRV_SelectIO_Init s =
     run [andw ''PORTFIO_INEN'' (NOT (PF7 OR PF8)), orw ''PORTFIO_DIR'' (PF7 OR PF8),
          andw ''PORTFIO_EDGE'' (NOT (PF7 OR PF8)), wr ''PORTFIO_MASKA_CLEAR'' (PF7 OR PF8),
          wr ''PORTFIO_CLEAR'' PF8, wr ''PORTFIO_CLEAR'' PF7] s"

definition ECG_CAL_DRV_IO_Init :: "'a hw_sys_scheme \<Rightarrow> 'a hw_sys_scheme" where
  "ECG_CAL_DRV_IO_Init s =
     run [andw ''PORTHIO_INEN'' (NOT PH5), orw ''PORTHIO_DIR'' PH5, andw ''PORTHIO_EDGE'' (NOT PH5),
          wr ''PORTHIO_MASKA_CLEAR'' PH5, wr ''PORTHIO_CLEAR'' PH5] s"

definition ECG_Defibrillate_IO_Init :: "'a hw_sys_scheme \<Rightarrow> 'a hw_sys_scheme" where
  "ECG_Defibrillate_IO_Init s =
     run [andw ''PORTFIO_INEN'' (NOT PF0), orw ''PORTFIO_DIR'' PF0, andw ''PORTFIO_EDGE'' (NOT PF0),
          wr ''PORTFIO_MASKA_CLEAR'' PF0, wr ''PORTFIO_CLEAR'' PF0] s"

definition ECG_PACE_SelectIO_Init :: "'a hw_sys_scheme \<Rightarrow> 'a hw_sys_scheme" where
  "ECG_PACE_SelectIO_Init s =
     run [andw ''PORTGIO_INEN'' (NOT PG0), orw ''PORTGIO_DIR'' PG0, andw ''PORTGIO_INEN'' (NOT PG1),
          orw ''PORTGIO_DIR'' PG1, andw ''PORTGIO_EDGE'' (NOT PG0), wr ''PORTGIO_MASKA_CLEAR'' PG0,
          andw ''PORTGIO_EDGE'' (NOT PG1), wr ''PORTGIO_MASKA_CLEAR'' PG1,
          wr ''PORTGIO_CLEAR'' PG0, wr ''PORTGIO_CLEAR'' PG1] s"

definition ECG_PACE_SetInterrupt :: "EnableOrDisable \<Rightarrow> 'a hw_sys_scheme \<Rightarrow> 'a hw_sys_scheme" where
  "ECG_PACE_SetInterrupt status s =
     (if status = ENABLE then wr ''PORTFIO_MASKA_SET'' PF15 s else wr ''PORTFIO_MASKA_CLEAR'' PF15 s)"

definition ECG_PACE_DetectIO_Init :: "'a hw_sys_scheme \<Rightarrow> 'a hw_sys_scheme" where
  "ECG_PACE_DetectIO_Init s =
     run [orw ''PORTFIO_INEN'' PF15, andw ''PORTFIO_DIR'' (NOT PF15), orw ''PORTFIO_EDGE'' PF15,
          andw ''PORTFIO_BOTH'' (NOT PF15), orw ''PORTFIO_POLAR'' PF15, ECG_PACE_SetInterrupt DISABLE] s"

definition ECG_PACE_Interrupts_Init :: "'a hw_sys_scheme \<Rightarrow> 'a hw_sys_scheme" where
  "ECG_PACE_Interrupts_Init s =
     run [orw ''SIC_IMASK1'' (push_bit 13 1),
          \<lambda>s. wr ''SIC_IAR5'' ((regs s ''SIC_IAR5'' AND NOT (push_bit 20 0x0F)) OR push_bit 20 2) s,
          register_handler 9 H_IVG9_ISR] s"

definition ECG_PACE_SetChannel :: "PACE_Channel_TypeDef \<Rightarrow> 'a hw_sys_scheme \<Rightarrow> 'a hw_sys_scheme" where
  "ECG_PACE_SetChannel channel s =
     (case channel of
        CH_PACE1 \<Rightarrow> run [wr ''PORTGIO_CLEAR'' PG1, wr ''PORTGIO_CLEAR'' PG0] s
      | CH_PACE2 \<Rightarrow> run [wr ''PORTGIO_CLEAR'' PG1, wr ''PORTGIO_SET'' PG0] s
      | CH_PACEV \<Rightarrow> run [wr ''PORTGIO_SET'' PG1, wr ''PORTGIO_CLEAR'' PG0] s)"

section \<open>Lead selection\<close>

definition ECG1_ChannelSelect :: "ECG12_Channel_TypeDef \<Rightarrow> 'a hw_sys_scheme \<Rightarrow> 'a hw_sys_scheme" where
  "ECG1_ChannelSelect channel s =
     (case channel of
        ECG12_RA_LA_I \<Rightarrow> run [wr ''PORTHIO_CLEAR'' PH0, wr ''PORTFIO_CLEAR'' PF6] s
      | ECG12_RA_LL_II \<Rightarrow> run [wr ''PORTHIO_CLEAR'' PH0, wr ''PORTFIO_SET'' PF6] s
      | ECG12_LA_LL_III \<Rightarrow> run [wr ''PORTHIO_SET'' PH0, wr ''PORTFIO_CLEAR'' PF6] s
      | ECG12_CAL \<Rightarrow> run [wr ''PORTHIO_SET'' PH0, wr ''PORTFIO_SET'' PF6] s)"

definition ECG2_ChannelSelect :: "ECG12_Channel_TypeDef \<Rightarrow> 'a hw_sys_scheme \<Rightarrow> 'a hw_sys_scheme" where
  "ECG2_ChannelSelect channel s =
     (case channel of
        ECG12_RA_LA_I \<Rightarrow> run [wr ''PORTFIO_CLEAR'' PF13, wr ''PORTFIO_CLEAR'' PF12] s
      | ECG12_RA_LL_II \<Rightarrow> run [wr ''PORTFIO_CLEAR'' PF13, wr ''PORTFIO_SET'' PF12] s
      | ECG12_LA_LL_III \<Rightarrow> run [wr ''PORTFIO_SET'' PF13, wr ''PORTFIO_CLEAR'' PF12] s
      | ECG12_CAL \<Rightarrow> run [wr ''PORTFIO_SET'' PF13, wr ''PORTFIO_SET'' PF12] s)"

definition ECGV_ChannelSelect :: "ECGV_Channel_TypeDef \<Rightarrow> 'a hw_sys_scheme \<Rightarrow> 'a hw_sys_scheme" where
  "ECGV_ChannelSelect channel s =
     (if channel = ECGV_CAL then wr ''PORTFIO_CLEAR'' PF14 s else wr ''PORTFIO_SET'' PF14 s)"

definition ECG_DRV_ChannelSelect :: "ECG_DRV_Channel_TypeDef \<Rightarrow> 'a hw_sys_scheme \<Rightarrow> 'a hw_sys_scheme" where
  "ECG_DRV_ChannelSelect channel s =
     (case channel of
        ECG_DRV_RA \<Rightarrow> run [wr ''PORTFIO_CLEAR'' PF8, wr ''PORTFIO_CLEAR'' PF7] s
      | ECG_DRV_LA \<Rightarrow> run [wr ''PORTFIO_CLEAR'' PF8, wr ''PORTFIO_SET'' PF7] s
      | ECG_DRV_LL \<Rightarrow> run [wr ''PORTFIO_SET'' PF8, wr ''PORTFIO_CLEAR'' PF7] s
      | ECG_DRV_RL \<Rightarrow> run [wr ''PORTFIO_SET'' PF8, wr ''PORTFIO_SET'' PF7] s)"

definition ECG_3ProbeChannelSelect :: "ECG_3P_Channel_TypeDef \<Rightarrow> 'a ecg_sys_scheme \<Rightarrow> 'a ecg_sys_scheme" where
  "ECG_3ProbeChannelSelect channel s =
     (let s = (case channel of
                 ECG_3PROBE_I \<Rightarrow> run [ECG1_ChannelSelect ECG12_RA_LA_I, ECG_DRV_ChannelSelect ECG_DRV_LL] s
               | ECG_3PROBE_II \<Rightarrow> run [ECG1_ChannelSelect ECG12_RA_LL_II, ECG_DRV_ChannelSelect ECG_DRV_LA] s
               | ECG_3PROBE_III \<Rightarrow> run [ECG1_ChannelSelect ECG12_LA_LL_III, ECG_DRV_ChannelSelect ECG_DRV_RA] s)
      in s\<lparr>ecg := (ecg s)\<lparr>g_3probe_channel := channel\<rparr>\<rparr>)"

definition ECG_5ProbeChannelSelect ::
  "ECG_5P_Channel_TypeDef \<Rightarrow> ECG_5P_Channel_TypeDef \<Rightarrow> 'a ecg_sys_scheme \<Rightarrow> 'a ecg_sys_scheme" where
  "ECG_5ProbeChannelSelect ch1 ch2 s =
     (let s = (case ch1 of
                 ECG_5PROBE_I \<Rightarrow> ECG1_ChannelSelect ECG12_RA_LA_I s
               | ECG_5PROBE_II \<Rightarrow> ECG1_ChannelSelect ECG12_RA_LL_II s
               | ECG_5PROBE_III \<Rightarrow> ECG1_ChannelSelect ECG12_LA_LL_III s
               | ECG_5PROBE_V \<Rightarrow> s);
          s = (case ch2 of
                 ECG_5PROBE_I \<Rightarrow> ECG2_ChannelSelect ECG12_RA_LA_I s
               | ECG_5PROBE_II \<Rightarrow> ECG2_ChannelSelect ECG12_RA_LL_II s
               | ECG_5PROBE_III \<Rightarrow> ECG2_ChannelSelect ECG12_LA_LL_III s
               | ECG_5PROBE_V \<Rightarrow> s);
          s = s\<lparr>ecg := (ecg s)\<lparr>g_5probe_ECG1 := ch1, g_5probe_ECG2 := ch2\<rparr>\<rparr>
      in ECG_DRV_ChannelSelect ECG_DRV_RL s)"

definition ECG_PorbeModeSet :: "ECG_MODE_TypeDef \<Rightarrow> ecg_st \<Rightarrow> ecg_st" where
  "ECG_PorbeModeSet mode e =
     (if mode = ECG_MODE_3PROBE then e\<lparr>g_3probe_run := True, g_5probe_run := False\<rparr>
      else e\<lparr>g_3probe_run := False, g_5probe_run := True\<rparr>)"

definition ECG_CAL_DRV_ModeSet :: "EnableOrDisable \<Rightarrow> 'a ecg_sys_scheme \<Rightarrow> 'a ecg_sys_scheme" where
  "ECG_CAL_DRV_ModeSet status s =
     (if status = ENABLE
      then run [ECG1_ChannelSelect ECG12_CAL, ECG2_ChannelSelect ECG12_CAL, ECGV_ChannelSelect ECGV_CAL] s
      else if g_3probe_run (ecg s) then ECG_3ProbeChannelSelect (g_3probe_channel (ecg s)) s
      else run [ECG_5ProbeChannelSelect (g_5probe_ECG1 (ecg s)) (g_5probe_ECG2 (ecg s)), ECGV_ChannelSelect ECGV_V1] s)"

definition ECG_SampleTimer_Init :: "'a hw_sys_scheme \<Rightarrow> 'a hw_sys_scheme" where
  "ECG_SampleTimer_Init s =
     (let sclk = getSystemCLK s;
          s = wr ''TIMER2_CONFIG'' 0x0059 s;
          ratio = (sclk + ECG_SAMPLE_FREQ div 2) div ECG_SAMPLE_FREQ
      in run [wr ''TIMER2_PERIOD'' ratio, wr ''TIMER2_WIDTH'' (ratio div 2)] s)"

definition ECG_SampleTimer_SetInterrupt :: "EnableOrDisable \<Rightarrow> 'a hw_sys_scheme \<Rightarrow> 'a hw_sys_scheme" where
  "ECG_SampleTimer_SetInterrupt status s =
     (if status = ENABLE then wr ''TIMER_ENABLE'' (push_bit 2 1) s else wr ''TIMER_DISABLE'' (push_bit 2 1) s)"

definition ECG_SampleTimer_Interrupts :: "'a hw_sys_scheme \<Rightarrow> 'a hw_sys_scheme" where
  "ECG_SampleTimer_Interrupts s =
     run [orw ''SIC_IMASK1'' (push_bit 2 1),
          \<lambda>s. wr ''SIC_IAR4'' ((regs s ''SIC_IAR4'' AND NOT (push_bit 8 0x0F)) OR push_bit 8 1) s,
          register_handler 8 H_IVG8_ISR] s"

definition ECG_Init :: "'a ecg_sys_scheme \<Rightarrow> 'a ecg_sys_scheme" where
  "ECG_Init s =
     (let s = s\<lparr>adc := (adc s)\<lparr>g_Tim3_target := TIM3_ECG_ADC_R\<rparr>,
                glob := (glob s)\<lparr>g_IsECG_Upload := True\<rparr>,
                ecg := ECG_PorbeModeSet ECG_MODE_5PROBE ((ecg s)\<lparr>isECGUploadFilter := False,
                  g_ecg_receive_offset := 0, g_ecg_raw_offset := 0, g_ecg_algorithm_offset := 0,
                  is_defibrillate_run := False,
                  g_3PorbeResult := replicate 3 0, g_5PorbeResult := replicate 4 0\<rparr>)\<rparr>;
          s = run [ECG_ADC_Init, ECG1_SelectIO_Init, ECG2_SelectIO_Init, ECGV_SelectIO_Init,
                   ECG_DRV_SelectIO_Init, ECG_CAL_DRV_IO_Init, ECG_Defibrillate_IO_Init] s;
          s = s\<lparr>ecg := (ecg s)\<lparr>g_pace_state :=
                  \<lparr>pace_channel = CH_PACE1, pace_sw = False, pace_newState = False, pace_oldState = False\<rparr>\<rparr>\<rparr>;
          s = run [ECG_PACE_SelectIO_Init, ECG_PACE_DetectIO_Init, ECG_PACE_Interrupts_Init] s;
          s = (if g_3probe_run (ecg s) then ECG_3ProbeChannelSelect ECG_3PROBE_II s
               else run [ECG_5ProbeChannelSelect ECG_5PROBE_II ECG_5PROBE_I, ECGV_ChannelSelect ECGV_V1] s)
      in run [ECG_SampleTimer_Init, ECG_SampleTimer_Interrupts, Timer3_Interrupts] s)"

section \<open>Timed actions\<close>

definition ECG_SetDefibrillate :: "'a ecg_sys_scheme \<Rightarrow> 'a ecg_sys_scheme" where
  "ECG_SetDefibrillate s =
     wr ''PORTFIO_SET'' PF0
       (s\<lparr>ecg := (ecg s)\<lparr>defibrillate_pulse_tick := SysTick_Get (tick s) + getTickNumberByMS 100 (tick s),
            is_defibrillate_run := True\<rparr>\<rparr>)"

definition ECG_Defibrillate_Handle :: "'a ecg_sys_scheme \<Rightarrow> 'a ecg_sys_scheme" where
  "ECG_Defibrillate_Handle s =
     (if is_defibrillate_run (ecg s) \<and> IsOnTime (defibrillate_pulse_tick (ecg s)) (tick s)
      then (let s = wr ''PORTFIO_CLEAR'' PF0 s in s\<lparr>ecg := (ecg s)\<lparr>is_defibrillate_run := False\<rparr>\<rparr>)
      else s)"

definition ECG_PACE_Handler :: "'a ecg_sys_scheme \<Rightarrow> 'a ecg_sys_scheme" where
  "ECG_PACE_Handler s =
     (if IsOnTime (ECG_PACE_ulNextChangeTime (ecg s)) (tick s)
      then let p = g_pace_state (ecg s);
               s = s\<lparr>ecg := (ecg s)\<lparr>g_pace_state := p\<lparr>pace_oldState := pace_newState p, pace_newState := False\<rparr>\<rparr>\<rparr>;
               s = run [ECG_PACE_SetChannel (pace_channel p), ECG_PACE_SetInterrupt ENABLE] s
           in s\<lparr>ecg := (ecg s)\<lparr>ECG_PACE_ulNextChangeTime :=
                  ECG_PACE_ulNextChangeTime (ecg s) + getTickNumberByMS PACE_RefreshPeriodMS (tick s)\<rparr>\<rparr>
      else s)"

definition ECG_CAL_DRV_signal :: "'a ecg_sys_scheme \<Rightarrow> 'a ecg_sys_scheme" where
  "ECG_CAL_DRV_signal s =
     (if IsOnTime (ECG_CAL_ulNextChangeTime (ecg s)) (tick s)
      then let s = s\<lparr>ecg := (ecg s)\<lparr>ECG_CAL_s8Status := \<not> ECG_CAL_s8Status (ecg s)\<rparr>\<rparr>;
               s = (if ECG_CAL_s8Status (ecg s) then wr ''PORTHIO_SET'' PH5 s else wr ''PORTHIO_CLEAR'' PH5 s)
           in s\<lparr>ecg := (ecg s)\<lparr>ECG_CAL_ulNextChangeTime :=
                  ECG_CAL_ulNextChangeTime (ecg s) + getTickNumberByMS ECG_CAL_OVERTURN_TIME (tick s)\<rparr>\<rparr>
      else s)"

section \<open>The sample ring\<close>

definition ecg_push :: "u32 \<times> s32 list \<times> u8 \<Rightarrow> ecg_st \<Rightarrow> ecg_st" where
  "ecg_push x e =
     (let e = e\<lparr>g_ecg_tick := (g_ecg_tick e)[g_ecg_receive_offset e := fst x],
                g_ecg_result := (g_ecg_result e)[g_ecg_receive_offset e := fst (snd x)],
                g_ecg_pace := (g_ecg_pace e)[g_ecg_receive_offset e := snd (snd x)],
                g_ecg_receive_offset := g_ecg_receive_offset e + 1\<rparr>;
          e = (if g_ecg_receive_offset e \<ge> ECG_Sampling_Buffer_Len
               then e\<lparr>g_ecg_receive_offset := g_ecg_receive_offset e - ECG_Sampling_Buffer_Len\<rparr> else e);
          e = (if g_ecg_algorithm_offset e = g_ecg_receive_offset e
               then e\<lparr>g_ecg_algorithm_offset :=
                  (if g_ecg_algorithm_offset e + 1 \<ge> ECG_Sampling_Buffer_Len
                   then g_ecg_algorithm_offset e + 1 - ECG_Sampling_Buffer_Len else g_ecg_algorithm_offset e + 1)\<rparr>
               else e)
      in if g_ecg_raw_offset e = g_ecg_receive_offset e
         then e\<lparr>g_ecg_raw_offset :=
                  (if g_ecg_raw_offset e + 1 \<ge> ECG_Sampling_Buffer_Len
                   then g_ecg_raw_offset e + 1 - ECG_Sampling_Buffer_Len else g_ecg_raw_offset e + 1)\<rparr>
         else e)"

definition ecg_sample :: "ecg_st \<Rightarrow> s32 list" where
  "ecg_sample e =
     (if g_5probe_run e
      then [s24_to_s32 (g_5PorbeResult e ! 0), s24_to_s32 (g_5PorbeResult e ! 1), s24_to_s32 (g_5PorbeResult e ! 3)]
      else [0, 0, 0][lead3_code (g_3probe_channel e) := s24_to_s32 (g_3PorbeResult e ! lead3_code (g_3probe_channel e))])"

definition ECG_adc_store_data :: "'a ecg_sys_scheme \<Rightarrow> 'a ecg_sys_scheme" where
  "ECG_adc_store_data s =
     (let e = ecg s;
          pace = (if pace_newState (g_pace_state e) then 1 else 0);
          v = ecg_sample e;
          e = e\<lparr>g_pace_state := (g_pace_state e)\<lparr>pace_newState := False\<rparr>\<rparr>
      in s\<lparr>ecg := ecg_push (SysTick_Get (tick s), v, pace) e\<rparr>)"

definition ECG_GetResult :: "nat \<Rightarrow> ecg_st \<Rightarrow> s32" where
  "ECG_GetResult lead e =
     (let i = int (g_ecg_receive_offset e) - 1;
          i = (if i < 0 then i + int ECG_Sampling_Buffer_Len else i)
      in g_ecg_result e ! nat i ! lead)"

definition ECG_GetResult_I :: "ecg_st \<Rightarrow> s32" where "ECG_GetResult_I e = ECG_GetResult 0 e"
definition ECG_GetResult_II :: "ecg_st \<Rightarrow> s32" where "ECG_GetResult_II e = ECG_GetResult 1 e"
definition ECG_GetResult_V :: "ecg_st \<Rightarrow> s32" where "ECG_GetResult_V e = ECG_GetResult 2 e"

definition ECG_GetDataLen :: "ecg_st \<Rightarrow> nat" where
  "ECG_GetDataLen e =
     (let l = int (g_ecg_receive_offset e) - int (g_ecg_raw_offset e)
      in nat (if l < 0 then l + int ECG_Sampling_Buffer_Len else l))"

text \<open>\<open>None\<close> stands for the result 0, which leaves the caller's variables alone.\<close>

definition ECG_PopResult :: "ecg_st \<Rightarrow> (u32 \<times> s32 list \<times> u8) option \<times> ecg_st" where
  "ECG_PopResult e =
     (let s32Len = ECG_GetDataLen e; i = g_ecg_raw_offset e
      in if s32Len \<noteq> 0
         then (Some (g_ecg_tick e ! i, g_ecg_result e ! i, g_ecg_pace e ! i),
               e\<lparr>g_ecg_raw_offset := (if i + 1 \<ge> ECG_Sampling_Buffer_Len
                  then i + 1 - ECG_Sampling_Buffer_Len else i + 1)\<rparr>)
         else (None, e))"

definition ECG_GetAlgoDataLen :: "ecg_st \<Rightarrow> nat" where
  "ECG_GetAlgoDataLen e =
     (let l = int (g_ecg_receive_offset e) - int (g_ecg_algorithm_offset e)
      in nat (if l < 0 then l + int ECG_Sampling_Buffer_Len else l))"

definition ECG_PopAlgoResult :: "ecg_st \<Rightarrow> (u32 \<times> s32 list \<times> u8) option \<times> ecg_st" where
  "ECG_PopAlgoResult e =
     (let s32Len = ECG_GetAlgoDataLen e; i = g_ecg_algorithm_offset e
      in if s32Len \<noteq> 0
         then (Some (g_ecg_tick e ! i, g_ecg_result e ! i, g_ecg_pace e ! i),
               e\<lparr>g_ecg_algorithm_offset := (if i + 1 \<ge> ECG_Sampling_Buffer_Len
                  then i + 1 - ECG_Sampling_Buffer_Len else i + 1)\<rparr>)
         else (None, e))"

definition ECG_DataReset :: "ecg_st \<Rightarrow> ecg_st" where
  "ECG_DataReset e = e\<lparr>g_ecg_raw_offset := g_ecg_receive_offset e, g_ecg_algorithm_offset := g_ecg_receive_offset e\<rparr>"

section \<open>The ring of filtered samples (algorithm_ecg.c)\<close>

definition ecg_fil_push :: "u32 \<times> (s32 \<times> s32 \<times> s32) \<times> u8 \<Rightarrow> ecg_st \<Rightarrow> ecg_st" where
  "ecg_fil_push x e =
     (let i = g_ecg_fil_offset_in e;
          e = e\<lparr>g_ecg_filTick := (g_ecg_filTick e)[i := fst x],
                g_ecg_filResult := (g_ecg_filResult e)[i := fst (snd x)],
                g_ecg_filPace := (g_ecg_filPace e)[i := snd (snd x)],
                g_ecg_fil_offset_in := (if i + 1 \<ge> ECG_Sampling_Buffer_Len
                  then i + 1 - ECG_Sampling_Buffer_Len else i + 1)\<rparr>
      in if g_ecg_fil_offset_out e = g_ecg_fil_offset_in e
         then e\<lparr>g_ecg_fil_offset_out := (if g_ecg_fil_offset_out e + 1 \<ge> ECG_Sampling_Buffer_Len
                  then g_ecg_fil_offset_out e + 1 - ECG_Sampling_Buffer_Len else g_ecg_fil_offset_out e + 1)\<rparr>
         else e)"

definition ecg_algorithm_PushFilterResult :: "ecg_st \<Rightarrow> ecg_st" where
  "ecg_algorithm_PushFilterResult e =
     (let out = ecg_algorithm_out e in ecg_fil_push (eo_SysTick out, eo_ECG out, eo_pace out) e)"

definition ecg_algorithm_GetDataLen :: "ecg_st \<Rightarrow> nat" where
  "ecg_algorithm_GetDataLen e =
     (let l = int (g_ecg_fil_offset_in e) - int (g_ecg_fil_offset_out e)
      in nat (if l < 0 then l + int ECG_Sampling_Buffer_Len else l))"

definition ecg_algorithm_PopFilterResult :: "ecg_st \<Rightarrow> (u32 \<times> (s32 \<times> s32 \<times> s32) \<times> u8) option \<times> ecg_st" where
  "ecg_algorithm_PopFilterResult e =
     (let s32Len = ecg_algorithm_GetDataLen e; i = g_ecg_fil_offset_out e
      in if s32Len \<noteq> 0
         then (Some (g_ecg_filTick e ! i, g_ecg_filResult e ! i, g_ecg_filPace e ! i),
               e\<lparr>g_ecg_fil_offset_out := (if i + 1 \<ge> ECG_Sampling_Buffer_Len
                  then i + 1 - ECG_Sampling_Buffer_Len else i + 1)\<rparr>)
         else (None, e))"

definition ecg_algorithm_DataReset :: "ecg_st \<Rightarrow> ecg_st" where
  "ecg_algorithm_DataReset e = e\<lparr>g_ecg_fil_offset_out := g_ecg_fil_offset_in e\<rparr>"

definition ecg_algorithm_getHR :: "ecg_st \<Rightarrow> u16" where
  "ecg_algorithm_getHR e = ucast (eo_HeartRate (ecg_algorithm_out e))"

definition ecg_algorithm_setRun :: "u8 \<Rightarrow> ecg_st \<Rightarrow> ecg_st" where
  "ecg_algorithm_setRun state e = e\<lparr>g_ecg_algo_sw := (state \<noteq> 0)\<rparr>"

definition ecg_algorithm_init :: "'a ecg_sys_scheme \<Rightarrow> 'a ecg_sys_scheme" where
  "ecg_algorithm_init s =
     alg_call ''l_ecg_AlgorithmInit'' []
       (s\<lparr>ecg := (ecg s)\<lparr>g_Is_ecg_algo_run := False, g_ecg_algo_sw := True,
            g_ecg_fil_offset_in := 0, g_ecg_fil_offset_out := 0,
            ecg_algorithm_out := \<lparr>eo_SysTick = 0, eo_ECG = (0, 0, 0), eo_pace = 0, eo_HeartRate = 0,
              eo_QuickQRSTick = 0, eo_Alerts = None\<rparr>\<rparr>\<rparr>)"

section \<open>Uploads\<close>

abbreviation AIO_TX_ECG_REALTIME_ID :: u8 where "AIO_TX_ECG_REALTIME_ID \<equiv> 0xA0"
abbreviation AIO_TX_ECG_HR_RR_ID :: u8 where "AIO_TX_ECG_HR_RR_ID \<equiv> 0xA2"
abbreviation AIO_TX_ARRHYTHMIA_RESULT_ID :: u8 where "AIO_TX_ARRHYTHMIA_RESULT_ID \<equiv> 0xA3"
abbreviation AIO_TX_ECG_LEAD_INFO_ID :: u8 where "AIO_TX_ECG_LEAD_INFO_ID \<equiv> 0xA7"
abbreviation AIO_TX_ECG_OVERLOAD_ID :: u8 where "AIO_TX_ECG_OVERLOAD_ID \<equiv> 0xA8"
abbreviation AIO_RX_ECG12_CHANNEL_ID :: u8 where "AIO_RX_ECG12_CHANNEL_ID \<equiv> 0x20"
abbreviation AIO_RX_PROBE_MODE_ID :: u8 where "AIO_RX_PROBE_MODE_ID \<equiv> 0x2A"

definition hr_rr_payload :: "u16 \<Rightarrow> u8 \<Rightarrow> bytes" where
  "hr_rr_payload HR RR = [byte_of 8 HR, byte_of 0 HR, if RR > 150 then 0xFF else RR]"

definition ECG_HR_RR_Upload :: "'a ecg_sys_scheme \<Rightarrow> 'a ecg_sys_scheme" where
  "ECG_HR_RR_Upload s =
     (if IsOnTime (ECG_HR_RR_ulNextChangeTime (ecg s)) (tick s) \<and> g_IsECG_Upload (glob s)
      then let s = upload AIO_TX_ECG_HR_RR_ID
                     (hr_rr_payload (ecg_algorithm_getHR (ecg s)) (resp_algorithm_getRR (resp s))) s
           in s\<lparr>ecg := (ecg s)\<lparr>ECG_HR_RR_ulNextChangeTime :=
                  ECG_HR_RR_ulNextChangeTime (ecg s) + getTickNumberByMS 1000 (tick s)\<rparr>\<rparr>
      else s)"

definition ECG_ArrhythmiaUpload :: "u8 \<Rightarrow> 'a ecg_sys_scheme \<Rightarrow> 'a ecg_sys_scheme" where
  "ECG_ArrhythmiaUpload alert s =
     (if g_IsECG_Upload (glob s) then upload AIO_TX_ARRHYTHMIA_RESULT_ID [alert, 0, 0] s else s)"

text \<open>The lead report of \<open>ECG_lead_handler\<close>: byte 1 is set for five leads and then cleared again, as
  in the source.\<close>

definition lead_payload :: "bool \<Rightarrow> u8 \<Rightarrow> bytes" where
  "lead_payload five lead_info =
     (if five then [push_bit 7 1 OR (lead_info AND 0x1F), 0, 0x07] else [lead_info AND 0x07, 0, 0x01])"

definition lead_upload :: "u8 \<Rightarrow> 'a ecg_sys_scheme \<Rightarrow> 'a ecg_sys_scheme" where
  "lead_upload lead_info s =
     (let pValue = lead_payload (g_5probe_run (ecg s)) lead_info;
          s = (if pValue ! 0 \<noteq> 0 then upload AIO_TX_ECG_LEAD_INFO_ID pValue s else s);
          over = drop_bit 5 lead_info AND 0x03
      in if over \<noteq> 0 then upload AIO_TX_ECG_OVERLOAD_ID [over] s else s)"

definition ECG_lead_handler :: "'a ecg_sys_scheme \<Rightarrow> 'a ecg_sys_scheme" where
  "ECG_lead_handler s =
     (if IsOnTime (ECG_lead_ulNextChangeTime (ecg s)) (tick s) \<and> g_IsECG_Upload (glob s)
      then let (_, bs, s) = aio_stm32_readByID ECG_PROBE_RESULT 1 s;
               lead_info = put_bytes 0 bs [0] ! 0;
               s = lead_upload lead_info s
           in s\<lparr>ecg := (ecg s)\<lparr>ECG_lead_ulNextChangeTime :=
                  ECG_lead_ulNextChangeTime (ecg s) + getTickNumberByMS 1000 (tick s)\<rparr>\<rparr>
      else s)"

definition ecg_lead_tag :: "ecg_st \<Rightarrow> u8" where
  "ecg_lead_tag e =
     (if g_3probe_run e
      then (case g_3probe_channel e of ECG_3PROBE_I \<Rightarrow> ECG1_DATA_VALID OR 0x01
            | ECG_3PROBE_II \<Rightarrow> ECG1_DATA_VALID OR 0x02 | ECG_3PROBE_III \<Rightarrow> ECG1_DATA_VALID OR 0x03)
      else ECG1_DATA_VALID OR ECG2_DATA_VALID OR ECGV_DATA_VALID OR 0x04)"

definition ecg_payload :: "u8 \<Rightarrow> u32 \<Rightarrow> s32 \<Rightarrow> s32 \<Rightarrow> s32 \<Rightarrow> u8 \<Rightarrow> bytes" where
  "ecg_payload tag t i ii v pace =
     (let i = s32_to_s24 i; ii = s32_to_s24 ii; v = s32_to_s24 v
      in [tag, byte_of 16 i, byte_of 8 i, byte_of 0 i, byte_of 16 ii, byte_of 8 ii, byte_of 0 ii,
          byte_of 16 v, byte_of 8 v, byte_of 0 v, byte_of 24 t, byte_of 16 t, byte_of 8 t, byte_of 0 t, pace])"

definition ECG_ReslultUpload :: "'a ecg_sys_scheme \<Rightarrow> 'a ecg_sys_scheme" where
  "ECG_ReslultUpload s =
     (if \<not> g_IsECG_Upload (glob s) then s
      else if \<not> isECGUploadFilter (ecg s)
      then (case ECG_PopResult (ecg s) of
              (None, e) \<Rightarrow> s\<lparr>ecg := e\<rparr>
            | (Some (t, v, pace), e) \<Rightarrow>
                upload AIO_TX_ECG_REALTIME_ID (ecg_payload (ecg_lead_tag e) t (v ! 0) (v ! 1) (v ! 2) pace) (s\<lparr>ecg := e\<rparr>))
      else (case ecg_algorithm_PopFilterResult (ecg s) of
              (None, e) \<Rightarrow> s\<lparr>ecg := e\<rparr>
            | (Some (t, (i, ii, v), pace), e) \<Rightarrow>
                upload AIO_TX_ECG_REALTIME_ID (ecg_payload (ecg_lead_tag e) t i ii v pace) (s\<lparr>ecg := e\<rparr>)))"

definition ECG_Handler :: "'a ecg_sys_scheme \<Rightarrow> 'a ecg_sys_scheme" where
  "ECG_Handler s = run [ECG_lead_handler, ECG_Defibrillate_Handle, ECG_HR_RR_Upload, ECG_ReslultUpload] s"

section \<open>Commands\<close>

definition l_ecg_DebugInterface :: "string \<Rightarrow> bytes \<Rightarrow> 'a hw_sys_scheme \<Rightarrow> 'a hw_sys_scheme" where
  "l_ecg_DebugInterface what arg s = alg_call (''l_ecg_DebugInterface:'' @ what) arg s"

definition set_ecg_upload_type :: "u8 \<Rightarrow> 'a ecg_sys_scheme \<Rightarrow> RETURN_TypeDef \<times> 'a ecg_sys_scheme" where
  "set_ecg_upload_type ty s =
     (let reset = (\<lambda>s. s\<lparr>ecg := ecg_algorithm_DataReset (ecg s)\<rparr>)
      in if ty = 1 then (RETURN_OK, reset (s\<lparr>glob := (glob s)\<lparr>g_IsECG_Upload := False\<rparr>\<rparr>))
         else if ty = 2 then (RETURN_OK, reset (s\<lparr>ecg := (ecg s)\<lparr>isECGUploadFilter := False\<rparr>,
                                                 glob := (glob s)\<lparr>g_IsECG_Upload := True\<rparr>\<rparr>))
         else if ty = 3 then (RETURN_OK, reset (s\<lparr>ecg := (ecg s)\<lparr>isECGUploadFilter := True\<rparr>,
                                                 glob := (glob s)\<lparr>g_IsECG_Upload := True\<rparr>\<rparr>))
         else (RETURN_ERROR, s))"

definition ECG_DebugInterface :: "UartProtocolPacket \<Rightarrow> 'a ecg_sys_scheme \<Rightarrow> RETURN_TypeDef \<times> 'a ecg_sys_scheme" where
  "ECG_DebugInterface p s =
     (let ty = DataAndCRC p ! 0; a = DataAndCRC p ! 1; b = DataAndCRC p ! 2
      in if ty = 1 then set_ecg_upload_type a s
         else if ty = 2 then (RETURN_OK, s\<lparr>ecg := ecg_algorithm_setRun a (ecg s)\<rparr>)
         else if ty = 3 then (RETURN_ERROR, l_ecg_DebugInterface ''ECG_Tachycardia_Limit_SET'' [a, b] s)
         else if ty = 4 then (RETURN_ERROR, l_ecg_DebugInterface ''ECG_Bradycardia_Limit_SET'' [a, b] s)
         else (RETURN_ERROR, s))"

definition ECG_setAlarm :: "UartProtocolPacket \<Rightarrow> 'a ecg_sys_scheme \<Rightarrow> RETURN_TypeDef \<times> 'a ecg_sys_scheme" where
  "ECG_setAlarm p s = (RETURN_OK, s)"

definition ECG_SetProbeMode :: "UartProtocolPacket \<Rightarrow> 'a ecg_sys_scheme \<Rightarrow> 'a ecg_sys_scheme" where
  "ECG_SetProbeMode p s =
     (if DataAndCRC p ! 1 = 0
      then run [\<lambda>s. s\<lparr>ecg := ECG_PorbeModeSet ECG_MODE_5PROBE (ecg s)\<rparr>,
                ECG_5ProbeChannelSelect ECG_5PROBE_II ECG_5PROBE_I, ECGV_ChannelSelect ECGV_V1] s
      else if DataAndCRC p ! 1 = 1
      then run [\<lambda>s. s\<lparr>ecg := ECG_PorbeModeSet ECG_MODE_3PROBE (ecg s)\<rparr>, ECG_3ProbeChannelSelect ECG_3PROBE_II] s
      else s)"

text \<open>The byte \<open>pVal[1]\<close> is only written when one of the mode flags is set; reading it otherwise is
  recorded as a fault, and 0 stands for the value.\<close>

definition ECG_RespondProbeMode :: "'a ecg_sys_scheme \<Rightarrow> 'a ecg_sys_scheme" where
  "ECG_RespondProbeMode s =
     (if g_3probe_run (ecg s) then upload AIO_RX_PROBE_MODE_ID [0, 1] s
      else if g_5probe_run (ecg s) then upload AIO_RX_PROBE_MODE_ID [0, 0] s
      else upload AIO_RX_PROBE_MODE_ID [0, 0] (raise_fault s))"

definition ECG12_read :: "u8 \<Rightarrow> 'a ecg_sys_scheme \<Rightarrow> 'a ecg_sys_scheme" where
  "ECG12_read b s =
     (if g_3probe_run (ecg s)
      then upload AIO_RX_ECG12_CHANNEL_ID [0, push_bit 4 1 + of_nat (lead3_code (g_3probe_channel (ecg s)) + 1)] s
      else if g_5probe_run (ecg s)
      then (let ECGn = drop_bit 4 b
            in if ECGn = 1
               then upload AIO_RX_ECG12_CHANNEL_ID [0, push_bit 4 1 + of_nat (lead5_code (g_5probe_ECG1 (ecg s)) + 1)] s
               else if ECGn = 2
               then upload AIO_RX_ECG12_CHANNEL_ID [0, push_bit 4 2 + of_nat (lead5_code (g_5probe_ECG2 (ecg s)) + 1)] s
               else upload AIO_RX_ECG12_CHANNEL_ID [0, 0] (raise_fault s))
      else s)"

definition ECG12_write :: "u8 \<Rightarrow> 'a ecg_sys_scheme \<Rightarrow> 'a ecg_sys_scheme" where
  "ECG12_write b s =
     (let code = b AND 0x0F; ECGn = drop_bit 4 b
      in if g_3probe_run (ecg s)
         then (if ECGn \<noteq> 1 then s
               else if code = 1 then ECG_3ProbeChannelSelect ECG_3PROBE_I s
               else if code = 2 then ECG_3ProbeChannelSelect ECG_3PROBE_II s
               else if code = 3 then ECG_3ProbeChannelSelect ECG_3PROBE_III s
               else s)
         else if g_5probe_run (ecg s)
         then (let ch1 = g_5probe_ECG1 (ecg s); ch2 = g_5probe_ECG2 (ecg s);
                   ch = (if code = 1 then Some ECG_5PROBE_I else if code = 2 then Some ECG_5PROBE_II
                         else if code = 3 then Some ECG_5PROBE_III else None)
               in if ECGn = 1 \<or> ECGn = 2
                  then (case ch of
                          None \<Rightarrow> raise_fault s
                        | Some c \<Rightarrow> if ECGn = 1 then ECG_5ProbeChannelSelect c ch2 s
                                    else ECG_5ProbeChannelSelect ch1 c s)
                  else ECG_5ProbeChannelSelect ch1 ch2 s)
         else s)"

definition ECG_SetECG12Channel :: "UartProtocolPacket \<Rightarrow> 'a ecg_sys_scheme \<Rightarrow> 'a ecg_sys_scheme" where
  "ECG_SetECG12Channel p s =
     (if DataAndCRC p ! 0 \<noteq> 0 then ECG12_read (DataAndCRC p ! 1) s else ECG12_write (DataAndCRC p ! 1) s)"

definition ECG_SetSTAnalyzeSW :: "UartProtocolPacket \<Rightarrow> 'a ecg_sys_scheme \<Rightarrow> 'a ecg_sys_scheme" where
  "ECG_SetSTAnalyzeSW p s = l_ecg_DebugInterface ''ECG_ST_SW'' [DataAndCRC p ! 0] s"

definition ECG_SetSTMesureSetting :: "UartProtocolPacket \<Rightarrow> 'a ecg_sys_scheme \<Rightarrow> 'a ecg_sys_scheme" where
  "ECG_SetSTMesureSetting p s = l_ecg_DebugInterface ''ECG_ST_MEASURE_SETTING'' (take 4 (DataAndCRC p)) s"

definition ECG_SetArrhythmiaSW :: "UartProtocolPacket \<Rightarrow> 'a ecg_sys_scheme \<Rightarrow> 'a ecg_sys_scheme" where
  "ECG_SetArrhythmiaSW p s = l_ecg_DebugInterface ''ECG_ARRHYTHMIA_SW'' [DataAndCRC p ! 0] s"

definition ECG_NotchFilterHandle :: "u8 \<Rightarrow> 'a ecg_sys_scheme \<Rightarrow> 'a ecg_sys_scheme" where
  "ECG_NotchFilterHandle sw s = l_ecg_DebugInterface ''ECG_NOTCH_SELECT'' [sw AND 0x03] s"

definition ECG_SetNotchFilterSW :: "UartProtocolPacket \<Rightarrow> 'a ecg_sys_scheme \<Rightarrow> 'a ecg_sys_scheme" where
  "ECG_SetNotchFilterSW p s = ECG_NotchFilterHandle (DataAndCRC p ! 0) s"

definition ECG_SetPaceSW :: "UartProtocolPacket \<Rightarrow> 'a ecg_sys_scheme \<Rightarrow> 'a ecg_sys_scheme" where
  "ECG_SetPaceSW p s =
     (let on = (DataAndCRC p ! 0 \<noteq> 0);
          s = s\<lparr>ecg := (ecg s)\<lparr>g_pace_state := (g_pace_state (ecg s))\<lparr>pace_sw := on\<rparr>\<rparr>\<rparr>;
          s = (if on then run [ECG_PACE_SetChannel (pace_channel (g_pace_state (ecg s))), ECG_PACE_SetInterrupt ENABLE] s
               else ECG_PACE_SetInterrupt DISABLE s)
      in l_ecg_DebugInterface ''ECG_PACE_SW'' [if on then 1 else 0] s)"

definition ECG_SetPaceChannel :: "UartProtocolPacket \<Rightarrow> 'a ecg_sys_scheme \<Rightarrow> 'a ecg_sys_scheme" where
  "ECG_SetPaceChannel p s =
     (let b = DataAndCRC p ! 0;
          set = (\<lambda>c. s\<lparr>ecg := (ecg s)\<lparr>g_pace_state := (g_pace_state (ecg s))\<lparr>pace_channel := c\<rparr>\<rparr>\<rparr>)
      in if b = 1 then set CH_PACE1 else if b = 2 then set CH_PACE2 else if b = 3 then set CH_PACEV else s)"

definition ECG_SetPaceOvershootSw :: "UartProtocolPacket \<Rightarrow> 'a ecg_sys_scheme \<Rightarrow> 'a ecg_sys_scheme" where
  "ECG_SetPaceOvershootSw p s = l_ecg_DebugInterface ''ECG_PACE_OVERSHOOT_SW'' [DataAndCRC p ! 0] s"

section \<open>The algorithm task (algorithm_ecg.c)\<close>

definition ecg_algo_refreshAlertType :: "'a ecg_sys_scheme \<Rightarrow> 'a ecg_sys_scheme" where
  "ecg_algo_refreshAlertType s =
     (case eo_Alerts (ecg_algorithm_out (ecg s)) of
        None \<Rightarrow> s
      | Some as \<Rightarrow> fold (\<lambda>a. ECG_ArrhythmiaUpload (ucast a)) as s)"

definition l_ecg_PopAlgorithmData :: "'a ecg_sys_scheme \<Rightarrow> ecg_alg_out option \<times> 'a ecg_sys_scheme" where
  "l_ecg_PopAlgorithmData s =
     (case ecg_alg_outs (ecg s) of
        [] \<Rightarrow> (None, s)
      | x # xs \<Rightarrow> (x, s\<lparr>ecg := (ecg s)\<lparr>ecg_alg_outs := xs\<rparr>\<rparr>))"

definition ecg_algorithm_result :: "'a ecg_sys_scheme \<Rightarrow> nat \<times> 'a ecg_sys_scheme" where
  "ecg_algorithm_result s =
     (case l_ecg_PopAlgorithmData s of
        (None, s) \<Rightarrow> (0, s)
      | (Some x, s) \<Rightarrow>
          let s = s\<lparr>ecg := ecg_algorithm_PushFilterResult ((ecg s)\<lparr>ecg_algorithm_out := x\<rparr>)\<rparr>;
              s = ecg_algo_refreshAlertType s;
              q = eo_QuickQRSTick x
          in (1, if q \<noteq> 0 \<and> ecg_QuickQRSTick (ecg s) \<noteq> q
                 then ECG_SetDefibrillate (s\<lparr>ecg := (ecg s)\<lparr>ecg_QuickQRSTick := q\<rparr>\<rparr>) else s))"

definition ecg_algorithm_handler :: "'a ecg_sys_scheme \<Rightarrow> 'a ecg_sys_scheme" where
  "ecg_algorithm_handler s =
     (if \<not> g_ecg_algo_sw (ecg s) then s
      else case ECG_PopAlgoResult (ecg s) of
             (None, e) \<Rightarrow> s\<lparr>ecg := e\<rparr>
           | (Some (t, v, pace), e) \<Rightarrow>
               let s = s\<lparr>ecg := e\<lparr>g_Is_ecg_algo_run := True\<rparr>\<rparr>;
                   s = alg_call ''l_ecg_PushAlgorithmData''
                         (le32 t @ le32 (v ! 0) @ le32 (v ! 1) @ le32 (v ! 2) @ [pace]) s;
                   s = snd (ecg_algorithm_result s)
               in s\<lparr>ecg := (ecg s)\<lparr>g_Is_ecg_algo_run := False\<rparr>\<rparr>)"

section \<open>The readers see bounded queues\<close>

definition ecg_cells :: "ecg_st \<Rightarrow> (u32 \<times> s32 list \<times> u8) list" where
  "ecg_cells e = zip (g_ecg_tick e) (zip (g_ecg_result e) (g_ecg_pace e))"

definition ecg_inv :: "ecg_st \<Rightarrow> bool" where
  "ecg_inv e \<longleftrightarrow> length (g_ecg_tick e) = 501 \<and> length (g_ecg_result e) = 501 \<and> length (g_ecg_pace e) = 501 \<and>
     g_ecg_receive_offset e < 501 \<and> g_ecg_raw_offset e < 501 \<and> g_ecg_algorithm_offset e < 501"

definition ecg_raw_get :: "ecg_st \<Rightarrow> ((u32 \<times> s32 list \<times> u8) \<times> ecg_st) option" where
  "ecg_raw_get e = (case ECG_PopResult e of (None, _) \<Rightarrow> None | (Some x, e') \<Rightarrow> Some (x, e'))"

definition ecg_algo_get :: "ecg_st \<Rightarrow> ((u32 \<times> s32 list \<times> u8) \<times> ecg_st) option" where
  "ecg_algo_get e = (case ECG_PopAlgoResult e of (None, _) \<Rightarrow> None | (Some x, e') \<Rightarrow> Some (x, e'))"

lemma ecg_ring:
  assumes "ecg_inv e"
  shows "ecg_cells (ecg_push x e) = (ecg_cells e)[g_ecg_receive_offset e := x]"
    "g_ecg_receive_offset (ecg_push x e) = ring_inc 501 (g_ecg_receive_offset e)"
    "g_ecg_raw_offset (ecg_push x e) = ring_drop 501 (g_ecg_raw_offset e) (ring_inc 501 (g_ecg_receive_offset e))"
    "g_ecg_algorithm_offset (ecg_push x e)
     = ring_drop 501 (g_ecg_algorithm_offset e) (ring_inc 501 (g_ecg_receive_offset e))"
    "ecg_inv (ecg_push x e)"
    "ring_ok 501 (ecg_cells e) (g_ecg_raw_offset e) (g_ecg_receive_offset e)"
    "ring_ok 501 (ecg_cells e) (g_ecg_algorithm_offset e) (g_ecg_receive_offset e)"
  using assms
  by (auto simp: ecg_push_def Let_def ecg_cells_def ecg_inv_def ring_inc_def ring_drop_def ring_ok_def update_zip)

definition ecg_fil_cells :: "ecg_st \<Rightarrow> (u32 \<times> (s32 \<times> s32 \<times> s32) \<times> u8) list" where
  "ecg_fil_cells e = zip (g_ecg_filTick e) (zip (g_ecg_filResult e) (g_ecg_filPace e))"

definition ecg_fil_inv :: "ecg_st \<Rightarrow> bool" where
  "ecg_fil_inv e \<longleftrightarrow> length (g_ecg_filTick e) = 501 \<and> length (g_ecg_filResult e) = 501 \<and> length (g_ecg_filPace e) = 501 \<and>
     g_ecg_fil_offset_in e < 501 \<and> g_ecg_fil_offset_out e < 501"

definition ecg_fil_get :: "ecg_st \<Rightarrow> ((u32 \<times> (s32 \<times> s32 \<times> s32) \<times> u8) \<times> ecg_st) option" where
  "ecg_fil_get e = (case ecg_algorithm_PopFilterResult e of (None, _) \<Rightarrow> None | (Some x, e') \<Rightarrow> Some (x, e'))"

lemma ecg_fil_ring:
  assumes "ecg_fil_inv e"
  shows "ecg_fil_cells (ecg_fil_push x e) = (ecg_fil_cells e)[g_ecg_fil_offset_in e := x]"
    "g_ecg_fil_offset_in (ecg_fil_push x e) = ring_inc 501 (g_ecg_fil_offset_in e)"
    "g_ecg_fil_offset_out (ecg_fil_push x e) = ring_drop 501 (g_ecg_fil_offset_out e) (ring_inc 501 (g_ecg_fil_offset_in e))"
    "ecg_fil_inv (ecg_fil_push x e)"
    "ring_ok 501 (ecg_fil_cells e) (g_ecg_fil_offset_out e) (g_ecg_fil_offset_in e)"
  using assms
  by (auto simp: ecg_fil_push_def Let_def ecg_fil_cells_def ecg_fil_inv_def ring_inc_def ring_drop_def ring_ok_def update_zip)

interpretation ecg_raw: ring_reader 501 ecg_inv ecg_cells g_ecg_raw_offset g_ecg_receive_offset
  ecg_push ecg_raw_get
proof unfold_locales
  fix e :: ecg_st
  assume i: "ecg_inv e"
  have z: "ECG_GetDataLen e = 0 \<longleftrightarrow> g_ecg_raw_offset e = g_ecg_receive_offset e"
    using i by (auto simp: ECG_GetDataLen_def ecg_inv_def Let_def)
  show "g_ecg_raw_offset e = g_ecg_receive_offset e \<Longrightarrow> ecg_raw_get e = None"
    using z by (simp add: ecg_raw_get_def ECG_PopResult_def Let_def)
  show "g_ecg_raw_offset e \<noteq> g_ecg_receive_offset e \<Longrightarrow> \<exists>e'. ecg_raw_get e = Some (ecg_cells e ! g_ecg_raw_offset e, e')
     \<and> ecg_inv e' \<and> ecg_cells e' = ecg_cells e \<and> g_ecg_receive_offset e' = g_ecg_receive_offset e
     \<and> g_ecg_raw_offset e' = ring_inc 501 (g_ecg_raw_offset e)"
    using z i by (simp add: ecg_raw_get_def ECG_PopResult_def Let_def ecg_cells_def ecg_inv_def ring_inc_def)
qed (simp_all add: ecg_ring)

interpretation ecg_algo: ring_reader 501 ecg_inv ecg_cells g_ecg_algorithm_offset g_ecg_receive_offset
  ecg_push ecg_algo_get
proof unfold_locales
  fix e :: ecg_st
  assume i: "ecg_inv e"
  have z: "ECG_GetAlgoDataLen e = 0 \<longleftrightarrow> g_ecg_algorithm_offset e = g_ecg_receive_offset e"
    using i by (auto simp: ECG_GetAlgoDataLen_def ecg_inv_def Let_def)
  show "g_ecg_algorithm_offset e = g_ecg_receive_offset e \<Longrightarrow> ecg_algo_get e = None"
    using z by (simp add: ecg_algo_get_def ECG_PopAlgoResult_def Let_def)
  show "g_ecg_algorithm_offset e \<noteq> g_ecg_receive_offset e \<Longrightarrow> \<exists>e'. ecg_algo_get e = Some (ecg_cells e ! g_ecg_algorithm_offset e, e')
     \<and> ecg_inv e' \<and> ecg_cells e' = ecg_cells e \<and> g_ecg_receive_offset e' = g_ecg_receive_offset e
     \<and> g_ecg_algorithm_offset e' = ring_inc 501 (g_ecg_algorithm_offset e)"
    using z i by (simp add: ecg_algo_get_def ECG_PopAlgoResult_def Let_def ecg_cells_def ecg_inv_def ring_inc_def)
qed (simp_all add: ecg_ring)

interpretation ecg_fil: ring_reader 501 ecg_fil_inv ecg_fil_cells g_ecg_fil_offset_out g_ecg_fil_offset_in
  ecg_fil_push ecg_fil_get
proof unfold_locales
  fix e :: ecg_st
  assume i: "ecg_fil_inv e"
  have z: "ecg_algorithm_GetDataLen e = 0 \<longleftrightarrow> g_ecg_fil_offset_out e = g_ecg_fil_offset_in e"
    using i by (auto simp: ecg_algorithm_GetDataLen_def ecg_fil_inv_def Let_def)
  show "g_ecg_fil_offset_out e = g_ecg_fil_offset_in e \<Longrightarrow> ecg_fil_get e = None"
    using z by (simp add: ecg_fil_get_def ecg_algorithm_PopFilterResult_def Let_def)
  show "g_ecg_fil_offset_out e \<noteq> g_ecg_fil_offset_in e \<Longrightarrow> \<exists>e'. ecg_fil_get e = Some (ecg_fil_cells e ! g_ecg_fil_offset_out e, e')
     \<and> ecg_fil_inv e' \<and> ecg_fil_cells e' = ecg_fil_cells e \<and> g_ecg_fil_offset_in e' = g_ecg_fil_offset_in e
     \<and> g_ecg_fil_offset_out e' = ring_inc 501 (g_ecg_fil_offset_out e)"
    using z i by (simp add: ecg_fil_get_def ecg_algorithm_PopFilterResult_def Let_def ecg_fil_cells_def ecg_fil_inv_def ring_inc_def)
qed (simp_all add: ecg_fil_ring)

interpretation ecg_taps: two_readers 501 ecg_inv ecg_cells g_ecg_raw_offset g_ecg_algorithm_offset
  g_ecg_receive_offset ecg_push ecg_raw_get ecg_algo_get
  by unfold_locales
     (auto simp: ecg_raw_get_def ECG_PopResult_def ecg_algo_get_def ECG_PopAlgoResult_def Let_def split: if_splits)

text \<open>C32: the upload and the algorithm read the ECG samples independently of each other.  Whatever
  the order in which samples are stored and read, each reader gets exactly what a queue
  of its own would give it that holds 500 samples and drops the oldest one when full; a read of one
  never disturbs the other.\<close>

theorem ecg_readers_independent:
  assumes "ecg_inv e" "taps_run ecg_push ecg_raw_get ecg_algo_get ops e = (up, al, e')"
  shows "ecg_inv e'
     \<and> bq_run 500 (ops_A ops) (ring_items (ecg_cells e) (g_ecg_raw_offset e) (g_ecg_receive_offset e))
         = (up, ring_items (ecg_cells e') (g_ecg_raw_offset e') (g_ecg_receive_offset e'))
     \<and> bq_run 500 (ops_B ops) (ring_items (ecg_cells e) (g_ecg_algorithm_offset e) (g_ecg_receive_offset e))
         = (al, ring_items (ecg_cells e') (g_ecg_algorithm_offset e') (g_ecg_receive_offset e'))"
  using ecg_taps.both_queues [OF assms] by simp


lemma ecg_readers_independent_witness:
  "\<exists>(e :: ecg_st) up. bq_run 500 (ops_A [Sample (1, [2, 3, 4], 0), ReadB, Sample (5, [6, 7, 8], 1), ReadA]) []
       = (up, ring_items (ecg_cells e) (g_ecg_raw_offset e) (g_ecg_receive_offset e))"
proof -
  let ?e = "(undefined :: ecg_st)\<lparr>g_ecg_tick := replicate 501 0, g_ecg_result := replicate 501 [0, 0, 0],
    g_ecg_pace := replicate 501 0, g_ecg_receive_offset := 0, g_ecg_raw_offset := 0, g_ecg_algorithm_offset := 0\<rparr>"
  let ?ops = "[Sample (1, [2, 3, 4], 0), ReadB, Sample (5, [6, 7, 8], 1), ReadA]"
  obtain up al e' where r: "taps_run ecg_push ecg_raw_get ecg_algo_get ?ops ?e = (up, al, e')"
    by (metis prod_cases3)
  have i: "ecg_inv ?e" by (simp add: ecg_inv_def)
  have "ring_items (ecg_cells ?e) (g_ecg_raw_offset ?e) (g_ecg_receive_offset ?e) = []" by simp
  with ecg_readers_independent [OF i r] show ?thesis by metis
qed

end
