(* ===== verification/Nibp.thy ===== *)
theory Nibp
  imports Ecg
begin

text \<open>
  \<open>AllInOneDSP/src/source/module_nibp.c\<close> and \<open>algorithm_nibp.c\<close>: the blood pressure module (pump,
  valves, pressure conversion, the measurement's rising and falling control, protection, uploads and
  calibration) and \<open>module_ibp.c\<close>.  The analysis of the samples
  (\<open>AlgorithmLib/NIBPAlgorithm\<close>) is modelled on its own in \<open>NibpAlg\<close>: here the results it stores are
  inputs (\<open>nibp_alg_results\<close>) and its calls are logged.  Floating point is a
  parameter \<open>fp\<close>: the rounding of a result and the two conversions to integers.
\<close>

section \<open>Floating point of the machine\<close>

record fpu =
  fl :: "real \<Rightarrow> real"
  cv32 :: "real \<Rightarrow> u32"
  cv16 :: "real \<Rightarrow> u16"

text \<open>A conversion truncates when the value is in range; outside, C leaves it undefined and so does
  this hypothesis.\<close>

definition fpu_conv :: "fpu \<Rightarrow> bool" where
  "fpu_conv fp \<longleftrightarrow> (\<forall>r. 0 \<le> r \<and> r < 2 ^ 32 \<longrightarrow> unat (cv32 fp r) = nat \<lfloor>r\<rfloor>)
     \<and> (\<forall>r. 0 \<le> r \<and> r < 2 ^ 16 \<longrightarrow> unat (cv16 fp r) = nat \<lfloor>r\<rfloor>)"

definition exact_fpu :: fpu where
  "exact_fpu = \<lparr>fl = (\<lambda>r. r), cv32 = (\<lambda>r. of_int \<lfloor>r\<rfloor>), cv16 = (\<lambda>r. of_int \<lfloor>r\<rfloor>)\<rparr>"

lemma unat_of_int_floor:
  "0 \<le> r \<Longrightarrow> r < 2 ^ LENGTH('a) \<Longrightarrow> unat (of_int \<lfloor>r\<rfloor> :: 'a::len word) = nat \<lfloor>r\<rfloor>"
  by (simp add: unat_eq_nat_uint uint_word_of_int_eq take_bit_int_eq_self floor_less_iff)

lemma exact_fpu_conv: "fpu_conv exact_fpu"
  by (simp add: fpu_conv_def exact_fpu_def unat_of_int_floor)

section \<open>State\<close>

datatype NIBP_Release_TypeDef = FAST_RELE | SLOW_RELE | PRESS_HOLD
datatype NIBPWorkMode_TypeDef = AUTO_TEST | MANUAL_TEST | DEBUG_TEST | VENIPUNCTURE_TEST | CONTINUED_TEST
datatype NIBP_ALGO_STATE_TypeDef = NIBP_ALGO_IDLE | NIBP_ALGO_RISING | NIBP_ALGO_FALLING

datatype NIBP_ALARM_TypeDef =
    CUFF_GAS_LEAKAGE | CUFF_OFF | PUMP_LEAKAGE | CUFF_TYPE_ERROR | AIR_PRESSURE_ERROR
  | SIGNAL_TOO_WEAK | SIGNAL_SATURATION | OVER_MEASURE_PRESSURE | ARM_EXERCISE
  | OVER_PROTECT_PRESSURE | MODULE_FAILED | MEASURE_TIMEOUT | MEASURE_FAILED | RESET_ERROR

fun alarm_code :: "NIBP_ALARM_TypeDef \<Rightarrow> u8" where
  "alarm_code CUFF_GAS_LEAKAGE = 0" | "alarm_code CUFF_OFF = 1" | "alarm_code PUMP_LEAKAGE = 2"
| "alarm_code CUFF_TYPE_ERROR = 3" | "alarm_code AIR_PRESSURE_ERROR = 4" | "alarm_code SIGNAL_TOO_WEAK = 5"
| "alarm_code SIGNAL_SATURATION = 6" | "alarm_code OVER_MEASURE_PRESSURE = 7" | "alarm_code ARM_EXERCISE = 8"
| "alarm_code OVER_PROTECT_PRESSURE = 9" | "alarm_code MODULE_FAILED = 10" | "alarm_code MEASURE_TIMEOUT = 11"
| "alarm_code MEASURE_FAILED = 12" | "alarm_code RESET_ERROR = 13"

definition AMPLIFY_FACTOR :: real where "AMPLIFY_FACTOR = 10000"
definition NIBP_Sampling_Buffer_Len :: nat where "NIBP_Sampling_Buffer_Len = 1000 div 10 + 1"
definition NIBP_RISING_STEP_MAX :: nat where "NIBP_RISING_STEP_MAX = 50"
definition NIBP_VERIFY_NUM :: nat where "NIBP_VERIFY_NUM = 6"
definition SLOW_RELE_ADC_TAG :: u32 where "SLOW_RELE_ADC_TAG = 0x00FFFFFF"

lemma NIBP_len [simp]: "NIBP_Sampling_Buffer_Len = 101"
  by (simp add: NIBP_Sampling_Buffer_Len_def)

abbreviation PF3 :: u32 where "PF3 \<equiv> 0x8"
abbreviation PF4 :: u32 where "PF4 \<equiv> 0x10"
abbreviation PG8 :: u32 where "PG8 \<equiv> 0x100"
abbreviation NIBP_FAST_PIN :: u32 where "NIBP_FAST_PIN \<equiv> PF3"
abbreviation NIBP_SLOW_PIN :: u32 where "NIBP_SLOW_PIN \<equiv> PF4"
abbreviation TIMER6_MASK :: u32 where "TIMER6_MASK \<equiv> 0x0040"

record nibp_device =
  mmHg_val :: u32
  adc_val :: u32
  nd_tick :: u32
  verifyStauts :: EnableOrDisable
  waitForADCStatus :: EnableOrDisable

record CNIBPResult =
  BPM :: s32
  DP :: s32
  SP :: s32
  MAP :: s32
  risingResult :: s32
  pulse_ms :: s32
  reliability :: real
  isAllDone :: bool
  isRisingDone :: bool

record nibp_ring =
  g_nibp_result_mmHg :: "u32 list"
  g_nibp_result_adc :: "u32 list"
  g_nibp_tick :: "u32 list"
  g_nibp_receive_offset :: nat
  g_nibp_algorithm_offset :: nat
  g_nibp_raw_offset :: nat
  g_nibp_display_mmHg :: "u16 list"
  g_mmHg_recv_offset :: nat
  g_mmHg_send_offset :: nat

text \<open>The globals of a measurement.  \<open>slowReleCount\<close> is the static of
  \<open>NIBP_AutoPressReleHanlder\<close>.\<close>

record nibp_run =
  g_NIBP_Status :: EnableOrDisable
  g_NIBP_PWM_Status :: EnableOrDisable
  g_SlowReleTimeStauts :: EnableOrDisable
  g_nibp_algo_state :: NIBP_ALGO_STATE_TypeDef
  g_curWorkMode :: NIBPWorkMode_TypeDef
  g_backup_mode :: NIBPWorkMode_TypeDef
  g_dynamicPrepress :: u16
  g_slowRele_mmHg :: u16
  g_Rising_mmHgCur :: u16
  g_isRisingTwice :: bool
  g_isRisingStateRele :: bool
  g_bIsCalculateDrop :: bool
  g_bIsPumpStop :: bool
  g_risingStep :: "u16 list"
  g_u8RisingStepCount :: u8
  isFisrtRisingStep :: bool
  u8SlowReleRunCount :: u8
  g_overload_count :: u8
  u8_pressue_over_range_cnt :: u8
  slowReleCount :: u32
  g_nibp_one_time_tick :: u32
  g_oversleeve_tick :: u32
  g_gas_leak_tick :: u32
  is_gas_leak_test :: bool
  g_lastNIBPResult :: "s32 \<times> s32 \<times> s32"

text \<open>The settings, and the schedule of the automatic modes.  The last three fields are the statics
  of \<open>NIBP_STM32_protectHandle\<close>.\<close>

record nibp_cfg =
  g_staicPrepress :: u16
  g_overload_mmHg :: u16
  g_measure_max_ms :: u32
  g_Tim6Count :: u32
  g_ForceReleTimeIndex :: u32
  g_SlowReleHoldTimeIndex :: u32
  g_AutoTestCycle :: u32
  g_curCycler :: u8
  g_u32nibpAutoNextTime :: u32
  g_continue_test_tick :: u32
  g_continue_next_tick :: u32
  g_u8Venipuncture :: u8
  g_u8UploadMaskMaxCount :: u8
  g_u8SlowReleStepmmHg :: u8
  g_u8SlowReleHoldTimeMS :: u16
  g_u8SlowReleMin_mmHg :: u8
  g_NIBP_K :: "real list"
  g_NIBP_B :: "real list"
  g_nibp_algo_sw :: bool
  protect_ulNextChangeTime :: u32
  protect_newborn_adc :: u16
  protect_adult_adc :: u16

text \<open>Inputs: what the algorithm stores at each call (\<open>None\<close>: nothing), and for each wait of
  \<open>NIBP_ADC_Average\<close> the number of polls and the reading the sampling interrupt delivers.\<close>

record nibp_sys = ecg_sys +
  nd :: nibp_device
  nres :: CNIBPResult
  nring :: nibp_ring
  nr :: nibp_run
  nc :: nibp_cfg
  IsIBPSample :: bool
  IsIBPzero :: bool
  nibp_alg_results :: "CNIBPResult option list"
  nibp_adc_waits :: "(nat \<times> u32) list"

lemma hw_nibp [simp]:
  "nd (emit e s) = nd s" "nd (wr r v s) = nd s" "nd (raise_fault s) = nd s" "nd (alg_call f xs s) = nd s"
  "nd (UploadDataByID pid t dat len s) = nd s" "nd (upload pid dat s) = nd s" "nd (AIO_printf msg s) = nd s"
  "nres (emit e s) = nres s" "nres (wr r v s) = nres s" "nres (raise_fault s) = nres s" "nres (alg_call f xs s) = nres s"
  "nres (UploadDataByID pid t dat len s) = nres s" "nres (upload pid dat s) = nres s" "nres (AIO_printf msg s) = nres s"
  "nring (emit e s) = nring s" "nring (wr r v s) = nring s" "nring (raise_fault s) = nring s" "nring (alg_call f xs s) = nring s"
  "nring (UploadDataByID pid t dat len s) = nring s" "nring (upload pid dat s) = nring s" "nring (AIO_printf msg s) = nring s"
  "nr (emit e s) = nr s" "nr (wr r v s) = nr s" "nr (raise_fault s) = nr s" "nr (alg_call f xs s) = nr s"
  "nr (UploadDataByID pid t dat len s) = nr s" "nr (upload pid dat s) = nr s" "nr (AIO_printf msg s) = nr s"
  "nc (emit e s) = nc s" "nc (wr r v s) = nc s" "nc (raise_fault s) = nc s" "nc (alg_call f xs s) = nc s"
  "nc (UploadDataByID pid t dat len s) = nc s" "nc (upload pid dat s) = nc s" "nc (AIO_printf msg s) = nc s"
  by (simp_all add: hw_prims AIO_printf_def UploadDataByID_def upload_def Let_def)

section \<open>Valves and pump\<close>

definition NIBP_FAST_IO_Init :: "'a hw_sys_scheme \<Rightarrow> 'a hw_sys_scheme" where
  "NIBP_FAST_IO_Init s =
     run [andw ''PORTFIO_INEN'' (NOT NIBP_FAST_PIN), orw ''PORTFIO_DIR'' NIBP_FAST_PIN,
          andw ''PORTFIO_EDGE'' (NOT NIBP_FAST_PIN), wr ''PORTFIO_MASKA_CLEAR'' NIBP_FAST_PIN,
          wr ''PORTFIO_SET'' NIBP_FAST_PIN] s"

definition NIBP_SLOW_IO_Init :: "'a hw_sys_scheme \<Rightarrow> 'a hw_sys_scheme" where
  "NIBP_SLOW_IO_Init s =
     run [andw ''PORTFIO_INEN'' (NOT NIBP_SLOW_PIN), orw ''PORTFIO_DIR'' NIBP_SLOW_PIN,
          andw ''PORTFIO_EDGE'' (NOT NIBP_SLOW_PIN), wr ''PORTFIO_MASKA_CLEAR'' NIBP_SLOW_PIN,
          wr ''PORTFIO_SET'' NIBP_SLOW_PIN] s"

definition NIBP_SetPressRelease :: "NIBP_Release_TypeDef \<Rightarrow> 'a hw_sys_scheme \<Rightarrow> 'a hw_sys_scheme" where
  "NIBP_SetPressRelease mode s =
     (case mode of
        FAST_RELE \<Rightarrow> run [wr ''PORTFIO_CLEAR'' NIBP_SLOW_PIN, wr ''PORTFIO_CLEAR'' NIBP_FAST_PIN] s
      | SLOW_RELE \<Rightarrow> run [wr ''PORTFIO_CLEAR'' NIBP_SLOW_PIN, wr ''PORTFIO_SET'' NIBP_FAST_PIN] s
      | PRESS_HOLD \<Rightarrow> run [wr ''PORTFIO_SET'' NIBP_SLOW_PIN, wr ''PORTFIO_SET'' NIBP_FAST_PIN] s)"

definition InitTimer6_gpio :: "'a hw_sys_scheme \<Rightarrow> 'a hw_sys_scheme" where
  "InitTimer6_gpio s =
     run [orw ''PORTG_FER'' PG8, andw ''PORTG_MUX'' (NOT (push_bit 8 3)), orw ''PORTG_MUX'' (push_bit 8 2)] s"

definition InitTimer6_config :: "'a nibp_sys_scheme \<Rightarrow> 'a nibp_sys_scheme" where
  "InitTimer6_config s =
     (let sclk = getSystemCLK s;
          s = wr ''TIMER6_CONFIG'' 0x000D s;
          s = s\<lparr>nc := (nc s)\<lparr>g_Tim6Count := (sclk + 1000 div 2) div 1000\<rparr>\<rparr>
      in run [wr ''TIMER6_PERIOD'' (g_Tim6Count (nc s)), wr ''TIMER6_WIDTH'' (g_Tim6Count (nc s) div 2)] s)"

definition InitTimer6 :: "'a nibp_sys_scheme \<Rightarrow> 'a nibp_sys_scheme" where
  "InitTimer6 s = run [InitTimer6_gpio, InitTimer6_config] s"

definition NIBP_SetPWM :: "EnableOrDisable \<Rightarrow> 'a nibp_sys_scheme \<Rightarrow> 'a nibp_sys_scheme" where
  "NIBP_SetPWM status s =
     (let s = (if status = ENABLE
               then wr ''TIMER_ENABLE'' TIMER6_MASK
                      (s\<lparr>nr := (nr s)\<lparr>g_oversleeve_tick := SysTick_Get (tick s) + getTickNumberByMS 10000 (tick s)\<rparr>\<rparr>)
               else wr ''TIMER_DISABLE'' TIMER6_MASK (s\<lparr>nr := (nr s)\<lparr>g_oversleeve_tick := 0\<rparr>\<rparr>))
      in s\<lparr>nr := (nr s)\<lparr>g_NIBP_PWM_Status := status\<rparr>\<rparr>)"

definition NIBP_SetPWM_DutyCycles :: "u16 \<Rightarrow> 'a nibp_sys_scheme \<Rightarrow> 'a nibp_sys_scheme" where
  "NIBP_SetPWM_DutyCycles percent s =
     (let percent = (if percent > 1000 then 1000 else percent)
      in wr ''TIMER6_WIDTH'' ((g_Tim6Count (nc s) * ucast percent) div 1000) s)"

section \<open>Limits\<close>

definition clamp_prepressure :: "PATIENT_TypeDef \<Rightarrow> u16 \<Rightarrow> u16" where
  "clamp_prepressure p v =
     (let (up, down) = (case p of ADULT \<Rightarrow> (280, 80) | CHILD \<Rightarrow> (210, 80) | NEWBORN \<Rightarrow> (140, 60));
          v = (if v > up then up else v)
      in if v < down then down else v)"

definition NIBP_SetPrepressure :: "u16 \<Rightarrow> 'a nibp_sys_scheme \<Rightarrow> 'a nibp_sys_scheme" where
  "NIBP_SetPrepressure u16mmHg s =
     s\<lparr>nc := (nc s)\<lparr>g_staicPrepress := clamp_prepressure (g_PatientType (glob s)) u16mmHg\<rparr>\<rparr>"

definition NIBP_SetDefaultMaxPressure :: "'a nibp_sys_scheme \<Rightarrow> 'a nibp_sys_scheme" where
  "NIBP_SetDefaultMaxPressure s =
     NIBP_SetPrepressure (case g_PatientType (glob s) of ADULT \<Rightarrow> 160 | CHILD \<Rightarrow> 140 | NEWBORN \<Rightarrow> 90) s"

definition NIBP_SetProtectTime :: "'a nibp_sys_scheme \<Rightarrow> 'a nibp_sys_scheme" where
  "NIBP_SetProtectTime s =
     s\<lparr>nc := (nc s)\<lparr>g_measure_max_ms := (if g_PatientType (glob s) = NEWBORN then 90000 else 180000)\<rparr>\<rparr>"

section \<open>Pressure and ADC value\<close>

definition nibp_Verify_mmHg :: "nat \<Rightarrow> bytes \<Rightarrow> u16" where
  "nibp_Verify_mmHg i m = get16 (off_Verify_mmHg + 2 * i) m"

definition nibp_Verify_Val :: "nat \<Rightarrow> bytes \<Rightarrow> u32" where
  "nibp_Verify_Val i m = get32 (off_Verify_Val + 4 * i) m"

definition nibp_IsVerify :: "bytes \<Rightarrow> u32" where
  "nibp_IsVerify m = get32 off_IsVerify m"

text \<open>One segment: slope and intercept through \<open>(x1, y1)\<close> and \<open>(x2, y2)\<close>.  The difference of the
  ADC values is an unsigned subtraction.  A zero difference makes the C division by zero an infinity;
  HOL's quotient is 0.\<close>

definition segment_K :: "fpu \<Rightarrow> u32 \<Rightarrow> u32 \<Rightarrow> u16 \<Rightarrow> u16 \<Rightarrow> real" where
  "segment_K fp x1 x2 y1 y2 =
     fl fp (fl fp (real_of_int (int (unat y2) - int (unat y1)) * AMPLIFY_FACTOR) / fl fp (real (unat (x2 - x1))))"

definition segment_B :: "fpu \<Rightarrow> real \<Rightarrow> u32 \<Rightarrow> u16 \<Rightarrow> real" where
  "segment_B fp K x2 y2 = fl fp (fl fp (real (unat y2) * AMPLIFY_FACTOR) - fl fp (K * fl fp (real (unat x2))))"

definition NIBP_StepFormula :: "fpu \<Rightarrow> bytes \<Rightarrow> (real \<times> real) list" where
  "NIBP_StepFormula fp m =
     (if nibp_IsVerify m = 1
      then List.map (\<lambda>i. let x1 = nibp_Verify_Val i m; x2 = nibp_Verify_Val (i + 1) m;
                        y1 = nibp_Verify_mmHg i m; y2 = nibp_Verify_mmHg (i + 1) m;
                        K = segment_K fp x1 x2 y1 y2
                    in (K, segment_B fp K x2 y2)) [0..<NIBP_VERIFY_NUM - 1]
      else List.map (\<lambda>i. let K = segment_K fp 1428142 2139413 101 180
                    in (K, segment_B fp K 2139413 180)) [0..<NIBP_VERIFY_NUM - 1])"

definition NIBP_StepFormula_Init :: "fpu \<Rightarrow> 'a nibp_sys_scheme \<Rightarrow> 'a nibp_sys_scheme" where
  "NIBP_StepFormula_Init fp s =
     (let kb = NIBP_StepFormula fp (g_eeprom_struct (eep s))
      in s\<lparr>nc := (nc s)\<lparr>g_NIBP_K := List.map fst kb, g_NIBP_B := List.map snd kb\<rparr>\<rparr>)"

definition adc_segment :: "bytes \<Rightarrow> u32 \<Rightarrow> nat" where
  "adc_segment m x =
     (if x < nibp_Verify_Val 1 m then 0
      else if x < nibp_Verify_Val 2 m \<and> x \<ge> nibp_Verify_Val 1 m then 1
      else if x < nibp_Verify_Val 3 m \<and> x \<ge> nibp_Verify_Val 2 m then 2
      else if x < nibp_Verify_Val 4 m \<and> x \<ge> nibp_Verify_Val 3 m then 3
      else 4)"

definition NIBP_ADC2mmHg :: "fpu \<Rightarrow> nibp_cfg \<Rightarrow> bytes \<Rightarrow> u32 \<Rightarrow> u32" where
  "NIBP_ADC2mmHg fp c m x =
     (let i = adc_segment m x
      in cv32 fp (fl fp (fl fp (g_NIBP_K c ! i * fl fp (real (unat x))) + g_NIBP_B c ! i)))"

definition mmHg_segment :: "bytes \<Rightarrow> u16 \<Rightarrow> nat" where
  "mmHg_segment m v =
     (if nibp_IsVerify m = 1
      then (if v < nibp_Verify_mmHg 1 m then 0
            else if v < nibp_Verify_mmHg 2 m \<and> v \<ge> nibp_Verify_mmHg 1 m then 1
            else if v < nibp_Verify_mmHg 3 m \<and> v \<ge> nibp_Verify_mmHg 2 m then 2
            else if v < nibp_Verify_mmHg 4 m \<and> v \<ge> nibp_Verify_mmHg 3 m then 3
            else 4)
      else 0)"

definition NIBP_mmHg2ADC :: "fpu \<Rightarrow> nibp_cfg \<Rightarrow> bytes \<Rightarrow> u16 \<Rightarrow> u32" where
  "NIBP_mmHg2ADC fp c m v =
     (let i = mmHg_segment m v
      in cv32 fp (fl fp (fl fp (fl fp (real (unat v) * AMPLIFY_FACTOR) - g_NIBP_B c ! i) / g_NIBP_K c ! i)))"

definition IsNIBPOverLoad :: "fpu \<Rightarrow> u16 \<Rightarrow> 'a nibp_sys_scheme \<Rightarrow> bool" where
  "IsNIBPOverLoad fp mmHg s \<longleftrightarrow> adc_val (nd s) > NIBP_mmHg2ADC fp (nc s) (g_eeprom_struct (eep s)) mmHg"

text \<open>The last \<open>else\<close> of the two segment functions stands for the source's final \<open>else if\<close>, whose
  condition then holds: some branch is always taken.\<close>

lemma segments_complete:
  "adc_segment m x = 4 \<Longrightarrow> x \<ge> nibp_Verify_Val 4 m"
  "nibp_IsVerify m = 1 \<Longrightarrow> mmHg_segment m v = 4 \<Longrightarrow> v \<ge> nibp_Verify_mmHg 4 m"
  by (auto simp: adc_segment_def mmHg_segment_def not_less split: if_splits)

section \<open>Alarms, responses and stopping\<close>

abbreviation AIO_TX_NIBP_RESLULT_ID :: u8 where "AIO_TX_NIBP_RESLULT_ID \<equiv> 0xC0"
abbreviation AIO_TX_NIBP_REALTIME_ID :: u8 where "AIO_TX_NIBP_REALTIME_ID \<equiv> 0xC1"
abbreviation AIO_TX_NIBP_VERIFY_STATE_ID :: u8 where "AIO_TX_NIBP_VERIFY_STATE_ID \<equiv> 0xC2"
abbreviation AIO_TX_NIBP_ACT_RESPOND_ID :: u8 where "AIO_TX_NIBP_ACT_RESPOND_ID \<equiv> 0xC3"
abbreviation AIO_TX_NIBP_ALARM_ID :: u8 where "AIO_TX_NIBP_ALARM_ID \<equiv> 0xC4"
abbreviation AIO_TX_NIBP_MMHG_ID :: u8 where "AIO_TX_NIBP_MMHG_ID \<equiv> 0xC5"
abbreviation AIO_RX_NIBP_VERIFY_ID :: u8 where "AIO_RX_NIBP_VERIFY_ID \<equiv> 0x43"
abbreviation AIO_RX_NIBP_STM32_PRESS_ID :: u8 where "AIO_RX_NIBP_STM32_PRESS_ID \<equiv> 0x45"
abbreviation AIO_RX_NIBP_Debug_ID :: u8 where "AIO_RX_NIBP_Debug_ID \<equiv> 0x4F"

definition NIBP_AlarmUpload :: "NIBP_ALARM_TypeDef \<Rightarrow> 'a nibp_sys_scheme \<Rightarrow> 'a nibp_sys_scheme" where
  "NIBP_AlarmUpload ty s =
     (if g_IsNIBP_Upload (glob s) then upload AIO_TX_NIBP_ALARM_ID [alarm_code ty] s else s)"

definition NIBP_StartStopRespond :: "u8 \<Rightarrow> 'a nibp_sys_scheme \<Rightarrow> 'a nibp_sys_scheme" where
  "NIBP_StartStopRespond state s = upload AIO_TX_NIBP_ACT_RESPOND_ID [if state \<noteq> 0 then 1 else 0] s"

definition NIBP_ForceStop :: "'a nibp_sys_scheme \<Rightarrow> 'a nibp_sys_scheme" where
  "NIBP_ForceStop s =
     run [\<lambda>s. s\<lparr>nr := (nr s)\<lparr>g_curWorkMode := MANUAL_TEST, g_NIBP_Status := DISABLE, g_bIsPumpStop := False,
                             g_nibp_algo_state := NIBP_ALGO_IDLE\<rparr>\<rparr>,
          NIBP_SetPWM DISABLE, NIBP_SetPressRelease FAST_RELE, NIBP_StartStopRespond 0] s"

section \<open>algorithm_nibp.c\<close>

definition nibp_algorithm_init :: "'a nibp_sys_scheme \<Rightarrow> 'a nibp_sys_scheme" where
  "nibp_algorithm_init s = s\<lparr>nc := (nc s)\<lparr>g_nibp_algo_sw := True\<rparr>\<rparr>"

text \<open>\<open>memset(p_nibpResult, 0, sizeof(p_nibpResult))\<close> clears the size of the pointer: only \<open>BPM\<close>.\<close>

definition nibp_algorithm_start :: "'a nibp_sys_scheme \<Rightarrow> 'a nibp_sys_scheme" where
  "nibp_algorithm_start s =
     alg_call ''l_nibp_AlgorithmInit'' []
       (s\<lparr>nr := (nr s)\<lparr>g_nibp_algo_state := NIBP_ALGO_RISING\<rparr>,
          nres := (nres s)\<lparr>BPM := 0, isAllDone := False, isRisingDone := False\<rparr>\<rparr>)"

definition l_nibp_PopAlgorithmData :: "'a nibp_sys_scheme \<Rightarrow> 'a nibp_sys_scheme" where
  "l_nibp_PopAlgorithmData s =
     (case nibp_alg_results s of
        [] \<Rightarrow> s
      | r # rs \<Rightarrow> s\<lparr>nibp_alg_results := rs, nres := (case r of None \<Rightarrow> nres s | Some r \<Rightarrow> r)\<rparr>)"

text \<open>The static \<open>printstate\<close> only selects debug output that is compiled out.\<close>

definition nibp_algorithm_result :: "'a nibp_sys_scheme \<Rightarrow> 'a nibp_sys_scheme" where
  "nibp_algorithm_result s = l_nibp_PopAlgorithmData s"

definition nibp_algorithm_setPatient :: "u8 \<Rightarrow> 'a nibp_sys_scheme \<Rightarrow> 'a nibp_sys_scheme" where
  "nibp_algorithm_setPatient newType s = alg_call ''l_nibp_SetAlgorithmPatient'' [newType] s"

definition nibp_algorithm_pushLastRet :: "'a nibp_sys_scheme \<Rightarrow> 'a nibp_sys_scheme" where
  "nibp_algorithm_pushLastRet s =
     (let (bpm, dp, sp) = g_lastNIBPResult (nr s)
      in alg_call ''l_nibp_pushLastRet'' (le32 dp @ le32 sp @ le32 bpm) s)"

section \<open>Starting a measurement\<close>

definition NIBP_DataReset :: "nibp_ring \<Rightarrow> nibp_ring" where
  "NIBP_DataReset r = r\<lparr>g_nibp_algorithm_offset := g_nibp_receive_offset r,
      g_nibp_raw_offset := g_nibp_receive_offset r, g_mmHg_send_offset := g_mmHg_recv_offset r\<rparr>"

definition NIBP_isStm32FastRele :: "'a nibp_sys_scheme \<Rightarrow> bool \<times> 'a nibp_sys_scheme" where
  "NIBP_isStm32FastRele s =
     (let (result, bs, s) = aio_stm32_readNIBPState s
      in (result > 0 \<and> put_bytes 0 bs [0] ! 0 = 1, s))"

primrec NIBPState_retry :: "nat \<Rightarrow> 'a nibp_sys_scheme \<Rightarrow> 'a nibp_sys_scheme" where
  "NIBPState_retry 0 s = s"
| "NIBPState_retry (Suc n) s =
     (let (result, s) = aio_stm32_writeNIBPState 0 s in if result < 0 then NIBPState_retry n s else s)"

definition NIBP_startPumpCtrl :: "'a nibp_sys_scheme \<Rightarrow> 'a nibp_sys_scheme" where
  "NIBP_startPumpCtrl s =
     (let s = NIBP_SetPWM_DutyCycles (if g_PatientType (glob s) = NEWBORN then 300 else 800) s;
          s = NIBP_SetPressRelease PRESS_HOLD s;
          (fast, s) = NIBP_isStm32FastRele s;
          s = (if fast then NIBPState_retry 5 s else s);
          s = NIBP_SetPWM ENABLE s;
          s = s\<lparr>nring := NIBP_DataReset (nring s)\<rparr>
      in nibp_algorithm_start s)"

text \<open>A timer index past the table is a write outside \<open>sCountDownTimer\<close>.\<close>

definition nibp_ResetTimeout :: "u32 \<Rightarrow> u32 \<Rightarrow> 'a nibp_sys_scheme \<Rightarrow> 'a nibp_sys_scheme" where
  "nibp_ResetTimeout idx ticks s =
     (case ResetTimeout idx ticks (tick s) of None \<Rightarrow> raise_fault s | Some (_, t) \<Rightarrow> s\<lparr>tick := t\<rparr>)"

definition first_target :: "fpu \<Rightarrow> nibp_run \<Rightarrow> nibp_cfg \<Rightarrow> nibp_run" where
  "first_target fp r c =
     (let r = (if g_risingStep r ! 0 = 0 then r\<lparr>g_dynamicPrepress := g_staicPrepress c\<rparr> else r);
          r = (if g_isRisingTwice r then r\<lparr>g_dynamicPrepress := g_risingStep r ! 0, g_isRisingTwice := False\<rparr> else r);
          sp = snd (snd (g_lastNIBPResult r));
          r = (if sp \<noteq> 0
               then (let lastSP = cv16 fp (fl fp (fl fp (real_of_int (sint sp) / AMPLIFY_FACTOR) + 30))
                     in if g_dynamicPrepress r > lastSP then r\<lparr>g_dynamicPrepress := lastSP\<rparr> else r)
               else r);
          r = r\<lparr>g_Rising_mmHgCur := g_dynamicPrepress r\<rparr>
      in if int (unat (g_Rising_mmHgCur r)) > int (unat (g_overload_mmHg c)) - 5
         then r\<lparr>g_Rising_mmHgCur := g_overload_mmHg c - 10\<rparr> else r)"

definition NIBP_SampleOneTimeByDebug :: "fpu \<Rightarrow> 'a nibp_sys_scheme \<Rightarrow> 'a nibp_sys_scheme" where
  "NIBP_SampleOneTimeByDebug fp s =
     (let s = s\<lparr>nr := (nr s)\<lparr>g_NIBP_Status := ENABLE, g_isRisingStateRele := False, g_u8RisingStepCount := 0,
                isFisrtRisingStep := True, g_nibp_one_time_tick := SysTick_Get (tick s), g_overload_count := 0,
                u8_pressue_over_range_cnt := 0\<rparr>\<rparr>;
          s = s\<lparr>nr := (first_target fp (nr s) (nc s))\<lparr>g_risingStep := replicate NIBP_RISING_STEP_MAX 0\<rparr>\<rparr>;
          s = nibp_ResetTimeout (g_ForceReleTimeIndex (nc s)) (getTickNumberByMS (g_measure_max_ms (nc s)) (tick s)) s
      in NIBP_startPumpCtrl s)"

definition NIBP_SampleAutoTest :: "fpu \<Rightarrow> 'a nibp_sys_scheme \<Rightarrow> 'a nibp_sys_scheme" where
  "NIBP_SampleAutoTest fp s =
     (if IsOnTime (g_u32nibpAutoNextTime (nc s)) (tick s)
      then let s = (if g_NIBP_Status (nr s) \<noteq> ENABLE then NIBP_SampleOneTimeByDebug fp s else s)
           in s\<lparr>nc := (nc s)\<lparr>g_u32nibpAutoNextTime := SysTick_Get (tick s) + g_AutoTestCycle (nc s)\<rparr>\<rparr>
      else s)"

definition NIBP_SampleOneTime :: "fpu \<Rightarrow> 'a nibp_sys_scheme \<Rightarrow> 'a nibp_sys_scheme" where
  "NIBP_SampleOneTime fp s =
     (let s = s\<lparr>nr := (nr s)\<lparr>g_curWorkMode := MANUAL_TEST\<rparr>\<rparr>;
          s = (if g_NIBP_Status (nr s) = ENABLE then NIBP_SetPWM ENABLE s else NIBP_SampleOneTimeByDebug fp s);
          s = s\<lparr>nr := (nr s)\<lparr>g_bIsPumpStop := False\<rparr>\<rparr>
      in NIBP_StartStopRespond 1 s)"

definition cycle_minutes :: "u8 \<Rightarrow> u32 option" where
  "cycle_minutes c =
     (if c = 0x01 then Some 1 else if c = 0x02 then Some 2 else if c = 0x03 then Some 3
      else if c = 0x04 then Some 4 else if c = 0x0A then Some 10 else if c = 0x0F then Some 15
      else if c = 0x1E then Some 30 else if c = 0x3C then Some 60 else if c = 0x5A then Some 90
      else if c = 0xB4 then Some 180 else if c = 0xF0 then Some 240 else if c = 0xFF then Some 480 else None)"

text \<open>The label after the cases is \<open>defalut:\<close>, an ordinary unused label, so an unlisted cycle byte
  changes neither the period nor the work mode.\<close>

definition NIBP_SetCycle :: "fpu \<Rightarrow> u8 \<Rightarrow> 'a nibp_sys_scheme \<Rightarrow> 'a nibp_sys_scheme" where
  "NIBP_SetCycle fp cycler s =
     (let s = (if cycler = 0 then s\<lparr>nr := (nr s)\<lparr>g_curWorkMode := MANUAL_TEST\<rparr>\<rparr>
               else case cycle_minutes cycler of
                      None \<Rightarrow> s
                    | Some n \<Rightarrow> s\<lparr>nc := (nc s)\<lparr>g_AutoTestCycle := getTickNumberByMS (n * 60 * 1000) (tick s)\<rparr>,
                                  nr := (nr s)\<lparr>g_curWorkMode := AUTO_TEST\<rparr>\<rparr>);
          s = s\<lparr>nc := (nc s)\<lparr>g_curCycler := cycler\<rparr>,
                nr := (nr s)\<lparr>g_NIBP_Status := DISABLE, g_SlowReleTimeStauts := DISABLE\<rparr>\<rparr>;
          s = NIBP_SetPressRelease FAST_RELE s
      in if cycler \<noteq> 0
         then NIBP_SampleAutoTest fp (s\<lparr>nc := (nc s)\<lparr>g_u32nibpAutoNextTime := SysTick_Get (tick s) - 1000\<rparr>\<rparr>)
         else s)"

definition nibp_debug_start_pwm :: "fpu \<Rightarrow> 'a nibp_sys_scheme \<Rightarrow> 'a nibp_sys_scheme" where
  "nibp_debug_start_pwm fp s =
     (let s = (if g_NIBP_Status (nr s) = ENABLE
               then NIBP_SetPWM ENABLE (NIBP_SetPWM_DutyCycles (if g_PatientType (glob s) = NEWBORN then 300 else 800) s)
               else NIBP_SampleOneTimeByDebug fp s)
      in s\<lparr>nr := (nr s)\<lparr>g_bIsPumpStop := False\<rparr>\<rparr>)"

definition nibp_debug_stop_pwm :: "'a nibp_sys_scheme \<Rightarrow> 'a nibp_sys_scheme" where
  "nibp_debug_stop_pwm s = NIBP_SetPWM DISABLE (s\<lparr>nr := (nr s)\<lparr>g_bIsPumpStop := True\<rparr>\<rparr>)"

section \<open>Holding, rising and falling\<close>

definition hold_time :: "fpu \<Rightarrow> s32 \<Rightarrow> u16" where
  "hold_time fp bpm_ms =
     (let t = cv16 fp (fl fp (fl fp (fl fp (real_of_int (sint bpm_ms)) * fl fp 2.4) + 360))
      in if t < 2000 then 2000 else if t > 4000 then 4000 else t)"

definition NIBP_refreshSlowReleHoldTime :: "fpu \<Rightarrow> bool \<Rightarrow> s32 \<Rightarrow> 'a nibp_sys_scheme \<Rightarrow> 'a nibp_sys_scheme" where
  "NIBP_refreshSlowReleHoldTime fp isRising bpm_ms s =
     (if bpm_ms = 0
      then let s = s\<lparr>nc := (nc s)\<lparr>g_u8SlowReleHoldTimeMS := 3000\<rparr>\<rparr>;
               s = (if \<not> isRising then s\<lparr>nr := (nr s)\<lparr>g_dynamicPrepress := g_slowRele_mmHg (nr s) + 10\<rparr>\<rparr> else s)
           in if IsOnTime (g_nibp_one_time_tick (nr s) + getTickNumberByMS 40000 (tick s)) (tick s)
              then let s = NIBP_ForceStop s;
                       s = s\<lparr>nr := (nr s)\<lparr>g_risingStep := replicate NIBP_RISING_STEP_MAX 0\<rparr>\<rparr>
                   in NIBP_AlarmUpload SIGNAL_TOO_WEAK s
              else s
      else s\<lparr>nc := (nc s)\<lparr>g_u8SlowReleHoldTimeMS := hold_time fp bpm_ms\<rparr>\<rparr>)"

definition near :: "u16 \<Rightarrow> u16 \<Rightarrow> bool" where
  "near a b \<longleftrightarrow> int (unat a) > int (unat b) - 5 \<and> int (unat a) < int (unat b) + 5"

definition next_fall_target :: "u16 list \<Rightarrow> u8 \<Rightarrow> u16 \<Rightarrow> u16" where
  "next_fall_target steps step v = fold (\<lambda>r v. if near r v then v - ucast step else v) steps (v - ucast step)"

definition fall_target :: "PATIENT_TypeDef \<Rightarrow> u16 list \<Rightarrow> u8 \<Rightarrow> u16 \<Rightarrow> u16" where
  "fall_target p steps step v =
     (if v < 25 then v - 3
      else if p = NEWBORN \<and> v < 50 \<and> v \<ge> 25 then v - 5
      else next_fall_target steps step v)"

text \<open>The three parts of \<open>NIBP_AutoPressReleHanlder\<close>: entering a hold, the release or the end of
  the measurement, and the test whether a step is complete.\<close>

definition fall_hold :: "fpu \<Rightarrow> 'a nibp_sys_scheme \<Rightarrow> 'a nibp_sys_scheme" where
  "fall_hold fp s =
     (let s = NIBP_refreshSlowReleHoldTime fp False (pulse_ms (nres s)) s;
          s = nibp_ResetTimeout (g_SlowReleHoldTimeIndex (nc s))
                (getTickNumberByMS (ucast (g_u8SlowReleHoldTimeMS (nc s))) (tick s)) s
      in s\<lparr>nr := (nr s)\<lparr>g_SlowReleTimeStauts := ENABLE,
             g_slowRele_mmHg := fall_target (g_PatientType (glob s))
               (take (unat (g_u8RisingStepCount (nr s))) (g_risingStep (nr s)))
               (g_u8SlowReleStepmmHg (nc s)) (g_slowRele_mmHg (nr s))\<rparr>\<rparr>)"

definition fall_release :: "fpu \<Rightarrow> 'a nibp_sys_scheme \<Rightarrow> 'a nibp_sys_scheme" where
  "fall_release fp s =
     (let s = (if g_bIsCalculateDrop (nr s)
               then s\<lparr>nr := (nr s)\<lparr>g_bIsCalculateDrop := False,
                      g_slowRele_mmHg := cv16 fp (fl fp (fl fp (real (unat (mmHg_val (nd s))) / AMPLIFY_FACTOR)
                                            - real (unat (g_u8SlowReleStepmmHg (nc s)))))\<rparr>\<rparr>
               else s)
      in if g_slowRele_mmHg (nr s) \<ge> ucast (g_u8SlowReleMin_mmHg (nc s))
         then NIBP_SetPressRelease SLOW_RELE (s\<lparr>nr := (nr s)\<lparr>u8SlowReleRunCount := 0\<rparr>\<rparr>)
         else NIBP_AlarmUpload MEASURE_FAILED
                (NIBP_SetPressRelease FAST_RELE
                  (s\<lparr>nr := (nr s)\<lparr>g_NIBP_Status := DISABLE, g_SlowReleTimeStauts := DISABLE\<rparr>\<rparr>)))"

definition fall_step_done :: "fpu \<Rightarrow> 'a nibp_sys_scheme \<Rightarrow> 'a nibp_sys_scheme" where
  "fall_step_done fp s =
     (let s = (if \<not> IsNIBPOverLoad fp (g_slowRele_mmHg (nr s)) s
               then s\<lparr>nr := (nr s)\<lparr>slowReleCount := slowReleCount (nr s) + 1\<rparr>\<rparr> else s)
      in if sint (slowReleCount (nr s)) > 5
         then let s = NIBP_SetPressRelease PRESS_HOLD (s\<lparr>nr := (nr s)\<lparr>slowReleCount := 0\<rparr>\<rparr>)
              in s\<lparr>nr := (nr s)\<lparr>g_SlowReleTimeStauts := DISABLE\<rparr>\<rparr>
         else s)"

definition NIBP_AutoPressReleHanlder :: "fpu \<Rightarrow> 'a nibp_sys_scheme \<Rightarrow> 'a nibp_sys_scheme" where
  "NIBP_AutoPressReleHanlder fp s =
     (if g_SlowReleTimeStauts (nr s) = DISABLE then fall_hold fp s
      else if \<not> IsTimedout (g_SlowReleHoldTimeIndex (nc s)) (tick s) then s
      else fall_step_done fp (fall_release fp s))"

definition NIBP_setParamEndofRising :: "fpu \<Rightarrow> u8 \<Rightarrow> s32 \<Rightarrow> u16 \<Rightarrow> 'a nibp_sys_scheme \<Rightarrow> 'a nibp_sys_scheme" where
  "NIBP_setParamEndofRising fp SlowReleStepmmHg bpm_ms PressureMaxmmHg s =
     (let s = s\<lparr>nc := (nc s)\<lparr>g_u8SlowReleStepmmHg := SlowReleStepmmHg\<rparr>\<rparr>;
          s = NIBP_refreshSlowReleHoldTime fp False bpm_ms s
      in s\<lparr>nr := (nr s)\<lparr>g_slowRele_mmHg := PressureMaxmmHg\<rparr>\<rparr>)"

definition NIBP_isRightCuffType :: "PATIENT_TypeDef \<Rightarrow> u16 \<Rightarrow> bool" where
  "NIBP_isRightCuffType p slope =
     (if p = ADULT \<and> slope > 50 then False
      else if p = CHILD \<and> (slope < 30 \<or> slope > 100) then False
      else if p = NEWBORN \<and> slope < 40 then False
      else True)"

text \<open>The five parts of \<open>NIBP_RisingCtrl\<close>: the pump is running; the next target after a hold;
  storing a reached target; releasing down to a target that was overshot; the end of rising.\<close>

definition rising_slope :: "nibp_run \<Rightarrow> tick_st \<Rightarrow> u16" where
  "rising_slope r t =
     ucast ((ucast (g_Rising_mmHgCur r) * 1000 :: u32) div getMSByTickcount (SysTick_Get t - g_nibp_one_time_tick r) t)"

definition rising_first_hold :: "'a nibp_sys_scheme \<Rightarrow> 'a nibp_sys_scheme" where
  "rising_first_hold s =
     (let s = s\<lparr>nr := (nr s)\<lparr>isFisrtRisingStep := False\<rparr>\<rparr>;
          s = nibp_ResetTimeout (g_SlowReleHoldTimeIndex (nc s)) (getTickNumberByMS 3000 (tick s)) s;
          ms = getMSByTickcount (SysTick_Get (tick s) - g_nibp_one_time_tick (nr s)) (tick s);
          s = (if ms = 0 then raise_fault s else s)
      in if \<not> NIBP_isRightCuffType (g_PatientType (glob s)) (rising_slope (nr s) (tick s))
         then NIBP_AlarmUpload CUFF_TYPE_ERROR (NIBP_ForceStop s) else s)"

definition rising_hold :: "fpu \<Rightarrow> 'a nibp_sys_scheme \<Rightarrow> 'a nibp_sys_scheme" where
  "rising_hold fp s =
     (let s = NIBP_refreshSlowReleHoldTime fp True (pulse_ms (nres s)) s
      in nibp_ResetTimeout (g_SlowReleHoldTimeIndex (nc s))
           (getTickNumberByMS (ucast (g_u8SlowReleHoldTimeMS (nc s))) (tick s)) s)"

definition rising_pump :: "fpu \<Rightarrow> 'a nibp_sys_scheme \<Rightarrow> 'a nibp_sys_scheme" where
  "rising_pump fp s =
     (let s = (if IsNIBPOverLoad fp (g_Rising_mmHgCur (nr s)) s
               then (let s = nibp_debug_stop_pwm s
                     in if isFisrtRisingStep (nr s) then rising_first_hold s else rising_hold fp s)
               else if IsNIBPOverLoad fp (g_Rising_mmHgCur (nr s) - 10) s
               then NIBP_SetPWM_DutyCycles (if g_PatientType (glob s) = NEWBORN then 250 else 330) s
               else s)
      in s\<lparr>nr := (nr s)\<lparr>u8SlowReleRunCount := 0\<rparr>\<rparr>)"

definition store_step :: "nibp_run \<Rightarrow> nibp_run" where
  "store_step r =
     r\<lparr>g_risingStep := (g_risingStep r)[unat (g_u8RisingStepCount r) := g_Rising_mmHgCur r],
       g_u8RisingStepCount := (if g_u8RisingStepCount r + 1 \<ge> 50 then 49 else g_u8RisingStepCount r + 1)\<rparr>"

definition rising_new_target :: "'a nibp_sys_scheme \<Rightarrow> 'a nibp_sys_scheme" where
  "rising_new_target s =
     (if g_u8RisingStepCount (nr s) = 0
      then s\<lparr>nr := (nr s)\<lparr>g_Rising_mmHgCur := g_dynamicPrepress (nr s) - 10,
                          g_u8RisingStepCount := g_u8RisingStepCount (nr s) + 1\<rparr>\<rparr>
      else let s = s\<lparr>nr := (nr s)\<lparr>g_Rising_mmHgCur := ucast (risingResult (nres s))\<rparr>\<rparr>
           in if sint (risingResult (nres s)) > int (unat (g_overload_mmHg (nc s))) - 5
              then let s = s\<lparr>nr := (nr s)\<lparr>u8_pressue_over_range_cnt := u8_pressue_over_range_cnt (nr s) + 1,
                                          g_Rising_mmHgCur := g_overload_mmHg (nc s) - 5\<rparr>\<rparr>
                   in if u8_pressue_over_range_cnt (nr s) > 2
                      then NIBP_AlarmUpload OVER_MEASURE_PRESSURE (NIBP_ForceStop s) else s
              else s)"

definition rising_wants_next :: "'a nibp_sys_scheme \<Rightarrow> bool" where
  "rising_wants_next s \<longleftrightarrow>
     (sint (risingResult (nres s)) > 0 \<and> int (unat (g_Rising_mmHgCur (nr s))) \<noteq> sint (risingResult (nres s)))
     \<or> isRisingDone (nres s) \<or> g_u8RisingStepCount (nr s) = 0"

definition rising_next :: "fpu \<Rightarrow> 'a nibp_sys_scheme \<Rightarrow> 'a nibp_sys_scheme" where
  "rising_next fp s =
     (if g_NIBP_PWM_Status (nr s) = DISABLE \<and> g_bIsPumpStop (nr s) \<and> \<not> g_isRisingStateRele (nr s)
         \<and> IsTimedout (g_SlowReleHoldTimeIndex (nc s)) (tick s)
      then let s = s\<lparr>nr := (nr s)\<lparr>u8SlowReleRunCount := 0\<rparr>\<rparr>
           in if rising_wants_next s
              then let s = rising_new_target s
                   in if IsNIBPOverLoad fp (g_Rising_mmHgCur (nr s)) s
                      then s\<lparr>nr := (nr s)\<lparr>g_isRisingStateRele := True\<rparr>\<rparr>
                      else nibp_debug_start_pwm fp (s\<lparr>nr := store_step (nr s)\<rparr>)
              else s
      else s)"

definition rising_release :: "fpu \<Rightarrow> 'a nibp_sys_scheme \<Rightarrow> 'a nibp_sys_scheme" where
  "rising_release fp s =
     (if g_isRisingStateRele (nr s)
      then if IsNIBPOverLoad fp (g_Rising_mmHgCur (nr s)) s
           then NIBP_SetPressRelease SLOW_RELE (s\<lparr>nr := (nr s)\<lparr>u8SlowReleRunCount := 0\<rparr>\<rparr>)
           else let s = NIBP_SetPressRelease PRESS_HOLD (s\<lparr>nr := store_step (nr s)\<rparr>);
                    s = rising_hold fp s
                in s\<lparr>nr := (nr s)\<lparr>g_isRisingStateRele := False\<rparr>\<rparr>
      else s)"

definition rising_done :: "fpu \<Rightarrow> 'a nibp_sys_scheme \<Rightarrow> 'a nibp_sys_scheme" where
  "rising_done fp s =
     (if isRisingDone (nres s)
      then let n = unat (g_u8RisingStepCount (nr s));
               first_step_mmHg = g_risingStep (nr s) ! 1;
               steps = rev (sort (take n (g_risingStep (nr s)))) @ drop n (g_risingStep (nr s));
               slowRele = fold (\<lambda>r v. if near v r then v - 10 else v) (take n steps) (g_Rising_mmHgCur (nr s));
               s = s\<lparr>nr := (nr s)\<lparr>g_risingStep := steps, g_nibp_algo_state := NIBP_ALGO_FALLING, g_bIsCalculateDrop := False\<rparr>\<rparr>;
               s = (if steps ! 0 > first_step_mmHg then s\<lparr>nr := (nr s)\<lparr>g_isRisingTwice := True\<rparr>\<rparr> else s);
               s = NIBP_setParamEndofRising fp 10 (pulse_ms (nres s)) slowRele s;
               s = run [NIBP_SetPWM DISABLE, NIBP_SetPressRelease PRESS_HOLD,
                        \<lambda>s. s\<lparr>nr := (nr s)\<lparr>g_bIsPumpStop := False\<rparr>\<rparr>] s
           in nibp_algorithm_pushLastRet s
      else s)"

definition NIBP_RisingCtrl :: "fpu \<Rightarrow> 'a nibp_sys_scheme \<Rightarrow> 'a nibp_sys_scheme" where
  "NIBP_RisingCtrl fp s =
     (if g_nibp_algo_state (nr s) \<noteq> NIBP_ALGO_RISING then s
      else let s = (if g_NIBP_PWM_Status (nr s) = ENABLE then rising_pump fp s else s);
               s = (if g_u8RisingStepCount (nr s) = 0 then s\<lparr>nr := (nr s)\<lparr>u8SlowReleRunCount := 0\<rparr>\<rparr> else s)
           in run [rising_next fp, rising_release fp, rising_done fp] s)"

text \<open>\<open>g_overload_count\<close> is a signed \<open>char\<close>; the test uses its value before the increment.\<close>

definition overload_check :: "fpu \<Rightarrow> 'a nibp_sys_scheme \<Rightarrow> 'a nibp_sys_scheme" where
  "overload_check fp s =
     (if IsNIBPOverLoad fp (g_overload_mmHg (nc s)) s
      then let n = g_overload_count (nr s);
               s = s\<lparr>nr := (nr s)\<lparr>g_overload_count := n + 1\<rparr>\<rparr>
           in if sint n > 3 then NIBP_ForceStop (NIBP_AlarmUpload OVER_PROTECT_PRESSURE s) else s
      else s)"

definition NIBP_StartSample :: "fpu \<Rightarrow> 'a nibp_sys_scheme \<Rightarrow> 'a nibp_sys_scheme" where
  "NIBP_StartSample fp s =
     (let s = COM_ADC_DataPin_Init DRDY_MODE
                (s\<lparr>adc := (adc s)\<lparr>g_COMADC_channel := NIBP_channel, g_COMADC_state := 0\<rparr>\<rparr>)
      in if g_NIBP_PWM_Status (nr s) = ENABLE \<and> g_curWorkMode (nr s) = VENIPUNCTURE_TEST
         then (if IsNIBPOverLoad fp (ucast (g_u8Venipuncture (nc s))) s
               then NIBP_SetPWM DISABLE
                      (s\<lparr>nr := (nr s)\<lparr>g_gas_leak_tick := SysTick_Get (tick s) + getTickNumberByMS 20000 (tick s)\<rparr>\<rparr>)
               else s)
         else overload_check fp (NIBP_RisingCtrl fp s))"

section \<open>Samples\<close>

definition nibp_push :: "u32 \<times> u32 \<times> u32 \<Rightarrow> nibp_ring \<Rightarrow> nibp_ring" where
  "nibp_push x r =
     (let r = r\<lparr>g_nibp_result_mmHg := (g_nibp_result_mmHg r)[g_nibp_receive_offset r := fst (snd x)],
                g_nibp_result_adc := (g_nibp_result_adc r)[g_nibp_receive_offset r := snd (snd x)],
                g_nibp_tick := (g_nibp_tick r)[g_nibp_receive_offset r := fst x],
                g_nibp_receive_offset := g_nibp_receive_offset r + 1\<rparr>;
          r = (if g_nibp_receive_offset r \<ge> NIBP_Sampling_Buffer_Len
               then r\<lparr>g_nibp_receive_offset := g_nibp_receive_offset r - NIBP_Sampling_Buffer_Len\<rparr> else r);
          r = (if g_nibp_algorithm_offset r = g_nibp_receive_offset r
               then r\<lparr>g_nibp_algorithm_offset :=
                  (if g_nibp_algorithm_offset r + 1 \<ge> NIBP_Sampling_Buffer_Len
                   then g_nibp_algorithm_offset r + 1 - NIBP_Sampling_Buffer_Len else g_nibp_algorithm_offset r + 1)\<rparr>
               else r)
      in if g_nibp_raw_offset r = g_nibp_receive_offset r
         then r\<lparr>g_nibp_raw_offset :=
                  (if g_nibp_raw_offset r + 1 \<ge> NIBP_Sampling_Buffer_Len
                   then g_nibp_raw_offset r + 1 - NIBP_Sampling_Buffer_Len else g_nibp_raw_offset r + 1)\<rparr>
         else r)"

definition display_push :: "u16 \<Rightarrow> nibp_ring \<Rightarrow> nibp_ring" where
  "display_push x r =
     (let i = g_mmHg_recv_offset r;
          r = r\<lparr>g_nibp_display_mmHg := (g_nibp_display_mmHg r)[i := x],
                g_mmHg_recv_offset := (if i + 1 \<ge> NIBP_Sampling_Buffer_Len then i + 1 - NIBP_Sampling_Buffer_Len else i + 1)\<rparr>
      in if g_mmHg_send_offset r = g_mmHg_recv_offset r
         then r\<lparr>g_mmHg_send_offset := (if g_mmHg_send_offset r + 1 \<ge> NIBP_Sampling_Buffer_Len
                  then g_mmHg_send_offset r + 1 - NIBP_Sampling_Buffer_Len else g_mmHg_send_offset r + 1)\<rparr>
         else r)"

definition upload_tag :: "'a nibp_sys_scheme \<Rightarrow> 'a nibp_sys_scheme" where
  "upload_tag s =
     (if g_curWorkMode (nr s) \<noteq> VENIPUNCTURE_TEST
      then if u8SlowReleRunCount (nr s) < g_u8UploadMaskMaxCount (nc s)
           then s\<lparr>nr := (nr s)\<lparr>u8SlowReleRunCount := u8SlowReleRunCount (nr s) + 1\<rparr>,
                  nd := (nd s)\<lparr>mmHg_val := SLOW_RELE_ADC_TAG\<rparr>\<rparr>
           else s\<lparr>nr := (nr s)\<lparr>u8SlowReleRunCount := g_u8UploadMaskMaxCount (nc s)\<rparr>\<rparr>
      else s)"

definition NIBP_adc_store_data :: "fpu \<Rightarrow> 'a nibp_sys_scheme \<Rightarrow> 'a nibp_sys_scheme" where
  "NIBP_adc_store_data fp s =
     (if g_curWorkMode (nr s) \<noteq> VENIPUNCTURE_TEST \<and> g_NIBP_Status (nr s) = DISABLE then s
      else let v = NIBP_ADC2mmHg fp (nc s) (g_eeprom_struct (eep s)) (adc_val (nd s));
               s = s\<lparr>nd := (nd s)\<lparr>mmHg_val := v, nd_tick := SysTick_Get (tick s)\<rparr>\<rparr>;
               s = s\<lparr>nring := display_push (cv16 fp (fl fp (fl fp (real (unat v) + AMPLIFY_FACTOR / 2) / AMPLIFY_FACTOR))) (nring s)\<rparr>;
               s = upload_tag s
           in s\<lparr>nring := nibp_push (nd_tick (nd s), mmHg_val (nd s), adc_val (nd s)) (nring s)\<rparr>)"

definition NIBP_GetDataLen :: "nibp_ring \<Rightarrow> nat" where
  "NIBP_GetDataLen r =
     (let l = int (g_nibp_receive_offset r) - int (g_nibp_raw_offset r)
      in nat (if l < 0 then l + int NIBP_Sampling_Buffer_Len else l))"

definition NIBP_PopResult :: "nibp_ring \<Rightarrow> (u32 \<times> u32 \<times> u32) option \<times> nibp_ring" where
  "NIBP_PopResult r =
     (let s32Len = NIBP_GetDataLen r; i = g_nibp_raw_offset r
      in if s32Len \<noteq> 0
         then (Some (g_nibp_tick r ! i, g_nibp_result_mmHg r ! i, g_nibp_result_adc r ! i),
               r\<lparr>g_nibp_raw_offset := (if i + 1 \<ge> NIBP_Sampling_Buffer_Len
                  then i + 1 - NIBP_Sampling_Buffer_Len else i + 1)\<rparr>)
         else (None, r))"

definition NIBP_GetAlgoDataLen :: "nibp_ring \<Rightarrow> nat" where
  "NIBP_GetAlgoDataLen r =
     (let l = int (g_nibp_receive_offset r) - int (g_nibp_algorithm_offset r)
      in nat (if l < 0 then l + int NIBP_Sampling_Buffer_Len else l))"

definition NIBP_PopAlgoResult :: "nibp_ring \<Rightarrow> (u32 \<times> u32 \<times> u32) option \<times> nibp_ring" where
  "NIBP_PopAlgoResult r =
     (let s32Len = NIBP_GetAlgoDataLen r; i = g_nibp_algorithm_offset r
      in if s32Len \<noteq> 0
         then (Some (g_nibp_tick r ! i, g_nibp_result_mmHg r ! i, g_nibp_result_adc r ! i),
               r\<lparr>g_nibp_algorithm_offset := (if i + 1 \<ge> NIBP_Sampling_Buffer_Len
                  then i + 1 - NIBP_Sampling_Buffer_Len else i + 1)\<rparr>)
         else (None, r))"

definition NIBP_PopDisplay_mmHg :: "nibp_ring \<Rightarrow> u16 option \<times> nibp_ring" where
  "NIBP_PopDisplay_mmHg r =
     (let l = int (g_mmHg_recv_offset r) - int (g_mmHg_send_offset r);
          s16Len = (if l < 0 then l + int NIBP_Sampling_Buffer_Len else l); i = g_mmHg_send_offset r
      in if s16Len \<noteq> 0
         then (Some (g_nibp_display_mmHg r ! i),
               r\<lparr>g_mmHg_send_offset := (if i + 1 \<ge> NIBP_Sampling_Buffer_Len
                  then i + 1 - NIBP_Sampling_Buffer_Len else i + 1)\<rparr>)
         else (None, r))"

definition nibp_algorithm_handler :: "'a nibp_sys_scheme \<Rightarrow> 'a nibp_sys_scheme" where
  "nibp_algorithm_handler s =
     (if \<not> g_nibp_algo_sw (nc s) then s
      else case NIBP_PopAlgoResult (nring s) of
             (None, r) \<Rightarrow> s\<lparr>nring := r\<rparr>
           | (Some (t, v, x), r) \<Rightarrow>
               nibp_algorithm_result (alg_call ''l_nibp_PushAlgorithmData''
                 (le32 t @ le32 v @ le16 (g_Rising_mmHgCur (nr s))) (s\<lparr>nring := r\<rparr>)))"

section \<open>Uploads\<close>

definition amp_round :: "fpu \<Rightarrow> s32 \<Rightarrow> u16" where
  "amp_round fp x = cv16 fp (fl fp (fl fp (real_of_int (sint x) + AMPLIFY_FACTOR / 2) / AMPLIFY_FACTOR))"

definition result_payload :: "u16 \<Rightarrow> u16 \<Rightarrow> u16 \<Rightarrow> u16 \<Rightarrow> u32 \<Rightarrow> bytes" where
  "result_payload sp mbp dp bpm nextTime =
     [0, 0, 0, byte_of 8 sp, byte_of 0 sp, byte_of 8 mbp, byte_of 0 mbp, byte_of 8 dp, byte_of 0 dp,
      byte_of 8 bpm, byte_of 0 bpm, byte_of 8 nextTime, byte_of 0 nextTime]"

definition NIBP_ReslultUpload :: "fpu \<Rightarrow> 'a nibp_sys_scheme \<Rightarrow> 'a nibp_sys_scheme" where
  "NIBP_ReslultUpload fp s =
     (let sp = amp_round fp (SP (nres s)); dp = amp_round fp (DP (nres s)); mbp = amp_round fp (MAP (nres s));
          bpm = ucast (BPM (nres s)) :: u16;
          isp = int (unat sp); idp = int (unat dp); imap = int (unat mbp)
      in if isp - idp < 15 \<or> (isp - imap) - (imap - idp) > 60 then NIBP_AlarmUpload MEASURE_FAILED s
         else if reliability (nres s) > 0.5 then NIBP_AlarmUpload ARM_EXERCISE s
         else let s = s\<lparr>nr := (nr s)\<lparr>g_lastNIBPResult := (BPM (nres s), DP (nres s), SP (nres s))\<rparr>\<rparr>;
                  nextTime = (if g_curWorkMode (nr s) = AUTO_TEST
                              then getMSByTickcount (g_u32nibpAutoNextTime (nc s) - SysTick_Get (tick s)) (tick s) div 1000
                              else 0)
              in upload AIO_TX_NIBP_RESLULT_ID (result_payload sp mbp dp bpm nextTime) s)"

definition NIBP_VerifyStatusUpload :: "'a nibp_sys_scheme \<Rightarrow> 'a nibp_sys_scheme" where
  "NIBP_VerifyStatusUpload s =
     (let m = g_eeprom_struct (eep s);
          v = (if nibp_IsVerify m = 1 then push_bit 3 1 else 0) OR (if m ! off_IsProtectVerify \<noteq> 0 then push_bit 1 1 else 0)
      in upload AIO_TX_NIBP_VERIFY_STATE_ID [v] s)"

definition NIBP_RealTimeDataUpload :: "'a nibp_sys_scheme \<Rightarrow> 'a nibp_sys_scheme" where
  "NIBP_RealTimeDataUpload s =
     (case NIBP_PopResult (nring s) of
        (None, r) \<Rightarrow> s\<lparr>nring := r\<rparr>
      | (Some (t, v, x), r) \<Rightarrow>
          let s = s\<lparr>nring := r\<rparr>
          in if g_IsNIBP_Upload (glob s)
             then upload AIO_TX_NIBP_REALTIME_ID [0, byte_of 16 v, byte_of 8 v, byte_of 0 v] s else s)"

definition NIBP_Display_mmHg :: "'a nibp_sys_scheme \<Rightarrow> 'a nibp_sys_scheme" where
  "NIBP_Display_mmHg s =
     (case NIBP_PopDisplay_mmHg (nring s) of
        (None, r) \<Rightarrow> s\<lparr>nring := r\<rparr>
      | (Some v, r) \<Rightarrow>
          let s = s\<lparr>nring := r\<rparr>
          in if g_IsNIBP_Upload (glob s) then upload AIO_TX_NIBP_MMHG_ID [byte_of 8 v, byte_of 0 v] s else s)"

section \<open>The end of a measurement, and the STM32's protection\<close>

definition NIBP_ForceFastRelease :: "fpu \<Rightarrow> 'a nibp_sys_scheme \<Rightarrow> 'a nibp_sys_scheme" where
  "NIBP_ForceFastRelease fp s =
     (let s = s\<lparr>nr := (nr s)\<lparr>g_NIBP_Status := DISABLE, g_bIsPumpStop := False, g_nibp_algo_state := NIBP_ALGO_IDLE\<rparr>\<rparr>;
          s = NIBP_SetPressRelease FAST_RELE (NIBP_SetPWM DISABLE s);
          s = (if g_curWorkMode (nr s) = AUTO_TEST
                  \<and> getMSByTickcount (g_u32nibpAutoNextTime (nc s) - SysTick_Get (tick s)) (tick s) div 1000 < 30
               then s\<lparr>nc := (nc s)\<lparr>g_u32nibpAutoNextTime := SysTick_Get (tick s) + getTickNumberByMS 30000 (tick s)\<rparr>\<rparr>
               else s);
          s = (if g_curWorkMode (nr s) = CONTINUED_TEST
               then s\<lparr>nc := (nc s)\<lparr>g_continue_next_tick := SysTick_Get (tick s) + getTickNumberByMS 10000 (tick s)\<rparr>\<rparr>
               else s);
          s = (if isAllDone (nres s) then NIBP_ReslultUpload fp s else s)
      in if IsTimedout (g_ForceReleTimeIndex (nc s)) (tick s) then NIBP_AlarmUpload MEASURE_TIMEOUT s else s)"

definition NIBP_ContinueModeHandle :: "fpu \<Rightarrow> 'a nibp_sys_scheme \<Rightarrow> 'a nibp_sys_scheme" where
  "NIBP_ContinueModeHandle fp s =
     (if IsOnTime (g_continue_test_tick (nc s)) (tick s)
      then s\<lparr>nr := (nr s)\<lparr>g_curWorkMode := g_backup_mode (nr s)\<rparr>\<rparr>
      else if g_NIBP_Status (nr s) = DISABLE \<and> IsOnTime (g_continue_next_tick (nc s)) (tick s)
      then NIBP_SampleOneTimeByDebug fp s else s)"

text \<open>The line through the two calibration points of the STM32's own sensor.\<close>

definition protect_values :: "fpu \<Rightarrow> bytes \<Rightarrow> u16 \<times> u16" where
  "protect_values fp m =
     (let a0 = get16 off_protect_adc m; a1 = get16 (off_protect_adc + 2) m;
          p0 = get16 off_protect_mmHg m; p1 = get16 (off_protect_mmHg + 2) m;
          k = fl fp (fl fp (real_of_int (int (unat a1) - int (unat a0))) / real_of_int (int (unat p1) - int (unat p0)));
          b = fl fp (real (unat a1) - fl fp (real (unat p1) * k))
      in (cv16 fp (fl fp (fl fp (k * 150) + b)), cv16 fp (fl fp (fl fp (k * 300) + b))))"

definition protect_sync :: "'a nibp_sys_scheme \<Rightarrow> 'a nibp_sys_scheme" where
  "protect_sync s =
     (let (_, index, maxpress, s) = aio_stm32_readProtect s;
          want = (if g_PatientType (glob s) = NEWBORN then protect_newborn_adc (nc s) else protect_adult_adc (nc s))
      in if index = 0 then snd (aio_stm32_writeProtect 1 want s)
         else if maxpress \<noteq> want then snd (aio_stm32_writeProtect index want s)
         else s)"

definition NIBP_STM32_protectHandle :: "fpu \<Rightarrow> 'a nibp_sys_scheme \<Rightarrow> 'a nibp_sys_scheme" where
  "NIBP_STM32_protectHandle fp s =
     (if IsOnTime (protect_ulNextChangeTime (nc s)) (tick s)
      then let s = s\<lparr>nc := (nc s)\<lparr>protect_ulNextChangeTime := protect_ulNextChangeTime (nc s) + getTickNumberByMS 1000 (tick s)\<rparr>\<rparr>;
               (fast, s) = NIBP_isStm32FastRele s;
               s = (if fast then NIBP_AlarmUpload OVER_PROTECT_PRESSURE (NIBP_ForceStop s) else s)
           in if g_eeprom_struct (eep s) ! off_IsProtectVerify \<noteq> 1 then s
              else let (newborn, adult) = protect_values fp (g_eeprom_struct (eep s));
                       s = (if protect_newborn_adc (nc s) = 0
                            then s\<lparr>nc := (nc s)\<lparr>protect_newborn_adc := newborn, protect_adult_adc := adult\<rparr>\<rparr> else s)
                   in protect_sync s
      else s)"

text \<open>The parts of \<open>NIBP_Handler\<close> before its last three calls.\<close>

definition gas_leak_end :: "fpu \<Rightarrow> 'a nibp_sys_scheme \<Rightarrow> 'a nibp_sys_scheme" where
  "gas_leak_end fp s =
     (if g_curWorkMode (nr s) = VENIPUNCTURE_TEST \<and> is_gas_leak_test (nr s) \<and> g_gas_leak_tick (nr s) \<noteq> 0
         \<and> IsOnTime (g_gas_leak_tick (nr s)) (tick s)
      then let s = (if \<not> IsNIBPOverLoad fp 160 s then NIBP_AlarmUpload CUFF_GAS_LEAKAGE s else s);
               s = NIBP_SetPressRelease FAST_RELE (s\<lparr>nr := (nr s)\<lparr>g_bIsPumpStop := False\<rparr>\<rparr>)
           in s\<lparr>nr := (nr s)\<lparr>is_gas_leak_test := False, g_curWorkMode := g_backup_mode (nr s)\<rparr>\<rparr>
      else s)"

definition measure_task :: "fpu \<Rightarrow> 'a nibp_sys_scheme \<Rightarrow> 'a nibp_sys_scheme" where
  "measure_task fp s =
     (if g_NIBP_Status (nr s) = ENABLE
      then let s = (if g_nibp_algo_state (nr s) = NIBP_ALGO_FALLING then NIBP_AutoPressReleHanlder fp s else s)
           in if IsTimedout (g_ForceReleTimeIndex (nc s)) (tick s) \<or> isAllDone (nres s)
              then NIBP_ForceFastRelease fp s else s
      else s)"

definition oversleeve_task :: "fpu \<Rightarrow> 'a nibp_sys_scheme \<Rightarrow> 'a nibp_sys_scheme" where
  "oversleeve_task fp s =
     (if g_NIBP_PWM_Status (nr s) = ENABLE \<and> IsOnTime (g_oversleeve_tick (nr s)) (tick s) \<and> \<not> IsNIBPOverLoad fp 30 s
      then NIBP_ForceStop (NIBP_AlarmUpload (if IsNIBPOverLoad fp 10 s then CUFF_OFF else PUMP_LEAKAGE) s)
      else s)"

definition NIBP_Handler :: "fpu \<Rightarrow> 'a nibp_sys_scheme \<Rightarrow> 'a nibp_sys_scheme" where
  "NIBP_Handler fp s =
     (let s = (if g_curWorkMode (nr s) = AUTO_TEST then NIBP_SampleAutoTest fp s else s);
          s = (if g_curWorkMode (nr s) = CONTINUED_TEST then NIBP_ContinueModeHandle fp s else s)
      in run [gas_leak_end fp, measure_task fp, oversleeve_task fp, NIBP_STM32_protectHandle fp,
              NIBP_RealTimeDataUpload, NIBP_Display_mmHg] s)"

section \<open>Initialisation and commands\<close>

definition nibp_SetTimeout :: "u32 \<Rightarrow> 'a nibp_sys_scheme \<Rightarrow> u32 \<times> 'a nibp_sys_scheme" where
  "nibp_SetTimeout ticks s =
     (let (i, t) = SetTimeout ticks (tick s);
          s = s\<lparr>tick := t\<rparr>
      in (i, if unat i > MAX_NUM_COUNTDOWN_TIMERS
             then AIO_printf (crnl @ str ''NIBP NIBP_Init->SetTimeout error!'') s else s))"

definition NIBP_Init :: "fpu \<Rightarrow> 'a nibp_sys_scheme \<Rightarrow> 'a nibp_sys_scheme" where
  "NIBP_Init fp s =
     (let s = s\<lparr>glob := (glob s)\<lparr>g_IsNIBP_Upload := True\<rparr>,
                nd := (nd s)\<lparr>verifyStauts := DISABLE, waitForADCStatus := DISABLE\<rparr>,
                nc := (nc s)\<lparr>g_u8UploadMaskMaxCount := 15, g_u32nibpAutoNextTime := 0, g_u8SlowReleStepmmHg := 10,
                     g_u8SlowReleHoldTimeMS := 2000, g_u8SlowReleMin_mmHg := 5, g_measure_max_ms := 180000,
                     g_overload_mmHg := 297\<rparr>,
                nr := (nr s)\<lparr>g_NIBP_Status := DISABLE, g_NIBP_PWM_Status := DISABLE, g_SlowReleTimeStauts := DISABLE,
                     u8SlowReleRunCount := 15, g_bIsCalculateDrop := False, is_gas_leak_test := False,
                     g_isRisingTwice := False, g_lastNIBPResult := (0, 0, 0)\<rparr>,
                nring := (nring s)\<lparr>g_nibp_receive_offset := 0, g_nibp_algorithm_offset := 0, g_nibp_raw_offset := 0,
                     g_mmHg_recv_offset := 0, g_mmHg_send_offset := 0,
                     g_nibp_result_mmHg := replicate NIBP_Sampling_Buffer_Len 0,
                     g_nibp_result_adc := replicate NIBP_Sampling_Buffer_Len 0,
                     g_nibp_tick := replicate NIBP_Sampling_Buffer_Len 0\<rparr>\<rparr>;
          s = run [NIBP_SetCycle fp 0, COM_ADC_Init, NIBP_FAST_IO_Init, NIBP_SLOW_IO_Init,
                   NIBP_SetPressRelease FAST_RELE, InitTimer6, NIBP_SetPWM DISABLE, NIBP_SetPWM_DutyCycles 800,
                   NIBP_SetDefaultMaxPressure] s;
          (i, s) = nibp_SetTimeout (getTickNumberByMS (g_measure_max_ms (nc s)) (tick s)) s;
          s = s\<lparr>nc := (nc s)\<lparr>g_ForceReleTimeIndex := i\<rparr>\<rparr>;
          (j, s) = nibp_SetTimeout (getTickNumberByMS (ucast (g_u8SlowReleHoldTimeMS (nc s))) (tick s)) s;
          s = s\<lparr>nc := (nc s)\<lparr>g_SlowReleHoldTimeIndex := j\<rparr>\<rparr>
      in NIBP_StepFormula_Init fp s)"

definition NIBP_resetModule :: "'a nibp_sys_scheme \<Rightarrow> 'a nibp_sys_scheme" where
  "NIBP_resetModule s =
     s\<lparr>nr := (nr s)\<lparr>g_isRisingTwice := False, g_risingStep := replicate NIBP_RISING_STEP_MAX 0,
                    g_lastNIBPResult := (0, 0, 0)\<rparr>\<rparr>"

definition patient_limits :: "u8 \<Rightarrow> nibp_cfg \<Rightarrow> nibp_cfg" where
  "patient_limits newType c =
     (if newType = 1 then c\<lparr>g_u8SlowReleMin_mmHg := 5, g_overload_mmHg := 297\<rparr>
      else if newType = 2 then c\<lparr>g_u8SlowReleMin_mmHg := 5, g_overload_mmHg := 240\<rparr>
      else if newType = 3 then c\<lparr>g_u8SlowReleMin_mmHg := 3, g_overload_mmHg := 147\<rparr>
      else c)"

definition NIBP_SetPatientType :: "u8 \<Rightarrow> 'a nibp_sys_scheme \<Rightarrow> RETURN_TypeDef \<times> 'a nibp_sys_scheme" where
  "NIBP_SetPatientType newType s =
     (RETURN_OK, run [\<lambda>s. s\<lparr>nc := patient_limits newType (nc s)\<rparr>, nibp_algorithm_setPatient newType,
                      NIBP_SetDefaultMaxPressure, NIBP_SetProtectTime, NIBP_resetModule] s)"

definition NIBP_getResult :: "fpu \<Rightarrow> UartProtocolPacket \<Rightarrow> 'a nibp_sys_scheme \<Rightarrow> 'a nibp_sys_scheme" where
  "NIBP_getResult fp p s = (if DataAndCRC p ! 0 = 0xCC then NIBP_ReslultUpload fp s else s)"

definition NIBP_setVenipuncture :: "UartProtocolPacket \<Rightarrow> 'a nibp_sys_scheme \<Rightarrow> 'a nibp_sys_scheme" where
  "NIBP_setVenipuncture p s =
     (if DataAndCRC p ! 0 = 0
      then let s = NIBP_SetPressRelease FAST_RELE (s\<lparr>nr := (nr s)\<lparr>g_bIsPumpStop := False\<rparr>\<rparr>)
           in s\<lparr>nr := (nr s)\<lparr>g_curWorkMode := g_backup_mode (nr s)\<rparr>\<rparr>
      else if DataAndCRC p ! 0 = 1
      then NIBP_startPumpCtrl
             (s\<lparr>nc := (nc s)\<lparr>g_u8Venipuncture := DataAndCRC p ! 1\<rparr>,
                nr := (nr s)\<lparr>g_backup_mode := g_curWorkMode (nr s), g_curWorkMode := VENIPUNCTURE_TEST,
                             g_NIBP_Status := DISABLE\<rparr>\<rparr>)
      else s)"

definition NIBP_setContinueMode :: "fpu \<Rightarrow> UartProtocolPacket \<Rightarrow> 'a nibp_sys_scheme \<Rightarrow> 'a nibp_sys_scheme" where
  "NIBP_setContinueMode fp p s =
     (if DataAndCRC p ! 0 = 1
      then NIBP_SampleOneTimeByDebug fp
             (s\<lparr>nr := (nr s)\<lparr>g_backup_mode := g_curWorkMode (nr s), g_curWorkMode := CONTINUED_TEST\<rparr>,
                nc := (nc s)\<lparr>g_continue_test_tick := SysTick_Get (tick s) + getTickNumberByMS (5 * 60 * 1000) (tick s)\<rparr>\<rparr>)
      else s)"

definition NIBP_setGasLeakTest :: "UartProtocolPacket \<Rightarrow> 'a nibp_sys_scheme \<Rightarrow> 'a nibp_sys_scheme" where
  "NIBP_setGasLeakTest p s =
     (if DataAndCRC p ! 0 = 1
      then NIBP_startPumpCtrl
             (s\<lparr>nc := (nc s)\<lparr>g_u8Venipuncture := 180\<rparr>,
                nr := (nr s)\<lparr>is_gas_leak_test := True, g_backup_mode := g_curWorkMode (nr s),
                             g_curWorkMode := VENIPUNCTURE_TEST, g_gas_leak_tick := 0, g_NIBP_Status := DISABLE\<rparr>\<rparr>)
      else s)"

section \<open>Both readers of the pressure samples see bounded queues\<close>

definition nibp_cells :: "nibp_ring \<Rightarrow> (u32 \<times> u32 \<times> u32) list" where
  "nibp_cells r = zip (g_nibp_tick r) (zip (g_nibp_result_mmHg r) (g_nibp_result_adc r))"

definition nibp_ring_inv :: "nibp_ring \<Rightarrow> bool" where
  "nibp_ring_inv r \<longleftrightarrow> length (g_nibp_tick r) = 101 \<and> length (g_nibp_result_mmHg r) = 101
     \<and> length (g_nibp_result_adc r) = 101 \<and> g_nibp_receive_offset r < 101
     \<and> g_nibp_raw_offset r < 101 \<and> g_nibp_algorithm_offset r < 101"

definition nibp_raw_get :: "nibp_ring \<Rightarrow> ((u32 \<times> u32 \<times> u32) \<times> nibp_ring) option" where
  "nibp_raw_get r = (case NIBP_PopResult r of (None, _) \<Rightarrow> None | (Some x, r') \<Rightarrow> Some (x, r'))"

definition nibp_algo_get :: "nibp_ring \<Rightarrow> ((u32 \<times> u32 \<times> u32) \<times> nibp_ring) option" where
  "nibp_algo_get r = (case NIBP_PopAlgoResult r of (None, _) \<Rightarrow> None | (Some x, r') \<Rightarrow> Some (x, r'))"

lemma nibp_ring:
  assumes "nibp_ring_inv r"
  shows "nibp_cells (nibp_push x r) = (nibp_cells r)[g_nibp_receive_offset r := x]"
    "g_nibp_receive_offset (nibp_push x r) = ring_inc 101 (g_nibp_receive_offset r)"
    "g_nibp_raw_offset (nibp_push x r)
     = ring_drop 101 (g_nibp_raw_offset r) (ring_inc 101 (g_nibp_receive_offset r))"
    "g_nibp_algorithm_offset (nibp_push x r)
     = ring_drop 101 (g_nibp_algorithm_offset r) (ring_inc 101 (g_nibp_receive_offset r))"
    "nibp_ring_inv (nibp_push x r)"
    "ring_ok 101 (nibp_cells r) (g_nibp_raw_offset r) (g_nibp_receive_offset r)"
    "ring_ok 101 (nibp_cells r) (g_nibp_algorithm_offset r) (g_nibp_receive_offset r)"
  using assms
  by (auto simp: nibp_push_def Let_def nibp_cells_def nibp_ring_inv_def ring_inc_def ring_drop_def ring_ok_def update_zip)

lemma nibp_get:
  assumes "nibp_ring_inv r"
  shows "nibp_raw_get r = (if g_nibp_raw_offset r = g_nibp_receive_offset r then None
      else Some (nibp_cells r ! g_nibp_raw_offset r, r\<lparr>g_nibp_raw_offset := ring_inc 101 (g_nibp_raw_offset r)\<rparr>))"
    "nibp_algo_get r = (if g_nibp_algorithm_offset r = g_nibp_receive_offset r then None
      else Some (nibp_cells r ! g_nibp_algorithm_offset r,
                 r\<lparr>g_nibp_algorithm_offset := ring_inc 101 (g_nibp_algorithm_offset r)\<rparr>))"
  using assms
  by (auto simp: nibp_raw_get_def NIBP_PopResult_def NIBP_GetDataLen_def nibp_algo_get_def NIBP_PopAlgoResult_def
      NIBP_GetAlgoDataLen_def nibp_ring_inv_def nibp_cells_def ring_inc_def Let_def)

lemma nibp_inv_read [simp]:
  "nibp_ring_inv r \<Longrightarrow> i < 101 \<Longrightarrow> nibp_ring_inv (r\<lparr>g_nibp_raw_offset := i\<rparr>)"
  "nibp_ring_inv r \<Longrightarrow> i < 101 \<Longrightarrow> nibp_ring_inv (r\<lparr>g_nibp_algorithm_offset := i\<rparr>)"
  by (simp_all add: nibp_ring_inv_def)

lemma nibp_cells_read [simp]:
  "nibp_cells (r\<lparr>g_nibp_raw_offset := i\<rparr>) = nibp_cells r"
  "nibp_cells (r\<lparr>g_nibp_algorithm_offset := i\<rparr>) = nibp_cells r"
  by (simp_all add: nibp_cells_def)

interpretation nibp_raw: ring_reader 101 nibp_ring_inv nibp_cells g_nibp_raw_offset
  g_nibp_receive_offset nibp_push nibp_raw_get
  by unfold_locales (simp_all add: nibp_ring nibp_get)

interpretation nibp_algo: ring_reader 101 nibp_ring_inv nibp_cells g_nibp_algorithm_offset
  g_nibp_receive_offset nibp_push nibp_algo_get
  by unfold_locales (simp_all add: nibp_ring nibp_get)

interpretation nibp_taps: two_readers 101 nibp_ring_inv nibp_cells g_nibp_raw_offset
  g_nibp_algorithm_offset g_nibp_receive_offset nibp_push nibp_raw_get nibp_algo_get
  by unfold_locales (auto simp: nibp_get split: if_splits)

end
