(* ===== verification/NibpCmd.thy ===== *)
theory NibpCmd
  imports Nibp
begin

text \<open>
  The rest of \<open>AllInOneDSP/src/source/module_nibp.c\<close>: averaging, the two calibrations (DSP and
  STM32), the debug commands; \<open>module_ibp.c\<close>; and \<open>common_handle.c\<close>.
\<close>

section \<open>Averaged reading\<close>

text \<open>Each wait polls until the sampling interrupt has delivered a reading and cleared
  \<open>waitForADCStatus\<close>.  \<open>COM_ADC_SaveData\<close> clears it only in calibration mode; in the other case, and
  when no reading comes, the loop does not end, which is recorded as a fault.\<close>

definition NIBP_wait_ADC :: "'a nibp_sys_scheme \<Rightarrow> 'a nibp_sys_scheme" where
  "NIBP_wait_ADC s =
     (let s = s\<lparr>nd := (nd s)\<lparr>waitForADCStatus := ENABLE\<rparr>,
                adc := (adc s)\<lparr>g_COMADC_channel := NIBP_channel, g_COMADC_state := 0\<rparr>\<rparr>;
          s = COM_ADC_DataPin_Init DRDY_MODE s
      in case nibp_adc_waits s of
           [] \<Rightarrow> raise_fault s
         | (polls, x) # ws \<Rightarrow>
             if verifyStauts (nd s) = DISABLE then raise_fault s
             else run (replicate polls (emit (BusyDelay 10)))
               (s\<lparr>nibp_adc_waits := ws,
                  nd := (nd s)\<lparr>adc_val := x, waitForADCStatus := DISABLE\<rparr>,
                  adc := (adc s)\<lparr>g_COMADC_state := 0\<rparr>\<rparr>))"

primrec NIBP_ADC_sum :: "nat \<Rightarrow> u32 \<Rightarrow> 'a nibp_sys_scheme \<Rightarrow> u32 \<times> 'a nibp_sys_scheme" where
  "NIBP_ADC_sum 0 res s = (res, s)"
| "NIBP_ADC_sum (Suc n) res s =
     (let s = NIBP_wait_ADC s;
          res = res + adc_val (nd s);
          s = ExtWatchDog_Reset (Delay1ms 2 s)
      in NIBP_ADC_sum n res s)"

definition NIBP_ADC_Average :: "nat \<Rightarrow> 'a nibp_sys_scheme \<Rightarrow> u32 \<times> 'a nibp_sys_scheme" where
  "NIBP_ADC_Average sampleCount s =
     (let (res, s) = NIBP_ADC_sum sampleCount 0 s in (res div of_nat sampleCount, s))"

section \<open>Calibration with a simulator\<close>

definition NIBP_VerifyEnter :: "'a nibp_sys_scheme \<Rightarrow> 'a nibp_sys_scheme" where
  "NIBP_VerifyEnter s = snd (aio_stm32_setVerify 1 (NIBP_SetPressRelease PRESS_HOLD s))"

definition NIBP_VerifyExit :: "fpu \<Rightarrow> 'a nibp_sys_scheme \<Rightarrow> 'a nibp_sys_scheme" where
  "NIBP_VerifyExit fp s =
     (let s = snd (EEPROM_RefreshNIBPVerify s);
          s = NIBP_SetCycle fp (g_curCycler (nc s)) s
      in snd (aio_stm32_setVerify 0 s))"

definition NIBP_DebugVerifyRespond :: "'a nibp_sys_scheme \<Rightarrow> 'a nibp_sys_scheme" where
  "NIBP_DebugVerifyRespond s = upload AIO_RX_NIBP_VERIFY_ID [0] s"

definition verify_uploads :: "bool \<Rightarrow> glob_st \<Rightarrow> glob_st" where
  "verify_uploads b g = g\<lparr>g_IsECG_Upload := b, g_IsRESP_Upload := b, g_IsTemp_Upload := b,
                         g_IsCommon_Upload := b, g_IsSpO2_Upload := b\<rparr>"

definition NIBP_VerifyBySimulator :: "fpu \<Rightarrow> u8 \<Rightarrow> 'a nibp_sys_scheme \<Rightarrow> 'a nibp_sys_scheme" where
  "NIBP_VerifyBySimulator fp mode s =
     (let s = (if mode = 0xCC
               then NIBP_VerifyStatusUpload (NIBP_VerifyEnter
                      (s\<lparr>nd := (nd s)\<lparr>verifyStauts := ENABLE\<rparr>, glob := verify_uploads False (glob s)\<rparr>))
               else if mode = 0xFF
               then NIBP_VerifyExit fp
                      (s\<lparr>nd := (nd s)\<lparr>verifyStauts := DISABLE\<rparr>, glob := verify_uploads True (glob s)\<rparr>)
               else s)
      in NIBP_DebugVerifyRespond s)"

definition or_result :: "RETURN_TypeDef \<Rightarrow> RETURN_TypeDef \<Rightarrow> RETURN_TypeDef" where
  "or_result a b = (if a = RETURN_OK \<and> b = RETURN_OK then RETURN_OK else RETURN_ERROR)"

text \<open>One field of the structure written to the device at its own address.\<close>

definition write_field :: "nat \<Rightarrow> nat \<Rightarrow> 'a nibp_sys_scheme \<Rightarrow> RETURN_TypeDef \<times> 'a nibp_sys_scheme" where
  "write_field off len s =
     EEPROM_BufferWrite (of_nat off) (drop off (g_eeprom_struct (eep s))) (of_nat len) s"

definition set_point :: "nat \<Rightarrow> u16 \<Rightarrow> u32 \<Rightarrow> 'a nibp_sys_scheme \<Rightarrow> 'a nibp_sys_scheme" where
  "set_point i v x s =
     eep_struct (put_bytes (off_Verify_Val + 4 * i) (le32 x)) (eep_struct (put_bytes (off_Verify_mmHg + 2 * i) (le16 v)) s)"

definition write_point :: "nat \<Rightarrow> 'a nibp_sys_scheme \<Rightarrow> RETURN_TypeDef \<times> 'a nibp_sys_scheme" where
  "write_point i s =
     (let (r, s) = write_field (off_Verify_mmHg + 2 * i) 2 s;
          (r', s) = write_field (off_Verify_Val + 4 * i) 4 s
      in (or_result r r', s))"

text \<open>The argument is a byte: the source's three cases are 50, 150 and 250, and only the first and
  the last mark the structure as calibrated.\<close>

definition NIBP_VerifyAction :: "u8 \<Rightarrow> 'a nibp_sys_scheme \<Rightarrow> 'a nibp_sys_scheme" where
  "NIBP_VerifyAction mmHg s =
     (let (adcVal, s) = NIBP_ADC_Average 10 s;
          mark = eep_struct (put_bytes off_IsVerify (le32 1));
          (result, s) =
            (if mmHg = 50 then write_point 2 (mark (set_point 2 50 adcVal s))
             else if mmHg = 150 then write_point 4 (set_point 4 150 adcVal s)
             else if mmHg = 250
             then (let (r, s) = write_point 5 (mark (set_point 5 250 adcVal s));
                       (r', s) = write_field off_IsVerify 4 s
                   in (or_result r r', s))
             else (RETURN_ERROR, s))
      in AIO_printf (crnl @ (if result = RETURN_OK then str ''NIBP_VerifyAction Success!''
                             else str ''NIBP_VerifyAction Error!'')) s)"

section \<open>Calibration of the STM32's sensor\<close>

definition NIBP_RespondSTM32VerifyEEPROM :: "'a nibp_sys_scheme \<Rightarrow> 'a nibp_sys_scheme" where
  "NIBP_RespondSTM32VerifyEEPROM s = upload AIO_RX_NIBP_STM32_PRESS_ID [0xFF] s"

definition NIBP_RespondSTM32Verify :: "u8 \<Rightarrow> u16 \<Rightarrow> u16 \<Rightarrow> 'a nibp_sys_scheme \<Rightarrow> 'a nibp_sys_scheme" where
  "NIBP_RespondSTM32Verify index mmHg a s =
     upload AIO_RX_NIBP_STM32_PRESS_ID [index, byte_of 8 mmHg, byte_of 0 mmHg, byte_of 8 a, byte_of 0 a] s"

text \<open>The two-byte buffer keeps its contents when a read fails.\<close>

primrec STM32_pressure_sum :: "nat \<Rightarrow> bytes \<Rightarrow> u16 \<Rightarrow> 'a nibp_sys_scheme \<Rightarrow> u16 \<times> 'a nibp_sys_scheme" where
  "STM32_pressure_sum 0 buf a s = (a, s)"
| "STM32_pressure_sum (Suc n) buf a s =
     (let (_, bs, s) = aio_stm32_readByID CURRENT_PRESSURE 2 s;
          buf = put_bytes 0 bs buf
      in STM32_pressure_sum n buf (a + u16_of_bytes (buf ! 0) (buf ! 1)) s)"

definition NIBP_STM32VerifyAction :: "bytes \<Rightarrow> u8 \<Rightarrow> 'a nibp_sys_scheme \<Rightarrow> 'a nibp_sys_scheme" where
  "NIBP_STM32VerifyAction pBuf nLen s =
     (let index = pBuf ! 0
      in if index < 2
         then if nLen \<noteq> 3 then s
              else let SetmmHg = u16_of_bytes (pBuf ! 1) (pBuf ! 2);
                       (a, s) = STM32_pressure_sum 10 [0, 0] 0 s;
                       a = a div 10;
                       s = snd (EEPROM_saveRAMSTM32NIBPVerify index SetmmHg a s)
                   in NIBP_RespondSTM32Verify index SetmmHg a s
         else if index = 0xFF
         then (case EEPROM_saveSTM32NIBPVerify s of
                 (RETURN_OK, s) \<Rightarrow> NIBP_RespondSTM32VerifyEEPROM s
               | (RETURN_ERROR, s) \<Rightarrow> s)
         else s)"

section \<open>Debug commands\<close>

definition NIBP_DebugSetmmHgRespond :: "u8 \<Rightarrow> u16 \<Rightarrow> u32 \<Rightarrow> 'a nibp_sys_scheme \<Rightarrow> 'a nibp_sys_scheme" where
  "NIBP_DebugSetmmHgRespond nIndex mmHg x s =
     upload AIO_RX_NIBP_Debug_ID
       [0x01, nIndex, byte_of 8 mmHg, byte_of 0 mmHg, byte_of 16 x, byte_of 8 x, byte_of 0 x] s"

definition NIBP_VerifyDebug :: "bytes \<Rightarrow> u8 \<Rightarrow> 'a nibp_sys_scheme \<Rightarrow> RETURN_TypeDef \<times> 'a nibp_sys_scheme" where
  "NIBP_VerifyDebug pBuf nLen s =
     (if nLen \<noteq> 3 \<or> verifyStauts (nd s) = DISABLE
      then (RETURN_ERROR, AIO_printf (crnl @ str ''NIBP_VerifyDebug error'') s)
      else let u8Index = pBuf ! 0;
               set_mmHg = u16_of_bytes (pBuf ! 1) (pBuf ! 2);
               (adcVal, s) = NIBP_ADC_Average 10 s
           in if u8Index < 6
              then (RETURN_OK, NIBP_DebugSetmmHgRespond u8Index set_mmHg adcVal (set_point (unat u8Index) set_mmHg adcVal s))
              else (RETURN_ERROR, s))"

definition NIBP_DebugSaveRespond :: "'a nibp_sys_scheme \<Rightarrow> 'a nibp_sys_scheme" where
  "NIBP_DebugSaveRespond s = upload AIO_RX_NIBP_Debug_ID [0x02] s"

definition NIBP_VerifySave2Eepom :: "'a nibp_sys_scheme \<Rightarrow> RETURN_TypeDef \<times> 'a nibp_sys_scheme" where
  "NIBP_VerifySave2Eepom s =
     (let s = eep_struct (put_bytes off_IsVerify (le32 1)) s;
          (result, s) = write_field off_Verify_mmHg (off_IsVerify + 4 - off_Verify_mmHg) s
      in (result, NIBP_DebugSaveRespond s))"

definition NIBP_SetUploadMaskCount :: "u8 \<Rightarrow> 'a nibp_sys_scheme \<Rightarrow> RETURN_TypeDef \<times> 'a nibp_sys_scheme" where
  "NIBP_SetUploadMaskCount count s = (RETURN_OK, s\<lparr>nc := (nc s)\<lparr>g_u8UploadMaskMaxCount := count\<rparr>\<rparr>)"

definition nibp_debug_start :: "fpu \<Rightarrow> bytes \<Rightarrow> 'a nibp_sys_scheme \<Rightarrow> RETURN_TypeDef \<times> 'a nibp_sys_scheme" where
  "nibp_debug_start fp pBuf s =
     (let s = NIBP_SetPrepressure (u16_of_bytes (pBuf ! 0) (pBuf ! 1)) s;
          s = s\<lparr>nc := (nc s)\<lparr>g_u8SlowReleStepmmHg := pBuf ! 2,
                            g_u8SlowReleHoldTimeMS := u16_of_bytes (pBuf ! 3) (pBuf ! 4),
                            g_u8SlowReleMin_mmHg := pBuf ! 5\<rparr>,
                nr := (nr s)\<lparr>g_curWorkMode := DEBUG_TEST\<rparr>\<rparr>
      in (RETURN_OK, NIBP_SampleOneTimeByDebug fp s))"

definition nibp_debug_pass_step :: "bytes \<Rightarrow> 'a nibp_sys_scheme \<Rightarrow> RETURN_TypeDef \<times> 'a nibp_sys_scheme" where
  "nibp_debug_pass_step pBuf s =
     (let s = s\<lparr>nc := (nc s)\<lparr>g_u8SlowReleStepmmHg := pBuf ! 0,
                            g_u8SlowReleHoldTimeMS := u16_of_bytes (pBuf ! 1) (pBuf ! 2)\<rparr>\<rparr>
      in (RETURN_OK,
          if g_curWorkMode (nr s) = DEBUG_TEST \<and> g_NIBP_PWM_Status (nr s) = ENABLE
          then NIBP_SetPWM DISABLE (s\<lparr>nr := (nr s)\<lparr>u8SlowReleRunCount := 0, g_bIsCalculateDrop := True\<rparr>\<rparr>)
          else s))"

definition nibp_debug_algo_sw :: "bytes \<Rightarrow> 'a nibp_sys_scheme \<Rightarrow> RETURN_TypeDef \<times> 'a nibp_sys_scheme" where
  "nibp_debug_algo_sw pBuf s =
     (let s = (if pBuf ! 0 = 0 then nibp_algorithm_start (s\<lparr>nc := (nc s)\<lparr>g_nibp_algo_sw := True\<rparr>\<rparr>)
               else if pBuf ! 0 = 1 then s\<lparr>nc := (nc s)\<lparr>g_nibp_algo_sw := False\<rparr>\<rparr> else s)
      in (RETURN_OK, s\<lparr>nring := NIBP_DataReset (nring s)\<rparr>))"

text \<open>A rate of 0 divides by zero.\<close>

definition nibp_debug_setStepCtl :: "bytes \<Rightarrow> u8 \<Rightarrow> 'a nibp_sys_scheme \<Rightarrow> RETURN_TypeDef \<times> 'a nibp_sys_scheme" where
  "nibp_debug_setStepCtl pBuf nLen s =
     (if nLen \<noteq> 3 then (RETURN_ERROR, s)
      else let s = (if pBuf ! 0 = 0 then raise_fault s else s);
               s = s\<lparr>nc := (nc s)\<lparr>g_u8SlowReleHoldTimeMS := ucast (60000 div (ucast (pBuf ! 0) :: u32) * 3)\<rparr>\<rparr>
           in (RETURN_OK, NIBP_SetPrepressure (u16_of_bytes (pBuf ! 1) (pBuf ! 2)) s))"

definition nibp_debug_StepRsingResult :: "bytes \<Rightarrow> 'a nibp_sys_scheme \<Rightarrow> RETURN_TypeDef \<times> 'a nibp_sys_scheme" where
  "nibp_debug_StepRsingResult pBuf s = (RETURN_OK, s)"

definition nibp_staticPressureTest :: "bytes \<Rightarrow> 'a nibp_sys_scheme \<Rightarrow> RETURN_TypeDef \<times> 'a nibp_sys_scheme" where
  "nibp_staticPressureTest pBuf s =
     (RETURN_OK,
      if pBuf ! 0 = 0
      then snd (aio_stm32_setVerify 0 (NIBP_SetPressRelease FAST_RELE
                 (s\<lparr>nr := (nr s)\<lparr>g_curWorkMode := g_backup_mode (nr s)\<rparr>\<rparr>)))
      else let s = s\<lparr>nr := (nr s)\<lparr>g_NIBP_Status := DISABLE, g_bIsPumpStop := False\<rparr>\<rparr>;
               s = NIBP_SetPressRelease FAST_RELE (NIBP_SetPWM DISABLE s);
               s = s\<lparr>nr := (nr s)\<lparr>g_backup_mode := g_curWorkMode (nr s), g_curWorkMode := VENIPUNCTURE_TEST\<rparr>\<rparr>;
               s = snd (aio_stm32_setVerify 1 (NIBP_SetPressRelease PRESS_HOLD s));
               s = s\<lparr>nring := NIBP_DataReset (nring s)\<rparr>
           in nibp_algorithm_start s)"

definition NIBP_DebugInterface :: "fpu \<Rightarrow> UartProtocolPacket \<Rightarrow> 'a nibp_sys_scheme \<Rightarrow> RETURN_TypeDef \<times> 'a nibp_sys_scheme" where
  "NIBP_DebugInterface fp p s =
     (let ty = DataAndCRC p ! 0; rest = drop 1 (DataAndCRC p)
      in if ty = 0x01 then NIBP_VerifyDebug rest 3 s
         else if ty = 0x02 then NIBP_VerifySave2Eepom s
         else if ty = 0x03 then NIBP_SetUploadMaskCount (rest ! 0) s
         else if ty = 0x04 then nibp_debug_start fp rest s
         else if ty = 0x05 then (RETURN_OK, nibp_debug_start_pwm fp (s\<lparr>nr := (nr s)\<lparr>g_curWorkMode := DEBUG_TEST\<rparr>\<rparr>))
         else if ty = 0x06 then (RETURN_OK, nibp_debug_stop_pwm s)
         else if ty = 0x07 then nibp_debug_pass_step rest s
         else if ty = 0x08 then nibp_debug_algo_sw rest s
         else if ty = 0x09 then nibp_debug_setStepCtl rest 3 s
         else if ty = 0x0A then nibp_debug_StepRsingResult rest s
         else if ty = 0x0B then nibp_staticPressureTest rest s
         else (RETURN_ERROR, s))"

section \<open>module_ibp.c\<close>

text \<open>\<open>_USE_IBP_FUNCTION_\<close> is not defined: the handler and the upload are empty.\<close>

definition IBP_Init :: "'a nibp_sys_scheme \<Rightarrow> 'a nibp_sys_scheme" where
  "IBP_Init s = AHCT595_SetIBPzero ENABLE (s\<lparr>IsIBPSample := False, IsIBPzero := True\<rparr>)"

definition IBP_Handler :: "'a nibp_sys_scheme \<Rightarrow> 'a nibp_sys_scheme" where
  "IBP_Handler s = s"

section \<open>common_handle.c\<close>

abbreviation COM_SOFTWARE_VERSION_ID :: u8 where "COM_SOFTWARE_VERSION_ID \<equiv> 0xE0"
abbreviation COM_SELF_CHECK_ID :: u8 where "COM_SELF_CHECK_ID \<equiv> 0xE1"
abbreviation COM_TX_PowerStatus_ID :: u8 where "COM_TX_PowerStatus_ID \<equiv> 0xE2"
abbreviation COM_TX_AbnormalReset_ID :: u8 where "COM_TX_AbnormalReset_ID \<equiv> 0xE3"
abbreviation COM_PATIENT_TYPE_ID :: u8 where "COM_PATIENT_TYPE_ID \<equiv> 0xE4"
abbreviation COM_PM_WORK_MODE_ID :: u8 where "COM_PM_WORK_MODE_ID \<equiv> 0xE5"

definition SOFTWARE_UPDATE_ASK :: bytes where
  "SOFTWARE_UPDATE_ASK = [0xAA, 0x99, 0x88, 0x77, 0x66, 0x55, 0x44, 0x33, 0x22, 0x11, 0x00]"

record com_sys = nibp_sys +
  COMMON_Power_ulNextChangeTime :: u32

definition COM_PowerStatusUpLoad :: "'a glob_sys_scheme \<Rightarrow> RETURN_TypeDef \<times> 'a glob_sys_scheme" where
  "COM_PowerStatusUpLoad s =
     (RETURN_OK, if g_IsCommon_Upload (glob s) then upload COM_TX_PowerStatus_ID [0, 0] s else s)"

definition COMMON_PowerHandler :: "'a com_sys_scheme \<Rightarrow> 'a com_sys_scheme" where
  "COMMON_PowerHandler s =
     (if IsOnTime (COMMON_Power_ulNextChangeTime s) (tick s)
      then let s = snd (COM_PowerStatusUpLoad s)
           in s\<lparr>COMMON_Power_ulNextChangeTime := COMMON_Power_ulNextChangeTime s + getTickNumberByMS 1000 (tick s)\<rparr>
      else s)"

definition COM_GetSoftVersion :: "'a prot_sys_scheme \<Rightarrow> RETURN_TypeDef \<times> 'a prot_sys_scheme" where
  "COM_GetSoftVersion s = (RETURN_OK, upload COM_SOFTWARE_VERSION_ID [0x04, 0, 0, 0] s)"

definition COM_GetPatientType :: "'a glob_sys_scheme \<Rightarrow> RETURN_TypeDef \<times> 'a glob_sys_scheme" where
  "COM_GetPatientType s = (RETURN_OK, upload COM_PATIENT_TYPE_ID [0, patient_code (g_PatientType (glob s))] s)"

definition COM_SetPatientType :: "u8 \<Rightarrow> 'a nibp_sys_scheme \<Rightarrow> RETURN_TypeDef \<times> 'a nibp_sys_scheme" where
  "COM_SetPatientType newType s =
     (let set = (\<lambda>t f. resp_algorithm_setFilter f (s\<lparr>glob := (glob s)\<lparr>g_PatientType := t\<rparr>\<rparr>));
          s = (if newType = 1 then set ADULT 1 else if newType = 2 then set CHILD 1
               else if newType = 3 then set NEWBORN 0 else s)
      in (RETURN_OK, snd (NIBP_SetPatientType newType s)))"

definition COM_PatientTypeAction :: "UartProtocolPacket \<Rightarrow> 'a nibp_sys_scheme \<Rightarrow> RETURN_TypeDef \<times> 'a nibp_sys_scheme" where
  "COM_PatientTypeAction p s =
     (if DataAndCRC p ! 0 = 0 then COM_GetPatientType s else COM_SetPatientType (DataAndCRC p ! 1) s)"

definition COM_GetWorkMode :: "'a glob_sys_scheme \<Rightarrow> RETURN_TypeDef \<times> 'a glob_sys_scheme" where
  "COM_GetWorkMode s = (RETURN_OK, upload COM_PM_WORK_MODE_ID [0, workmode_code (g_WorkMode (glob s))] s)"

definition COM_SetWorkMode :: "u8 \<Rightarrow> 'a ecg_sys_scheme \<Rightarrow> RETURN_TypeDef \<times> 'a ecg_sys_scheme" where
  "COM_SetWorkMode newType s =
     (let set = (\<lambda>m. s\<lparr>glob := (glob s)\<lparr>g_WorkMode := m\<rparr>\<rparr>);
          s = (if newType = 1 then set SURGICAL
               else if newType = 2 then ECG_NotchFilterHandle 0x03 (set MONITOR)
               else if newType = 3 then ECG_NotchFilterHandle 0 (set DIAGNOSE) else s)
      in (RETURN_OK, l_ecg_DebugInterface ''ECG_FILTER_SEL'' [newType] s))"

definition COM_WorkModeAction :: "UartProtocolPacket \<Rightarrow> 'a ecg_sys_scheme \<Rightarrow> RETURN_TypeDef \<times> 'a ecg_sys_scheme" where
  "COM_WorkModeAction p s =
     (if DataAndCRC p ! 0 = 0 then COM_GetWorkMode s else COM_SetWorkMode (DataAndCRC p ! 1) s)"

definition COM_GetSelfCheck :: "'a prot_sys_scheme \<Rightarrow> RETURN_TypeDef \<times> 'a prot_sys_scheme" where
  "COM_GetSelfCheck s = (RETURN_OK, upload COM_SELF_CHECK_ID [0, 0, 0, 0, 0, 0, 0] s)"

definition COM_ResetEventUpLoad :: "u8 \<Rightarrow> 'a prot_sys_scheme \<Rightarrow> RETURN_TypeDef \<times> 'a prot_sys_scheme" where
  "COM_ResetEventUpLoad v s = (RETURN_OK, upload COM_TX_AbnormalReset_ID [v] s)"

definition COMMON_Handler :: "'a com_sys_scheme \<Rightarrow> 'a com_sys_scheme" where
  "COMMON_Handler s = COMMON_PowerHandler s"

definition COMMON_Init :: "'a nibp_sys_scheme \<Rightarrow> 'a nibp_sys_scheme" where
  "COMMON_Init s =
     (let s = s\<lparr>glob := (glob s)\<lparr>g_IsCommon_Upload := True\<rparr>\<rparr>;
          s = snd (COM_SetPatientType (patient_code ADULT) s)
      in snd (COM_SetWorkMode (workmode_code DIAGNOSE) s))"

definition system_sf_reset :: "UartProtocolPacket \<Rightarrow> 'a hw_sys_scheme \<Rightarrow> 'a hw_sys_scheme" where
  "system_sf_reset p s =
     (if unat (PLength p) = length SOFTWARE_UPDATE_ASK
         \<and> take (unat (PLength p)) (DataAndCRC p) = SOFTWARE_UPDATE_ASK
      then emit Soft_Reset s else s)"

end
