(* ===== verification/Sampling.thy ===== *)
theory Sampling
  imports NibpCmd
begin

text \<open>
  The interrupt handlers that take the samples: \<open>ECG_ADC_SaveData\<close> and \<open>IVG8_ISR\<close>
  (\<open>external_adc_ecg.c\<close>), \<open>COM_ADC_SaveData\<close>, \<open>IVG9_ISR\<close> and \<open>IVG13_ISR\<close> (\<open>external_adc_com.c\<close>),
  \<open>IVG10_ISR\<close> (\<open>module_ecg.c\<close>).  A conversion takes two timer interrupts per channel: the first
  discards the reading and switches the multiplexer, the second keeps it and selects the next
  channel.
\<close>

section \<open>The ECG converter\<close>

definition TIMIL1 :: u32 where "TIMIL1 = 0x2"
definition TIMIL2 :: u32 where "TIMIL2 = 0x4"
definition TIMIL3 :: u32 where "TIMIL3 = 0x8"

definition next_ECG_channel :: "ECGADC_Channel_TypeDef \<Rightarrow> 'a nibp_sys_scheme \<Rightarrow> 'a nibp_sys_scheme" where
  "next_ECG_channel ch s = ECG_ADC_DataPin_Init DRDY_MODE (s\<lparr>adc := (adc s)\<lparr>g_ECGADC_channel := ch\<rparr>\<rparr>)"

definition set_5probe :: "nat \<Rightarrow> u32 \<Rightarrow> 'a nibp_sys_scheme \<Rightarrow> 'a nibp_sys_scheme" where
  "set_5probe i v s = s\<lparr>ecg := (ecg s)\<lparr>g_5PorbeResult := (g_5PorbeResult (ecg s))[i := v]\<rparr>\<rparr>"

definition set_3probe :: "nat \<Rightarrow> u32 \<Rightarrow> 'a nibp_sys_scheme \<Rightarrow> 'a nibp_sys_scheme" where
  "set_3probe i v s = s\<lparr>ecg := (ecg s)\<lparr>g_3PorbeResult := (g_3PorbeResult (ecg s))[i := v]\<rparr>\<rparr>"

definition save_RESP :: "u32 \<Rightarrow> 'a nibp_sys_scheme \<Rightarrow> 'a nibp_sys_scheme" where
  "save_RESP v s =
     (if rd_status (g_resp_dev (resp s)) = WORK_FLAG
      then RESP_adc_store_data
             (s\<lparr>resp := (resp s)\<lparr>g_resp_dev := (g_resp_dev (resp s))\<lparr>rd_adc_val := v, rd_status := IDEL_FLAG\<rparr>\<rparr>\<rparr>)
      else s)"

definition ECG_ADC_keep :: "u32 \<Rightarrow> 'a nibp_sys_scheme \<Rightarrow> 'a nibp_sys_scheme" where
  "ECG_ADC_keep v s =
     (let ch = g_ECGADC_channel (adc s)
      in if g_3probe_run (ecg s)
         then (if ch = ECG1_channel
               then run [next_ECG_channel RESP2_channel, set_3probe (lead3_code (g_3probe_channel (ecg s))) v,
                         ECG_adc_store_data] s
               else if ch = RESP2_channel then save_RESP v s
               else s)
         else if g_5probe_run (ecg s)
         then (if ch = ECG1_channel
               then run [set_5probe (lead5_code (g_5probe_ECG1 (ecg s))) v, next_ECG_channel ECG2_channel] s
               else if ch = ECG2_channel
               then run [set_5probe (lead5_code (g_5probe_ECG2 (ecg s))) v, next_ECG_channel ECGV_channel] s
               else if ch = ECGV_channel
               then run [set_5probe 3 v, next_ECG_channel RESP2_channel, ECG_adc_store_data] s
               else save_RESP v s)
         else s)"

definition ECG_ADC_SaveData :: "'a nibp_sys_scheme \<Rightarrow> 'a nibp_sys_scheme" where
  "ECG_ADC_SaveData s =
     (let (ulRData, s) = ECG_ADC_ReadData s
      in if g_ECGADC_state (adc s) = 0
         then let s = s\<lparr>adc := (adc s)\<lparr>g_ECGADC_state := g_ECGADC_state (adc s) + 1\<rparr>\<rparr>;
                  s = ECG_ADC_ChannelSelect (g_ECGADC_channel (adc s)) s
              in Timer3_Configure ADC_MUX_CHANGE_DELAY TIM3_ECG_3Probe s
         else ECG_ADC_keep ulRData (s\<lparr>adc := (adc s)\<lparr>g_ECGADC_state := 0\<rparr>\<rparr>))"

definition ECG_ADC_3Probe_Handler :: "'a hw_sys_scheme \<Rightarrow> 'a hw_sys_scheme" where
  "ECG_ADC_3Probe_Handler s = ECG_ADC_DataPin_Init DRDY_MODE s"

definition IVG8_ISR :: "fpu \<Rightarrow> 'a nibp_sys_scheme \<Rightarrow> 'a nibp_sys_scheme" where
  "IVG8_ISR fp s =
     (let ulPortH_Reg = regs s ''PORTHIO''; timerStatus = regs s ''TIMER_STATUS''
      in if timerStatus AND TIMIL2 \<noteq> 0
         then let s = wr ''TIMER_STATUS'' TIMIL2 s;
                  s = s\<lparr>adc := (adc s)\<lparr>IVG8_timer2_count := IVG8_timer2_count (adc s) + 1,
                                      g_ECGADC_channel := ECG1_channel, g_ECGADC_state := 0\<rparr>\<rparr>;
                  s = ECG_ADC_DataPin_Init DRDY_MODE s
              in if sint (IVG8_timer2_count (adc s)) mod 5 = 0
                 then run [\<lambda>s. s\<lparr>adc := (adc s)\<lparr>IVG8_timer2_count := 0\<rparr>\<rparr>, NIBP_StartSample fp, RESP_StartSample] s
                 else s
         else if ulPortH_Reg AND PH1 \<noteq> 0
         then run [wr ''PORTHIO_CLEAR'' PH1, ECG_ADC_DataPin_Init DIN_MODE, Timer3_Configure 2 TIM3_ECG_ADC_R] s
         else AIO_printf (crnl @ str '' IVG8_ISR>>>>>>>>>>>>>>>>>>>>>>>>>>>>Error!'') s)"

definition IVG10_ISR :: "'a nibp_sys_scheme \<Rightarrow> 'a nibp_sys_scheme" where
  "IVG10_ISR s =
     (if regs s ''TIMER_STATUS'' AND TIMIL3 \<noteq> 0
      then let s = run [wr ''TIMER_STATUS'' TIMIL3, Timer3_SetInterrupt DISABLE] s
           in (case g_Tim3_target (adc s) of
                 TIM3_ECG_ADC_R \<Rightarrow> ECG_ADC_SaveData s
               | TIM3_ECG_3Probe \<Rightarrow> ECG_ADC_3Probe_Handler s)
      else AIO_printf (crnl @ str ''IVG10_ISR>>>>>>>>>>>>>>>>>>>>>>>>>>>>Error!'') s)"

section \<open>The common converter\<close>

definition COM_NIBP_keep :: "fpu \<Rightarrow> u32 \<Rightarrow> 'a nibp_sys_scheme \<Rightarrow> 'a nibp_sys_scheme" where
  "COM_NIBP_keep fp v s =
     (let s = s\<lparr>nd := (nd s)\<lparr>adc_val := v\<rparr>\<rparr>
      in if verifyStauts (nd s) = ENABLE then s\<lparr>nd := (nd s)\<lparr>waitForADCStatus := DISABLE\<rparr>\<rparr>
         else let s = NIBP_adc_store_data fp s
              in if IsTempNeedSample (tmp s)
                 then COM_ADC_DataPin_Init DRDY_MODE (s\<lparr>adc := (adc s)\<lparr>g_COMADC_channel := TEMP_channel\<rparr>\<rparr>)
                 else s)"

definition COM_TEMP_keep :: "fpu \<Rightarrow> u32 \<Rightarrow> 'a nibp_sys_scheme \<Rightarrow> 'a nibp_sys_scheme" where
  "COM_TEMP_keep fp v s =
     (let ch = g_TempChannel (tmp s);
          s = (if ch = TEMP_CH1 \<or> ch = TEMP_COM
               then s\<lparr>tmp := (tmp s)\<lparr>g_TempADC_Val := (v, snd (g_TempADC_Val (tmp s)))\<rparr>\<rparr>
               else s\<lparr>tmp := (tmp s)\<lparr>g_TempADC_Val := (fst (g_TempADC_Val (tmp s)), v)\<rparr>\<rparr>);
          s = s\<lparr>tmp := (tmp s)\<lparr>IsTempNeedSample := False\<rparr>\<rparr>
      in if ch = TEMP_CH2 \<or> ch = TEMP_COM_R then TempReslultUpload (fl fp) s else s)"

definition COM_ADC_SaveData :: "fpu \<Rightarrow> 'a nibp_sys_scheme \<Rightarrow> 'a nibp_sys_scheme" where
  "COM_ADC_SaveData fp s =
     (let (ulRData, s) = COM_ADC_ReadData s
      in if g_COMADC_state (adc s) = 0
         then let s = s\<lparr>adc := (adc s)\<lparr>g_COMADC_state := g_COMADC_state (adc s) + 1\<rparr>\<rparr>;
                  s = AHCT595_SetComADCChannel (g_COMADC_channel (adc s)) s
              in Timer1_Configure ADC_MUX_CHANGE_DELAY TIM1_COM_ADC_START s
         else let s = s\<lparr>adc := (adc s)\<lparr>g_COMADC_state := 0\<rparr>\<rparr>
              in if g_COMADC_channel (adc s) = NIBP_channel then COM_NIBP_keep fp ulRData s
                 else if g_COMADC_channel (adc s) = TEMP_channel then COM_TEMP_keep fp ulRData s
                 else s)"

definition IVG9_ISR :: "'a nibp_sys_scheme \<Rightarrow> 'a nibp_sys_scheme" where
  "IVG9_ISR s =
     (let ulPortF_Reg = regs s ''PORTFIO''
      in if ulPortF_Reg AND PF15 \<noteq> 0
         then let s = wr ''PORTFIO_CLEAR'' PF15 s
              in s\<lparr>ecg := (ecg s)\<lparr>g_pace_state := (g_pace_state (ecg s))\<lparr>pace_newState := True\<rparr>\<rparr>\<rparr>
         else if ulPortF_Reg AND COM_ADC_DATA_PIN \<noteq> 0
         then run [wr ''PORTFIO_CLEAR'' COM_ADC_DATA_PIN, COM_ADC_DataPin_Init DIN_MODE,
                   Timer1_Configure 2 TIM1_COM_ADC_R] s
         else AIO_printf (crnl @ str '' IVG9_ISR>>>>>>>>>>>>>>>>>>>>>>>>>>>>Error!'') s)"

definition IVG13_ISR :: "fpu \<Rightarrow> 'a nibp_sys_scheme \<Rightarrow> 'a nibp_sys_scheme" where
  "IVG13_ISR fp s =
     (if regs s ''TIMER_STATUS'' AND TIMIL1 \<noteq> 0
      then let s = run [wr ''TIMER_STATUS'' TIMIL1, Timer1_SetInterrupt DISABLE] s
           in (case g_Tim1_target (adc s) of
                 TIM1_COM_ADC_R \<Rightarrow> COM_ADC_SaveData fp s
               | TIM1_COM_ADC_START \<Rightarrow> COM_ADC_SampleStart s)
      else AIO_printf (crnl @ str ''IVG13_ISR>>>>>>>>>>>>>>>>>>>>>>>>>>>>Error!'') s)"

end
