(* ===== verification/NibpSafety.thy ===== *)
theory NibpSafety
  imports Sampling
begin

text \<open>
  What makes the blood pressure module correct and safe: the piecewise linear conversion between ADC
  values and pressure, the overpressure test and the stop it triggers, and the bounds of the settings
  a command can change.
\<close>

section \<open>The calibration curve\<close>

text \<open>\<open>vx\<close> and \<open>vy\<close> are the calibration points as reals; a calibrated structure has both columns
  strictly increasing.\<close>

definition vx :: "bytes \<Rightarrow> nat \<Rightarrow> real" where "vx m i = real (unat (nibp_Verify_Val i m))"
definition vy :: "bytes \<Rightarrow> nat \<Rightarrow> real" where "vy m i = real (unat (nibp_Verify_mmHg i m))"

definition calibrated :: "bytes \<Rightarrow> bool" where
  "calibrated m \<longleftrightarrow> nibp_IsVerify m = 1 \<and> (\<forall>i < 5. vx m i < vx m (Suc i) \<and> vy m i < vy m (Suc i))"

definition formula_of :: "fpu \<Rightarrow> bytes \<Rightarrow> nibp_cfg \<Rightarrow> bool" where
  "formula_of fp m c \<longleftrightarrow> g_NIBP_K c = List.map fst (NIBP_StepFormula fp m) \<and> g_NIBP_B c = List.map snd (NIBP_StepFormula fp m)"

text \<open>The pressure in units of \<open>10\<^sup>-\<^sup>4\<close> mmHg before the conversion to an integer.\<close>

definition line :: "bytes \<Rightarrow> nat \<Rightarrow> real \<Rightarrow> real" where
  "line m i x = 10000 * vy m i + 10000 * (vy m (Suc i) - vy m i) / (vx m (Suc i) - vx m i) * (x - vx m i)"

definition pressure :: "nibp_cfg \<Rightarrow> bytes \<Rightarrow> u32 \<Rightarrow> real" where
  "pressure c m x = g_NIBP_K c ! adc_segment m x * real (unat x) + g_NIBP_B c ! adc_segment m x"

lemma calibrated_mono:
  assumes "calibrated m" "i \<le> j" "j \<le> 5"
  shows "vx m i \<le> vx m j" "vy m i \<le> vy m j"
proof -
  have "vx m i \<le> vx m j \<and> vy m i \<le> vy m j"
    using assms(2,3)
  proof (induction j rule: dec_induct)
    case (step n)
    then have "n < 5" by simp
    then have "vx m n < vx m (Suc n)" "vy m n < vy m (Suc n)" using assms(1) by (simp_all add: calibrated_def)
    with step show ?case by simp
  qed simp
  then show "vx m i \<le> vx m j" "vy m i \<le> vy m j" by simp_all
qed

lemma calibrated_step: "calibrated m \<Longrightarrow> i < 5 \<Longrightarrow> vx m i < vx m (Suc i) \<and> vy m i < vy m (Suc i)"
  by (simp add: calibrated_def)

lemma line_ends:
  assumes "calibrated m" "i < 5"
  shows "line m i (vx m i) = 10000 * vy m i" "line m i (vx m (Suc i)) = 10000 * vy m (Suc i)"
  using calibrated_step [OF assms] by (simp_all add: line_def)

lemma line_less:
  assumes "calibrated m" "i < 5"
  shows "line m i x < line m i y \<longleftrightarrow> x < y"
proof -
  have k: "0 < 10000 * (vy m (Suc i) - vy m i) / (vx m (Suc i) - vx m i)" using calibrated_step [OF assms] by simp
  show ?thesis unfolding line_def add_less_cancel_left mult_less_cancel_left_pos [OF k] by linarith
qed

lemma unat_diff_u32: "unat (y :: u32) \<le> unat x \<Longrightarrow> unat (x - y) = unat x - unat y"
  by (simp add: unat_sub word_le_nat_alt)

lemma formula_line:
  assumes "calibrated m" "formula_of exact_fpu m c" "i < 5"
  shows "g_NIBP_K c ! i * x + g_NIBP_B c ! i = line m i x" "g_NIBP_K c ! i > 0"
proof -
  note st = calibrated_step [OF assms(1,3)]
  have d: "real (unat (nibp_Verify_Val (Suc i) m - nibp_Verify_Val i m)) = vx m (Suc i) - vx m i"
    using st unat_diff_u32 [of "nibp_Verify_Val i m" "nibp_Verify_Val (Suc i) m"] by (simp add: vx_def del: of_nat_unat)
  have K: "g_NIBP_K c ! i = 10000 * (vy m (Suc i) - vy m i) / (vx m (Suc i) - vx m i)"
    using assms d by (simp add: formula_of_def NIBP_StepFormula_def calibrated_def segment_K_def exact_fpu_def
        AMPLIFY_FACTOR_def NIBP_VERIFY_NUM_def vy_def Let_def mult.commute)
  have B: "g_NIBP_B c ! i = 10000 * vy m (Suc i) - g_NIBP_K c ! i * vx m (Suc i)"
    using assms by (simp add: formula_of_def NIBP_StepFormula_def calibrated_def segment_B_def exact_fpu_def
        AMPLIFY_FACTOR_def NIBP_VERIFY_NUM_def vy_def vx_def Let_def)
  show "g_NIBP_K c ! i > 0" unfolding K using st by simp
  let ?k = "10000 * (vy m (Suc i) - vy m i) / (vx m (Suc i) - vx m i)"
  have "?k * (vx m (Suc i) - vx m i) = 10000 * (vy m (Suc i) - vy m i)" using st by simp
  then show "g_NIBP_K c ! i * x + g_NIBP_B c ! i = line m i x"
    unfolding B K line_def by (simp add: right_diff_distrib)
qed

lemma adc_segment_range:
  fixes m :: bytes and x :: u32
  defines "j \<equiv> adc_segment m x"
  shows "j < 5" "0 < j \<Longrightarrow> vx m j \<le> real (unat x)" "j < 4 \<Longrightarrow> real (unat x) < vx m (Suc j)"
  unfolding j_def adc_segment_def
  by (auto simp: vx_def word_less_nat_alt word_le_nat_alt eval_nat_numeral simp del: of_nat_unat)

lemma mmHg_segment_range:
  fixes m :: bytes and v :: u16
  assumes "calibrated m"
  defines "i \<equiv> mmHg_segment m v"
  shows "i < 5" "0 < i \<Longrightarrow> vy m i \<le> real (unat v)" "i < 4 \<Longrightarrow> real (unat v) < vy m (Suc i)"
  using assms(1) unfolding i_def mmHg_segment_def calibrated_def
  by (auto simp: vy_def word_less_nat_alt word_le_nat_alt eval_nat_numeral simp del: of_nat_unat)

lemma overload_segment:
  assumes "calibrated m" "formula_of exact_fpu m c"
  shows "10000 * real (unat v) < pressure c m x \<longleftrightarrow>
         10000 * real (unat (v :: u16)) < line m (mmHg_segment m v) (real (unat x))"
proof -
  let ?i = "mmHg_segment m v" and ?j = "adc_segment m x" and ?x = "real (unat x)" and ?v = "10000 * real (unat v)"
  note i = mmHg_segment_range [OF assms(1), of v] and j = adc_segment_range [of m x]
  have p: "pressure c m x = line m ?j ?x"
    using formula_line(1) [OF assms] j(1) by (simp add: pressure_def)
  consider "?j = ?i" | "?i < ?j" | "?j < ?i" by linarith
  then show ?thesis
  proof cases
    case 2
    with i j(1) have v: "?v < 10000 * vy m (Suc ?i)" by simp
    have "vx m (Suc ?i) \<le> ?x" "vy m (Suc ?i) \<le> vy m ?j" "vx m ?j \<le> ?x"
      using calibrated_mono [OF assms(1), of "Suc ?i" ?j] j 2 by auto
    moreover have "10000 * vy m ?j \<le> line m ?j ?x" "10000 * vy m (Suc ?i) \<le> line m ?i ?x"
      using line_ends [OF assms(1)] line_less [OF assms(1)] i(1) j(1) calculation by (metis not_le)+
    ultimately show ?thesis unfolding p using v by simp
  next
    case 3
    with i have v: "10000 * vy m ?i \<le> ?v" by simp
    have "?x < vx m (Suc ?j)" using j 3 i(1) by simp
    moreover have "vx m (Suc ?j) \<le> vx m ?i" "vy m (Suc ?j) \<le> vy m ?i"
      using calibrated_mono [OF assms(1), of "Suc ?j" ?i] i(1) 3 by auto
    ultimately have "line m ?j ?x < 10000 * vy m (Suc ?j)" "line m ?i ?x < 10000 * vy m ?i" "vy m (Suc ?j) \<le> vy m ?i"
      using line_ends [OF assms(1)] line_less [OF assms(1)] i(1) j(1) by (metis, metis less_le_trans, simp)
    then show ?thesis unfolding p using v by simp
  qed (simp add: p)
qed

definition mmHg_adc :: "nibp_cfg \<Rightarrow> bytes \<Rightarrow> u16 \<Rightarrow> real" where
  "mmHg_adc c m v = (real (unat v) * 10000 - g_NIBP_B c ! mmHg_segment m v) / g_NIBP_K c ! mmHg_segment m v"

definition in_table :: "bytes \<Rightarrow> u16 \<Rightarrow> bool" where
  "in_table m v \<longleftrightarrow> nibp_Verify_mmHg 0 m \<le> v \<and> v \<le> nibp_Verify_mmHg 5 m"

lemma mmHg_segment_table:
  assumes "calibrated m" "in_table m v"
  defines "i \<equiv> mmHg_segment m v"
  shows "i < 5" "vy m i \<le> real (unat v)" "real (unat v) \<le> vy m (Suc i)"
proof -
  note r = mmHg_segment_range [OF assms(1), of v, folded i_def]
  show "i < 5" by (rule r(1))
  show "vy m i \<le> real (unat v)"
    using r(2) assms(2) by (cases "i = 0") (auto simp: in_table_def vy_def word_le_nat_alt simp del: of_nat_unat)
  show "real (unat v) \<le> vy m (Suc i)"
    using r(1,3) assms(2) by (cases "i = 4") (auto simp: in_table_def vy_def word_le_nat_alt less_imp_le eval_nat_numeral simp del: of_nat_unat)
qed

lemma mmHg_adc_line:
  assumes "calibrated m" "formula_of exact_fpu m c" "in_table m v"
  defines "i \<equiv> mmHg_segment m v"
  shows "mmHg_adc c m v < x \<longleftrightarrow> 10000 * real (unat v) < line m i x"
    "vx m i \<le> mmHg_adc c m v" "mmHg_adc c m v \<le> vx m (Suc i)"
proof -
  note t = mmHg_segment_table [OF assms(1,3), folded i_def]
  note f = formula_line [OF assms(1,2) t(1)]
  have *: "mmHg_adc c m v < x \<longleftrightarrow> 10000 * real (unat v) < line m i x" for x
    using f(2) unfolding f(1) [symmetric] mmHg_adc_def i_def [symmetric] by (simp add: pos_divide_less_eq mult.commute del: of_nat_unat) linarith
  show "mmHg_adc c m v < x \<longleftrightarrow> 10000 * real (unat v) < line m i x" by (rule *)
  show "mmHg_adc c m v \<le> vx m (Suc i)"
  proof (rule ccontr)
    assume "\<not> ?thesis"
    then obtain x where x: "vx m (Suc i) < x" "\<not> mmHg_adc c m v < x" by (metis less_irrefl not_le)
    then have "10000 * vy m (Suc i) < line m i x"
      using line_less [OF assms(1) t(1), of "vx m (Suc i)" x] line_ends(2) [OF assms(1) t(1)] by simp
    with x(2) * t(3) show False by simp
  qed
  have "\<not> mmHg_adc c m v < vx m i" unfolding * using line_ends(1) [OF assms(1) t(1)] t(2) by simp
  then show "vx m i \<le> mmHg_adc c m v" by simp
qed

lemma unat_mmHg2ADC:
  assumes "calibrated m" "formula_of exact_fpu m c" "in_table m v"
  shows "unat (NIBP_mmHg2ADC exact_fpu c m v) = nat \<lfloor>mmHg_adc c m v\<rfloor>"
proof -
  note b = mmHg_adc_line(2,3) [OF assms]
  have "0 \<le> mmHg_adc c m v" by (rule order_trans [OF _ b(1)]) (simp add: vx_def del: of_nat_unat)
  moreover have "vx m (Suc (mmHg_segment m v)) < 2 ^ 32"
    using unat_lt2p [of "nibp_Verify_Val (Suc (mmHg_segment m v)) m"] by (simp add: vx_def del: of_nat_unat)
  then have "mmHg_adc c m v < 2 ^ 32" using b(2) by simp
  ultimately show ?thesis
    using exact_fpu_conv by (simp add: NIBP_mmHg2ADC_def mmHg_adc_def fpu_conv_def exact_fpu_def AMPLIFY_FACTOR_def Let_def)
qed

text \<open>With exact arithmetic and a calibration table that is strictly increasing, the overpressure
  test for a limit inside the table is exact: it fires for a sample exactly when the pressure the
  conversion gives for that sample, before it is cut to an integer, is above the limit, although the
  two sides pick their segment of the table independently (one by ADC value, one by pressure).\<close>

theorem overload_exact:
  assumes "calibrated (g_eeprom_struct (eep s))" "formula_of exact_fpu (g_eeprom_struct (eep s)) (nc s)"
    "in_table (g_eeprom_struct (eep s)) v"
  shows "IsNIBPOverLoad exact_fpu v s \<longleftrightarrow>
         10000 * real (unat v) < pressure (nc s) (g_eeprom_struct (eep s)) (adc_val (nd s))"
proof -
  let ?m = "g_eeprom_struct (eep s)" and ?x = "adc_val (nd s)"
  have "IsNIBPOverLoad exact_fpu v s \<longleftrightarrow> nat \<lfloor>mmHg_adc (nc s) ?m v\<rfloor> < unat ?x"
    unfolding IsNIBPOverLoad_def word_less_nat_alt unat_mmHg2ADC [OF assms] ..
  also have "\<dots> \<longleftrightarrow> mmHg_adc (nc s) ?m v < real (unat ?x)"
    using mmHg_adc_line(2) [OF assms] by (simp add: vx_def nat_less_iff floor_less_iff del: of_nat_unat)
  also have "\<dots> \<longleftrightarrow> 10000 * real (unat v) < line ?m (mmHg_segment ?m v) (real (unat ?x))"
    by (rule mmHg_adc_line(1) [OF assms])
  finally show ?thesis using overload_segment [OF assms(1,2)] by simp
qed

lemma segment_of_point:
  assumes "calibrated m" "i \<le> 5"
  shows "adc_segment m (nibp_Verify_Val i m) = min i 4" "mmHg_segment m (nibp_Verify_mmHg i m) = min i 4"
proof -
  let ?j = "adc_segment m (nibp_Verify_Val i m)" and ?k = "mmHg_segment m (nibp_Verify_mmHg i m)"
  have mono: "vx m a < vx m b \<and> vy m a < vy m b" if "a < b" "b \<le> 5" for a b
    using calibrated_step [OF assms(1), of a] calibrated_mono [OF assms(1), of "Suc a" b] that by force
  note ar = adc_segment_range [of m "nibp_Verify_Val i m", folded vx_def]
  note mr = mmHg_segment_range [OF assms(1), of "nibp_Verify_mmHg i m", folded vy_def]
  show "?j = min i 4"
  proof (rule ccontr)
    assume "?j \<noteq> min i 4"
    then consider "?j < 4" "Suc ?j \<le> i" | "i < ?j" "?j \<le> 5" using ar(1) by linarith
    then show False
    proof cases
      case 1 then show False using ar(3) calibrated_mono(1) [OF assms(1), of "Suc ?j" i] assms(2) by simp
    next
      case 2 then show False using ar(2) mono [of i ?j] by simp
    qed
  qed
  show "?k = min i 4"
  proof (rule ccontr)
    assume "?k \<noteq> min i 4"
    then consider "?k < 4" "Suc ?k \<le> i" | "i < ?k" "?k \<le> 5" using mr(1) by linarith
    then show False
    proof cases
      case 1 then show False using mr(3) calibrated_mono(2) [OF assms(1), of "Suc ?k" i] assms(2) by simp
    next
      case 2 then show False using mr(2) mono [of i ?k] by simp
    qed
  qed
qed

lemma line_at_point:
  assumes "calibrated m" "i \<le> 5"
  shows "line m (min i 4) (vx m i) = 10000 * vy m i"
proof (cases "i = 5")
  case True
  then show ?thesis using line_ends(2) [OF assms(1), of 4] by (simp add: eval_nat_numeral)
next
  case False
  then show ?thesis using line_ends(1) [OF assms(1), of i] assms(2) by (simp add: min_absorb1)
qed

text \<open>Every calibration point is met exactly, in both directions: the ADC value stored for a point
  converts to the pressure stored with it, in units of 0.0001 mmHg, and that pressure converts back to
  the same ADC value.\<close>

theorem calibration_points:
  assumes "calibrated m" "formula_of exact_fpu m c" "i \<le> 5"
  shows "unat (NIBP_ADC2mmHg exact_fpu c m (nibp_Verify_Val i m)) = 10000 * unat (nibp_Verify_mmHg i m)
       \<and> NIBP_mmHg2ADC exact_fpu c m (nibp_Verify_mmHg i m) = nibp_Verify_Val i m"
proof
  let ?x = "nibp_Verify_Val i m" and ?v = "nibp_Verify_mmHg i m"
  have i4: "min i 4 < 5" by simp
  note f = formula_line [OF assms(1,2) i4] and l = line_at_point [OF assms(1,3)]
  have r: "10000 * unat ?v < 2 ^ 32" using unat_lt2p [of ?v] by simp
  have "unat (cv32 exact_fpu (real (10000 * unat ?v))) = 10000 * unat ?v"
    using exact_fpu_conv r by (simp add: fpu_conv_def del: of_nat_unat of_nat_mult)
  then show "unat (NIBP_ADC2mmHg exact_fpu c m ?x) = 10000 * unat ?v"
    using f(1) [of "vx m i"] l
    by (simp add: NIBP_ADC2mmHg_def segment_of_point [OF assms(1,3)] Let_def exact_fpu_def vx_def vy_def del: of_nat_unat)
  have tab: "in_table m ?v"
    using calibrated_mono(2) [OF assms(1), of 0 i] calibrated_mono(2) [OF assms(1), of i 5] assms(3)
    by (simp add: in_table_def vy_def word_le_nat_alt del: of_nat_unat)
  have "mmHg_adc c m ?v = vx m i"
    using f(1) [of "vx m i"] f(2) unfolding l
    by (simp add: mmHg_adc_def segment_of_point [OF assms(1,3)] vy_def field_simps del: of_nat_unat)
  then have "unat (NIBP_mmHg2ADC exact_fpu c m ?v) = unat ?x"
    using unat_mmHg2ADC [OF assms(1,2) tab] by (simp add: vx_def del: of_nat_unat)
  then show "NIBP_mmHg2ADC exact_fpu c m ?v = ?x" by (simp only: word_unat_eq_iff)
qed

text \<open>A structure calibrated at 0, 50, 100, 150, 200 and 250 mmHg, and the coefficients computed from it.\<close>

definition example_eeprom :: bytes where
  "example_eeprom = [0,0,0,0,0,0,0,0, 0,0, 50,0, 100,0, 150,0, 200,0, 250,0,
      10,0,0,0, 20,0,0,0, 30,0,0,0, 40,0,0,0, 50,0,0,0, 60,0,0,0, 1,0,0,0, 0,0,0,0,0,0,0,0,0,0,0,0,0]"

lemma example_points:
  "nibp_IsVerify example_eeprom = 1"
  "List.map (\<lambda>i. nibp_Verify_Val i example_eeprom) [0, 1, 2, 3, 4, 5]
     = [10, 20, 30, 40, 50, 60]"
  "List.map (\<lambda>i. nibp_Verify_mmHg i example_eeprom) [0, 1, 2, 3, 4, 5] = [0, 50, 100, 150, 200, 250]"
  by (simp_all add: nibp_IsVerify_def nibp_Verify_Val_def nibp_Verify_mmHg_def get32_def get16_def eeprom_offsets
      example_eeprom_def u32_of_bytes_def u16_of_bytes_def)

lemma example_calibrated: "calibrated example_eeprom"
proof -
  have all5: "(\<forall>i < 5. P i) \<longleftrightarrow> P 0 \<and> P 1 \<and> P 2 \<and> P 3 \<and> P (4 :: nat)" for P
    by (auto simp: less_Suc_eq eval_nat_numeral)
  show ?thesis using example_points unfolding calibrated_def all5
    by (simp add: vx_def vy_def numeral_2_eq_2 [symmetric])
qed

definition example_cfg :: "nibp_cfg \<Rightarrow> nibp_cfg" where
  "example_cfg c = c\<lparr>g_NIBP_K := List.map fst (NIBP_StepFormula exact_fpu example_eeprom),
                      g_NIBP_B := List.map snd (NIBP_StepFormula exact_fpu example_eeprom)\<rparr>"

lemma example_formula: "formula_of exact_fpu example_eeprom (example_cfg c)"
  by (simp add: formula_of_def example_cfg_def)

lemma calibration_points_witness:
  "\<exists>c. unat (NIBP_ADC2mmHg exact_fpu c example_eeprom (nibp_Verify_Val 3 example_eeprom))
         = 10000 * unat (nibp_Verify_mmHg 3 example_eeprom)
     \<and> NIBP_mmHg2ADC exact_fpu c example_eeprom (nibp_Verify_mmHg 3 example_eeprom) = nibp_Verify_Val 3 example_eeprom"
  using calibration_points [OF example_calibrated example_formula, of 3] by auto

lemma overload_exact_witness:
  "\<exists>s :: nibp_sys. IsNIBPOverLoad exact_fpu 150 s \<longleftrightarrow>
     10000 * real (unat (150 :: u16)) < pressure (nc s) (g_eeprom_struct (eep s)) (adc_val (nd s))"
proof -
  obtain s0 :: nibp_sys where True by simp
  define s where "s = s0\<lparr>nc := example_cfg (nc s0), eep := (eep s0)\<lparr>g_eeprom_struct := example_eeprom\<rparr>\<rparr>"
  have "g_eeprom_struct (eep s) = example_eeprom" "nc s = example_cfg (nc s0)" by (simp_all add: s_def)
  moreover have "in_table example_eeprom 150"
    using example_points by (simp add: in_table_def)
  ultimately have "IsNIBPOverLoad exact_fpu 150 s \<longleftrightarrow>
     10000 * real (unat (150 :: u16)) < pressure (nc s) (g_eeprom_struct (eep s)) (adc_val (nd s))"
    using example_calibrated example_formula by (intro overload_exact) simp_all
  then show ?thesis ..
qed

section \<open>Stopping\<close>

text \<open>The pump is off and both valves are open, as the last writes to their pins left them.\<close>

definition deflated :: "effect list \<Rightarrow> bool" where
  "deflated es \<longleftrightarrow> pin_level ''TIMER_ENABLE'' ''TIMER_DISABLE'' TIMER6_MASK es = Some False
     \<and> pin_level ''PORTFIO_SET'' ''PORTFIO_CLEAR'' NIBP_FAST_PIN es = Some False
     \<and> pin_level ''PORTFIO_SET'' ''PORTFIO_CLEAR'' NIBP_SLOW_PIN es = Some False"

lemma upload_trace [simp]: "trace (upload pid d s) = (trace s :: effect list)"
  by (simp add: upload_def UploadDataByID_def Let_def)

lemma NIBP_AlarmUpload_frame [simp]:
  "trace (NIBP_AlarmUpload a s) = trace s" "nr (NIBP_AlarmUpload a s) = nr s" "nd (NIBP_AlarmUpload a s) = nd s"
  "nc (NIBP_AlarmUpload a s) = nc s" "eep (NIBP_AlarmUpload a s) = eep s"
  by (simp_all add: NIBP_AlarmUpload_def)

text \<open>From any state, a forced stop ends with the pump switched off, both valves open and the
  measurement state back to idle: the cuff can only lose pressure.\<close>

theorem ForceStop_deflates:
  "deflated (trace (NIBP_ForceStop s)) \<and> g_NIBP_Status (nr (NIBP_ForceStop s)) = DISABLE
   \<and> g_NIBP_PWM_Status (nr (NIBP_ForceStop s)) = DISABLE \<and> g_nibp_algo_state (nr (NIBP_ForceStop s)) = NIBP_ALGO_IDLE"
  by (simp add: NIBP_ForceStop_def NIBP_SetPWM_def NIBP_SetPressRelease_def NIBP_StartStopRespond_def deflated_def Let_def)

lemma eep_upload [simp]: "eep (upload pid d s) = eep s"
  by (simp add: upload_def UploadDataByID_def Let_def raise_fault_def)

lemma NIBP_ForceStop_frame [simp]:
  "nc (NIBP_ForceStop s) = nc s" "eep (NIBP_ForceStop s) = eep s"
  "g_overload_count (nr (NIBP_ForceStop s)) = g_overload_count (nr s)"
  by (simp_all add: NIBP_ForceStop_def NIBP_SetPWM_def NIBP_SetPressRelease_def NIBP_StartStopRespond_def Let_def wr_def)

section \<open>Bounds of the settings\<close>

text \<open>No command can set a target pressure, a hold time or a pump drive outside its limits: the
  stored pre-pressure lies between 80 and 280 mmHg for adults, 80 and 210 for children and 60 and 140
  for newborns, whatever 16-bit value was sent, and a value inside the limits is kept; the time a step
  is held lies between 2 and 4 seconds for any pulse period and any floating-point rounding; and the
  high phase of the pump's pulse is never longer than its period.\<close>

theorem setting_bounds:
  assumes "unat (g_Tim6Count (nc s)) * 1000 < 2 ^ 32"
  shows "(let v = g_staicPrepress (nc (NIBP_SetPrepressure x s));
              (lo, hi) = (case g_PatientType (glob s) of ADULT \<Rightarrow> (80, 280) | CHILD \<Rightarrow> (80, 210) | NEWBORN \<Rightarrow> (60, 140))
          in lo \<le> v \<and> v \<le> hi \<and> (v = x \<longleftrightarrow> lo \<le> x \<and> x \<le> hi))
     \<and> 2000 \<le> hold_time fp bpm_ms \<and> hold_time fp bpm_ms \<le> 4000
     \<and> regs (NIBP_SetPWM_DutyCycles percent s) ''TIMER6_WIDTH'' \<le> g_Tim6Count (nc s)"
proof -
  have 1: "(let v = g_staicPrepress (nc (NIBP_SetPrepressure x s));
              (lo, hi) = (case g_PatientType (glob s) of ADULT \<Rightarrow> (80, 280) | CHILD \<Rightarrow> (80, 210) | NEWBORN \<Rightarrow> (60, 140))
          in lo \<le> v \<and> v \<le> hi \<and> (v = x \<longleftrightarrow> lo \<le> x \<and> x \<le> hi))"
    by (cases "g_PatientType (glob s)")
       (auto simp: NIBP_SetPrepressure_def clamp_prepressure_def Let_def not_less)
  have 2: "2000 \<le> hold_time fp bpm_ms \<and> hold_time fp bpm_ms \<le> 4000"
    by (auto simp: hold_time_def Let_def not_less)
  define q where "q = (if percent > 1000 then 1000 else percent)"
  define n where "n = unat (g_Tim6Count (nc s))"
  have q: "unat q \<le> 1000" by (auto simp: q_def word_less_nat_alt)
  have u: "unat (ucast q :: u32) = unat q" using q by (simp add: unsigned_ucast_eq take_bit_nat_eq_self)
  have "n * unat q \<le> n * 1000" using q by simp
  then have "n * unat q < 2 ^ 32" using assms unfolding n_def by linarith
  then have "unat (g_Tim6Count (nc s) * ucast q) = n * unat q"
    by (simp add: unat_word_ariths u n_def)
  then have "unat (g_Tim6Count (nc s) * ucast q div 1000) = n * unat q div 1000" by (simp add: unat_div)
  also have "\<dots> \<le> n" using \<open>n * unat q \<le> n * 1000\<close> by (simp add: div_le_mono [of _ "n * 1000" 1000, simplified])
  finally have "g_Tim6Count (nc s) * ucast q div 1000 \<le> g_Tim6Count (nc s)" by (simp add: word_le_nat_alt n_def)
  then have 3: "regs (NIBP_SetPWM_DutyCycles percent s) ''TIMER6_WIDTH'' \<le> g_Tim6Count (nc s)"
    by (simp add: NIBP_SetPWM_DutyCycles_def q_def Let_def)
  show ?thesis using 1 2 3 by blast
qed

lemma setting_bounds_witness:
  "\<exists>s :: nibp_sys. g_Tim6Count (nc s) = 132000
     \<and> regs (NIBP_SetPWM_DutyCycles 65535 s) ''TIMER6_WIDTH'' \<le> g_Tim6Count (nc s)"
proof -
  obtain s0 :: nibp_sys where True by simp
  define s where "s = s0\<lparr>nc := (nc s0)\<lparr>g_Tim6Count := 132000\<rparr>\<rparr>"
  have e: "g_Tim6Count (nc s) = 132000" by (simp add: s_def)
  then have "unat (g_Tim6Count (nc s)) * 1000 < 2 ^ 32" by simp
  from setting_bounds [OF this, of 0 exact_fpu 0 65535] e show ?thesis by blast
qed

end
