(* ===== verification/Dispatch.thy ===== *)
theory Dispatch
  imports NibpSafety
begin

text \<open>
  The dispatcher of \<open>AllInOneDSP/src/source/uart_protocol.c\<close> (\<open>onMessageHandler\<close>,
  \<open>AIO_to_SpO2_UART\<close>) and the receive task \<open>Uart2MCU_RxPacketCheck\<close> (\<open>system_uart.c\<close>).  The chain of
  \<open>if\<close>s of the source is cut at the comments that separate its groups: a group returns \<open>None\<close>
  when none of its identifiers matches, and the next group is tried.  The commands themselves are in
  the theories of the modules.  Forwarding to the SpO2 board may wait for ever for room in its ring;
  the dispatcher then does not return, which is the value \<open>None\<close> of \<open>onMessageHandler\<close>.
\<close>

section \<open>Identifiers\<close>

abbreviation SpO2_RX_MODEL_VERSION_ID :: u8 where "SpO2_RX_MODEL_VERSION_ID \<equiv> 0x10"
abbreviation SpO2_RX_SELF_CHECK_ID :: u8 where "SpO2_RX_SELF_CHECK_ID \<equiv> 0x12"
abbreviation SpO2_RX_PATIENT_SPEED_ID :: u8 where "SpO2_RX_PATIENT_SPEED_ID \<equiv> 0x13"
abbreviation SpO2_RX_WORK_MODE_ID :: u8 where "SpO2_RX_WORK_MODE_ID \<equiv> 0x14"
abbreviation SpO2_RX_SOFTWARE_UPDATE_ID :: u8 where "SpO2_RX_SOFTWARE_UPDATE_ID \<equiv> 0x15"
abbreviation SpO2_RX_MODEL_LOWPOWER_ID :: u8 where "SpO2_RX_MODEL_LOWPOWER_ID \<equiv> 0x16"
abbreviation AIO_RX_RESP_ASPHYXIA_TIME_ID :: u8 where "AIO_RX_RESP_ASPHYXIA_TIME_ID \<equiv> 0x24"
abbreviation AIO_RX_ECG_ST_SW_ID :: u8 where "AIO_RX_ECG_ST_SW_ID \<equiv> 0x25"
abbreviation AIO_RX_ECG_ARRHYTHMIA_SW_ID :: u8 where "AIO_RX_ECG_ARRHYTHMIA_SW_ID \<equiv> 0x26"
abbreviation AIO_RX_ECG_ST_MEASURE_ID :: u8 where "AIO_RX_ECG_ST_MEASURE_ID \<equiv> 0x27"
abbreviation AIO_RX_ECG_NOTCH_SW_ID :: u8 where "AIO_RX_ECG_NOTCH_SW_ID \<equiv> 0x28"
abbreviation AIO_RX_ECG_CAL_MODE_ID :: u8 where "AIO_RX_ECG_CAL_MODE_ID \<equiv> 0x29"
abbreviation AIO_RX_ECG_PACE_SW_ID :: u8 where "AIO_RX_ECG_PACE_SW_ID \<equiv> 0x2B"
abbreviation AIO_RX_ECG_PACE_CHANNEL_ID :: u8 where "AIO_RX_ECG_PACE_CHANNEL_ID \<equiv> 0x2C"
abbreviation AIO_RX_ECG_PACE_OVERSHOOT_ID :: u8 where "AIO_RX_ECG_PACE_OVERSHOOT_ID \<equiv> 0x2D"
abbreviation AIO_RX_ECG_Alarm_ID :: u8 where "AIO_RX_ECG_Alarm_ID \<equiv> 0x2E"
abbreviation AIO_RX_ECG_Debug_ID :: u8 where "AIO_RX_ECG_Debug_ID \<equiv> 0x2F"
abbreviation AIO_RX_RESP_UPLOAD_TYPE_ID :: u8 where "AIO_RX_RESP_UPLOAD_TYPE_ID \<equiv> 0x30"
abbreviation AIO_RX_RESP_THRESHOLD_ID :: u8 where "AIO_RX_RESP_THRESHOLD_ID \<equiv> 0x31"
abbreviation AIO_RX_RESP_CHANNEL_SEL_ID :: u8 where "AIO_RX_RESP_CHANNEL_SEL_ID \<equiv> 0x32"
abbreviation AIO_RX_RESP_CARRIER_SW_ID :: u8 where "AIO_RX_RESP_CARRIER_SW_ID \<equiv> 0x33"
abbreviation AIO_RX_RESP_Debug_ID :: u8 where "AIO_RX_RESP_Debug_ID \<equiv> 0x3E"
abbreviation AIO_RX_TEMP_Debug_ID :: u8 where "AIO_RX_TEMP_Debug_ID \<equiv> 0x3F"
abbreviation AIO_RX_NIBP_START_ID :: u8 where "AIO_RX_NIBP_START_ID \<equiv> 0x40"
abbreviation AIO_RX_NIBP_STOP_ID :: u8 where "AIO_RX_NIBP_STOP_ID \<equiv> 0x41"
abbreviation AIO_RX_NIBP_CYCLE_ID :: u8 where "AIO_RX_NIBP_CYCLE_ID \<equiv> 0x42"
abbreviation AIO_RX_NIBP_VERIFYING_ID :: u8 where "AIO_RX_NIBP_VERIFYING_ID \<equiv> 0x44"
abbreviation AIO_RX_NIBP_RESET_ID :: u8 where "AIO_RX_NIBP_RESET_ID \<equiv> 0x46"
abbreviation AIO_RX_NIBP_PREPROCESS_PRESS_ID :: u8 where "AIO_RX_NIBP_PREPROCESS_PRESS_ID \<equiv> 0x47"
abbreviation AIO_RX_NIBP_GET_RESULT_ID :: u8 where "AIO_RX_NIBP_GET_RESULT_ID \<equiv> 0x48"
abbreviation AIO_RX_NIBP_VENIPUNCTURE_ID :: u8 where "AIO_RX_NIBP_VENIPUNCTURE_ID \<equiv> 0x49"
abbreviation AIO_RX_NIBP_DUTY_CYCLE_ID :: u8 where "AIO_RX_NIBP_DUTY_CYCLE_ID \<equiv> 0x4B"
abbreviation AIO_RX_NIBP_CONTINUED_ID :: u8 where "AIO_RX_NIBP_CONTINUED_ID \<equiv> 0x4C"
abbreviation AIO_RX_NIBP_GAS_LEAK_ID :: u8 where "AIO_RX_NIBP_GAS_LEAK_ID \<equiv> 0x4D"
abbreviation SF_SPO2_UPDATE :: u8 where "SF_SPO2_UPDATE \<equiv> 0xD1"
abbreviation SF_AIO_DSP_UPDATE :: u8 where "SF_AIO_DSP_UPDATE \<equiv> 0xD3"

section \<open>The groups of commands\<close>

definition ECG_message :: "u8 \<Rightarrow> UartProtocolPacket \<Rightarrow> 'a com_sys_scheme \<Rightarrow> 'a com_sys_scheme option" where
  "ECG_message pid p s =
     (let d0 = DataAndCRC p ! 0
      in if AIO_RX_PROBE_MODE_ID = pid
         then Some (if d0 \<noteq> 0 then ECG_RespondProbeMode s else ECG_SetProbeMode p s)
         else if AIO_RX_ECG12_CHANNEL_ID = pid then Some (ECG_SetECG12Channel p s)
         else if AIO_RX_ECG_CAL_MODE_ID = pid
         then Some (ECG_CAL_DRV_ModeSet (if d0 \<noteq> 0 then ENABLE else DISABLE) s)
         else if AIO_RX_ECG_ST_SW_ID = pid then Some (ECG_SetSTAnalyzeSW p s)
         else if AIO_RX_ECG_ST_MEASURE_ID = pid then Some (ECG_SetSTMesureSetting p s)
         else if AIO_RX_ECG_ARRHYTHMIA_SW_ID = pid then Some (ECG_SetArrhythmiaSW p s)
         else if AIO_RX_ECG_NOTCH_SW_ID = pid then Some (ECG_SetNotchFilterSW p s)
         else if AIO_RX_ECG_Alarm_ID = pid then Some (snd (ECG_setAlarm p s))
         else if AIO_RX_ECG_PACE_SW_ID = pid then Some (ECG_SetPaceSW p s)
         else if AIO_RX_ECG_PACE_CHANNEL_ID = pid then Some (ECG_SetPaceChannel p s)
         else if AIO_RX_ECG_PACE_OVERSHOOT_ID = pid then Some (ECG_SetPaceOvershootSw p s)
         else if AIO_RX_ECG_Debug_ID = pid then Some (snd (ECG_DebugInterface p s))
         else None)"

definition RESP_message :: "u8 \<Rightarrow> UartProtocolPacket \<Rightarrow> 'a com_sys_scheme \<Rightarrow> 'a com_sys_scheme option" where
  "RESP_message pid p s =
     (if AIO_RX_RESP_UPLOAD_TYPE_ID = pid then Some (snd (RESP_setUploadDataType p s))
      else if AIO_RX_RESP_THRESHOLD_ID = pid then Some (snd (RESP_setThreshold p s))
      else if AIO_RX_RESP_CHANNEL_SEL_ID = pid then Some (RESP_SetChannel (DataAndCRC p ! 0) s)
      else if AIO_RX_RESP_CARRIER_SW_ID = pid then Some (snd (RESP_setCarrierWave p s))
      else if AIO_RX_RESP_ASPHYXIA_TIME_ID = pid then Some (snd (RESP_setAsphyxiaTime p s))
      else if AIO_RX_RESP_Debug_ID = pid then Some (snd (RESP_DebugInterface p s))
      else None)"

text \<open>\<open>(DataAndCRC[0] << 8) + DataAndCRC[1]\<close> is the big-endian value of the two bytes.\<close>

definition NIBP_message :: "fpu \<Rightarrow> u8 \<Rightarrow> UartProtocolPacket \<Rightarrow> 'a com_sys_scheme \<Rightarrow> 'a com_sys_scheme option" where
  "NIBP_message fp pid p s =
     (let d0 = DataAndCRC p ! 0; d01 = u16_of_bytes (DataAndCRC p ! 0) (DataAndCRC p ! 1)
      in if AIO_RX_NIBP_START_ID = pid
         then Some (if d0 AND 0xF0 = 0xF0 then NIBP_SampleOneTime fp s else s)
         else if AIO_RX_NIBP_STOP_ID = pid
         then Some (if d0 AND 0x0F = 0x0F then NIBP_ForceStop s else s)
         else if AIO_RX_NIBP_CYCLE_ID = pid then Some (NIBP_SetCycle fp d0 s)
         else if AIO_RX_NIBP_DUTY_CYCLE_ID = pid then Some (NIBP_SetPWM_DutyCycles d01 s)
         else if AIO_RX_NIBP_VERIFY_ID = pid then Some (NIBP_VerifyBySimulator fp d0 s)
         else if AIO_RX_NIBP_VERIFYING_ID = pid then Some (NIBP_VerifyAction d0 s)
         else if AIO_RX_NIBP_STM32_PRESS_ID = pid then Some (NIBP_STM32VerifyAction (DataAndCRC p) 3 s)
         else if AIO_RX_NIBP_PREPROCESS_PRESS_ID = pid then Some (NIBP_SetPrepressure d01 s)
         else if AIO_RX_NIBP_RESET_ID = pid
         then Some (if d0 AND 0xF0 = 0xF0 then NIBP_resetModule s else s)
         else if AIO_RX_NIBP_GET_RESULT_ID = pid then Some (NIBP_getResult fp p s)
         else if AIO_RX_NIBP_VENIPUNCTURE_ID = pid then Some (NIBP_setVenipuncture p s)
         else if AIO_RX_NIBP_CONTINUED_ID = pid then Some (NIBP_setContinueMode fp p s)
         else if AIO_RX_NIBP_GAS_LEAK_ID = pid then Some (NIBP_setGasLeakTest p s)
         else if AIO_RX_NIBP_Debug_ID = pid then Some (snd (NIBP_DebugInterface fp p s))
         else None)"

definition COM_message :: "u8 \<Rightarrow> UartProtocolPacket \<Rightarrow> 'a com_sys_scheme \<Rightarrow> 'a com_sys_scheme option" where
  "COM_message pid p s =
     (if AIO_RX_TEMP_Debug_ID = pid then Some (snd (TEMP_DebugInterface p s))
      else if COM_SOFTWARE_VERSION_ID = pid then Some (snd (COM_GetSoftVersion s))
      else if COM_SELF_CHECK_ID = pid then Some (snd (COM_GetSelfCheck s))
      else if COM_PATIENT_TYPE_ID = pid then Some (snd (COM_PatientTypeAction p s))
      else if COM_PM_WORK_MODE_ID = pid then Some (snd (COM_WorkModeAction p s))
      else None)"

section \<open>Forwarding to the SpO2 board\<close>

text \<open>The packet goes on with new addresses and the check byte it came with; the check byte covers
  neither address.\<close>

definition to_SpO2 :: "UartProtocolPacket \<Rightarrow> UartProtocolPacket" where
  "to_SpO2 p = p\<lparr>DR_Addr := UART_SpO2_ADDR, SR_Addr := UART_AIO_ADDR\<rparr>"

definition AIO_to_SpO2_UART :: "UartProtocolPacket \<Rightarrow> 'a spo2_sys_scheme \<Rightarrow> 'a spo2_sys_scheme option" where
  "AIO_to_SpO2_UART p s =
     map_option (\<lambda>u. s\<lparr>spo2 := (spo2 s)\<lparr>spo2_uart := u\<rparr>\<rparr>)
       (SpO2_UART_SendBuf (wire (to_SpO2 p)) (spo2_uart (spo2 s)))"

definition update_message :: "u8 \<Rightarrow> UartProtocolPacket \<Rightarrow> 'a com_sys_scheme \<Rightarrow> 'a com_sys_scheme option" where
  "update_message pid p s =
     (if SF_SPO2_UPDATE = pid
      then AIO_to_SpO2_UART p (ExtWatchDog_Reset (s\<lparr>glob := (glob s)\<lparr>g_spo2_mask_count := 0\<rparr>\<rparr>))
      else if SF_AIO_STM_UPDATE = pid
      then Some (snd (aio_stm32_UpdateHandle p (ExtWatchDog_Reset (s\<lparr>glob := (glob s)\<lparr>g_stm32_mask_count := 0\<rparr>\<rparr>))))
      else if SF_AIO_DSP_UPDATE = pid then Some (system_sf_reset p s)
      else if SpO2_RX_MODEL_VERSION_ID = pid \<or> SpO2_RX_SELF_CHECK_ID = pid \<or> SpO2_RX_PATIENT_SPEED_ID = pid
           \<or> SpO2_RX_WORK_MODE_ID = pid \<or> SpO2_RX_SOFTWARE_UPDATE_ID = pid \<or> SpO2_RX_MODEL_LOWPOWER_ID = pid
      then AIO_to_SpO2_UART p s
      else Some s)"

section \<open>The dispatcher\<close>

definition onMessageHandler :: "fpu \<Rightarrow> UartProtocolPacket \<Rightarrow> 'a com_sys_scheme \<Rightarrow> 'a com_sys_scheme option" where
  "onMessageHandler fp p s =
     (let pid = PacketID p
      in case ECG_message pid p s of Some s' \<Rightarrow> Some s'
         | None \<Rightarrow> (case RESP_message pid p s of Some s' \<Rightarrow> Some s'
         | None \<Rightarrow> (case NIBP_message fp pid p s of Some s' \<Rightarrow> Some s'
         | None \<Rightarrow> (case COM_message pid p s of Some s' \<Rightarrow> Some s'
         | None \<Rightarrow> update_message pid p s))))"

definition Uart2MCU_RxPacketCheck :: "fpu \<Rightarrow> 'a com_sys_scheme \<Rightarrow> 'a com_sys_scheme option" where
  "Uart2MCU_RxPacketCheck fp s = Uart_RxPacketCheck (onMessageHandler fp) s"

section \<open>Commands from the line\<close>

lemma PacketID_groups:
  "ECG_message 0x41 p s = None" "RESP_message 0x41 p s = None"
  by (simp_all add: ECG_message_def RESP_message_def Let_def)

text \<open>C20: the stop command works end to end.  Whenever the bytes of a stop command with a correct check
  byte are next in the receive ring and no UART interrupt comes while the receive task reads them, the task
  returns and leaves the pump off, both valves open and the measurement disabled, whatever the module was doing before.\<close>

theorem stop_command:
  assumes "aio_quiet (uart s)" "aio_rx_items (uart s) = [UART_AIO_ADDR, UART_MCU_ADDR, num, AIO_RX_NIBP_STOP_ID, 1, d, c] @ rest"
    "fold crc8_byte [num, AIO_RX_NIBP_STOP_ID, 1, d, c] 0 = 0" "d AND 0x0F = 0x0F"
  shows "\<exists>s'. Uart2MCU_RxPacketCheck fp s = Some s' \<and> deflated (trace s')
      \<and> g_NIBP_PWM_Status (nr s') = DISABLE \<and> g_NIBP_Status (nr s') = DISABLE"
proof -
  let ?p = "\<lparr>DR_Addr = UART_AIO_ADDR, SR_Addr = UART_MCU_ADDR, PacketNum = num, PacketID = AIO_RX_NIBP_STOP_ID,
              PLength = 1, DataAndCRC = [d, c] @ replicate (250 - unat (1 :: u8)) 0\<rparr>"
  have i: "aio_rx_items (uart s) = [UART_AIO_ADDR, UART_MCU_ADDR, num, AIO_RX_NIBP_STOP_ID, 1] @ [d, c] @ rest"
    using assms(2) by simp
  obtain u' where "rx_packet AIO_get_poll TRY_MAX_COUNT UART_AIO_ADDR UART_MCU_ADDR (uart s) =
       (let p = ?p in (if [d, c] ! unat (1 :: u8) = CalculatePacketCRC8 p then Rx_packet p else Rx_bad_crc p, u'))"
    by (rule aio_src.packet_received [OF assms(1) i]) simp_all
  moreover have "[d, c] ! unat (1 :: u8) = CalculatePacketCRC8 ?p"
    using packet_crc_accepts [of ?p "[d, c]" "replicate (250 - unat (1 :: u8)) 0"] assms(3) by simp
  ultimately have r: "rx_packet AIO_get_poll TRY_MAX_COUNT UART_AIO_ADDR UART_MCU_ADDR (uart s) = (Rx_packet ?p, u')"
    by simp
  have "Uart2MCU_RxPacketCheck fp s = Some (NIBP_ForceStop (s\<lparr>uart := u'\<rparr>))"
    unfolding Uart2MCU_RxPacketCheck_def Uart_RxPacketCheck_def r prod.case Let_def rx_outcome.case
    using assms(4) by (simp add: onMessageHandler_def PacketID_groups NIBP_message_def)
  then show ?thesis using ForceStop_deflates by blast
qed

lemma stop_command_witness:
  "\<exists>s :: com_sys. aio_rx_items (uart s) = [0x55, 0xAA, 7, 0x41, 1, 0x0F, 0x99]
     \<and> (\<exists>s'. Uart2MCU_RxPacketCheck exact_fpu s = Some s' \<and> deflated (trace s')
      \<and> g_NIBP_PWM_Status (nr s') = DISABLE \<and> g_NIBP_Status (nr s') = DISABLE)"
proof -
  obtain s0 :: com_sys where True by simp
  define s where "s = s0\<lparr>uart := uart_holding [0x55, 0xAA, 7, 0x41, 1, 0x0F, 0x99]\<rparr>"
  have u: "aio_quiet (uart s)" "aio_rx_items (uart s) = [0x55, 0xAA, 7, 0x41, 1, 0x0F, 0x99]"
    by (simp_all add: s_def uart_holding)
  have c: "fold crc8_byte [7, AIO_RX_NIBP_STOP_ID, 1, 0x0F, 0x99] 0 = 0"
    by (simp add: crc8_byte_def crc8_bit_def funpow_8)
  have "\<exists>s'. Uart2MCU_RxPacketCheck exact_fpu s = Some s' \<and> deflated (trace s')
      \<and> g_NIBP_PWM_Status (nr s') = DISABLE \<and> g_NIBP_Status (nr s') = DISABLE"
    by (rule stop_command [OF u(1) _ c, where rest = "[]"]) (simp_all add: u(2))
  with u(2) show ?thesis by blast
qed

end
