(* ===== verification/Sflash.thy ===== *)
theory Sflash
  imports Dispatch
begin

text \<open>
  \<open>system_gpio.c\<close>, \<open>system_spi.c\<close> and \<open>system_sflash.c\<close> of \<open>AllInOneDSP/src/source\<close>, with the
  state of the other board services (theory \<open>Board\<close>).  An exchange on the SPI line shifts one byte out
  and one in; the bytes shifted in are the input \<open>spi_in\<close>, and \<open>spi_log\<close> (a ghost, newest first)
  holds the bytes shifted out in each frame of the chip select.
\<close>

section \<open>State\<close>

record system_state =
  ss_power :: u8
  ss_spo2 :: u8
  ss_dsp :: u8
  ss_stm32 :: u8
  ss_ecg :: u8
  ss_nibp :: u8

record spi_device =
  SPIx :: mmr
  spi_ch :: u8
  spi_ssel :: u8
  spi_rx_len :: u16
  spi_tx_len :: u16

record board_st =
  g_spi_dev :: spi_device
  spi_in :: bytes
  spi_frame :: bytes
  spi_log :: "bytes list"
  flash_rx_len :: u16
  flash_tx_len :: u16
  flash_SystemCheckTime :: u32
  flash_Toggle :: bool
  gpio_u32NextChangeTime :: u32
  gpio_Toogle :: bool
  spi_u32NextChangeTime :: u32
  PowerOffTime :: u32
  SystemCheckTime :: u32
  g_system_state :: system_state
  check_packetNum :: u8
  rom_pllctl :: u16
  sdram_cell :: u16
  sdram_read :: "u16 \<Rightarrow> u16"
  wdg_bak :: u16
  LED_ulNextChangeTime :: u32
  u8LEDStatus :: bool

text \<open>\<open>sdram_read v\<close> is what a faulty or sound memory cell gives back after \<open>v\<close> was written.\<close>

record board_sys = com_sys +
  board :: board_st

section \<open>system_gpio.c\<close>

datatype gpio_port = GPIOF | GPIOG | GPIOH
datatype GPIOFunc = Function_GPIO | Function_First | Function_Second | Function_Third | Function_Fourth
datatype GPIODir = GPIO_Mode_In | GPIO_Mode_Out

text \<open>The fields of the structure \<open>GPIO_Con\<close> by their offset, and the registers that lie at the
  addresses (\<open>defBF51x_base.h\<close>).\<close>

definition GPIO_CON_BASE :: u32 where "GPIO_CON_BASE = 0xFFC00000 + 0x3200"

fun PORT_fer :: "gpio_port \<Rightarrow> u32" where
  "PORT_fer GPIOF = GPIO_CON_BASE + 0x00" | "PORT_fer GPIOG = GPIO_CON_BASE + 0x04" | "PORT_fer GPIOH = GPIO_CON_BASE + 0x08"

fun PORT_mux :: "gpio_port \<Rightarrow> u32" where
  "PORT_mux GPIOF = GPIO_CON_BASE + 0x0C" | "PORT_mux GPIOG = GPIO_CON_BASE + 0x10" | "PORT_mux GPIOH = GPIO_CON_BASE + 0x14"

definition mmr_at :: "u32 \<Rightarrow> mmr" where
  "mmr_at a =
     (if a = 0xFFC03200 then ''PORTF_FER'' else if a = 0xFFC03204 then ''PORTG_FER''
      else if a = 0xFFC03208 then ''PORTH_FER'' else if a = 0xFFC03210 then ''PORTF_MUX''
      else if a = 0xFFC03214 then ''PORTG_MUX'' else if a = 0xFFC03218 then ''PORTH_MUX''
      else ''reserved'')"

fun gpio_name :: "gpio_port \<Rightarrow> mmr" where
  "gpio_name GPIOF = ''PORTF''" | "gpio_name GPIOG = ''PORTG''" | "gpio_name GPIOH = ''PORTH''"

fun mux_offset :: "gpio_port \<Rightarrow> u16 \<Rightarrow> nat" where
  "mux_offset GPIOF pin =
     (if pin = 0 then 0 else if pin \<le> 6 then 2 else if pin = 7 then 4 else if pin \<le> 10 then 6
      else if pin \<le> 14 then 8 else if pin = 15 then 10 else 0)"
| "mux_offset GPIOG pin =
     (if pin \<le> 2 then 0 else if pin = 3 then 2 else if pin = 4 then 4 else if pin \<le> 7 then 6
      else if pin = 8 then 8 else if pin \<le> 10 then 10 else if pin = 11 then 12 else if pin \<le> 15 then 14 else 0)"
| "mux_offset GPIOH pin =
     (if pin \<le> 3 then 0 else if pin \<le> 5 then 2 else if pin = 6 then 4 else if pin = 7 then 6 else 0)"

definition pin_bit :: "u16 \<Rightarrow> u32" where "pin_bit pin = ucast (push_bit (unat pin) (1 :: u16))"
definition mux_bits :: "u16 \<Rightarrow> nat \<Rightarrow> u32" where "mux_bits v off = ucast (push_bit off v)"

definition gpio_init :: "gpio_port \<Rightarrow> u16 \<Rightarrow> GPIOFunc \<Rightarrow> GPIODir \<Rightarrow> 'a hw_sys_scheme \<Rightarrow> 'a hw_sys_scheme" where
  "gpio_init port pin Function Direction s =
     (let fer = mmr_at (PORT_fer port); mux = mmr_at (PORT_mux port); off = mux_offset port pin;
          special = (\<lambda>v. run [orw fer (pin_bit pin), orw mux (mux_bits v off)]);
          s = (case Function of
                 Function_GPIO \<Rightarrow> run [andw fer (NOT (pin_bit pin)), andw mux (NOT (mux_bits 3 off))] s
               | Function_First \<Rightarrow> special 0 s | Function_Second \<Rightarrow> special 1 s
               | Function_Third \<Rightarrow> special 2 s | Function_Fourth \<Rightarrow> special 3 s)
      in case Direction of
           GPIO_Mode_In \<Rightarrow> run [andw (gpio_name port @ ''IO_DIR'') (NOT (pin_bit pin)),
                                orw (gpio_name port @ ''IO_INEN'') (pin_bit pin)] s
         | GPIO_Mode_Out \<Rightarrow> run [orw (gpio_name port @ ''IO_DIR'') (pin_bit pin),
                                 andw (gpio_name port @ ''IO_INEN'') (NOT (pin_bit pin))] s)"

definition gpio_set :: "gpio_port \<Rightarrow> u16 \<Rightarrow> 'a hw_sys_scheme \<Rightarrow> 'a hw_sys_scheme" where
  "gpio_set port pin s = wr (gpio_name port @ ''IO_SET'') (pin_bit pin) s"

definition gpio_clear :: "gpio_port \<Rightarrow> u16 \<Rightarrow> 'a hw_sys_scheme \<Rightarrow> 'a hw_sys_scheme" where
  "gpio_clear port pin s = wr (gpio_name port @ ''IO_CLEAR'') (pin_bit pin) s"

definition gpio_toggle :: "gpio_port \<Rightarrow> u16 \<Rightarrow> 'a hw_sys_scheme \<Rightarrow> 'a hw_sys_scheme" where
  "gpio_toggle port pin s = wr (gpio_name port @ ''IO_TOGGLE'') (pin_bit pin) s"

definition system_gpio_server :: "'a board_sys_scheme \<Rightarrow> 'a board_sys_scheme" where
  "system_gpio_server s =
     (if IsOnTime (gpio_u32NextChangeTime (board s)) (tick s)
      then s\<lparr>board := (board s)\<lparr>gpio_u32NextChangeTime := gpio_u32NextChangeTime (board s) + 100,
                               gpio_Toogle := \<not> gpio_Toogle (board s)\<rparr>\<rparr>
      else s)"

section \<open>system_spi.c\<close>

record SPI_InitTypeDef =
  SPI_Mode :: u16
  SPI_CPOL :: u16
  SPI_CPHA :: u16
  SPI_FirstBit :: u16
  SPI_DataSize :: u16
  SPI_NSS :: u16
  SPI_SSEL :: u16
  SPI_BaudRate :: u32

abbreviation SPI_CTL_SPE :: u32 where "SPI_CTL_SPE \<equiv> 0x4000"
abbreviation SPI_CTL_MSTR :: u32 where "SPI_CTL_MSTR \<equiv> 0x1000"
abbreviation SPI_CTL_CPOL :: u32 where "SPI_CTL_CPOL \<equiv> 0x0800"
abbreviation SPI_CTL_CPHA :: u32 where "SPI_CTL_CPHA \<equiv> 0x0400"
abbreviation SPI_CTL_LSBF :: u32 where "SPI_CTL_LSBF \<equiv> 0x0200"
abbreviation SPI_CTL_SIZE :: u32 where "SPI_CTL_SIZE \<equiv> 0x0100"
abbreviation SPI_CTL_EMISO :: u32 where "SPI_CTL_EMISO \<equiv> 0x20"
abbreviation SPI_CTL_PSSE :: u32 where "SPI_CTL_PSSE \<equiv> 0x10"
abbreviation SPI_CTL_SZ :: u32 where "SPI_CTL_SZ \<equiv> 0x04"
abbreviation SPI_CTL_TIMOD_TD :: u32 where "SPI_CTL_TIMOD_TD \<equiv> 0x01"
abbreviation SPI_CTL_TIMOD :: u32 where "SPI_CTL_TIMOD \<equiv> 0x03"

text \<open>A field with one value that sets a bit and one that clears it.\<close>

definition ctl_field :: "mmr \<Rightarrow> u16 \<Rightarrow> u16 \<Rightarrow> u16 \<Rightarrow> u32 \<Rightarrow> 'a hw_sys_scheme \<Rightarrow> 'a hw_sys_scheme" where
  "ctl_field r v setv clearv msk s =
     (if v = setv then orw r msk s else if v = clearv then andw r (NOT msk) s else s)"

definition SPI_Init :: "mmr \<Rightarrow> SPI_InitTypeDef \<Rightarrow> 'a hw_sys_scheme \<Rightarrow> 'a hw_sys_scheme" where
  "SPI_Init x c s =
     (let ctl = x @ ''_CTL'';
          s = run [wr ctl (SPI_CTL_EMISO OR SPI_CTL_SZ OR SPI_CTL_TIMOD_TD),
                   ctl_field ctl (SPI_Mode c) 0 1 SPI_CTL_MSTR, ctl_field ctl (SPI_CPOL c) 0 1 SPI_CTL_CPOL,
                   ctl_field ctl (SPI_CPHA c) 0 1 SPI_CTL_CPHA, ctl_field ctl (SPI_FirstBit c) 1 0 SPI_CTL_LSBF,
                   ctl_field ctl (SPI_DataSize c) 1 0 SPI_CTL_SIZE, ctl_field ctl (SPI_NSS c) 1 0 SPI_CTL_PSSE] s;
          s = wr (x @ ''_BAUD'') (getSystemCLK s div 2 div SPI_BaudRate c) s
      in run [orw (x @ ''_FLG'') (push_bit (unat (SPI_SSEL c)) 1), orw ctl SPI_CTL_SPE] s)"

definition SPI_Cmd :: "mmr \<Rightarrow> EnableOrDisable \<Rightarrow> 'a hw_sys_scheme \<Rightarrow> 'a hw_sys_scheme" where
  "SPI_Cmd x NewState s =
     (case NewState of ENABLE \<Rightarrow> orw (x @ ''_CTL'') SPI_CTL_SPE s
      | DISABLE \<Rightarrow> andw (x @ ''_CTL'') (NOT SPI_CTL_SPE) s)"

definition SPI_Timod :: "mmr \<Rightarrow> u8 \<Rightarrow> 'a hw_sys_scheme \<Rightarrow> 'a hw_sys_scheme" where
  "SPI_Timod x mode s =
     run [andw (x @ ''_CTL'') (NOT SPI_CTL_TIMOD), orw (x @ ''_CTL'') (ucast mode AND SPI_CTL_TIMOD)] s"

definition SPI_SSel :: "mmr \<Rightarrow> u8 \<Rightarrow> bool \<Rightarrow> 'a hw_sys_scheme \<Rightarrow> 'a hw_sys_scheme" where
  "SPI_SSel x Ssel NewState s =
     (if NewState then orw (x @ ''_FLG'') (push_bit (unat Ssel + 8) 1) s
      else andw (x @ ''_FLG'') (NOT (push_bit (unat Ssel + 8) 1)) s)"

definition set_spi :: "(spi_device \<Rightarrow> spi_device) \<Rightarrow> 'a board_sys_scheme \<Rightarrow> 'a board_sys_scheme" where
  "set_spi f s = s\<lparr>board := (board s)\<lparr>g_spi_dev := f (g_spi_dev (board s))\<rparr>\<rparr>"

definition system_spi_device_init :: "u8 \<Rightarrow> 'a board_sys_scheme \<Rightarrow> 'a board_sys_scheme" where
  "system_spi_device_init ch s =
     set_spi (\<lambda>d. d\<lparr>spi_rx_len := 0, spi_tx_len := 0\<rparr>)
       (if ch = 0 then set_spi (\<lambda>d. d\<lparr>SPIx := ''SPI0'', spi_ch := 0, spi_ssel := 2\<rparr>) s
        else if ch = 1 then set_spi (\<lambda>d. d\<lparr>SPIx := ''SPI1'', spi_ch := 1, spi_ssel := 1\<rparr>) s
        else s)"

definition system_spi_pin_init :: "'a board_sys_scheme \<Rightarrow> 'a board_sys_scheme" where
  "system_spi_pin_init s =
     (if spi_ch (g_spi_dev (board s)) = 0
      then run [gpio_init GPIOG 12 Function_First GPIO_Mode_Out, gpio_init GPIOG 13 Function_First GPIO_Mode_Out,
                gpio_init GPIOG 14 Function_First GPIO_Mode_Out, gpio_init GPIOG 15 Function_First GPIO_Mode_Out] s
      else if spi_ch (g_spi_dev (board s)) = 1
      then run [gpio_init GPIOH 0 Function_Second GPIO_Mode_Out, gpio_init GPIOH 1 Function_Second GPIO_Mode_Out,
                gpio_init GPIOH 2 Function_Second GPIO_Mode_Out, gpio_init GPIOH 3 Function_Second GPIO_Mode_Out] s
      else s)"

definition spi_mode :: SPI_InitTypeDef where
  "spi_mode = \<lparr>SPI_Mode = 0, SPI_CPOL = 0, SPI_CPHA = 0, SPI_FirstBit = 0, SPI_DataSize = 0, SPI_NSS = 0,
               SPI_SSEL = 2, SPI_BaudRate = 33000000\<rparr>"

definition system_spi_mode_init :: "'a board_sys_scheme \<Rightarrow> 'a board_sys_scheme" where
  "system_spi_mode_init s = SPI_Init (SPIx (g_spi_dev (board s))) spi_mode s"

definition system_spi_interrupt_init :: "'a board_sys_scheme \<Rightarrow> 'a board_sys_scheme" where
  "system_spi_interrupt_init s = SPI_Cmd (SPIx (g_spi_dev (board s))) ENABLE s"

definition system_spi_hw_init :: "u8 \<Rightarrow> 'a board_sys_scheme \<Rightarrow> 'a board_sys_scheme" where
  "system_spi_hw_init ch s =
     run [system_spi_device_init ch, system_spi_pin_init, system_spi_mode_init, system_spi_interrupt_init] s"

definition system_spi_init :: "'a board_sys_scheme \<Rightarrow> 'a board_sys_scheme" where
  "system_spi_init s = system_spi_hw_init 0 s"

text \<open>One exchange waits until the transmit buffer is free and until a byte has come in.  Without an
  input the second wait does not end, which is recorded as a fault.\<close>

definition spi_exchange :: "u8 \<Rightarrow> 'a board_sys_scheme \<Rightarrow> u8 \<times> 'a board_sys_scheme" where
  "spi_exchange b s =
     (let s = wr (SPIx (g_spi_dev (board s)) @ ''_TDBR'') (ucast b) s;
          s = s\<lparr>board := (board s)\<lparr>spi_frame := spi_frame (board s) @ [b]\<rparr>\<rparr>
      in case spi_in (board s) of
           [] \<Rightarrow> (0, raise_fault s)
         | y # ys \<Rightarrow> (y, s\<lparr>board := (board s)\<lparr>spi_in := ys\<rparr>\<rparr>))"

fun spi_exchanges :: "bytes \<Rightarrow> 'a board_sys_scheme \<Rightarrow> bytes \<times> 'a board_sys_scheme" where
  "spi_exchanges [] s = ([], s)"
| "spi_exchanges (b # bs) s =
     (let (y, s) = spi_exchange b s; (ys, s) = spi_exchanges bs s in (y # ys, s))"

definition spi_select :: "'a board_sys_scheme \<Rightarrow> 'a board_sys_scheme" where
  "spi_select s = SPI_SSel (SPIx (g_spi_dev (board s))) (spi_ssel (g_spi_dev (board s))) False s"

definition spi_release :: "'a board_sys_scheme \<Rightarrow> 'a board_sys_scheme" where
  "spi_release s =
     (let s = SPI_SSel (SPIx (g_spi_dev (board s))) (spi_ssel (g_spi_dev (board s))) True s
      in s\<lparr>board := (board s)\<lparr>spi_log := spi_frame (board s) # spi_log (board s), spi_frame := []\<rparr>\<rparr>)"

definition system_spi_write_byte :: "u8 \<Rightarrow> 'a board_sys_scheme \<Rightarrow> u8 \<times> 'a board_sys_scheme" where
  "system_spi_write_byte b s = (let (y, s) = spi_exchange b (spi_select s) in (y, spi_release s))"

definition system_spi_write_buf :: "bytes \<Rightarrow> bytes \<Rightarrow> 'a board_sys_scheme \<Rightarrow> 'a board_sys_scheme" where
  "system_spi_write_buf cmd buf s =
     (let s = snd (spi_exchanges cmd (spi_select s)); s = snd (spi_exchanges buf s) in spi_release s)"

definition system_spi_read_byte :: "'a board_sys_scheme \<Rightarrow> u8 \<times> 'a board_sys_scheme" where
  "system_spi_read_byte s = (let (y, s) = spi_exchange 0xFF (spi_select s) in (y, spi_release s))"

definition system_spi_read_buf :: "bytes \<Rightarrow> u16 \<Rightarrow> 'a board_sys_scheme \<Rightarrow> bytes \<times> 'a board_sys_scheme" where
  "system_spi_read_buf cmd len s =
     (let s = snd (spi_exchanges cmd (spi_select s));
          (ys, s) = spi_exchanges (replicate (unat len) 0xFF) s
      in (ys, spi_release s))"

definition system_spi_server :: "'a board_sys_scheme \<Rightarrow> 'a board_sys_scheme" where
  "system_spi_server s =
     (if IsOnTime (spi_u32NextChangeTime (board s)) (tick s)
      then s\<lparr>board := (board s)\<lparr>spi_u32NextChangeTime := SysTick_Get (tick s) + 1000\<rparr>\<rparr>
      else s)"

section \<open>system_sflash.c\<close>

abbreviation FLASH_CMD_WREN :: u8 where "FLASH_CMD_WREN \<equiv> 0x06"
abbreviation FLASH_CMD_RDSRL :: u8 where "FLASH_CMD_RDSRL \<equiv> 0x05"
abbreviation FLASH_CMD_RDSRH :: u8 where "FLASH_CMD_RDSRH \<equiv> 0x35"
abbreviation FLASH_CMD_READ :: u8 where "FLASH_CMD_READ \<equiv> 0x03"
abbreviation FLASH_CMD_PP :: u8 where "FLASH_CMD_PP \<equiv> 0x02"
abbreviation FLASH_CMD_SE :: u8 where "FLASH_CMD_SE \<equiv> 0x20"
abbreviation FLASH_CMD_BE_32K :: u8 where "FLASH_CMD_BE_32K \<equiv> 0x52"
abbreviation FLASH_CMD_CE :: u8 where "FLASH_CMD_CE \<equiv> 0x60"
abbreviation FLASH_CMD_DP :: u8 where "FLASH_CMD_DP \<equiv> 0xB9"
abbreviation FLASH_CMD_RDI :: u8 where "FLASH_CMD_RDI \<equiv> 0xAB"
abbreviation FLASH_CMD_RDID :: u8 where "FLASH_CMD_RDID \<equiv> 0x9F"
abbreviation FLASH_BIT_WIP :: u8 where "FLASH_BIT_WIP \<equiv> 0x01"

definition FLASH_PAGE_SIZE :: nat where "FLASH_PAGE_SIZE = 256"
definition FLASH_SECTOR_SIZE :: u32 where "FLASH_SECTOR_SIZE = 4096"
definition FLASH_BLOCK_32K_SIZE :: u32 where "FLASH_BLOCK_32K_SIZE = 32 * 1024"

definition SFlash_Init :: "'a board_sys_scheme \<Rightarrow> 'a board_sys_scheme" where "SFlash_Init s = s"
definition SFlash_SelfCheck :: "'a board_sys_scheme \<Rightarrow> 'a board_sys_scheme" where "SFlash_SelfCheck s = s"

definition system_sflash_init :: "'a board_sys_scheme \<Rightarrow> 'a board_sys_scheme" where
  "system_sflash_init s = s\<lparr>board := (board s)\<lparr>flash_rx_len := 0, flash_tx_len := 0\<rparr>\<rparr>"

definition send_raw :: "bytes \<Rightarrow> 'a uart_sys_scheme \<Rightarrow> 'a uart_sys_scheme" where
  "send_raw bs s = s\<lparr>uart := AIO_UART_SendBuf bs (uart s)\<rparr>"

definition system_flash_id :: "'a board_sys_scheme \<Rightarrow> 'a board_sys_scheme" where
  "system_flash_id s = (let (v, s) = system_spi_read_buf [FLASH_CMD_RDID] 3 s in send_raw v s)"

definition system_flash_status_high :: "'a board_sys_scheme \<Rightarrow> u8 \<times> 'a board_sys_scheme" where
  "system_flash_status_high s = (let (v, s) = system_spi_read_buf [FLASH_CMD_RDSRH] 1 s in (v ! 0, s))"

definition system_flash_status_low :: "'a board_sys_scheme \<Rightarrow> u8 \<times> 'a board_sys_scheme" where
  "system_flash_status_low s = (let (v, s) = system_spi_read_buf [FLASH_CMD_RDSRL] 1 s in (v ! 0, s))"

text \<open>C leaves the order of the two reads open; the model takes the first one first.\<close>

definition system_flash_status :: "'a board_sys_scheme \<Rightarrow> u16 \<times> 'a board_sys_scheme" where
  "system_flash_status s =
     (let (h, s) = system_flash_status_high s; (l, s) = system_flash_status_low s
      in (push_bit 8 (ucast h) OR ucast l, s))"

definition delay_us :: "u32 \<Rightarrow> 'a hw_sys_scheme \<Rightarrow> 'a hw_sys_scheme" where
  "delay_us usec s = emit (BusyDelay usec) s"

text \<open>\<open>while ((status & WIP) && timeout--)\<close>: the first component is \<open>timeout\<close> after the loop.\<close>

fun flash_wait_loop :: "nat \<Rightarrow> 'a board_sys_scheme \<Rightarrow> int \<times> 'a board_sys_scheme" where
  "flash_wait_loop t s =
     (let (st, s) = system_flash_status_low s
      in if st AND FLASH_BIT_WIP = 0 then (int t, s)
         else if t = 0 then (-1, s)
         else flash_wait_loop (t - 1) (delay_us 1 s))"

declare flash_wait_loop.simps [simp del]

definition system_flash_wait :: "'a board_sys_scheme \<Rightarrow> int \<times> 'a board_sys_scheme" where
  "system_flash_wait s =
     (let (timeout, s) = flash_wait_loop 1000000 s
      in if timeout > 1 then (0, s)
         else (-1, AIO_printf (crnl @ str ''[SYSTEM_CHECK] system_flash_wait timeout.'') s))"

definition system_flash_write_enable :: "'a board_sys_scheme \<Rightarrow> 'a board_sys_scheme" where
  "system_flash_write_enable s = system_spi_write_buf [FLASH_CMD_WREN] [] s"

definition system_flash_power_down :: "EnableOrDisable \<Rightarrow> 'a board_sys_scheme \<Rightarrow> 'a board_sys_scheme" where
  "system_flash_power_down mode s =
     (let s = snd (system_flash_wait s)
      in system_spi_write_buf [if mode = ENABLE then FLASH_CMD_DP else FLASH_CMD_RDI] [] s)"

definition flash_addr :: "u32 \<Rightarrow> bytes" where
  "flash_addr a = [ucast (drop_bit 16 a AND 0xFF), ucast (drop_bit 8 a AND 0xFF), ucast (a AND 0xFF)]"

text \<open>The commands that change the chip: each waits, enables writing and sends one frame.\<close>

definition flash_command :: "bytes \<Rightarrow> bytes \<Rightarrow> 'a board_sys_scheme \<Rightarrow> 'a board_sys_scheme" where
  "flash_command cmd buf s =
     system_spi_write_buf cmd buf (system_flash_write_enable (snd (system_flash_wait s)))"

definition system_flash_erase_sector :: "u32 \<Rightarrow> 'a board_sys_scheme \<Rightarrow> 'a board_sys_scheme" where
  "system_flash_erase_sector a s = flash_command (FLASH_CMD_SE # flash_addr a) [] s"

definition system_flash_erase_block :: "u32 \<Rightarrow> 'a board_sys_scheme \<Rightarrow> 'a board_sys_scheme" where
  "system_flash_erase_block a s = flash_command (FLASH_CMD_BE_32K # flash_addr a) [] s"

definition system_flash_erase_chip :: "u32 \<Rightarrow> 'a board_sys_scheme \<Rightarrow> 'a board_sys_scheme" where
  "system_flash_erase_chip a s = flash_command [FLASH_CMD_CE] [] s"

primrec erase_blocks :: "nat \<Rightarrow> u32 \<Rightarrow> u32 \<Rightarrow> 'a board_sys_scheme \<Rightarrow> u32 \<times> 'a board_sys_scheme" where
  "erase_blocks 0 step a s = (a, s)"
| "erase_blocks (Suc n) step a s = erase_blocks n step (a + step) (system_flash_erase_block a s)"

text \<open>The second loop advances by a sector but erases a block of 32K each time.  The counters are of
  type \<open>int\<close>; the bounds are below \<open>2 ^ 31\<close>.\<close>

definition system_flash_erase :: "u32 \<Rightarrow> u32 \<Rightarrow> 'a board_sys_scheme \<Rightarrow> 'a board_sys_scheme" where
  "system_flash_erase a len s =
     (let n = unat (len div FLASH_BLOCK_32K_SIZE);
          (a, s) = erase_blocks n FLASH_BLOCK_32K_SIZE a s;
          len = len - of_nat n * FLASH_BLOCK_32K_SIZE
      in snd (erase_blocks (unat (len div FLASH_SECTOR_SIZE + 1)) FLASH_SECTOR_SIZE a s))"

definition system_flash_write_byte :: "u32 \<Rightarrow> u8 \<Rightarrow> 'a board_sys_scheme \<Rightarrow> 'a board_sys_scheme" where
  "system_flash_write_byte a b s = flash_command (FLASH_CMD_PP # flash_addr a) [b] s"

definition system_flash_write_page :: "u32 \<Rightarrow> bytes \<Rightarrow> 'a board_sys_scheme \<Rightarrow> 'a board_sys_scheme" where
  "system_flash_write_page a buf s = flash_command (FLASH_CMD_PP # flash_addr a) (take FLASH_PAGE_SIZE buf) s"

primrec flash_write_pages :: "nat \<Rightarrow> u32 \<Rightarrow> bytes \<Rightarrow> 'a board_sys_scheme \<Rightarrow> 'a board_sys_scheme" where
  "flash_write_pages 0 a buf s = s"
| "flash_write_pages (Suc n) a buf s =
     flash_write_pages n (a + of_nat FLASH_PAGE_SIZE) (drop FLASH_PAGE_SIZE buf) (system_flash_write_page a buf s)"

primrec flash_write_bytes :: "nat \<Rightarrow> u32 \<Rightarrow> bytes \<Rightarrow> 'a board_sys_scheme \<Rightarrow> 'a board_sys_scheme" where
  "flash_write_bytes 0 a buf s = s"
| "flash_write_bytes (Suc n) a buf s =
     flash_write_bytes n (a + 1) (drop 1 buf) (system_flash_write_byte a (buf ! 0) s)"

definition system_flash_write_buf :: "u32 \<Rightarrow> bytes \<Rightarrow> u16 \<Rightarrow> 'a board_sys_scheme \<Rightarrow> 'a board_sys_scheme" where
  "system_flash_write_buf a buf len s =
     (let n = unat len div FLASH_PAGE_SIZE;
          s = flash_write_pages n a buf s
      in flash_write_bytes (unat len mod FLASH_PAGE_SIZE) (a + of_nat (n * FLASH_PAGE_SIZE))
           (drop (n * FLASH_PAGE_SIZE) buf) s)"

definition system_flash_read_byte :: "u32 \<Rightarrow> 'a board_sys_scheme \<Rightarrow> u8 \<times> 'a board_sys_scheme" where
  "system_flash_read_byte a s =
     (let s = snd (system_flash_wait s);
          (v, s) = system_spi_read_buf (FLASH_CMD_READ # flash_addr a) 1 s
      in (v ! 0, send_raw v s))"

definition system_flash_read_buf :: "u32 \<Rightarrow> u16 \<Rightarrow> 'a board_sys_scheme \<Rightarrow> bytes \<times> 'a board_sys_scheme" where
  "system_flash_read_buf a len s =
     (let s = snd (system_flash_wait s);
          (v, s) = system_spi_read_buf (FLASH_CMD_READ # flash_addr a) len s
      in (v, send_raw v s))"

definition system_sflash_server :: "'a board_sys_scheme \<Rightarrow> 'a board_sys_scheme" where
  "system_sflash_server s =
     (if IsOnTime (flash_SystemCheckTime (board s)) (tick s)
      then s\<lparr>board := (board s)\<lparr>flash_SystemCheckTime := flash_SystemCheckTime (board s) + 500,
                               flash_Toggle := \<not> flash_Toggle (board s)\<rparr>\<rparr>
      else s)"

section \<open>The frames sent to the flash\<close>

text \<open>The frames that are not polls of the status register, oldest first; what a program command
  writes; and whether it stays in one page of 256 bytes, where the chip would otherwise wrap around.\<close>

definition status_poll :: bytes where "status_poll = [FLASH_CMD_RDSRL, 0xFF]"

definition flash_frames :: "board_st \<Rightarrow> bytes list" where
  "flash_frames b = filter (\<lambda>f. f \<noteq> status_poll) (rev (spi_log b))"

definition be24 :: "u8 \<Rightarrow> u8 \<Rightarrow> u8 \<Rightarrow> nat" where
  "be24 a2 a1 a0 = 65536 * unat a2 + 256 * unat a1 + unat a0"

fun frame_writes :: "bytes \<Rightarrow> (nat \<times> u8) list" where
  "frame_writes (c # a2 # a1 # a0 # dat) =
     (if c = FLASH_CMD_PP then range_writes (be24 a2 a1 a0) dat (length dat) else [])"
| "frame_writes _ = []"

fun frame_in_page :: "bytes \<Rightarrow> bool" where
  "frame_in_page (c # a2 # a1 # a0 # dat) = (c \<noteq> FLASH_CMD_PP \<or> be24 a2 a1 a0 mod 256 + length dat \<le> 256)"
| "frame_in_page _ = True"

lemma spi_ssel_board [simp]: "board (SPI_SSel x n b s) = board s"
  by (simp add: SPI_SSel_def orw_def andw_def wr_def)

lemma spi_exchange_board [simp]:
  "spi_log (board (snd (spi_exchange b s))) = spi_log (board s)"
  "spi_frame (board (snd (spi_exchange b s))) = spi_frame (board s) @ [b]"
  by (simp_all add: spi_exchange_def Let_def wr_def raise_fault_def split: list.split)

lemma spi_exchanges_board [simp]:
  "spi_log (board (snd (spi_exchanges bs s))) = spi_log (board s)"
  "spi_frame (board (snd (spi_exchanges bs s))) = spi_frame (board s) @ bs"
  by (induction bs arbitrary: s) (simp_all add: case_prod_beta Let_def)

lemma system_spi_write_buf_board [simp]:
  "spi_log (board (system_spi_write_buf cmd buf s)) = (spi_frame (board s) @ cmd @ buf) # spi_log (board s)"
  "spi_frame (board (system_spi_write_buf cmd buf s)) = []"
  by (simp_all add: system_spi_write_buf_def spi_release_def spi_select_def Let_def)

lemma system_spi_read_buf_board [simp]:
  "spi_log (board (snd (system_spi_read_buf cmd n s)))
     = (spi_frame (board s) @ cmd @ replicate (unat n) 0xFF) # spi_log (board s)"
  "spi_frame (board (snd (system_spi_read_buf cmd n s))) = []"
  by (simp_all add: system_spi_read_buf_def spi_release_def spi_select_def Let_def case_prod_beta)

lemma system_flash_status_low_board [simp]:
  "spi_log (board (snd (system_flash_status_low s))) = (spi_frame (board s) @ status_poll) # spi_log (board s)"
  "spi_frame (board (snd (system_flash_status_low s))) = []"
  by (simp_all add: system_flash_status_low_def Let_def case_prod_beta status_poll_def)

lemma board_delay_us [simp]: "board (delay_us n s) = board s"
  by (simp add: delay_us_def emit_def)

lemma board_AIO_printf [simp]: "board (AIO_printf m s) = board s"
  by (simp add: AIO_printf_def)

lemma flash_wait_loop_frames:
  "spi_frame (board s) = [] \<Longrightarrow>
     flash_frames (board (snd (flash_wait_loop t s))) = flash_frames (board s) \<and>
     spi_frame (board (snd (flash_wait_loop t s))) = []"
proof (induction t s rule: flash_wait_loop.induct)
  case (1 t s)
  let ?s = "snd (system_flash_status_low s)"
  have f: "flash_frames (board ?s) = flash_frames (board s)" "spi_frame (board ?s) = []"
    using 1(2) by (simp_all add: flash_frames_def)
  show ?case
  proof (cases "fst (system_flash_status_low s) AND FLASH_BIT_WIP = 0 \<or> t = 0")
    case True
    then show ?thesis using f by (subst (1 2) flash_wait_loop.simps) (auto simp: case_prod_beta Let_def)
  next
    case False
    then have "fst (system_flash_status_low s) AND FLASH_BIT_WIP \<noteq> 0" "t \<noteq> 0"
      "spi_frame (board (delay_us 1 ?s)) = []" using f by simp_all
    from 1(1) [OF refl prod.collapse this] f have
      "flash_frames (board (snd (flash_wait_loop (t - 1) (delay_us 1 ?s)))) = flash_frames (board (delay_us 1 ?s))
       \<and> spi_frame (board (snd (flash_wait_loop (t - 1) (delay_us 1 ?s)))) = []" by simp
    then show ?thesis using False f by (subst (1 2) flash_wait_loop.simps) (auto simp: case_prod_beta Let_def)
  qed
qed

lemma system_flash_wait_frames:
  assumes "spi_frame (board s) = []"
  shows "flash_frames (board (snd (system_flash_wait s))) = flash_frames (board s)"
    "spi_frame (board (snd (system_flash_wait s))) = []"
  using flash_wait_loop_frames [OF assms, of 1000000]
  by (simp_all add: system_flash_wait_def case_prod_beta Let_def)

lemma flash_command_frames:
  assumes "spi_frame (board s) = []" "cmd \<noteq> []" "hd cmd \<noteq> FLASH_CMD_RDSRL"
  shows "flash_frames (board (flash_command cmd buf s)) = flash_frames (board s) @ [[FLASH_CMD_WREN], cmd @ buf]"
    "spi_frame (board (flash_command cmd buf s)) = []"
proof -
  have "cmd @ buf \<noteq> status_poll" using assms(2,3) by (cases cmd) (simp_all add: status_poll_def)
  then show "flash_frames (board (flash_command cmd buf s)) = flash_frames (board s) @ [[FLASH_CMD_WREN], cmd @ buf]"
    using system_flash_wait_frames [OF assms(1)]
    by (simp add: flash_command_def system_flash_write_enable_def flash_frames_def status_poll_def)
qed (simp add: flash_command_def)

definition program_frames :: "u32 \<Rightarrow> bytes \<Rightarrow> bytes list" where
  "program_frames a dat = [[FLASH_CMD_WREN], FLASH_CMD_PP # flash_addr a @ dat]"

primrec page_frames :: "nat \<Rightarrow> u32 \<Rightarrow> bytes \<Rightarrow> bytes list" where
  "page_frames 0 a buf = []"
| "page_frames (Suc n) a buf = program_frames a (take 256 buf) @ page_frames n (a + 256) (drop 256 buf)"

primrec byte_frames :: "nat \<Rightarrow> u32 \<Rightarrow> bytes \<Rightarrow> bytes list" where
  "byte_frames 0 a buf = []"
| "byte_frames (Suc n) a buf = program_frames a [buf ! 0] @ byte_frames n (a + 1) (drop 1 buf)"

lemma flash_write_pages_frames:
  "spi_frame (board s) = [] \<Longrightarrow>
     flash_frames (board (flash_write_pages n a buf s)) = flash_frames (board s) @ page_frames n a buf \<and>
     spi_frame (board (flash_write_pages n a buf s)) = []"
  by (induction n arbitrary: a buf s)
     (simp_all add: system_flash_write_page_def flash_command_frames program_frames_def FLASH_PAGE_SIZE_def)

lemma flash_write_bytes_frames:
  "spi_frame (board s) = [] \<Longrightarrow>
     flash_frames (board (flash_write_bytes n a buf s)) = flash_frames (board s) @ byte_frames n a buf \<and>
     spi_frame (board (flash_write_bytes n a buf s)) = []"
  by (induction n arbitrary: a buf s)
     (simp_all add: system_flash_write_byte_def flash_command_frames program_frames_def)

text \<open>Commands that are each announced by a write-enable frame, and page-program frames with data.\<close>

definition enabled :: "bytes list \<Rightarrow> bytes list" where
  "enabled ps = concat (List.map (\<lambda>p. [[FLASH_CMD_WREN], p]) ps)"

definition is_program :: "bytes \<Rightarrow> bool" where
  "is_program f \<longleftrightarrow> hd f = FLASH_CMD_PP \<and> 4 < length f"

lemma enabled_simps [simp]:
  "enabled [] = []" "enabled (p # ps) = [FLASH_CMD_WREN] # p # enabled ps" "enabled (ps @ qs) = enabled ps @ enabled qs"
  "concat (List.map frame_writes (enabled ps)) = concat (List.map frame_writes ps)"
  "list_all frame_in_page (enabled ps) = list_all frame_in_page ps"
  by (induction ps) (simp_all add: enabled_def)

lemma is_program_Cons: "is_program (FLASH_CMD_PP # flash_addr a @ dat) = (dat \<noteq> [])"
  by (simp add: is_program_def flash_addr_def)

lemma page_frames_enabled:
  "256 * n \<le> length buf \<Longrightarrow> \<exists>ps. page_frames n a buf = enabled ps \<and> list_all is_program ps"
proof (induction n arbitrary: a buf)
  case (Suc n)
  then obtain ps where "page_frames n (a + 256) (drop 256 buf) = enabled ps \<and> list_all is_program ps"
    using Suc.IH [of "drop 256 buf" "a + 256"] by fastforce
  then show ?case using Suc.prems
    by (intro exI [of _ "(FLASH_CMD_PP # flash_addr a @ take 256 buf) # ps"])
       (auto simp add: program_frames_def is_program_Cons)
qed (intro exI [of _ "[]"], simp)

lemma byte_frames_enabled: "\<exists>ps. byte_frames n a buf = enabled ps \<and> list_all is_program ps"
proof (induction n arbitrary: a buf)
  case (Suc n)
  from Suc.IH [of "a + 1" "drop 1 buf"] obtain ps
    where "byte_frames n (a + 1) (drop 1 buf) = enabled ps \<and> list_all is_program ps" by blast
  then show ?case
    by (intro exI [of _ "(FLASH_CMD_PP # flash_addr a @ [buf ! 0]) # ps"])
       (simp add: program_frames_def is_program_Cons)
qed (intro exI [of _ "[]"], simp)

lemma be24_flash_addr:
  assumes "unat a < 2 ^ 24"
  shows "be24 (ucast (drop_bit 16 a AND 0xFF)) (ucast (drop_bit 8 a AND 0xFF)) (ucast (a AND 0xFF :: u32)) = unat a"
proof -
  have b: "unat (ucast (x AND 0xFF :: u32) :: u8) = unat x mod 256" for x :: u32
  proof -
    have "x AND 0xFF = take_bit 8 x" by (simp add: take_bit_eq_mask mask_numeral)
    then show ?thesis by (simp add: unsigned_ucast_eq unsigned_take_bit_eq take_bit_eq_mod unat_mod)
  qed
  have d: "unat (drop_bit n a) = unat a div 2 ^ n" for n
    by (simp only: unsigned_drop_bit_eq) (simp add: drop_bit_eq_div take_bit_eq_mod unat_lt2p [of a, simplified])
  have "unat a div 65536 mod 256 = unat a div 65536" using assms by simp
  moreover have "unat a mod 65536 = 256 * (unat a div 256 mod 256) + unat a mod 256"
    using mod_mult2_eq [of "unat a" 256 256] by simp
  ultimately show ?thesis
    unfolding be24_def b d using div_mult_mod_eq [of "unat a" 65536] by simp
qed

lemma program_frames_writes:
  assumes "unat a + length dat \<le> 2 ^ 24" "dat \<noteq> []"
  shows "concat (List.map frame_writes (program_frames a dat)) = range_writes (unat a) dat (length dat)"
    "list_all frame_in_page (program_frames a dat) = (unat a mod 256 + length dat \<le> 256)"
proof -
  have "unat a < 2 ^ 24" using assms by (cases dat) auto
  note b = be24_flash_addr [OF this]
  show "concat (List.map frame_writes (program_frames a dat)) = range_writes (unat a) dat (length dat)"
    unfolding program_frames_def flash_addr_def by (simp add: b)
  show "list_all frame_in_page (program_frames a dat) = (unat a mod 256 + length dat \<le> 256)"
    unfolding program_frames_def flash_addr_def by (simp add: b)
qed

lemma unat_u32_add: "unat (a :: u32) + n < 2 ^ 32 \<Longrightarrow> unat (a + of_nat n) = unat a + n"
proof -
  assume h: "unat a + n < 2 ^ 32"
  then have "unat (of_nat n :: u32) = n" by (intro unat_of_nat_small) simp
  with h show ?thesis by (simp add: unat_word_ariths)
qed

lemma range_writes_take: "m \<le> length dat \<Longrightarrow> range_writes a (take m dat) (length (take m dat)) = range_writes a dat m"
  by (simp add: range_writes_def min_absorb2)

lemma page_frames_writes:
  "unat a mod 256 = 0 \<Longrightarrow> 256 * n \<le> length buf \<Longrightarrow> unat a + 256 * n \<le> 2 ^ 24 \<Longrightarrow>
     concat (List.map frame_writes (page_frames n a buf)) = range_writes (unat a) buf (256 * n) \<and>
     list_all frame_in_page (page_frames n a buf)"
proof (induction n arbitrary: a buf)
  case (Suc n)
  have a: "unat (a + 256) = unat a + 256" using unat_u32_add [of a 256] Suc.prems by simp
  have p: "unat a + length (take 256 buf) \<le> 2 ^ 24" "take 256 buf \<noteq> []" using Suc.prems by auto
  have l: "length (take 256 buf) = 256" using Suc.prems by simp
  have "concat (List.map frame_writes (page_frames n (a + 256) (drop 256 buf)))
        = range_writes (unat a + 256) (drop 256 buf) (256 * n)
      \<and> list_all frame_in_page (page_frames n (a + 256) (drop 256 buf))"
    using Suc.IH [of "a + 256" "drop 256 buf"] Suc.prems a by (simp add: mod_add_self2)
  then show ?case
    using program_frames_writes [OF p] range_writes_take [of 256 buf] range_writes_append [of 256 buf "unat a" "256 * n"]
      Suc.prems l by simp
qed (simp add: range_writes_def)

lemma byte_frames_writes:
  "n \<le> length buf \<Longrightarrow> unat a + n \<le> 2 ^ 24 \<Longrightarrow>
     concat (List.map frame_writes (byte_frames n a buf)) = range_writes (unat a) buf n \<and>
     list_all frame_in_page (byte_frames n a buf)"
proof (induction n arbitrary: a buf)
  case (Suc n)
  obtain b bs where buf: "buf = b # bs" using Suc.prems by (cases buf) auto
  have a: "unat (a + 1) = unat a + 1" using unat_u32_add [of a 1] Suc.prems by simp
  have "unat a mod 256 + length [b] \<le> 256"
    using mod_less_divisor [of 256 "unat a"] by (simp del: mod_less_divisor)
  then have "concat (List.map frame_writes (program_frames a [b])) = range_writes (unat a) buf 1
      \<and> list_all frame_in_page (program_frames a [b])"
    using program_frames_writes [of a "[b]"] Suc.prems by (simp add: range_writes_def buf)
  then show ?case
    using Suc.IH [of bs "a + 1"] range_writes_append [of 1 buf "unat a" n] Suc.prems a by (simp add: buf)
qed (simp add: range_writes_def)

text \<open>C22: writing a buffer to the serial flash, at an address that starts a page or with less than a
  page of data, sends page-program commands that store exactly the buffer, each byte at its address
  and in order, none of them across a page boundary, and each announced by a write-enable command; polls of the
  status register apart, no other command is sent, and the chip select is released at the end.\<close>

theorem flash_write_exact:
  assumes "spi_frame (board s) = []" "unat a mod 256 = 0 \<or> unat len < 256"
    "unat len \<le> length buf" "unat a + unat len \<le> 2 ^ 24"
  shows "\<exists>ps. flash_frames (board (system_flash_write_buf a buf len s)) = flash_frames (board s) @ enabled ps
     \<and> list_all is_program ps \<and> concat (List.map frame_writes ps) = range_writes (unat a) buf (unat len)
     \<and> list_all frame_in_page ps \<and> spi_frame (board (system_flash_write_buf a buf len s)) = []"
proof -
  let ?n = "unat len div 256" and ?r = "unat len mod 256"
  let ?a = "a + of_nat (?n * 256)"
  let ?fs = "page_frames ?n a buf @ byte_frames ?r ?a (drop (?n * 256) buf)"
  have L: "256 * ?n + ?r = unat len" by simp
  have a: "unat ?a = unat a + 256 * ?n" using unat_u32_add [of a "?n * 256"] assms(4) by simp
  have "?r \<le> length buf - ?n * 256" using assms(3) L by linarith
  then have p: "?r \<le> length (drop (?n * 256) buf)" "unat ?a + ?r \<le> 2 ^ 24"
    using assms(4) L unfolding a by simp_all
  have "concat (List.map frame_writes (page_frames ?n a buf)) = range_writes (unat a) buf (256 * ?n)
      \<and> list_all frame_in_page (page_frames ?n a buf)"
  proof (cases "?n = 0")
    case True then show ?thesis by (simp add: range_writes_def)
  next
    case False
    then have "unat a mod 256 = 0" using assms(2) by (auto simp: div_eq_0_iff)
    then show ?thesis using page_frames_writes [of a ?n buf] assms(3,4) L by linarith
  qed
  moreover have "concat (List.map frame_writes (byte_frames ?r ?a (drop (?n * 256) buf)))
        = range_writes (unat a + 256 * ?n) (drop (256 * ?n) buf) ?r
      \<and> list_all frame_in_page (byte_frames ?r ?a (drop (?n * 256) buf))"
    using byte_frames_writes [OF p] unfolding a by (simp only: mult.commute)
  ultimately have w: "concat (List.map frame_writes ?fs) = range_writes (unat a) buf (unat len)" "list_all frame_in_page ?fs"
    using range_writes_append [of "256 * ?n" buf "unat a" ?r] assms(3) L by simp_all
  obtain ps qs where pq: "page_frames ?n a buf = enabled ps" "list_all is_program ps"
    "byte_frames ?r ?a (drop (?n * 256) buf) = enabled qs" "list_all is_program qs"
    using page_frames_enabled [of ?n buf a] byte_frames_enabled [of ?r ?a "drop (?n * 256) buf"] assms(3) L
    by (metis (no_types, lifting) add_leD1 le_trans)
  have e: "?fs = enabled (ps @ qs)" using pq by simp
  have f: "flash_frames (board (system_flash_write_buf a buf len s)) = flash_frames (board s) @ ?fs"
    "spi_frame (board (system_flash_write_buf a buf len s)) = []"
    using flash_write_pages_frames [OF assms(1), of ?n a buf]
    by (simp_all add: system_flash_write_buf_def FLASH_PAGE_SIZE_def Let_def flash_write_bytes_frames)
  show ?thesis using f w pq unfolding e enabled_simps(4,5) by (intro exI [of _ "ps @ qs"]) simp
qed

lemma flash_write_exact_witness:
  "\<exists>s :: board_sys. \<exists>ps. flash_frames (board (system_flash_write_buf 0x80000 (replicate 300 7) 300 s))
       = flash_frames (board s) @ enabled ps
     \<and> concat (List.map frame_writes ps) = range_writes (unat (0x80000 :: u32)) (replicate 300 7) (unat (300 :: u16))"
proof -
  obtain s :: board_sys where s: "spi_frame (board s) = []"
    by (metis board_st.select_convs(3) board_sys.select_convs(1))
  have "\<exists>ps. flash_frames (board (system_flash_write_buf 0x80000 (replicate 300 7) 300 s)) = flash_frames (board s) @ enabled ps
     \<and> list_all is_program ps \<and> concat (List.map frame_writes ps) = range_writes (unat (0x80000 :: u32)) (replicate 300 7) (unat (300 :: u16))
     \<and> list_all frame_in_page ps \<and> spi_frame (board (system_flash_write_buf 0x80000 (replicate 300 7) 300 s)) = []"
    by (rule flash_write_exact) (simp_all add: s)
  then show ?thesis by blast
qed

primrec erase_addrs :: "nat \<Rightarrow> u32 \<Rightarrow> u32 \<Rightarrow> u32 list" where
  "erase_addrs 0 step a = []"
| "erase_addrs (Suc n) step a = a # erase_addrs n step (a + step)"

definition erase_frames :: "u32 list \<Rightarrow> bytes list" where
  "erase_frames as = concat (List.map (\<lambda>a. [[FLASH_CMD_WREN], FLASH_CMD_BE_32K # flash_addr a]) as)"

lemma erase_blocks_frames:
  "spi_frame (board s) = [] \<Longrightarrow>
     flash_frames (board (snd (erase_blocks n d a s))) = flash_frames (board s) @ erase_frames (erase_addrs n d a) \<and>
     spi_frame (board (snd (erase_blocks n d a s))) = [] \<and> fst (erase_blocks n d a s) = a + of_nat n * d"
proof (induction n arbitrary: a s)
  case (Suc n)
  have c: "flash_frames (board (system_flash_erase_block a s)) = flash_frames (board s) @ erase_frames [a]"
    "spi_frame (board (system_flash_erase_block a s)) = []"
    using flash_command_frames [of s "FLASH_CMD_BE_32K # flash_addr a" "[]"] Suc.prems
    by (simp_all add: system_flash_erase_block_def erase_frames_def)
  from Suc.IH [OF c(2), of "a + d"] show ?case
    by (simp add: c(1) erase_frames_def algebra_simps)
qed (simp add: erase_frames_def)

lemma length_erase_addrs [simp]: "length (erase_addrs n d a) = n"
  by (induction n arbitrary: a) simp_all

definition erased_blocks :: "u32 \<Rightarrow> u32 \<Rightarrow> u32 list" where
  "erased_blocks a len = erase_addrs (unat len div 32768) 32768 a
     @ erase_addrs (unat len mod 32768 div 4096 + 1) 4096 (a + (len div 32768) * 32768)"

lemma last_erase_addrs: "last (erase_addrs (Suc n) d a) = a + of_nat n * d"
proof (induction n arbitrary: a)
  case (Suc n)
  have "last (erase_addrs (Suc (Suc n)) d a) = last (erase_addrs (Suc n) d (a + d))" by simp
  also have "\<dots> = a + d + of_nat n * d" by (rule Suc.IH)
  finally show ?case by (simp add: algebra_simps)
qed simp

lemma u32_of_div: "unat n = k \<Longrightarrow> of_nat (unat x div k) = x div (n :: u32)"
  by (metis of_nat_unat ucast_id unat_div)

text \<open>The two loops together advance by the whole sectors of the range.\<close>

lemma erased_sectors:
  "(len div 32768) * 32768 + of_nat (unat len mod 32768 div 4096) * 4096 = (len div 4096) * (4096 :: u32)"
proof -
  have "unat len mod 32768 = 4096 * (unat len div 4096 mod 8) + unat len mod 4096"
    using mod_mult2_eq [of "unat len" 4096 8] by simp
  then have "unat len mod 32768 div 4096 = unat len div 4096 mod 8" by simp
  moreover have "unat len div 32768 = unat len div 4096 div 8" using div_mult2_eq [of "unat len" 4096 8] by simp
  ultimately have "unat len div 32768 * 8 + unat len mod 32768 div 4096 = unat len div 4096" by simp
  then have "of_nat (unat len div 32768) * 8 + of_nat (unat len mod 32768 div 4096) = (of_nat (unat len div 4096) :: u32)"
    by (metis (mono_tags, lifting) of_nat_add of_nat_mult of_nat_numeral)
  moreover have "(of_nat (unat len div 4096) :: u32) = len div 4096" "(of_nat (unat len div 32768) :: u32) = len div 32768"
    by (rule u32_of_div; simp)+
  ultimately have "len div 4096 = (len div 32768) * 8 + of_nat (unat len mod 32768 div 4096)" by simp
  then have "(len div 4096) * 4096 = ((len div 32768) * 8 + of_nat (unat len mod 32768 div 4096)) * 4096" by (rule arg_cong)
  then show ?thesis by (simp add: distrib_right)
qed

lemma last_erased_block: "last (erased_blocks a len) = a + (len div 4096) * 4096"
proof -
  let ?k = "unat len mod 32768 div 4096" and ?b = "a + (len div 32768) * 32768"
  have "last (erased_blocks a len) = last (erase_addrs (Suc ?k) 4096 ?b)"
    unfolding erased_blocks_def by (simp only: last_append Suc_eq_plus1) simp
  also have "\<dots> = ?b + of_nat ?k * 4096" by (rule last_erase_addrs)
  finally show ?thesis using erased_sectors [of len] by (simp add: add.assoc)
qed

text \<open>C27: erasing a range of the serial flash erases more than the range.  Every command sent is the erasure of a
  block of 32 KByte, announced by a write-enable: one per full 32 KByte of the range, and then, for the rest, one per full
  4 KByte and one more, at addresses 4 KByte apart.  The sector erase command is never used.  The last address is the start
  of the range plus its length rounded down to 4 KByte, so for a length that is a multiple of 4 KByte it lies behind the
  range.\<close>

theorem flash_erase_blocks:
  assumes "spi_frame (board s) = []"
  shows "flash_frames (board (system_flash_erase a len s)) = flash_frames (board s) @ erase_frames (erased_blocks a len)
     \<and> last (erased_blocks a len) = a + (len div 4096) * 4096"
proof -
  have n: "unat (len div FLASH_BLOCK_32K_SIZE) = unat len div 32768"
    by (simp add: FLASH_BLOCK_32K_SIZE_def unat_div)
  have d: "of_nat (unat len div 32768) = len div (32768 :: u32)" by (rule u32_of_div) simp
  have r: "len - len div 32768 * 32768 = len mod (32768 :: u32)"
    by (metis minus_div_mult_eq_mod)
  have m: "unat (len mod 32768 div 4096 + 1 :: u32) = unat len mod 32768 div 4096 + 1"
  proof -
    have "unat (len mod 32768 div 4096 :: u32) = unat len mod 32768 div 4096" by (simp add: unat_div unat_mod)
    moreover have "unat len mod 32768 div 4096 < 8" by (simp add: less_mult_imp_div_less)
    ultimately show ?thesis using unat_u32_add [of "len mod 32768 div 4096" 1] by simp
  qed
  note e = erase_blocks_frames [OF assms, of "unat len div 32768" 32768 a]
  from e erase_blocks_frames [of "snd (erase_blocks (unat len div 32768) 32768 a s)"
      "unat len mod 32768 div 4096 + 1" 4096 "a + (len div 32768) * 32768"]
  have "flash_frames (board (system_flash_erase a len s)) = flash_frames (board s) @ erase_frames (erased_blocks a len)"
    unfolding system_flash_erase_def Let_def case_prod_beta n
    by (simp add: FLASH_BLOCK_32K_SIZE_def FLASH_SECTOR_SIZE_def d r m erase_frames_def erased_blocks_def)
  then show ?thesis using last_erased_block by blast
qed

text \<open>One block of 32 KByte is asked for, and the block behind it is erased too.\<close>

lemma flash_erase_blocks_witness:
  "\<exists>s :: board_sys. flash_frames (board (system_flash_erase 0x80000 0x8000 s))
     = flash_frames (board s) @ [[FLASH_CMD_WREN], [FLASH_CMD_BE_32K, 0x08, 0, 0], [FLASH_CMD_WREN], [FLASH_CMD_BE_32K, 0x08, 0x80, 0]]"
proof -
  obtain s :: board_sys where s: "spi_frame (board s) = []"
    by (metis board_st.select_convs(3) board_sys.select_convs(1))
  have "erase_frames (erased_blocks 0x80000 0x8000)
      = [[FLASH_CMD_WREN], [FLASH_CMD_BE_32K, 0x08, 0, 0], [FLASH_CMD_WREN], [FLASH_CMD_BE_32K, 0x08, 0x80, 0]]"
    by (simp add: erase_frames_def erased_blocks_def flash_addr_def)
  with flash_erase_blocks [OF s, of "0x80000" "0x8000"] show ?thesis by metis
qed

end
