(* ===== verification/Board.thy ===== *)
theory Board
  imports Sflash
begin

text \<open>
  The other board services of \<open>AllInOneDSP/src/source\<close>: \<open>CLOCK_Init\<close>, \<open>SDRAM_Init\<close>,
  \<open>system_power.c\<close>, \<open>system_check.c\<close> and \<open>test_led_lamp.c\<close>.  The ROM function
  \<open>bfrom_SysControl\<close> is not part of the sources: its calls are logged, and \<open>rom_pllctl\<close> is what its
  read of \<open>PLL_CTL\<close> delivers.
\<close>

section \<open>system_clock.c: \<open>CLOCK_Init\<close>\<close>

definition CORE_CLOCK :: u32 where "CORE_CLOCK = 264000000"
definition SYSTEM_CLOCK :: u32 where "SYSTEM_CLOCK = 132000000"

definition le16_of :: "u16 \<Rightarrow> bytes" where "le16_of v = [byte_of 0 v, byte_of 8 v]"

text \<open>The arguments of the ROM call are logged: the action flags, then the members of \<open>sysctrl\<close> in
  order.  It is the ROM function that sets the two PLL registers.\<close>

definition CLOCK_Init :: "'a hw_sys_scheme \<Rightarrow> 'a hw_sys_scheme" where
  "CLOCK_Init s =
     (let SIC_IWR1_reg = regs s ''SIC_IWR1''
      in run [wr ''SIC_IWR1'' 0,
              alg_call ''bfrom_SysControl'' (le16_of 0x0301 @ le16_of 0x70B0 @ le16_of 0x2C00 @ le16_of 0x0002
                @ le16_of 0x0200 @ le16_of 0x0000),
              wr ''SIC_IWR1'' SIC_IWR1_reg] s)"

section \<open>system_sdram.c: \<open>SDRAM_Init\<close>\<close>

text \<open>The first wait (for the idle controller) has no effect on the state.  The last loop compares the
  masked bit \<open>SDRS\<close> (8) with 1 and never waits.  The access that starts the power-up sequence is
  logged as a write.\<close>

definition SDRAM_Init :: "'a hw_sys_scheme \<Rightarrow> 'a hw_sys_scheme" where
  "SDRAM_Init s =
     run [orw ''EBIU_SDSTAT'' 0x10, wr ''EBIU_SDRRC'' 0x0805, wr ''EBIU_SDBCTL'' (0x10 OR 0 OR 1),
          wr ''EBIU_SDGCTL'' ((NOT 0x04000000 AND NOT 0x02000000 AND NOT 0x01000000 AND NOT 0x00400000
             AND NOT 0x00200000 AND 0x20000000) OR 0x10000000 OR 0x00800000 OR 0x00100000 OR 0x00018000
             OR 0x00001800 OR 0x00000180 OR 0 OR 0x0000000C OR 0x00000001),
          wr ''SDRAM_0'' 0xBEEF] s"

section \<open>system_power.c\<close>

datatype POWER_MODE = PWR_ACTIVE | PWR_SLEEP | PWR_DEEP_SLEEP | PWR_HIBERNATE
datatype FunctionalState = PWR_DISABLE | PWR_ENABLE

abbreviation STOPCK :: u16 where "STOPCK \<equiv> 0x0008"
abbreviation PDWN :: u16 where "PDWN \<equiv> 0x0020"
abbreviation BYPASS :: u16 where "BYPASS \<equiv> 0x0100"

definition SYSCTRL_pllctl :: "bool \<Rightarrow> u16 \<Rightarrow> bytes" where
  "SYSCTRL_pllctl write v = le16_of (if write then 0x0121 else 0x0120) @ le16_of v"

text \<open>Read \<open>PLL_CTL\<close> through the ROM, change it, and write it back.\<close>

definition change_pllctl :: "(u16 \<Rightarrow> u16) \<Rightarrow> 'a board_sys_scheme \<Rightarrow> 'a board_sys_scheme" where
  "change_pllctl f s =
     run [alg_call ''bfrom_SysControl'' (SYSCTRL_pllctl False 0),
          alg_call ''bfrom_SysControl'' (SYSCTRL_pllctl True (f (rom_pllctl (board s))))] s"

definition PWR_EnterActiveMode :: "FunctionalState \<Rightarrow> 'a board_sys_scheme \<Rightarrow> 'a board_sys_scheme" where
  "PWR_EnterActiveMode NewState s =
     (case NewState of PWR_ENABLE \<Rightarrow> change_pllctl (\<lambda>v. v OR BYPASS) s
      | PWR_DISABLE \<Rightarrow> change_pllctl (\<lambda>v. v AND NOT BYPASS) s)"

definition PWR_EnterSleepMode :: "FunctionalState \<Rightarrow> 'a board_sys_scheme \<Rightarrow> 'a board_sys_scheme" where
  "PWR_EnterSleepMode NewState s = change_pllctl (\<lambda>v. v OR STOPCK) s"

definition PWR_EnterDeepSleepMode :: "FunctionalState \<Rightarrow> 'a board_sys_scheme \<Rightarrow> 'a board_sys_scheme" where
  "PWR_EnterDeepSleepMode NewState s = change_pllctl (\<lambda>v. v OR PDWN) s"

definition PWR_EnterHibernateMode :: "FunctionalState \<Rightarrow> 'a board_sys_scheme \<Rightarrow> 'a board_sys_scheme" where
  "PWR_EnterHibernateMode NewState s =
     alg_call ''bfrom_SysControl'' (le16_of 0x0031 @ le16_of (0x8000 OR 0x0100 OR 0x0000)) s"

definition enter_low_power_mode :: "POWER_MODE \<Rightarrow> FunctionalState \<Rightarrow> 'a board_sys_scheme \<Rightarrow> 'a board_sys_scheme" where
  "enter_low_power_mode mode NewState s =
     (case mode of PWR_ACTIVE \<Rightarrow> PWR_EnterActiveMode NewState s | PWR_SLEEP \<Rightarrow> PWR_EnterSleepMode NewState s
      | PWR_DEEP_SLEEP \<Rightarrow> PWR_EnterDeepSleepMode NewState s | PWR_HIBERNATE \<Rightarrow> PWR_EnterHibernateMode NewState s)"

definition system_power_server :: "'a board_sys_scheme \<Rightarrow> 'a board_sys_scheme" where
  "system_power_server s =
     (let s = (if IsOnTime (PowerOffTime (board s)) (tick s)
               then s\<lparr>board := (board s)\<lparr>PowerOffTime := PowerOffTime (board s) + 1000\<rparr>\<rparr> else s)
      in enter_low_power_mode PWR_SLEEP PWR_ENABLE s)"

section \<open>system_check.c\<close>

definition check_print :: "bytes \<Rightarrow> 'a uart_sys_scheme \<Rightarrow> 'a uart_sys_scheme" where
  "check_print m s = AIO_printf (crnl @ str ''[SYSTEM_CHECK] '' @ m) s"

text \<open>The statements \<open>pSystemState->dsp | BIT_CPU;\<close> compute a value and drop it: no check changes
  \<open>dsp\<close>.\<close>

definition system_check_cpu :: "'a board_sys_scheme \<Rightarrow> 'a board_sys_scheme" where
  "system_check_cpu s =
     (let s = (if CORE_CLOCK \<noteq> getCodeCLK s then check_print (str ''core clk error.'') s else s)
      in if SYSTEM_CLOCK \<noteq> getSystemCLK s then check_print (str ''system clk error.'') s else s)"

definition system_check_sdram :: "'a board_sys_scheme \<Rightarrow> 'a board_sys_scheme" where
  "system_check_sdram s =
     (let temp = sdram_read (board s) (sdram_cell (board s));
          probe = (\<lambda>v s. if sdram_read (board s) v \<noteq> v
             then check_print (str ''system sdram error *ptr = 0x'' @ fmt_u True 16 4 (unat (sdram_read (board s) v))
                    @ str ''.'' @ [10]) s
             else s);
          s = run [probe 0xAAAA, probe 0x5555] s
      in s\<lparr>board := (board s)\<lparr>sdram_cell := temp\<rparr>\<rparr>)"

text \<open>After \<open>while (timeout--)\<close> the counter is \<open>-1\<close>: the function reports that no reset came
  whenever it returns.\<close>

definition wait_watchdog_reset :: "'a tick_sys_scheme \<Rightarrow> int \<times> 'a tick_sys_scheme" where
  "wait_watchdog_reset s = (- 1, run (replicate 1000 (Delay1ms 1)) s)"

definition system_check_watchdog :: "'a board_sys_scheme \<Rightarrow> 'a board_sys_scheme" where
  "system_check_watchdog s =
     (if wdg_bak (board s) \<noteq> 0xAA
      then let s = s\<lparr>board := (board s)\<lparr>wdg_bak := 0xAA\<rparr>\<rparr>;
               (r, s) = wait_watchdog_reset s
           in if r \<noteq> 0
              then check_print (str ''system watchdog failed. *ptr = 0x'' @ fmt_u True 16 4 (unat (wdg_bak (board s)))
                     @ str ''.'' @ [10]) s
              else s
      else s)"

definition system_check_eeprom :: "'a board_sys_scheme \<Rightarrow> 'a board_sys_scheme" where
  "system_check_eeprom s =
     (let (r, s) = EEPROM_ExamineHeadTail s
      in if r = RETURN_ERROR then check_print (str ''system eeprom failed.'' @ [10]) s else s)"

text \<open>\<open>buf\<close> is not initialised: without a byte from the first read its value is not defined.\<close>

definition set_state :: "(system_state \<Rightarrow> system_state) \<Rightarrow> 'a board_sys_scheme \<Rightarrow> 'a board_sys_scheme" where
  "set_state f s = s\<lparr>board := (board s)\<lparr>g_system_state := f (g_system_state (board s))\<rparr>\<rparr>"

definition system_check_stm32 :: "'a board_sys_scheme \<Rightarrow> 'a board_sys_scheme" where
  "system_check_stm32 s =
     (let (r, bs, s) = aio_stm32_readByID POWER_STATUS 1 s;
          (buf, s) = (if bs = [] then (0, raise_fault s) else (bs ! 0, s));
          s = set_state (\<lambda>t. t\<lparr>ss_power := buf\<rparr>) s;
          (r, bs, s) = aio_stm32_readByID SELF_CHECK 1 s;
          buf = (if bs = [] then buf else bs ! 0)
      in set_state (\<lambda>t. t\<lparr>ss_stm32 := buf\<rparr>) s)"

definition system_check_ecg :: "'a board_sys_scheme \<Rightarrow> 'a board_sys_scheme" where
  "system_check_ecg s = set_state (\<lambda>t. t\<lparr>ss_ecg := 0\<rparr>) s"

definition system_check_nibp :: "'a board_sys_scheme \<Rightarrow> 'a board_sys_scheme" where
  "system_check_nibp s = set_state (\<lambda>t. t\<lparr>ss_nibp := 0\<rparr>) s"

text \<open>The packet is a local variable: without data its length is not initialised.\<close>

definition uart_packet_transmit :: "u8 \<Rightarrow> bool \<Rightarrow> bytes \<Rightarrow> u8 \<Rightarrow> 'a board_sys_scheme \<Rightarrow> 'a board_sys_scheme" where
  "uart_packet_transmit pid IsPassData pData lenght s =
     (if \<not> IsPassData \<or> unat lenght \<ge> DATA_AND_CRC_SIZE then raise_fault s
      else let p = upload_packet (check_packetNum (board s)) pid True pData lenght
           in s\<lparr>uart := AIO_UART_SendBuf (wire p) (uart s),
                board := (board s)\<lparr>check_packetNum := check_packetNum (board s) + 1\<rparr>\<rparr>)"

definition state_bytes :: "system_state \<Rightarrow> bytes" where
  "state_bytes t = [ss_power t, ss_spo2 t, ss_dsp t, ss_stm32 t, ss_ecg t, ss_nibp t]"

definition system_check :: "'a board_sys_scheme \<Rightarrow> 'a board_sys_scheme" where
  "system_check s =
     (let s = run [system_check_cpu, system_check_sdram, system_check_watchdog, system_check_eeprom,
                   system_check_stm32, system_check_ecg, system_check_nibp] s
      in uart_packet_transmit COM_SELF_CHECK_ID True (state_bytes (g_system_state (board s))) 6 s)"

definition system_check_server :: "'a board_sys_scheme \<Rightarrow> 'a board_sys_scheme" where
  "system_check_server s =
     (if IsOnTime (SystemCheckTime (board s)) (tick s)
      then s\<lparr>board := (board s)\<lparr>SystemCheckTime := SystemCheckTime (board s) + 1000\<rparr>\<rparr>
      else s)"

section \<open>test_led_lamp.c\<close>

definition TEST_LED_TIME :: u32 where "TEST_LED_TIME = 500"

definition LED_Lamp_Init :: "'a hw_sys_scheme \<Rightarrow> 'a hw_sys_scheme" where
  "LED_Lamp_Init s =
     run [andw ''PORTHIO_INEN'' (NOT 0x40), orw ''PORTHIO_DIR'' 0x40, andw ''PORTHIO_EDGE'' (NOT 0x40),
          wr ''PORTHIO_MASKA_CLEAR'' 0x40, wr ''PORTHIO_CLEAR'' 0x40] s"

definition LED_Lamp_Work :: "'a board_sys_scheme \<Rightarrow> 'a board_sys_scheme" where
  "LED_Lamp_Work s =
     (if IsOnTime (LED_ulNextChangeTime (board s)) (tick s)
      then let on = (\<not> u8LEDStatus (board s));
               s = wr (if on then ''PORTHIO_SET'' else ''PORTHIO_CLEAR'') 0x40 s
           in s\<lparr>board := (board s)\<lparr>u8LEDStatus := on,
                  LED_ulNextChangeTime := LED_ulNextChangeTime (board s) + getTickNumberByMS TEST_LED_TIME (tick s)\<rparr>\<rparr>
      else s)"

end
