(* ===== verification/AllInOneDSP.thy ===== *)
theory AllInOneDSP
  imports Board
begin

text \<open>
  \<open>AllInOneDSP/src/source/AllInOneDSP.c\<close>: the order of the initialisation and the main loop, as
  sequences of the operations of the other theories.  A handler that never returns makes the pass
  \<open>None\<close>.  The interrupt handlers run between the statements of the loop; \<open>dsp_step\<close> interleaves them
  between the handlers of a pass.
\<close>

section \<open>Initialisation\<close>

definition delay_ms :: "u32 \<Rightarrow> 'a tick_sys_scheme \<Rightarrow> 'a tick_sys_scheme" where
  "delay_ms msec s = Delay1ms msec s"

definition delay_s :: "u32 \<Rightarrow> 'a tick_sys_scheme \<Rightarrow> 'a tick_sys_scheme" where
  "delay_s sec s = ((\<lambda>s. delay_ms 1000 s) ^^ unat sec) s"

definition System_Init :: "'a board_sys_scheme \<Rightarrow> 'a board_sys_scheme" where
  "System_Init s =
     run [CLOCK_Init, SDRAM_Init, SFlash_Init, SysTick_Init, Uart2MCU_Init, ExtWatchDog_Init, SystemTWI_Init] s"

definition algorithm_init :: "'a board_sys_scheme \<Rightarrow> 'a board_sys_scheme" where
  "algorithm_init s = run [ecg_algorithm_init, resp_algorithm_init, nibp_algorithm_init] s"

definition Platform_Init :: "fpu \<Rightarrow> 'a board_sys_scheme \<Rightarrow> 'a board_sys_scheme" where
  "Platform_Init fp s =
     run [ADC_CLK_Init, EEPROM_Init, AHCT595_Init, ECG_Init, NIBP_Init fp, RESP_Init, Temperature_Init,
          SpO2_Module_Init, OnBoardSTM32_Module_Init, IBP_Init, ADC_Synchronize, algorithm_init,
          SysTick_Start, EEPROM_ExamineAll, system_spi_init, system_sflash_init] s"

definition Boot_SelfCheck :: "'a board_sys_scheme \<Rightarrow> 'a board_sys_scheme" where
  "Boot_SelfCheck s = SFlash_SelfCheck s"

definition SetInterrupt :: "'a board_sys_scheme \<Rightarrow> 'a board_sys_scheme" where
  "SetInterrupt s =
     run [ECG_SampleTimer_SetInterrupt ENABLE,
          \<lambda>s. s\<lparr>spo2 := (spo2 s)\<lparr>spo2_uart := SpO2_UART_SetInterrupt (spo2_uart (spo2 s))\<rparr>\<rparr>,
          \<lambda>s. s\<lparr>uart := AIO_UART_SetInterrupt (uart s)\<rparr>] s"

text \<open>The date and time the compiler puts into the greeting are a parameter.\<close>

definition main_init :: "fpu \<Rightarrow> bytes \<Rightarrow> 'a board_sys_scheme \<Rightarrow> 'a board_sys_scheme" where
  "main_init fp date s =
     (let s = run [System_Init, Platform_Init fp, Boot_SelfCheck, SetInterrupt, COMMON_Init] s;
          s = AIO_printf (crnl @ str ''All In One Board. Compile Date:'' @ date @ str '' V0.6.8'') s
      in AIO_printf (crnl @ str ''SystemClock VCO:'' @ fmt_d (getVCOFreq s) @ str '' CCLK:'' @ fmt_d (getCodeCLK s)
           @ str '' SCLK:'' @ fmt_d (getSystemCLK s)) s)"

section \<open>The main loop\<close>

text \<open>The statements of one pass of \<open>while (1)\<close>, in order.  \<open>Probe_Detect_Handler\<close> is empty.\<close>

definition Probe_Detect_Handler :: "'a board_sys_scheme \<Rightarrow> 'a board_sys_scheme" where
  "Probe_Detect_Handler s = s"

text \<open>\<open>_PRINT_ECG_SAMPLE_\<close> is not defined: \<open>ECG_PrintResult\<close> is empty too.\<close>

definition ECG_PrintResult :: "'a board_sys_scheme \<Rightarrow> 'a board_sys_scheme" where
  "ECG_PrintResult s = s"

definition handlers :: "fpu \<Rightarrow> ('a board_sys_scheme \<Rightarrow> 'a board_sys_scheme option) list" where
  "handlers fp =
     [Some \<circ> ExtWatchDog_Feed, Some \<circ> ECG_Handler, Some \<circ> ECG_CAL_DRV_signal, Some \<circ> ECG_PrintResult,
      Some \<circ> RESP_Handler, Some \<circ> NIBP_Handler fp, Some \<circ> Temperature_Handler, Some \<circ> IBP_Handler,
      Some \<circ> Probe_Detect_Handler, SpO2_Module_Handler, Uart2MCU_RxPacketCheck fp, Some \<circ> STM32_I2C_Handler,
      Some \<circ> COMMON_Handler, Some \<circ> ecg_algorithm_handler, Some \<circ> resp_algorithm_handler,
      Some \<circ> nibp_algorithm_handler, Some \<circ> system_power_server, Some \<circ> system_check_server]"

primrec run_opt :: "('s \<Rightarrow> 's option) list \<Rightarrow> 's \<Rightarrow> 's option" where
  "run_opt [] s = Some s"
| "run_opt (f # fs) s = (case f s of None \<Rightarrow> None | Some s' \<Rightarrow> run_opt fs s')"

definition main_pass :: "fpu \<Rightarrow> 'a board_sys_scheme \<Rightarrow> 'a board_sys_scheme option" where
  "main_pass fp s = run_opt (handlers fp) s"

section \<open>Interrupts\<close>

text \<open>The interrupts of the board; those of the two serial lines carry what the handler reads from the
  controller.  The status registers the other handlers test are in \<open>regs\<close>, where the environment puts
  them.\<close>

datatype irq =
    Irq_CoreTimer | Irq_IVG8 | Irq_IVG9 | Irq_IVG10 | Irq_IVG11 uart_event | Irq_IVG12 uart_event | Irq_IVG13

fun isr :: "fpu \<Rightarrow> irq \<Rightarrow> 'a board_sys_scheme \<Rightarrow> 'a board_sys_scheme" where
  "isr fp Irq_CoreTimer s = s\<lparr>tick := CoreTimer_ISR (tick s)\<rparr>"
| "isr fp Irq_IVG8 s = IVG8_ISR fp s"
| "isr fp Irq_IVG9 s = IVG9_ISR s"
| "isr fp Irq_IVG10 s = IVG10_ISR s"
| "isr fp (Irq_IVG11 ev) s = s\<lparr>spo2 := (spo2 s)\<lparr>spo2_uart := spo2_deliver ev (spo2_uart (spo2 s))\<rparr>\<rparr>"
| "isr fp (Irq_IVG12 ev) s = s\<lparr>uart := uart_deliver ev (uart s)\<rparr>"
| "isr fp Irq_IVG13 s = IVG13_ISR fp s"

text \<open>A state of the running program: the index of the next handler of the pass, and the data.  The
  environment changes the status registers of the timers and ports.\<close>

inductive dsp_step :: "fpu \<Rightarrow> nat \<times> 'a board_sys_scheme \<Rightarrow> nat \<times> 'a board_sys_scheme \<Rightarrow> bool" for fp where
  handler: "pc < length (handlers fp) \<Longrightarrow> (handlers fp ! pc) s = Some s' \<Longrightarrow>
     dsp_step fp (pc, s) (Suc pc mod length (handlers fp), s')"
| interrupt: "dsp_step fp (pc, s) (pc, isr fp i s)"
| input: "r \<in> {''TIMER_STATUS'', ''PORTFIO'', ''PORTHIO''} \<Longrightarrow>
     dsp_step fp (pc, s) (pc, s\<lparr>regs := (regs s)(r := v)\<rparr>)"

end
