(* ===== verification/StmCore.thy ===== *)
theory StmCore
  imports SysTick
begin

text \<open>
  The second processor of the board, an STM32 (\<open>src/AllInOneSTM32/Usr\<close>): its state, the system tick
  (\<open>system_tick.c\<close>), the external watchdog (\<open>watchdog.c\<close>), the lamp (\<open>test_led_lamp.c\<close>), the internal
  converter (\<open>system_adc.c\<close>), the supply monitor and the update request (\<open>power.c\<close>) and the self
  check with its CRC-16 (\<open>system_check.c\<close>).  Names the signal processor uses as well carry the suffix
  \<open>_stm\<close>.

  Calls of the vendor's peripheral library are entries of \<open>st_trace\<close>, newest first; those that set
  or reset an output pin or a backup register also change \<open>pin_out\<close> and \<open>bkp\<close>.  The converter
  stores its five channels by DMA at any time: \<open>adc_feed\<close> lists the results the polls of a wait
  loop find, and outside these loops the record \<open>g_SysADCResult\<close> is an input.
\<close>

section \<open>State\<close>

datatype stm_pin = PA nat | PB nat

datatype stm_eff =
    Lib string "string list"
  | PinSet stm_pin
  | PinReset stm_pin
  | BkpWrite nat u16
  | SystemReset
  | Printf string

record InternalADCResult =
  DET_NIBP :: u16
  DET_D3V3E :: u16
  DET_VDDINT :: u16
  DET_5VAE :: u16
  DET_OVLD_OFF :: u16

record stm_core =
  u32SystemTick :: u32
  st_trace :: "stm_eff list"
  pin_out :: "stm_pin \<Rightarrow> bool"
  bkp :: "nat \<Rightarrow> u16"
  stm_flash :: "nat \<Rightarrow> u8"
  g_SysADCResult :: InternalADCResult
  adc_feed :: "InternalADCResult list"
  WDog_Level :: bool
  FeedDogTime :: u32
  LED_u32NextChangeTime :: u32
  stm_u8LEDStatus :: bool
  g_power_status :: u8
  power_u32NextChangeTime :: u32
  Sys_Self_Check_Status :: u8

definition tell :: "stm_eff \<Rightarrow> 'a stm_core_scheme \<Rightarrow> 'a stm_core_scheme" where
  "tell e s = s\<lparr>st_trace := e # st_trace s\<rparr>"

abbreviation lib :: "string \<Rightarrow> string list \<Rightarrow> 'a stm_core_scheme \<Rightarrow> 'a stm_core_scheme" where
  "lib f args \<equiv> tell (Lib f args)"

definition GPIO_SetBits :: "stm_pin \<Rightarrow> 'a stm_core_scheme \<Rightarrow> 'a stm_core_scheme" where
  "GPIO_SetBits p s = tell (PinSet p) (s\<lparr>pin_out := (pin_out s)(p := True)\<rparr>)"

definition GPIO_ResetBits :: "stm_pin \<Rightarrow> 'a stm_core_scheme \<Rightarrow> 'a stm_core_scheme" where
  "GPIO_ResetBits p s = tell (PinReset p) (s\<lparr>pin_out := (pin_out s)(p := False)\<rparr>)"

definition BKP_WriteBackupRegister :: "nat \<Rightarrow> u16 \<Rightarrow> 'a stm_core_scheme \<Rightarrow> 'a stm_core_scheme" where
  "BKP_WriteBackupRegister r v s = tell (BkpWrite r v) (s\<lparr>bkp := (bkp s)(r := v)\<rparr>)"

definition SETBIT :: "u8 \<Rightarrow> nat \<Rightarrow> u8" where "SETBIT x y = x OR push_bit y 1"
definition RESETBIT :: "u8 \<Rightarrow> nat \<Rightarrow> u8" where "RESETBIT x y = x AND NOT (push_bit y 1)"

section \<open>system_tick.c\<close>

definition SysTick_Incremental :: "'a stm_core_scheme \<Rightarrow> 'a stm_core_scheme" where
  "SysTick_Incremental s = s\<lparr>u32SystemTick := u32SystemTick s + 1\<rparr>"

definition SysTick_Start_stm :: "'a stm_core_scheme \<Rightarrow> 'a stm_core_scheme" where
  "SysTick_Start_stm s = lib ''SysTick_Config'' [''HCLK_Frequency / SysTickFreq''] (s\<lparr>u32SystemTick := 0\<rparr>)"

definition SysTick_Get_stm :: "'a stm_core_scheme \<Rightarrow> u32" where
  "SysTick_Get_stm s = u32SystemTick s"

definition SysTick_Compare_stm :: "u32 \<Rightarrow> u32 \<Rightarrow> int" where
  "SysTick_Compare_stm u32Tick1 u32Tick2 =
     (if u32Tick1 = u32Tick2 then 0
      else if u32Tick1 < u32Tick2
      then (if u32Tick2 - u32Tick1 < 0x80000000 then - 1 else 1)
      else (if u32Tick1 - u32Tick2 < 0x80000000 then 1 else - 1))"

definition IsOnTime_stm :: "u32 \<Rightarrow> 'a stm_core_scheme \<Rightarrow> bool" where
  "IsOnTime_stm u32Target s = (SysTick_Compare_stm (SysTick_Get_stm s) u32Target \<noteq> - 1)"

definition IsOverTime_stm :: "u32 \<Rightarrow> u32 \<Rightarrow> 'a stm_core_scheme \<Rightarrow> bool" where
  "IsOverTime_stm u32Base u32Duration s =
     (let u32Target = u32Base + u32Duration in SysTick_Compare_stm (SysTick_Get_stm s) u32Target = 1)"

definition getNextTimeByMS :: "u32 \<Rightarrow> u32" where
  "getNextTimeByMS N1ms = (N1ms * 1000) div 1000"

lemma SysTick_Compare_stm: "SysTick_Compare_stm = SysTick_Compare"
  by (intro ext) (simp add: SysTick_Compare_stm_def SysTick_Compare_def)

lemma IsOnTime_stm: "IsOnTime_stm tgt s = on_time (u32SystemTick s) tgt"
  by (simp add: IsOnTime_stm_def on_time_def SysTick_Get_stm_def SysTick_Compare_stm)

text \<open>While a wait loop polls, the tick interrupt goes on; the loop ends on the first tick that is not
  before the target.\<close>

function wait_tick :: "u32 \<Rightarrow> 'a stm_core_scheme \<Rightarrow> 'a stm_core_scheme" where
  "wait_tick u32delay s =
     (if SysTick_Compare_stm (SysTick_Get_stm s) u32delay = - 1 then wait_tick u32delay (SysTick_Incremental s) else s)"
  by pat_completeness auto
termination
proof (relation "measure (\<lambda>(d, s). unat (d - u32SystemTick s))", goal_cases)
  case (2 d s)
  then have "d - u32SystemTick s \<noteq> 0" by (auto simp: SysTick_Compare_stm_def SysTick_Get_stm_def)
  then have "0 < unat (d - u32SystemTick s)" "unat (d - u32SystemTick s - 1) = unat (d - u32SystemTick s) - 1"
    by (simp_all add: unat_minus_1 unat_gt_0)
  then have "unat (d - u32SystemTick s - 1) < unat (d - u32SystemTick s)" by linarith
  then show ?case by (simp add: SysTick_Incremental_def algebra_simps)
qed simp

declare wait_tick.simps [simp del]

definition delay_ms_stm :: "u32 \<Rightarrow> 'a stm_core_scheme \<Rightarrow> 'a stm_core_scheme" where
  "delay_ms_stm msec s =
     (let msec = (if msec \<ge> 0x80000000 then 0x80000000 - 1 else msec)
      in wait_tick (SysTick_Get_stm s + msec) s)"

definition Delay1ms_stm :: "u32 \<Rightarrow> 'a stm_core_scheme \<Rightarrow> 'a stm_core_scheme" where
  "Delay1ms_stm u32Delay s =
     (let u32Delay = (if u32Delay \<ge> 0x80000000 then 0x80000000 - 1 else u32Delay)
      in wait_tick (SysTick_Get_stm s + u32Delay) s)"

definition delay_s_stm :: "u32 \<Rightarrow> 'a stm_core_scheme \<Rightarrow> 'a stm_core_scheme" where
  "delay_s_stm sec s = (delay_ms_stm 1000 ^^ unat sec) s"

section \<open>watchdog.c\<close>

definition WDG_PIN :: stm_pin where "WDG_PIN = PA 4"

definition watchdog_reset :: "'a stm_core_scheme \<Rightarrow> 'a stm_core_scheme" where
  "watchdog_reset s =
     (let s = (if \<not> WDog_Level s then GPIO_SetBits WDG_PIN s else GPIO_ResetBits WDG_PIN s)
      in s\<lparr>WDog_Level := \<not> WDog_Level s\<rparr>)"

definition watchdog_pin_init :: "'a stm_core_scheme \<Rightarrow> 'a stm_core_scheme" where
  "watchdog_pin_init s =
     run [lib ''RCC_APB2PeriphClockCmd'' [''GPIOA'', ''ENABLE''], lib ''GPIO_Init'' [''GPIOA'', ''Pin_4'', ''Out_PP'']] s"

definition watchdog_init :: "'a stm_core_scheme \<Rightarrow> 'a stm_core_scheme" where
  "watchdog_init s = watchdog_reset (watchdog_pin_init s)"

text \<open>\<open>while (timeout--) delay_ms(1);\<close> leaves \<open>timeout\<close> at -1, so the result is always -1.\<close>

definition watchdog_wait_reset :: "'a stm_core_scheme \<Rightarrow> int \<times> 'a stm_core_scheme" where
  "watchdog_wait_reset s = (- 1, tell (Printf ''Watchdog reset timeout!'') ((delay_ms_stm 1 ^^ 1000) s))"

definition Watchdog_Check :: "'a stm_core_scheme \<Rightarrow> 'a stm_core_scheme" where
  "Watchdog_Check s =
     (if bkp s 1 = 0xAA
      then tell (Printf ''WatchDog restart!'') (s\<lparr>Sys_Self_Check_Status := RESETBIT (Sys_Self_Check_Status s) 0\<rparr>)
      else snd (watchdog_wait_reset (tell (Printf ''WatchDog waiting restart!'') (BKP_WriteBackupRegister 1 0xAA s))))"

definition watchdog_server :: "u16 \<Rightarrow> 'a stm_core_scheme \<Rightarrow> 'a stm_core_scheme" where
  "watchdog_server time s =
     (if IsOnTime_stm (FeedDogTime s) s
      then let s = watchdog_reset s in s\<lparr>FeedDogTime := FeedDogTime s + ucast time\<rparr>
      else s)"

interpretation stm_wdog: periodic_task u32SystemTick FeedDogTime "\<lambda>s. ucast (t :: u16)"
  "\<lambda>s. let s = watchdog_reset s in s\<lparr>FeedDogTime := FeedDogTime s + ucast t\<rparr>"
  "watchdog_server t :: 'a stm_core_scheme \<Rightarrow> 'a stm_core_scheme"
  by unfold_locales
     (simp_all add: watchdog_server_def IsOnTime_stm watchdog_reset_def GPIO_SetBits_def GPIO_ResetBits_def tell_def Let_def)

section \<open>test_led_lamp.c\<close>

definition LED_Init :: "'a stm_core_scheme \<Rightarrow> 'a stm_core_scheme" where
  "LED_Init s =
     run [lib ''RCC_APB2PeriphClockCmd'' [''GPIOA'', ''ENABLE''], lib ''GPIO_Init'' [''GPIOA'', ''Pin_0'', ''Out_PP'']] s"

definition LED_Handler :: "'a stm_core_scheme \<Rightarrow> 'a stm_core_scheme" where
  "LED_Handler s =
     (if IsOnTime_stm (LED_u32NextChangeTime s) s
      then let s = s\<lparr>stm_u8LEDStatus := \<not> stm_u8LEDStatus s\<rparr>;
               s = (if stm_u8LEDStatus s then GPIO_SetBits (PA 0) s else GPIO_ResetBits (PA 0) s)
           in s\<lparr>LED_u32NextChangeTime := LED_u32NextChangeTime s + getNextTimeByMS 500\<rparr>
      else s)"

section \<open>system_adc.c\<close>

definition SystemADC_Init :: "'a stm_core_scheme \<Rightarrow> 'a stm_core_scheme" where
  "SystemADC_Init s =
     run [\<lambda>s. s\<lparr>g_SysADCResult := \<lparr>DET_NIBP = 0, DET_D3V3E = 0, DET_VDDINT = 0, DET_5VAE = 0, DET_OVLD_OFF = 0\<rparr>\<rparr>,
          lib ''GPIO_Init'' [''GPIOA'', ''Pin_1|2|3|6'', ''AIN''], lib ''GPIO_Init'' [''GPIOB'', ''Pin_1'', ''AIN''],
          lib ''RCC_ADCCLKConfig'' [''PCLK2_Div2''], lib ''RCC_APB2PeriphClockCmd'' [''GPIOA'', ''ENABLE''],
          lib ''RCC_APB2PeriphClockCmd'' [''GPIOB'', ''ENABLE''], lib ''RCC_APB2PeriphClockCmd'' [''ADC1'', ''ENABLE''],
          lib ''RCC_AHBPeriphClockCmd'' [''DMA1'', ''ENABLE''], lib ''DMA_DeInit'' [''DMA1_Channel1''],
          lib ''DMA_Init'' [''DMA1_Channel1'', ''g_SysADCResult'', ''5'', ''HalfWord'', ''Circular''],
          lib ''ADC_Init'' [''ADC1'', ''Scan'', ''Continuous'', ''5''],
          lib ''ADC_RegularChannelConfig'' [''1'', ''1''], lib ''ADC_RegularChannelConfig'' [''2'', ''2''],
          lib ''ADC_RegularChannelConfig'' [''3'', ''3''], lib ''ADC_RegularChannelConfig'' [''9'', ''4''],
          lib ''ADC_RegularChannelConfig'' [''6'', ''5''], lib ''ADC_DMACmd'' [''ENABLE''], lib ''ADC_Cmd'' [''ENABLE''],
          lib ''ADC_ResetCalibration'' [], lib ''ADC_StartCalibration'' [], lib ''DMA_Cmd'' [''ENABLE''],
          lib ''ADC_Cmd'' [''ENABLE''], lib ''ADC_SoftwareStartConvCmd'' [''ENABLE'']] s"

definition adc_poll :: "'a stm_core_scheme \<Rightarrow> 'a stm_core_scheme" where
  "adc_poll s = (case adc_feed s of [] \<Rightarrow> s | r # rs \<Rightarrow> s\<lparr>g_SysADCResult := r, adc_feed := rs\<rparr>)"

fun wait_ADC :: "nat \<Rightarrow> 'a stm_core_scheme \<Rightarrow> nat \<times> 'a stm_core_scheme" where
  "wait_ADC timeout s =
     (let s = adc_poll s
      in if DET_NIBP (g_SysADCResult s) = 0 \<and> timeout \<noteq> 0
         then wait_ADC (timeout - 1) (delay_ms_stm 100 s) else (timeout, s))"

declare wait_ADC.simps [simp del]

definition System_wait_ADC_Check :: "'a stm_core_scheme \<Rightarrow> 'a stm_core_scheme" where
  "System_wait_ADC_Check s =
     (let (timeout, s) = wait_ADC 100 s
      in if timeout < 1 then tell (Printf ''System ADC Check Timeout!'') s else s)"

definition System_ADC_Check :: "'a stm_core_scheme \<Rightarrow> 'a stm_core_scheme" where
  "System_ADC_Check s = System_wait_ADC_Check s"

section \<open>power.c\<close>

datatype POWER_MODE_stm = SLEEP | STOP | LPSTOP | STANDBY

definition power_init :: "'a stm_core_scheme \<Rightarrow> 'a stm_core_scheme" where "power_init s = s"

definition PWR_EnterSLEEPMode :: "string \<Rightarrow> bool \<Rightarrow> 'a stm_core_scheme \<Rightarrow> 'a stm_core_scheme" where
  "PWR_EnterSLEEPMode PWR_Regulator wfi s =
     run [lib ''PWR_CR'' [''clear PDDS LPDSR'', PWR_Regulator], lib ''SCB_SCR'' [''clear SLEEPDEEP''],
          lib (if wfi then ''WFI'' else ''WFE'') []] s"

definition enter_low_power_mode_stm :: "POWER_MODE_stm \<Rightarrow> 'a stm_core_scheme \<Rightarrow> 'a stm_core_scheme" where
  "enter_low_power_mode_stm mode s =
     (case mode of
        SLEEP \<Rightarrow> PWR_EnterSLEEPMode ''Regulator_ON'' True s
      | STOP \<Rightarrow> lib ''PWR_EnterSTOPMode'' [''Regulator_ON'', ''WFI''] s
      | LPSTOP \<Rightarrow> lib ''PWR_EnterSTOPMode'' [''Regulator_LowPower'', ''WFI''] s
      | STANDBY \<Rightarrow> lib ''PWR_WakeUpPinCmd'' [''ENABLE''] (lib ''PWR_EnterSTANDBYMode'' [] s))"

definition set_if :: "u16 \<Rightarrow> nat \<Rightarrow> u8 \<Rightarrow> u8" where
  "set_if v b x = (if v \<noteq> 0 then SETBIT x b else x)"

definition power_server :: "'a stm_core_scheme \<Rightarrow> 'a stm_core_scheme" where
  "power_server s =
     (if IsOnTime_stm (power_u32NextChangeTime s) s
      then let r = g_SysADCResult s;
               p = run [set_if (DET_5VAE r) 7, set_if (DET_D3V3E r) 5, set_if (DET_VDDINT r) 4,
                        set_if (DET_NIBP r) 2, set_if (DET_OVLD_OFF r) 1] 0
           in s\<lparr>g_power_status := p,
                power_u32NextChangeTime := power_u32NextChangeTime s + getNextTimeByMS 10\<rparr>
      else s)"

definition enter_softwareUpdate :: "u8 \<Rightarrow> 'a stm_core_scheme \<Rightarrow> 'a stm_core_scheme" where
  "enter_softwareUpdate b s =
     (if b \<noteq> 0xAA then s else tell SystemReset (BKP_WriteBackupRegister 3 0xAA s))"

section \<open>system_check.c\<close>

definition crcl6_table :: "u16 list" where
  "crcl6_table =
     [0x0000, 0xCC01, 0xD801, 0x1400, 0xF001, 0x3C00, 0x2800, 0xE401,
      0xA001, 0x6C00, 0x7800, 0xB401, 0x5000, 0x9C01, 0x8801, 0x4400]"

text \<open>One half of the loop body: shift the total by four bits and add the two table entries.\<close>

definition crc16_nibble :: "u16 \<Rightarrow> u16 \<Rightarrow> u16" where
  "crc16_nibble nib acc =
     (let r1 = crcl6_table ! unat (acc AND 0x0F);
          acc = drop_bit 4 acc AND 0x0FFF
      in (acc XOR r1) XOR crcl6_table ! unat (nib AND 0x0F))"

fun GetCRC16 :: "u16 \<Rightarrow> bytes \<Rightarrow> u16" where
  "GetCRC16 start [] = start"
| "GetCRC16 start (b # p) =
     GetCRC16 (crc16_nibble (drop_bit 4 (ucast b)) (crc16_nibble (ucast b) start)) p"

definition STM_FLASH_SIZE_app :: nat where "STM_FLASH_SIZE_app = 0x10000"

definition stm_flash_bytes :: "nat \<Rightarrow> nat \<Rightarrow> 'a stm_core_scheme \<Rightarrow> bytes" where
  "stm_flash_bytes off n s = map (\<lambda>i. stm_flash s (off + i)) [0..<n]"

text \<open>The image ends with its length (32 bits) and its CRC (16 bits), least significant byte first.\<close>

definition APP_CODE_LEN :: "'a stm_core_scheme \<Rightarrow> u32" where
  "APP_CODE_LEN s = (let f = (\<lambda>i. stm_flash s (STM_FLASH_SIZE_app - 6 + i))
                     in u32_of_bytes (f 3) (f 2) (f 1) (f 0))"

definition APP_CRC :: "'a stm_core_scheme \<Rightarrow> u16" where
  "APP_CRC s = u16_of_bytes (stm_flash s (STM_FLASH_SIZE_app - 1)) (stm_flash s (STM_FLASH_SIZE_app - 2))"

definition Flash_Check :: "'a stm_core_scheme \<Rightarrow> 'a stm_core_scheme" where
  "Flash_Check s =
     (if APP_CODE_LEN s > of_nat (STM_FLASH_SIZE_app - 6) then s
      else if APP_CRC s = GetCRC16 0 (stm_flash_bytes 0 (unat (ucast (APP_CODE_LEN s) :: u16)) s)
      then s\<lparr>Sys_Self_Check_Status := RESETBIT (Sys_Self_Check_Status s) 2\<rparr> else s)"

definition SRAM_Check :: "'a stm_core_scheme \<Rightarrow> 'a stm_core_scheme" where
  "SRAM_Check s =
     (let s = run [lib ''RCC_APB1PeriphClockCmd'' [''PWR|BKP'', ''ENABLE''], lib ''PWR_BackupAccessCmd'' [''ENABLE''],
                   lib ''BKP_ClearFlag'' []] s
      in if bkp s 2 = 0 then s\<lparr>Sys_Self_Check_Status := RESETBIT (Sys_Self_Check_Status s) 1\<rparr> else s)"

definition CPU_Check :: "'a stm_core_scheme \<Rightarrow> 'a stm_core_scheme" where
  "CPU_Check s = s\<lparr>Sys_Self_Check_Status := RESETBIT (Sys_Self_Check_Status s) 3\<rparr>"

definition SystemCore_Check :: "'a stm_core_scheme \<Rightarrow> 'a stm_core_scheme" where
  "SystemCore_Check s = CPU_Check (Flash_Check (SRAM_Check s))"

section \<open>The table is the polynomial\<close>

text \<open>The reference: one bit of the reflected CRC-16 with polynomial \<open>0xA001\<close>, eight times a byte.\<close>

definition crc16_bit :: "u16 \<Rightarrow> u16" where
  "crc16_bit c = (if c AND 1 \<noteq> 0 then drop_bit 1 c XOR 0xA001 else drop_bit 1 c)"

definition crc16_ref :: "u16 \<Rightarrow> bytes \<Rightarrow> u16" where
  "crc16_ref start p = fold (\<lambda>b c. (crc16_bit ^^ 8) (c XOR ucast b)) p start"

lemma bit_A001: "n < 16 \<Longrightarrow> bit (0xA001 :: u16) n \<longleftrightarrow> n = 0 \<or> n = 13 \<or> n = 15"
proof -
  have "bit (0xA001 :: u16) n \<longleftrightarrow> n \<in> set (filter (bit (0xA001 :: u16)) [0..<16])" if "n < 16" for n
    using that by simp
  moreover have "filter (bit (0xA001 :: u16)) [0..<16] = [0, 13, 15]" by code_simp
  ultimately show "n < 16 \<Longrightarrow> ?thesis" by auto
qed

lemma crc16_bit_alt: "crc16_bit c = drop_bit 1 c XOR (if bit c 0 then 0xA001 else 0)"
  by (simp add: crc16_bit_def bit_0 and_one_eq odd_iff_mod_2_eq_one)

lemma bit_crc16_bit:
  "n < 16 \<Longrightarrow> bit (crc16_bit c) n \<longleftrightarrow> (bit c (n + 1) \<noteq> (bit c 0 \<and> (n = 0 \<or> n = 13 \<or> n = 15)))"
proof -
  assume n: "n < 16"
  have "bit (if bit c 0 then 0xA001 else 0 :: u16) n \<longleftrightarrow> bit c 0 \<and> (n = 0 \<or> n = 13 \<or> n = 15)"
    using bit_A001 [OF n] by (cases "bit c 0") simp_all
  then show ?thesis by (simp only: crc16_bit_alt bit_xor_iff bit_drop_bit_eq comp_apply add.commute [of 1] simp_thms)
qed

lemma crc16_bit_xor: "crc16_bit (x XOR y) = crc16_bit x XOR crc16_bit y"
  by (rule bit_word_eqI) (auto simp: bit_crc16_bit bit_xor_iff)

lemma crc16_pow_xor: "(crc16_bit ^^ n) (x XOR y) = (crc16_bit ^^ n) x XOR (crc16_bit ^^ n) y"
  by (induction n) (simp_all add: crc16_bit_xor)

text \<open>The table holds four steps of each nibble; a total without its low nibble is just shifted.\<close>

lemma crc16_table: "x < 16 \<Longrightarrow> crcl6_table ! unat x = (crc16_bit ^^ 4) x"
proof -
  have "list_all (\<lambda>n. crcl6_table ! n = (crc16_bit ^^ 4) (of_nat n)) [0..<16]" by code_simp
  then have *: "\<And>n. n < 16 \<Longrightarrow> crcl6_table ! n = (crc16_bit ^^ 4) (of_nat n)" by (simp add: list_all_iff)
  assume "x < 16"
  then have "unat x < 16" by (simp add: word_less_nat_alt)
  from * [OF this] show ?thesis by simp
qed

lemma crc16_shift: "(\<And>i. i < n \<Longrightarrow> \<not> bit c i) \<Longrightarrow> (crc16_bit ^^ n) c = drop_bit n c"
proof (induction n)
  case (Suc n)
  then have "(crc16_bit ^^ n) c = drop_bit n c" by simp
  moreover have "\<not> bit (drop_bit n c) 0" using Suc.prems [of n] by (simp add: bit_drop_bit_eq)
  ultimately show ?case by (simp add: crc16_bit_alt [of "drop_bit n c"])
qed simp

lemma bit_shift_bound: "bit (b :: 'a::len word) (k + n) \<Longrightarrow> n < LENGTH('a) - k"
  using bit_imp_le_length [of b "k + n"] by simp

lemma crc16_nibble: "crc16_nibble nib acc = (crc16_bit ^^ 4) (acc XOR (nib AND 0x0F))"
proof -
  have F: "(0x0F :: u16) = mask 4" by (simp add: mask_eq_exp_minus_1)
  let ?h = "acc AND NOT 0x0F"
  have "drop_bit 4 ?h = drop_bit 4 acc"
  proof (rule bit_word_eqI)
    fix n
    show "bit (drop_bit 4 ?h) n = bit (drop_bit 4 acc) n"
      using bit_shift_bound [of acc 4 n] by (auto simp: F bit_simps)
  qed
  then have h: "(crc16_bit ^^ 4) ?h = drop_bit 4 acc" by (subst crc16_shift) (auto simp: F bit_simps)
  have small: "x AND 0x0F < (16 :: u16)" for x
    using and_mask_less' [of 4 x] by (simp add: F)
  have sh: "drop_bit 4 acc AND 0x0FFF = drop_bit 4 acc"
  proof -
    have m: "(0x0FFF :: u16) = mask 12" by (simp add: mask_eq_exp_minus_1)
    show ?thesis
    proof (rule bit_word_eqI)
      fix n
      show "bit (drop_bit 4 acc AND 0x0FFF) n = bit (drop_bit 4 acc) n"
        unfolding m using bit_shift_bound [of acc 4 n] by (auto simp: bit_simps)
    qed
  qed
  have e: "acc = ?h XOR (acc AND 0x0F)" by (rule bit_eqI) (auto simp: bit_simps)
  have "(crc16_bit ^^ 4) (acc XOR (nib AND 0x0F))
      = (crc16_bit ^^ 4) ?h XOR (crc16_bit ^^ 4) (acc AND 0x0F) XOR (crc16_bit ^^ 4) (nib AND 0x0F)"
    unfolding crc16_pow_xor [symmetric] unfolding xor.assoc [symmetric] e [symmetric] by (rule refl)
  then show ?thesis
    by (simp only: crc16_nibble_def Let_def h sh crc16_table [OF small] xor.assoc)
qed

lemma byte_nibbles:
  fixes b :: u8
  shows "ucast b AND 0x0F = (ucast (take_bit 4 b) :: u16)" "drop_bit 4 (ucast b) AND 0x0F = (ucast (drop_bit 4 b) :: u16)"
    "(ucast b :: u16) = ucast (take_bit 4 b) XOR push_bit 4 (ucast (drop_bit 4 b))"
proof -
  have F: "(0x0F :: u16) = mask 4" by (simp add: mask_eq_exp_minus_1)
  show "ucast b AND 0x0F = (ucast (take_bit 4 b) :: u16)" "drop_bit 4 (ucast b) AND 0x0F = (ucast (drop_bit 4 b) :: u16)"
    "(ucast b :: u16) = ucast (take_bit 4 b) XOR push_bit 4 (ucast (drop_bit 4 b))"
    unfolding F by (rule bit_word_eqI; auto simp: bit_simps dest: bit_imp_le_length)+
qed

text \<open>C38: the CRC of the self check, which goes through a table of sixteen entries half a byte at a
  time, computes the reflected CRC-16 with the polynomial \<open>0xA001\<close> one bit after the other, for
  every start value and every sequence of bytes.\<close>

theorem GetCRC16_is_CRC16: "GetCRC16 start p = crc16_ref start p"
proof (induction p arbitrary: start)
  case (Cons b p)
  let ?lo = "ucast (take_bit 4 b) :: u16" and ?hi = "ucast (drop_bit 4 b) :: u16"
  have "drop_bit 4 (push_bit 4 ?hi) = ?hi"
  proof (rule bit_word_eqI)
    fix n
    show "bit (drop_bit 4 (push_bit 4 ?hi)) n = bit ?hi n"
      using bit_shift_bound [of b 4 n] by (auto simp: bit_simps)
  qed
  then have "(crc16_bit ^^ 4) (push_bit 4 ?hi) = ?hi" by (subst crc16_shift) (auto simp: bit_simps)
  then have "(crc16_bit ^^ 4) ((crc16_bit ^^ 4) (start XOR ?lo) XOR ?hi)
      = (crc16_bit ^^ 4) ((crc16_bit ^^ 4) (start XOR ucast b))"
    unfolding byte_nibbles(3) [of b] by (simp only: crc16_pow_xor xor.assoc)
  also have "\<dots> = (crc16_bit ^^ 8) (start XOR ucast b)"
    by (simp only: funpow_add [symmetric, THEN fun_cong, unfolded comp_apply] numeral_plus_numeral add_num_simps)
  finally show ?case
    using Cons by (simp only: GetCRC16.simps crc16_nibble byte_nibbles(1,2) crc16_ref_def fold_Cons comp_apply)
qed (simp add: crc16_ref_def)

end
