(* ===== verification/StmModules.thy ===== *)
theory StmModules
  imports StmCore
begin

text \<open>
  The two measuring modules of the STM32: the independent overpressure protection of the blood
  pressure cuff (\<open>module_nibp.c\<close>) and the electrode and overload detection of the ECG (\<open>module_ecg.c\<close>).
  The properties say what the protection does and how a write over the bus defeats it, and that one
  of the electrodes is never measured.
\<close>

section \<open>module_nibp.c\<close>

datatype NIBP_CtrlStatus = Ctrl_Idle | Ctrl_Busy

record NIBP_ProtectDef =
  u16PressADC_Max :: u16
  u16PressADC_Min :: u16
  Index :: u8

record stm_nibp = stm_core +
  g_nibp_protect :: NIBP_CtrlStatus
  g_nibp_press :: NIBP_ProtectDef
  g_nibp_verify_sw :: bool
  g_nibp_fast_rele_state :: u8
  nibp_u32NextChangeTime :: u32

definition NIBP_PRESS_RELE_PIN :: stm_pin where "NIBP_PRESS_RELE_PIN = PA 5"

definition NIBP_PressRelease_IO_Init :: "'a stm_core_scheme \<Rightarrow> 'a stm_core_scheme" where
  "NIBP_PressRelease_IO_Init s =
     run [lib ''RCC_APB2PeriphClockCmd'' [''GPIOA'', ''ENABLE''], lib ''GPIO_Init'' [''GPIOA'', ''Pin_5'', ''Out_PP'']] s"

definition NIBP_SetPressRelease_stm :: "EnableOrDisable \<Rightarrow> 'a stm_nibp_scheme \<Rightarrow> 'a stm_nibp_scheme" where
  "NIBP_SetPressRelease_stm st s =
     (if st = ENABLE then GPIO_ResetBits NIBP_PRESS_RELE_PIN (s\<lparr>g_nibp_fast_rele_state := 1\<rparr>)
      else GPIO_SetBits NIBP_PRESS_RELE_PIN s)"

definition NIBP_SetSafePress :: "bytes \<Rightarrow> nat \<Rightarrow> 'a stm_nibp_scheme \<Rightarrow> int \<times> 'a stm_nibp_scheme" where
  "NIBP_SetSafePress pBuf nLen s =
     (if nLen \<noteq> 3 then (- 1, s)
      else (0, s\<lparr>g_nibp_press := (g_nibp_press s)\<lparr>Index := pBuf ! 0, u16PressADC_Max := u16_of_bytes (pBuf ! 1) (pBuf ! 2)\<rparr>\<rparr>))"

definition NIBP_SetNIBPVerify :: "u8 \<Rightarrow> 'a stm_nibp_scheme \<Rightarrow> 'a stm_nibp_scheme" where
  "NIBP_SetNIBPVerify st s = s\<lparr>g_nibp_verify_sw := (st \<noteq> 0)\<rparr>"

definition NIBP_SetNIBPFastReleState :: "u8 \<Rightarrow> 'a stm_nibp_scheme \<Rightarrow> 'a stm_nibp_scheme" where
  "NIBP_SetNIBPFastReleState st s =
     (if st = 0 then NIBP_SetPressRelease_stm DISABLE (s\<lparr>g_nibp_fast_rele_state := 0\<rparr>) else s)"

text \<open>\<open>7.31 * mmHg + 346.73\<close>, truncated.  The values 2612.83 and 434.45 are far from the next integer,
  so that the rounding of the double arithmetic does not show.\<close>

definition press_adc :: "nat \<Rightarrow> u16" where
  "press_adc mmHg = of_nat ((731 * mmHg + 34673) div 100)"

definition NIBP_SafePressInit :: "'a stm_nibp_scheme \<Rightarrow> 'a stm_nibp_scheme" where
  "NIBP_SafePressInit s =
     s\<lparr>g_nibp_press := \<lparr>u16PressADC_Max = press_adc 310, u16PressADC_Min = press_adc 12, Index = 0\<rparr>\<rparr>"

definition NIBP_Init_stm :: "'a stm_nibp_scheme \<Rightarrow> 'a stm_nibp_scheme" where
  "NIBP_Init_stm s =
     run [\<lambda>s. s\<lparr>g_nibp_protect := Ctrl_Idle, g_nibp_verify_sw := False, g_nibp_fast_rele_state := 0\<rparr>,
          NIBP_PressRelease_IO_Init, NIBP_SetPressRelease_stm DISABLE, NIBP_SafePressInit] s"

definition NIBP_Handler_stm :: "'a stm_nibp_scheme \<Rightarrow> 'a stm_nibp_scheme" where
  "NIBP_Handler_stm s =
     (if \<not> IsOnTime_stm (nibp_u32NextChangeTime s) s then s
      else let s = s\<lparr>nibp_u32NextChangeTime := nibp_u32NextChangeTime s + getNextTimeByMS 100\<rparr>
           in if g_nibp_verify_sw s then s
              else if DET_NIBP (g_SysADCResult s) > u16PressADC_Max (g_nibp_press s) \<and> g_nibp_protect s = Ctrl_Idle
              then NIBP_SetPressRelease_stm ENABLE (s\<lparr>g_nibp_protect := Ctrl_Busy\<rparr>)
              else if g_nibp_protect s = Ctrl_Busy \<and> DET_NIBP (g_SysADCResult s) < u16PressADC_Min (g_nibp_press s)
              then NIBP_SetPressRelease_stm DISABLE (s\<lparr>g_nibp_protect := Ctrl_Idle\<rparr>)
              else s)"

section \<open>The protection is a switch with hysteresis\<close>

text \<open>The valve is open while its pin is low.\<close>

definition valve_open :: "'a stm_core_scheme \<Rightarrow> bool" where
  "valve_open s \<longleftrightarrow> \<not> pin_out s NIBP_PRESS_RELE_PIN"

text \<open>A sample: the converter's value and a call of the handler that finds its time reached, or any
  of the writes the bus can make.\<close>

datatype protect_op = Pressure u16 | Limit u8 u16 | ReleaseState u8

definition protect_step :: "protect_op \<Rightarrow> 'a stm_nibp_scheme \<Rightarrow> 'a stm_nibp_scheme" where
  "protect_step x s =
     (case x of
        Pressure v \<Rightarrow> NIBP_Handler_stm (s\<lparr>g_SysADCResult := (g_SysADCResult s)\<lparr>DET_NIBP := v\<rparr>,
                                          u32SystemTick := nibp_u32NextChangeTime s\<rparr>)
      | Limit i m \<Rightarrow> snd (NIBP_SetSafePress [i, byte_of 8 m, byte_of 0 m] 3 s)
      | ReleaseState st \<Rightarrow> NIBP_SetNIBPFastReleState st s)"

text \<open>The specification: two thresholds, and whether the valve has been opened.\<close>

fun hysteresis :: "u16 \<Rightarrow> u16 \<Rightarrow> protect_op list \<Rightarrow> bool \<Rightarrow> bool" where
  "hysteresis hi lo [] b = b"
| "hysteresis hi lo (Pressure v # xs) b = hysteresis hi lo xs (if b then \<not> v < lo else v > hi)"
| "hysteresis hi lo (Limit i m # xs) b = hysteresis m lo xs b"
| "hysteresis hi lo (ReleaseState st # xs) b = hysteresis hi lo xs b"

definition protect_inv :: "'a stm_nibp_scheme \<Rightarrow> bool" where
  "protect_inv s \<longleftrightarrow> \<not> g_nibp_verify_sw s \<and> (valve_open s \<longleftrightarrow> g_nibp_protect s = Ctrl_Busy)"

lemma on_time_now [simp]: "IsOnTime_stm t (s\<lparr>u32SystemTick := t\<rparr>)"
  by (simp add: IsOnTime_stm on_time_late)

lemma valve_prims [simp]:
  "valve_open (NIBP_SetPressRelease_stm st s) \<longleftrightarrow> st = ENABLE"
  "g_nibp_protect (NIBP_SetPressRelease_stm st s) = g_nibp_protect s"
  "g_nibp_press (NIBP_SetPressRelease_stm st s) = g_nibp_press s"
  "g_nibp_verify_sw (NIBP_SetPressRelease_stm st s) = g_nibp_verify_sw s"
  by (cases st; simp add: valve_open_def NIBP_SetPressRelease_stm_def GPIO_SetBits_def GPIO_ResetBits_def tell_def)+

lemma tell_nibp [simp]:
  "g_nibp_protect (tell e s) = g_nibp_protect s" "g_nibp_press (tell e s) = g_nibp_press s"
  "g_nibp_verify_sw (tell e s) = g_nibp_verify_sw s" "valve_open (tell e s) = valve_open s"
  "g_SysADCResult (tell e s) = g_SysADCResult s" "u32SystemTick (tell e s) = u32SystemTick s"
  by (simp_all add: tell_def valve_open_def)

lemma valve_upd [simp]:
  "valve_open (s\<lparr>g_nibp_protect := p\<rparr>) = valve_open s" "valve_open (s\<lparr>nibp_u32NextChangeTime := t\<rparr>) = valve_open s"
  "valve_open (s\<lparr>g_SysADCResult := r\<rparr>) = valve_open s" "valve_open (s\<lparr>u32SystemTick := t'\<rparr>) = valve_open s"
  "valve_open (s\<lparr>g_nibp_press := pr\<rparr>) = valve_open s" "valve_open (s\<lparr>g_nibp_fast_rele_state := f\<rparr>) = valve_open s"
  by (simp_all add: valve_open_def)

lemma protect_pressure:
  assumes "\<not> g_nibp_verify_sw s"
  shows "g_nibp_protect (protect_step (Pressure v) s) =
      (if g_nibp_protect s = Ctrl_Busy then if v < u16PressADC_Min (g_nibp_press s) then Ctrl_Idle else Ctrl_Busy
       else if v > u16PressADC_Max (g_nibp_press s) then Ctrl_Busy else Ctrl_Idle)"
    "valve_open (protect_step (Pressure v) s) =
      (if g_nibp_protect s = Ctrl_Busy then if v < u16PressADC_Min (g_nibp_press s) then False else valve_open s
       else if v > u16PressADC_Max (g_nibp_press s) then True else valve_open s)"
    "g_nibp_press (protect_step (Pressure v) s) = g_nibp_press s" "\<not> g_nibp_verify_sw (protect_step (Pressure v) s)"
  using assms
  by (cases "g_nibp_protect s"; auto simp: protect_step_def NIBP_Handler_stm_def Let_def IsOnTime_stm on_time_late)+

lemma protect_limit:
  "g_nibp_protect (protect_step (Limit i m) s) = g_nibp_protect s"
  "valve_open (protect_step (Limit i m) s) = valve_open s"
  "u16PressADC_Max (g_nibp_press (protect_step (Limit i m) s)) = m"
  "u16PressADC_Min (g_nibp_press (protect_step (Limit i m) s)) = u16PressADC_Min (g_nibp_press s)"
  "g_nibp_verify_sw (protect_step (Limit i m) s) = g_nibp_verify_sw s"
  by (simp_all add: protect_step_def NIBP_SetSafePress_def u16_bytes_roundtrip)

text \<open>C6: the overpressure protection of the second processor implements a switch with hysteresis.  As long as it
  is not in the calibration mode and the first processor does not write the release state 0, the valve
  is open exactly when the specification says so: opened by a sample above the upper threshold in
  force, closed by a sample below the lower one.\<close>

theorem protection_refines:
  assumes "protect_inv s" "ReleaseState 0 \<notin> set xs"
  shows "valve_open (fold protect_step xs s) =
      hysteresis (u16PressADC_Max (g_nibp_press s)) (u16PressADC_Min (g_nibp_press s)) xs (valve_open s)"
  using assms
proof (induction xs arbitrary: s)
  case (Cons x xs)
  show ?case
  proof (cases x)
    case (Pressure v)
    have "protect_inv (protect_step x s)"
      using Cons.prems(1) protect_pressure [of s v] by (auto simp: protect_inv_def Pressure)
    from Cons.IH [OF this] Cons.prems protect_pressure [of s v] show ?thesis
      by (auto simp: Pressure protect_inv_def intro!: arg_cong2 [where f = "hysteresis _ _"])
  next
    case (Limit i m)
    have "protect_inv (protect_step x s)"
      using Cons.prems(1) protect_limit [of i m s] by (simp add: protect_inv_def Limit)
    from Cons.IH [OF this] Cons.prems protect_limit [of i m s] show ?thesis by (simp add: Limit)
  next
    case (ReleaseState st)
    then have "protect_step x s = s" using Cons.prems(2) by (auto simp: protect_step_def NIBP_SetNIBPFastReleState_def)
    with Cons ReleaseState show ?thesis by simp
  qed
qed simp

lemma protection_refines_witness:
  "\<exists>s :: stm_nibp. valve_open (fold protect_step [Pressure 2000, Limit 1 1900, Pressure 2000, Pressure 500] s)
     \<and> \<not> valve_open s"
proof -
  let ?s = "NIBP_Init_stm (undefined :: stm_nibp)"
  let ?xs = "[Pressure 2000, Limit 1 1900, Pressure 2000, Pressure 500]"
  have i: "protect_inv ?s" "\<not> valve_open ?s" "u16PressADC_Min (g_nibp_press ?s) = 434" "u16PressADC_Max (g_nibp_press ?s) = 2612"
    by (simp_all add: protect_inv_def NIBP_Init_stm_def NIBP_PressRelease_IO_Init_def NIBP_SafePressInit_def press_adc_def)
  have "ReleaseState 0 \<notin> set ?xs" by simp
  with protection_refines [OF i(1), of ?xs] i have "valve_open (fold protect_step ?xs ?s)" by simp
  with i(2) show ?thesis by blast
qed

text \<open>C35: one write of the release state 0 over the bus switches the protection off: sent while the protection holds
  the valve open, it closes the valve but leaves the state \<open>Ctrl_Busy\<close>, and from then on no sample, however high,
  opens the valve again until the pressure has been below the lower threshold.\<close>

theorem release_write_defeats_protection:
  assumes "g_nibp_protect s = Ctrl_Busy" "\<not> g_nibp_verify_sw s"
    "list_all (\<lambda>v. u16PressADC_Min (g_nibp_press s) \<le> v) vs"
  shows "\<not> valve_open (fold protect_step (ReleaseState 0 # map Pressure vs) s)"
proof -
  let ?t = "protect_step (ReleaseState 0) s"
  have t: "\<not> valve_open ?t" "g_nibp_protect ?t = Ctrl_Busy" "\<not> g_nibp_verify_sw ?t" "g_nibp_press ?t = g_nibp_press s"
    using assms by (simp_all add: protect_step_def NIBP_SetNIBPFastReleState_def)
  have "\<not> valve_open t \<Longrightarrow> g_nibp_protect t = Ctrl_Busy \<Longrightarrow> \<not> g_nibp_verify_sw t \<Longrightarrow> g_nibp_press t = g_nibp_press s
      \<Longrightarrow> \<not> valve_open (fold protect_step (map Pressure vs) t)" for t
    using assms(3)
  proof (induction vs arbitrary: t)
    case (Cons v vs)
    with protect_pressure [of t v] show ?case by (simp add: not_less)
  qed simp
  with t show ?thesis by simp
qed

lemma release_write_defeats_protection_witness:
  "\<exists>s :: stm_nibp. valve_open s \<and> \<not> valve_open (fold protect_step [ReleaseState 0, Pressure 4000, Pressure 4095] s)"
proof -
  let ?s = "fold protect_step [Pressure 3000] (NIBP_Init_stm (undefined :: stm_nibp))"
  let ?i = "NIBP_Init_stm (undefined :: stm_nibp)"
  have i: "\<not> g_nibp_verify_sw ?i" "u16PressADC_Min (g_nibp_press ?i) = 434" "u16PressADC_Max (g_nibp_press ?i) = 2612"
    "g_nibp_protect ?i = Ctrl_Idle"
    by (simp_all add: NIBP_Init_stm_def NIBP_PressRelease_IO_Init_def NIBP_SafePressInit_def press_adc_def)
  have s: "g_nibp_protect ?s = Ctrl_Busy" "\<not> g_nibp_verify_sw ?s" "u16PressADC_Min (g_nibp_press ?s) = 434" "valve_open ?s"
    using protect_pressure [of ?i 3000] i by simp_all
  show ?thesis using release_write_defeats_protection [OF s(1,2), of "[4000, 4095]"] s by force
qed

section \<open>module_ecg.c\<close>

text \<open>The enumeration is numbered from 0 in this order; \<open>curType++\<close> goes to the next constructor.\<close>

datatype ECG_SelectTypeDef =
  LA_OFF | RA_OFF | LL_OFF | RL_OFF | V1_OFF | ECG1_OVERLOAD | ECG2_OVERLOAD | ECGV_OVERLOAD

fun select_code :: "ECG_SelectTypeDef \<Rightarrow> nat" where
  "select_code LA_OFF = 0" | "select_code RA_OFF = 1" | "select_code LL_OFF = 2" | "select_code RL_OFF = 3"
| "select_code V1_OFF = 4" | "select_code ECG1_OVERLOAD = 5" | "select_code ECG2_OVERLOAD = 6" | "select_code ECGV_OVERLOAD = 7"

record ECG_ResultTypeDef =
  RA_OFF_Val :: u16
  RL_OFF_Val :: u16
  LA_OFF_Val :: u16
  LL_OFF_Val :: u16
  V1_OFF_Val :: u16
  ECG1_OVERLOAD_Val :: u16
  ECG2_OVERLOAD_Val :: u16
  ECGV_OVERLOAD_Val :: u16

record stm_ecg = stm_nibp +
  g_u8ecg_status :: u8
  g_ecg_target :: ECG_SelectTypeDef
  g_ecg_result_stm :: ECG_ResultTypeDef
  ecg_detect_u32NextChangeTime :: u32
  ecg_probe_u32NextChangeTime :: u32

definition ECG_GPIO_Init :: "'a stm_core_scheme \<Rightarrow> 'a stm_core_scheme" where
  "ECG_GPIO_Init s =
     run [lib ''RCC_APB2PeriphClockCmd'' [''GPIOB'', ''ENABLE''], lib ''GPIO_Init'' [''GPIOB'', ''Pin_15'', ''Out_PP''],
          lib ''GPIO_Init'' [''GPIOB'', ''Pin_14''], lib ''GPIO_Init'' [''GPIOB'', ''Pin_13'']] s"

definition SEL :: "bool \<Rightarrow> stm_pin \<Rightarrow> 'a stm_core_scheme \<Rightarrow> 'a stm_core_scheme" where
  "SEL b p = (if b then GPIO_SetBits p else GPIO_ResetBits p)"

text \<open>The three pins C, B and A of the analogue switch.\<close>

fun select_pins :: "ECG_SelectTypeDef \<Rightarrow> bool \<times> bool \<times> bool" where
  "select_pins RA_OFF = (False, False, False)"
| "select_pins RL_OFF = (False, False, True)"
| "select_pins LA_OFF = (False, True, False)"
| "select_pins LL_OFF = (False, True, True)"
| "select_pins V1_OFF = (True, False, False)"
| "select_pins ECG1_OVERLOAD = (True, False, True)"
| "select_pins ECG2_OVERLOAD = (True, True, False)"
| "select_pins ECGV_OVERLOAD = (True, True, True)"

definition ECG_SelectChannel :: "ECG_SelectTypeDef \<Rightarrow> 'a stm_ecg_scheme \<Rightarrow> 'a stm_ecg_scheme" where
  "ECG_SelectChannel channel s =
     (case select_pins channel of (c, b, a) \<Rightarrow>
        (run [SEL c (PB 13), SEL b (PB 14), SEL a (PB 15)] s)\<lparr>g_ecg_target := channel\<rparr>)"

fun next_target :: "ECG_SelectTypeDef \<Rightarrow> ECG_SelectTypeDef" where
  "next_target LA_OFF = RA_OFF" | "next_target RA_OFF = LL_OFF" | "next_target LL_OFF = RL_OFF"
| "next_target RL_OFF = V1_OFF" | "next_target V1_OFF = ECG1_OVERLOAD" | "next_target ECG1_OVERLOAD = ECG2_OVERLOAD"
| "next_target ECG2_OVERLOAD = ECGV_OVERLOAD" | "next_target ECGV_OVERLOAD = RA_OFF"

definition ECG_SelectNextChannel :: "'a stm_ecg_scheme \<Rightarrow> 'a stm_ecg_scheme" where
  "ECG_SelectNextChannel s = ECG_SelectChannel (next_target (g_ecg_target s)) s"

definition ECG_DetectDataSave :: "'a stm_ecg_scheme \<Rightarrow> 'a stm_ecg_scheme" where
  "ECG_DetectDataSave s =
     (let v = DET_OVLD_OFF (g_SysADCResult s); r = g_ecg_result_stm s
      in s\<lparr>g_ecg_result_stm :=
            (case g_ecg_target s of
               RA_OFF \<Rightarrow> r\<lparr>RA_OFF_Val := v\<rparr> | RL_OFF \<Rightarrow> r\<lparr>RL_OFF_Val := v\<rparr>
             | LA_OFF \<Rightarrow> r\<lparr>LA_OFF_Val := v\<rparr> | LL_OFF \<Rightarrow> r\<lparr>LL_OFF_Val := v\<rparr>
             | V1_OFF \<Rightarrow> r\<lparr>V1_OFF_Val := v\<rparr> | ECG1_OVERLOAD \<Rightarrow> r\<lparr>ECG1_OVERLOAD_Val := v\<rparr>
             | ECG2_OVERLOAD \<Rightarrow> r\<lparr>ECG2_OVERLOAD_Val := v\<rparr> | ECGV_OVERLOAD \<Rightarrow> r\<lparr>ECGV_OVERLOAD_Val := v\<rparr>)\<rparr>)"

definition ECG_Init_stm :: "'a stm_ecg_scheme \<Rightarrow> 'a stm_ecg_scheme" where
  "ECG_Init_stm s = ECG_SelectChannel RA_OFF (ECG_GPIO_Init (s\<lparr>g_u8ecg_status := 0\<rparr>))"

definition Is_ecgPorbe_narmal :: "u16 \<Rightarrow> bool" where
  "Is_ecgPorbe_narmal value \<longleftrightarrow> unat value > 1285 * (100 - 10) div 100 \<and> unat value < 1285 * (100 + 10) div 100"

definition Is_ecgPorbeRL_narmal :: "u16 \<Rightarrow> bool" where
  "Is_ecgPorbeRL_narmal value \<longleftrightarrow> unat value > 1430 * (100 - 10) div 100 \<and> unat value < 1430 * (100 + 10) div 100"

definition ECG_ProbeDetect :: "'a stm_ecg_scheme \<Rightarrow> 'a stm_ecg_scheme" where
  "ECG_ProbeDetect s =
     (if \<not> IsOnTime_stm (ecg_probe_u32NextChangeTime s) s then s
      else let r = g_ecg_result_stm s;
               off = (\<lambda>ok t x. if ok then RESETBIT x (select_code t) else x)
           in s\<lparr>g_u8ecg_status :=
                   run [off (Is_ecgPorbe_narmal (RA_OFF_Val r)) RA_OFF, off (Is_ecgPorbe_narmal (LA_OFF_Val r)) LA_OFF,
                        off (Is_ecgPorbe_narmal (LL_OFF_Val r)) LL_OFF, off (Is_ecgPorbe_narmal (V1_OFF_Val r)) V1_OFF,
                        off (Is_ecgPorbeRL_narmal (RL_OFF_Val r)) RL_OFF] 0xFF,
                ecg_probe_u32NextChangeTime := ecg_probe_u32NextChangeTime s + getNextTimeByMS 500\<rparr>)"

definition ECG_DetectHandler :: "'a stm_ecg_scheme \<Rightarrow> 'a stm_ecg_scheme" where
  "ECG_DetectHandler s =
     ECG_ProbeDetect
       (if IsOnTime_stm (ecg_detect_u32NextChangeTime s) s
        then let s = ECG_SelectNextChannel (ECG_DetectDataSave s)
             in s\<lparr>ecg_detect_u32NextChangeTime := ecg_detect_u32NextChangeTime s + getNextTimeByMS 100\<rparr>
        else s)"

section \<open>One electrode is never measured\<close>

text \<open>A call of the handler at any time, with any value of the converter.\<close>

definition detect_at :: "u32 \<times> u16 \<Rightarrow> 'a stm_ecg_scheme \<Rightarrow> 'a stm_ecg_scheme" where
  "detect_at x s = ECG_DetectHandler
     (s\<lparr>u32SystemTick := fst x, g_SysADCResult := (g_SysADCResult s)\<lparr>DET_OVLD_OFF := snd x\<rparr>\<rparr>)"

text \<open>What the handler keeps: the electrode \<open>LA_OFF\<close> is not selected, and its stored value is the one from before.\<close>

definition la_inv :: "u16 \<Rightarrow> 'a stm_ecg_scheme \<Rightarrow> bool" where
  "la_inv v s \<longleftrightarrow> g_ecg_target s \<noteq> LA_OFF \<and> LA_OFF_Val (g_ecg_result_stm s) = v"

lemma next_target_LA: "next_target t \<noteq> LA_OFF"
  by (cases t) simp_all

lemma SelectChannel_sel [simp]:
  "g_ecg_target (ECG_SelectChannel c s) = c" "g_ecg_result_stm (ECG_SelectChannel c s) = g_ecg_result_stm s"
  "g_u8ecg_status (ECG_SelectChannel c s) = g_u8ecg_status s"
  "ecg_detect_u32NextChangeTime (ECG_SelectChannel c s) = ecg_detect_u32NextChangeTime s"
  "ecg_probe_u32NextChangeTime (ECG_SelectChannel c s) = ecg_probe_u32NextChangeTime s"
  "u32SystemTick (ECG_SelectChannel c s) = u32SystemTick s"
  by (cases c; simp add: ECG_SelectChannel_def SEL_def GPIO_SetBits_def GPIO_ResetBits_def tell_def)+

lemma DetectDataSave_LA:
  "u32SystemTick (ECG_DetectDataSave s) = u32SystemTick s"
  "ecg_probe_u32NextChangeTime (ECG_DetectDataSave s) = ecg_probe_u32NextChangeTime s"
  "g_ecg_target s \<noteq> LA_OFF \<Longrightarrow> LA_OFF_Val (g_ecg_result_stm (ECG_DetectDataSave s)) = LA_OFF_Val (g_ecg_result_stm s)"
  "g_ecg_target (ECG_DetectDataSave s) = g_ecg_target s" "g_u8ecg_status (ECG_DetectDataSave s) = g_u8ecg_status s"
  by (cases "g_ecg_target s"; simp add: ECG_DetectDataSave_def Let_def)+

lemma ProbeDetect_sel [simp]:
  "g_ecg_target (ECG_ProbeDetect s) = g_ecg_target s" "g_ecg_result_stm (ECG_ProbeDetect s) = g_ecg_result_stm s"
  by (simp_all add: ECG_ProbeDetect_def Let_def)

lemma detect_la_inv: "la_inv v s \<Longrightarrow> la_inv v (detect_at x s)"
  by (auto simp: la_inv_def detect_at_def ECG_DetectHandler_def ECG_SelectNextChannel_def Let_def next_target_LA DetectDataSave_LA)

lemma bit_RESETBIT: "bit (RESETBIT x k) n \<longleftrightarrow> bit x n \<and> n \<noteq> k"
  by (auto simp: RESETBIT_def bit_simps dest: bit_imp_le_length)

lemma probe_status:
  assumes "IsOnTime_stm (ecg_probe_u32NextChangeTime s) s"
  defines "r \<equiv> g_ecg_result_stm s" and "st \<equiv> g_u8ecg_status (ECG_ProbeDetect s)"
  shows "bit st 0 = (\<not> Is_ecgPorbe_narmal (LA_OFF_Val r))" "bit st 1 = (\<not> Is_ecgPorbe_narmal (RA_OFF_Val r))"
    "bit st 2 = (\<not> Is_ecgPorbe_narmal (LL_OFF_Val r))" "bit st 3 = (\<not> Is_ecgPorbeRL_narmal (RL_OFF_Val r))"
    "bit st 4 = (\<not> Is_ecgPorbe_narmal (V1_OFF_Val r))" "bit st 5" "bit st 6" "bit st 7"
  using assms by (auto simp: ECG_ProbeDetect_def Let_def bit_RESETBIT)

text \<open>Whether one of these calls finds the period of the computation over.\<close>

fun probe_computed :: "(u32 \<times> u16) list \<Rightarrow> 'a stm_ecg_scheme \<Rightarrow> bool" where
  "probe_computed [] s \<longleftrightarrow> False"
| "probe_computed (x # xs) s \<longleftrightarrow> on_time (fst x) (ecg_probe_u32NextChangeTime s) \<or> probe_computed xs (detect_at x s)"

lemma detect_status:
  assumes "la_inv 0 s"
  shows "on_time (fst x) (ecg_probe_u32NextChangeTime s) \<Longrightarrow> bit (g_u8ecg_status (detect_at x s)) 0"
    "\<not> on_time (fst x) (ecg_probe_u32NextChangeTime s) \<Longrightarrow> g_u8ecg_status (detect_at x s) = g_u8ecg_status s"
proof -
  let ?s = "s\<lparr>u32SystemTick := fst x, g_SysADCResult := (g_SysADCResult s)\<lparr>DET_OVLD_OFF := snd x\<rparr>\<rparr>"
  let ?t = "if IsOnTime_stm (ecg_detect_u32NextChangeTime ?s) ?s
        then let s = ECG_SelectNextChannel (ECG_DetectDataSave ?s)
             in s\<lparr>ecg_detect_u32NextChangeTime := ecg_detect_u32NextChangeTime s + getNextTimeByMS 100\<rparr>
        else ?s"
  define u where "u = ?t"
  have t: "LA_OFF_Val (g_ecg_result_stm u) = 0" "g_u8ecg_status u = g_u8ecg_status s" "u32SystemTick u = fst x"
    "ecg_probe_u32NextChangeTime u = ecg_probe_u32NextChangeTime s"
    unfolding u_def using assms(1) by (auto simp: la_inv_def ECG_SelectNextChannel_def Let_def DetectDataSave_LA)
  have d: "detect_at x s = ECG_ProbeDetect u" by (simp only: detect_at_def ECG_DetectHandler_def u_def)
  have due: "IsOnTime_stm (ecg_probe_u32NextChangeTime u) u \<longleftrightarrow> on_time (fst x) (ecg_probe_u32NextChangeTime s)"
    by (simp only: IsOnTime_stm t)
  show "bit (g_u8ecg_status (detect_at x s)) 0" if "on_time (fst x) (ecg_probe_u32NextChangeTime s)"
    using probe_status(1) [of u] that t(1) unfolding d due by (simp add: Is_ecgPorbe_narmal_def)
  show "g_u8ecg_status (detect_at x s) = g_u8ecg_status s" if "\<not> on_time (fst x) (ecg_probe_u32NextChangeTime s)"
    using that t(2) unfolding d due [symmetric] by (simp only: ECG_ProbeDetect_def if_True not_False_eq_True)
qed

lemma detect_status_run:
  "la_inv 0 s \<Longrightarrow> la_inv 0 (fold detect_at xs s)
    \<and> (if probe_computed xs s \<or> bit (g_u8ecg_status s) 0 then bit (g_u8ecg_status (fold detect_at xs s)) 0
       else g_u8ecg_status (fold detect_at xs s) = g_u8ecg_status s)"
proof (induction xs arbitrary: s)
  case (Cons x xs)
  have "la_inv 0 (detect_at x s)" using Cons.prems by (rule detect_la_inv)
  note IH = Cons.IH [OF this]
  show ?case
  proof (cases "on_time (fst x) (ecg_probe_u32NextChangeTime s)")
    case True
    with IH detect_status(1) [OF Cons.prems, of x] show ?thesis by simp
  next
    case False
    with IH detect_status(2) [OF Cons.prems, of x] show ?thesis by simp
  qed
qed simp

text \<open>C39: after the start of the module the left-arm electrode is never measured: the scan goes from the last
  channel back to \<open>RA_OFF\<close>, the second constructor of the enumeration, not to \<open>LA_OFF\<close>, the first.  However often,
  whenever and with whatever measured values the handler runs, the stored value stays the initial 0; the status stays 0 up to
  the first call that finds the period of the computation over, and from that call on it always has the electrode's
  bit set, that is, reports it as fallen off.\<close>

theorem LA_electrode_never_measured:
  assumes "LA_OFF_Val (g_ecg_result_stm s) = 0"
  shows "let t = fold detect_at xs (ECG_Init_stm s)
         in LA_OFF_Val (g_ecg_result_stm t) = 0 \<and> bit (g_u8ecg_status t) 0 = probe_computed xs (ECG_Init_stm s)
            \<and> (g_u8ecg_status t = 0) = (\<not> probe_computed xs (ECG_Init_stm s))"
proof -
  have i: "la_inv 0 (ECG_Init_stm s)" "g_u8ecg_status (ECG_Init_stm s) = 0"
    using assms by (simp_all add: la_inv_def ECG_Init_stm_def ECG_GPIO_Init_def tell_def)
  show ?thesis using detect_status_run [OF i(1), of xs] i(2) by (auto simp: Let_def la_inv_def split: if_splits)
qed

text \<open>Three calls, the last with a normal value of the converter, of which already the first computes the status.\<close>

lemma LA_electrode_never_measured_witness:
  "bit (g_u8ecg_status (fold detect_at [(0, 1285), (100, 1285), (1000, 1285)] (ECG_Init_stm ((undefined :: stm_ecg)\<lparr>g_ecg_result_stm :=
     \<lparr>RA_OFF_Val = 0, RL_OFF_Val = 0, LA_OFF_Val = 0, LL_OFF_Val = 0,
      V1_OFF_Val = 0, ECG1_OVERLOAD_Val = 0, ECG2_OVERLOAD_Val = 0, ECGV_OVERLOAD_Val = 0\<rparr>, ecg_probe_u32NextChangeTime := 0\<rparr>)))) 0"
proof -
  let ?s = "(undefined :: stm_ecg)\<lparr>g_ecg_result_stm := \<lparr>RA_OFF_Val = 0, RL_OFF_Val = 0, LA_OFF_Val = 0, LL_OFF_Val = 0,
    V1_OFF_Val = 0, ECG1_OVERLOAD_Val = 0, ECG2_OVERLOAD_Val = 0, ECGV_OVERLOAD_Val = 0\<rparr>, ecg_probe_u32NextChangeTime := 0\<rparr>"
  have "LA_OFF_Val (g_ecg_result_stm ?s) = 0" by simp
  moreover have "ecg_probe_u32NextChangeTime (ECG_Init_stm ?s) = 0" by (simp add: ECG_Init_stm_def ECG_GPIO_Init_def tell_def)
  then have "probe_computed [(0, 1285), (100, 1285), (1000, 1285)] (ECG_Init_stm ?s)" by (simp add: on_time_late)
  ultimately show ?thesis
    using LA_electrode_never_measured [of ?s "[(0, 1285), (100, 1285), (1000, 1285)]"] unfolding Let_def by blast
qed

end
