(* ===== verification/StmI2c.thy ===== *)
theory StmI2c
  imports StmModules
begin

text \<open>
  The slave interface of the STM32 on the two-wire bus (\<open>i2c_int.c\<close>) and its main program (\<open>main.c\<close>).

  \<open>tx_buf\<close> of the first device points at \<open>stm_i2c_tx_buf\<close>, the three status bytes the main loop refreshes:
  both names are one list here, \<open>stm_i2c_tx_buf\<close>, so that a write through one is seen through the other.
  A byte sent from beyond the three bytes is whatever lies behind them in memory (\<open>i2c_mem\<close>).
  An event of the peripheral is the word \<open>I2C_GetLastEvent\<close> returns, the data register and the
  status register \<open>SR1\<close>.
\<close>

section \<open>State\<close>

record i2c_event =
  ie_event :: u32
  ie_data :: u8
  ie_sr1 :: u32

record i2c_device =
  i2c_ch :: nat
  i2c_done :: bool
  i2c_addr :: u8
  i2c_sub_addr :: u16
  i2c_sub_addr_len :: u16
  i2c_len :: u32
  i2c_rx_buf :: bytes
  i2c_tx_len :: nat
  i2c_rx_len :: nat
  i2c_sent :: bytes

record stm_sys = stm_ecg +
  stm_i2c_tx_buf :: bytes
  i2c_mem :: "nat \<Rightarrow> u8"
  i2c2_tx_buf :: bytes
  g_i2c_dev :: i2c_device
  g_i2c2_dev :: i2c_device
  i2c_SR1 :: u32
  i2c_u32UpdateTime :: u32

definition I2C_BUFFER_SIZE :: nat where "I2C_BUFFER_SIZE = 128"
definition STM32_I2C_TX_SIZE :: nat where "STM32_I2C_TX_SIZE = 3"

lemma i2c_sizes [simp]: "I2C_BUFFER_SIZE = 128" "STM32_I2C_TX_SIZE = 3"
  by (simp_all add: I2C_BUFFER_SIZE_def STM32_I2C_TX_SIZE_def)

abbreviation BIT_TRA :: u32 where "BIT_TRA \<equiv> 0x40000"
abbreviation BIT_MASTER :: u32 where "BIT_MASTER \<equiv> 0x10000"
abbreviation BIT_TXE :: u32 where "BIT_TXE \<equiv> 0x80"
abbreviation BIT_RXNE :: u32 where "BIT_RXNE \<equiv> 0x40"
abbreviation BIT_STOP :: u32 where "BIT_STOP \<equiv> 0x10"
abbreviation BIT_BTF :: u32 where "BIT_BTF \<equiv> 0x04"
abbreviation BIT_ADDR :: u32 where "BIT_ADDR \<equiv> 0x02"
abbreviation BIT_START :: u32 where "BIT_START \<equiv> 0x01"

definition has :: "u32 \<Rightarrow> u32 \<Rightarrow> bool" where
  "has event bits \<longleftrightarrow> event AND bits = bits"

section \<open>Initialisation\<close>

definition i2c_device_init :: "nat \<Rightarrow> i2c_device \<Rightarrow> i2c_device" where
  "i2c_device_init ch d = d\<lparr>i2c_ch := ch, i2c_tx_len := 0, i2c_rx_len := 0\<rparr>"

definition i2c_clk_init :: "nat \<Rightarrow> 'a stm_core_scheme \<Rightarrow> 'a stm_core_scheme" where
  "i2c_clk_init ch s =
     (if ch = 1
      then run [tell (Printf ''i2c_clk_init:ch1''), lib ''RCC_APB1PeriphClockCmd'' [''I2C1'', ''ENABLE''],
                lib ''RCC_APB2PeriphClockCmd'' [''GPIOB'', ''ENABLE'']] s
      else if ch = 2
      then run [tell (Printf ''i2c_clk_init:ch2''), lib ''RCC_APB1PeriphClockCmd'' [''I2C2'', ''ENABLE''],
                lib ''RCC_APB2PeriphClockCmd'' [''GPIOB'', ''ENABLE'']] s
      else s)"

definition i2c_pin_init :: "nat \<Rightarrow> 'a stm_core_scheme \<Rightarrow> 'a stm_core_scheme" where
  "i2c_pin_init ch s =
     (if ch = 1 then run [lib ''GPIO_Init'' [''GPIOB'', ''Pin_6'', ''AF_OD''], lib ''GPIO_Init'' [''GPIOB'', ''Pin_7'', ''AF_OD'']] s
      else if ch = 2 then run [lib ''GPIO_Init'' [''GPIOB'', ''Pin_10'', ''AF_OD''], lib ''GPIO_Init'' [''GPIOB'', ''Pin_11'', ''AF_OD'']] s
      else s)"

definition i2c_interrupt_init :: "nat \<Rightarrow> 'a stm_core_scheme \<Rightarrow> 'a stm_core_scheme" where
  "i2c_interrupt_init ch s =
     (let er = (if ch = 1 then ''I2C1_ER'' else ''I2C2_ER''); ev = (if ch = 1 then ''I2C1_EV'' else ''I2C2_EV'')
      in run [lib ''NVIC_PriorityGroupConfig'' [''2''], lib ''NVIC_Init'' [er, ''2'', ''2''], lib ''NVIC_Init'' [ev, ''2'', ''3''],
              lib ''I2C_ITConfig'' [''BUF|EVT'', ''ENABLE''], lib ''I2C_ITConfig'' [''ERR'', ''ENABLE'']] s)"

definition i2c_mode_init :: "'a stm_core_scheme \<Rightarrow> 'a stm_core_scheme" where
  "i2c_mode_init s =
     run [lib ''I2C_DeInit'' [], lib ''I2C_Init'' [''100000'', ''16_9'', ''0x60'', ''Ack'', ''7bit''], lib ''I2C_Cmd'' [''ENABLE'']] s"

definition i2c_hw_init :: "nat \<Rightarrow> 'a stm_sys_scheme \<Rightarrow> 'a stm_sys_scheme" where
  "i2c_hw_init ch s =
     run [\<lambda>s. s\<lparr>g_i2c_dev := i2c_device_init ch (g_i2c_dev s)\<rparr>, i2c_clk_init ch, i2c_pin_init ch, i2c_mode_init, i2c_interrupt_init ch] s"

definition i2c_init :: "'a stm_sys_scheme \<Rightarrow> 'a stm_sys_scheme" where
  "i2c_init s = i2c_hw_init 1 (s\<lparr>stm_i2c_tx_buf := [0, 0, 0]\<rparr>)"

section \<open>Commands\<close>

definition tx_write :: "nat \<Rightarrow> u8 \<Rightarrow> 'a stm_sys_scheme \<Rightarrow> 'a stm_sys_scheme" where
  "tx_write i v s = s\<lparr>stm_i2c_tx_buf := (stm_i2c_tx_buf s)[i := v]\<rparr>"

definition i2c_onReadHandle :: "bytes \<Rightarrow> 'a stm_sys_scheme \<Rightarrow> 'a stm_sys_scheme" where
  "i2c_onReadHandle pData s =
     (let i = drop_bit 1 (pData ! 0)
      in if i = 0 then tx_write 0 (stm_i2c_tx_buf s ! 0) s
         else if i = 1 then tx_write 0 (stm_i2c_tx_buf s ! 1) s
         else if i = 2 then tx_write 0 (stm_i2c_tx_buf s ! 2) s
         else if i = 4 then run [tx_write 0 (byte_of 8 (DET_NIBP (g_SysADCResult s))),
                                 tx_write 1 (byte_of 0 (DET_NIBP (g_SysADCResult s)))] s
         else if i = 3 then run [tx_write 0 (Index (g_nibp_press s)),
                                 tx_write 1 (byte_of 8 (u16PressADC_Max (g_nibp_press s))),
                                 tx_write 2 (byte_of 0 (u16PressADC_Max (g_nibp_press s)))] s
         else if i = 7 then tx_write 0 (g_nibp_fast_rele_state s) s
         else s)"

definition i2c_OnWriteHandle :: "bytes \<Rightarrow> 'a stm_sys_scheme \<Rightarrow> 'a stm_sys_scheme" where
  "i2c_OnWriteHandle pData s =
     (let i = drop_bit 1 (pData ! 0)
      in if pData ! 1 = 0 then s
         else if i = 3 then snd (NIBP_SetSafePress (drop 2 pData) 3 s)
         else if i = 5 then enter_softwareUpdate (pData ! 2) s
         else if i = 6 then NIBP_SetNIBPVerify (pData ! 2) s
         else if i = 7 then NIBP_SetNIBPFastReleState (pData ! 2) s
         else s)"

section \<open>The interrupt handlers\<close>

definition I2C_SendData :: "u8 \<Rightarrow> i2c_device \<Rightarrow> i2c_device" where
  "I2C_SendData b d = d\<lparr>i2c_sent := i2c_sent d @ [b]\<rparr>"

definition rx_store :: "u8 \<Rightarrow> i2c_device \<Rightarrow> i2c_device" where
  "rx_store b d = d\<lparr>i2c_rx_buf := (i2c_rx_buf d)[i2c_rx_len d := b], i2c_rx_len := (i2c_rx_len d + 1) mod I2C_BUFFER_SIZE\<rparr>"

text \<open>The master branch, with the transmit buffer and the modulus the two handlers differ in.\<close>

definition master_event :: "(nat \<Rightarrow> u8) \<Rightarrow> nat \<Rightarrow> i2c_event \<Rightarrow> i2c_device \<Rightarrow> string list \<times> i2c_device" where
  "master_event tx m ev d =
     (let e = ie_event ev;
          (cs, d) = (if has e (BIT_MASTER OR BIT_START) then ([''ACK ENABLE''], I2C_SendData (i2c_addr d) d) else ([], d));
          (cs, d) = (if has e (BIT_MASTER OR BIT_RXNE)
                     then if i2c_sub_addr_len d = 1
                          then (cs, I2C_SendData (ucast (i2c_sub_addr d)) (d\<lparr>i2c_sub_addr_len := 0\<rparr>))
                          else if i2c_len d \<noteq> 0 then (cs, (rx_store (ie_data ev) d)\<lparr>i2c_len := i2c_len d - 1\<rparr>)
                          else (cs @ [''ACK DISABLE'', ''STOP''], d)
                     else (cs, d))
      in if has e (BIT_MASTER OR BIT_TRA OR BIT_TXE)
         then if i2c_sub_addr_len d = 1
              then (cs, I2C_SendData (ucast (i2c_sub_addr d)) (d\<lparr>i2c_sub_addr_len := 0\<rparr>))
              else if i2c_len d \<noteq> 0
              then (cs, (I2C_SendData (tx (i2c_tx_len d)) d)\<lparr>i2c_tx_len := (i2c_tx_len d + 1) mod m, i2c_len := i2c_len d - 1\<rparr>)
              else (if ie_sr1 ev AND BIT_BTF \<noteq> 0 then cs @ [''STOP''] else cs, d)
         else (cs, d))"

text \<open>The slave branch up to the stop condition: address, received byte, byte to send.\<close>

definition slave_event :: "(nat \<Rightarrow> u8) \<Rightarrow> i2c_event \<Rightarrow> i2c_device \<Rightarrow> i2c_device" where
  "slave_event tx ev d =
     (let e = ie_event ev;
          d = (if e AND BIT_ADDR \<noteq> 0 then d\<lparr>i2c_rx_len := 0, i2c_tx_len := 0\<rparr> else d);
          d = (if e AND BIT_RXNE \<noteq> 0 then rx_store (ie_data ev) d else d)
      in if has e (BIT_TRA OR BIT_TXE)
         then (I2C_SendData (tx (i2c_tx_len d)) d)\<lparr>i2c_tx_len := (i2c_tx_len d + 1) mod I2C_BUFFER_SIZE\<rparr>
         else d)"

definition tx_byte :: "'a stm_sys_scheme \<Rightarrow> nat \<Rightarrow> u8" where
  "tx_byte s i = (if i < length (stm_i2c_tx_buf s) then stm_i2c_tx_buf s ! i else i2c_mem s i)"

definition I2C1_EV_IRQHandler :: "i2c_event \<Rightarrow> 'a stm_sys_scheme \<Rightarrow> 'a stm_sys_scheme" where
  "I2C1_EV_IRQHandler ev s =
     (if ie_event ev AND BIT_MASTER \<noteq> 0
      then let (cs, d) = master_event (tx_byte s) STM32_I2C_TX_SIZE ev (g_i2c_dev s)
           in run (map (\<lambda>c. lib ''I2C1'' [c]) cs) (s\<lparr>g_i2c_dev := d\<rparr>)
      else let d = slave_event (tx_byte s) ev (g_i2c_dev s); s = s\<lparr>g_i2c_dev := d\<rparr>
           in if ie_event ev AND BIT_STOP = 0 then s
              else let s = lib ''I2C_Cmd'' [''ENABLE''] s;
                       s = (if i2c_rx_len d = 0 then s
                            else if i2c_rx_buf d ! 0 AND 1 \<noteq> 0 then i2c_onReadHandle (i2c_rx_buf d) s
                            else i2c_OnWriteHandle (i2c_rx_buf d) s)
                   in s\<lparr>g_i2c_dev := (g_i2c_dev s)\<lparr>i2c_done := True\<rparr>\<rparr>)"

definition I2C2_EV_IRQHandler :: "i2c_event \<Rightarrow> 'a stm_sys_scheme \<Rightarrow> 'a stm_sys_scheme" where
  "I2C2_EV_IRQHandler ev s =
     (let tx = (\<lambda>i. i2c2_tx_buf s ! i)
      in if ie_event ev AND BIT_MASTER \<noteq> 0
         then let (cs, d) = master_event tx I2C_BUFFER_SIZE ev (g_i2c2_dev s)
              in run (map (\<lambda>c. lib ''I2C2'' [c]) cs) (s\<lparr>g_i2c2_dev := d\<rparr>)
         else let d = slave_event tx ev (g_i2c2_dev s)
              in if ie_event ev AND BIT_STOP = 0 then s\<lparr>g_i2c2_dev := d\<rparr>
                 else lib ''I2C_Cmd'' [''ENABLE''] (s\<lparr>g_i2c2_dev := d\<lparr>i2c_done := True\<rparr>\<rparr>))"

text \<open>The error handlers clear every error bit the event shows.\<close>

definition clear_errors :: "u32 \<Rightarrow> u32 \<Rightarrow> u32" where
  "clear_errors event sr1 =
     fold (\<lambda>b r. if event AND b \<noteq> 0 then r AND NOT b else r) [0x4000, 0x1000, 0x800, 0x400, 0x200, 0x100] sr1"

definition I2C1_ER_IRQHandler :: "u32 \<Rightarrow> 'a stm_sys_scheme \<Rightarrow> 'a stm_sys_scheme" where
  "I2C1_ER_IRQHandler event s = s\<lparr>i2c_SR1 := clear_errors event (i2c_SR1 s)\<rparr>"

definition I2C2_ER_IRQHandler :: "u32 \<Rightarrow> u32 \<Rightarrow> u32" where
  "I2C2_ER_IRQHandler event sr1 = clear_errors event sr1"

section \<open>Waiting for the peripheral\<close>

text \<open>\<open>while (!ready && timeout--)\<close> over the number of polls that find the peripheral not ready; the result 1 is
  a timeout.\<close>

definition i2c_check_event :: "nat \<Rightarrow> nat" where
  "i2c_check_event k = (let timeout = (if k \<le> 10000 then 10000 - int k else - 1) in if timeout > 1 then 0 else 1)"

definition i2c_wait :: "nat \<Rightarrow> int" where
  "i2c_wait k = (let timeout = (if k \<le> 10000 then 10000 - int k else - 1) in if timeout > 1 then 0 else - 1)"

section \<open>Service and main program\<close>

definition i2c_server :: "'a stm_sys_scheme \<Rightarrow> 'a stm_sys_scheme" where
  "i2c_server s =
     (if IsOnTime_stm (i2c_u32UpdateTime s) s
      then s\<lparr>i2c_u32UpdateTime := i2c_u32UpdateTime s + 10,
             stm_i2c_tx_buf := [g_power_status s, Sys_Self_Check_Status s, g_u8ecg_status s]\<rparr>
      else s)"

definition RCC_Configuration :: "'a stm_core_scheme \<Rightarrow> 'a stm_core_scheme" where
  "RCC_Configuration s =
     run [lib ''RCC_DeInit'' [], lib ''RCC_HSICmd'' [''ENABLE''], lib ''RCC_HCLKConfig'' [''SYSCLK_Div1''],
          lib ''RCC_PCLK2Config'' [''HCLK_Div1''], lib ''RCC_PCLK1Config'' [''HCLK_Div2''],
          lib ''RCC_PLLConfig'' [''HSI_Div2'', ''PLLMul_5''], lib ''RCC_PLLCmd'' [''ENABLE''],
          lib ''RCC_SYSCLKConfig'' [''PLLCLK''], lib ''RCC_GetClocksFreq'' []] s"

definition System_NVIC_Config :: "'a stm_core_scheme \<Rightarrow> 'a stm_core_scheme" where
  "System_NVIC_Config s =
     run [lib ''NVIC_SetVectorTable'' [''FLASH'', ''0x4000''], lib ''NVIC_PriorityGroupConfig'' [''2''],
          lib ''NVIC_Init'' [''USART1'', ''1'', ''2''], lib ''NVIC_PriorityGroupConfig'' [''2''],
          lib ''NVIC_Init'' [''ADC1'', ''1'', ''3'']] s"

end
