(* ===== verification/StmUart.thy ===== *)
theory StmUart
  imports Ring
begin

text \<open>
  \<open>src/AllInOneSTM32/Usr/src/uart.c\<close> and the part of \<open>Retarget.c\<close> that sends the text of \<open>printf\<close>: the debug
  port of the second processor, with a receive and a transmit ring of 256 bytes.  Every wait of a
  foreground function polls between interrupts; \<open>uart_sched\<close> lists the interrupts each poll to come
  finds.  Inside the interrupt handler nothing empties the transmit ring, so that a wait there never ends: \<open>None\<close>.
\<close>

section \<open>State\<close>

definition UART_COM_RxBUFSIZE :: nat where "UART_COM_RxBUFSIZE = 256"
definition UART_COM_TxBUFSIZE :: nat where "UART_COM_TxBUFSIZE = 256"

lemma UART_COM_sizes [simp]: "UART_COM_RxBUFSIZE = 256" "UART_COM_TxBUFSIZE = 256"
  by (simp_all add: UART_COM_RxBUFSIZE_def UART_COM_TxBUFSIZE_def)

text \<open>What the handler finds: a received byte and whether the transmitter is free.  (On an overrun it
  also clears the flag and discards the byte, which no variable shows.)\<close>

record com_event =
  ce_rxne :: "u8 option"
  ce_txe :: bool

text \<open>\<open>com_txe_it\<close> is the transmit interrupt's enable bit, \<open>com_sent\<close> what went to the data register.\<close>

record com_st =
  u8RxBuf :: bytes
  u8TxBuf :: bytes
  u16RxIdxStart :: nat
  u16RxIdxEnd :: nat
  u16TxIdxStart :: nat
  u16TxIdxEnd :: nat
  u8IsOverBufLenght :: bool
  com_txe_it :: bool
  com_sent :: bytes
  com_sched :: "com_event list list"

definition COM_Init :: "com_st \<Rightarrow> com_st" where
  "COM_Init u = u\<lparr>u16RxIdxStart := 0, u16RxIdxEnd := 0, u16TxIdxStart := 0, u16TxIdxEnd := 0,
                  u8IsOverBufLenght := False, u8RxBuf := replicate UART_COM_RxBUFSIZE 0,
                  u8TxBuf := replicate UART_COM_TxBUFSIZE 0, com_txe_it := False\<rparr>"

section \<open>Sending\<close>

definition IsTxBufFull :: "nat \<Rightarrow> com_st \<Rightarrow> bool" where
  "IsTxBufFull u16IdxEnd u \<longleftrightarrow>
     u16TxIdxStart u = 0 \<and> u16IdxEnd = UART_COM_TxBUFSIZE - 1 \<or> u16TxIdxStart u = u16IdxEnd + 1"

definition com_tx_store :: "u8 \<Rightarrow> com_st \<Rightarrow> com_st" where
  "com_tx_store b u =
     (let u = u\<lparr>u8TxBuf := (u8TxBuf u)[u16TxIdxEnd u := b]\<rparr>
      in u\<lparr>u16TxIdxEnd := (if u16TxIdxEnd u < UART_COM_TxBUFSIZE - 1 then u16TxIdxEnd u + 1 else 0),
           com_txe_it := True\<rparr>)"

text \<open>\<open>UART_SendByte\<close> as the handler calls it: with a full ring it never returns.\<close>

definition UART_SendByte_isr :: "u8 \<Rightarrow> com_st \<Rightarrow> com_st option" where
  "UART_SendByte_isr b u = (if IsTxBufFull (u16TxIdxEnd u) u then None else Some (com_tx_store b u))"

fun print_isr :: "bytes \<Rightarrow> com_st \<Rightarrow> com_st option" where
  "print_isr [] u = Some u"
| "print_isr (b # bs) u = (case UART_SendByte_isr b u of None \<Rightarrow> None | Some u \<Rightarrow> print_isr bs u)"

section \<open>The interrupt handler\<close>

definition com_rx_store :: "u8 \<Rightarrow> com_st \<Rightarrow> com_st" where
  "com_rx_store b u =
     (let u = u\<lparr>u8RxBuf := (u8RxBuf u)[u16RxIdxEnd u := b], u16RxIdxEnd := u16RxIdxEnd u + 1\<rparr>;
          u = (if u16RxIdxEnd u \<ge> UART_COM_RxBUFSIZE then u\<lparr>u16RxIdxEnd := 0, u8IsOverBufLenght := True\<rparr> else u)
      in if u8IsOverBufLenght u \<and> u16RxIdxEnd u \<ge> u16RxIdxStart u
         then let u = u\<lparr>u16RxIdxStart := u16RxIdxEnd u + 1\<rparr>
              in if u16RxIdxStart u \<ge> UART_COM_RxBUFSIZE then u\<lparr>u16RxIdxStart := 0\<rparr> else u
         else u)"

definition com_tx_next :: "com_st \<Rightarrow> com_st" where
  "com_tx_next u =
     (if u16TxIdxStart u = u16TxIdxEnd u then u\<lparr>com_txe_it := False\<rparr>
      else let u = u\<lparr>com_sent := com_sent u @ [u8TxBuf u ! u16TxIdxStart u], u16TxIdxStart := u16TxIdxStart u + 1\<rparr>
           in if u16TxIdxStart u \<ge> UART_COM_TxBUFSIZE then u\<lparr>u16TxIdxStart := 0\<rparr> else u)"

definition rx_message :: "com_st \<Rightarrow> bytes" where
  "rx_message u = crnl @ str ''[UART] s='' @ fmt_d (of_nat (u16RxIdxStart u)) @ str '' e='' @ fmt_d (of_nat (u16RxIdxEnd u))"

definition UART_COM_IRQHandler :: "com_event \<Rightarrow> com_st \<Rightarrow> com_st option" where
  "UART_COM_IRQHandler ev u =
     (case (case ce_rxne ev of None \<Rightarrow> Some u
            | Some b \<Rightarrow> map_option (com_rx_store b) (print_isr (rx_message u) u)) of
        None \<Rightarrow> None
      | Some u \<Rightarrow> Some (if ce_txe ev \<and> com_txe_it u then com_tx_next u else u))"

section \<open>Foreground functions\<close>

fun com_deliver :: "com_event list \<Rightarrow> com_st \<Rightarrow> com_st option" where
  "com_deliver [] u = Some u"
| "com_deliver (ev # evs) u = (case UART_COM_IRQHandler ev u of None \<Rightarrow> None | Some u \<Rightarrow> com_deliver evs u)"

definition com_preempt :: "com_st \<Rightarrow> com_st option" where
  "com_preempt u = (case com_sched u of [] \<Rightarrow> Some u | evs # rest \<Rightarrow> com_deliver evs (u\<lparr>com_sched := rest\<rparr>))"

partial_function (option) UART_wait :: "(com_st \<Rightarrow> nat) \<Rightarrow> com_st \<Rightarrow> com_st option" where
  "UART_wait idx u =
     (case com_preempt u of None \<Rightarrow> None
      | Some u \<Rightarrow> if IsTxBufFull (idx u) u then UART_wait idx u else Some u)"

definition UART_SendByte :: "u8 \<Rightarrow> com_st \<Rightarrow> com_st option" where
  "UART_SendByte u8Byte u = map_option (com_tx_store u8Byte) (UART_wait u16TxIdxEnd u)"

text \<open>\<open>UART_SendBuf\<close> counts in a local index, which it publishes, with the interrupt, only at the end.\<close>

fun SendBuf_loop :: "bytes \<Rightarrow> nat \<Rightarrow> com_st \<Rightarrow> (nat \<times> com_st) option" where
  "SendBuf_loop [] i u = Some (i, u)"
| "SendBuf_loop (b # bs) i u =
     (case UART_wait (\<lambda>_. i) u of None \<Rightarrow> None
      | Some u \<Rightarrow> SendBuf_loop bs (if i + 1 \<ge> UART_COM_TxBUFSIZE then 0 else i + 1) (u\<lparr>u8TxBuf := (u8TxBuf u)[i := b]\<rparr>))"

definition UART_SendBuf :: "bytes \<Rightarrow> com_st \<Rightarrow> com_st option" where
  "UART_SendBuf u8Buf u =
     map_option (\<lambda>(i, u). u\<lparr>u16TxIdxEnd := i, com_txe_it := True\<rparr>) (SendBuf_loop u8Buf (u16TxIdxEnd u) u)"

fun uart_print :: "bytes \<Rightarrow> com_st \<Rightarrow> com_st option" where
  "uart_print [] u = Some u"
| "uart_print (b # bs) u = (case UART_SendByte b u of None \<Rightarrow> None | Some u \<Rightarrow> uart_print bs u)"

definition IsRxBufEmpty :: "com_st \<Rightarrow> bool" where
  "IsRxBufEmpty u = (u16RxIdxEnd u = u16RxIdxStart u)"

text \<open>The part of \<open>UART_GetByte\<close> before its message, and the whole.\<close>

definition com_rx_take :: "com_st \<Rightarrow> u8 \<times> com_st" where
  "com_rx_take u =
     (let v = u8RxBuf u ! u16RxIdxStart u; u = u\<lparr>u16RxIdxStart := u16RxIdxStart u + 1\<rparr>
      in (v, if u16RxIdxStart u \<ge> UART_COM_RxBUFSIZE then u\<lparr>u16RxIdxStart := 0, u8IsOverBufLenght := False\<rparr> else u))"

definition UART_GetByte :: "com_st \<Rightarrow> (u8 option \<times> com_st) option" where
  "UART_GetByte u =
     (if IsRxBufEmpty u then Some (None, u)
      else let (v, u) = com_rx_take u
           in map_option (\<lambda>u. (Some v, u)) (uart_print (crnl @ str ''[UART] UART_GetByte = '' @ fmt_u False 16 2 (unat v)) u))"

section \<open>The receive ring\<close>

definition com_rx_items :: "com_st \<Rightarrow> bytes" where
  "com_rx_items u = ring_items (u8RxBuf u) (u16RxIdxStart u) (u16RxIdxEnd u)"

definition com_rx_inv :: "com_st \<Rightarrow> bool" where
  "com_rx_inv u \<longleftrightarrow>
     ring_ok 256 (u8RxBuf u) (u16RxIdxStart u) (u16RxIdxEnd u) \<and>
     (if u8IsOverBufLenght u then u16RxIdxEnd u < u16RxIdxStart u \<or> u16RxIdxEnd u = 255
      else u16RxIdxStart u \<le> u16RxIdxEnd u)"

definition com_rx_get :: "com_st \<Rightarrow> (u8 \<times> com_st) option" where
  "com_rx_get u = (if IsRxBufEmpty u then None else Some (com_rx_take u))"

interpretation com_rx: ring_reader 256 com_rx_inv u8RxBuf u16RxIdxStart u16RxIdxEnd com_rx_store com_rx_get
proof unfold_locales
  show "1 < (256 :: nat)" by simp
  fix u :: com_st and b
  assume i: "com_rx_inv u"
  show "ring_ok 256 (u8RxBuf u) (u16RxIdxStart u) (u16RxIdxEnd u)" using i by (simp add: com_rx_inv_def)
  show "com_rx_inv (com_rx_store b u)" "u8RxBuf (com_rx_store b u) = (u8RxBuf u)[u16RxIdxEnd u := b]"
    "u16RxIdxEnd (com_rx_store b u) = ring_inc 256 (u16RxIdxEnd u)"
    "u16RxIdxStart (com_rx_store b u) = ring_drop 256 (u16RxIdxStart u) (ring_inc 256 (u16RxIdxEnd u))"
    using i by (auto simp: com_rx_store_def Let_def com_rx_inv_def ring_ok_def ring_inc_def ring_drop_def split: if_splits)
  show "u16RxIdxStart u = u16RxIdxEnd u \<Longrightarrow> com_rx_get u = None" by (simp add: com_rx_get_def IsRxBufEmpty_def)
  assume "u16RxIdxStart u \<noteq> u16RxIdxEnd u"
  with i show "\<exists>u'. com_rx_get u = Some (u8RxBuf u ! u16RxIdxStart u, u') \<and> com_rx_inv u' \<and> u8RxBuf u' = u8RxBuf u
      \<and> u16RxIdxEnd u' = u16RxIdxEnd u \<and> u16RxIdxStart u' = ring_inc 256 (u16RxIdxStart u)"
    by (auto simp: com_rx_get_def com_rx_take_def IsRxBufEmpty_def Let_def com_rx_inv_def ring_ok_def ring_inc_def
        split: if_splits)
qed

section \<open>The debug message in the handler\<close>

definition com_tx_free :: "com_st \<Rightarrow> nat" where
  "com_tx_free u = 255 - length (ring_items (u8TxBuf u) (u16TxIdxStart u) (u16TxIdxEnd u))"

definition com_tx_ok :: "com_st \<Rightarrow> bool" where
  "com_tx_ok u \<longleftrightarrow> ring_ok 256 (u8TxBuf u) (u16TxIdxStart u) (u16TxIdxEnd u)"

lemma IsTxBufFull_free: "com_tx_ok u \<Longrightarrow> IsTxBufFull (u16TxIdxEnd u) u \<longleftrightarrow> com_tx_free u = 0"
  by (auto simp: com_tx_ok_def com_tx_free_def IsTxBufFull_def length_ring_items) (auto simp: ring_ok_def)

lemma com_tx_store_free:
  "com_tx_ok u \<Longrightarrow> com_tx_free u \<noteq> 0 \<Longrightarrow> com_tx_ok (com_tx_store b u) \<and> com_tx_free (com_tx_store b u) = com_tx_free u - 1"
proof -
  assume u: "com_tx_ok u" "com_tx_free u \<noteq> 0"
  have s: "u8TxBuf (com_tx_store b u) = (u8TxBuf u)[u16TxIdxEnd u := b]" "u16TxIdxStart (com_tx_store b u) = u16TxIdxStart u"
    "u16TxIdxEnd (com_tx_store b u) = ring_inc 256 (u16TxIdxEnd u)"
    by (auto simp: com_tx_store_def Let_def ring_inc_def)
  have "ring_inc 256 (u16TxIdxEnd u) \<noteq> u16TxIdxStart u"
    using u IsTxBufFull_free [OF u(1)] by (auto simp: IsTxBufFull_def ring_inc_def com_tx_ok_def ring_ok_def)
  with u(1) ring_items_snoc [of 256 "u8TxBuf u" "u16TxIdxStart u" "u16TxIdxEnd u" b] show ?thesis
    by (simp add: com_tx_ok_def com_tx_free_def s) (simp add: ring_ok_def)
qed

lemma print_isr_hangs: "com_tx_ok u \<Longrightarrow> print_isr bs u = None \<longleftrightarrow> com_tx_free u < length bs"
proof (induction bs arbitrary: u)
  case (Cons b bs)
  show ?case
  proof (cases "com_tx_free u = 0")
    case True
    with Cons.prems show ?thesis by (simp add: UART_SendByte_isr_def IsTxBufFull_free)
  next
    case False
    with Cons com_tx_store_free [OF Cons.prems False, of b] show ?thesis
      by (simp add: UART_SendByte_isr_def IsTxBufFull_free) linarith
  qed
qed simp

text \<open>C40: the receive interrupt of the debug port never returns when it finds less room in the transmit ring than
  its own debug message takes: it waits for room which only the same handler could make.  In every other case it returns.\<close>

theorem uart_interrupt_hangs:
  assumes "com_tx_ok u"
  shows "UART_COM_IRQHandler ev u = None \<longleftrightarrow> ce_rxne ev \<noteq> None \<and> com_tx_free u < length (rx_message u)"
  using print_isr_hangs [OF assms, of "rx_message u"]
  by (auto simp: UART_COM_IRQHandler_def split: option.splits)

lemma uart_interrupt_hangs_witness:
  "UART_COM_IRQHandler \<lparr>ce_rxne = Some 65, ce_txe = True\<rparr>
     \<lparr>u8RxBuf = replicate 256 0, u8TxBuf = replicate 256 0, u16RxIdxStart = 0, u16RxIdxEnd = 0, u16TxIdxStart = 0,
      u16TxIdxEnd = 250, u8IsOverBufLenght = False, com_txe_it = True, com_sent = [], com_sched = []\<rparr> = None"
proof -
  let ?u = "\<lparr>u8RxBuf = replicate 256 0, u8TxBuf = replicate 256 0, u16RxIdxStart = 0, u16RxIdxEnd = 0, u16TxIdxStart = 0,
      u16TxIdxEnd = 250, u8IsOverBufLenght = False, com_txe_it = True, com_sent = [], com_sched = []\<rparr>"
  have ok: "com_tx_ok ?u" by (simp add: com_tx_ok_def ring_ok_def)
  have "com_tx_free ?u = 5" by (simp add: com_tx_free_def ring_items_def)
  moreover have "5 < length (rx_message ?u)" by (simp add: rx_message_def crnl_def str_def)
  ultimately show ?thesis using uart_interrupt_hangs [OF ok, of "\<lparr>ce_rxne = Some 65, ce_txe = True\<rparr>"] by simp
qed

end
