(* ===== verification/StmMain.thy ===== *)
theory StmMain
  imports StmI2c StmUart
begin

text \<open>
  The main program of the second processor (\<open>main.c\<close>, \<open>stm32f10x_it.c\<close>) and the properties of its parts together:
  what all interrupts and passes of the main loop keep, what the self check can report, and what a
  transfer on the two-wire bus reads and writes.  The text of \<open>printf\<close> is an entry of the trace here; how it
  leaves the processor is modelled in theory \<open>StmUart\<close>.
\<close>

section \<open>main.c\<close>

record stm_board = stm_sys +
  stm_com :: com_st

definition UART_Init :: "'a stm_board_scheme \<Rightarrow> 'a stm_board_scheme" where
  "UART_Init s =
     run [\<lambda>s. s\<lparr>stm_com := COM_Init (stm_com s)\<rparr>,
          lib ''RCC_APB2PeriphClockCmd'' [''GPIOA|AFIO'', ''ENABLE''], lib ''RCC_APB2PeriphClockCmd'' [''USART1'', ''ENABLE''],
          lib ''GPIO_Init'' [''GPIOA'', ''Pin_10'', ''IN_FLOATING''], lib ''GPIO_Init'' [''GPIOA'', ''Pin_9'', ''AF_PP''],
          lib ''USART_Init'' [''115200'', ''8b'', ''1'', ''No'', ''Rx|Tx''], lib ''USART_ITConfig'' [''RXNE'', ''ENABLE''],
          lib ''USART_Cmd'' [''ENABLE''], tell (Printf ''[UART] UART Init Ready.'')] s"

definition System_Init_stm :: "'a stm_board_scheme \<Rightarrow> 'a stm_board_scheme" where
  "System_Init_stm s =
     run [RCC_Configuration, System_NVIC_Config, SysTick_Start_stm, watchdog_init, UART_Init, i2c_init, power_init,
          tell (Printf ''SysCLCK, HCLK, PCLK1, PCLK2'')] s"

definition Platform_Init_stm :: "'a stm_ecg_scheme \<Rightarrow> 'a stm_ecg_scheme" where
  "Platform_Init_stm s = run [LED_Init, SystemADC_Init, NIBP_Init_stm, ECG_Init_stm] s"

definition Boot_SystemCheck :: "'a stm_core_scheme \<Rightarrow> 'a stm_core_scheme" where
  "Boot_SystemCheck s = run [Watchdog_Check, SystemCore_Check, System_ADC_Check] s"

text \<open>The two print functions in the loop are empty in this configuration.\<close>

definition stm_pass :: "'a stm_sys_scheme \<Rightarrow> 'a stm_sys_scheme" where
  "stm_pass s = run [watchdog_server 100, NIBP_Handler_stm, ECG_DetectHandler, LED_Handler, i2c_server, power_server] s"

definition stm_boot :: "'a stm_board_scheme \<Rightarrow> 'a stm_board_scheme" where
  "stm_boot s = tell (Printf ''All In One Board.'') (run [System_Init_stm, Platform_Init_stm, Boot_SystemCheck] s)"

text \<open>What happens in operation: a pass, the tick interrupt, a new set of measured values by DMA, an event or an error of
  the bus.  A pass is one step; the interrupts fall between passes.\<close>

datatype stm_event = Pass | Tick | Measured InternalADCResult | BusEvent i2c_event | BusError u32

definition stm_react :: "stm_event \<Rightarrow> 'a stm_sys_scheme \<Rightarrow> 'a stm_sys_scheme" where
  "stm_react e s =
     (case e of
        Pass \<Rightarrow> stm_pass s
      | Tick \<Rightarrow> SysTick_Incremental s
      | Measured r \<Rightarrow> s\<lparr>g_SysADCResult := r\<rparr>
      | BusEvent ev \<Rightarrow> I2C1_EV_IRQHandler ev s
      | BusError ev \<Rightarrow> I2C1_ER_IRQHandler ev s)"

section \<open>What the operations keep\<close>

lemmas stm_defs = tell_def GPIO_SetBits_def GPIO_ResetBits_def BKP_WriteBackupRegister_def

lemma watchdog_server_frame [frame]:
  "Sys_Self_Check_Status (watchdog_server t s) = Sys_Self_Check_Status s"
  by (simp add: watchdog_server_def watchdog_reset_def Let_def stm_defs)

lemma watchdog_server_i2c [frame]:
  "stm_i2c_tx_buf (watchdog_server t s) = stm_i2c_tx_buf s" "g_i2c_dev (watchdog_server t s) = g_i2c_dev s"
  by (simp_all add: watchdog_server_def watchdog_reset_def Let_def stm_defs)

lemma LED_Handler_frame [frame]:
  "Sys_Self_Check_Status (LED_Handler s) = Sys_Self_Check_Status s"
  by (simp add: LED_Handler_def Let_def stm_defs)

lemma LED_Handler_i2c [frame]:
  "stm_i2c_tx_buf (LED_Handler s) = stm_i2c_tx_buf s" "g_i2c_dev (LED_Handler s) = g_i2c_dev s"
  by (simp_all add: LED_Handler_def Let_def stm_defs)

lemma power_server_frame [frame]:
  "Sys_Self_Check_Status (power_server s) = Sys_Self_Check_Status s"
  by (simp add: power_server_def Let_def)

lemma power_server_i2c [frame]:
  "stm_i2c_tx_buf (power_server s) = stm_i2c_tx_buf s" "g_i2c_dev (power_server s) = g_i2c_dev s"
  by (simp_all add: power_server_def Let_def)

lemma SetPressRelease_frame [frame]:
  "Sys_Self_Check_Status (NIBP_SetPressRelease_stm st s) = Sys_Self_Check_Status s"
  by (simp add: NIBP_SetPressRelease_stm_def stm_defs)

lemma SetPressRelease_i2c [frame]:
  "stm_i2c_tx_buf (NIBP_SetPressRelease_stm st s) = stm_i2c_tx_buf s" "g_i2c_dev (NIBP_SetPressRelease_stm st s) = g_i2c_dev s"
  by (simp_all add: NIBP_SetPressRelease_stm_def stm_defs)

lemma NIBP_Handler_frame [frame]:
  "Sys_Self_Check_Status (NIBP_Handler_stm s) = Sys_Self_Check_Status s"
  by (simp add: NIBP_Handler_stm_def Let_def frame)

lemma NIBP_Handler_i2c [frame]:
  "stm_i2c_tx_buf (NIBP_Handler_stm s) = stm_i2c_tx_buf s" "g_i2c_dev (NIBP_Handler_stm s) = g_i2c_dev s"
  by (simp_all add: NIBP_Handler_stm_def Let_def frame)

lemma SelectChannel_frame [frame]:
  "Sys_Self_Check_Status (ECG_SelectChannel c s) = Sys_Self_Check_Status s"
  by (cases c) (simp_all add: ECG_SelectChannel_def SEL_def stm_defs)

lemma SelectChannel_i2c [frame]:
  "stm_i2c_tx_buf (ECG_SelectChannel c s) = stm_i2c_tx_buf s" "g_i2c_dev (ECG_SelectChannel c s) = g_i2c_dev s"
  by (cases c; simp add: ECG_SelectChannel_def SEL_def stm_defs)+

lemma DetectDataSave_frame [frame]:
  "Sys_Self_Check_Status (ECG_DetectDataSave s) = Sys_Self_Check_Status s"
  by (cases "g_ecg_target s") (simp_all add: ECG_DetectDataSave_def Let_def)

lemma DetectDataSave_i2c [frame]:
  "stm_i2c_tx_buf (ECG_DetectDataSave s) = stm_i2c_tx_buf s" "g_i2c_dev (ECG_DetectDataSave s) = g_i2c_dev s"
  by (cases "g_ecg_target s"; simp add: ECG_DetectDataSave_def Let_def)+

lemma DetectHandler_frame [frame]:
  "Sys_Self_Check_Status (ECG_DetectHandler s) = Sys_Self_Check_Status s"
  by (simp add: ECG_DetectHandler_def ECG_ProbeDetect_def ECG_SelectNextChannel_def Let_def frame)

lemma DetectHandler_i2c [frame]:
  "stm_i2c_tx_buf (ECG_DetectHandler s) = stm_i2c_tx_buf s" "g_i2c_dev (ECG_DetectHandler s) = g_i2c_dev s"
  by (simp_all add: ECG_DetectHandler_def ECG_ProbeDetect_def ECG_SelectNextChannel_def Let_def frame)

lemma i2c_server_frame [frame]:
  "Sys_Self_Check_Status (i2c_server s) = Sys_Self_Check_Status s" "g_i2c_dev (i2c_server s) = g_i2c_dev s"
  by (simp_all add: i2c_server_def)

lemma i2c_commands_frame [frame]:
  "Sys_Self_Check_Status (i2c_onReadHandle p s) = Sys_Self_Check_Status s"
  "Sys_Self_Check_Status (i2c_OnWriteHandle p s) = Sys_Self_Check_Status s"
  "g_i2c_dev (i2c_onReadHandle p s) = g_i2c_dev s" "g_i2c_dev (i2c_OnWriteHandle p s) = g_i2c_dev s"
  by (simp_all add: i2c_onReadHandle_def i2c_OnWriteHandle_def Let_def tx_write_def NIBP_SetSafePress_def
      enter_softwareUpdate_def stm_defs NIBP_SetNIBPVerify_def NIBP_SetNIBPFastReleState_def frame)

lemma run_lib [frame]:
  "Sys_Self_Check_Status (run (map (\<lambda>c. lib f [c]) cs) s) = Sys_Self_Check_Status s"
  by (induction cs arbitrary: s) (simp_all add: tell_def)

lemma run_lib_i2c [frame]:
  "stm_i2c_tx_buf (run (map (\<lambda>c. lib f [c]) cs) s) = stm_i2c_tx_buf s" "g_i2c_dev (run (map (\<lambda>c. lib f [c]) cs) s) = g_i2c_dev s"
  by (induction cs arbitrary: s) (simp_all add: tell_def)

lemma react_status: "Sys_Self_Check_Status (stm_react e s) = Sys_Self_Check_Status s"
  by (cases e) (auto simp: stm_react_def stm_pass_def SysTick_Incremental_def I2C1_EV_IRQHandler_def
      I2C1_ER_IRQHandler_def Let_def frame tell_def split: prod.splits)

section \<open>The self check never reports a fault\<close>

lemma RESETBIT_0 [simp]: "RESETBIT 0 k = 0"
  by (simp add: RESETBIT_def)

lemma wait_tick_status [frame]: "Sys_Self_Check_Status (wait_tick d s) = Sys_Self_Check_Status s"
proof (induction d s rule: wait_tick.induct)
  case (1 d s)
  then show ?case by (simp add: wait_tick.simps [of d s] SysTick_Incremental_def)
qed

lemma delay_status [frame]: "Sys_Self_Check_Status (delay_ms_stm n s) = Sys_Self_Check_Status s"
  "Sys_Self_Check_Status ((delay_ms_stm n ^^ k) s) = Sys_Self_Check_Status s"
  by (simp_all add: delay_ms_stm_def Let_def frame) (induction k; simp add: delay_ms_stm_def Let_def frame)

lemma wait_ADC_status [frame]: "Sys_Self_Check_Status (snd (wait_ADC n s)) = Sys_Self_Check_Status s"
proof (induction n s rule: wait_ADC.induct)
  case (1 n s)
  have p: "Sys_Self_Check_Status (adc_poll s) = Sys_Self_Check_Status s" by (simp add: adc_poll_def split: list.splits)
  show ?case
    using 1 [OF refl] p by (simp add: wait_ADC.simps [of n s] Let_def frame)
qed

lemma Watchdog_Check_status: "Sys_Self_Check_Status s = 0 \<Longrightarrow> Sys_Self_Check_Status (Watchdog_Check s) = 0"
  by (simp add: Watchdog_Check_def watchdog_wait_reset_def stm_defs frame)

lemma SystemCore_Check_status: "Sys_Self_Check_Status s = 0 \<Longrightarrow> Sys_Self_Check_Status (SystemCore_Check s) = 0"
  by (simp add: SystemCore_Check_def CPU_Check_def Flash_Check_def SRAM_Check_def Let_def stm_defs)

lemma System_ADC_Check_status: "Sys_Self_Check_Status (System_ADC_Check s) = Sys_Self_Check_Status s"
  using wait_ADC_status [of 100 s]
  by (auto simp: System_ADC_Check_def System_wait_ADC_Check_def tell_def split: prod.splits)

text \<open>C37: the self check never reports a fault.  Its status starts at zero, every check only ever clears the bit of its
  component, and nothing else writes it: whatever the program image and its CRC, the backup registers and the
  measured values are, it is zero after the checks and stays zero in every sequence of passes and interrupts.\<close>

theorem self_check_never_fails:
  fixes s :: "'a stm_sys_scheme"
  assumes "Sys_Self_Check_Status s = 0"
  shows "Sys_Self_Check_Status (fold stm_react es (Boot_SystemCheck s)) = 0"
proof -
  have "Sys_Self_Check_Status (Boot_SystemCheck s) = 0"
    using assms by (simp add: Boot_SystemCheck_def System_ADC_Check_status SystemCore_Check_status Watchdog_Check_status)
  moreover have "Sys_Self_Check_Status (fold stm_react es t) = Sys_Self_Check_Status t" for t :: "'a stm_sys_scheme"
    by (induction es arbitrary: t) (simp_all add: react_status)
  ultimately show ?thesis by simp
qed

lemma self_check_never_fails_witness:
  "\<exists>s :: stm_board. Sys_Self_Check_Status s = 0 \<and> APP_CRC s \<noteq> GetCRC16 0 []
     \<and> Sys_Self_Check_Status (fold stm_react [Pass, Tick, Pass] (Boot_SystemCheck s)) = 0"
proof -
  let ?s = "(undefined :: stm_board)\<lparr>Sys_Self_Check_Status := 0, stm_flash := \<lambda>_. 0xFF\<rparr>"
  have "Sys_Self_Check_Status ?s = 0" "APP_CRC ?s \<noteq> GetCRC16 0 []"
    by (simp_all add: APP_CRC_def u16_of_bytes_def)
  with self_check_never_fails [of ?s "[Pass, Tick, Pass]"] show ?thesis by blast
qed

section \<open>The buffers of the bus interface\<close>

text \<open>What the interface keeps: three bytes to send, a receive buffer of 128 bytes, and both counts below 128.\<close>

definition i2c_ok :: "'a stm_sys_scheme \<Rightarrow> bool" where
  "i2c_ok s \<longleftrightarrow> length (stm_i2c_tx_buf s) = 3 \<and> length (i2c_rx_buf (g_i2c_dev s)) = 128
      \<and> i2c_rx_len (g_i2c_dev s) < 128 \<and> i2c_tx_len (g_i2c_dev s) < 128"

definition dev_ok :: "i2c_device \<Rightarrow> bool" where
  "dev_ok d \<longleftrightarrow> length (i2c_rx_buf d) = 128 \<and> i2c_rx_len d < 128 \<and> i2c_tx_len d < 128"

lemma i2c_ok_dev: "i2c_ok s \<longleftrightarrow> length (stm_i2c_tx_buf s) = 3 \<and> dev_ok (g_i2c_dev s)"
  by (auto simp: i2c_ok_def dev_ok_def)

lemma dev_ok_prims [simp]:
  "dev_ok d \<Longrightarrow> dev_ok (I2C_SendData b d)" "dev_ok d \<Longrightarrow> dev_ok (rx_store b d)"
  by (simp_all add: dev_ok_def I2C_SendData_def rx_store_def)

lemma dev_ok_upd [simp]:
  "dev_ok (d\<lparr>i2c_len := n\<rparr>) = dev_ok d" "dev_ok (d\<lparr>i2c_sub_addr_len := k\<rparr>) = dev_ok d" "dev_ok (d\<lparr>i2c_done := b\<rparr>) = dev_ok d"
  "dev_ok d \<Longrightarrow> j < 128 \<Longrightarrow> dev_ok (d\<lparr>i2c_tx_len := j\<rparr>)" "dev_ok d \<Longrightarrow> dev_ok (d\<lparr>i2c_rx_len := 0, i2c_tx_len := 0\<rparr>)"
  by (simp_all add: dev_ok_def)

lemma slave_event_ok: "dev_ok d \<Longrightarrow> dev_ok (slave_event tx ev d)"
  by (simp add: slave_event_def Let_def)

lemma master_event_ok:
  assumes "dev_ok d" "0 < m" "m \<le> 128"
  shows "dev_ok (snd (master_event tx m ev d))"
proof -
  have mod: "k mod m < 128" for k using assms(2,3) mod_less_divisor [OF assms(2), of k] by linarith
  let ?e = "ie_event ev"
  define p1 where "p1 = (if has ?e (BIT_MASTER OR BIT_START) then ([''ACK ENABLE''], I2C_SendData (i2c_addr d) d) else ([], d))"
  have 1: "dev_ok (snd p1)" using assms(1) by (simp add: p1_def)
  define p2 where "p2 = (if has ?e (BIT_MASTER OR BIT_RXNE)
                     then if i2c_sub_addr_len (snd p1) = 1
                          then (fst p1, I2C_SendData (ucast (i2c_sub_addr (snd p1))) ((snd p1)\<lparr>i2c_sub_addr_len := 0\<rparr>))
                          else if i2c_len (snd p1) \<noteq> 0
                          then (fst p1, (rx_store (ie_data ev) (snd p1))\<lparr>i2c_len := i2c_len (snd p1) - 1\<rparr>)
                          else (fst p1 @ [''ACK DISABLE'', ''STOP''], snd p1)
                     else p1)"
  have 2: "dev_ok (snd p2)" using 1 by (simp add: p2_def)
  have "master_event tx m ev d = (if has ?e (BIT_MASTER OR BIT_TRA OR BIT_TXE)
         then if i2c_sub_addr_len (snd p2) = 1
              then (fst p2, I2C_SendData (ucast (i2c_sub_addr (snd p2))) ((snd p2)\<lparr>i2c_sub_addr_len := 0\<rparr>))
              else if i2c_len (snd p2) \<noteq> 0
              then (fst p2, (I2C_SendData (tx (i2c_tx_len (snd p2))) (snd p2))
                     \<lparr>i2c_tx_len := (i2c_tx_len (snd p2) + 1) mod m, i2c_len := i2c_len (snd p2) - 1\<rparr>)
              else (if ie_sr1 ev AND BIT_BTF \<noteq> 0 then fst p2 @ [''STOP''] else fst p2, snd p2)
         else p2)"
    unfolding master_event_def Let_def case_prod_beta p1_def [symmetric] prod.collapse p2_def [symmetric] by (rule refl)
  with 2 mod show ?thesis by simp
qed

lemma i2c_commands_tx [frame]:
  "length (stm_i2c_tx_buf (i2c_onReadHandle p s)) = length (stm_i2c_tx_buf s)"
  "stm_i2c_tx_buf (i2c_OnWriteHandle p s) = stm_i2c_tx_buf s"
  by (simp_all add: i2c_onReadHandle_def i2c_OnWriteHandle_def Let_def tx_write_def NIBP_SetSafePress_def
      enter_softwareUpdate_def stm_defs NIBP_SetNIBPVerify_def NIBP_SetNIBPFastReleState_def frame)

lemma lib_tx [frame]: "stm_i2c_tx_buf (tell e s) = stm_i2c_tx_buf s" "g_i2c_dev (tell e s) = g_i2c_dev s"
  by (simp_all add: tell_def)

text \<open>No interrupt, whatever event word and data it finds, and no pass of the main loop changes this.\<close>

lemma i2c_ok_react:
  fixes t :: "'a stm_sys_scheme"
  assumes t: "i2c_ok t"
  shows "i2c_ok (stm_react e t)"
proof (cases e)
  case (BusEvent ev)
  have "dev_ok (g_i2c_dev t)" "length (stm_i2c_tx_buf t) = 3" using t by (simp_all add: i2c_ok_dev)
  with slave_event_ok [of "g_i2c_dev t" "tx_byte t" ev] master_event_ok [of "g_i2c_dev t" 3 "tx_byte t" ev] BusEvent
  show ?thesis
    by (auto simp: stm_react_def I2C1_EV_IRQHandler_def Let_def i2c_ok_dev frame split: prod.splits)
next
  case Pass
  have "length (stm_i2c_tx_buf (i2c_server u)) = 3" if "length (stm_i2c_tx_buf u) = 3" for u :: "'a stm_sys_scheme"
    using that by (simp add: i2c_server_def)
  with t Pass show ?thesis by (simp add: stm_react_def stm_pass_def i2c_ok_dev frame)
qed (use t in \<open>simp_all add: stm_react_def i2c_ok_def SysTick_Incremental_def I2C1_ER_IRQHandler_def\<close>)

lemma i2c_ok_run: "i2c_ok s \<Longrightarrow> i2c_ok (fold stm_react es s)"
  by (induction es arbitrary: s) (simp_all add: i2c_ok_react)

section \<open>Transfers on the bus\<close>

text \<open>The events of a transfer to and from the slave, with the words of the peripheral library: address matched, byte
  received, stop condition; address matched for sending, byte transmitted.\<close>

definition ev_word :: "u32 \<Rightarrow> u8 \<Rightarrow> i2c_event" where
  "ev_word e b = \<lparr>ie_event = e, ie_data = b, ie_sr1 = 0\<rparr>"

definition bus_write :: "bytes \<Rightarrow> 'a stm_sys_scheme \<Rightarrow> 'a stm_sys_scheme" where
  "bus_write bs s =
     fold (\<lambda>ev. I2C1_EV_IRQHandler ev)
       (ev_word 0x00020002 0 # map (ev_word 0x00020040) bs @ [ev_word 0x00000010 0]) s"

definition bus_read :: "nat \<Rightarrow> 'a stm_sys_scheme \<Rightarrow> bytes \<times> 'a stm_sys_scheme" where
  "bus_read n s =
     (let s = s\<lparr>g_i2c_dev := (g_i2c_dev s)\<lparr>i2c_sent := []\<rparr>\<rparr>;
          s = fold (\<lambda>ev. I2C1_EV_IRQHandler ev) (ev_word 0x00060082 0 # replicate n (ev_word 0x00060080 0)) s
      in (take n (i2c_sent (g_i2c_dev s)), s))"

lemma slave_address: "I2C1_EV_IRQHandler (ev_word 0x00020002 0) s
    = s\<lparr>g_i2c_dev := (g_i2c_dev s)\<lparr>i2c_rx_len := 0, i2c_tx_len := 0\<rparr>\<rparr>"
  by (simp add: I2C1_EV_IRQHandler_def slave_event_def ev_word_def Let_def has_def)

lemma slave_byte: "I2C1_EV_IRQHandler (ev_word 0x00020040 b) s = s\<lparr>g_i2c_dev := rx_store b (g_i2c_dev s)\<rparr>"
  by (simp add: I2C1_EV_IRQHandler_def slave_event_def ev_word_def Let_def has_def)

text \<open>The bytes of a write stand at the start of the receive buffer.\<close>

lemma fold_bytes:
  "fold (\<lambda>ev. I2C1_EV_IRQHandler ev) (map (ev_word 0x00020040) bs) s = s\<lparr>g_i2c_dev := fold rx_store bs (g_i2c_dev s)\<rparr>"
  by (induction bs arbitrary: s) (simp_all add: slave_byte)

lemma fold_rx_store:
  assumes "length (i2c_rx_buf d) = 128" "i2c_rx_len d + length bs < 128"
  shows "fold rx_store bs d = d\<lparr>i2c_rx_buf := take (i2c_rx_len d) (i2c_rx_buf d) @ bs @ drop (i2c_rx_len d + length bs) (i2c_rx_buf d),
                               i2c_rx_len := i2c_rx_len d + length bs\<rparr>"
  using assms
proof (induction bs arbitrary: d)
  case (Cons b bs)
  have "rx_store b d = d\<lparr>i2c_rx_buf := (i2c_rx_buf d)[i2c_rx_len d := b], i2c_rx_len := i2c_rx_len d + 1\<rparr>"
    using Cons.prems by (simp add: rx_store_def)
  with Cons show ?case by (simp add: take_Suc_nth_append take_update_cancel drop_update_cancel)
qed simp

lemma bus_write_frame:
  assumes "i2c_ok s" "0 < length bs" "length bs < 128"
  shows "bus_write bs s =
     (let buf = bs @ drop (length bs) (i2c_rx_buf (g_i2c_dev s));
          d = (g_i2c_dev s)\<lparr>i2c_tx_len := 0, i2c_rx_buf := buf, i2c_rx_len := length bs\<rparr>;
          t = lib ''I2C_Cmd'' [''ENABLE''] (s\<lparr>g_i2c_dev := d\<rparr>);
          t = (if bs ! 0 AND 1 \<noteq> 0 then i2c_onReadHandle buf t else i2c_OnWriteHandle buf t)
      in t\<lparr>g_i2c_dev := (g_i2c_dev t)\<lparr>i2c_done := True\<rparr>\<rparr>)"
proof -
  let ?d = "(g_i2c_dev s)\<lparr>i2c_rx_len := 0, i2c_tx_len := 0\<rparr>"
  have f: "fold rx_store bs ?d = ?d\<lparr>i2c_rx_buf := bs @ drop (length bs) (i2c_rx_buf (g_i2c_dev s)), i2c_rx_len := length bs\<rparr>"
    using assms fold_rx_store [of ?d bs] by (simp add: i2c_ok_def)
  show ?thesis
    using assms(2)
    by (simp add: bus_write_def slave_address fold_bytes f)
       (simp add: I2C1_EV_IRQHandler_def slave_event_def ev_word_def Let_def has_def nth_append)
qed

lemma slave_send_address:
  "I2C1_EV_IRQHandler (ev_word 0x00060082 0) s =
     s\<lparr>g_i2c_dev := (g_i2c_dev s)\<lparr>i2c_rx_len := 0, i2c_tx_len := 1, i2c_sent := i2c_sent (g_i2c_dev s) @ [tx_byte s 0]\<rparr>\<rparr>"
  by (simp add: I2C1_EV_IRQHandler_def slave_event_def ev_word_def Let_def has_def I2C_SendData_def)

lemma slave_send:
  "I2C1_EV_IRQHandler (ev_word 0x00060080 0) s =
     s\<lparr>g_i2c_dev := (g_i2c_dev s)\<lparr>i2c_tx_len := (i2c_tx_len (g_i2c_dev s) + 1) mod 128,
                              i2c_sent := i2c_sent (g_i2c_dev s) @ [tx_byte s (i2c_tx_len (g_i2c_dev s))]\<rparr>\<rparr>"
  by (simp add: I2C1_EV_IRQHandler_def slave_event_def ev_word_def Let_def has_def I2C_SendData_def)

lemma tx_byte_dev [simp]: "tx_byte (s\<lparr>g_i2c_dev := d\<rparr>) i = tx_byte s i"
  by (simp add: tx_byte_def)

lemma fold_send:
  "i2c_tx_len (g_i2c_dev s) + n < 128 \<Longrightarrow>
     fold (\<lambda>ev. I2C1_EV_IRQHandler ev) (replicate n (ev_word 0x00060080 0)) s =
     s\<lparr>g_i2c_dev := (g_i2c_dev s)\<lparr>i2c_tx_len := i2c_tx_len (g_i2c_dev s) + n,
        i2c_sent := i2c_sent (g_i2c_dev s) @ map (tx_byte s) [i2c_tx_len (g_i2c_dev s)..<i2c_tx_len (g_i2c_dev s) + n]\<rparr>\<rparr>"
proof (induction n arbitrary: s)
  case (Suc n)
  have "[i2c_tx_len (g_i2c_dev s)..<i2c_tx_len (g_i2c_dev s) + Suc n]
      = i2c_tx_len (g_i2c_dev s) # [Suc (i2c_tx_len (g_i2c_dev s))..<Suc (i2c_tx_len (g_i2c_dev s) + n)]"
    by (simp add: upt_conv_Cons)
  with Suc show ?case by (simp add: slave_send)
qed simp

lemma bus_read_bytes:
  assumes "n < 127"
  shows "fst (bus_read n s) = map (tx_byte s) [0..<n]"
    "snd (bus_read n s) = s\<lparr>g_i2c_dev := (g_i2c_dev s)\<lparr>i2c_rx_len := 0, i2c_tx_len := 1 + n, i2c_sent := map (tx_byte s) [0..<1 + n]\<rparr>\<rparr>"
proof -
  have "[0..<Suc n] = 0 # [Suc 0..<Suc n]" by (simp add: upt_conv_Cons del: upt_Suc)
  then show "snd (bus_read n s) = s\<lparr>g_i2c_dev := (g_i2c_dev s)\<lparr>i2c_rx_len := 0, i2c_tx_len := 1 + n, i2c_sent := map (tx_byte s) [0..<1 + n]\<rparr>\<rparr>"
    using assms by (simp add: bus_read_def Let_def slave_send_address fold_send del: fold_replicate upt_Suc)
  then have "i2c_sent (g_i2c_dev (snd (bus_read n s))) = map (tx_byte s) [0..<1 + n]" by simp
  moreover have "fst (bus_read n s) = take n (i2c_sent (g_i2c_dev (snd (bus_read n s))))" by (simp add: bus_read_def Let_def)
  ultimately show "fst (bus_read n s) = map (tx_byte s) [0..<n]" by (simp add: take_map)
qed

text \<open>A read of one register: the identifier with the read bit, then the bytes.\<close>

lemma bus_read_register:
  assumes "i2c_ok s" "rid AND 1 \<noteq> 0"
  defines "t \<equiv> bus_write [rid] s"
  shows "\<exists>d r. dev_ok d \<and> t = (i2c_onReadHandle (rid # drop 1 (i2c_rx_buf (g_i2c_dev s)))
           (lib ''I2C_Cmd'' [''ENABLE''] s))\<lparr>g_i2c_dev := d\<rparr>"
proof -
  let ?r = "rid # drop 1 (i2c_rx_buf (g_i2c_dev s))"
  have e: "i2c_onReadHandle p (u\<lparr>g_i2c_dev := d\<rparr>) = (i2c_onReadHandle p u)\<lparr>g_i2c_dev := d\<rparr>" for p u d
    by (simp add: i2c_onReadHandle_def Let_def tx_write_def)
  have l: "lib f a (u\<lparr>g_i2c_dev := d\<rparr>) = (lib f a u)\<lparr>g_i2c_dev := d\<rparr>" for f a u d by (simp add: tell_def)
  show ?thesis
    unfolding t_def using bus_write_frame [OF assms(1), of "[rid]"] assms(1,2)
    by (intro exI [where x = "(g_i2c_dev s)\<lparr>i2c_tx_len := 0, i2c_rx_buf := ?r, i2c_rx_len := 1, i2c_done := True\<rparr>"])
       (simp add: Let_def e l dev_ok_def i2c_ok_def)
qed

text \<open>C36: the receive side of the bus interface stays in its buffers, the send side does not.  Whatever interrupts with whatever
  event words and data, and whatever passes of the main loop, came before, the bytes to send are three, the 128 bytes received
  stay 128 and both counts are below 128; and as the count of bytes sent runs up to 128 over a buffer of three, a bus master that
  then reads \<open>n\<close> bytes is sent the three and after them, one by one, the bytes that lie behind the buffer in memory.\<close>

theorem i2c_buffers_typed:
  assumes "i2c_ok s" "n < 127"
  shows "let t = fold stm_react es s
         in i2c_ok t \<and> fst (bus_read n t) = take n (stm_i2c_tx_buf t) @ map (i2c_mem t) [3..<n]"
proof -
  define t where "t = fold stm_react es s"
  have ok: "i2c_ok t" unfolding t_def using assms(1) by (rule i2c_ok_run)
  then have l: "length (stm_i2c_tx_buf t) = 3" by (simp add: i2c_ok_def)
  have "map (tx_byte t) [0..<n] = take n (stm_i2c_tx_buf t) @ map (i2c_mem t) [3..<n]"
    by (rule nth_equalityI) (auto simp: tx_byte_def l nth_append)
  with ok bus_read_bytes(1) [OF assms(2), of t] show ?thesis by (simp add: Let_def flip: t_def)
qed

text \<open>A read of five bytes, two of them from beyond.\<close>

lemma i2c_buffers_typed_witness:
  "\<exists>t :: stm_board. fst (bus_read 5 t) = stm_i2c_tx_buf t @ [i2c_mem t 3, i2c_mem t 4]"
proof -
  let ?s = "(undefined :: stm_board)\<lparr>stm_i2c_tx_buf := [0, 0, 0],
    g_i2c_dev := (g_i2c_dev (undefined :: stm_board))\<lparr>i2c_rx_buf := replicate 128 0, i2c_rx_len := 0, i2c_tx_len := 0\<rparr>\<rparr>"
  let ?t = "fold stm_react [BusEvent \<lparr>ie_event = 0x00020002, ie_data = 0, ie_sr1 = 0\<rparr>, Pass] ?s"
  have "i2c_ok ?s" by (simp add: i2c_ok_def)
  from i2c_buffers_typed [OF this, of 5 "[BusEvent \<lparr>ie_event = 0x00020002, ie_data = 0, ie_sr1 = 0\<rparr>, Pass]"]
  have "i2c_ok ?t" "fst (bus_read 5 ?t) = take 5 (stm_i2c_tx_buf ?t) @ map (i2c_mem ?t) [3..<5]"
    by (simp_all add: Let_def del: fold.simps)
  moreover have "[3..<5] = [3, 4 :: nat]" by (simp add: upt_rec)
  moreover have "take 5 (stm_i2c_tx_buf ?t) = stm_i2c_tx_buf ?t" using \<open>i2c_ok ?t\<close> by (simp add: i2c_ok_def del: fold.simps)
  ultimately show ?thesis by (intro exI [of _ ?t]) (simp del: fold.simps)
qed

end
