(* ===== verification/BoardLink.thy ===== *)
theory BoardLink
  imports AllInOneDSP StmMain
begin

text \<open>
  The two processors together: the packets \<open>module_onboard_stm32.c\<close> of the signal processor puts on the
  two-wire bus, received and answered by the handlers of \<open>i2c_int.c\<close> on the other side.  The bus
  itself is trusted to carry the bytes it is given.
\<close>

section \<open>The packets\<close>

definition write_packet :: "I2C_PacketID \<Rightarrow> bytes \<Rightarrow> bytes" where
  "write_packet i pWBuf = push_bit 1 (i2c_code i) # of_nat (length pWBuf) # pWBuf"

definition read_packet :: "I2C_PacketID \<Rightarrow> bytes" where
  "read_packet i = [push_bit 1 (i2c_code i) OR 1]"

lemma aio_stm32_writeByID_packet:
  "length p \<le> 62 \<Longrightarrow> aio_stm32_writeByID i p d = TWI_MasterMode_Write STM32_I2C_ADDR (write_packet i p) 1 (2 + length p) d"
  by (simp add: aio_stm32_writeByID_def write_packet_def I2C_PACKET_VAL_MAX_LEN_def)

definition register_read :: "I2C_PacketID \<Rightarrow> nat \<Rightarrow> 'a stm_sys_scheme \<Rightarrow> bytes \<times> 'a stm_sys_scheme" where
  "register_read i n s = bus_read n (bus_write (read_packet i) s)"

lemma read_packet_bits [simp]:
  "(push_bit 1 (i2c_code i) OR 1 :: u8) AND 1 = 1" "drop_bit 1 (push_bit 1 (i2c_code i) OR 1 :: u8) = i2c_code i"
  by (cases i; simp)+

lemma onRead_first: "i2c_onReadHandle (b # bs) s = i2c_onReadHandle [b] s"
  by (simp add: i2c_onReadHandle_def)

lemma onRead_trace: "i2c_onReadHandle p (s\<lparr>st_trace := x\<rparr>) = (i2c_onReadHandle p s)\<lparr>st_trace := x\<rparr>"
  by (simp add: i2c_onReadHandle_def Let_def tx_write_def)

lemma tx_byte_trace [simp]: "tx_byte (s\<lparr>st_trace := x\<rparr>) i = tx_byte s i"
  by (simp add: tx_byte_def)

lemma register_read:
  assumes "i2c_ok s" "n < 127"
  shows "\<exists>d st. dev_ok d \<and> register_read i n s = (map (tx_byte (i2c_onReadHandle (read_packet i) s)) [0..<n],
           (i2c_onReadHandle (read_packet i) s)\<lparr>g_i2c_dev := d, st_trace := st\<rparr>)"
proof -
  let ?b = "push_bit 1 (i2c_code i) OR 1 :: u8" and ?t = "bus_write (read_packet i) s"
  obtain d where d: "dev_ok d" "?t = (i2c_onReadHandle [?b] (lib ''I2C_Cmd'' [''ENABLE''] s))\<lparr>g_i2c_dev := d\<rparr>"
    using bus_read_register [OF assms(1), of ?b]
    unfolding read_packet_def onRead_first [of ?b "drop 1 (i2c_rx_buf (g_i2c_dev s))"] by auto
  obtain st where st: "i2c_onReadHandle [?b] (lib ''I2C_Cmd'' [''ENABLE''] s) = (i2c_onReadHandle [?b] s)\<lparr>st_trace := st\<rparr>"
    unfolding tell_def onRead_trace by blast
  let ?d = "d\<lparr>i2c_rx_len := 0, i2c_tx_len := 1 + n, i2c_sent := map (tx_byte ?t) [0..<1 + n]\<rparr>"
  have "dev_ok ?d" using d(1) assms(2) by (simp add: dev_ok_def)
  moreover have "register_read i n s = (map (tx_byte (i2c_onReadHandle (read_packet i) s)) [0..<n],
      (i2c_onReadHandle (read_packet i) s)\<lparr>g_i2c_dev := ?d, st_trace := st\<rparr>)"
    using bus_read_bytes [OF assms(2), of ?t] d(2) st
    by (simp add: register_read_def prod_eq_iff read_packet_def del: upt_Suc)
  ultimately show ?thesis by blast
qed

lemma upt_3: "[0..<3] = [0, 1, 2]"
  by (simp add: upt_rec)

section \<open>The limit of the overpressure protection\<close>

text \<open>C23: the overpressure limit crosses the board and comes back unchanged: after the packet
  \<open>aio_stm32_writeProtect\<close> sends, the second processor's protection holds the index and the limit the first one
  gave, and the three bytes it answers to the request of \<open>aio_stm32_readProtect\<close> are that index and that limit,
  as the first processor decodes them.\<close>

theorem protect_limit_roundtrip:
  fixes s :: "'a stm_sys_scheme" and d :: "'b stm32_sys_scheme"
  assumes "i2c_ok s"
  shows "let pkt = write_packet PROTECT_PRESSURE [index, byte_of 8 maxPress, byte_of 0 maxPress];
             t = bus_write pkt s; (bs, u) = register_read PROTECT_PRESSURE 3 t
         in aio_stm32_writeProtect index maxPress d = TWI_MasterMode_Write STM32_I2C_ADDR pkt 1 (length pkt) d
          \<and> Index (g_nibp_press t) = index \<and> u16PressADC_Max (g_nibp_press t) = maxPress
          \<and> u16PressADC_Min (g_nibp_press t) = u16PressADC_Min (g_nibp_press s)
          \<and> bs = [index, byte_of 8 maxPress, byte_of 0 maxPress] \<and> u16_of_bytes (bs ! 1) (bs ! 2) = maxPress"
proof -
  define pkt where "pkt = write_packet PROTECT_PRESSURE [index, byte_of 8 maxPress, byte_of 0 maxPress]"
  have pkt: "pkt = [6, 3, index, byte_of 8 maxPress, byte_of 0 maxPress]"
    by (simp add: pkt_def write_packet_def)
  define t where "t = bus_write pkt s"
  have t: "Index (g_nibp_press t) = index" "u16PressADC_Max (g_nibp_press t) = maxPress"
    "u16PressADC_Min (g_nibp_press t) = u16PressADC_Min (g_nibp_press s)" "i2c_ok t"
    using bus_write_frame [OF assms, of pkt] assms
    by (simp_all add: t_def pkt Let_def i2c_OnWriteHandle_def NIBP_SetSafePress_def tell_def i2c_ok_def)
  have "fst (register_read PROTECT_PRESSURE 3 t) = [index, byte_of 8 maxPress, byte_of 0 maxPress]"
    using register_read [OF t(4), of 3 PROTECT_PRESSURE] t
    by (auto simp: read_packet_def i2c_onReadHandle_def Let_def tx_write_def tx_byte_def i2c_ok_def upt_3)
  moreover have "aio_stm32_writeProtect index maxPress d = TWI_MasterMode_Write STM32_I2C_ADDR pkt 1 (length pkt) d"
  proof -
    have n: "length pkt = 5" "2 + length [index, byte_of 8 maxPress, byte_of 0 maxPress] = 5" by (simp_all add: pkt)
    show ?thesis
      using aio_stm32_writeByID_packet [of "[index, byte_of 8 maxPress, byte_of 0 maxPress]" PROTECT_PRESSURE d]
      by (simp only: aio_stm32_writeProtect_def pkt_def [symmetric] n) simp
  qed
  ultimately show ?thesis
    unfolding pkt_def [symmetric] Let_def t_def [symmetric] using t by (simp add: case_prod_beta)
qed

definition slave_example :: stm_sys where
  "slave_example = (undefined :: stm_sys)\<lparr>stm_i2c_tx_buf := [0x35, 0, 0xE7],
     g_i2c_dev := (g_i2c_dev (undefined :: stm_sys))\<lparr>i2c_rx_buf := replicate 128 0, i2c_rx_len := 0, i2c_tx_len := 0\<rparr>\<rparr>"

lemma slave_example_ok: "i2c_ok slave_example"
  by (simp add: i2c_ok_def slave_example_def)

lemma protect_limit_roundtrip_witness:
  "u16PressADC_Max (g_nibp_press (bus_write (write_packet PROTECT_PRESSURE [2, byte_of 8 (2612 :: u16), byte_of 0 (2612 :: u16)]) slave_example)) = 2612"
  using protect_limit_roundtrip [OF slave_example_ok, of 2 2612 "undefined :: stm32_sys"]
  unfolding Let_def case_prod_beta by blast

section \<open>One buffer, two uses\<close>

text \<open>The status registers share one buffer with the answer of the last request.  A request of the self-check status followed,
  before the main loop has refreshed the buffer, by one of the power status is answered with the self-check status
  both times; and a request of the protection limit makes the electrode status read as the limit's low byte.\<close>

theorem status_registers_aliased:
  fixes s :: "'a stm_sys_scheme"
  assumes "i2c_ok s"
  shows "fst (register_read POWER_STATUS 1 (snd (register_read SELF_CHECK 1 s))) = [stm_i2c_tx_buf s ! 1]
       \<and> fst (register_read POWER_STATUS 1 s) = [stm_i2c_tx_buf s ! 0]
       \<and> fst (register_read ECG_PROBE_RESULT 1 (snd (register_read PROTECT_PRESSURE 3 s)))
           = [byte_of 0 (u16PressADC_Max (g_nibp_press s))]
       \<and> fst (register_read ECG_PROBE_RESULT 1 s) = [stm_i2c_tx_buf s ! 2]"
proof -
  have ok: "i2c_ok (snd (register_read i n s))" if n: "n < 127" for i n
  proof -
    obtain d st where "dev_ok d" "snd (register_read i n s) = (i2c_onReadHandle (read_packet i) s)\<lparr>g_i2c_dev := d, st_trace := st\<rparr>"
      using register_read [OF assms n, of i] by auto
    with assms show ?thesis by (simp add: i2c_ok_dev frame)
  qed
  note defs = read_packet_def i2c_onReadHandle_def Let_def tx_write_def tx_byte_def i2c_ok_def
  have 1: "fst (register_read POWER_STATUS 1 u) = [stm_i2c_tx_buf u ! 0]"
    "fst (register_read ECG_PROBE_RESULT 1 u) = [stm_i2c_tx_buf u ! 2]" if "i2c_ok u" for u :: "'a stm_sys_scheme"
    using register_read [OF that, of 1 POWER_STATUS] register_read [OF that, of 1 ECG_PROBE_RESULT] that
    by (auto simp: defs)
  have 2: "stm_i2c_tx_buf (snd (register_read SELF_CHECK 1 s)) ! 0 = stm_i2c_tx_buf s ! 1"
    using register_read [OF assms, of 1 SELF_CHECK] assms by (auto simp: defs)
  have 3: "stm_i2c_tx_buf (snd (register_read PROTECT_PRESSURE 3 s)) ! 2 = byte_of 0 (u16PressADC_Max (g_nibp_press s))"
    using register_read [OF assms, of 3 PROTECT_PRESSURE] assms by (auto simp: defs)
  show ?thesis using 1 [OF assms] 1 [OF ok [of 1 SELF_CHECK]] 1 [OF ok [of 3 PROTECT_PRESSURE]] 2 3 by simp
qed

lemma status_registers_aliased_witness:
  "fst (register_read POWER_STATUS 1 slave_example) = [0x35]
   \<and> fst (register_read POWER_STATUS 1 (snd (register_read SELF_CHECK 1 slave_example))) = [0]"
  using status_registers_aliased [OF slave_example_ok] by (simp add: slave_example_def)

end
