(* ===== verification/Iap.thy ===== *)
theory Iap
  imports Stm32 StmCore
begin

text \<open>
  The boot loader of the second processor
  (\<open>src/booloader/aio_stm_bootloader/IAP/src\<close>: \<open>commands.c\<close>, \<open>main.c\<close>, \<open>stm32f10x_it.c\<close>, \<open>config.c\<close>), with the part of the
  vendor's flash library it programs through (\<open>stm32f10x_flash.c\<close>).  Its tick and watchdog files are
  copies of those of the application and use the definitions of theory \<open>StmCore\<close>.  The properties follow an
  image from the packets of \<open>module_onboard_stm32.c\<close> into the flash.

  The flash is \<open>iap_cells\<close>, one 16-bit cell per half word from \<open>0x08000000\<close>.  The hardware programs an erased cell, writes 0 to
  any cell, and otherwise refuses and sets \<open>PGERR\<close> (STM32F10x flash programming manual).  The library operations are
  finished when they return.  An index beyond a buffer and an address that is odd or outside the flash set \<open>iap_fault\<close>.

  \<open>iap_sched\<close> lists the interrupts each poll of a wait loop to come finds; \<open>None\<close> is a wait that never ends.  Text sent with
  \<open>printf\<close> has no effect on the state.
\<close>

section \<open>State\<close>

datatype EventStatus = NOEVENT | EVENT_OPCOD_NOTYET_READ | EVENT_OPCOD_READ

text \<open>An interrupt: an event word with the data register, the two error flags, or the tick.\<close>

datatype iap_irq = EV u32 u8 | ER bool bool | TICK

record iap_st = stm_core +
  I2C_CH_Buffer_Tx :: bytes
  I2C_CH_Buffer_Rx :: "u16 list"
  op_result :: u8
  iap_opcode :: u8
  iap_event :: EventStatus
  Tx_Idx :: nat
  Rx_Idx :: nat
  g_bTryLoopRun :: bool
  iap_evt_on :: bool
  iap_ADDR :: bool
  iap_sent :: bytes
  iap_cells :: "nat \<Rightarrow> u16"
  iap_PGERR :: bool
  iap_WRPRTERR :: bool
  iap_fault :: bool
  iap_sched :: "iap_irq list list"

definition PAGE_SIZE :: nat where "PAGE_SIZE = 0x400"
definition TOTAL_PAGE_NUMBER :: nat where "TOTAL_PAGE_NUMBER = 0x40"
definition IAP_FLASH_SIZE :: nat where "IAP_FLASH_SIZE = 0x10000"
definition USER_START_ADDRESS :: u32 where "USER_START_ADDRESS = 0x08004000"
definition IAP_BUF_SIZE :: nat where "IAP_BUF_SIZE = 1200"

lemma iap_sizes [simp]: "PAGE_SIZE = 1024" "TOTAL_PAGE_NUMBER = 64" "IAP_FLASH_SIZE = 65536" "IAP_BUF_SIZE = 1200"
    "USER_START_ADDRESS = 0x08004000"
  by (simp_all add: PAGE_SIZE_def TOTAL_PAGE_NUMBER_def IAP_FLASH_SIZE_def IAP_BUF_SIZE_def USER_START_ADDRESS_def)

section \<open>The flash library\<close>

datatype FLASH_Status = FLASH_BUSY | FLASH_ERROR_PG | FLASH_ERROR_WRP | FLASH_COMPLETE | FLASH_TIMEOUT

definition FLASH_GetBank1Status :: "iap_st \<Rightarrow> FLASH_Status" where
  "FLASH_GetBank1Status s =
     (if iap_PGERR s then FLASH_ERROR_PG else if iap_WRPRTERR s then FLASH_ERROR_WRP else FLASH_COMPLETE)"

definition FLASH_WaitForLastOperation :: "iap_st \<Rightarrow> FLASH_Status" where
  "FLASH_WaitForLastOperation s = FLASH_GetBank1Status s"

definition FLASH_ClearFlag :: "iap_st \<Rightarrow> iap_st" where
  "FLASH_ClearFlag s = s\<lparr>iap_PGERR := False, iap_WRPRTERR := False\<rparr>"

text \<open>The hardware: storing a half word while \<open>PG\<close> is set, and starting a page erase.\<close>

definition flash_index :: "u32 \<Rightarrow> nat" where "flash_index addr = unat (addr - 0x08000000)"

definition flash_store :: "u32 \<Rightarrow> u16 \<Rightarrow> iap_st \<Rightarrow> iap_st" where
  "flash_store addr v s =
     (let o' = flash_index addr; h = o' div 2
      in if odd o' \<or> o' \<ge> IAP_FLASH_SIZE then s\<lparr>iap_fault := True\<rparr>
         else if iap_cells s h = 0xFFFF \<or> v = 0 then s\<lparr>iap_cells := (iap_cells s)(h := v)\<rparr>
         else s\<lparr>iap_PGERR := True\<rparr>)"

definition flash_page_erase :: "u32 \<Rightarrow> iap_st \<Rightarrow> iap_st" where
  "flash_page_erase addr s =
     (let p = flash_index addr div PAGE_SIZE
      in s\<lparr>iap_cells := (\<lambda>h. if 2 * h div PAGE_SIZE = p \<and> 2 * h < IAP_FLASH_SIZE then 0xFFFF else iap_cells s h)\<rparr>)"

definition FLASH_ProgramHalfWord :: "u32 \<Rightarrow> u16 \<Rightarrow> iap_st \<Rightarrow> iap_st" where
  "FLASH_ProgramHalfWord addr v s = (if FLASH_WaitForLastOperation s = FLASH_COMPLETE then flash_store addr v s else s)"

definition FLASH_ErasePage :: "u32 \<Rightarrow> iap_st \<Rightarrow> iap_st" where
  "FLASH_ErasePage addr s = (if FLASH_WaitForLastOperation s = FLASH_COMPLETE then flash_page_erase addr s else s)"

section \<open>Interrupts\<close>

definition iap_send :: "iap_st \<Rightarrow> iap_st" where
  "iap_send s =
     (let s = (if Tx_Idx s < IAP_BUF_SIZE then s\<lparr>iap_sent := iap_sent s @ [I2C_CH_Buffer_Tx s ! Tx_Idx s]\<rparr>
               else s\<lparr>iap_fault := True\<rparr>)
      in s\<lparr>Tx_Idx := Tx_Idx s + 1\<rparr>)"

definition I2C_CH_EV_IRQHandler :: "u32 \<Rightarrow> u8 \<Rightarrow> iap_st \<Rightarrow> iap_st" where
  "I2C_CH_EV_IRQHandler e b s =
     (let s = s\<lparr>iap_ADDR := False\<rparr>
      in if e = 0x00060084 then iap_send s
         else if e = 0x00060080 then iap_send s
         else if e = 0x00020002 then s
         else if e = 0x00020040
         then let s = (if Rx_Idx s < IAP_BUF_SIZE then s\<lparr>I2C_CH_Buffer_Rx := (I2C_CH_Buffer_Rx s)[Rx_Idx s := ucast b]\<rparr>
                       else s\<lparr>iap_fault := True\<rparr>)
              in s\<lparr>Rx_Idx := Rx_Idx s + 1\<rparr>
         else if e = 0x00000010 then s\<lparr>Rx_Idx := 0, iap_event := EVENT_OPCOD_NOTYET_READ\<rparr>
         else s)"

definition I2C_CH_ER_IRQHandler :: "bool \<Rightarrow> bool \<Rightarrow> iap_st \<Rightarrow> iap_st" where
  "I2C_CH_ER_IRQHandler af berr s =
     (let s = (if af then s\<lparr>Tx_Idx := 0, iap_event := EVENT_OPCOD_NOTYET_READ\<rparr> else s)
      in if berr then lib ''I2C_ClearITPendingBit'' [''BERR''] s else s)"

text \<open>While the event interrupt is off, an address on the bus only sets the flag.\<close>

definition iap_deliver :: "iap_irq \<Rightarrow> iap_st \<Rightarrow> iap_st" where
  "iap_deliver i s =
     (case i of
        EV e b \<Rightarrow> if iap_evt_on s then I2C_CH_EV_IRQHandler e b s
                  else if e AND 2 \<noteq> 0 then s\<lparr>iap_ADDR := True\<rparr> else s
      | ER af berr \<Rightarrow> I2C_CH_ER_IRQHandler af berr s
      | TICK \<Rightarrow> SysTick_Incremental s)"

definition iap_poll :: "iap_st \<Rightarrow> iap_st" where
  "iap_poll s = (case iap_sched s of [] \<Rightarrow> s | q # rest \<Rightarrow> fold iap_deliver q (s\<lparr>iap_sched := rest\<rparr>))"

partial_function (option) iap_wait :: "(iap_st \<Rightarrow> bool) \<Rightarrow> iap_st \<Rightarrow> iap_st option" where
  "iap_wait busy s =
     (let s' = iap_poll s in if busy s' then if iap_sched s = [] then None else iap_wait busy s' else Some s')"

section \<open>Commands\<close>

definition Read_Opcode :: "iap_st \<Rightarrow> u8" where
  "Read_Opcode s = ucast (I2C_CH_Buffer_Rx s ! 0)"

definition Read_Add :: "iap_st \<Rightarrow> u32" where
  "Read_Add s =
     (let r = (\<lambda>i. ucast (I2C_CH_Buffer_Rx s ! i) :: u32)
      in push_bit 24 (r 1) OR push_bit 16 (r 2) OR (push_bit 8 (r 3) OR r 4))"

definition Read_Byte_Page_Number :: "iap_st \<Rightarrow> u16" where
  "Read_Byte_Page_Number s = push_bit 8 (I2C_CH_Buffer_Rx s ! 5) OR I2C_CH_Buffer_Rx s ! 6"

definition Read_Memory_Command :: "iap_st \<Rightarrow> iap_st option" where
  "Read_Memory_Command s =
     (case iap_wait (\<lambda>s. Rx_Idx s \<noteq> 0) (watchdog_reset s) of
        None \<Rightarrow> None
      | Some s \<Rightarrow>
          let s = s\<lparr>iap_evt_on := False\<rparr>;
              r_select = Read_Add s;
              s = (if r_select = 0 then s\<lparr>I2C_CH_Buffer_Tx := (I2C_CH_Buffer_Tx s)[0 := 0xAA, 1 := 0x55]\<rparr> else s);
              s = (if r_select = 1 then s\<lparr>I2C_CH_Buffer_Tx := (I2C_CH_Buffer_Tx s)[0 := op_result s], op_result := 0\<rparr> else s)
          in (case iap_wait (\<lambda>s. \<not> iap_ADDR s) s of
                None \<Rightarrow> None
              | Some s \<Rightarrow>
                  (case iap_wait (\<lambda>s. Tx_Idx s \<noteq> 0) (s\<lparr>iap_evt_on := True, iap_ADDR := False\<rparr>) of
                     None \<Rightarrow> None
                   | Some s \<Rightarrow> Some (s\<lparr>iap_opcode := 0, g_bTryLoopRun := True\<rparr>))))"

text \<open>\<open>while (Rx_Idx != 0 && --timeout)\<close>.\<close>

fun rx_wait :: "nat \<Rightarrow> iap_st \<Rightarrow> nat \<times> iap_st" where
  "rx_wait 0 s = (0, s)"
| "rx_wait (Suc t) s =
     (let s = iap_poll s in if Rx_Idx s \<noteq> 0 then if t = 0 then (0, s) else rx_wait t s else (Suc t, s))"

declare rx_wait.simps(2) [simp del]

definition Erase_Page :: "u32 \<Rightarrow> u16 \<Rightarrow> iap_st \<Rightarrow> iap_st" where
  "Erase_Page Add_Flash Page_Number s =
     (let page_index = (Add_Flash - 0x08000000) div 0x400;
          BASE_ADDRESS_PAGE = 0x08000000 + page_index * 0x400
      in fold (\<lambda>n. FLASH_ErasePage (BASE_ADDRESS_PAGE + of_nat n * 0x400)) [0..<unat Page_Number] (FLASH_ClearFlag s))"

definition pages_of :: "u16 \<Rightarrow> u32" where
  "pages_of n =
     (if n \<le> 0x400 then 1 else if n mod 0x400 = 0 then ucast (n div 0x400) else ucast (n div 0x400) + 1)"

definition join_bytes :: "nat \<Rightarrow> u16 list \<Rightarrow> u16 list" where
  "join_bytes m rx =
     fold (\<lambda>i rx. let rx = rx[2 * i + 1 := push_bit 8 (rx ! (2 * i + 1))] in rx[2 * i := rx ! (2 * i) OR rx ! (2 * i + 1)])
       [4..<m] rx"

definition Write_Memory_Command :: "iap_st \<Rightarrow> iap_st" where
  "Write_Memory_Command s =
     (let (timeout, s) = rx_wait 0x10000 (watchdog_reset s)
      in if timeout = 0 then s\<lparr>iap_opcode := 0, op_result := 0\<rparr>
         else let Add_Flash = Read_Add s;
                  n = Read_Byte_Page_Number s;
                  s = (if unat Add_Flash mod PAGE_SIZE = 0 then Erase_Page Add_Flash (ucast (pages_of n)) s else s);
                  m = (unat n + 8) div 2;
                  s = (if 2 * m > IAP_BUF_SIZE then s\<lparr>iap_fault := True\<rparr> else s);
                  s = s\<lparr>I2C_CH_Buffer_Rx := join_bytes m (I2C_CH_Buffer_Rx s)\<rparr>;
                  s = fold (\<lambda>w s. FLASH_ProgramHalfWord (Add_Flash + 2 * of_nat w) (I2C_CH_Buffer_Rx s ! (2 * (w + 4))) s)
                        [0..<unat n div 2] s
              in s\<lparr>iap_opcode := 0, op_result := 1\<rparr>)"

definition Erase_Page_Command :: "iap_st \<Rightarrow> iap_st" where
  "Erase_Page_Command s =
     (let s = watchdog_reset s in (Erase_Page (Read_Add s) (Read_Byte_Page_Number s) s)\<lparr>iap_opcode := 0, op_result := 1\<rparr>)"

definition User_Space_Memory_Erase_Command :: "iap_st \<Rightarrow> iap_st" where
  "User_Space_Memory_Erase_Command s =
     (Erase_Page USER_START_ADDRESS (of_nat TOTAL_PAGE_NUMBER - ucast ((USER_START_ADDRESS - 0x08000000) div 0x400)) s)
       \<lparr>iap_opcode := 0\<rparr>"

section \<open>Main program\<close>

text \<open>A pass of either loop; the first component says that it jumped to the application.\<close>

definition iap_pass :: "iap_st \<Rightarrow> (bool \<times> iap_st) option" where
  "iap_pass s =
     (let s = (watchdog_reset s)\<lparr>iap_evt_on := True\<rparr>;
          s = (if iap_event s = EVENT_OPCOD_NOTYET_READ then s\<lparr>iap_opcode := Read_Opcode s, iap_event := EVENT_OPCOD_READ\<rparr> else s)
      in if iap_opcode s = OPC_READ then map_option (Pair False) (Read_Memory_Command s)
         else if iap_opcode s = OPC_WREN then Some (False, Write_Memory_Command s)
         else if iap_opcode s = OPC_ERPG then Some (False, Erase_Page_Command s)
         else if iap_opcode s = OPC_ERUSM then Some (False, User_Space_Memory_Erase_Command s)
         else if iap_opcode s = OPC_USRCD then Some (True, s)
         else Some (False, s))"

partial_function (option) iap_i2c_loop :: "iap_st \<Rightarrow> iap_st option" where
  "iap_i2c_loop s =
     (case iap_pass s of
        None \<Rightarrow> None
      | Some (jumped, s) \<Rightarrow> if jumped then Some s else iap_i2c_loop (iap_poll s))"

partial_function (option) try_loop :: "u32 \<Rightarrow> iap_st \<Rightarrow> iap_st option" where
  "try_loop curTick s =
     (if \<not> IsOnTime_stm curTick s \<or> g_bTryLoopRun s
      then (case iap_pass s of
              None \<Rightarrow> None
            | Some (jumped, s) \<Rightarrow> if jumped then Some s else try_loop curTick (iap_poll s))
      else Some s)"

definition iap_i2c_try_loop :: "nat \<Rightarrow> iap_st \<Rightarrow> iap_st option" where
  "iap_i2c_try_loop timeout_s s =
     try_loop (SysTick_Get_stm s + of_nat timeout_s * 1000) (s\<lparr>g_bTryLoopRun := False\<rparr>)"

definition RCC_Configuration_iap :: "iap_st \<Rightarrow> iap_st" where
  "RCC_Configuration_iap s =
     run [lib ''RCC_APB1PeriphClockCmd'' [''I2C1'', ''ENABLE''], lib ''RCC_APB2PeriphClockCmd'' [''GPIOB'', ''ENABLE'']] s"

definition GPIO_Configuration :: "iap_st \<Rightarrow> iap_st" where
  "GPIO_Configuration s =
     run [lib ''GPIO_Init'' [''GPIOB'', ''Pin_6'', ''AF_OD''], lib ''GPIO_Init'' [''GPIOB'', ''Pin_7'', ''AF_OD'']] s"

definition NVIC_Configuration :: "iap_st \<Rightarrow> iap_st" where
  "NVIC_Configuration s =
     run [lib ''NVIC_SetVectorTable'' [''FLASH'', ''0''], lib ''NVIC_PriorityGroupConfig'' [''2''],
          lib ''NVIC_Init'' [''I2C1_EV'', ''0'', ''2''], lib ''NVIC_Init'' [''I2C1_ER'', ''0'', ''3'']] s"

definition init_uart :: "iap_st \<Rightarrow> iap_st" where
  "init_uart s =
     run [lib ''RCC_APB2PeriphClockCmd'' [''GPIOA|AFIO'', ''ENABLE''], lib ''RCC_APB2PeriphClockCmd'' [''USART1'', ''ENABLE''],
          watchdog_reset, lib ''GPIO_Init'' [''GPIOA'', ''Pin_10'', ''IN_FLOATING''],
          lib ''GPIO_Init'' [''GPIOA'', ''Pin_9'', ''AF_PP''], lib ''USART_Init'' [''115200'', ''8b'', ''1'', ''No'', ''Rx|Tx''],
          lib ''USART_Cmd'' [''ENABLE'']] s"

definition iap_i2c_init :: "iap_st \<Rightarrow> iap_st" where
  "iap_i2c_init s =
     run [watchdog_reset, lib ''FLASH_Unlock'' [], NVIC_Configuration, lib ''I2C_DeInit'' [],
          lib ''I2C_Init'' [''400000'', ''2'', ''I2C_SLAVE_ADDRESS7'', ''Ack'', ''7bit'']] s"

text \<open>The result of \<open>main\<close> is the state in which the application is entered.\<close>

definition iap_main :: "iap_st \<Rightarrow> iap_st option" where
  "iap_main s =
     (let s = run [RCC_Configuration_iap, GPIO_Configuration, watchdog_pin_init, init_uart, iap_i2c_init, SysTick_Start_stm] s
      in if bkp s 3 = 0xAA then iap_i2c_loop (BKP_WriteBackupRegister 3 0 (watchdog_reset s))
         else iap_i2c_try_loop 5 s)"

section \<open>Receiving a packet\<close>

lemma iap_frame [simp]:
  fixes s :: iap_st
  shows "I2C_CH_Buffer_Rx (watchdog_reset s) = I2C_CH_Buffer_Rx s" "Rx_Idx (watchdog_reset s) = Rx_Idx s"
    "iap_sched (watchdog_reset s) = iap_sched s" "iap_cells (watchdog_reset s) = iap_cells s"
    "iap_PGERR (watchdog_reset s) = iap_PGERR s" "iap_WRPRTERR (watchdog_reset s) = iap_WRPRTERR s"
    "iap_fault (watchdog_reset s) = iap_fault s" "iap_event (watchdog_reset s) = iap_event s"
    "iap_opcode (watchdog_reset s) = iap_opcode s" "iap_evt_on (watchdog_reset s) = iap_evt_on s"
    "u32SystemTick (watchdog_reset s) = u32SystemTick s" "g_bTryLoopRun (watchdog_reset s) = g_bTryLoopRun s"
    "Tx_Idx (watchdog_reset s) = Tx_Idx s" "op_result (watchdog_reset s) = op_result s"
  by (simp_all add: watchdog_reset_def GPIO_SetBits_def GPIO_ResetBits_def tell_def Let_def)

text \<open>The interrupts of a write transfer, and a transfer with the pass of the loop that follows it.\<close>

definition iap_receive :: "bytes \<Rightarrow> iap_st \<Rightarrow> iap_st" where
  "iap_receive bs s = fold iap_deliver (EV 0x00020002 0 # map (EV 0x00020040) bs @ [EV 0x00000010 0]) s"

definition iap_packet :: "bytes \<Rightarrow> iap_st \<Rightarrow> (bool \<times> iap_st) option" where
  "iap_packet bs s = iap_pass (iap_receive bs s)"

text \<open>The loader between two packets: no transfer under way, nothing pending.\<close>

definition iap_idle :: "iap_st \<Rightarrow> bool" where
  "iap_idle s \<longleftrightarrow> \<not> iap_fault s \<and> Rx_Idx s = 0 \<and> iap_sched s = [] \<and> iap_evt_on s \<and> \<not> iap_WRPRTERR s
      \<and> length (I2C_CH_Buffer_Rx s) = 1200"

lemma fold_receive:
  assumes "iap_evt_on s" "length (I2C_CH_Buffer_Rx s) = 1200" "Rx_Idx s + length bs \<le> 1200"
  shows "fold iap_deliver (map (EV 0x00020040) bs) s = s\<lparr>iap_ADDR := (if bs = [] then iap_ADDR s else False),
       I2C_CH_Buffer_Rx := take (Rx_Idx s) (I2C_CH_Buffer_Rx s) @ map ucast bs @ drop (Rx_Idx s + length bs) (I2C_CH_Buffer_Rx s),
       Rx_Idx := Rx_Idx s + length bs\<rparr>"
  using assms
proof (induction bs arbitrary: s)
  case (Cons b bs)
  have "iap_deliver (EV 0x00020040 b) s = s\<lparr>iap_ADDR := False,
      I2C_CH_Buffer_Rx := (I2C_CH_Buffer_Rx s)[Rx_Idx s := ucast b], Rx_Idx := Rx_Idx s + 1\<rparr>"
    using Cons.prems by (simp add: iap_deliver_def I2C_CH_EV_IRQHandler_def Let_def)
  with Cons show ?case by (simp add: take_Suc_nth_append take_update_cancel drop_update_cancel)
qed simp

lemma iap_receive_packet:
  assumes "iap_idle s" "0 < length bs" "length bs \<le> 1200"
  shows "iap_receive bs s = s\<lparr>iap_ADDR := False, I2C_CH_Buffer_Rx := map ucast bs @ drop (length bs) (I2C_CH_Buffer_Rx s),
       Rx_Idx := 0, iap_event := EVENT_OPCOD_NOTYET_READ\<rparr>"
proof -
  have "iap_deliver (EV 0x00020002 0) s = s\<lparr>iap_ADDR := False\<rparr>"
    using assms(1) by (simp add: iap_idle_def iap_deliver_def I2C_CH_EV_IRQHandler_def)
  then show ?thesis
    using assms fold_receive [of "s\<lparr>iap_ADDR := False\<rparr>" bs]
    by (simp add: iap_receive_def iap_idle_def) (simp add: iap_deliver_def I2C_CH_EV_IRQHandler_def Let_def)
qed

section \<open>Programming\<close>

definition halfwords :: "bytes \<Rightarrow> u16 list" where
  "halfwords d = map (\<lambda>i. u16_of_bytes (d ! (2 * i + 1)) (d ! (2 * i))) [0..<length d div 2]"

lemma length_halfwords [simp]: "length (halfwords d) = length d div 2"
  by (simp add: halfwords_def)

lemma length_join_bytes [simp]: "length (join_bytes m rx) = length rx"
proof -
  have "length (fold (\<lambda>i rx. let rx = rx[2 * i + 1 := push_bit 8 (rx ! (2 * i + 1))]
      in rx[2 * i := rx ! (2 * i) OR rx ! (2 * i + 1)]) xs rx) = length rx" for xs
    by (induction xs arbitrary: rx) (simp_all add: Let_def)
  then show ?thesis by (simp add: join_bytes_def)
qed

lemma join_bytes_nth:
  assumes "2 * m \<le> length rx"
  shows "(\<forall>i. 4 \<le> i \<and> i < m \<longrightarrow> join_bytes m rx ! (2 * i) = rx ! (2 * i) OR push_bit 8 (rx ! (2 * i + 1)))
       \<and> (\<forall>x \<ge> 2 * m. 8 \<le> x \<longrightarrow> join_bytes m rx ! x = rx ! x)"
  using assms
proof (induction m)
  case (Suc m)
  let ?j = "join_bytes m rx"
  show ?case
  proof (cases "4 \<le> m")
    case True
    have s: "join_bytes (Suc m) rx = (let r = ?j[2 * m + 1 := push_bit 8 (?j ! (2 * m + 1))] in r[2 * m := r ! (2 * m) OR r ! (2 * m + 1)])"
      using True by (simp add: join_bytes_def)
    have o: "?j ! (2 * m) = rx ! (2 * m)" "?j ! (2 * m + 1) = rx ! (2 * m + 1)"
      using Suc True by auto
    have "join_bytes (Suc m) rx ! (2 * i) = rx ! (2 * i) OR push_bit 8 (rx ! (2 * i + 1))" if "4 \<le> i" "i < Suc m" for i
    proof (cases "i = m")
      case True
      then show ?thesis using o Suc.prems by (simp add: s Let_def)
    next
      case False
      then have "i < m" "2 * i \<noteq> 2 * m" "2 * i \<noteq> 2 * m + 1" using that by auto
      then show ?thesis using Suc that by (simp add: s Let_def)
    qed
    moreover have "join_bytes (Suc m) rx ! x = rx ! x" if "2 * Suc m \<le> x" for x
      using that Suc True by (simp add: s Let_def)
    ultimately show ?thesis by blast
  next
    case False
    then have "join_bytes (Suc m) rx = rx" by (simp add: join_bytes_def)
    with False show ?thesis by auto
  qed
qed (simp add: join_bytes_def)

lemma flash_index: "off < 65536 \<Longrightarrow> flash_index (0x08000000 + of_nat off) = off"
  by (simp add: flash_index_def unat_of_nat_small)

lemma flash_index_plus:
  "off + 2 * w < 65536 \<Longrightarrow> flash_index (0x08000000 + of_nat off + 2 * of_nat w) = off + 2 * w"
  using flash_index [of "off + 2 * w"] by (simp add: add.assoc)

lemma ProgramHalfWord_erased:
  assumes "\<not> iap_PGERR s" "\<not> iap_WRPRTERR s" "flash_index a = 2 * h" "2 * h < 65536" "iap_cells s h = 0xFFFF"
  shows "FLASH_ProgramHalfWord a v s = s\<lparr>iap_cells := (iap_cells s)(h := v)\<rparr>"
  using assms
  by (simp add: FLASH_ProgramHalfWord_def FLASH_WaitForLastOperation_def FLASH_GetBank1Status_def flash_store_def Let_def)

lemma ProgramHalfWord_error: "iap_PGERR s \<Longrightarrow> FLASH_ProgramHalfWord a v s = s"
  by (simp add: FLASH_ProgramHalfWord_def FLASH_WaitForLastOperation_def FLASH_GetBank1Status_def)

definition program_words :: "u32 \<Rightarrow> nat \<Rightarrow> iap_st \<Rightarrow> iap_st" where
  "program_words a n s =
     fold (\<lambda>w s. FLASH_ProgramHalfWord (a + 2 * of_nat w) (I2C_CH_Buffer_Rx s ! (2 * (w + 4))) s) [0..<n] s"

lemma program_words_erased:
  assumes "\<not> iap_PGERR s" "\<not> iap_WRPRTERR s" "2 * h + 2 * n \<le> 65536"
    "\<And>x. h \<le> x \<Longrightarrow> x < h + n \<Longrightarrow> iap_cells s x = 0xFFFF"
  shows "program_words (0x08000000 + of_nat (2 * h)) n s = s\<lparr>iap_cells := (\<lambda>x. if h \<le> x \<and> x < h + n
           then I2C_CH_Buffer_Rx s ! (2 * (x - h + 4)) else iap_cells s x)\<rparr>"
  using assms(3,4)
proof (induction n)
  case 0
  have "(\<lambda>x. if h \<le> x \<and> x < h + 0 then I2C_CH_Buffer_Rx s ! (2 * (x - h + 4)) else iap_cells s x) = iap_cells s"
    by (rule ext) auto
  then show ?case unfolding program_words_def by simp
next
  case (Suc n)
  let ?a = "0x08000000 + of_nat (2 * h) :: u32"
  have i: "flash_index (?a + 2 * of_nat n) = 2 * (h + n)"
    using flash_index_plus [of "2 * h" n] Suc.prems(1) by simp
  have "program_words ?a (Suc n) s = (let t = program_words ?a n s
      in FLASH_ProgramHalfWord (?a + 2 * of_nat n) (I2C_CH_Buffer_Rx t ! (2 * (n + 4))) t)"
    by (simp add: program_words_def Let_def)
  moreover let ?c = "\<lambda>n x. if h \<le> x \<and> x < h + n then I2C_CH_Buffer_Rx s ! (2 * (x - h + 4)) else iap_cells s x"
  have "program_words ?a n s = s\<lparr>iap_cells := ?c n\<rparr>" using Suc by simp
  moreover have "FLASH_ProgramHalfWord (?a + 2 * of_nat n) v (s\<lparr>iap_cells := ?c n\<rparr>)
      = s\<lparr>iap_cells := (?c n)(h + n := v)\<rparr>" for v
    using ProgramHalfWord_erased [of "s\<lparr>iap_cells := ?c n\<rparr>" "?a + 2 * of_nat n" "h + n" v] assms(1,2) i Suc.prems
    by simp
  moreover have "(?c n)(h + n := I2C_CH_Buffer_Rx s ! (2 * (n + 4))) = ?c (Suc n)"
    by (intro ext) auto
  moreover have "I2C_CH_Buffer_Rx (s\<lparr>iap_cells := c\<rparr>) = I2C_CH_Buffer_Rx s" for c by simp
  ultimately show ?case by (simp only: Let_def)
qed

lemma program_words_error: "iap_PGERR s \<Longrightarrow> program_words a n s = s"
  by (induction n) (simp_all add: program_words_def ProgramHalfWord_error)

section \<open>The effect of a packet\<close>

lemma Read_packet_header:
  assumes "take 7 (I2C_CH_Buffer_Rx s) = map ucast (stm_cmd opc addr n)" "7 \<le> length (I2C_CH_Buffer_Rx s)"
  shows "Read_Opcode s = opc" "Read_Add s = addr" "Read_Byte_Page_Number s = n"
proof -
  have r: "I2C_CH_Buffer_Rx s ! i = ucast (stm_cmd opc addr n ! i)" if "i < 7" for i
  proof -
    have "I2C_CH_Buffer_Rx s ! i = take 7 (I2C_CH_Buffer_Rx s) ! i" using that by simp
    also have "\<dots> = ucast (stm_cmd opc addr n ! i)"
      unfolding assms(1) using that by (intro nth_map) (simp add: stm_cmd_def)
    finally show ?thesis .
  qed
  have u: "ucast (ucast b :: u16) = (ucast b :: u32)" "ucast (ucast b :: u16) = b" for b :: u8
    by (rule bit_word_eqI; auto simp: bit_simps dest: bit_imp_le_length)+
  show "Read_Opcode s = opc" by (simp add: Read_Opcode_def r stm_cmd_def u)
  show "Read_Add s = addr"
    using u32_bytes_roundtrip [of addr] by (simp add: Read_Add_def r stm_cmd_def u u32_of_bytes_def or.assoc)
  show "Read_Byte_Page_Number s = n"
    using u16_bytes_roundtrip [of n] by (simp add: Read_Byte_Page_Number_def r stm_cmd_def u16_of_bytes_def)
qed

lemma rx_wait_idle: "Rx_Idx s = 0 \<Longrightarrow> iap_sched s = [] \<Longrightarrow> 0 < t \<Longrightarrow> rx_wait t s = (t, s)"
  by (cases t) (simp_all add: rx_wait.simps iap_poll_def Let_def)

lemma erase_one:
  assumes "off < 65536" "off mod 1024 = 0"
  shows "Erase_Page (0x08000000 + of_nat off) 1 s = s\<lparr>iap_PGERR := False, iap_WRPRTERR := False,
           iap_cells := (\<lambda>h. if 2 * h div 1024 = off div 1024 then 0xFFFF else iap_cells s h)\<rparr>"
proof -
  have "unat (of_nat off div 0x400 :: u32) = off div 1024"
    using assms(1) by (simp add: unat_div unat_of_nat_small)
  then have "of_nat off div 0x400 = (of_nat (off div 1024) :: u32)" using assms(1) by (simp add: word_unat_eq_iff unat_of_nat_small)
  then have "of_nat off div 0x400 * 0x400 = (of_nat (off div 1024 * 1024) :: u32)" by simp
  moreover have "off div 1024 * 1024 = off" using assms(2) by (metis dvd_div_mult_self mod_0_imp_dvd)
  ultimately have b: "0x08000000 + of_nat off div 0x400 * 0x400 = (0x08000000 + of_nat off :: u32)" by simp
  have p: "2 * h < 65536" if "2 * h div 1024 = off div 1024" for h
  proof -
    have "off div 1024 < 64" using assms(1) by (simp add: div_less_iff_less_mult)
    then show ?thesis using that div_mult_mod_eq [of "2 * h" 1024] mod_less_divisor [of 1024 "2 * h"] by linarith
  qed
  have "Erase_Page (0x08000000 + of_nat off) 1 s = FLASH_ErasePage (0x08000000 + of_nat off) (FLASH_ClearFlag s)"
    using b by (simp add: Erase_Page_def)
  then show ?thesis
    using flash_index [OF assms(1)] p
    by (auto simp: FLASH_ErasePage_def FLASH_WaitForLastOperation_def FLASH_GetBank1Status_def FLASH_ClearFlag_def
        flash_page_erase_def Let_def intro!: arg_cong2 [where f = iap_cells_update] ext)
qed

text \<open>A page-aligned address erases the page; every address then has the words of the packet programmed, provided
  that their cells are erased and no error is pending.\<close>

definition page_cells :: "nat \<Rightarrow> iap_st \<Rightarrow> nat \<Rightarrow> u16" where
  "page_cells off s = (if off mod 1024 = 0 then (\<lambda>x. if 2 * x div 1024 = off div 1024 then 0xFFFF else iap_cells s x) else iap_cells s)"

definition page_error :: "nat \<Rightarrow> iap_st \<Rightarrow> bool" where
  "page_error off s \<longleftrightarrow> off mod 1024 \<noteq> 0 \<and> iap_PGERR s"

lemma unat_base: "off < 65536 \<Longrightarrow> unat (0x08000000 + of_nat off :: u32) = 0x08000000 + off"
proof -
  assume o: "off < 65536"
  have "(0x08000000 + of_nat off :: u32) = of_nat (0x08000000 + off)" by simp
  moreover have "unat (of_nat (0x08000000 + off) :: u32) = 0x08000000 + off" using o by (intro unat_of_nat_small) simp
  ultimately show ?thesis by (simp only:)
qed

lemma write_packet_state:
  assumes "iap_idle s" "off < 65536" "even n" "0 < n" "n \<le> 1024" "length d = n"
  shows "\<exists>t. iap_packet (stm_write_packet (0x08000000 + of_nat off) (of_nat n) d) s
             = Some (False, (program_words (0x08000000 + of_nat off) (n div 2) t)\<lparr>iap_opcode := 0, op_result := 1\<rparr>)
           \<and> iap_idle t \<and> iap_cells t = page_cells off s \<and> iap_PGERR t = page_error off s
           \<and> (\<forall>i < n div 2. I2C_CH_Buffer_Rx t ! (2 * (i + 4)) = halfwords d ! i)"
proof -
  let ?a = "0x08000000 + of_nat off :: u32" and ?n = "of_nat n :: u16"
  let ?p = "stm_write_packet ?a ?n d"
  have n: "unat ?n = n" using assms(5) by (intro unat_of_nat_small) simp
  have p: "?p = stm_cmd OPC_WREN ?a ?n @ DUM_BYTE # d" "length ?p = n + 8"
    using assms(6) n by (simp_all add: stm_write_packet_def stm_cmd_def)
  define rx where "rx = map ucast ?p @ drop (n + 8) (I2C_CH_Buffer_Rx s)"
  define r where "r = s\<lparr>iap_ADDR := False, I2C_CH_Buffer_Rx := rx, Rx_Idx := 0, iap_event := EVENT_OPCOD_NOTYET_READ\<rparr>"
  have r: "iap_receive ?p s = r"
    using iap_receive_packet [OF assms(1), of ?p] p(2) assms(5) by (simp add: r_def rx_def)
  have rx: "length rx = 1200" "take 7 rx = map ucast (stm_cmd OPC_WREN ?a ?n)"
    using assms(1,5) p by (simp_all add: rx_def iap_idle_def) (simp add: p(1) stm_cmd_def)
  define q where "q = (watchdog_reset r)\<lparr>iap_evt_on := True, iap_opcode := OPC_WREN, iap_event := EVENT_OPCOD_READ\<rparr>"
  have "Read_Opcode ((watchdog_reset r)\<lparr>iap_evt_on := True\<rparr>) = OPC_WREN"
    using rx by (intro Read_packet_header(1) [where addr = ?a and n = ?n]) (simp_all add: r_def)
  then have pass: "iap_packet ?p s = Some (False, Write_Memory_Command q)"
    by (simp add: iap_packet_def r iap_pass_def Let_def q_def) (simp add: r_def)
  define w where "w = watchdog_reset q"
  have w: "I2C_CH_Buffer_Rx w = rx" "Rx_Idx w = 0" "iap_sched w = []" "iap_evt_on w" "\<not> iap_fault w" "\<not> iap_WRPRTERR w"
    "iap_cells w = iap_cells s" "iap_PGERR w = iap_PGERR s"
    using assms(1) by (simp_all add: w_def q_def r_def iap_idle_def)
  have h: "Read_Add w = ?a" "Read_Byte_Page_Number w = ?n"
    using Read_packet_header [of w OPC_WREN ?a ?n] rx w by simp_all
  have m: "unat ?a mod 1024 = off mod 1024"
    using unat_base [OF assms(2)] mod_mult_self3 [of 131072 1024 off] by simp
  have pg: "pages_of ?n = 1" using n assms(5) by (simp add: pages_of_def word_le_nat_alt)
  define e where "e = (if off mod 1024 = 0 then Erase_Page ?a 1 w else w)"
  define t where "t = e\<lparr>I2C_CH_Buffer_Rx := join_bytes ((n + 8) div 2) rx\<rparr>"
  have e: "I2C_CH_Buffer_Rx e = rx" "iap_idle (e\<lparr>I2C_CH_Buffer_Rx := rx'\<rparr>) = (length rx' = 1200)"
    "iap_cells e = page_cells off s" "iap_PGERR e = page_error off s" for rx'
    using w erase_one [OF assms(2), of w] by (simp_all add: e_def iap_idle_def page_cells_def page_error_def cong: if_cong)
  have "Write_Memory_Command q = (program_words ?a (n div 2) t)\<lparr>iap_opcode := 0, op_result := 1\<rparr>"
  proof (cases "off mod 1024 = 0")
    case True
    then have ee: "Erase_Page ?a 1 w = e" by (simp add: e_def)
    from True show ?thesis
      using assms(3,5) w h m pg n rx_wait_idle [of w 65536]
      by (simp add: Write_Memory_Command_def w_def [symmetric] Let_def ee e(1) t_def program_words_def)
  next
    case False
    then have ee: "e = w" by (simp add: e_def)
    from False show ?thesis
      using assms(3,5) w h m pg n rx_wait_idle [of w 65536]
      by (simp add: Write_Memory_Command_def w_def [symmetric] Let_def ee t_def program_words_def)
  qed
  moreover have "I2C_CH_Buffer_Rx t ! (2 * (i + 4)) = halfwords d ! i" if "i < n div 2" for i
  proof -
    have i: "2 * (i + 4) + 1 < n + 8" using that assms(3) by (auto elim!: evenE)
    have x: "rx ! k = ucast (d ! (k - 8))" if "8 \<le> k" "k < n + 8" for k
    proof -
      define H where "H = stm_cmd OPC_WREN ?a ?n @ [DUM_BYTE]"
      have "length H = 8" "?p = H @ d" by (simp_all add: H_def p(1)) (simp add: stm_cmd_def)
      then have "?p ! k = d ! (k - 8)" using that(1) by (simp add: nth_append)
      with that p(2) show ?thesis by (simp add: rx_def nth_append)
    qed
    have "join_bytes ((n + 8) div 2) rx ! (2 * (i + 4)) = rx ! (2 * (i + 4)) OR push_bit 8 (rx ! (2 * (i + 4) + 1))"
    proof -
      have "2 * ((n + 8) div 2) \<le> length rx" "4 \<le> i + 4 \<and> i + 4 < (n + 8) div 2" using that rx assms(5) by auto
      then show ?thesis using join_bytes_nth [THEN conjunct1, rule_format] by blast
    qed
    with that x i assms(6) show ?thesis
      by (simp add: t_def halfwords_def u16_of_bytes_def or.commute)
  qed
  ultimately show ?thesis
    using pass e rx by (intro exI [of _ t]) (simp add: t_def)
qed

section \<open>An image\<close>

text \<open>The packets of an image, one after the other; the loader must have stayed in its loop.\<close>

fun download :: "u32 \<Rightarrow> bytes list \<Rightarrow> iap_st \<Rightarrow> iap_st option" where
  "download a [] s = Some s"
| "download a (c # cs) s =
     (case iap_packet (stm_write_packet a (of_nat (length c)) c) s of
        Some (False, s) \<Rightarrow> download (a + of_nat (length c)) cs s
      | _ \<Rightarrow> None)"

definition flash_byte :: "iap_st \<Rightarrow> nat \<Rightarrow> u8" where
  "flash_byte s i = byte_of (if even i then 0 else 8) (iap_cells s (i div 2))"

text \<open>What is true between two packets: the rest of the page is erased, and no error is pending.\<close>

definition page_ready :: "nat \<Rightarrow> iap_st \<Rightarrow> bool" where
  "page_ready off s \<longleftrightarrow> iap_idle s \<and>
     (off mod 1024 \<noteq> 0 \<longrightarrow> \<not> iap_PGERR s \<and> (\<forall>x. off \<le> 2 * x \<and> 2 * x div 1024 = off div 1024 \<longrightarrow> iap_cells s x = 0xFFFF))"

lemma iap_idle_upd [simp]:
  "iap_idle (s\<lparr>iap_cells := c\<rparr>) = iap_idle s" "iap_idle (s\<lparr>iap_opcode := p, op_result := r\<rparr>) = iap_idle s"
  by (simp_all add: iap_idle_def)

lemma same_page: "even off \<Longrightarrow> n dvd 1024 \<Longrightarrow> n dvd off \<Longrightarrow> off \<le> y \<Longrightarrow> y < off + n \<Longrightarrow> y div 1024 = off div (1024 :: nat)"
proof -
  assume a: "n dvd 1024" "n dvd off" "off \<le> y" "y < off + n"
  then obtain k j where k: "1024 = n * k" "off = n * j" by (auto elim!: dvdE)
  then have n: "0 < n" "0 < k" by (auto intro: Nat.gr0I)
  have "y div n = j" using a(3,4) k(2) n by (intro div_nat_eqI) (auto simp: algebra_simps)
  moreover have "y div 1024 = y div n div k" "off div 1024 = off div n div k" by (simp_all only: k(1) div_mult2_eq)
  ultimately show ?thesis using k(2) n(1) by simp
qed

lemma next_page:
  "n dvd 1024 \<Longrightarrow> n dvd off \<Longrightarrow> (off + n) mod 1024 \<noteq> 0 \<Longrightarrow> (off + n) div 1024 = off div (1024 :: nat)"
proof -
  assume a: "n dvd 1024" "n dvd off" "(off + n) mod 1024 \<noteq> 0"
  obtain k where k1: "1024 = n * k" using a(1) by (rule dvdE)
  obtain j where k2: "off = n * j" using a(2) by (rule dvdE)
  note k = k1 k2
  have n: "0 < n" using k1 by (auto intro: Nat.gr0I)
  have "off + n = n * Suc j" using k(2) by simp
  then have "(off + n) mod 1024 = n * (Suc j mod k)" "(off + n) div 1024 = Suc j div k"
    using n by (simp_all only: k(1) mult_mod_right [symmetric] div_mult2_eq) simp
  moreover have "off div 1024 = j div k" using n by (simp only: k(1) div_mult2_eq) (simp add: k(2))
  ultimately show ?thesis using a(3) by (auto simp: div_Suc)
qed

lemma packet_programs:
  assumes "page_ready off s" "off + n \<le> 65536" "length c = n" "even n" "n dvd 1024" "n dvd off"
  shows "\<exists>t. iap_packet (stm_write_packet (0x08000000 + of_nat off) (of_nat n) c) s = Some (False, t)
           \<and> page_ready (off + n) t \<and> op_result t = 1
           \<and> iap_cells t = (\<lambda>x. if off div 2 \<le> x \<and> x < off div 2 + n div 2 then halfwords c ! (x - off div 2) else page_cells off s x)"
proof -
  have n: "0 < n" "n \<le> 1024" using assms(5) by (auto intro: Nat.gr0I dvd_imp_le)
  have ev: "even off" using assms(4,6) by (rule dvd_trans)
  define h where "h = off div 2"
  have h: "2 * h = off" using ev by (simp add: h_def)
  have idle: "iap_idle s" using assms(1) by (simp add: page_ready_def)
  obtain t where t: "iap_packet (stm_write_packet (0x08000000 + of_nat off) (of_nat n) c) s
             = Some (False, (program_words (0x08000000 + of_nat off) (n div 2) t)\<lparr>iap_opcode := 0, op_result := 1\<rparr>)"
    "iap_idle t" "iap_cells t = page_cells off s" "iap_PGERR t = page_error off s"
    "\<forall>i < n div 2. I2C_CH_Buffer_Rx t ! (2 * (i + 4)) = halfwords c ! i"
    using write_packet_state [OF idle _ assms(4) n assms(3), of off] assms(2) n(1) by auto
  have pg: "\<not> iap_PGERR t" using assms(1) t(4) by (auto simp: page_ready_def page_error_def)
  have er: "iap_cells t x = 0xFFFF" if "h \<le> x" "x < h + n div 2" for x
  proof -
    have x: "off \<le> 2 * x" "2 * x < off + n" using that h assms(4) by (auto elim!: evenE)
    from same_page [OF ev assms(5,6) x] x(1) assms(1) show ?thesis
      by (simp add: t(3) page_cells_def page_ready_def)
  qed
  define u where "u = (program_words (0x08000000 + of_nat off) (n div 2) t)\<lparr>iap_opcode := 0, op_result := 1\<rparr>"
  have nn: "2 * h + 2 * (n div 2) \<le> 65536" using h assms(2,4) by simp
  have w: "program_words (0x08000000 + of_nat (2 * h)) (n div 2) t = t\<lparr>iap_cells := (\<lambda>x. if h \<le> x \<and> x < h + n div 2
           then I2C_CH_Buffer_Rx t ! (2 * (x - h + 4)) else iap_cells t x)\<rparr>"
    using t(2) pg nn er by (intro program_words_erased) (auto simp: iap_idle_def)
  have c: "iap_cells u = (\<lambda>x. if h \<le> x \<and> x < h + n div 2 then halfwords c ! (x - h) else page_cells off s x)"
  proof (rule ext)
    fix x
    have "I2C_CH_Buffer_Rx t ! (2 * (x - h + 4)) = halfwords c ! (x - h)" if "h \<le> x" "x < h + n div 2"
      using t(5) [rule_format, of "x - h"] that by linarith
    moreover have "iap_cells u x = (if h \<le> x \<and> x < h + n div 2 then I2C_CH_Buffer_Rx t ! (2 * (x - h + 4)) else iap_cells t x)"
      unfolding u_def w [unfolded h] by simp
    ultimately show "iap_cells u x = (if h \<le> x \<and> x < h + n div 2 then halfwords c ! (x - h) else page_cells off s x)"
      using t(3) by presburger
  qed
  have u: "iap_idle u" "\<not> iap_PGERR u" "op_result u = 1"
    unfolding u_def w [unfolded h] using t(2) pg by simp_all
  have "page_ready (off + n) u"
  proof -
    have "iap_cells u x = 0xFFFF" if m: "(off + n) mod 1024 \<noteq> 0" and x: "off + n \<le> 2 * x" "2 * x div 1024 = (off + n) div 1024" for x
    proof -
      have "\<not> x < h + n div 2" using x(1) h assms(4) by (auto elim!: evenE)
      moreover have "page_cells off s x = 0xFFFF"
        using x next_page [OF assms(5,6) m] assms(1) by (simp add: page_cells_def page_ready_def)
      ultimately show ?thesis by (simp add: c)
    qed
    with u show ?thesis by (simp add: page_ready_def)
  qed
  with t(1) u(3) c show ?thesis unfolding h_def [symmetric] u_def [symmetric] by blast
qed

lemma packet_bytes:
  assumes "iap_cells t = (\<lambda>x. if off div 2 \<le> x \<and> x < off div 2 + n div 2 then halfwords c ! (x - off div 2) else page_cells off s x)"
    "length c = n" "even n" "even off"
  shows "i < n \<Longrightarrow> flash_byte t (off + i) = c ! i" "j < off \<Longrightarrow> flash_byte t j = flash_byte s j"
proof -
  obtain h where h: "off = 2 * h" using assms(4) by (rule evenE)
  obtain m where m: "n = 2 * m" using assms(3) by (rule evenE)
  have d: "off div 2 = h" "n div 2 = m" by (simp_all add: h m)
  show "flash_byte t (off + i) = c ! i" if i: "i < n"
  proof -
    have x: "(off + i) div 2 = h + i div 2" "i div 2 < m" "even (off + i) \<longleftrightarrow> even i" using i by (simp_all add: h m)
    have "iap_cells t (h + i div 2) = u16_of_bytes (c ! (2 * (i div 2) + 1)) (c ! (2 * (i div 2)))"
      using x(2) assms(2) d by (simp add: assms(1) halfwords_def)
    then show ?thesis
      unfolding flash_byte_def x(1) x(3) by (cases "even i") (auto elim!: evenE oddE)
  qed
  show "flash_byte t j = flash_byte s j" if j: "j < off"
  proof -
    have x: "2 * (j div 2) < off" using j by linarith
    have "page_cells off s (j div 2) = iap_cells s (j div 2)"
    proof (cases "off mod 1024 = 0")
      case True
      then have "off = off div 1024 * 1024" by (metis dvd_div_mult_self mod_0_imp_dvd)
      with x have "2 * (j div 2) < off div 1024 * 1024" by linarith
      then have "2 * (j div 2) div 1024 < off div 1024" by (rule less_mult_imp_div_less)
      then show ?thesis by (simp add: page_cells_def)
    qed (simp add: page_cells_def)
    moreover have "\<not> h \<le> j div 2" using j h by linarith
    ultimately show ?thesis using d by (simp add: flash_byte_def assms(1))
  qed
qed

lemma download_programs:
  assumes "page_ready off s" "off + n * length cs \<le> 65536" "list_all (\<lambda>c. length c = n) cs" "even n" "n dvd 1024" "n dvd off"
  shows "\<exists>t. download (0x08000000 + of_nat off) cs s = Some t \<and> page_ready (off + n * length cs) t
           \<and> (cs \<noteq> [] \<longrightarrow> op_result t = 1)
           \<and> (\<forall>i < n * length cs. flash_byte t (off + i) = concat cs ! i) \<and> (\<forall>j < off. flash_byte t j = flash_byte s j)"
  using assms(1,2,3,6)
proof (induction cs arbitrary: off s)
  case (Cons c cs)
  have c: "length c = n" "off + n \<le> 65536" "off + n + n * length cs \<le> 65536" "n dvd off + n" using Cons.prems by simp_all
  have ev: "even off" using assms(4) Cons.prems(4) by (rule dvd_trans)
  obtain u where u: "iap_packet (stm_write_packet (0x08000000 + of_nat off) (of_nat n) c) s = Some (False, u)"
    "page_ready (off + n) u" "op_result u = 1"
    "iap_cells u = (\<lambda>x. if off div 2 \<le> x \<and> x < off div 2 + n div 2 then halfwords c ! (x - off div 2) else page_cells off s x)"
    using packet_programs [OF Cons.prems(1) c(2,1) assms(4,5) Cons.prems(4)] by blast
  note b = packet_bytes [OF u(4) c(1) assms(4) ev]
  obtain t where t: "download (0x08000000 + of_nat (off + n)) cs u = Some t" "page_ready (off + n + n * length cs) t"
    "cs \<noteq> [] \<longrightarrow> op_result t = 1" "\<And>i. i < n * length cs \<Longrightarrow> flash_byte t (off + n + i) = concat cs ! i"
    "\<And>j. j < off + n \<Longrightarrow> flash_byte t j = flash_byte u j"
    using Cons.IH [OF u(2) c(3) _ c(4)] Cons.prems(3) by auto
  have "download (0x08000000 + of_nat off) (c # cs) s = Some t"
    using u(1) t(1) c(1) by (simp add: add.assoc)
  moreover have "op_result t = 1" using t(1,3) u(3) by (cases cs) auto
  moreover have "flash_byte t (off + i) = concat (c # cs) ! i" if "i < n * length (c # cs)" for i
  proof (cases "i < n")
    case True
    then show ?thesis using t(5) [of "off + i"] b(1) [of i] c(1) by (simp add: nth_append)
  next
    case False
    then show ?thesis using t(4) [of "i - n"] that c(1) by (simp add: nth_append)
  qed
  moreover have "flash_byte t j = flash_byte s j" if "j < off" for j using t(5) [of j] b(2) [of j] that by simp
  moreover have "page_ready (off + n * length (c # cs)) t" using t(2) by (simp add: add.assoc)
  ultimately show ?case by blast
qed simp

text \<open>C2: an image arrives in the flash byte for byte.  The packets \<open>stm_update_write_op\<close> of the signal processor makes,
  sent to the boot loader one after the other from the start of the user area on, all of one even size that
  divides the page size and together no longer than the area, leave the loader in its loop with the last packet confirmed,
  the area starting with the bytes of all packets in order, and the boot loader's own pages untouched.\<close>

theorem image_download:
  assumes "iap_idle s" "even n" "n dvd 1024" "list_all (\<lambda>c. length c = n) cs" "n * length cs \<le> 0xC000" "cs \<noteq> []"
  shows "\<exists>t. download 0x08004000 cs s = Some t \<and> op_result t = 1
           \<and> (\<forall>i < n * length cs. flash_byte t (0x4000 + i) = concat cs ! i) \<and> (\<forall>j < 0x4000. flash_byte t j = flash_byte s j)"
proof -
  have "page_ready 0x4000 s" using assms(1) by (simp add: page_ready_def)
  moreover have "n dvd 0x4000" using assms(3) by (rule dvd_trans) simp
  ultimately show ?thesis using download_programs [of "0x4000" s n cs] assms by simp blast
qed

definition loader_example :: iap_st where
  "loader_example = (undefined :: iap_st)\<lparr>iap_fault := False, Rx_Idx := 0, iap_sched := [], iap_evt_on := True, iap_WRPRTERR := False,
     I2C_CH_Buffer_Rx := replicate 1200 0, iap_PGERR := False, iap_cells := \<lambda>_. 0x1234, u32SystemTick := 0, iap_event := NOEVENT,
     iap_opcode := 0\<rparr>"

lemma loader_example_idle: "iap_idle loader_example"
  by (simp add: iap_idle_def loader_example_def)

lemma image_download_witness:
  "\<exists>t. download 0x08004000 [[1, 2, 3, 4], [5, 6, 7, 8]] loader_example = Some t \<and> flash_byte t (0x4000 + 6) = 7"
proof -
  have "list_all (\<lambda>c. length c = 4) [[1, 2, 3, 4], [5, 6, 7, 8 :: u8]]" by simp
  from image_download [OF loader_example_idle _ _ this] obtain t
    where t: "download 0x08004000 [[1, 2, 3, 4], [5, 6, 7, 8]] loader_example = Some t"
      "\<forall>i < 4 * length [[1, 2, 3, 4], [5, 6, 7, 8 :: u8]]. flash_byte t (0x4000 + i) = concat [[1, 2, 3, 4], [5, 6, 7, 8]] ! i"
    by auto
  have "flash_byte t (0x4000 + 6) = 7" using t(2) [rule_format, of 6] by simp
  with t(1) show ?thesis by blast
qed

section \<open>A packet sent twice\<close>

lemma program_error_fold:
  "iap_PGERR s \<Longrightarrow> fold (\<lambda>w s. FLASH_ProgramHalfWord (a + 2 * of_nat w) (I2C_CH_Buffer_Rx s ! (2 * (w + 4))) s) ws s = s"
  by (induction ws) (simp_all add: ProgramHalfWord_error)

text \<open>Words that are in the flash already: the hardware takes 0 anywhere and the erased value where it stands, and
  raises its error flag for any other.\<close>

definition plain_word :: "u16 \<Rightarrow> bool" where "plain_word v \<longleftrightarrow> v = 0 \<or> v = 0xFFFF"

lemma program_words_same:
  assumes "\<not> iap_WRPRTERR s" "2 * h + 2 * n \<le> 65536" "\<And>i. i < n \<Longrightarrow> iap_cells s (h + i) = I2C_CH_Buffer_Rx s ! (2 * (i + 4))"
  shows "program_words (0x08000000 + of_nat (2 * h)) n s
    = s\<lparr>iap_PGERR := (iap_PGERR s \<or> (\<exists>i < n. \<not> plain_word (I2C_CH_Buffer_Rx s ! (2 * (i + 4)))))\<rparr>"
  using assms(2,3)
proof (induction n)
  case 0
  then show ?case by (simp add: program_words_def)
next
  case (Suc n)
  let ?a = "0x08000000 + of_nat (2 * h) :: u32" and ?v = "I2C_CH_Buffer_Rx s ! (2 * (n + 4))"
  define e where "e = (iap_PGERR s \<or> (\<exists>i < n. \<not> plain_word (I2C_CH_Buffer_Rx s ! (2 * (i + 4)))))"
  have i: "flash_index (?a + 2 * of_nat n) = 2 * (h + n)" using flash_index_plus [of "2 * h" n] Suc.prems(1) by simp
  have c: "iap_cells s (h + n) = ?v" using Suc.prems(2) by simp
  have "program_words ?a n s = s\<lparr>iap_PGERR := e\<rparr>" unfolding e_def by (rule Suc.IH) (use Suc.prems in simp_all)
  then have "program_words ?a (Suc n) s = FLASH_ProgramHalfWord (?a + 2 * of_nat n) ?v (s\<lparr>iap_PGERR := e\<rparr>)"
    by (simp add: program_words_def)
  also have "\<dots> = s\<lparr>iap_PGERR := e \<or> \<not> plain_word ?v\<rparr>"
  proof (cases e)
    case True
    then show ?thesis by (simp add: ProgramHalfWord_error)
  next
    case False
    have "2 * (h + n) < 65536" using Suc.prems(1) by simp
    then show ?thesis using False i c assms(1)
      by (auto simp: FLASH_ProgramHalfWord_def FLASH_WaitForLastOperation_def FLASH_GetBank1Status_def flash_store_def
          plain_word_def IAP_FLASH_SIZE_def Let_def fun_upd_idem)
  qed
  also have "(e \<or> \<not> plain_word ?v) = (iap_PGERR s \<or> (\<exists>i < Suc n. \<not> plain_word (I2C_CH_Buffer_Rx s ! (2 * (i + 4)))))"
    unfolding e_def less_Suc_eq by blast
  finally show ?case .
qed

text \<open>A packet of words that stand in the flash from \<open>off\<close> on, and which programming again would raise the error flag.\<close>

definition stands :: "nat \<Rightarrow> bytes \<Rightarrow> iap_st \<Rightarrow> bool" where
  "stands off c s \<longleftrightarrow> off + length c \<le> 65536 \<and> (\<forall>i < length c div 2. iap_cells s (off div 2 + i) = halfwords c ! i)
     \<and> (\<exists>i < length c div 2. \<not> plain_word (halfwords c ! i))"

lemma packet_refused:
  assumes "iap_idle s" "off < 65536" "even off" "even n" "0 < n" "n \<le> 1024" "length c = n" "off mod 1024 \<noteq> 0"
    "iap_PGERR s \<or> stands off c s"
  shows "\<exists>t. iap_packet (stm_write_packet (0x08000000 + of_nat off) (of_nat n) c) s = Some (False, t)
           \<and> iap_idle t \<and> iap_PGERR t \<and> op_result t = 1 \<and> iap_cells t = iap_cells s"
proof -
  obtain h where h: "off = 2 * h" using assms(3) by (rule evenE)
  obtain t where t: "iap_packet (stm_write_packet (0x08000000 + of_nat off) (of_nat n) c) s
             = Some (False, (program_words (0x08000000 + of_nat off) (n div 2) t)\<lparr>iap_opcode := 0, op_result := 1\<rparr>)"
    "iap_idle t" "iap_cells t = page_cells off s" "iap_PGERR t = page_error off s"
    "\<forall>i < n div 2. I2C_CH_Buffer_Rx t ! (2 * (i + 4)) = halfwords c ! i"
    using write_packet_state [OF assms(1,2,4,5,6,7)] by blast
  have n: "0 < n div 2" using assms(4,5) by (auto elim!: evenE)
  have cells: "iap_cells t = iap_cells s" "iap_PGERR t = iap_PGERR s" using t(3,4) assms(8) by (simp_all add: page_cells_def page_error_def)
  have wr: "\<not> iap_WRPRTERR t" using t(2) by (simp add: iap_idle_def)
  have "program_words (0x08000000 + of_nat (2 * h)) (n div 2) t = t\<lparr>iap_PGERR := True\<rparr>"
  proof (cases "iap_PGERR s")
    case True
    then have e: "iap_PGERR t" using cells by simp
    then have "t\<lparr>iap_PGERR := True\<rparr> = t" by (cases t) simp
    with program_words_error [OF e] show ?thesis by simp
  next
    case False
    then have st: "stands off c s" using assms(9) by simp
    have "2 * h + 2 * (n div 2) \<le> 65536" using st h assms(4,7) by (simp add: stands_def)
    moreover have "iap_cells t (h + i) = I2C_CH_Buffer_Rx t ! (2 * (i + 4))" if "i < n div 2" for i
      using st h that assms(7) t(5) cells by (simp add: stands_def)
    moreover have "\<exists>i < n div 2. \<not> plain_word (I2C_CH_Buffer_Rx t ! (2 * (i + 4)))" using st assms(7) t(5) by (auto simp: stands_def)
    ultimately show ?thesis using program_words_same [of t h "n div 2"] wr by simp
  qed
  with t(1,2,3) assms(8) show ?thesis by (simp add: h page_cells_def) (simp add: iap_idle_def)
qed

text \<open>C33: a packet that is sent a second time, because its confirmation was lost, and that does not start a page makes the
  update lose everything up to the next page.  When the packet stands in the flash already, and has a half word other than
  0 and 0xFFFF (the only values the flash takes a second time), the flash sets its error flag, which only an
  erasure clears, and neither this packet nor any that follows in the page changes a single cell.  Every one of them
  is confirmed as written.\<close>

theorem resent_packet_loses_page:
  assumes "iap_idle s" "even off" "even n" "0 < n" "n \<le> 1024" "list_all (\<lambda>c. length c = n) (c # cs)" "stands off c s"
    "list_all (\<lambda>k. off + n * k < 65536 \<and> (off + n * k) mod 1024 \<noteq> 0) [0..<length (c # cs)]"
  shows "\<exists>t. download (0x08000000 + of_nat off) (c # cs) s = Some t \<and> op_result t = 1 \<and> iap_cells t = iap_cells s"
proof -
  have "\<exists>t. download (0x08000000 + of_nat off) (c # cs) s = Some t \<and> op_result t = 1 \<and> iap_cells t = iap_cells s"
    if "iap_PGERR s \<or> stands off c s"
    using that assms(1,2,6,8)
  proof (induction cs arbitrary: off c s)
    case Nil
    then show ?case using packet_refused [of s off n c] assms(3-5) by (auto split: option.splits)
  next
    case (Cons d cs)
    have k: "off + n * k < 65536 \<and> (off + n * k) mod 1024 \<noteq> 0" if "k < length (c # d # cs)" for k
      using Cons.prems(5) that unfolding list_all_iff set_upt by force
    obtain t where t: "iap_packet (stm_write_packet (0x08000000 + of_nat off) (of_nat n) c) s = Some (False, t)"
      "iap_idle t" "iap_PGERR t" "iap_cells t = iap_cells s"
      using packet_refused [of s off n c] Cons.prems(1-4) k [of 0] assms(3-5) by auto
    have "list_all (\<lambda>k. off + n + n * k < 65536 \<and> (off + n + n * k) mod 1024 \<noteq> 0) [0..<length (d # cs)]"
      unfolding list_all_iff set_upt using k [of "Suc k" for k] by (auto simp: algebra_simps)
    moreover have "list_all (\<lambda>c. length c = n) (d # cs)" "even (off + n)" using Cons.prems(3,4) assms(3) by simp_all
    ultimately obtain u where "download (0x08000000 + of_nat (off + n)) (d # cs) t = Some u" "op_result u = 1" "iap_cells u = iap_cells t"
      using Cons.IH [of t "off + n" d] t(2,3) by blast
    with t(1,4) Cons.prems(4) show ?case by (simp add: add.assoc)
  qed
  with assms(7) show ?thesis by blast
qed

text \<open>The flash of the example holds 0x1234 everywhere.\<close>

lemma resent_packet_loses_page_witness:
  "\<exists>t. download (0x08000000 + of_nat 0x4004) [[0x34, 0x12, 0x34, 0x12], [5, 6, 7, 8]] loader_example = Some t
     \<and> op_result t = 1 \<and> iap_cells t = iap_cells loader_example"
proof (rule resent_packet_loses_page [OF loader_example_idle, where n = 4])
  let ?c = "[0x34, 0x12, 0x34, 0x12 :: u8]"
  have h: "halfwords ?c ! i = 0x1234" if "i < 2" for i
  proof -
    from that have "i = 0 \<or> i = 1" by linarith
    then show ?thesis by (auto simp: halfwords_def u16_of_bytes_def upt_rec)
  qed
  have "length ?c div 2 = 2" by simp
  moreover have "\<not> plain_word 0x1234" by (simp add: plain_word_def)
  ultimately show "stands 0x4004 ?c loader_example"
    unfolding stands_def using h [of 0] by (auto simp: h loader_example_def intro!: exI [of _ 0])
  show "list_all (\<lambda>k. 0x4004 + 4 * k < 65536 \<and> (0x4004 + 4 * k) mod 1024 \<noteq> (0 :: nat)) [0..<length [[0x34, 0x12, 0x34, 0x12], [5, 6, 7, 8 :: u8]]]"
    by (simp add: upt_rec)
qed simp_all

section \<open>Without an update the application starts\<close>

text \<open>While nothing happens on the bus, the loop only counts ticks.\<close>

definition iap_quiet :: "iap_st \<Rightarrow> bool" where
  "iap_quiet s \<longleftrightarrow> iap_event s \<noteq> EVENT_OPCOD_NOTYET_READ \<and> iap_opcode s = 0 \<and> \<not> g_bTryLoopRun s"

lemma quiet_pass: "iap_quiet s \<Longrightarrow> iap_pass s = Some (False, (watchdog_reset s)\<lparr>iap_evt_on := True\<rparr>)"
  by (simp add: iap_quiet_def iap_pass_def Let_def)

lemma ticks_deliver:
  assumes "\<forall>i \<in> set p. i = TICK" "iap_quiet s"
  shows "iap_quiet (fold iap_deliver p s)" "u32SystemTick (fold iap_deliver p s) = u32SystemTick s + of_nat (length p)"
    "iap_sched (fold iap_deliver p s) = iap_sched s" "iap_cells (fold iap_deliver p s) = iap_cells s"
  using assms by (induction p arbitrary: s) (simp_all add: iap_deliver_def SysTick_Incremental_def iap_quiet_def)

text \<open>A silent schedule: every poll finds no interrupt but at most \<open>b\<close> ticks.  Many polls may find none.\<close>

definition silent :: "nat \<Rightarrow> iap_irq list list \<Rightarrow> bool" where
  "silent b ps \<longleftrightarrow> (\<forall>p \<in> set ps. length p \<le> b \<and> (\<forall>i \<in> set p. i = TICK))"

lemma quiet_try_loop:
  assumes "iap_quiet s" "u32SystemTick s = d - of_nat k" "k < 2 ^ 31" "silent b (iap_sched s)" "k \<le> length (concat (iap_sched s))"
    "b < 2 ^ 31"
  shows "\<exists>t j. try_loop d s = Some t \<and> j \<le> b - 1 \<and> u32SystemTick t = d + of_nat j \<and> iap_cells t = iap_cells s"
  using assms
proof (induction "iap_sched s" arbitrary: s k)
  case Nil
  then have "IsOnTime_stm d s" by (simp add: IsOnTime_stm on_time_late flip: Nil.hyps)
  with Nil show ?case by (intro exI [of _ s] exI [of _ 0]) (simp add: try_loop.simps [of d s] iap_quiet_def flip: Nil.hyps)
next
  case (Cons p ps)
  show ?case
  proof (cases "k = 0")
    case True
    then have "IsOnTime_stm d s" using Cons.prems(2) by (simp add: IsOnTime_stm on_time_late)
    with True Cons.prems(1,2) show ?thesis
      by (intro exI [of _ s] exI [of _ 0]) (simp add: try_loop.simps [of d s] iap_quiet_def)
  next
    case False
    have u: "unat (of_nat k :: u32) = k" using Cons.prems(3) by (intro unat_of_nat_small) simp
    have "\<not> on_time (d - of_nat k) (d - of_nat k + of_nat k)"
      using False Cons.prems(3) u by (intro not_on_time_early) simp_all
    then have late: "\<not> IsOnTime_stm d s" using Cons.prems(2) by (simp add: IsOnTime_stm)
    let ?p = "(watchdog_reset s)\<lparr>iap_evt_on := True\<rparr>"
    let ?s = "iap_poll ?p"
    have sched: "iap_sched s = p # ps" using Cons.hyps(2) by simp
    have p: "length p \<le> b" "\<forall>i \<in> set p. i = TICK" "silent b ps"
      using Cons.prems(4) unfolding silent_def sched by simp_all
    have s: "?s = fold iap_deliver p (?p\<lparr>iap_sched := ps\<rparr>)" by (simp add: iap_poll_def sched)
    have q: "iap_quiet (?p\<lparr>iap_sched := ps\<rparr>)" using Cons.prems(1) by (simp add: iap_quiet_def)
    have st: "iap_quiet ?s" "u32SystemTick ?s = u32SystemTick s + of_nat (length p)" "iap_sched ?s = ps" "iap_cells ?s = iap_cells s"
      unfolding s by (simp_all add: ticks_deliver [OF p(2) q])
    have pass: "try_loop d s = try_loop d ?s" using late quiet_pass [OF Cons.prems(1)] by (simp add: try_loop.simps [of d s])
    show ?thesis
    proof (cases "length p < k")
      case True
      then have "u32SystemTick ?s = d - of_nat (k - length p)" using st(2) Cons.prems(2) by (simp add: of_nat_diff)
      moreover have "k - length p \<le> length (concat ps)" using Cons.prems(5) unfolding sched by simp
      ultimately show ?thesis using Cons.hyps(1) [of ?s "k - length p"] st p(3) Cons.prems(3,6) pass by simp
    next
      case enough: False
      let ?j = "length p - k"
      have tm: "u32SystemTick ?s = d + of_nat ?j" using enough st(2) Cons.prems(2) by (simp add: of_nat_diff)
      have "unat (of_nat ?j :: u32) = ?j" using p(1) Cons.prems(6) by (intro unat_of_nat_small) simp
      then have "IsOnTime_stm d ?s" unfolding IsOnTime_stm tm using p(1) Cons.prems(6) by (intro on_time_late) simp
      then have "try_loop d ?s = Some ?s" using st(1) by (simp add: try_loop.simps [of d ?s] iap_quiet_def)
      moreover have "?j \<le> b - 1" using p(1) False by linarith
      ultimately show ?thesis using pass tm st(4) by auto
    qed
  qed
qed

text \<open>C34: without an update request and with a silent bus the loader always gives control to the application, without
  touching the flash.  However many passes of its loop go by from tick to tick, it does so at the first pass that finds five
  seconds (5000 ticks) elapsed since it started waiting: never earlier, and later by fewer ticks than go by in one pass at
  most (\<open>b\<close>), so at exactly 5000 ticks where a pass takes no longer than a tick.\<close>

theorem boot_reaches_application:
  assumes "iap_event s \<noteq> EVENT_OPCOD_NOTYET_READ" "iap_opcode s = 0" "silent b (iap_sched s)"
    "5000 \<le> length (concat (iap_sched s))" "b < 2 ^ 31"
  shows "\<exists>t j. iap_i2c_try_loop 5 s = Some t \<and> j \<le> b - 1 \<and> u32SystemTick t = u32SystemTick s + 5000 + of_nat j
           \<and> iap_cells t = iap_cells s"
  using quiet_try_loop [of "s\<lparr>g_bTryLoopRun := False\<rparr>" "u32SystemTick s + 5000" 5000 b] assms
  by (simp add: iap_i2c_try_loop_def SysTick_Get_stm_def iap_quiet_def)

text \<open>Three passes of the loop for every tick.\<close>

lemma boot_reaches_application_witness:
  "\<exists>t. iap_i2c_try_loop 5 (loader_example\<lparr>iap_sched := concat (replicate 6000 [[], [], [TICK]])\<rparr>) = Some t \<and> u32SystemTick t = 5000"
proof -
  let ?q = "concat (replicate 6000 [[], [], [TICK]])"
  let ?s = "loader_example\<lparr>iap_sched := ?q\<rparr>"
  have "concat (concat (replicate n [[], [], [TICK]])) = replicate n TICK" for n by (induction n) simp_all
  then have "5000 \<le> length (concat (iap_sched ?s))" by simp
  moreover have "silent 1 (iap_sched ?s)" by (auto simp: silent_def)
  moreover have "iap_event ?s \<noteq> EVENT_OPCOD_NOTYET_READ" "iap_opcode ?s = 0" "u32SystemTick ?s = 0"
    by (simp_all add: loader_example_def)
  ultimately show ?thesis using boot_reaches_application [of ?s 1] by auto
qed

end
