(* ===== verification/NibpStop.thy ===== *)
theory NibpStop
  imports NibpSafety
begin

text \<open>
  The overpressure test as the sampling interrupt runs it: \<open>NIBP_StartSample\<close> with its early return and
  \<open>NIBP_RisingCtrl\<close> before the test, over sequences of samples.  First what every part of the rising control leaves
  alone, then the runs, the stop at the fifth sample above the limit, and the stop for an over-range target, which the
  same pass of the rising control undoes.
\<close>

section \<open>What the test depends on\<close>

text \<open>The sample, the calibration and the limit; \<open>stays\<close> also keeps the venipuncture mode away, \<open>quiet\<close> the
  counter as well.\<close>

definition limits :: "'a nibp_sys_scheme \<Rightarrow> nibp_device \<times> bytes \<times> real list \<times> real list \<times> u16" where
  "limits s = (nd s, g_eeprom_struct (eep s), g_NIBP_K (nc s), g_NIBP_B (nc s), g_overload_mmHg (nc s))"

definition stays :: "'a nibp_sys_scheme \<Rightarrow> 'a nibp_sys_scheme \<Rightarrow> bool" where
  "stays s t \<longleftrightarrow> limits t = limits s
     \<and> (g_curWorkMode (nr s) \<noteq> VENIPUNCTURE_TEST \<longrightarrow> g_curWorkMode (nr t) \<noteq> VENIPUNCTURE_TEST)"

definition quiet :: "'a nibp_sys_scheme \<Rightarrow> 'a nibp_sys_scheme \<Rightarrow> bool" where
  "quiet s t \<longleftrightarrow> stays s t \<and> g_overload_count (nr t) = g_overload_count (nr s)"

lemma stays_refl [simp]: "stays s s" by (simp add: stays_def)

lemma stays_trans: "stays s t \<Longrightarrow> stays t u \<Longrightarrow> stays s u" by (simp add: stays_def)

lemma limits_prims [simp]:
  "limits (wr r v s) = limits s" "limits (upload p d s) = limits s" "limits (raise_fault s) = limits s"
  "limits (alg_call f xs s) = limits s" "limits (s\<lparr>nr := x\<rparr>) = limits s" "limits (s\<lparr>nring := y\<rparr>) = limits s"
  "limits (s\<lparr>nres := z\<rparr>) = limits s" "limits (s\<lparr>tick := t\<rparr>) = limits s" "limits (emit e s) = limits s"
  "limits (s\<lparr>adc := a\<rparr>) = limits s" "limits (orw r v s) = limits s" "limits (andw r v s) = limits s"
  by (simp_all add: limits_def orw_def andw_def)

lemma limits_twi: "twi_same s t \<Longrightarrow> limits t = limits (s :: 'a nibp_sys_scheme)"
  by (cases s; cases t; simp add: twi_same_def limits_def)

lemma nr_twi: "twi_same s t \<Longrightarrow> nr t = nr (s :: 'a nibp_sys_scheme)"
  by (cases s; cases t; simp add: twi_same_def)

lemma twi_nibp [simp]:
  fixes s :: "'a nibp_sys_scheme"
  shows "limits (snd (TWI_MasterMode_Write d dat n len s)) = limits s"
    "nr (snd (TWI_MasterMode_Write d dat n len s)) = nr s"
    "limits (snd (snd (TWI_MasterMode_Read d len s))) = limits s"
    "nr (snd (snd (TWI_MasterMode_Read d len s))) = nr s"
  by (rule limits_twi nr_twi, simp)+

lemma limits_stm32 [simp]: "limits (s\<lparr>stm32 := x\<rparr>) = limits s" by (simp add: limits_def)

lemma state_read_frame [simp]:
  "limits (snd (NIBP_isStm32FastRele s)) = limits s" "nr (snd (NIBP_isStm32FastRele s)) = nr s"
  by (simp_all add: NIBP_isStm32FastRele_def aio_stm32_readNIBPState_def aio_stm32_readByID_def Let_def split_beta)

lemma state_write_frame [simp]:
  "limits (snd (aio_stm32_writeNIBPState v s)) = limits s" "nr (snd (aio_stm32_writeNIBPState v s)) = nr s"
  by (simp_all add: aio_stm32_writeNIBPState_def aio_stm32_writeByID_def Let_def split_beta)

lemma NIBPState_retry_frame [simp]: "limits (NIBPState_retry n s) = limits s" "nr (NIBPState_retry n s) = nr s"
  by (induction n arbitrary: s) (simp_all add: split_beta Let_def)

lemma nibp_ResetTimeout_frame [simp]: "limits (nibp_ResetTimeout i n s) = limits s" "nr (nibp_ResetTimeout i n s) = nr s"
  by (simp_all add: nibp_ResetTimeout_def split: option.split)

lemma valves_frame [simp]:
  "limits (NIBP_SetPWM e s) = limits s" "limits (NIBP_SetPressRelease m s) = limits s"
  "limits (NIBP_SetPWM_DutyCycles p s) = limits s" "limits (NIBP_ForceStop s) = limits s"
  "limits (NIBP_AlarmUpload a s) = limits s" "limits (nibp_debug_stop_pwm s) = limits s"
  "nr (NIBP_SetPressRelease m s) = nr s" "nr (NIBP_SetPWM_DutyCycles p s) = nr s"
  by (simp_all add: NIBP_SetPWM_def NIBP_SetPressRelease_def NIBP_SetPWM_DutyCycles_def NIBP_ForceStop_def
      NIBP_AlarmUpload_def NIBP_StartStopRespond_def nibp_debug_stop_pwm_def Let_def split: NIBP_Release_TypeDef.split)

lemma SetPWM_nr [simp]:
  "g_curWorkMode (nr (NIBP_SetPWM e s)) = g_curWorkMode (nr s)"
  "g_overload_count (nr (NIBP_SetPWM e s)) = g_overload_count (nr s)"
  "g_NIBP_Status (nr (NIBP_SetPWM e s)) = g_NIBP_Status (nr s)"
  "g_nibp_algo_state (nr (NIBP_SetPWM e s)) = g_nibp_algo_state (nr s)"
  by (simp_all add: NIBP_SetPWM_def Let_def)

lemma ForceStop_mode [simp]: "g_curWorkMode (nr (NIBP_ForceStop s)) = MANUAL_TEST"
  by (simp add: NIBP_ForceStop_def NIBP_StartStopRespond_def)

lemma first_target_nr [simp]:
  "g_overload_count (first_target fp r c) = g_overload_count r"
  "g_curWorkMode (first_target fp r c) = g_curWorkMode r"
  "g_NIBP_Status (first_target fp r c) = g_NIBP_Status r"
  by (simp_all add: first_target_def Let_def)

lemma startPumpCtrl_frame [simp]:
  "limits (NIBP_startPumpCtrl s) = limits s"
  "g_curWorkMode (nr (NIBP_startPumpCtrl s)) = g_curWorkMode (nr s)"
  "g_overload_count (nr (NIBP_startPumpCtrl s)) = g_overload_count (nr s)"
  by (simp_all add: NIBP_startPumpCtrl_def nibp_algorithm_start_def Let_def split_beta)

lemma SampleOneTimeByDebug_frame [simp]:
  "limits (NIBP_SampleOneTimeByDebug fp s) = limits s"
  "g_curWorkMode (nr (NIBP_SampleOneTimeByDebug fp s)) = g_curWorkMode (nr s)"
  "g_overload_count (nr (NIBP_SampleOneTimeByDebug fp s)) = 0"
  by (simp_all add: NIBP_SampleOneTimeByDebug_def Let_def)

lemma debug_start_pwm_frame [simp]:
  "limits (nibp_debug_start_pwm fp s) = limits s"
  "g_curWorkMode (nr (nibp_debug_start_pwm fp s)) = g_curWorkMode (nr s)"
  "g_overload_count (nr (nibp_debug_start_pwm fp s)) =
     (if g_NIBP_Status (nr s) = ENABLE then g_overload_count (nr s) else 0)"
  by (simp_all add: nibp_debug_start_pwm_def Let_def)

lemma limits_hold_time [simp]: "limits (s\<lparr>nc := (nc s)\<lparr>g_u8SlowReleHoldTimeMS := t\<rparr>\<rparr>) = limits s"
  by (simp add: limits_def)

section \<open>The parts of the rising control\<close>

lemma refresh_quiet: "quiet s (NIBP_refreshSlowReleHoldTime fp b ms s)"
  by (simp add: quiet_def stays_def NIBP_refreshSlowReleHoldTime_def Let_def)

lemma quiet_refl [simp]: "quiet s s" by (simp add: quiet_def)

lemma quiet_trans: "quiet s t \<Longrightarrow> quiet t u \<Longrightarrow> quiet s u"
  using stays_trans by (auto simp: quiet_def)

lemma quiet_ResetTimeout [simp]: "quiet s (nibp_ResetTimeout i n t) = quiet s t"
  by (simp add: quiet_def stays_def)

lemma rising_hold_quiet: "quiet s (rising_hold fp s)"
  using refresh_quiet [of s fp True "pulse_ms (nres s)"] by (simp add: rising_hold_def Let_def)

lemma rising_first_hold_quiet: "quiet s (rising_first_hold s)"
  by (simp add: quiet_def stays_def rising_first_hold_def Let_def)

lemma nr_quiet: "g_overload_count r = g_overload_count (nr s) \<Longrightarrow> g_curWorkMode r = g_curWorkMode (nr s) \<Longrightarrow> quiet s (s\<lparr>nr := r\<rparr>)"
  by (simp add: quiet_def stays_def)

lemma debug_stop_pwm_quiet: "quiet s (nibp_debug_stop_pwm s)"
  by (simp add: quiet_def stays_def nibp_debug_stop_pwm_def)

lemma rising_pump_quiet: "quiet s (rising_pump fp s)"
proof -
  have d: "quiet s (NIBP_SetPWM_DutyCycles p s)" for p by (simp add: quiet_def stays_def)
  have "quiet s (if IsNIBPOverLoad fp (g_Rising_mmHgCur (nr s)) s
               then (let s = nibp_debug_stop_pwm s
                     in if isFisrtRisingStep (nr s) then rising_first_hold s else rising_hold fp s)
               else if IsNIBPOverLoad fp (g_Rising_mmHgCur (nr s) - 10) s
               then NIBP_SetPWM_DutyCycles (if g_PatientType (glob s) = NEWBORN then 250 else 330) s
               else s)" (is "quiet s ?t")
    using d quiet_trans [OF debug_stop_pwm_quiet [of s] rising_first_hold_quiet]
      quiet_trans [OF debug_stop_pwm_quiet [of s] rising_hold_quiet] by (simp add: Let_def)
  then show ?thesis by (simp add: rising_pump_def Let_def quiet_def stays_def)
qed

lemma rising_release_quiet: "quiet s (rising_release fp s)"
proof -
  have a: "quiet s (NIBP_SetPressRelease SLOW_RELE (s\<lparr>nr := (nr s)\<lparr>u8SlowReleRunCount := 0\<rparr>\<rparr>))"
    by (simp add: quiet_def stays_def)
  have b: "quiet s (NIBP_SetPressRelease PRESS_HOLD (s\<lparr>nr := store_step (nr s)\<rparr>))"
    by (simp add: quiet_def stays_def store_step_def)
  have c: "quiet s (t\<lparr>nr := (nr t)\<lparr>g_isRisingStateRele := x\<rparr>\<rparr>) = quiet s t" for t :: "'a nibp_sys_scheme" and x
    by (simp add: quiet_def stays_def)
  show ?thesis using a quiet_trans [OF b rising_hold_quiet] by (simp add: rising_release_def Let_def c)
qed

lemma setParam_quiet: "quiet s (NIBP_setParamEndofRising fp st ms mx s)"
proof -
  have a: "quiet s (s\<lparr>nc := (nc s)\<lparr>g_u8SlowReleStepmmHg := st\<rparr>\<rparr>)" by (simp add: quiet_def stays_def limits_def)
  have b: "quiet s (t\<lparr>nr := (nr t)\<lparr>g_slowRele_mmHg := x\<rparr>\<rparr>) = quiet s t" for t :: "'a nibp_sys_scheme" and x
    by (simp add: quiet_def stays_def)
  show ?thesis using quiet_trans [OF a refresh_quiet] by (simp add: NIBP_setParamEndofRising_def Let_def b)
qed

lemma pushLastRet_quiet [simp]: "quiet s (nibp_algorithm_pushLastRet t) = quiet s t"
  by (simp add: nibp_algorithm_pushLastRet_def quiet_def stays_def Let_def split_beta)

lemma rising_done_quiet: "quiet s (rising_done fp s)"
proof -
  have a: "quiet s (run [NIBP_SetPWM DISABLE, NIBP_SetPressRelease PRESS_HOLD,
                        \<lambda>s. s\<lparr>nr := (nr s)\<lparr>g_bIsPumpStop := False\<rparr>\<rparr>] t) = quiet s t" for t :: "'a nibp_sys_scheme"
    by (simp add: quiet_def stays_def)
  have b: "quiet s (NIBP_setParamEndofRising fp 10 ms v t)" if "quiet s t" for t ms v
    using quiet_trans [OF that setParam_quiet] .
  have c: "quiet s (if p then (s\<lparr>nr := r\<rparr>)\<lparr>nr := r'\<rparr> else s\<lparr>nr := r\<rparr>)"
    if "g_overload_count r = g_overload_count (nr s)" "g_curWorkMode r = g_curWorkMode (nr s)"
      "g_overload_count r' = g_overload_count (nr s)" "g_curWorkMode r' = g_curWorkMode (nr s)" for p r r'
    using that by (simp add: quiet_def stays_def)
  show ?thesis
  proof (cases "isRisingDone (nres s)")
    case True
    show ?thesis unfolding rising_done_def Let_def if_P [OF True] pushLastRet_quiet a
      by (rule b, rule c) simp_all
  qed (simp add: rising_done_def)
qed

section \<open>Restarts\<close>

text \<open>\<open>nibp_debug_start_pwm\<close> starts a new measurement, with a new count, when it finds the measurement disabled, as it
  is after a forced stop earlier in the same pass: \<open>rising_restarts\<close> is that case, \<open>before_next\<close> the state in which
  the hold of a step is examined.\<close>

definition before_next :: "fpu \<Rightarrow> 'a nibp_sys_scheme \<Rightarrow> 'a nibp_sys_scheme" where
  "before_next fp s =
     (let s = (if g_NIBP_PWM_Status (nr s) = ENABLE then rising_pump fp s else s)
      in if g_u8RisingStepCount (nr s) = 0 then s\<lparr>nr := (nr s)\<lparr>u8SlowReleRunCount := 0\<rparr>\<rparr> else s)"

definition next_restarts :: "fpu \<Rightarrow> 'a nibp_sys_scheme \<Rightarrow> bool" where
  "next_restarts fp s \<longleftrightarrow>
     g_NIBP_PWM_Status (nr s) = DISABLE \<and> g_bIsPumpStop (nr s) \<and> \<not> g_isRisingStateRele (nr s)
     \<and> IsTimedout (g_SlowReleHoldTimeIndex (nc s)) (tick s)
     \<and> (let s = s\<lparr>nr := (nr s)\<lparr>u8SlowReleRunCount := 0\<rparr>\<rparr>; t = rising_new_target s
        in rising_wants_next s \<and> \<not> IsNIBPOverLoad fp (g_Rising_mmHgCur (nr t)) t \<and> g_NIBP_Status (nr t) \<noteq> ENABLE)"

definition rising_restarts :: "fpu \<Rightarrow> 'a nibp_sys_scheme \<Rightarrow> bool" where
  "rising_restarts fp s \<longleftrightarrow> g_nibp_algo_state (nr s) = NIBP_ALGO_RISING \<and> next_restarts fp (before_next fp s)"

lemma before_next_quiet: "quiet s (before_next fp s)"
  using rising_pump_quiet [of s fp] by (simp add: before_next_def Let_def quiet_def stays_def)

lemma new_target_quiet: "quiet s (rising_new_target s)"
  by (simp add: rising_new_target_def Let_def quiet_def stays_def)

lemma rising_next_step:
  "stays s (rising_next fp s)"
  "g_overload_count (nr (rising_next fp s)) = (if next_restarts fp s then 0 else g_overload_count (nr s))"
proof -
  define z where "z = s\<lparr>nr := (nr s)\<lparr>u8SlowReleRunCount := 0\<rparr>\<rparr>"
  define t where "t = rising_new_target z"
  have z: "quiet s z" unfolding z_def by (rule nr_quiet) simp_all
  have t: "quiet s t" unfolding t_def by (rule quiet_trans [OF z new_target_quiet])
  have p: "stays s (nibp_debug_start_pwm fp (t\<lparr>nr := store_step (nr t)\<rparr>))"
    "g_overload_count (nr (nibp_debug_start_pwm fp (t\<lparr>nr := store_step (nr t)\<rparr>))) =
      (if g_NIBP_Status (nr t) = ENABLE then g_overload_count (nr s) else 0)"
    using t by (simp_all add: quiet_def stays_def store_step_def)
  show "stays s (rising_next fp s)"
    using z t p(1) unfolding rising_next_def Let_def z_def [symmetric] t_def [symmetric]
    by (simp add: quiet_def stays_def)
  show "g_overload_count (nr (rising_next fp s)) = (if next_restarts fp s then 0 else g_overload_count (nr s))"
    using z t p(2) unfolding rising_next_def next_restarts_def Let_def z_def [symmetric] t_def [symmetric]
    by (auto simp add: quiet_def)
qed

lemma RisingCtrl_step:
  "stays s (NIBP_RisingCtrl fp s)"
  "g_overload_count (nr (NIBP_RisingCtrl fp s)) = (if rising_restarts fp s then 0 else g_overload_count (nr s))"
proof -
  have e: "NIBP_RisingCtrl fp s = (if g_nibp_algo_state (nr s) \<noteq> NIBP_ALGO_RISING then s
     else rising_done fp (rising_release fp (rising_next fp (before_next fp s))))"
    by (simp add: NIBP_RisingCtrl_def before_next_def Let_def)
  have q: "quiet u (rising_done fp (rising_release fp u))" for u :: "'a nibp_sys_scheme"
    by (rule quiet_trans [OF rising_release_quiet rising_done_quiet])
  show "stays s (NIBP_RisingCtrl fp s)"
    "g_overload_count (nr (NIBP_RisingCtrl fp s)) = (if rising_restarts fp s then 0 else g_overload_count (nr s))"
    using q [of "rising_next fp (before_next fp s)"] before_next_quiet [where s = s and fp = fp]
      rising_next_step [where s = "before_next fp s" and fp = fp]
    unfolding e rising_restarts_def quiet_def by (auto intro: stays_trans)
qed


section \<open>Runs of the sampling interrupt\<close>

text \<open>A run is driven by samples: the ADC value, the result the algorithm has left since the last sample, and the time.
  \<open>unguarded_run\<close> is the same run with a test that only counts, \<open>over_counts\<close> the number of samples above the limit
  since the measurement was last started, after each sample.\<close>

type_synonym cuff_sample = "u32 \<times> CNIBPResult \<times> tick_st"

definition sample_in :: "cuff_sample \<Rightarrow> 'a nibp_sys_scheme \<Rightarrow> 'a nibp_sys_scheme" where
  "sample_in z s = s\<lparr>nd := (nd s)\<lparr>adc_val := fst z\<rparr>, nres := fst (snd z), tick := snd (snd z)\<rparr>"

definition sample_run :: "fpu \<Rightarrow> cuff_sample list \<Rightarrow> 'a nibp_sys_scheme \<Rightarrow> 'a nibp_sys_scheme" where
  "sample_run fp zs s = fold (\<lambda>z s. NIBP_StartSample fp (sample_in z s)) zs s"

definition over_limit :: "fpu \<Rightarrow> 'a nibp_sys_scheme \<Rightarrow> u32 \<Rightarrow> bool" where
  "over_limit fp s x \<longleftrightarrow> x > NIBP_mmHg2ADC fp (nc s) (g_eeprom_struct (eep s)) (g_overload_mmHg (nc s))"

definition sample_ready :: "'a nibp_sys_scheme \<Rightarrow> 'a nibp_sys_scheme" where
  "sample_ready s = COM_ADC_DataPin_Init DRDY_MODE (s\<lparr>adc := (adc s)\<lparr>g_COMADC_channel := NIBP_channel, g_COMADC_state := 0\<rparr>\<rparr>)"

definition unguarded_sample :: "fpu \<Rightarrow> 'a nibp_sys_scheme \<Rightarrow> 'a nibp_sys_scheme" where
  "unguarded_sample fp s =
     (let s = NIBP_RisingCtrl fp (sample_ready s)
      in if IsNIBPOverLoad fp (g_overload_mmHg (nc s)) s
         then s\<lparr>nr := (nr s)\<lparr>g_overload_count := g_overload_count (nr s) + 1\<rparr>\<rparr> else s)"

definition unguarded_run :: "fpu \<Rightarrow> cuff_sample list \<Rightarrow> 'a nibp_sys_scheme \<Rightarrow> 'a nibp_sys_scheme" where
  "unguarded_run fp zs s = fold (\<lambda>z s. unguarded_sample fp (sample_in z s)) zs s"

fun over_counts :: "fpu \<Rightarrow> cuff_sample list \<Rightarrow> nat \<Rightarrow> 'a nibp_sys_scheme \<Rightarrow> nat list" where
  "over_counts fp [] k s = []"
| "over_counts fp (z # zs) k s =
     (let k = (if rising_restarts fp (sample_ready (sample_in z s)) then 0 else k)
              + (if over_limit fp s (fst z) then 1 else 0)
      in k # over_counts fp zs k (NIBP_StartSample fp (sample_in z s)))"

definition stopped :: "'a nibp_sys_scheme \<Rightarrow> bool" where
  "stopped s \<longleftrightarrow> g_NIBP_Status (nr s) = DISABLE \<and> g_nibp_algo_state (nr s) = NIBP_ALGO_IDLE
     \<and> g_curWorkMode (nr s) \<noteq> VENIPUNCTURE_TEST \<and> deflated (trace s)"

lemma sample_ready_frame [simp]: "limits (sample_ready s) = limits s" "nr (sample_ready s) = nr s"
  by (simp_all add: sample_ready_def COM_ADC_DataPin_Init_def orw_def andw_def)

lemma sample_in_frame [simp]: "nr (sample_in z s) = nr s" "nc (sample_in z s) = nc s" "eep (sample_in z s) = eep s"
    "adc_val (nd (sample_in z s)) = fst z" "trace (sample_in z s) = trace s"
  by (simp_all add: sample_in_def)

lemma deflated_pins:
  "deflated (trace (sample_ready s)) = deflated (trace s)"
  by (simp add: sample_ready_def COM_ADC_DataPin_Init_def orw_def andw_def wr_def deflated_def)

lemma sample_unfold:
  assumes "g_curWorkMode (nr s) \<noteq> VENIPUNCTURE_TEST"
  shows "NIBP_StartSample fp s = overload_check fp (NIBP_RisingCtrl fp (sample_ready s))"
  using assms sample_ready_frame(2) [of s] by (simp add: NIBP_StartSample_def sample_ready_def [symmetric] Let_def)

lemma IsNIBPOverLoad_stays:
  assumes "limits t = limits s"
  shows "IsNIBPOverLoad fp (g_overload_mmHg (nc t)) t = over_limit fp s (adc_val (nd s))"
  using assms by (simp add: IsNIBPOverLoad_def NIBP_mmHg2ADC_def over_limit_def limits_def Let_def)

lemma stopped_step:
  assumes "stopped s"
  shows "stopped (NIBP_StartSample fp (sample_in z s))"
proof -
  let ?r = "sample_ready (sample_in z s)"
  have "NIBP_RisingCtrl fp ?r = ?r" using assms by (simp add: NIBP_RisingCtrl_def stopped_def)
  then have e: "NIBP_StartSample fp (sample_in z s) = overload_check fp ?r"
    using assms sample_unfold [of "sample_in z s" fp] by (simp add: stopped_def)
  have "stopped ?r" using assms by (simp add: stopped_def deflated_pins)
  then show ?thesis unfolding e
    by (auto simp add: overload_check_def stopped_def Let_def ForceStop_deflates)
qed

lemma stopped_run: "stopped s \<Longrightarrow> stopped (sample_run fp zs s)"
  by (induction zs arbitrary: s) (simp_all add: sample_run_def stopped_step)

lemma sample_step:
  fixes k :: nat and s :: "'a nibp_sys_scheme" and fp :: fpu and z :: cuff_sample
  assumes m: "g_curWorkMode (nr s) \<noteq> VENIPUNCTURE_TEST" and c: "g_overload_count (nr s) = of_nat k" "k < 5"
  defines "t \<equiv> NIBP_StartSample fp (sample_in z s)"
    and "k' \<equiv> (if rising_restarts fp (sample_ready (sample_in z s)) then 0 else k) + (if over_limit fp s (fst z) then 1 else 0)"
  shows "5 \<le> k' \<Longrightarrow> stopped t"
    "k' < 5 \<Longrightarrow> t = unguarded_sample fp (sample_in z s) \<and> g_overload_count (nr t) = of_nat k'
       \<and> g_curWorkMode (nr t) \<noteq> VENIPUNCTURE_TEST"
proof -
  let ?r = "sample_ready (sample_in z s)" and ?u = "NIBP_RisingCtrl fp (sample_ready (sample_in z s))"
  let ?n = "if rising_restarts fp ?r then 0 else k"
  have t: "t = overload_check fp ?u" unfolding t_def using m by (simp add: sample_unfold)
  have l: "limits ?u = limits (sample_in z s)" and mu: "g_curWorkMode (nr ?u) \<noteq> VENIPUNCTURE_TEST"
    using RisingCtrl_step(1) [of ?r fp] m by (simp_all add: stays_def)
  have n: "g_overload_count (nr ?u) = of_nat ?n" using RisingCtrl_step(2) [of fp ?r] c by simp
  have o: "IsNIBPOverLoad fp (g_overload_mmHg (nc ?u)) ?u = over_limit fp s (fst z)"
    using IsNIBPOverLoad_stays [OF l] by (simp add: over_limit_def)
  have "?n < 5" using c(2) by simp
  then have q: "3 < sint (of_nat ?n :: u8) \<longleftrightarrow> ?n = 4"
    by (auto simp: less_Suc_eq eval_nat_numeral simp del: if_split)
  show "5 \<le> k' \<Longrightarrow> stopped t"
    using q n o c(2) unfolding t overload_check_def Let_def k'_def
    by (auto simp: stopped_def ForceStop_deflates split: if_splits)
  show "k' < 5 \<Longrightarrow> t = unguarded_sample fp (sample_in z s) \<and> g_overload_count (nr t) = of_nat k'
       \<and> g_curWorkMode (nr t) \<noteq> VENIPUNCTURE_TEST"
    using q n o c(2) mu unfolding t overload_check_def unguarded_sample_def Let_def k'_def
    by (auto simp: ac_simps split: if_splits)
qed

lemma overload_run:
  assumes "g_curWorkMode (nr s) \<noteq> VENIPUNCTURE_TEST" "g_overload_count (nr s) = of_nat k" "k < 5"
  shows "if \<exists>n \<in> set (over_counts fp zs k s). 5 \<le> n then stopped (sample_run fp zs s)
     else sample_run fp zs s = unguarded_run fp zs s"
  using assms
proof (induction zs arbitrary: k s)
  case (Cons z zs)
  let ?t = "NIBP_StartSample fp (sample_in z s)"
  define k' where "k' = (if rising_restarts fp (sample_ready (sample_in z s)) then 0 else k) + (if over_limit fp s (fst z) then 1 else 0)"
  have o: "over_counts fp (z # zs) k s = k' # over_counts fp zs k' ?t" by (simp add: k'_def Let_def)
  have r: "sample_run fp (z # zs) s = sample_run fp zs ?t" by (simp add: sample_run_def)
  note st = sample_step [OF Cons.prems, of fp z, folded k'_def]
  show ?case
  proof (cases "k' < 5")
    case True
    then have u: "unguarded_run fp (z # zs) s = unguarded_run fp zs ?t" using st(2) by (simp add: unguarded_run_def)
    have "if \<exists>n \<in> set (over_counts fp zs k' ?t). 5 \<le> n then stopped (sample_run fp zs ?t)
      else sample_run fp zs ?t = unguarded_run fp zs ?t" using st(2) [OF True] True by (intro Cons.IH) blast+
    with u True show ?thesis unfolding o r by auto
  next
    case False
    then show ?thesis unfolding o r using stopped_run [OF st(1)] by simp
  qed
qed (simp add: sample_run_def unguarded_run_def)

text \<open>C1: a measurement is stopped by its fifth sample above the limit and by no earlier one, in every run of
  \<open>NIBP_StartSample\<close> outside the venipuncture mode, wherever those samples lie, whatever the algorithm reports in between
  and however time passes.  Once five samples since the last start of the measurement were above the limit, the pump is
  off, both valves are open and the measurement is disabled and idle, and all later samples leave it so.  Until then the
  run is exactly that of the same interrupt with a test that only counts.  The count starts again with the measurement,
  which the rising control itself can start anew (\<open>rising_restarts\<close>).  Commands and the main loop between two samples
  are outside the run, except for the result they leave.\<close>

theorem overload_trips:
  assumes "g_curWorkMode (nr s) \<noteq> VENIPUNCTURE_TEST" "g_overload_count (nr s) = 0"
  shows "if \<exists>n \<in> set (over_counts fp zs 0 s). 5 \<le> n then stopped (sample_run fp zs s)
     else sample_run fp zs s = unguarded_run fp zs s"
  using overload_run [of s 0] assms by simp


lemma over_counts_falling:
  assumes "g_nibp_algo_state (nr s) \<noteq> NIBP_ALGO_RISING" "g_curWorkMode (nr s) \<noteq> VENIPUNCTURE_TEST"
    "\<forall>z \<in> set zs. over_limit fp s (fst z)" "zs \<noteq> []"
  shows "k + length zs \<in> set (over_counts fp zs k s)"
  using assms
proof (induction zs arbitrary: k s)
  case (Cons z zs)
  let ?t = "NIBP_StartSample fp (sample_in z s)"
  have r: "\<not> rising_restarts fp (sample_ready (sample_in z s))" using Cons.prems(1) by (simp add: rising_restarts_def)
  have "NIBP_RisingCtrl fp (sample_ready (sample_in z s)) = sample_ready (sample_in z s)"
    using Cons.prems(1) by (simp add: NIBP_RisingCtrl_def)
  then have t: "?t = overload_check fp (sample_ready (sample_in z s))" using Cons.prems(2) by (simp add: sample_unfold)
  have l: "over_limit fp ?t = over_limit fp s"
    unfolding t overload_check_def using sample_ready_frame(1) [of "sample_in z s"]
    by (auto simp: fun_eq_iff Let_def over_limit_def NIBP_mmHg2ADC_def limits_def)
  have a: "g_nibp_algo_state (nr ?t) \<noteq> NIBP_ALGO_RISING" "g_curWorkMode (nr ?t) \<noteq> VENIPUNCTURE_TEST"
    using Cons.prems(1,2) unfolding t overload_check_def by (simp_all add: Let_def ForceStop_deflates)
  show ?case using r Cons.prems(3) Cons.IH [of ?t "Suc k"] a l by (cases zs) (auto simp: Let_def)
qed simp

lemma overload_trips_witness:
  "\<exists>(s :: nibp_sys) zs. 5 \<in> set (over_counts exact_fpu zs 0 s) \<and> stopped (sample_run exact_fpu zs s)"
proof -
  obtain r :: CNIBPResult and t :: tick_st where True by simp
  obtain s0 :: nibp_sys where True by simp
  define s where "s = s0\<lparr>nc := example_cfg ((nc s0)\<lparr>g_overload_mmHg := 150\<rparr>),
      eep := (eep s0)\<lparr>g_eeprom_struct := example_eeprom\<rparr>,
      nr := (nr s0)\<lparr>g_overload_count := 0, g_NIBP_Status := ENABLE, g_curWorkMode := MANUAL_TEST,
        g_nibp_algo_state := NIBP_ALGO_FALLING\<rparr>\<rparr>"
  have e: "g_eeprom_struct (eep s) = example_eeprom" "nc s = example_cfg ((nc s0)\<lparr>g_overload_mmHg := 150\<rparr>)"
    "g_overload_count (nr s) = 0" "g_curWorkMode (nr s) \<noteq> VENIPUNCTURE_TEST" "g_nibp_algo_state (nr s) \<noteq> NIBP_ALGO_RISING"
    by (simp_all add: s_def)
  have tab: "in_table example_eeprom 150" using example_points by (simp add: in_table_def)
  have "mmHg_adc (nc s) example_eeprom 150 \<le> vx example_eeprom 5"
    using mmHg_adc_line(3) [OF example_calibrated example_formula tab]
      calibrated_mono(1) [OF example_calibrated, of "Suc (mmHg_segment example_eeprom 150)" 5]
      mmHg_segment_table(1) [OF example_calibrated tab] unfolding e by (metis Suc_leI order_refl order_trans)
  also have "\<dots> = 60" using example_points by (simp add: vx_def)
  finally have "nat \<lfloor>mmHg_adc (nc s) example_eeprom 150\<rfloor> < 200" by linarith
  then have "over_limit exact_fpu s 200"
    using unat_mmHg2ADC [OF example_calibrated example_formula tab]
    unfolding over_limit_def word_less_nat_alt e by (simp add: example_cfg_def)
  then have "5 \<in> set (over_counts exact_fpu (replicate 5 (200, r, t)) 0 s)"
    using over_counts_falling [OF e(5,4), of "replicate 5 (200, r, t)" exact_fpu 0] by simp
  with overload_trips [OF e(4,3), where fp = exact_fpu and zs = "replicate 5 (200, r, t)"] show ?thesis
    by (metis order_refl)
qed

section \<open>The stop that restarts\<close>

text \<open>The end of a hold during the inflation, when the algorithm asks for a target within 5 mmHg of the limit for the
  third time (\<open>NIBP_RisingCtrl\<close> then forces a stop) and the pressure is still below the limit less 5 mmHg.\<close>

definition over_range_hold :: "fpu \<Rightarrow> 'a nibp_sys_scheme \<Rightarrow> bool" where
  "over_range_hold fp s \<longleftrightarrow>
     g_nibp_algo_state (nr s) = NIBP_ALGO_RISING \<and> g_NIBP_PWM_Status (nr s) = DISABLE \<and> g_bIsPumpStop (nr s)
     \<and> \<not> g_isRisingStateRele (nr s) \<and> IsTimedout (g_SlowReleHoldTimeIndex (nc s)) (tick s)
     \<and> 0 < sint (risingResult (nres s)) \<and> int (unat (g_Rising_mmHgCur (nr s))) \<noteq> sint (risingResult (nres s))
     \<and> \<not> isRisingDone (nres s) \<and> g_u8RisingStepCount (nr s) \<noteq> 0
     \<and> int (unat (g_overload_mmHg (nc s))) - 5 < sint (risingResult (nres s))
     \<and> 2 \<le> u8_pressue_over_range_cnt (nr s) \<and> u8_pressue_over_range_cnt (nr s) < 255
     \<and> \<not> IsNIBPOverLoad fp (g_overload_mmHg (nc s) - 5) s"

lemma pump_started:
  "g_NIBP_PWM_Status (nr (NIBP_startPumpCtrl s)) = ENABLE"
  "g_nibp_algo_state (nr (NIBP_startPumpCtrl s)) = NIBP_ALGO_RISING"
  "g_NIBP_Status (nr (NIBP_startPumpCtrl s)) = g_NIBP_Status (nr s)"
  "pin_level ''TIMER_ENABLE'' ''TIMER_DISABLE'' TIMER6_MASK (trace (NIBP_startPumpCtrl s)) = Some True"
  by (simp_all add: NIBP_startPumpCtrl_def nibp_algorithm_start_def NIBP_SetPWM_def alg_call_def emit_def wr_def Let_def split_beta)

lemma IsNIBPOverLoad_limits:
  assumes "limits t = limits s"
  shows "IsNIBPOverLoad fp v t = IsNIBPOverLoad fp v s"
  using assms by (simp add: IsNIBPOverLoad_def NIBP_mmHg2ADC_def limits_def Let_def)


lemma SampleOneTimeByDebug_started:
  "g_NIBP_Status (nr (NIBP_SampleOneTimeByDebug fp s)) = ENABLE"
  "g_NIBP_PWM_Status (nr (NIBP_SampleOneTimeByDebug fp s)) = ENABLE"
  "g_nibp_algo_state (nr (NIBP_SampleOneTimeByDebug fp s)) = NIBP_ALGO_RISING"
  "pin_level ''TIMER_ENABLE'' ''TIMER_DISABLE'' TIMER6_MASK (trace (NIBP_SampleOneTimeByDebug fp s)) = Some True"
  "\<not> g_isRisingStateRele (nr (NIBP_SampleOneTimeByDebug fp s))"
  "\<not> isRisingDone (nres (NIBP_SampleOneTimeByDebug fp s))"
  "u8_pressue_over_range_cnt (nr (NIBP_SampleOneTimeByDebug fp s)) = 0"
  by (simp_all add: NIBP_SampleOneTimeByDebug_def pump_started Let_def) 
     (simp_all add: NIBP_startPumpCtrl_def nibp_algorithm_start_def NIBP_SetPWM_def first_target_def Let_def split_beta)

text \<open>C26: the stop for an over-range target does not stop anything.  When the algorithm asks for a target beyond
  the limit for the third time while the pressure is still below it, \<open>NIBP_RisingCtrl\<close> forces the stop (pump off, valves
  open, measurement disabled) and then, in the same pass, finds the pressure below its target and calls
  \<open>nibp_debug_start_pwm\<close>, which takes the disabled measurement for one still to be started: the pass ends with the pump
  running, the measurement enabled and inflating, and both the over-range and the overpressure count back at 0.\<close>

theorem over_range_restarts:
  assumes "over_range_hold fp s"
  defines "t \<equiv> NIBP_RisingCtrl fp s"
  shows "(\<exists>u. t = nibp_debug_start_pwm fp u \<and> g_NIBP_Status (nr u) = DISABLE \<and> deflated (trace u))
    \<and> pin_level ''TIMER_ENABLE'' ''TIMER_DISABLE'' TIMER6_MASK (trace t) = Some True
    \<and> g_NIBP_Status (nr t) = ENABLE \<and> g_nibp_algo_state (nr t) = NIBP_ALGO_RISING
    \<and> u8_pressue_over_range_cnt (nr t) = 0 \<and> g_overload_count (nr t) = 0"
proof -
  note a = assms(1) [unfolded over_range_hold_def]
  define z where "z = s\<lparr>nr := (nr s)\<lparr>u8SlowReleRunCount := 0, u8_pressue_over_range_cnt := u8_pressue_over_range_cnt (nr s) + 1,
      g_Rising_mmHgCur := g_overload_mmHg (nc s) - 5\<rparr>\<rparr>"
  define f where "f = NIBP_AlarmUpload OVER_MEASURE_PRESSURE (NIBP_ForceStop z)"
  define u where "u = f\<lparr>nr := store_step (nr f)\<rparr>"
  have "u8_pressue_over_range_cnt (nr s) + 1 > 2" using a by (auto simp: word_less_nat_alt word_le_nat_alt unat_word_ariths)
  then have n: "rising_new_target (s\<lparr>nr := (nr s)\<lparr>u8SlowReleRunCount := 0\<rparr>\<rparr>) = f"
    using a by (simp add: rising_new_target_def f_def z_def Let_def)
  have g: "g_Rising_mmHgCur (nr f) = g_overload_mmHg (nc s) - 5" "limits f = limits s" "g_NIBP_Status (nr f) = DISABLE"
    "deflated (trace f)"
    by (simp_all add: f_def ForceStop_deflates) (simp_all add: z_def NIBP_ForceStop_def NIBP_SetPWM_def NIBP_StartStopRespond_def Let_def)
  have w: "rising_wants_next (s\<lparr>nr := (nr s)\<lparr>u8SlowReleRunCount := 0\<rparr>\<rparr>)"
    using a by (simp add: rising_wants_next_def)
  have "rising_next fp s = nibp_debug_start_pwm fp u"
    using a w g IsNIBPOverLoad_limits [OF g(2), of fp] by (simp add: rising_next_def n u_def Let_def)
  also have v: "nibp_debug_start_pwm fp u = (NIBP_SampleOneTimeByDebug fp u)
      \<lparr>nr := (nr (NIBP_SampleOneTimeByDebug fp u))\<lparr>g_bIsPumpStop := False\<rparr>\<rparr>"
    using g(3) by (simp add: nibp_debug_start_pwm_def u_def store_step_def Let_def)
  finally have r: "rising_next fp s = \<dots>" .
  have "t = rising_next fp s"
    using a unfolding t_def NIBP_RisingCtrl_def r
    by (simp add: Let_def r rising_release_def rising_done_def SampleOneTimeByDebug_started)
  then have t: "t = nibp_debug_start_pwm fp u" using r v by simp
  have ug: "g_NIBP_Status (nr u) = DISABLE" "deflated (trace u)" using g by (simp_all add: u_def store_step_def)
  have "\<exists>u. t = nibp_debug_start_pwm fp u \<and> g_NIBP_Status (nr u) = DISABLE \<and> deflated (trace u)" using t ug by blast
  moreover have "trace t = trace (NIBP_SampleOneTimeByDebug fp u)" "nr t = (nr (NIBP_SampleOneTimeByDebug fp u))\<lparr>g_bIsPumpStop := False\<rparr>"
    using t v by simp_all
  ultimately show ?thesis by (simp add: SampleOneTimeByDebug_started)
qed


lemma over_range_restarts_witness:
  "\<exists>s :: nibp_sys. over_range_hold exact_fpu s \<and> g_NIBP_Status (nr (NIBP_RisingCtrl exact_fpu s)) = ENABLE"
proof -
  obtain s0 :: nibp_sys where True by simp
  define s where "s = s0\<lparr>nd := (nd s0)\<lparr>adc_val := 0\<rparr>, nc := (nc s0)\<lparr>g_overload_mmHg := 150, g_SlowReleHoldTimeIndex := 0\<rparr>,
      nres := (nres s0)\<lparr>risingResult := 160, isRisingDone := False\<rparr>, tick := (tick s0)\<lparr>sCountDownTimer := [\<lparr>m_IsActive = True, m_ulTimeoutCounter = 0\<rparr>]\<rparr>,
      nr := (nr s0)\<lparr>g_nibp_algo_state := NIBP_ALGO_RISING, g_NIBP_PWM_Status := DISABLE, g_bIsPumpStop := True,
        g_isRisingStateRele := False, g_Rising_mmHgCur := 145, g_u8RisingStepCount := 3, u8_pressue_over_range_cnt := 2\<rparr>\<rparr>"
  have "over_range_hold exact_fpu s"
    by (simp add: over_range_hold_def s_def IsNIBPOverLoad_def IsTimedout_def MAX_NUM_COUNTDOWN_TIMERS_def)
  then show ?thesis using over_range_restarts [of exact_fpu s] by blast
qed

end
