(* ===== verification/AlgLib.thy ===== *)
theory AlgLib
  imports Nibp "HOL-Library.Signed_Division" "HOL-Library.Multiset"
begin

text \<open>
  \<open>AllInOneDSP/src/AlgorithmLib/AlgLib.c\<close> and \<open>NIBPAlgorithm/queue.c\<close>: the array routines and the
  queue of pulse steps the measurement algorithms share.  A C \<open>int\<close> is an \<open>int\<close> brought back to 32 bits
  by \<open>i32\<close> after every operation that can leave them, a \<open>short\<close> by \<open>i16\<close>; an array is a list, and a
  routine that is given a length reads and writes the elements below it (outside the list C leaves the
  access undefined).  \<open>float\<close> and \<open>double\<close> are the same 32-bit format here (\<open>-double-size-32\<close>): every
  operation is rounded by \<open>fl fp\<close>, and \<open>cvs fp\<close> is the conversion to \<open>int\<close>.
\<close>

section \<open>C arithmetic\<close>

definition i32 :: "int \<Rightarrow> int" where "i32 x = signed_take_bit 31 x"
definition i16 :: "int \<Rightarrow> int" where "i16 x = signed_take_bit 15 x"

definition in32 :: "int \<Rightarrow> bool" where "in32 x \<longleftrightarrow> - 2147483648 \<le> x \<and> x < 2147483648"

lemma i32_id [simp]: "in32 x \<Longrightarrow> i32 x = x"
  by (simp add: i32_def in32_def signed_take_bit_int_eq_self)

lemma in32_i32 [simp]: "in32 (i32 x)"
  using signed_take_bit_int_greater_eq_minus_exp [of 31 x] signed_take_bit_int_less_exp [of 31 x]
  by (simp add: in32_def i32_def)

definition my_max :: "int \<Rightarrow> int \<Rightarrow> int" where "my_max a b = (if a > b then a else b)"
definition my_min :: "int \<Rightarrow> int \<Rightarrow> int" where "my_min a b = (if a < b then a else b)"
definition my_abs :: "int \<Rightarrow> int" where "my_abs a = (if a > 0 then a else i32 (0 - a))"

lemma my_max_eq: "my_max a b = max a b" and my_min_eq: "my_min a b = min a b"
  by (auto simp: my_max_def my_min_def)

text \<open>\<open>my_abs\<close> is the absolute value except on the smallest \<open>int\<close>, which it returns unchanged.\<close>

lemma my_abs_eq: "- 2147483648 < a \<Longrightarrow> a < 2147483648 \<Longrightarrow> my_abs a = \<bar>a\<bar>"
  by (auto simp: my_abs_def in32_def)

lemma my_abs_min: "my_abs (- 2147483648) = - 2147483648"
  by code_simp

record alg_fpu = fpu +
  cvs :: "real \<Rightarrow> int"

definition trunc :: "real \<Rightarrow> int" where "trunc r = (if r < 0 then \<lceil>r\<rceil> else \<lfloor>r\<rfloor>)"

definition exact_alg_fpu :: alg_fpu where
  "exact_alg_fpu = fpu.extend exact_fpu \<lparr>cvs = trunc\<rparr>"

lemma exact_alg_fpu_sel [simp]: "fl exact_alg_fpu = (\<lambda>r. r)" "cvs exact_alg_fpu = trunc"
  by (simp_all add: exact_alg_fpu_def exact_fpu_def fpu.defs)

section \<open>Element by element\<close>

definition GetDirection :: "int \<Rightarrow> int" where
  "GetDirection data = (if data > 0 then 1 else if data = 0 then 0 else - 1)"

lemma GetDirection_sgn: "GetDirection x = sgn x"
  by (simp add: GetDirection_def sgn_if)

text \<open>A loop \<open>for (i = 0; i < n; i++) a[i] = f(i, a)\<close>, which may read the array it writes.\<close>

definition upd_loop :: "nat \<Rightarrow> (nat \<Rightarrow> 'a list \<Rightarrow> 'a) \<Rightarrow> 'a list \<Rightarrow> 'a list" where
  "upd_loop n f a = fold (\<lambda>i a. a[i := f i a]) [0..<n] a"

lemma upd_loop_0 [simp]: "upd_loop 0 f a = a"
  and upd_loop_Suc: "upd_loop (Suc n) f a = (let a = upd_loop n f a in a[n := f n a])"
  by (simp_all add: upd_loop_def Let_def)

lemma length_upd_loop [simp]: "length (upd_loop n f a) = length a"
  by (induction n) (simp_all add: upd_loop_Suc Let_def)

text \<open>When what the loop reads at \<open>i\<close> is at \<open>i\<close> or above, the reads see the array as it was.\<close>

lemma nth_upd_loop:
  assumes f: "\<And>i b. i < n \<Longrightarrow> i < length a \<Longrightarrow> length b = length a \<Longrightarrow> (\<And>j. i \<le> j \<Longrightarrow> j < length a \<Longrightarrow> b ! j = a ! j) \<Longrightarrow> f i b = f i a"
    and "j < length a"
  shows "upd_loop n f a ! j = (if j < n then f j a else a ! j)"
  using assms
proof (induction n arbitrary: j)
  case (Suc n)
  have *: "upd_loop n f a ! j = (if j < n then f j a else a ! j)" if "j < length a" for j
    using Suc.IH [of j] Suc.prems(1) that by (meson less_SucI)
  have "f n (upd_loop n f a) = f n a" if "n < length a"
    by (rule Suc.prems(1)) (auto simp: * that)
  then show ?case using Suc.prems(2)
    by (auto simp: upd_loop_Suc Let_def nth_list_update * less_Suc_eq)
qed simp

definition Diff_N :: "int list \<Rightarrow> nat \<Rightarrow> int list \<Rightarrow> int list" where
  "Diff_N pDin nLen pDout = upd_loop (nLen - 1) (\<lambda>i _. i32 (pDin ! (i + 1) - pDin ! i)) pDout"

text \<open>\<open>Diff_N(a, n, a)\<close>: input and output are one array.\<close>

definition Diff_N_inplace :: "int list \<Rightarrow> nat \<Rightarrow> int list" where
  "Diff_N_inplace a nLen = upd_loop (nLen - 1) (\<lambda>i a. i32 (a ! (i + 1) - a ! i)) a"

lemma length_Diff_N [simp]: "length (Diff_N a n b) = length b" "length (Diff_N_inplace a n) = length a"
  by (simp_all add: Diff_N_def Diff_N_inplace_def)

lemma nth_Diff_N:
  "j < length b \<Longrightarrow> Diff_N a n b ! j = (if j < n - 1 then i32 (a ! (j + 1) - a ! j) else b ! j)"
  by (simp add: Diff_N_def nth_upd_loop)

lemma Diff_N_alias: "n \<le> length a \<Longrightarrow> Diff_N_inplace a n = Diff_N a n a"
  by (rule nth_equalityI) (auto simp: Diff_N_def Diff_N_inplace_def nth_upd_loop)

definition Diff_F :: "alg_fpu \<Rightarrow> real list \<Rightarrow> nat \<Rightarrow> real list \<Rightarrow> real list" where
  "Diff_F fp pDin nLen pDout = upd_loop (nLen - 1) (\<lambda>i _. fl fp (pDin ! (i + 1) - pDin ! i)) pDout"

definition Abs_N :: "int list \<Rightarrow> nat \<Rightarrow> int list" where
  "Abs_N pt nLen = upd_loop nLen (\<lambda>i pt. my_abs (pt ! i)) pt"

lemma nth_Abs_N: "j < length a \<Longrightarrow> Abs_N a n ! j = (if j < n then my_abs (a ! j) else a ! j)"
  unfolding Abs_N_def by (subst nth_upd_loop) auto

definition ArrMulArr :: "int list \<Rightarrow> int list \<Rightarrow> nat \<Rightarrow> int list \<Rightarrow> int list" where
  "ArrMulArr din1 din2 len dout = upd_loop len (\<lambda>i _. i32 (din1 ! i * din2 ! i)) dout"

definition ArrMulData :: "int list \<Rightarrow> int \<Rightarrow> nat \<Rightarrow> int list \<Rightarrow> int list" where
  "ArrMulData din1 din2 len dout = upd_loop len (\<lambda>i _. i32 (din1 ! i * din2)) dout"

section \<open>Extrema\<close>

text \<open>The index scans keep the first element that is better than all before it.\<close>

definition Max_Index_N :: "int list \<Rightarrow> nat \<Rightarrow> int \<times> nat" where
  "Max_Index_N pt nLen =
     fold (\<lambda>i (mx, index). if pt ! i > mx then (pt ! i, i) else (mx, index)) [1..<nLen] (pt ! 0, 0)"

definition Min_Index_N :: "int list \<Rightarrow> nat \<Rightarrow> int \<times> nat" where
  "Min_Index_N pt nLen =
     fold (\<lambda>i (mn, index). if pt ! i < mn then (pt ! i, i) else (mn, index)) [1..<nLen] (pt ! 0, 0)"

definition Max_N :: "int list \<Rightarrow> nat \<Rightarrow> int" where
  "Max_N pt nLen = fold (\<lambda>i mx. if pt ! i > mx then pt ! i else mx) [1..<nLen] (pt ! 0)"

definition Min_N :: "int list \<Rightarrow> nat \<Rightarrow> int" where
  "Min_N pt nLen = fold (\<lambda>i mn. if pt ! i < mn then pt ! i else mn) [1..<nLen] (pt ! 0)"

definition Max_F :: "real list \<Rightarrow> nat \<Rightarrow> real" where
  "Max_F pt nLen = fold (\<lambda>i mx. if pt ! i > mx then pt ! i else mx) [1..<nLen] (pt ! 0)"

definition Min_F :: "real list \<Rightarrow> nat \<Rightarrow> real" where
  "Min_F pt nLen = fold (\<lambda>i mn. if pt ! i < mn then pt ! i else mn) [1..<nLen] (pt ! 0)"

definition Max_Abs_N :: "int list \<Rightarrow> nat \<Rightarrow> int" where
  "Max_Abs_N pt nLen = fold (\<lambda>i mx. if my_abs (pt ! i) > mx then my_abs (pt ! i) else mx) [1..<nLen]
     (my_abs (pt ! 0))"

text \<open>\<open>pIndex\<close> may be null here.  The scan starts from \<open>pt[0]\<close> itself, not from its absolute value.\<close>

definition Max_Index_Abs_N :: "int list \<Rightarrow> nat \<Rightarrow> bool \<Rightarrow> int \<times> nat option" where
  "Max_Index_Abs_N pt nLen pIndex =
     (let (mx, index) = fold (\<lambda>i (mx, index). let tmp = my_abs (pt ! i) in
            if tmp > mx then (tmp, i) else (mx, index)) [1..<nLen] (pt ! 0, 0)
      in (mx, if pIndex then Some index else None))"

text \<open>All of them are one scan, up to the order and the key: the client lemmas are proved once from
  the laws of a strict linear order.\<close>

definition scan :: "('a \<Rightarrow> 'a \<Rightarrow> bool) \<Rightarrow> (nat \<Rightarrow> 'a) \<Rightarrow> nat \<Rightarrow> 'a \<times> nat" where
  "scan better f n = fold (\<lambda>i (m, index). if better (f i) m then (f i, i) else (m, index)) [1..<n] (f 0, 0)"

lemma scan_1: "n \<le> 1 \<Longrightarrow> scan better f n = (f 0, 0)"
  by (simp add: scan_def)

lemma scan_Suc:
  "0 < n \<Longrightarrow> scan better f (Suc n) =
     (case scan better f n of (m, index) \<Rightarrow> if better (f n) m then (f n, n) else (m, index))"
  by (simp add: scan_def)

lemma fold_fst_scan:
  "fold (\<lambda>i m. if better (f i) m then f i else m) [1..<n] (f 0) = fst (scan better f n)"
proof (induction n)
  case (Suc n)
  then show ?case
    by (cases "n = 0") (auto simp: scan_1 scan_Suc split: prod.split)
qed (simp add: scan_1)

locale better_than =
  fixes better :: "'a \<Rightarrow> 'a \<Rightarrow> bool"
  assumes irrefl: "\<not> better x x"
    and trans: "better x y \<Longrightarrow> better y z \<Longrightarrow> better x z"
    and total_on: "x \<noteq> y \<Longrightarrow> better x y \<or> better y x"
begin

lemma not_better: "\<not> better x y \<Longrightarrow> better x z \<or> x = z \<Longrightarrow> \<not> better z y"
  using trans by blast

lemma scan_best:
  "0 < n \<Longrightarrow> fst (scan better f n) = f (snd (scan better f n)) \<and> snd (scan better f n) < n
     \<and> (\<forall>j < n. \<not> better (f j) (f (snd (scan better f n))))
     \<and> (\<forall>j < snd (scan better f n). better (f (snd (scan better f n))) (f j))"
proof (induction n)
  case (Suc n)
  show ?case
  proof (cases "n = 0")
    case True
    then show ?thesis by (simp add: scan_1 irrefl)
  next
    case False
    obtain m k where mk: "scan better f n = (m, k)" by fastforce
    have IH: "m = f k" "k < n" "\<And>j. j < n \<Longrightarrow> \<not> better (f j) (f k)" "\<And>j. j < k \<Longrightarrow> better (f k) (f j)"
      using Suc.IH False mk by auto
    show ?thesis
    proof (cases "better (f n) m")
      case True
      have "better (f n) (f j)" if "j < n" for j
        using True IH(1) IH(3) [OF that] trans total_on by metis
      then show ?thesis using True False mk
        by (auto simp: scan_Suc less_Suc_eq irrefl dest: trans [of "f n"] simp flip: IH(1))
           (metis irrefl trans)
    next
      case nb: False
      then show ?thesis using False mk IH by (auto simp: scan_Suc less_Suc_eq)
    qed
  qed
qed simp

end

interpretation greatest: better_than "(>) :: int \<Rightarrow> int \<Rightarrow> bool"
  by unfold_locales auto

interpretation least: better_than "(<) :: int \<Rightarrow> int \<Rightarrow> bool"
  by unfold_locales auto

interpretation greatest_F: better_than "(>) :: real \<Rightarrow> real \<Rightarrow> bool"
  by unfold_locales auto

interpretation least_F: better_than "(<) :: real \<Rightarrow> real \<Rightarrow> bool"
  by unfold_locales auto

lemma index_scan: "Max_Index_N pt n = scan (>) ((!) pt) n" "Min_Index_N pt n = scan (<) ((!) pt) n"
  by (simp_all add: Max_Index_N_def Min_Index_N_def scan_def)

lemma value_scan:
  "Max_N pt n = fst (scan (>) ((!) pt) n)" "Min_N pt n = fst (scan (<) ((!) pt) n)"
  "Max_F qt n = fst (scan (>) ((!) qt) n)" "Min_F qt n = fst (scan (<) ((!) qt) n)"
  "Max_Abs_N pt n = fst (scan (>) (\<lambda>i. my_abs (pt ! i)) n)"
  by (simp_all add: Max_N_def Min_N_def Max_F_def Min_F_def Max_Abs_N_def flip: fold_fst_scan)

lemmas extrema_scan = index_scan value_scan

lemma Max_Index_N_best:
  assumes "0 < n" and "Max_Index_N pt n = (mx, k)"
  shows "mx = pt ! k" "k < n" "j < n \<Longrightarrow> pt ! j \<le> pt ! k" "j < k \<Longrightarrow> pt ! j < pt ! k"
  using greatest.scan_best [OF assms(1), of "(!) pt"] assms(2)
  by (auto simp: extrema_scan not_less)

lemma Min_Index_N_best:
  assumes "0 < n" and "Min_Index_N pt n = (mn, k)"
  shows "mn = pt ! k" "k < n" "j < n \<Longrightarrow> pt ! k \<le> pt ! j" "j < k \<Longrightarrow> pt ! k < pt ! j"
  using least.scan_best [OF assms(1), of "(!) pt"] assms(2)
  by (auto simp: extrema_scan not_less)

lemma Max_N_ge: "j < n \<Longrightarrow> pt ! j \<le> Max_N pt n"
  using greatest.scan_best [of n "(!) pt"] by (auto simp: extrema_scan not_less)

lemma Max_Abs_N_ge: "j < n \<Longrightarrow> my_abs (pt ! j) \<le> Max_Abs_N pt n"
  using greatest.scan_best [of n "\<lambda>i. my_abs (pt ! i)"] by (auto simp: extrema_scan not_less)

section \<open>Sums, means and scaling\<close>

definition Sum_N :: "int list \<Rightarrow> nat \<Rightarrow> int" where
  "Sum_N pt nLen = fold (\<lambda>i sum. i32 (sum + pt ! i)) [0..<nLen] 0"

definition Mean_F :: "alg_fpu \<Rightarrow> real list \<Rightarrow> nat \<Rightarrow> real" where
  "Mean_F fp pDin nLen =
     fl fp (fold (\<lambda>i nMean. fl fp (nMean + pDin ! i)) [0..<nLen] 0 / fl fp (real nLen))"

definition Fix :: "alg_fpu \<Rightarrow> real \<Rightarrow> real" where
  "Fix fp fIn = fl fp (real_of_int (cvs fp fIn))"

definition Mean_N :: "alg_fpu \<Rightarrow> int list \<Rightarrow> int \<Rightarrow> int" where
  "Mean_N fp pDin nLen =
     (let nMean = fold (\<lambda>i nMean. fl fp (nMean + fl fp (real_of_int (pDin ! i)))) [0..<nat nLen] 0
      in cvs fp (fl fp (fl fp (nMean / fl fp (real_of_int nLen)) + 0.5)))"

definition Mean_ABS_N :: "alg_fpu \<Rightarrow> int list \<Rightarrow> nat \<Rightarrow> int" where
  "Mean_ABS_N fp pDin nLen =
     (let nMean = fold (\<lambda>i nMean. fl fp (nMean + fl fp (real_of_int (my_abs (pDin ! i))))) [0..<nLen] 0
      in cvs fp (fl fp (fl fp (nMean / fl fp (real nLen)) + 0.5)))"

definition GetDelta :: "alg_fpu \<Rightarrow> int list \<Rightarrow> nat \<Rightarrow> int list \<Rightarrow> int list" where
  "GetDelta fp din len dout =
     (if len > 0 then let mean = Mean_N fp din (int len) in upd_loop len (\<lambda>i _. i32 (din ! i - mean)) dout
      else dout)"

definition GetDeltaAbs :: "alg_fpu \<Rightarrow> int list \<Rightarrow> nat \<Rightarrow> int list \<Rightarrow> int list" where
  "GetDeltaAbs fp din len dout =
     (if len > 0 then let mean = Mean_N fp din (int len) in upd_loop len (\<lambda>i _. my_abs (i32 (din ! i - mean))) dout
      else dout)"

text \<open>\<open>Zoom\<close> writes \<open>din\<close>; its parameter \<open>dout\<close> is unused.\<close>

definition Zoom :: "int list \<Rightarrow> nat \<Rightarrow> int \<Rightarrow> int list" where
  "Zoom din len mx =
     (let MaxDin = Max_Abs_N din len
      in if MaxDin > 0 then upd_loop len (\<lambda>i din. i32 (din ! i * mx) sdiv MaxDin) din else din)"

text \<open>The mean of an array whose elements are all \<open>v\<close>, computed exactly: rounding by adding a half
  and truncating is right from zero up and one too high below.\<close>

lemma fold_sum_list: "fold (\<lambda>i m. m + g i) [0..<n] (0::real) = (\<Sum>i<n. g i)"
  by (induction n) simp_all

lemma Mean_N_exact: "Mean_N exact_alg_fpu a (int n) = trunc ((\<Sum>i<n. real_of_int (a ! i)) / real n + 1 / 2)"
  by (simp add: Mean_N_def fold_sum_list)

lemma Mean_N_negative_one: "Mean_N exact_alg_fpu [- 1, - 1] 2 = 0"
  using Mean_N_exact [of "[- 1, - 1]" 2] by (simp add: trunc_def numeral_2_eq_2 ceiling_eq_iff)

section \<open>Sorting and the median\<close>

definition IntCmp :: "int \<Rightarrow> int \<Rightarrow> int" where "IntCmp a b = i32 (a - b)"

text \<open>The comparison is the order of the integers while their difference fits an \<open>int\<close>, as it does
  for all pressures; \<open>qsort(a, n, sizeof(int), IntCmp)\<close> then sorts.\<close>

lemma IntCmp_order: "in32 (a - b) \<Longrightarrow> sgn (IntCmp a b) = sgn (a - b)"
  by (simp add: IntCmp_def)

definition qsort_N :: "int list \<Rightarrow> nat \<Rightarrow> int list" where
  "qsort_N a n = sort (take n a) @ drop n a"

definition rank :: "int list \<Rightarrow> nat \<Rightarrow> int \<Rightarrow> nat" where
  "rank Data DataLen x = fold (\<lambda>jj IndexNow. if Data ! jj < x then IndexNow + 1 else IndexNow) [0..<DataLen] 0"

text \<open>The outer loop over \<open>ii\<close> with the early return; \<open>k\<close> is \<open>(int)(DataLen*cut)\<close>.\<close>

fun GetMedian_loop :: "int list \<Rightarrow> nat \<Rightarrow> int \<Rightarrow> int \<Rightarrow> int \<Rightarrow> int \<Rightarrow> int \<Rightarrow> nat list \<Rightarrow> int" where
  "GetMedian_loop Data DataLen k DataB IndexB DataS IndexS [] = DataS"
| "GetMedian_loop Data DataLen k DataB IndexB DataS IndexS (ii # iis) =
     (if IndexB = - 1 \<or> IndexS = - 1 \<or> (Data ! ii < DataB \<and> Data ! ii > DataS)
      then let IndexNow = int (rank Data DataLen (Data ! ii))
           in if IndexNow = k then Data ! ii
              else if (IndexNow < IndexB \<or> IndexB = - 1) \<and> IndexNow > k
              then GetMedian_loop Data DataLen k (Data ! ii) IndexNow DataS IndexS iis
              else if (IndexNow > IndexS \<or> IndexS = - 1) \<and> IndexNow < k
              then GetMedian_loop Data DataLen k DataB IndexB (Data ! ii) IndexNow iis
              else GetMedian_loop Data DataLen k DataB IndexB DataS IndexS iis
      else GetMedian_loop Data DataLen k DataB IndexB DataS IndexS iis)"

definition GetMedian_N :: "alg_fpu \<Rightarrow> int list \<Rightarrow> nat \<Rightarrow> real \<Rightarrow> int" where
  "GetMedian_N fp Data DataLen c =
     GetMedian_loop Data DataLen (cvs fp (fl fp (fl fp (real DataLen) * c))) 0 (- 1) 0 (- 1) [0..<DataLen]"

lemma rank_filter: "n \<le> length D \<Longrightarrow> rank D n x = length (filter (\<lambda>y. y < x) (take n D))"
  by (induction n) (auto simp: rank_def take_Suc_conv_app_nth)

lemma rank_sort: "rank D (length D) x = length (filter (\<lambda>y. y < x) (sort D))"
  by (simp add: rank_filter filter_sort)

lemma rank_card: "rank D (length D) x = card {i. i < length D \<and> D ! i < x}"
  by (simp add: rank_filter length_filter_conv_card)

lemma rank_mono: "x \<le> y \<Longrightarrow> rank D (length D) x \<le> rank D (length D) y"
  unfolding rank_card by (rule card_mono) auto

lemma rank_strict: "x \<in> set D \<Longrightarrow> x < y \<Longrightarrow> rank D (length D) x < rank D (length D) y"
  unfolding rank_card by (rule psubset_card_mono) (auto simp: in_set_conv_nth psubset_eq)

lemma rank_nth_sort:
  assumes "k < length D"
  shows "rank D (length D) (sort D ! k) \<le> k" and "sort D ! k < x \<Longrightarrow> k < rank D (length D) x"
proof -
  let ?S = "sort D"
  have card: "rank D (length D) y = card {i. i < length ?S \<and> ?S ! i < y}" for y
    by (simp add: rank_sort length_filter_conv_card)
  have "{i. i < length ?S \<and> ?S ! i < ?S ! k} \<subseteq> {..<k}"
    by (auto simp: not_less dest: sorted_nth_mono [OF sorted_sort] leD)
       (metis length_sort linorder_not_less sorted_nth_mono sorted_sort)
  then show "rank D (length D) (?S ! k) \<le> k"
    unfolding card by (metis card_lessThan card_mono finite_lessThan)
  assume x: "?S ! k < x"
  have "{..k} \<subseteq> {i. i < length ?S \<and> ?S ! i < x}"
    using x assms by (auto intro: le_less_trans [OF sorted_nth_mono [OF sorted_sort]])
  then have "card {..k} \<le> card {i. i < length ?S \<and> ?S ! i < x}" by (intro card_mono) auto
  then show "k < rank D (length D) x" by (simp add: card)
qed

text \<open>What the loop knows after the elements of \<open>A\<close>: the two bracketing elements and that the lower one
  is the greatest seen of those that rank below \<open>k\<close>.\<close>

definition median_inv :: "int list \<Rightarrow> nat \<Rightarrow> int set \<Rightarrow> int \<Rightarrow> int \<Rightarrow> int \<Rightarrow> int \<Rightarrow> bool" where
  "median_inv D k A DataB IndexB DataS IndexS \<longleftrightarrow>
     (let rk = \<lambda>x. rank D (length D) x in
       (\<forall>x \<in> A. rk x \<noteq> k \<and> (rk x < k \<longrightarrow> IndexS \<noteq> - 1 \<and> x \<le> DataS))
     \<and> (IndexS \<noteq> - 1 \<longrightarrow> DataS \<in> set D \<and> IndexS = int (rk DataS) \<and> rk DataS < k)
     \<and> (IndexB \<noteq> - 1 \<longrightarrow> DataB \<in> set D \<and> IndexB = int (rk DataB) \<and> k < rk DataB))"

lemma GetMedian_loop_sort:
  assumes "k < length D" and "A \<union> set (List.map ((!) D) iis) = set D" and "\<forall>i \<in> set iis. i < length D"
    and "median_inv D k A DataB IndexB DataS IndexS"
  shows "GetMedian_loop D (length D) (int k) DataB IndexB DataS IndexS iis = sort D ! k"
  using assms(2-)
proof (induction iis arbitrary: A DataB IndexB DataS IndexS)
  case Nil
  let ?m = "sort D ! k"
  have m: "?m \<in> A" using Nil.prems(1) assms(1) by (metis Un_empty_right length_sort list.set(1) list.simps(8) nth_mem set_sort)
  then have "rank D (length D) ?m < k"
    using Nil.prems(3) rank_nth_sort(1) [OF assms(1)] by (auto simp: median_inv_def Let_def le_less)
  with m Nil.prems(3) have "?m \<le> DataS" "rank D (length D) DataS < k" by (auto simp: median_inv_def Let_def)
  moreover have "\<not> ?m < DataS" using rank_nth_sort(2) [OF assms(1)] calculation(2) by fastforce
  ultimately show ?case by simp
next
  case (Cons i iis)
  let ?x = "D ! i"
  have x: "?x \<in> set D" using Cons.prems(2) by simp
  have A: "insert ?x A \<union> set (List.map ((!) D) iis) = set D" using Cons.prems(1) by auto
  note IH = Cons.IH [OF A]
  have lt: "\<forall>i \<in> set iis. i < length D" using Cons.prems(2) by simp
  show ?case
  proof (cases "rank D (length D) ?x = k")
    case True
    have "?x = sort D ! k"
      using True rank_nth_sort [OF assms(1)] rank_strict [OF x, of "sort D ! k"]
      by (metis linorder_neqE_linordered_idom order_less_irrefl leD)
    moreover have "IndexB = - 1 \<or> IndexS = - 1 \<or> (?x < DataB \<and> ?x > DataS)"
      using Cons.prems(3) True rank_mono [of DataB ?x D] rank_mono [of ?x DataS D]
      by (auto simp: median_inv_def Let_def) (metis linorder_not_le)+
    ultimately show ?thesis using True by simp
  next
    case False
    show ?thesis
      using Cons.prems(3) False x rank_strict [of DataS D ?x] rank_mono [of DataB ?x D] rank_mono [of ?x DataS D]
      by (auto simp: Let_def intro!: IH lt)
         (auto simp: median_inv_def Let_def, (metis linorder_not_le order_trans order_less_imp_le)+)
  qed
qed

lemma GetMedian_loop_nth: "k < length D \<Longrightarrow> GetMedian_loop D (length D) (int k) 0 (- 1) 0 (- 1) [0..<length D] = sort D ! k"
  by (rule GetMedian_loop_sort [where A = "{}"]) (auto simp: median_inv_def map_nth)

end
