(* ===== verification/AlgQueue.thy ===== *)
theory AlgQueue
  imports AlgLib
begin

text \<open>
  \<open>NIBPAlgorithm/queue.c\<close>: the queue of pulse steps.  \<open>pSteep\<close> is the array of \<open>QUEUE_S_LEN\<close> units;
  the queue proper is its first \<open>nLen\<close> elements (\<open>steps\<close>).  \<open>nLen\<close>, a \<open>short\<close> that is never negative,
  is a \<open>nat\<close>.  The routines move overlapping blocks with \<open>memcpy\<close>, which leaves the order of the copy
  open: it is the parameter \<open>up\<close>, ascending or descending.
\<close>

section \<open>Data\<close>

definition QUEUE_S_LEN :: nat where "QUEUE_S_LEN = 200"

record STEEP_UNIT =
  Xstart :: int
  Ystart :: int
  Xend :: int
  Yend :: int
  Mode :: int
  eva :: int

record QUEUE_S =
  pSteep :: "STEEP_UNIT list"
  q_nLen :: nat

definition steps :: "QUEUE_S \<Rightarrow> STEEP_UNIT list" where
  "steps q = take (q_nLen q) (pSteep q)"

definition queue_ok :: "QUEUE_S \<Rightarrow> bool" where
  "queue_ok q \<longleftrightarrow> length (pSteep q) = QUEUE_S_LEN \<and> q_nLen q \<le> QUEUE_S_LEN"

lemma length_steps [simp]: "queue_ok q \<Longrightarrow> length (steps q) = q_nLen q"
  by (simp add: steps_def queue_ok_def)

definition set_steep :: "nat \<Rightarrow> STEEP_UNIT \<Rightarrow> QUEUE_S \<Rightarrow> QUEUE_S" where
  "set_steep i u q = q\<lparr>pSteep := (pSteep q)[i := u]\<rparr>"

text \<open>\<open>memcpy(&a[d], &a[s], n*sizeof(STEEP_UNIT))\<close> within one array, unit by unit.\<close>

definition memcpy_units :: "bool \<Rightarrow> nat \<Rightarrow> nat \<Rightarrow> nat \<Rightarrow> 'a list \<Rightarrow> 'a list" where
  "memcpy_units up d s n a = fold (\<lambda>i a. a[d + i := a ! (s + i)]) (if up then [0..<n] else rev [0..<n]) a"

lemma length_memcpy_units [simp]: "length (memcpy_units up d s n a) = length a"
proof -
  have "length (fold (\<lambda>i a. a[d + i := a ! (s + i)]) is a) = length a" for "is"
    by (induction "is" arbitrary: a) simp_all
  then show ?thesis by (simp add: memcpy_units_def)
qed

lemma nth_memcpy_down:
  "d \<le> s \<Longrightarrow> s + n \<le> length a \<Longrightarrow> j < length a \<Longrightarrow>
   memcpy_units True d s n a ! j = (if d \<le> j \<and> j < d + n then a ! (s + (j - d)) else a ! j)"
proof (induction n arbitrary: j)
  case (Suc n)
  have Suc_eq: "memcpy_units True d s (Suc n) a = (memcpy_units True d s n a)[d + n := memcpy_units True d s n a ! (s + n)]"
    by (simp add: memcpy_units_def)
  have "memcpy_units True d s n a ! (s + n) = a ! (s + n)"
    using Suc.IH [of "s + n"] Suc.prems by auto
  then show ?case using Suc.IH [of j] Suc.prems
    by (auto simp: Suc_eq nth_list_update)
qed (auto simp: memcpy_units_def)

lemma nth_memcpy_up:
  "s \<le> d \<Longrightarrow> d + n \<le> length a \<Longrightarrow> j < length a \<Longrightarrow>
   memcpy_units False d s n a ! j = (if d \<le> j \<and> j < d + n then a ! (s + (j - d)) else a ! j)"
proof (induction n arbitrary: a)
  case (Suc n)
  have "memcpy_units False d s (Suc n) a = memcpy_units False d s n (a[d + n := a ! (s + n)])"
    by (simp add: memcpy_units_def)
  then show ?case using Suc.IH [of "a[d + n := a ! (s + n)]"] Suc.prems
    by (auto simp: nth_list_update le_less_Suc_eq)
qed (auto simp: memcpy_units_def)

section \<open>Operations\<close>

definition Queue_S_Init :: "QUEUE_S \<Rightarrow> QUEUE_S" where
  "Queue_S_Init q = q\<lparr>q_nLen := 0\<rparr>"

definition Queue_S_Remove :: "bool \<Rightarrow> nat \<Rightarrow> nat \<Rightarrow> QUEUE_S \<Rightarrow> int \<times> QUEUE_S" where
  "Queue_S_Remove up index n q =
     (if index < q_nLen q
      then let l = max index (q_nLen q - n)
           in (1, q\<lparr>q_nLen := l, pSteep := memcpy_units up index (index + n) (l - index) (pSteep q)\<rparr>)
      else (- 1, q))"

definition Queue_S_RemoveAtLast :: "nat \<Rightarrow> QUEUE_S \<Rightarrow> QUEUE_S" where
  "Queue_S_RemoveAtLast n q = q\<lparr>q_nLen := q_nLen q - n\<rparr>"

definition Queue_S_Append :: "bool \<Rightarrow> STEEP_UNIT \<Rightarrow> QUEUE_S \<Rightarrow> QUEUE_S" where
  "Queue_S_Append up data q =
     (let q = (if q_nLen q \<ge> QUEUE_S_LEN
               then let q = snd (Queue_S_Remove up 0 1 q) in q\<lparr>q_nLen := q_nLen q - 1\<rparr>
               else q)
      in (set_steep (q_nLen q) data q)\<lparr>q_nLen := q_nLen q + 1\<rparr>)"

definition Queue_S_Append_Syn :: "bool \<Rightarrow> STEEP_UNIT \<Rightarrow> int \<Rightarrow> QUEUE_S \<Rightarrow> QUEUE_S" where
  "Queue_S_Append_Syn up data Syn q =
     (if q_nLen q > 0
      then let l = q_nLen q - 1; u = pSteep q ! l
           in if Xstart data - Xend u \<le> Syn then set_steep l (u\<lparr>Xend := Xend data, Yend := Yend data\<rparr>) q
              else if Xend u - Xstart u \<le> Syn then set_steep l data q
              else Queue_S_Append up data q
      else Queue_S_Append up data q)"

text \<open>Inserting at the front of a full queue asks \<open>memcpy\<close> for \<open>index - 1 = -1\<close> units, a huge length:
  \<open>None\<close>.\<close>

definition Queue_S_Insert :: "bool \<Rightarrow> nat \<Rightarrow> STEEP_UNIT \<Rightarrow> QUEUE_S \<Rightarrow> QUEUE_S option" where
  "Queue_S_Insert up index data q =
     (if index < q_nLen q
      then if q_nLen q \<ge> QUEUE_S_LEN
           then if index = 0 then None
                else Some (set_steep index data (q\<lparr>pSteep := memcpy_units up 0 1 (index - 1) (pSteep q)\<rparr>))
           else Some (set_steep index data
                  (q\<lparr>pSteep := memcpy_units up (index + 1) index (q_nLen q - index) (pSteep q)\<rparr>))
      else if index = q_nLen q then Some (Queue_S_Append up data q)
      else Some q)"

definition Get_STEEP_UNIT :: "int \<Rightarrow> int \<Rightarrow> int \<Rightarrow> int \<Rightarrow> int \<Rightarrow> int \<Rightarrow> STEEP_UNIT" where
  "Get_STEEP_UNIT xs ys xe ye md ev =
     \<lparr>Xstart = i16 xs, Ystart = ys, Xend = i16 xe, Yend = ye, Mode = i16 md, eva = i16 ev\<rparr>"

definition Queue_S_2_IntArr :: "QUEUE_S \<Rightarrow> int list \<times> int list \<times> int list \<times> int list \<times> int list \<times> int list" where
  "Queue_S_2_IntArr q =
     (let col = (\<lambda>f. List.map (\<lambda>i. f (pSteep q ! i)) [0..<QUEUE_S_LEN])
      in (col Xstart, col Ystart, col Xend, col Yend, col Mode, col eva))"

section \<open>What the operations do to the queue\<close>

lemma Queue_S_Init_steps [simp]: "steps (Queue_S_Init q) = []" "queue_ok q \<Longrightarrow> queue_ok (Queue_S_Init q)"
  by (simp_all add: Queue_S_Init_def steps_def queue_ok_def)

lemma RemoveAtLast_steps:
  "queue_ok q \<Longrightarrow> steps (Queue_S_RemoveAtLast n q) = take (length (steps q) - n) (steps q)"
  by (simp add: Queue_S_RemoveAtLast_def steps_def queue_ok_def)

lemma RemoveAtLast_ok: "queue_ok q \<Longrightarrow> queue_ok (Queue_S_RemoveAtLast n q)"
  by (auto simp: Queue_S_RemoveAtLast_def queue_ok_def)

lemma Remove_ok: "queue_ok q \<Longrightarrow> queue_ok (snd (Queue_S_Remove up i n q))"
  by (auto simp: Queue_S_Remove_def queue_ok_def Let_def)

lemma Append_ok: "queue_ok q \<Longrightarrow> queue_ok (Queue_S_Append up d q)"
  by (auto simp: Queue_S_Append_def Queue_S_Remove_def queue_ok_def Let_def set_steep_def QUEUE_S_LEN_def)

lemma Append_Syn_ok: "queue_ok q \<Longrightarrow> queue_ok (Queue_S_Append_Syn up d n q)"
  using Append_ok by (auto simp: Queue_S_Append_Syn_def Let_def queue_ok_def set_steep_def)

lemma Insert_ok: "queue_ok q \<Longrightarrow> Queue_S_Insert up i d q = Some q' \<Longrightarrow> queue_ok q'"
  using Append_ok [of q up d]
  by (auto simp: Queue_S_Insert_def queue_ok_def set_steep_def split: if_splits)

lemma nth_steps: "i < q_nLen q \<Longrightarrow> steps q ! i = pSteep q ! i"
  by (simp add: steps_def)

lemma Remove_steps:
  assumes "queue_ok q" and "i < q_nLen q" and "i + n \<le> q_nLen q"
  shows "steps (snd (Queue_S_Remove True i n q)) = take i (steps q) @ drop (i + n) (steps q)"
  using assms
  by (intro nth_equalityI)
     (auto simp: Queue_S_Remove_def Let_def steps_def queue_ok_def nth_append nth_memcpy_down max_def add.commute
        split: if_splits)

lemma Append_steps:
  "queue_ok q \<Longrightarrow> q_nLen q < QUEUE_S_LEN \<Longrightarrow> steps (Queue_S_Append up d q) = steps q @ [d]"
  by (simp add: Queue_S_Append_def set_steep_def steps_def queue_ok_def take_Suc_conv_app_nth)

text \<open>On a full queue \<open>Append\<close> takes off one element too many: \<open>Queue_S_Remove\<close> has already lowered
  \<open>nLen\<close>, so the newest element is overwritten as well as the oldest dropped.\<close>

lemma Append_full_steps:
  assumes "queue_ok q" and "q_nLen q = QUEUE_S_LEN"
  shows "steps (Queue_S_Append True d q) = butlast (tl (steps q)) @ [d]"
  using assms
  by (intro nth_equalityI)
     (auto simp: Queue_S_Append_def Queue_S_Remove_def Let_def set_steep_def steps_def queue_ok_def
        QUEUE_S_LEN_def nth_append nth_memcpy_down nth_butlast nth_tl nth_list_update max_def)

text \<open>\<open>Insert\<close> below the end shifts the tail up but leaves \<open>nLen\<close> as it is: even with a copy that keeps
  the tail intact, the last element falls off.\<close>

lemma Insert_steps:
  assumes "queue_ok q" and "i < q_nLen q" and "q_nLen q < QUEUE_S_LEN"
  shows "\<exists>q'. Queue_S_Insert False i d q = Some q' \<and> steps q' = butlast (take i (steps q) @ d # drop i (steps q))"
  using assms
  by (intro exI conjI, simp add: Queue_S_Insert_def)
     (intro nth_equalityI, auto simp: set_steep_def steps_def queue_ok_def nth_append nth_butlast nth_memcpy_up
        nth_list_update nth_Cons')

end
