(* ===== verification/NibpSteps.thy ===== *)
theory NibpSteps
  imports AlgQueue
begin

text \<open>
  \<open>NIBPAlgorithm/NIBPAlgorithmV1000.c\<close>, the analysis of one pressure step: the FIR filter, the search
  for pulses in the filtered pressure (\<open>GetSteepFalling\<close>, \<open>GetStepFeature\<close>), the removal of doubtful
  pulses (\<open>QerrCutFalling\<close>) and the insertion of the step's summary into the list of all steps
  (\<open>GetFallingUnitList\<close>).  What is undefined in C (an integer division by zero, an access outside an
  array) is \<open>None\<close>.
\<close>

section \<open>Constants and float arithmetic\<close>

definition STEP_RELE_ADC_TAG :: int where "STEP_RELE_ADC_TAG = 0x00FFFFFF"
definition NIBP_SAMPLE_FS :: int where "NIBP_SAMPLE_FS = 100"
definition NIBP_FILTER_WINDOW_LEN :: nat where "NIBP_FILTER_WINDOW_LEN = 400"
definition NIBP_STEEP_WINDOW_LEN :: nat where "NIBP_STEEP_WINDOW_LEN = 400"
definition NIBP_DATA_FILTER_SIZE :: nat where "NIBP_DATA_FILTER_SIZE = 36"
definition NIBP_FEATURE_FILTER_SIZE :: nat where "NIBP_FEATURE_FILTER_SIZE = 86"
definition MAX_STEP_LEN :: nat where "MAX_STEP_LEN = 200"
definition MAX_STEP :: int where "MAX_STEP = 160"
definition WAVELET_CUT :: int where "WAVELET_CUT = 400"
definition STEP_LISTS_LEN :: nat where "STEP_LISTS_LEN = 100"

text \<open>An \<open>int\<close> becomes a \<open>float\<close> by \<open>flt\<close>; the four operations round.\<close>

abbreviation flt :: "alg_fpu \<Rightarrow> int \<Rightarrow> real" where "flt fp x \<equiv> fl fp (real_of_int x)"
abbreviation fadd :: "alg_fpu \<Rightarrow> real \<Rightarrow> real \<Rightarrow> real" where "fadd fp a b \<equiv> fl fp (a + b)"
abbreviation fsub :: "alg_fpu \<Rightarrow> real \<Rightarrow> real \<Rightarrow> real" where "fsub fp a b \<equiv> fl fp (a - b)"
abbreviation fmul :: "alg_fpu \<Rightarrow> real \<Rightarrow> real \<Rightarrow> real" where "fmul fp a b \<equiv> fl fp (a * b)"
abbreviation fdiv :: "alg_fpu \<Rightarrow> real \<Rightarrow> real \<Rightarrow> real" where "fdiv fp a b \<equiv> fl fp (a / b)"

definition fmax :: "real \<Rightarrow> real \<Rightarrow> real" where "fmax a b = (if a > b then a else b)"
definition fmin :: "real \<Rightarrow> real \<Rightarrow> real" where "fmin a b = (if a < b then a else b)"

section \<open>The FIR filter\<close>

definition fFir_6_100hz_35s :: "real list" where
  "fFir_6_100hz_35s =
    [0.000447800588667803, - 0.000105422692224901, - 0.000952029326004866, - 0.002312592830894632, - 0.004226409943361889,
     - 0.006420885716992339, - 0.008253050105353834, - 0.008755715501060560, - 0.006794675428708898, - 0.001312828213578494,
     0.008389763091506590, 0.022406554056683962, 0.040072172663723322, 0.059955735708328288, 0.080017402851408084,
     0.097908232374486245, 0.111358622547970950, 0.118577325875405180, 0.118577325875405180, 0.111358622547970950,
     0.097908232374486245, 0.080017402851408084, 0.059955735708328288, 0.040072172663723322, 0.022406554056683962,
     0.008389763091506590, - 0.001312828213578494, - 0.006794675428708898, - 0.008755715501060560, - 0.008253050105353834,
     - 0.006420885716992339, - 0.004226409943361889, - 0.002312592830894632, - 0.000952029326004866, - 0.000105422692224901,
     0.000447800588667803]"

definition fFir_5_1000hz_85s :: "real list" where
  "fFir_5_1000hz_85s =
    [0.008976999273044338, 0.009145974502260437, 0.009312974713106381, 0.009477870179969791, 0.009640532232781553,
     0.009800833391838003, 0.009958647501765170, 0.010113849864461242, 0.010266317370854422, 0.010415928631314506,
     0.010562564104557835, 0.010706106224886958, 0.010846439527608007, 0.010983450772470848, 0.011117029064979495,
     0.011247065975422217, 0.011373455655474013, 0.011496094952226402, 0.011614883519502848, 0.011729723926321311,
     0.011840521762368548, 0.011947185740354865, 0.012049627795121254, 0.012147763179375212, 0.012241510555935378,
     0.012330792086369584, 0.012415533515915126, 0.012495664254574894, 0.012571117454287526, 0.012641830082074736,
     0.012707742989073789, 0.012768800975368541, 0.012824952850537301, 0.012876151489841397, 0.012922353885983747,
     0.012963521196372160, 0.012999618785827836, 0.013030616264685276, 0.013056487522235529, 0.013077210755470553,
     0.013092768493092512, 0.013103147614757692, 0.013108339365530675, 0.013108339365530675, 0.013103147614757692,
     0.013092768493092512, 0.013077210755470553, 0.013056487522235529, 0.013030616264685276, 0.012999618785827836,
     0.012963521196372160, 0.012922353885983747, 0.012876151489841397, 0.012824952850537301, 0.012768800975368541,
     0.012707742989073789, 0.012641830082074736, 0.012571117454287526, 0.012495664254574894, 0.012415533515915126,
     0.012330792086369584, 0.012241510555935378, 0.012147763179375212, 0.012049627795121254, 0.011947185740354865,
     0.011840521762368548, 0.011729723926321311, 0.011614883519502848, 0.011496094952226402, 0.011373455655474013,
     0.011247065975422217, 0.011117029064979495, 0.010983450772470848, 0.010846439527608007, 0.010706106224886958,
     0.010562564104557835, 0.010415928631314506, 0.010266317370854422, 0.010113849864461242, 0.009958647501765170,
     0.009800833391838003, 0.009640532232781553, 0.009477870179969791, 0.009312974713106381, 0.009145974502260437,
     0.008976999273044338]"

text \<open>The inner loop for output \<open>j\<close>: a tag in the window ends it with the previous output.\<close>

fun fir :: "alg_fpu \<Rightarrow> real list \<Rightarrow> int list \<Rightarrow> nat \<Rightarrow> real \<Rightarrow> real \<Rightarrow> nat list \<Rightarrow> real" where
  "fir fp pfFilter indata j prev fTmp [] = fTmp"
| "fir fp pfFilter indata j prev fTmp (i # is) =
     (if indata ! (i + j) = STEP_RELE_ADC_TAG then prev
      else fir fp pfFilter indata j prev
             (fadd fp fTmp (fmul fp (fl fp (pfFilter ! i)) (flt fp (indata ! (i + j))))) is)"

definition fir_out :: "alg_fpu \<Rightarrow> real list \<Rightarrow> nat \<Rightarrow> int list \<Rightarrow> int \<Rightarrow> nat \<Rightarrow> int list \<Rightarrow> int" where
  "fir_out fp pfFilter FilterLen indata defau j outdata =
     cvs fp (fir fp pfFilter indata j (flt fp (if j > 0 then outdata ! (j - 1) else defau)) 0 [0..<FilterLen])"

definition Filter :: "alg_fpu \<Rightarrow> real list \<Rightarrow> nat \<Rightarrow> int list \<Rightarrow> int \<Rightarrow> int \<Rightarrow> int list \<Rightarrow> int \<Rightarrow> int \<times> int list" where
  "Filter fp pfFilter FilterLen indata inlen outlen outdata defau =
     (if outlen > inlen - int FilterLen + 1 then (- 1, outdata)
      else (1, upd_loop (nat outlen) (fir_out fp pfFilter FilterLen indata defau) outdata))"

text \<open>The same call with one array for input and output.\<close>

definition Filter_inplace :: "alg_fpu \<Rightarrow> real list \<Rightarrow> nat \<Rightarrow> int \<Rightarrow> int \<Rightarrow> int \<Rightarrow> int list \<Rightarrow> int \<times> int list" where
  "Filter_inplace fp pfFilter FilterLen inlen outlen defau a =
     (if outlen > inlen - int FilterLen + 1 then (- 1, a)
      else (1, upd_loop (nat outlen) (\<lambda>j a. fir_out fp pfFilter FilterLen a defau j a) a))"

lemma length_fFir [simp]: "length fFir_6_100hz_35s = NIBP_DATA_FILTER_SIZE"
  "length fFir_5_1000hz_85s = NIBP_FEATURE_FILTER_SIZE"
  by (simp_all add: fFir_6_100hz_35s_def fFir_5_1000hz_85s_def NIBP_DATA_FILTER_SIZE_def NIBP_FEATURE_FILTER_SIZE_def)

lemma length_Filter [simp]: "length (snd (Filter fp c n d il ol out de)) = length out"
  "length (snd (Filter_inplace fp c n il ol de a)) = length a"
  by (simp_all add: Filter_def Filter_inplace_def)

section \<open>One pulse\<close>

fun step_end :: "alg_fpu \<Rightarrow> int list \<Rightarrow> nat \<Rightarrow> int \<Rightarrow> int \<Rightarrow> nat list \<Rightarrow> nat" where
  "step_end fp DataIn DataLen MaxNow DataLast [] = DataLen - 1"
| "step_end fp DataIn DataLen MaxNow DataLast (ii # iis) =
     (if DataIn ! ii > 0 \<and> (DataIn ! ii \<le> DataLast \<or> flt fp (DataIn ! ii) > fmul fp (flt fp MaxNow) (fl fp 0.2))
      then step_end fp DataIn DataLen MaxNow (DataIn ! ii) iis
      else ii - 1)"

fun step_start :: "alg_fpu \<Rightarrow> int list \<Rightarrow> int \<Rightarrow> int \<Rightarrow> nat list \<Rightarrow> nat" where
  "step_start fp DataIn MaxNow DataLast [] = 0"
| "step_start fp DataIn MaxNow DataLast (ii # iis) =
     (if DataIn ! ii > 0 \<and> (DataIn ! ii \<le> DataLast \<or> flt fp (DataIn ! ii) > fmul fp (flt fp MaxNow) (fl fp 0.2))
      then step_start fp DataIn MaxNow (DataIn ! ii) iis
      else ii + 1)"

definition GetStepFeature :: "alg_fpu \<Rightarrow> int list \<Rightarrow> nat \<Rightarrow> nat \<Rightarrow> nat \<Rightarrow> bool \<times> nat \<times> nat" where
  "GetStepFeature fp DataIn DataLen Start End =
     (let (MaxNow, MaxIndex) = fold (\<lambda>ii (MaxNow, MaxIndex).
            if DataIn ! ii > MaxNow then (DataIn ! ii, ii) else (MaxNow, MaxIndex)) [Start..<End] (0, 0);
          StepEnd = step_end fp DataIn DataLen MaxNow MaxNow [MaxIndex + 1..<DataLen];
          StepStart = step_start fp DataIn MaxNow MaxNow (rev [1..<MaxIndex])
      in (int StepEnd - int StepStart < 35, StepStart, StepEnd))"

lemma step_end_ge: "(\<forall>i \<in> set is. m < i \<and> i < n) \<Longrightarrow> m < n \<Longrightarrow> m \<le> step_end fp D n x y is \<and> step_end fp D n x y is < n"
  by (induction "is" arbitrary: y) auto

lemma step_start_le: "(\<forall>i \<in> set is. i < m) \<Longrightarrow> step_start fp D x y is \<le> m"
  by (induction "is" arbitrary: y) auto

lemma GetStepFeature_bounds:
  assumes "GetStepFeature fp D n s e = (b, ss, se)" and "e \<le> n" "0 < n"
  shows "ss \<le> se" "se < n"
proof -
  let ?f = "\<lambda>ii (MaxNow, MaxIndex). if D ! ii > MaxNow then (D ! ii, ii) else (MaxNow, MaxIndex)"
  obtain mx mi where m: "fold ?f [s..<e] (0, 0) = (mx, mi)" by fastforce
  have "snd (fold ?f is (x, k)) < n" if "k < n" "\<forall>i \<in> set is. i < n" for "is" x k
    using that by (induction "is" arbitrary: x k) auto
  from this [of 0 "[s..<e]" 0] have mi: "mi < n" using m assms(2,3) by auto
  show "ss \<le> se" "se < n"
    using step_end_ge [of "[mi + 1..<n]" mi n fp D mx mx] step_start_le [of "rev [1..<mi]" mi fp D mx mx] mi assms(1) m
    by (auto simp: GetStepFeature_def Let_def)
qed

section \<open>The pulses of a step\<close>

datatype steep_mode = MODE_START | MODE_UP | MODE_DOWN

record steep_st =
  sMode :: steep_mode
  MaxNow :: int
  MinNow :: int
  Start :: nat
  End :: nat
  DeltaUpLast :: int
  DeltaDownLast :: int
  DeltaUpNow :: int
  DeltaDownNow :: int

definition steep_threshold :: "alg_fpu \<Rightarrow> int \<Rightarrow> real \<Rightarrow> real \<Rightarrow> steep_st \<Rightarrow> real" where
  "steep_threshold fp cut1 cut2 cut3 t =
     (let DeltaMax = my_max (DeltaUpLast t) (DeltaDownLast t)
      in fmax (fadd fp (flt fp cut1) (fmul fp (flt fp DeltaMax) cut3)) (fmul fp (flt fp DeltaMax) cut2))"

text \<open>The running extrema with the rise and fall they close.\<close>

definition steep_extrema :: "int \<Rightarrow> steep_st \<Rightarrow> steep_st" where
  "steep_extrema x t =
     (let t = (if x > MaxNow t then t\<lparr>MaxNow := x, DeltaUpNow := i32 (x - MinNow t)\<rparr> else t)
      in if x < MinNow t then t\<lparr>MinNow := x, DeltaDownNow := i32 (MaxNow t - x)\<rparr> else t)"

text \<open>A pulse that \<open>GetStepFeature\<close> accepts is stored when it starts more than 30 samples after the last
  one; \<open>Mode\<close> and \<open>eva\<close> of the unit stay what they were.\<close>

definition add_pulse :: "alg_fpu \<Rightarrow> int list \<Rightarrow> int list \<Rightarrow> nat \<Rightarrow> nat \<Rightarrow> nat \<Rightarrow> QUEUE_S \<Rightarrow> QUEUE_S" where
  "add_pulse fp DataIn w DataUseLen st en q =
     (let (Enable, StepStart, StepEnd) = GetStepFeature fp w DataUseLen st en; l = q_nLen q
      in if Enable \<and> (l = 0 \<or> int StepStart - Xstart (pSteep q ! (l - 1)) > 30)
         then (set_steep l ((pSteep q ! l)\<lparr>Xstart := i16 (int StepStart), Xend := i16 (int StepEnd),
                 Ystart := DataIn ! StepStart, Yend := DataIn ! StepEnd\<rparr>) q)\<lparr>q_nLen := l + 1\<rparr>
         else q)"

definition steep_step :: "alg_fpu \<Rightarrow> int \<Rightarrow> real \<Rightarrow> real \<Rightarrow> int list \<Rightarrow> int list \<Rightarrow> nat \<Rightarrow> nat
    \<Rightarrow> steep_st \<times> QUEUE_S \<Rightarrow> steep_st \<times> QUEUE_S" where
  "steep_step fp cut1 cut2 cut3 DataIn w DataUseLen ii = (\<lambda>(t, q).
     let x = w ! ii; t = steep_extrema x t; th = steep_threshold fp cut1 cut2 cut3 t
     in if (sMode t = MODE_START \<or> sMode t = MODE_DOWN) \<and> flt fp x < fsub fp (flt fp (MaxNow t)) th \<and> x \<le> 0
        then let t = t\<lparr>MinNow := x, End := ii\<rparr>;
                 q = (if sMode t = MODE_DOWN \<and> int (End t) - int (Start t) < MAX_STEP \<and> q_nLen q < MAX_STEP_LEN - 1
                      then add_pulse fp DataIn w DataUseLen (Start t) (End t) q else q);
                 t = (if sMode t = MODE_DOWN then t\<lparr>DeltaUpLast := DeltaUpNow t\<rparr> else t)
             in (t\<lparr>sMode := MODE_UP\<rparr>, q)
        else if (sMode t = MODE_START \<or> sMode t = MODE_UP) \<and> flt fp x > fadd fp (flt fp (MinNow t)) th
                \<and> flt fp x > fmul fp th (fl fp 0.75)
        then let t = t\<lparr>MaxNow := x, Start := ii\<rparr>;
                 t = (if sMode t = MODE_UP then t\<lparr>DeltaDownLast := DeltaDownNow t\<rparr> else t)
             in (t\<lparr>sMode := MODE_DOWN\<rparr>, q)
        else (t, q))"

definition GetSteepFalling :: "alg_fpu \<Rightarrow> int list \<Rightarrow> int \<Rightarrow> int \<Rightarrow> real \<Rightarrow> real \<Rightarrow> QUEUE_S \<Rightarrow> QUEUE_S" where
  "GetSteepFalling fp DataIn DataLen cut1 cut2 cut3 pQueue =
     (let DataLen = my_min (int NIBP_STEEP_WINDOW_LEN) DataLen;
          q = pQueue\<lparr>q_nLen := 0\<rparr>
      in if DataLen > 0
         then let n = nat DataLen;
                  w = Diff_N DataIn n (replicate NIBP_STEEP_WINDOW_LEN 0);
                  t = \<lparr>sMode = MODE_START, MaxNow = w ! 0, MinNow = w ! 0, Start = 0, End = 0, DeltaUpLast = 0,
                       DeltaDownLast = 0, DeltaUpNow = 0, DeltaDownNow = 0\<rparr>
              in snd (fold (steep_step fp cut1 cut2 cut3 DataIn w (n - 1)) [0..<n - 1] (t, q))
         else q)"

text \<open>The pulses found: each lies in the window, begins no later than it ends, has its pressures from the
  data, and begins more than 30 samples after the one before.\<close>

definition pulses_ok :: "int list \<Rightarrow> nat \<Rightarrow> QUEUE_S \<Rightarrow> bool" where
  "pulses_ok D n q \<longleftrightarrow> queue_ok q
     \<and> (\<forall>i < q_nLen q. let u = pSteep q ! i in 0 \<le> Xstart u \<and> Xstart u \<le> Xend u \<and> Xend u < int n
           \<and> Ystart u = D ! nat (Xstart u) \<and> Yend u = D ! nat (Xend u))
     \<and> (\<forall>i. Suc i < q_nLen q \<longrightarrow> Xstart (pSteep q ! i) + 30 < Xstart (pSteep q ! Suc i))"

lemma i16_nat: "n < 32768 \<Longrightarrow> i16 (int n) = int n"
  by (simp add: i16_def signed_take_bit_int_eq_self)

lemma add_pulse_ok:
  assumes q: "pulses_ok D n q" "q_nLen q < MAX_STEP_LEN - 1" and n: "e \<le> n" "0 < n" "n < 32768"
  shows "pulses_ok D n (add_pulse fp D w n s e q)"
proof -
  obtain b ss se where f: "GetStepFeature fp w n s e = (b, ss, se)" by (metis prod_cases3)
  have le: "ss \<le> se" "se < n" using GetStepFeature_bounds [OF f] n by auto
  have l: "q_nLen q < length (pSteep q)" "length (pSteep q) = QUEUE_S_LEN"
    using q by (auto simp: pulses_ok_def queue_ok_def MAX_STEP_LEN_def QUEUE_S_LEN_def)
  have gap: "Suc i = l \<Longrightarrow> 30 < x - Xstart (p ! (l - Suc 0)) \<Longrightarrow> Xstart (p ! i) + 30 < x" for i l x p
    by auto
  show ?thesis
    using q(1) l le n(3)
    by (auto simp: add_pulse_def f Let_def pulses_ok_def queue_ok_def set_steep_def i16_nat nth_list_update
        less_Suc_eq) (erule (1) gap)
qed

lemma steep_step_ok:
  assumes "pulses_ok D n (snd tq)" "i < n" "n < 32768"
  shows "pulses_ok D n (snd (steep_step fp a b c D w n i tq))"
proof -
  obtain t q where [simp]: "tq = (t, q)" by (cases tq)
  show ?thesis
    using assms by (auto simp: steep_step_def Let_def intro!: add_pulse_ok)
qed

lemma fold_steep_ok:
  "pulses_ok D n (snd tq) \<Longrightarrow> (\<forall>i \<in> set is. i < n) \<Longrightarrow> n < 32768 \<Longrightarrow>
   pulses_ok D n (snd (fold (steep_step fp a b c D w n) is tq))"
  by (induction "is" arbitrary: tq) (simp_all add: steep_step_ok del: split_paired_All)

lemma GetSteepFalling_ok:
  assumes "queue_ok q"
  shows "pulses_ok D (nat (min 400 n) - 1) (GetSteepFalling fp D n a b c q)"
proof -
  have q: "pulses_ok D m (q\<lparr>q_nLen := 0\<rparr>)" for m using assms by (simp add: pulses_ok_def queue_ok_def)
  show ?thesis
    using fold_steep_ok [OF _ _ , of D "nat (min 400 n) - 1" "(_, q\<lparr>q_nLen := 0\<rparr>)"] q
    by (auto simp: GetSteepFalling_def Let_def my_min_eq NIBP_STEEP_WINDOW_LEN_def)
qed

lemma pulses_ok_less:
  assumes "pulses_ok D n q" and "i < j" "j < q_nLen q"
  shows "Xstart (pSteep q ! i) + 30 * int (j - i) < Xstart (pSteep q ! j)"
  using assms(2,3)
proof (induction j)
  case (Suc j)
  have "Xstart (pSteep q ! j) + 30 < Xstart (pSteep q ! Suc j)" using assms(1) Suc.prems by (simp add: pulses_ok_def)
  with Suc show ?case by (cases "i = j") (auto simp: Suc_diff_le less_Suc_eq algebra_simps)
qed simp

text \<open>The same over the list of pulses, where it passes to sublists and ignores \<open>Mode\<close> and \<open>eva\<close>.\<close>

definition core :: "STEEP_UNIT \<Rightarrow> STEEP_UNIT" where "core u = u\<lparr>Mode := 0, eva := 0\<rparr>"

lemma core_simps [simp]: "Xstart (core u) = Xstart u" "Xend (core u) = Xend u"
  "Ystart (core u) = Ystart u" "Yend (core u) = Yend u" "core (core u) = core u"
  by (simp_all add: core_def)

definition pulse_list :: "int list \<Rightarrow> nat \<Rightarrow> STEEP_UNIT list \<Rightarrow> bool" where
  "pulse_list D n us \<longleftrightarrow>
     (\<forall>u \<in> set us. 0 \<le> Xstart u \<and> Xstart u \<le> Xend u \<and> Xend u < int n
        \<and> Ystart u = D ! nat (Xstart u) \<and> Yend u = D ! nat (Xend u))
     \<and> sorted_wrt (\<lambda>u v. Xstart u + 30 < Xstart v) us"

lemma pulse_list_core: "pulse_list D n (List.map core us) \<longleftrightarrow> pulse_list D n us"
  by (simp add: pulse_list_def sorted_wrt_map)

lemma sorted_wrt_subseq: "subseq xs ys \<Longrightarrow> sorted_wrt P ys \<Longrightarrow> sorted_wrt P xs"
  by (induction rule: list_emb.induct) (auto dest: list_emb_set)

lemma subseq_set: "subseq xs ys \<Longrightarrow> x \<in> set xs \<Longrightarrow> x \<in> set ys"
  by (auto dest: list_emb_set)

lemma pulse_list_subseq:
  assumes "subseq us vs" and "pulse_list D n vs"
  shows "pulse_list D n us"
  using assms(2) subseq_set [OF assms(1)] sorted_wrt_subseq [OF assms(1)] by (simp add: pulse_list_def)

lemma pulses_ok_list:
  assumes "pulses_ok D n q"
  shows "pulse_list D n (steps q)"
proof -
  have "queue_ok q" using assms by (simp add: pulses_ok_def)
  moreover have "Xstart (pSteep q ! i) + 30 < Xstart (pSteep q ! j)" if "i < j" "j < q_nLen q" for i j
    using pulses_ok_less [OF assms that] that(1) by linarith
  ultimately show ?thesis using assms
    by (auto simp: pulse_list_def pulses_ok_def Let_def sorted_wrt_iff_nth_less in_set_conv_nth nth_steps)
qed

text \<open>So a window of 400 samples holds at most 14 pulses.\<close>

lemma pulse_list_count:
  assumes "pulse_list D n us" "us \<noteq> []"
  shows "30 * (length us - 1) < n"
proof -
  have "30 * int i \<le> Xstart (us ! i)" if "i < length us" for i
    using that
  proof (induction i)
    case 0
    then show ?case using assms(1) by (auto simp: pulse_list_def)
  next
    case (Suc i)
    then have "Xstart (us ! i) + 30 < Xstart (us ! Suc i)"
      using assms(1) sorted_wrt_nth_less [of _ us i "Suc i"] by (auto simp: pulse_list_def)
    with Suc show ?case by simp
  qed
  from this [of "length us - 1"] have "30 * int (length us - 1) \<le> Xstart (last us)"
    using assms(2) by (simp add: last_conv_nth)
  moreover have "Xstart (last us) \<le> Xend (last us)" "Xend (last us) < int n"
    using assms(1) last_in_set [OF assms(2)] by (auto simp: pulse_list_def)
  ultimately show ?thesis by linarith
qed

section \<open>Doubtful pulses\<close>

text \<open>In-place compaction: the elements that satisfy \<open>P\<close> move down to the next free place \<open>j\<close>.\<close>

definition compact :: "(nat \<Rightarrow> 'a list \<Rightarrow> bool) \<Rightarrow> ('a \<Rightarrow> 'a \<Rightarrow> 'a) \<Rightarrow> nat list \<Rightarrow> 'a list \<times> nat \<Rightarrow> 'a list \<times> nat" where
  "compact P g is aj = fold (\<lambda>i (a, j). if P i a then (a[j := g (a ! j) (a ! i)], j + 1) else (a, j)) is aj"

lemma compact_upt:
  assumes "j \<le> m" "m \<le> n" "n \<le> length a" and g: "\<And>x. g x x = x" "\<And>x y. c (g x y) = c y"
    and P: "\<And>i b. i < n \<Longrightarrow> length b = length a \<Longrightarrow> (\<And>k. i \<le> Suc k \<Longrightarrow> k < length a \<Longrightarrow> b ! k = a ! k) \<Longrightarrow> P i b = P i a"
    and ab: "compact P g [m..<n] (a, j) = (b, k)"
  shows "length b = length a \<and> k = j + length (filter (\<lambda>i. P i a) [m..<n]) \<and> k \<le> n
    \<and> List.map c (take k b) = List.map c (take j a @ List.map ((!) a) (filter (\<lambda>i. P i a) [m..<n]))
    \<and> (\<forall>i. n \<le> Suc i \<longrightarrow> i < length a \<longrightarrow> b ! i = a ! i)"
  using assms(2,3) P ab
proof (induction "n - m" arbitrary: n b k)
  case 0
  then show ?case using assms(1) by (auto simp: compact_def)
next
  case (Suc d)
  from Suc.hyps(2) obtain n' where n: "n = Suc n'" "m \<le> n'" by (cases n) auto
  obtain b' k' where b': "compact P g [m..<n'] (a, j) = (b', k')" by fastforce
  have IH0: "length b' = length a \<and> k' = j + length (filter (\<lambda>i. P i a) [m..<n']) \<and> k' \<le> n'
    \<and> List.map c (take k' b') = List.map c (take j a @ List.map ((!) a) (filter (\<lambda>i. P i a) [m..<n']))
    \<and> (\<forall>i. n' \<le> Suc i \<longrightarrow> i < length a \<longrightarrow> b' ! i = a ! i)"
  proof (rule Suc.hyps(1) [OF _ n(2) _ _ b'])
    show "d = n' - m" "n' \<le> length a" using Suc.hyps(2) Suc.prems(2) n(1) by simp_all
    show "P i b = P i a" if "i < n'" "length b = length a" "\<And>k. i \<le> Suc k \<Longrightarrow> k < length a \<Longrightarrow> b ! k = a ! k" for i b
      using Suc.prems(3) [OF _ that(2,3)] that(1) n(1) by simp
  qed
  note IH = conjunct1 [OF IH0] conjunct1 [OF conjunct2 [OF IH0]] conjunct1 [OF conjunct2 [OF conjunct2 [OF IH0]]]
    conjunct1 [OF conjunct2 [OF conjunct2 [OF conjunct2 [OF IH0]]]]
    conjunct2 [OF conjunct2 [OF conjunct2 [OF conjunct2 [OF IH0]]], rule_format]
  have bk: "(b, k) = (if P n' b' then (b'[k' := g (b' ! k') (b' ! n')], k' + 1) else (b', k'))"
    using Suc.prems(4) b' n by (simp add: compact_def)
  have P': "P n' b' = P n' a" using Suc.prems(3) [of n' b'] IH(1,5) n(1) by auto
  have n'l: "n' < length a" using Suc.prems(2) n by simp
  show ?case
  proof (cases "P n' a")
    case True
    have b: "b = b'[k' := g (b' ! k') (a ! n')]" "k = Suc k'" using bk P' True IH(5) [of n'] n'l by auto
    have "take k b = take k' b' @ [g (b' ! k') (a ! n')]"
      using b IH(1,3) n'l by (simp add: take_Suc_conv_app_nth)
    moreover have "b ! i = a ! i" if "n \<le> Suc i" "i < length a" for i
      using that b IH(1,3,5) n g(1) by (auto simp: nth_list_update)
    ultimately show ?thesis using True b IH g(2) n by auto
  next
    case False
    then show ?thesis using bk P' IH n by (auto simp: less_Suc_eq_le)
  qed
qed

definition energy :: "STEEP_UNIT \<Rightarrow> int" where "energy u = i32 (Yend u - Ystart u)"

lemma energy_core [simp]: "energy (core u) = energy u"
  by (simp add: energy_def)

definition far_enough :: "alg_fpu \<Rightarrow> STEEP_UNIT \<Rightarrow> STEEP_UNIT \<Rightarrow> bool" where
  "far_enough fp u v \<longleftrightarrow>
     flt fp (Xstart v - Xend u) > fmul fp (flt fp (Xend u - Xstart u)) (fl fp 0.8)"

definition max_energy :: "STEEP_UNIT list \<Rightarrow> nat \<Rightarrow> int" where
  "max_energy a n = fold (\<lambda>ii mx. if energy (a ! ii) > mx then energy (a ! ii) else mx) [0..<n] 0"

definition strong_enough :: "alg_fpu \<Rightarrow> int \<Rightarrow> STEEP_UNIT \<Rightarrow> bool" where
  "strong_enough fp mx u \<longleftrightarrow> flt fp (energy u) > fmul fp (flt fp mx) (fl fp 0.5)"

definition copy_xy :: "STEEP_UNIT \<Rightarrow> STEEP_UNIT \<Rightarrow> STEEP_UNIT" where
  "copy_xy d u = d\<lparr>Xstart := Xstart u, Xend := Xend u, Ystart := Ystart u, Yend := Yend u\<rparr>"

definition QerrCutFalling :: "alg_fpu \<Rightarrow> QUEUE_S \<Rightarrow> QUEUE_S" where
  "QerrCutFalling fp q =
     (if q_nLen q = 0 then q
      else let (a, j) = compact (\<lambda>i a. far_enough fp (a ! (i - 1)) (a ! i)) (\<lambda>_ u. u) [1..<q_nLen q] (pSteep q, 1);
               MaxEnergy = max_energy a j;
               (a, NewLen) = compact (\<lambda>i a. strong_enough fp MaxEnergy (a ! i)) copy_xy [0..<j] (a, 0)
           in q\<lparr>pSteep := a, q_nLen := NewLen\<rparr>)"

lemma core_copy_xy [simp]: "core (copy_xy d u) = core u" "copy_xy u u = u"
  by (simp_all add: core_def copy_xy_def)

text \<open>The pulses kept: the first, every one far enough from its predecessor, and of these the strong.\<close>

definition kept_far :: "alg_fpu \<Rightarrow> STEEP_UNIT list \<Rightarrow> STEEP_UNIT list" where
  "kept_far fp us = List.map ((!) us) (0 # filter (\<lambda>i. far_enough fp (us ! (i - 1)) (us ! i)) [1..<length us])"

lemma max_energy_take: "n \<le> length a \<Longrightarrow> max_energy a n = max_energy (take n a) n"
  unfolding max_energy_def by (rule fold_cong) auto

lemma max_energy_core: "n \<le> length a \<Longrightarrow> max_energy (List.map core a) n = max_energy a n"
  unfolding max_energy_def by (rule fold_cong) auto

lemma strong_core [simp]: "strong_enough fp m (core u) = strong_enough fp m u"
  by (simp add: strong_enough_def)

lemma map_nth_filter:
  "j \<le> length b \<Longrightarrow> List.map ((!) b) (filter (\<lambda>i. P (b ! i)) [0..<j]) = filter P (take j b)"
  by (induction j) (auto simp: take_Suc_conv_app_nth)

lemma QerrCutFalling_core:
  fixes fp :: alg_fpu
  assumes q: "queue_ok q" "q_nLen q \<noteq> 0"
  defines "ks \<equiv> kept_far fp (steps q)"
  shows "List.map core (steps (QerrCutFalling fp q))
         = filter (strong_enough fp (max_energy ks (length ks))) (List.map core ks)"
    and "queue_ok (QerrCutFalling fp q)"
proof -
  let ?a = "pSteep q"
  obtain b j where b: "compact (\<lambda>i a. far_enough fp (a ! (i - 1)) (a ! i)) (\<lambda>_ u. u) [1..<q_nLen q] (?a, 1) = (b, j)"
    by fastforce
  let ?m = "max_energy b j"
  obtain d k where d: "compact (\<lambda>i a. strong_enough fp ?m (a ! i)) copy_xy [0..<j] (b, 0) = (d, k)" by fastforce
  have l: "q_nLen q \<le> length ?a" "1 \<le> q_nLen q" "length ?a = QUEUE_S_LEN" using q by (auto simp: queue_ok_def)
  have B: "length b = length ?a \<and> j = 1 + length (filter (\<lambda>i. far_enough fp (?a ! (i - 1)) (?a ! i)) [1..<q_nLen q])
     \<and> j \<le> q_nLen q \<and> List.map id (take j b) = List.map id (take 1 ?a @ List.map ((!) ?a)
         (filter (\<lambda>i. far_enough fp (?a ! (i - 1)) (?a ! i)) [1..<q_nLen q]))
     \<and> (\<forall>i. q_nLen q \<le> Suc i \<longrightarrow> i < length ?a \<longrightarrow> b ! i = ?a ! i)"
    by (rule compact_upt [OF _ l(2,1) _ _ _ b]) (use l in auto)
  have D: "length d = length b \<and> k = 0 + length (filter (\<lambda>i. strong_enough fp ?m (b ! i)) [0..<j]) \<and> k \<le> j
     \<and> List.map core (take k d) = List.map core (take 0 b @ List.map ((!) b) (filter (\<lambda>i. strong_enough fp ?m (b ! i)) [0..<j]))
     \<and> (\<forall>i. j \<le> Suc i \<longrightarrow> i < length b \<longrightarrow> d ! i = b ! i)"
    by (rule compact_upt [OF _ _ _ _ _ _ d]) (use B l in auto)
  have far: "filter (\<lambda>i. far_enough fp (?a ! (i - 1)) (?a ! i)) [1..<q_nLen q]
             = filter (\<lambda>i. far_enough fp (steps q ! (i - 1)) (steps q ! i)) [1..<q_nLen q]"
    by (rule filter_cong) (auto simp: nth_steps)
  have "List.map ((!) ?a) (filter (\<lambda>i. far_enough fp (?a ! (i - 1)) (?a ! i)) [1..<q_nLen q])
      = List.map ((!) (steps q)) (filter (\<lambda>i. far_enough fp (steps q ! (i - 1)) (steps q ! i)) [1..<q_nLen q])"
    unfolding far by (rule map_cong) (auto simp: nth_steps)
  moreover have "take 1 ?a = [steps q ! 0]" using l by (cases ?a) (auto simp: nth_steps)
  moreover have "take j b = take 1 ?a @ List.map ((!) ?a)
         (filter (\<lambda>i. far_enough fp (?a ! (i - 1)) (?a ! i)) [1..<q_nLen q])"
    using B by (elim conjE) (simp only: list.map_id)
  ultimately have ks: "take j b = ks" 
    unfolding ks_def kept_far_def length_steps [OF q(1)] by simp
  have kl: "length ks = j" using ks B l by auto
  have "j \<le> length b" using B l(1) by simp
  then have "List.map ((!) b) (filter (\<lambda>i. strong_enough fp ?m (b ! i)) [0..<j]) = filter (strong_enough fp ?m) (take j b)"
    by (rule map_nth_filter)
  moreover have "List.map core (take k d) = List.map core (List.map ((!) b) (filter (\<lambda>i. strong_enough fp ?m (b ! i)) [0..<j]))"
    using D by (elim conjE) simp
  moreover have "max_energy ks (length ks) = ?m" using max_energy_take [OF \<open>j \<le> length b\<close>] ks kl by simp
  moreover have "steps (QerrCutFalling fp q) = take k d"
    using q(2) b d by (simp add: QerrCutFalling_def steps_def)
  ultimately show "List.map core (steps (QerrCutFalling fp q))
         = filter (strong_enough fp (max_energy ks (length ks))) (List.map core ks)"
    by (simp add: ks filter_map comp_def)
  show "queue_ok (QerrCutFalling fp q)"
    using q b d D B l by (auto simp: QerrCutFalling_def queue_ok_def)
qed

lemma kept_far_subseq: "subseq (kept_far fp us) us" if "us \<noteq> []"
proof -
  let ?P = "\<lambda>i. far_enough fp (us ! (i - 1)) (us ! i)"
  have "[0..<length us] = 0 # [1..<length us]" using that by (simp add: upt_conv_Cons)
  moreover have "filter ?P [1..<length us] = filter (\<lambda>i. i = 0 \<or> ?P i) [1..<length us]"
    by (rule filter_cong) auto
  ultimately have "0 # filter ?P [1..<length us] = filter (\<lambda>i. i = 0 \<or> ?P i) [0..<length us]"
    by (simp only: filter.simps simp_thms if_True)
  then have "subseq (List.map ((!) us) (0 # filter ?P [1..<length us])) (List.map ((!) us) [0..<length us])"
    by (simp only:) (intro subseq_map subseq_filter_left)
  then show ?thesis by (simp add: kept_far_def map_nth)
qed

lemma QerrCutFalling_subseq:
  assumes "queue_ok q"
  shows "subseq (List.map core (steps (QerrCutFalling fp q))) (List.map core (steps q))"
proof (cases "q_nLen q = 0")
  case False
  then have "steps q \<noteq> []" using length_steps [OF assms] by auto
  then have "subseq (List.map core (kept_far fp (steps q))) (List.map core (steps q))"
    by (intro subseq_map kept_far_subseq)
  then show ?thesis
    unfolding QerrCutFalling_core(1) [OF assms False] using subseq_filter_left subseq_order.trans by blast
qed (simp add: QerrCutFalling_def)

lemma QerrCutFalling_ok: "queue_ok q \<Longrightarrow> queue_ok (QerrCutFalling fp q)"
  by (cases "q_nLen q = 0") (simp_all add: QerrCutFalling_core(2), simp add: QerrCutFalling_def)

lemma QerrCutFalling_pulses:
  "queue_ok q \<Longrightarrow> pulse_list D n (steps q) \<Longrightarrow> pulse_list D n (steps (QerrCutFalling fp q))"
  by (metis QerrCutFalling_subseq pulse_list_core pulse_list_subseq)

section \<open>The list of all steps\<close>

record step_lists =
  stepQ :: QUEUE_S
  pDiffList :: "int list"
  pCountList :: "int list"
  pMeanList :: "int list"

definition lists_ok :: "step_lists \<Rightarrow> bool" where
  "lists_ok L \<longleftrightarrow> queue_ok (stepQ L) \<and> length (pDiffList L) = STEP_LISTS_LEN
     \<and> length (pCountList L) = STEP_LISTS_LEN \<and> length (pMeanList L) = STEP_LISTS_LEN
     \<and> q_nLen (stepQ L) \<le> STEP_LISTS_LEN"

text \<open>The median of one column, rounded by adding a half; \<open>junk\<close> is the uninitialised \<open>NewSteep.eva\<close>.\<close>

definition column_median :: "alg_fpu \<Rightarrow> (STEEP_UNIT \<Rightarrow> int) \<Rightarrow> QUEUE_S \<Rightarrow> int" where
  "column_median fp f q =
     (let a = qsort_N (List.map (\<lambda>i. f (pSteep q ! i)) [0..<q_nLen q]) (q_nLen q)
      in cvs fp (fadd fp (flt fp (a ! (q_nLen q div 2))) (fl fp 0.5)))"

definition step_summary :: "alg_fpu \<Rightarrow> int \<Rightarrow> int list \<Rightarrow> int \<Rightarrow> QUEUE_S \<Rightarrow> STEEP_UNIT" where
  "step_summary fp junk pDataIn DataLen q =
     (if q_nLen q > 0
      then \<lparr>Xstart = i16 (column_median fp Xstart q), Ystart = column_median fp Ystart q,
            Xend = i16 (column_median fp Xend q), Yend = column_median fp Yend q,
            Mode = i16 (column_median fp Mode q), eva = junk\<rparr>
      else let m = Mean_N fp pDataIn DataLen
           in \<lparr>Xstart = 0, Ystart = m, Xend = 0, Yend = m, Mode = 0, eva = junk\<rparr>)"

definition Sum_by :: "(nat \<Rightarrow> int) \<Rightarrow> nat \<Rightarrow> int" where
  "Sum_by f n = fold (\<lambda>i sum. i32 (sum + f i)) [0..<n] 0"

text \<open>Mean height, number of intervals, mean interval, and the average pulse period in ms.\<close>

definition step_means :: "int \<Rightarrow> QUEUE_S \<Rightarrow> int \<times> int \<times> int \<times> int" where
  "step_means avg q =
     (let n = q_nLen q; a = pSteep q
      in if n < 2 then (if n < 1 then 0 else energy (a ! 0), 0, 0, avg)
         else let MeanH = Sum_by (\<lambda>i. Yend (a ! i) - Ystart (a ! i)) n sdiv int n;
                  CountDiff = int n - 1;
                  MeanDiff = Sum_by (\<lambda>i. Xstart (a ! (i + 1)) - Xstart (a ! i)) (n - 1) sdiv CountDiff;
                  pulse_ms_new = i32 (MeanDiff * 1000) sdiv NIBP_SAMPLE_FS
              in (MeanH, CountDiff, MeanDiff, if avg = 0 then pulse_ms_new else i32 (pulse_ms_new + avg) sdiv 2))"

fun insert_pos :: "STEEP_UNIT list \<Rightarrow> int \<Rightarrow> nat list \<Rightarrow> nat option" where
  "insert_pos a y [] = None"
| "insert_pos a y (i # is) = (if Ystart (a ! i) \<le> y then Some i else insert_pos a y is)"

text \<open>\<open>for (jj = nLen; jj > index; jj--) a[jj] = a[jj-1];  a[index] = x;\<close>\<close>

definition shift_in :: "nat \<Rightarrow> nat \<Rightarrow> 'a \<Rightarrow> 'a list \<Rightarrow> 'a list" where
  "shift_in n index x a =
     (fold (\<lambda>jj a. a[jj := a ! (jj - 1)]) (rev [index + 1..<n + 1]) a)[index := x]"

definition put_step :: "nat \<Rightarrow> STEEP_UNIT \<Rightarrow> int \<Rightarrow> int \<Rightarrow> int \<Rightarrow> step_lists \<Rightarrow> step_lists" where
  "put_step index u MeanH CountDiff MeanDiff L =
     (let n = q_nLen (stepQ L)
      in L\<lparr>stepQ := (stepQ L)\<lparr>pSteep := shift_in n index u (pSteep (stepQ L))\<rparr>,
           pMeanList := shift_in n index MeanH (pMeanList L),
           pCountList := shift_in n index CountDiff (pCountList L),
           pDiffList := shift_in n index MeanDiff (pDiffList L)\<rparr>)"

text \<open>A new step goes to the end when its pressure is below all, otherwise in front of the first that is
  not above it.  The three lists have \<open>STEP_LISTS_LEN\<close> places and no check.\<close>

definition GetFallingUnitList :: "alg_fpu \<Rightarrow> int \<Rightarrow> int list \<Rightarrow> int \<Rightarrow> QUEUE_S \<Rightarrow> int \<Rightarrow> step_lists
    \<Rightarrow> (int \<times> step_lists) option" where
  "GetFallingUnitList fp junk pDataIn DataLen QueueSnew avg L =
     (let NewSteep = step_summary fp junk pDataIn DataLen QueueSnew;
          (MeanH, CountDiff, MeanDiff, avg) = step_means avg QueueSnew;
          n = q_nLen (stepQ L); a = pSteep (stepQ L);
          L' = (if n = 0 \<or> Ystart (a ! (n - 1)) > Ystart NewSteep
                then put_step n NewSteep MeanH CountDiff MeanDiff L
                else case insert_pos a (Ystart NewSteep) [0..<n] of
                       None \<Rightarrow> L
                     | Some index \<Rightarrow> put_step index NewSteep MeanH CountDiff MeanDiff L)
      in if n < STEP_LISTS_LEN then Some (avg, L'\<lparr>stepQ := (stepQ L')\<lparr>q_nLen := n + 1\<rparr>\<rparr>) else None)"

lemma shift_in_take:
  "i \<le> n \<Longrightarrow> n < length a \<Longrightarrow> take (n + 1) (shift_in n i x a) = take i (take n a) @ x # drop i (take n a)
     \<and> length (shift_in n i x a) = length a"
proof -
  assume i: "i \<le> n" "n < length a"
  let ?s = "\<lambda>m. fold (\<lambda>jj a. a[jj := a ! (jj - 1)]) (rev [m..<n + 1]) a"
  have s: "length (?s m) = length a \<and> (\<forall>j < length a. ?s m ! j = (if m \<le> j \<and> j \<le> n then a ! (j - 1) else a ! j))"
    if "1 \<le> m" "m \<le> n + 1" for m
    using that(2,1)
  proof (induction rule: inc_induct)
    case (step m)
    have "rev [m..<n + 1] = rev [Suc m..<n + 1] @ [m]" using step.hyps by (simp add: upt_conv_Cons)
    then have "?s m = (?s (Suc m))[m := ?s (Suc m) ! (m - 1)]" by simp
    with step.IH step.prems step.hyps i show ?case by (auto simp: nth_list_update)
  qed auto
  have "take (n + 1) (shift_in n i x a) ! j = (take i (take n a) @ x # drop i (take n a)) ! j" if "j < n + 1" for j
    using s [of "i + 1"] i that by (auto simp: shift_in_def nth_append nth_list_update nth_Cons')
  moreover have "length (shift_in n i x a) = length a" using s [of "i + 1"] i by (simp add: shift_in_def)
  ultimately show ?thesis using i by (auto intro!: nth_equalityI)
qed

definition insert_at :: "nat \<Rightarrow> 'a \<Rightarrow> 'a list \<Rightarrow> 'a list" where
  "insert_at k x xs = take k xs @ x # drop k xs"

definition descending :: "STEEP_UNIT list \<Rightarrow> bool" where
  "descending us \<longleftrightarrow> sorted_wrt (\<lambda>u v. Ystart v \<le> Ystart u) us"

text \<open>The number of steps above a pressure.\<close>

definition steps_above :: "int \<Rightarrow> STEEP_UNIT list \<Rightarrow> nat" where
  "steps_above y us = length (takeWhile (\<lambda>u. y < Ystart u) us)"

lemma steps_above_le [simp]: "steps_above y us \<le> length us"
  by (simp add: steps_above_def length_takeWhile_le)

lemma steps_above_eqI:
  "k \<le> length us \<Longrightarrow> (\<And>i. i < k \<Longrightarrow> y < Ystart (us ! i)) \<Longrightarrow> (k < length us \<Longrightarrow> Ystart (us ! k) \<le> y) \<Longrightarrow>
   steps_above y us = k"
  unfolding steps_above_def by (subst takeWhile_eq_take_P_nth [where n = k]) (auto simp: not_less)

lemma insert_pos_Some:
  "insert_pos a y [m..<n] = Some p \<Longrightarrow> m \<le> p \<and> p < n \<and> Ystart (a ! p) \<le> y \<and> (\<forall>i. m \<le> i \<and> i < p \<longrightarrow> y < Ystart (a ! i))"
proof (induction "n - m" arbitrary: m)
  case (Suc d)
  then have eq: "[m..<n] = m # [Suc m..<n]" and d: "d = n - Suc m" by (simp_all add: upt_conv_Cons)
  show ?case
  proof (cases "Ystart (a ! m) \<le> y")
    case False
    then have IH: "Suc m \<le> p" "p < n" "Ystart (a ! p) \<le> y" "\<And>i. Suc m \<le> i \<Longrightarrow> i < p \<Longrightarrow> y < Ystart (a ! i)"
      using Suc.hyps(1) [OF d] Suc.prems eq by auto
    have "y < Ystart (a ! i)" if "m \<le> i" "i < p" for i
      using IH(4) [of i] that False by (cases "i = m") auto
    then show ?thesis using IH by auto
  qed (use Suc.prems Suc.hyps(2) eq in auto)
qed simp

lemma insert_pos_exists: "i \<in> set is \<Longrightarrow> Ystart (a ! i) \<le> y \<Longrightarrow> insert_pos a y is \<noteq> None"
  by (induction "is") auto

lemma descending_insert:
  assumes "descending us"
  shows "descending (insert_at (steps_above (Ystart u) us) u us)"
proof -
  let ?P = "\<lambda>v. Ystart u < Ystart v"
  have eq: "insert_at (steps_above (Ystart u) us) u us = takeWhile ?P us @ u # dropWhile ?P us"
    by (simp add: insert_at_def steps_above_def dropWhile_eq_drop takeWhile_eq_take [symmetric])
  have tw: "\<forall>v \<in> set (takeWhile ?P us). Ystart u < Ystart v" by (auto dest: set_takeWhileD)
  have s: "sorted_wrt (\<lambda>u v. Ystart v \<le> Ystart u) (takeWhile ?P us @ dropWhile ?P us)"
    using assms by (simp add: descending_def)
  have dw: "\<forall>v \<in> set (dropWhile ?P us). Ystart v \<le> Ystart u"
  proof (cases "dropWhile ?P us")
    case (Cons w ws)
    then have "\<not> ?P w" by (metis hd_dropWhile list.distinct(1) list.sel(1))
    with s Cons show ?thesis by (auto simp: sorted_wrt_append)
  qed (simp only: list.set ball_empty)
  have "Ystart y \<le> Ystart x" if "x \<in> set (takeWhile ?P us)" "y \<in> set (dropWhile ?P us)" for x y
    using s that by (simp only: sorted_wrt_append)
  then show ?thesis using s tw dw by (auto simp: descending_def eq sorted_wrt_append order.strict_implies_order)
qed

lemma put_step_lists:
  fixes u a b c
  assumes "lists_ok L" and "q_nLen (stepQ L) < STEP_LISTS_LEN" and "k \<le> q_nLen (stepQ L)"
  defines "L' \<equiv> (put_step k u a b c L)\<lparr>stepQ := (stepQ (put_step k u a b c L))\<lparr>q_nLen := q_nLen (stepQ L) + 1\<rparr>\<rparr>"
  shows "lists_ok L'" "steps (stepQ L') = insert_at k u (steps (stepQ L))"
    "take (q_nLen (stepQ L')) (pMeanList L') = insert_at k a (take (q_nLen (stepQ L)) (pMeanList L))"
    "take (q_nLen (stepQ L')) (pCountList L') = insert_at k b (take (q_nLen (stepQ L)) (pCountList L))"
    "take (q_nLen (stepQ L')) (pDiffList L') = insert_at k c (take (q_nLen (stepQ L)) (pDiffList L))"
  using assms(1-3) shift_in_take [OF assms(3), of "pSteep (stepQ L)" u] shift_in_take [OF assms(3), of "pMeanList L" a]
    shift_in_take [OF assms(3), of "pCountList L" b] shift_in_take [OF assms(3), of "pDiffList L" c]
  by (auto simp: L'_def put_step_def Let_def lists_ok_def queue_ok_def steps_def insert_at_def STEP_LISTS_LEN_def
      QUEUE_S_LEN_def)

lemma GetFallingUnitList_pos:
  assumes "lists_ok L" and "descending (steps (stepQ L))" and "q_nLen (stepQ L) < STEP_LISTS_LEN"
    and u: "u = step_summary fp junk D n q" and m: "step_means avg q = (MeanH, CountDiff, MeanDiff, avg')"
    and k: "k = steps_above (Ystart u) (steps (stepQ L))"
  shows "GetFallingUnitList fp junk D n q avg L
    = Some (avg', (put_step k u MeanH CountDiff MeanDiff L)
        \<lparr>stepQ := (stepQ (put_step k u MeanH CountDiff MeanDiff L))\<lparr>q_nLen := q_nLen (stepQ L) + 1\<rparr>\<rparr>)"
proof -
  let ?n = "q_nLen (stepQ L)" and ?a = "pSteep (stepQ L)" and ?us = "steps (stepQ L)"
  have l: "length ?us = ?n" using assms(1) by (simp add: lists_ok_def)
  show ?thesis
  proof (cases "?n = 0 \<or> Ystart (?a ! (?n - 1)) > Ystart u")
    case True
    have "Ystart u < Ystart (?us ! i)" if "i < ?n" for i
    proof -
      have "Ystart (?us ! (?n - 1)) \<le> Ystart (?us ! i)"
        using assms(2) that l unfolding descending_def
        by (cases "i = ?n - 1") (auto dest: sorted_wrt_nth_less [where i = i and j = "?n - 1"])
      then show ?thesis using True that by (simp add: nth_steps)
    qed
    then have "k = ?n" unfolding k using l by (intro steps_above_eqI) auto
    then show ?thesis using True assms(3) m u by (simp add: GetFallingUnitList_def Let_def)
  next
    case False
    then obtain p where p: "insert_pos ?a (Ystart u) [0..<?n] = Some p"
      using insert_pos_exists [of "?n - 1" "[0..<?n]" ?a "Ystart u"] by fastforce
    have "k = p" unfolding k
      using insert_pos_Some [OF p] l by (intro steps_above_eqI) (auto simp: nth_steps)
    then show ?thesis using False p assms(3) m u by (simp add: GetFallingUnitList_def Let_def)
  qed
qed

section \<open>Properties\<close>

text \<open>C19: What is left of a step's pulses after the doubtful ones are cut lies in the window of at most 400
  filtered samples, begins no later than it ends, carries the pressures of the data at its ends, and each
  pulse begins more than 30 samples after the one before, so that there are at most 14.\<close>

theorem pulses_spaced:
  assumes "queue_ok q"
  shows "queue_ok (QerrCutFalling fp (GetSteepFalling fp D n a b c q))
    \<and> pulse_list D (nat (min 400 n) - 1) (steps (QerrCutFalling fp (GetSteepFalling fp D n a b c q)))
    \<and> length (steps (QerrCutFalling fp (GetSteepFalling fp D n a b c q))) \<le> 14"
proof -
  let ?q = "GetSteepFalling fp D n a b c q"
  note P = GetSteepFalling_ok [OF assms, of D n fp a b c]
  have ok: "queue_ok ?q" using P by (simp add: pulses_ok_def)
  have l: "pulse_list D (nat (min 400 n) - 1) (steps (QerrCutFalling fp ?q))"
    by (rule QerrCutFalling_pulses [OF ok pulses_ok_list [OF P]])
  have "length (steps (QerrCutFalling fp ?q)) \<le> 14"
    using pulse_list_count [OF l] by (cases "steps (QerrCutFalling fp ?q) = []") auto
  with l ok show ?thesis by (simp add: QerrCutFalling_ok)
qed

definition empty_queue :: QUEUE_S where
  "empty_queue = \<lparr>pSteep = replicate QUEUE_S_LEN (Get_STEEP_UNIT 0 0 0 0 0 0), q_nLen = 0\<rparr>"

lemma empty_queue_ok [simp]: "queue_ok empty_queue" "steps empty_queue = []" "q_nLen empty_queue = 0"
  by (simp_all add: empty_queue_def queue_ok_def steps_def)

lemma pulses_spaced_witness:
  "length (steps (QerrCutFalling exact_alg_fpu
     (GetSteepFalling exact_alg_fpu [0, 500, 400, 100, 50] 5 400 0.3 0.1 empty_queue))) \<le> 14"
  using pulses_spaced [OF empty_queue_ok(1)] by blast

text \<open>C17: A new step enters the list of all steps at the place its pressure has in the descending order,
  behind the steps above it and in front of all others; the three lists of mean heights, interval counts and
  mean intervals receive their values at the same place, nothing is lost, and the order is kept.\<close>

theorem step_inserted:
  assumes "lists_ok L" and "descending (steps (stepQ L))" and "q_nLen (stepQ L) < STEP_LISTS_LEN"
    and "step_means avg q = (MeanH, CountDiff, MeanDiff, avg')"
  shows "\<exists>L'. GetFallingUnitList fp junk D n q avg L = Some (avg', L') \<and> lists_ok L'
    \<and> descending (steps (stepQ L')) \<and> q_nLen (stepQ L') = q_nLen (stepQ L) + 1
    \<and> (let u = step_summary fp junk D n q; k = steps_above (Ystart u) (steps (stepQ L)); m = q_nLen (stepQ L)
       in steps (stepQ L') = insert_at k u (steps (stepQ L))
        \<and> take (m + 1) (pMeanList L') = insert_at k MeanH (take m (pMeanList L))
        \<and> take (m + 1) (pCountList L') = insert_at k CountDiff (take m (pCountList L))
        \<and> take (m + 1) (pDiffList L') = insert_at k MeanDiff (take m (pDiffList L)))"
proof -
  let ?u = "step_summary fp junk D n q" and ?m = "q_nLen (stepQ L)"
  let ?k = "steps_above (Ystart ?u) (steps (stepQ L))"
  let ?L = "(put_step ?k ?u MeanH CountDiff MeanDiff L)
      \<lparr>stepQ := (stepQ (put_step ?k ?u MeanH CountDiff MeanDiff L))\<lparr>q_nLen := ?m + 1\<rparr>\<rparr>"
  have k: "?k \<le> ?m" using assms(1) length_steps [of "stepQ L"] by (metis lists_ok_def steps_above_le)
  note P = put_step_lists [OF assms(1,3) k, of ?u MeanH CountDiff MeanDiff]
  have "q_nLen (stepQ ?L) = ?m + 1" by simp
  moreover have "descending (steps (stepQ ?L))" unfolding P(2) by (rule descending_insert [OF assms(2)])
  ultimately show ?thesis
    unfolding Let_def using P GetFallingUnitList_pos [OF assms(1-3) refl assms(4) refl]
    by (intro exI [of _ ?L]) simp
qed

definition empty_lists :: step_lists where
  "empty_lists = \<lparr>stepQ = empty_queue, pDiffList = replicate STEP_LISTS_LEN 0, pCountList = replicate STEP_LISTS_LEN 0,
     pMeanList = replicate STEP_LISTS_LEN 0\<rparr>"

lemma empty_lists_ok [simp]: "lists_ok empty_lists" "descending (steps (stepQ empty_lists))" "q_nLen (stepQ empty_lists) = 0"
  by (simp_all add: empty_lists_def lists_ok_def descending_def)

lemma step_inserted_witness:
  "\<exists>L'. GetFallingUnitList exact_alg_fpu 0 [20, 20] 2 empty_queue 0 empty_lists = Some (0, L')
     \<and> descending (steps (stepQ L')) \<and> q_nLen (stepQ L') = 1"
proof -
  have "q_nLen (stepQ empty_lists) < STEP_LISTS_LEN" by (simp add: STEP_LISTS_LEN_def)
  moreover have "step_means 0 empty_queue = (0, 0, 0, 0)" by (simp add: step_means_def)
  ultimately show ?thesis
    using step_inserted [OF empty_lists_ok(1,2), of 0 empty_queue 0 0 0 0 exact_alg_fpu 0 "[20, 20]" 2]
    by (auto simp: Let_def)
qed

end
