(* ===== verification/Single.thy ===== *)
theory Single
  imports AlgLib
begin

text \<open>
  The single precision format of the analyses, as far as their theorems need it.  The programs' floating point
  operations take the rounding as an argument (\<open>fpu\<close>, \<open>alg_fpu\<close>); \<open>single_prec\<close> says of it what IEEE 754 says of
  every rounding mode: its results are numbers of the format, on these it changes nothing, and it is
  monotone.  The exponent has the lower bound of the format and no upper one: overflow is not modelled.  From this come the error of
  a rounding and of a sum, and \<open>chop_fpu\<close>, which cuts the digits beyond the 24th off, shows that there is such
  a rounding.
\<close>

section \<open>Numbers of the format\<close>

text \<open>24 bits times a power of two from the least number, two to the -149, on.\<close>

definition float_value :: "real \<Rightarrow> bool" where
  "float_value r \<longleftrightarrow> (\<exists>m k. \<bar>m\<bar> \<le> 2 ^ 24 \<and> r * 2 ^ 149 = real_of_int (m * 2 ^ k))"

lemma float_valueI: "\<bar>m\<bar> \<le> 2 ^ 24 \<Longrightarrow> r * 2 ^ 149 = real_of_int (m * 2 ^ k) \<Longrightarrow> float_value r"
  unfolding float_value_def by blast

lemma float_value_scale: "float_value r \<Longrightarrow> float_value (r * 2 ^ j)"
proof -
  assume "float_value r"
  then obtain m k where "\<bar>m\<bar> \<le> 2 ^ 24" "r * 2 ^ 149 = real_of_int (m * 2 ^ k)" unfolding float_value_def by blast
  then show ?thesis by (intro float_valueI [of m _ "k + j"]) (simp_all add: power_add algebra_simps)
qed

lemma float_value_uminus: "float_value (- r) = float_value r"
proof -
  have "float_value (- r)" if "float_value r" for r
  proof -
    obtain m k where "\<bar>m\<bar> \<le> 2 ^ 24" "r * 2 ^ 149 = real_of_int (m * 2 ^ k)" using \<open>float_value r\<close> unfolding float_value_def by blast
    then show ?thesis by (intro float_valueI [of "- m" _ k]) simp_all
  qed
  from this [of r] this [of "- r"] show ?thesis by auto
qed

lemma float_value_24: "\<bar>m\<bar> \<le> 2 ^ 24 \<Longrightarrow> float_value (real_of_int m / 2 ^ 24)"
  by (rule float_valueI [of m _ 125]) simp_all

lemma float_value_int: "\<bar>m\<bar> \<le> 2 ^ 24 \<Longrightarrow> float_value (real_of_int m)"
  using float_value_scale [OF float_value_24, of m 24] by simp

lemma float_value_times_256: "\<bar>m\<bar> \<le> 2 ^ 24 \<Longrightarrow> float_value (real_of_int m * 256)"
  using float_value_scale [OF float_value_int, of m 8] by simp

text \<open>From a half to one the numbers of the format are the multiples of two to the -24.\<close>

lemma float_value_half_one:
  assumes "float_value c" "1 / 2 \<le> c" "c \<le> 1"
  obtains m where "c = real_of_int m / 2 ^ 24" "2 ^ 23 \<le> m" "m \<le> 2 ^ 24"
proof -
  obtain m k where m: "\<bar>m\<bar> \<le> 2 ^ 24" "c * 2 ^ 149 = real_of_int (m * 2 ^ k)" using assms(1) unfolding float_value_def by blast
  have "\<exists>j. c = real_of_int j / 2 ^ 24"
  proof (cases "125 \<le> k")
    case True
    then obtain i where "k = 125 + i" using le_Suc_ex by blast
    then have "c = real_of_int (m * 2 ^ i) / 2 ^ 24" using m(2) by (simp add: power_add field_simps)
    then show ?thesis by blast
  next
    case False
    then have "(2 :: real) ^ k \<le> 2 ^ 124" by (intro power_increasing) simp_all
    moreover have "m \<le> 2 ^ 24" using m(1) by linarith
    then have "real_of_int m \<le> 2 ^ 24" by simp
    ultimately have "real_of_int m * 2 ^ k \<le> 2 ^ 24 * 2 ^ 124" by (intro mult_mono) simp_all
    then have "c * 2 ^ 149 \<le> 2 ^ 148" using m(2) by simp
    then have "c \<le> 1 / 2" by simp
    then have "c = real_of_int (2 ^ 23) / 2 ^ 24" using assms(2) by simp
    then show ?thesis by blast
  qed
  then obtain j where "c = real_of_int j / 2 ^ 24" by blast
  moreover from this have "2 ^ 23 \<le> j" "j \<le> 2 ^ 24" using assms(2,3) by simp_all
  ultimately show ?thesis using that by blast
qed

section \<open>Rounding\<close>

definition single_prec :: "alg_fpu \<Rightarrow> bool" where
  "single_prec fp \<longleftrightarrow> mono (fl fp) \<and> (\<forall>r. float_value (fl fp r)) \<and> (\<forall>r. float_value r \<longrightarrow> fl fp r = r)
     \<and> (\<forall>r. \<bar>r\<bar> < 2 ^ 31 \<longrightarrow> cvs fp r = trunc r)"

lemma single_precD:
  assumes "single_prec fp"
  shows "x \<le> y \<Longrightarrow> fl fp x \<le> fl fp y" "float_value (fl fp r)" "float_value r \<Longrightarrow> fl fp r = r"
    "\<bar>r\<bar> < 2 ^ 31 \<Longrightarrow> cvs fp r = trunc r"
  using assms by (auto simp: single_prec_def mono_def)

lemma single_prec_le: "single_prec fp \<Longrightarrow> float_value y \<Longrightarrow> x \<le> y \<Longrightarrow> fl fp x \<le> y"
  and single_prec_ge: "single_prec fp \<Longrightarrow> float_value x \<Longrightarrow> x \<le> y \<Longrightarrow> x \<le> fl fp y"
  by (metis single_precD(1,3))+

lemma single_prec_int: "single_prec fp \<Longrightarrow> \<bar>n\<bar> \<le> 2 ^ 24 \<Longrightarrow> fl fp (real_of_int n) = real_of_int n"
  using single_precD(3) [of fp "real_of_int n"] float_value_int [of n] by simp

lemma single_prec_zero: "single_prec fp \<Longrightarrow> fl fp 0 = 0"
  using single_prec_int [of fp 0] by simp

lemma single_prec_nonneg: "single_prec fp \<Longrightarrow> 0 \<le> x \<Longrightarrow> 0 \<le> fl fp x"
  using single_prec_ge [OF _ float_value_int [of 0], of fp x] by simp

text \<open>The exponent of a number, in multiples of the least number of the format.\<close>

definition chop_exp :: "real \<Rightarrow> nat" where
  "chop_exp R = (if R < 2 ^ 24 then 0 else nat (\<lfloor>log 2 R\<rfloor> - 23))"

lemma chop_exp_bounds:
  assumes "0 \<le> R"
  shows "R < 2 ^ 24 * 2 ^ chop_exp R" "0 < chop_exp R \<Longrightarrow> 2 ^ 23 * 2 ^ chop_exp R \<le> R"
proof -
  have "R < 2 ^ 24 * 2 ^ chop_exp R \<and> 2 ^ 23 * 2 ^ chop_exp R \<le> R" if big: "\<not> R < 2 ^ 24"
  proof -
    let ?e = "\<lfloor>log 2 R\<rfloor>"
    have R: "0 < R" using big by simp
    then have *: "2 powr ?e \<le> R" "R < 2 powr (?e + 1)" using floor_log_eq_powr_iff [of R 2 ?e] by simp_all
    have "24 \<le> log 2 R" using big R by (simp add: le_log_iff)
    then have "24 \<le> ?e" by (simp add: le_floor_iff)
    then have e: "real_of_int ?e = real (23 + chop_exp R)" using big by (simp add: chop_exp_def)
    have pw: "(2 :: real) ^ n = 2 powr (real n)" for n by (simp add: powr_realpow)
    have "2 powr real_of_int ?e = (2 :: real) ^ 23 * 2 ^ chop_exp R"
      unfolding e by (simp only: pw [symmetric] power_add)
    moreover have "2 powr real_of_int (?e + 1) = (2 :: real) * 2 powr real_of_int ?e" by (simp add: powr_add)
    ultimately show ?thesis using * by simp
  qed
  then show "R < 2 ^ 24 * 2 ^ chop_exp R" "0 < chop_exp R \<Longrightarrow> 2 ^ 23 * 2 ^ chop_exp R \<le> R"
    by (auto simp: chop_exp_def split: if_splits)
qed

text \<open>The error of a rounding: one part in two to the 23, or the least number of the format.\<close>

definition ulp :: real where "ulp = 1 / 2 ^ 23"
definition tiny :: real where "tiny = 1 / 2 ^ 149"

lemma rounding_error:
  assumes fp: "single_prec fp" and "0 \<le> r"
  shows "fl fp r \<le> (1 + ulp) * r + tiny" "(1 - ulp) * r - tiny \<le> fl fp r"
    "1 / 2 ^ 125 \<le> r \<Longrightarrow> fl fp r \<le> (1 + ulp) * r"
proof -
  define R where "R = r * 2 ^ 149"
  define k where "k = chop_exp R"
  define m where "m = \<lfloor>R / 2 ^ k\<rfloor>"
  have R: "0 \<le> R" using assms(2) by (simp add: R_def)
  note b = chop_exp_bounds [OF R, folded k_def]
  have m: "0 \<le> m" "m + 1 \<le> 2 ^ 24"
    using R b(1) by (simp_all add: m_def divide_less_eq floor_less_iff)
  have lh: "real_of_int m * 2 ^ k \<le> R" "R \<le> real_of_int (m + 1) * 2 ^ k"
    using floor_correct [of "R / 2 ^ k"] unfolding m_def [symmetric] by (simp_all add: field_simps)
  have fv: "float_value (real_of_int (j * 2 ^ k) / 2 ^ 149)" if "j = m \<or> j = m + 1" for j
    using that m by (intro float_valueI [of j _ k]) auto
  have up: "fl fp r \<le> real_of_int ((m + 1) * 2 ^ k) / 2 ^ 149"
    by (rule single_prec_le [OF fp fv]) (use lh in \<open>simp_all add: R_def field_simps\<close>)
  moreover have "real_of_int (m * 2 ^ k) / 2 ^ 149 \<le> fl fp r"
    by (rule single_prec_ge [OF fp fv]) (use lh in \<open>simp_all add: R_def field_simps\<close>)
  moreover have gap: "2 ^ k / 2 ^ 149 \<le> ulp * r" if "0 < k"
    using b(2) [OF that] by (simp add: ulp_def R_def field_simps)
  then have "2 ^ k / 2 ^ 149 \<le> ulp * r + tiny"
    using assms(2) by (cases "k = 0") (simp_all add: tiny_def ulp_def add_increasing2)
  moreover have dist: "real_of_int ((m + 1) * 2 ^ k) / 2 ^ 149 \<le> r + 2 ^ k / 2 ^ 149"
    "r - 2 ^ k / 2 ^ 149 \<le> real_of_int (m * 2 ^ k) / 2 ^ 149"
    using lh by (simp_all add: R_def field_simps)
  ultimately show "fl fp r \<le> (1 + ulp) * r + tiny" "(1 - ulp) * r - tiny \<le> fl fp r"
    by (simp_all only: distrib_right left_diff_distrib mult_1)
  assume "1 / 2 ^ 125 \<le> r"
  then have "2 ^ 24 \<le> R" by (simp add: R_def field_simps)
  then have "0 < k" using b(1) by (cases "k = 0") simp_all
  then have "2 ^ k / 2 ^ 149 \<le> ulp * r" by (rule gap)
  with up dist(1) have "fl fp r \<le> r + ulp * r" by linarith
  then show "fl fp r \<le> (1 + ulp) * r" by (simp only: distrib_right mult_1)
qed

section \<open>A rounding\<close>

definition chop_nonneg :: "real \<Rightarrow> real" where
  "chop_nonneg r = (let R = r * 2 ^ 149; k = chop_exp R in real_of_int (\<lfloor>R / 2 ^ k\<rfloor> * 2 ^ k) / 2 ^ 149)"

definition chop :: "real \<Rightarrow> real" where "chop r = (if 0 \<le> r then chop_nonneg r else - chop_nonneg (- r))"

definition chop_fpu :: alg_fpu where
  "chop_fpu = fpu.extend \<lparr>fl = chop, cv32 = (\<lambda>r. of_int \<lfloor>r\<rfloor>), cv16 = (\<lambda>r. of_int \<lfloor>r\<rfloor>)\<rparr> \<lparr>cvs = trunc\<rparr>"

lemma chop_nonneg_value:
  assumes "0 \<le> r"
  shows "float_value (chop_nonneg r)" "0 \<le> chop_nonneg r"
proof -
  let ?R = "r * 2 ^ 149"
  let ?m = "\<lfloor>?R / 2 ^ chop_exp ?R\<rfloor>"
  have m: "0 \<le> ?m" "?m < 2 ^ 24"
    using chop_exp_bounds(1) [of ?R] assms by (simp_all add: floor_less_iff divide_less_eq)
  then show "0 \<le> chop_nonneg r" by (simp add: chop_nonneg_def Let_def)
  show "float_value (chop_nonneg r)"
    using m by (intro float_valueI [of ?m _ "chop_exp ?R"]) (simp_all add: chop_nonneg_def Let_def)
qed

lemma chop_nonneg_fixed:
  assumes "0 \<le> r" "float_value r"
  shows "chop_nonneg r = r"
proof -
  define R where "R = r * 2 ^ 149"
  define k where "k = chop_exp R"
  obtain m j where m: "\<bar>m\<bar> \<le> 2 ^ 24" "R = real_of_int (m * 2 ^ j)" using assms(2) unfolding float_value_def R_def by blast
  have R: "0 \<le> R" using assms(1) by (simp add: R_def)
  note b = chop_exp_bounds [OF R, folded k_def]
  have "\<exists>i. R = real_of_int i * 2 ^ k"
  proof (cases "k \<le> j")
    case True
    then obtain l where "j = k + l" using le_Suc_ex by blast
    then have "R = real_of_int (m * 2 ^ l) * 2 ^ k" using m(2) by (simp add: power_add)
    then show ?thesis by blast
  next
    case False
    then obtain l where l: "k = Suc (j + l)" using less_iff_Suc_add [of j k] by auto
    have "2 ^ 24 * 2 ^ (j + l) \<le> R" using b(2) l by simp
    have "m \<le> 2 ^ 24" using m(1) by linarith
    then have "real_of_int m * 2 ^ j \<le> 2 ^ 24 * 2 ^ j" by (intro mult_right_mono) simp_all
    then have "R \<le> 2 ^ 24 * 2 ^ j" using m(2) by simp
    also have "(2 :: real) ^ 24 * 2 ^ j \<le> 2 ^ 24 * 2 ^ (j + l)" by (intro mult_left_mono power_increasing) simp_all
    finally have "R \<le> 2 ^ 24 * 2 ^ (j + l)" .
    with \<open>2 ^ 24 * 2 ^ (j + l) \<le> R\<close> have "R = 2 ^ 24 * 2 ^ (j + l)" by (rule antisym [rotated])
    then have "R = real_of_int (2 ^ 23) * 2 ^ k" using l by simp
    then show ?thesis by blast
  qed
  then obtain i where i: "R = real_of_int i * 2 ^ k" by blast
  have "chop_nonneg r = real_of_int (\<lfloor>R / 2 ^ k\<rfloor> * 2 ^ k) / 2 ^ 149" by (simp add: chop_nonneg_def Let_def R_def k_def)
  also have "\<dots> = R / 2 ^ 149" by (simp add: i)
  finally show ?thesis by (simp add: R_def)
qed

lemma chop_nonneg_mono:
  assumes "0 \<le> x" "x \<le> y"
  shows "chop_nonneg x \<le> chop_nonneg y"
proof -
  define X Y where "X = x * 2 ^ 149" "Y = y * 2 ^ 149"
  have XY: "0 \<le> X" "X \<le> Y" "0 \<le> Y" using assms by (simp_all add: X_Y_def)
  have le: "real_of_int (\<lfloor>X / 2 ^ chop_exp X\<rfloor> * 2 ^ chop_exp X) \<le> real_of_int (\<lfloor>Y / 2 ^ chop_exp Y\<rfloor> * 2 ^ chop_exp Y)"
  proof (cases "chop_exp X = chop_exp Y")
    case True
    have "\<lfloor>X / 2 ^ chop_exp Y\<rfloor> \<le> \<lfloor>Y / 2 ^ chop_exp Y\<rfloor>" using XY by (intro floor_mono divide_right_mono) simp_all
    then show ?thesis unfolding True by simp
  next
    case False
    have "chop_exp X \<le> chop_exp Y"
    proof (cases "X < 2 ^ 24")
      case False
      then have "log 2 X \<le> log 2 Y" using XY by simp
      then have "nat (\<lfloor>log 2 X\<rfloor> - 23) \<le> nat (\<lfloor>log 2 Y\<rfloor> - 23)" by (intro nat_mono diff_right_mono floor_mono)
      then show ?thesis using False XY by (simp add: chop_exp_def)
    qed (simp add: chop_exp_def)
    with False have lt: "Suc (chop_exp X) \<le> chop_exp Y" by simp
    have "real_of_int (\<lfloor>X / 2 ^ chop_exp X\<rfloor> * 2 ^ chop_exp X) \<le> X"
      using mult_right_mono [OF of_int_floor_le [of "X / 2 ^ chop_exp X"], of "2 ^ chop_exp X"] by simp
    also have "X \<le> 2 ^ 23 * 2 ^ Suc (chop_exp X)" using chop_exp_bounds(1) [OF XY(1)] by simp
    also have "\<dots> \<le> 2 ^ 23 * 2 ^ chop_exp Y" using lt by (intro mult_left_mono power_increasing) simp_all
    also have "\<dots> \<le> real_of_int (\<lfloor>Y / 2 ^ chop_exp Y\<rfloor>) * 2 ^ chop_exp Y"
    proof (rule mult_right_mono)
      have "(2 :: real) ^ 23 \<le> Y / 2 ^ chop_exp Y" using chop_exp_bounds(2) [OF XY(3)] lt by (simp add: pos_le_divide_eq)
      then have "(2 :: int) ^ 23 \<le> \<lfloor>Y / 2 ^ chop_exp Y\<rfloor>" by (simp add: le_floor_iff)
      then show "(2 :: real) ^ 23 \<le> real_of_int \<lfloor>Y / 2 ^ chop_exp Y\<rfloor>" by (simp add: numeral_power_le_of_int_cancel_iff)
    qed simp
    finally show ?thesis by simp
  qed
  show ?thesis using le unfolding chop_nonneg_def Let_def X_Y_def by (intro divide_right_mono) simp_all
qed

lemma chop_single_prec: "single_prec chop_fpu"
proof -
  have sel: "fl chop_fpu = chop" "cvs chop_fpu = trunc" by (simp_all add: chop_fpu_def fpu.defs)
  have "mono chop"
  proof (rule monoI)
    fix x y :: real
    assume xy: "x \<le> y"
    consider "0 \<le> x" | "x < 0" "0 \<le> y" | "y < 0" by linarith
    then show "chop x \<le> chop y"
    proof cases
      case 2
      then have "0 \<le> chop_nonneg (- x)" "0 \<le> chop_nonneg y" by (simp_all add: chop_nonneg_value)
      with 2 show ?thesis by (simp add: chop_def)
    qed (use xy in \<open>simp_all add: chop_def chop_nonneg_mono\<close>)
  qed
  moreover have "float_value (chop r)" for r by (simp add: chop_def chop_nonneg_value float_value_uminus)
  moreover have "chop r = r" if "float_value r" for r
    using that chop_nonneg_fixed [of r] chop_nonneg_fixed [of "- r"] by (simp add: chop_def float_value_uminus)
  ultimately show ?thesis by (simp add: single_prec_def sel)
qed

end
