(* ===== verification/NibpFeature.thy ===== *)
theory NibpFeature
  imports NibpSteps Single
begin

text \<open>
  \<open>NIBPAlgorithm/NIBPAlgorithmV1000.c\<close>, from the list of steps to the blood pressure: the smoothing of
  the step energies (\<open>ForEnergy\<close>), the choice of the steps that count (\<open>NIBPProcessQWithEnd\<close>), the curve of
  energy over pressure (\<open>GetFeatureList\<close>, \<open>FilFeatureList\<close>), the three pressures (\<open>NIBPfromFeature\<close>) and
  their correction (\<open>ForResult\<close>, \<open>ForReliability\<close>).
\<close>

section \<open>Smoothing the energies\<close>

definition smooth_pass :: "nat \<Rightarrow> int list \<Rightarrow> nat \<Rightarrow> int list" where
  "smooth_pass n e MaxIndex =
     fst (fold (\<lambda>ii (a, DataBKLast).
       let DataBKNow = a ! ii;
           hi = my_max DataBKLast (a ! (ii + 1)); lo = my_min DataBKLast (a ! (ii + 1));
           a = (if ii \<noteq> MaxIndex
                then if a ! ii > hi then a[ii := hi] else if a ! ii < lo then a[ii := lo] else a
                else a)
       in (a, DataBKNow)) [1..<n - 1] (e, e ! 0))"

definition fall_pass :: "nat \<Rightarrow> nat \<Rightarrow> int list \<Rightarrow> int list" where
  "fall_pass n MaxIndex a =
     fold (\<lambda>ii a. if a ! ii > a ! (ii - 1) then a[ii := a ! (ii - 1)] else a) [MaxIndex + 1..<n] a"

definition rise_pass :: "nat \<Rightarrow> int list \<Rightarrow> int list" where
  "rise_pass MaxIndex a =
     fold (\<lambda>ii a. if a ! ii > a ! (ii + 1) then a[ii := a ! (ii + 1)] else a) (rev [0..<MaxIndex]) a"

definition max_energy_index :: "int list \<Rightarrow> nat" where
  "max_energy_index e =
     snd (fold (\<lambda>ii (mx, k). if e ! ii > mx then (e ! ii, ii) else (mx, k)) [0..<length e] (0, 0))"

definition smooth_energies :: "int list \<Rightarrow> int list" where
  "smooth_energies e =
     (let n = length e; m = max_energy_index e
      in if n \<ge> 3 then rise_pass m (fall_pass n m (smooth_pass n e m)) else e)"

definition ForEnergy :: "QUEUE_S \<Rightarrow> QUEUE_S" where
  "ForEnergy q =
     (let n = q_nLen q; a = smooth_energies (List.map (\<lambda>ii. energy (pSteep q ! ii)) [0..<n])
      in q\<lparr>pSteep := upd_loop n (\<lambda>ii p. (p ! ii)\<lparr>Yend := i32 (a ! ii + Ystart (p ! ii))\<rparr>) (pSteep q)\<rparr>)"

lemma fall_pass_spec:
  "m < n \<Longrightarrow> n \<le> length a \<Longrightarrow> length (fall_pass n m a) = length a
     \<and> (\<forall>k < length a. k \<le> m \<or> n \<le> k \<longrightarrow> fall_pass n m a ! k = a ! k)
     \<and> (\<forall>k. m < k \<and> k < n \<longrightarrow> fall_pass n m a ! k \<le> fall_pass n m a ! (k - 1))"
proof (induction n)
  case (Suc n)
  show ?case
  proof (cases "m < n")
    case False
    then have "n = m" using Suc.prems by simp
    then show ?thesis by (auto simp: fall_pass_def)
  next
    case True
    let ?b = "fall_pass n m a"
    have IH: "length ?b = length a" "\<And>k. k < length a \<Longrightarrow> k \<le> m \<or> n \<le> k \<Longrightarrow> ?b ! k = a ! k"
      "\<And>k. m < k \<Longrightarrow> k < n \<Longrightarrow> ?b ! k \<le> ?b ! (k - 1)"
      using Suc.IH True Suc.prems by auto
    have eq: "fall_pass (Suc n) m a = (if ?b ! n > ?b ! (n - 1) then ?b[n := ?b ! (n - 1)] else ?b)"
      using True by (simp add: fall_pass_def)
    have "fall_pass (Suc n) m a ! k \<le> fall_pass (Suc n) m a ! (k - 1)" if "m < k" "k < Suc n" for k
      using IH(3) [of k] that Suc.prems(2) IH(1) by (auto simp: eq nth_list_update less_Suc_eq)
    then show ?thesis using IH(1,2) Suc.prems True by (auto simp: eq nth_list_update)
  qed
qed simp

lemma rise_pass_spec:
  "m < length a \<Longrightarrow> length (rise_pass m a) = length a
     \<and> (\<forall>k < length a. m \<le> k \<longrightarrow> rise_pass m a ! k = a ! k)
     \<and> (\<forall>k < m. rise_pass m a ! k \<le> rise_pass m a ! Suc k)"
proof (induction m arbitrary: a)
  case (Suc m)
  let ?b = "if a ! m > a ! Suc m then a[m := a ! Suc m] else a"
  have eq: "rise_pass (Suc m) a = rise_pass m ?b" by (simp add: rise_pass_def)
  have IH: "length (rise_pass m ?b) = length ?b" "\<And>k. k < length ?b \<Longrightarrow> m \<le> k \<Longrightarrow> rise_pass m ?b ! k = ?b ! k"
    "\<And>k. k < m \<Longrightarrow> rise_pass m ?b ! k \<le> rise_pass m ?b ! Suc k"
    using Suc.IH [of ?b] Suc.prems by auto
  have "rise_pass m ?b ! k \<le> rise_pass m ?b ! Suc k" if "k < Suc m" for k
    using IH(3) [of k] IH(2) [of m] IH(2) [of "Suc m"] that Suc.prems by (cases "k = m") (auto simp: nth_list_update)
  then show ?case using IH(1,2) Suc.prems by (auto simp: eq nth_list_update)
qed (simp add: rise_pass_def)

lemma smooth_pass_peak:
  "length (smooth_pass n e m) = length e \<and> (m < length e \<longrightarrow> smooth_pass n e m ! m = e ! m)"
proof -
  let ?f = "\<lambda>ii (a, DataBKLast :: int).
       let DataBKNow = a ! ii;
           hi = my_max DataBKLast (a ! (ii + 1)); lo = my_min DataBKLast (a ! (ii + 1));
           a = (if ii \<noteq> m
                then if a ! ii > hi then a[ii := hi] else if a ! ii < lo then a[ii := lo] else a
                else a)
       in (a, DataBKNow)"
  have "length (fst (fold ?f is (a, x))) = length a \<and> (m < length a \<longrightarrow> fst (fold ?f is (a, x)) ! m = a ! m)" for "is" a x
    by (induction "is" arbitrary: a x) (auto simp: Let_def)
  then show ?thesis by (auto simp: smooth_pass_def)
qed

lemma max_energy_index_less: "e \<noteq> [] \<Longrightarrow> max_energy_index e < length e"
proof -
  assume "e \<noteq> []"
  let ?f = "\<lambda>ii (mx, k). if e ! ii > mx then (e ! ii, ii) else (mx, k)"
  have "snd (fold ?f is (x, k)) < length e" if "k < length e" "\<forall>i \<in> set is. i < length e" for "is" x k
    using that by (induction "is" arbitrary: x k) auto
  then show ?thesis using \<open>e \<noteq> []\<close> by (simp add: max_energy_index_def)
qed

lemma smooth_energies_length: "length (smooth_energies e) = length e"
proof (cases "length e \<ge> 3")
  case True
  then have "max_energy_index e < length e" by (intro max_energy_index_less) auto
  then show ?thesis
    using fall_pass_spec [of "max_energy_index e" "length e"] rise_pass_spec [of "max_energy_index e"]
      smooth_pass_peak [of "length e" e "max_energy_index e"]
    by (simp add: smooth_energies_def Let_def)
qed (simp add: smooth_energies_def)

text \<open>The energies rise to the strongest step and fall after it; the strongest keeps its energy.\<close>

lemma smooth_energies_unimodal:
  assumes "3 \<le> length e"
  defines "m \<equiv> max_energy_index e" and "a \<equiv> smooth_energies e"
  shows "m < length e" "a ! m = e ! m" "\<And>k. k < m \<Longrightarrow> a ! k \<le> a ! Suc k"
    "\<And>k. m < k \<Longrightarrow> k < length e \<Longrightarrow> a ! k \<le> a ! (k - 1)"
proof -
  let ?s = "smooth_pass (length e) e m" and ?f = "fall_pass (length e) m (smooth_pass (length e) e m)"
  show m: "m < length e" unfolding m_def using assms(1) by (intro max_energy_index_less) auto
  have s: "length ?s = length e" "?s ! m = e ! m" using smooth_pass_peak [of "length e" e m] m by auto
  have f: "length ?f = length e" "\<And>k. k < length e \<Longrightarrow> k \<le> m \<Longrightarrow> ?f ! k = ?s ! k"
    "\<And>k. m < k \<Longrightarrow> k < length e \<Longrightarrow> ?f ! k \<le> ?f ! (k - 1)"
    using fall_pass_spec [of m "length e" ?s] m s(1) by auto
  have a: "a = rise_pass m ?f" using assms(1) by (simp add: a_def m_def smooth_energies_def Let_def)
  have r: "\<And>k. k < length e \<Longrightarrow> m \<le> k \<Longrightarrow> a ! k = ?f ! k" "\<And>k. k < m \<Longrightarrow> a ! k \<le> a ! Suc k"
    using rise_pass_spec [of m ?f] m f(1) by (auto simp: a)
  show "a ! m = e ! m" using r(1) [of m] f(2) [of m] s(2) m by simp
  show "a ! k \<le> a ! Suc k" if "k < m" for k using r(2) that .
  show "a ! k \<le> a ! (k - 1)" if "m < k" "k < length e" for k
    using r(1) [of k] r(1) [of "k - 1"] f(3) that by auto
qed

lemma max_energy_index_max:
  assumes "j < length e" "0 < e ! j" "i < length e"
  shows "e ! i \<le> e ! max_energy_index e"
proof -
  let ?f = "\<lambda>ii (mx, k). if e ! ii > mx then (e ! ii, ii) else (mx, k)"
  have "(\<forall>i < n. e ! i \<le> fst (fold ?f [0..<n] (0, 0))) \<and> 0 \<le> fst (fold ?f [0..<n] (0, 0))
      \<and> (fst (fold ?f [0..<n] (0, 0)) = 0 \<or> fst (fold ?f [0..<n] (0, 0)) = e ! snd (fold ?f [0..<n] (0, 0)))" for n
    by (induction n) (auto simp: less_Suc_eq split: prod.split)
  from this [of "length e"] assms show ?thesis unfolding max_energy_index_def by fastforce
qed

text \<open>Every smoothed energy is one of the energies.\<close>

lemma set_upd_sub: "x \<in> S \<Longrightarrow> set a \<subseteq> S \<Longrightarrow> set (a[i := x]) \<subseteq> S"
  by (rule order_trans [OF set_update_subset_insert]) simp

lemma smooth_pass_set: "set (smooth_pass (length e) e m) \<subseteq> set e"
proof -
  let ?f = "\<lambda>ii (a, DataBKLast :: int).
       let DataBKNow = a ! ii;
           hi = my_max DataBKLast (a ! (ii + 1)); lo = my_min DataBKLast (a ! (ii + 1));
           a = (if ii \<noteq> m
                then if a ! ii > hi then a[ii := hi] else if a ! ii < lo then a[ii := lo] else a
                else a)
       in (a, DataBKNow)"
  have *: "set (fst (fold ?f is (a, x))) \<subseteq> set e \<and> length (fst (fold ?f is (a, x))) = length a"
    if "set a \<subseteq> set e" "x \<in> set e" "\<forall>i \<in> set is. i + 1 < length a" for "is" a x
    using that
  proof (induction "is" arbitrary: a x)
    case (Cons i "is")
    have mem: "a ! i \<in> set e" "a ! (i + 1) \<in> set e" using Cons.prems by auto
    then have hl: "my_max x (a ! (i + 1)) \<in> set e" "my_min x (a ! (i + 1)) \<in> set e"
      using Cons.prems(2) by (auto simp: my_max_def my_min_def)
    obtain b where b: "?f i (a, x) = (b, a ! i)" "set b \<subseteq> set e" "length b = length a"
      using set_upd_sub [OF hl(1) Cons.prems(1)] set_upd_sub [OF hl(2) Cons.prems(1)] Cons.prems(1) by (auto simp: Let_def)
    have "set (fst (fold ?f is (b, a ! i))) \<subseteq> set e \<and> length (fst (fold ?f is (b, a ! i))) = length b"
      using Cons.prems(3) b by (intro Cons.IH mem) auto
    then show ?case using b by simp
  qed simp
  show ?thesis
  proof (cases "e = []")
    case False
    show ?thesis unfolding smooth_pass_def by (rule conjunct1 [OF *]) (use False in auto)
  qed (simp add: smooth_pass_def)
qed

lemma fall_pass_set: "m < n \<Longrightarrow> n \<le> length a \<Longrightarrow> set (fall_pass n m a) \<subseteq> set a"
proof (induction n)
  case (Suc n)
  show ?case
  proof (cases "m < n")
    case True
    let ?b = "fall_pass n m a"
    have b: "set ?b \<subseteq> set a" "length ?b = length a" using Suc True fall_pass_spec [of m n a] by auto
    then have "?b ! (n - 1) \<in> set a" using Suc.prems nth_mem [of "n - 1" ?b] by auto
    from this b(1) have "set (?b[n := ?b ! (n - 1)]) \<subseteq> set a" by (rule set_upd_sub)
    then show ?thesis using b True by (simp add: fall_pass_def)
  qed (use Suc.prems in \<open>simp add: fall_pass_def\<close>)
qed simp

lemma rise_pass_set: "m < length a \<Longrightarrow> set (rise_pass m a) \<subseteq> set a"
proof (induction m arbitrary: a)
  case (Suc m)
  let ?b = "if a ! m > a ! Suc m then a[m := a ! Suc m] else a"
  have "a ! Suc m \<in> set a" using Suc.prems by simp
  then have "set ?b \<subseteq> set a" using set_upd_sub [of "a ! Suc m" "set a" a m] by auto
  moreover have "set (rise_pass m ?b) \<subseteq> set ?b" using Suc.prems by (intro Suc.IH) auto
  moreover have "rise_pass (Suc m) a = rise_pass m ?b" by (simp add: rise_pass_def)
  ultimately show ?case by simp
qed (simp add: rise_pass_def)

lemma smooth_energies_set: "set (smooth_energies e) \<subseteq> set e"
proof (cases "length e \<ge> 3")
  case True
  then have m: "max_energy_index e < length e" by (intro max_energy_index_less) auto
  let ?m = "max_energy_index e" and ?s = "smooth_pass (length e) e (max_energy_index e)"
  have s: "length ?s = length e" using smooth_pass_peak [of "length e" e ?m] by simp
  have "set (rise_pass ?m (fall_pass (length e) ?m ?s)) \<subseteq> set (fall_pass (length e) ?m ?s)"
    using m s fall_pass_spec [of ?m "length e" ?s] by (intro rise_pass_set) simp
  also have "\<dots> \<subseteq> set ?s" using m s by (intro fall_pass_set) simp_all
  also have "\<dots> \<subseteq> set e" by (rule smooth_pass_set)
  finally show ?thesis using True by (simp add: smooth_energies_def Let_def)
qed (simp add: smooth_energies_def)

definition energies :: "QUEUE_S \<Rightarrow> int list" where
  "energies q = List.map (\<lambda>ii. energy (pSteep q ! ii)) [0..<q_nLen q]"

lemma i32_add_sub: "in32 a \<Longrightarrow> i32 (i32 (a + y) - y) = a"
proof -
  assume "in32 a"
  have "i32 (i32 (a + y) - y) = i32 (a + y - y)"
    unfolding i32_def
    by (subst signed_take_bit_diff [symmetric], subst (2) signed_take_bit_diff [symmetric]) simp
  then show ?thesis using \<open>in32 a\<close> by simp
qed

lemma ForEnergy_steps:
  assumes "queue_ok q"
  shows "q_nLen (ForEnergy q) = q_nLen q" "queue_ok (ForEnergy q)"
    "energies (ForEnergy q) = smooth_energies (energies q)"
    "i < q_nLen q \<Longrightarrow> Ystart (pSteep (ForEnergy q) ! i) = Ystart (pSteep q ! i)"
proof -
  have nth: "pSteep (ForEnergy q) ! i = (pSteep q ! i)\<lparr>Yend := i32 (smooth_energies (energies q) ! i + Ystart (pSteep q ! i))\<rparr>"
    if "i < q_nLen q" for i
  proof -
    have "i < length (pSteep q)" using that assms by (simp add: queue_ok_def)
    then show ?thesis using that by (simp add: ForEnergy_def Let_def energies_def) (subst nth_upd_loop, auto)
  qed
  show n: "q_nLen (ForEnergy q) = q_nLen q" by (simp add: ForEnergy_def Let_def)
  show "queue_ok (ForEnergy q)" using assms by (simp add: ForEnergy_def Let_def queue_ok_def)
  show "i < q_nLen q \<Longrightarrow> Ystart (pSteep (ForEnergy q) ! i) = Ystart (pSteep q ! i)" using nth by simp
  have "in32 x" if "x \<in> set (smooth_energies (energies q))" for x
    using that smooth_energies_set [of "energies q"] by (auto simp: energies_def energy_def)
  then have "in32 (smooth_energies (energies q) ! i)" if "i < q_nLen q" for i
    using that by (simp add: smooth_energies_length energies_def)
  then show "energies (ForEnergy q) = smooth_energies (energies q)"
    by (intro nth_equalityI) (auto simp: n energies_def energy_def nth smooth_energies_length i32_add_sub)
qed

section \<open>The steps that count\<close>

text \<open>The two scans from the strongest step outwards, to the first energy below two fifths of the peak or
  the end of the list.\<close>

definition weak :: "alg_fpu \<Rightarrow> int \<Rightarrow> int \<Rightarrow> bool" where
  "weak fp DeltaMax e \<longleftrightarrow> flt fp e < fmul fp (flt fp DeltaMax) (fl fp 0.4)"

fun scan_to :: "(nat \<Rightarrow> bool) \<Rightarrow> nat list \<Rightarrow> nat \<Rightarrow> nat" where
  "scan_to P [] d = d"
| "scan_to P (i # is) d = (if P i then i else scan_to P is d)"

definition copy_xym :: "STEEP_UNIT \<Rightarrow> STEEP_UNIT \<Rightarrow> STEEP_UNIT" where
  "copy_xym d u = d\<lparr>Xstart := Xstart u, Ystart := Ystart u, Xend := Xend u, Yend := Yend u, Mode := Mode u\<rparr>"

definition append_steps :: "STEEP_UNIT list \<Rightarrow> QUEUE_S \<Rightarrow> QUEUE_S" where
  "append_steps us q = fold (\<lambda>u q.
     if Xstart u \<noteq> 0
     then (set_steep (q_nLen q) (copy_xym (pSteep q ! q_nLen q) u) q)\<lparr>q_nLen := q_nLen q + 1\<rparr>
     else q) us q"

definition NIBPProcessQWithEnd :: "alg_fpu \<Rightarrow> bool \<Rightarrow> QUEUE_S \<Rightarrow> bool \<times> QUEUE_S" where
  "NIBPProcessQWithEnd fp End1 q =
     (let n = q_nLen q;
          Enable = length (filter (\<lambda>i. Yend (pSteep q ! i) \<noteq> Ystart (pSteep q ! i)) [0..<n])
      in if Enable \<le> 4 then (False, q)
         else let e = energies q;
                  (DeltaMax, DeltaMaxIndex) = Max_Index_N e n
              in if DeltaMaxIndex = 0 \<or> DeltaMaxIndex = n - 1 then (False, q)
                 else let startIndex = scan_to (\<lambda>i. weak fp DeltaMax (e ! i) \<or> i = 0) (rev [0..<DeltaMaxIndex + 1]) 0;
                          endIndex = scan_to (\<lambda>i. weak fp DeltaMax (e ! i) \<or> i = n - 1) [DeltaMaxIndex..<n] (n - 1)
                      in if \<not> weak fp DeltaMax (e ! endIndex) \<and> \<not> End1 then (False, q)
                         else (True, append_steps (rev (take (endIndex + 1 - startIndex) (drop startIndex (pSteep q))))
                                 (Queue_S_Init q)))"

lemma scan_to_rev:
  "P 0 \<Longrightarrow> scan_to P (rev [0..<Suc m]) d \<le> m \<and> P (scan_to P (rev [0..<Suc m]) d)
     \<and> (\<forall>i. scan_to P (rev [0..<Suc m]) d < i \<and> i \<le> m \<longrightarrow> \<not> P i)"
proof (induction m)
  case (Suc m)
  have "rev [0..<Suc (Suc m)] = Suc m # rev [0..<Suc m]" by simp
  with Suc show ?case by (auto simp del: upt_Suc simp: le_Suc_eq)
qed auto

lemma scan_to_upt:
  "m < n \<Longrightarrow> P (n - 1) \<Longrightarrow> m \<le> scan_to P [m..<n] d \<and> scan_to P [m..<n] d < n \<and> P (scan_to P [m..<n] d)
     \<and> (\<forall>i. m \<le> i \<and> i < scan_to P [m..<n] d \<longrightarrow> \<not> P i)"
proof (induction "n - m" arbitrary: m)
  case (Suc k)
  then have eq: "[m..<n] = m # [Suc m..<n]" by (simp add: upt_conv_Cons)
  show ?case
  proof (cases "P m")
    case False
    then have "m \<noteq> n - 1" using Suc.prems by auto
    then have "Suc m < n" using Suc.prems(1) by simp
    then have IH: "Suc m \<le> scan_to P [Suc m..<n] d \<and> scan_to P [Suc m..<n] d < n \<and> P (scan_to P [Suc m..<n] d)
     \<and> (\<forall>i. Suc m \<le> i \<and> i < scan_to P [Suc m..<n] d \<longrightarrow> \<not> P i)"
      using Suc by (intro Suc.hyps(1)) auto
    have "\<not> P i" if "m \<le> i" "i < scan_to P [Suc m..<n] d" for i
      using IH False that by (cases "i = m") auto
    then show ?thesis using IH False by (simp add: eq)
  qed (use Suc.prems in \<open>auto simp: eq\<close>)
qed simp

lemma core_copy_xym [simp]: "core (copy_xym d u) = core u\<lparr>Mode := 0\<rparr>"
  by (simp add: core_def copy_xym_def)

lemma append_steps_core:
  "length (pSteep q) = QUEUE_S_LEN \<Longrightarrow> q_nLen q + length us \<le> QUEUE_S_LEN \<Longrightarrow>
   queue_ok (append_steps us q) \<and> List.map core (steps (append_steps us q))
     = List.map core (steps q) @ List.map core (filter (\<lambda>u. Xstart u \<noteq> 0) us)"
proof (induction us arbitrary: q)
  case Nil
  then show ?case by (simp add: append_steps_def queue_ok_def)
next
  case (Cons u us)
  let ?q = "(set_steep (q_nLen q) (copy_xym (pSteep q ! q_nLen q) u) q)\<lparr>q_nLen := q_nLen q + 1\<rparr>"
  have eq: "append_steps (u # us) q = append_steps us (if Xstart u \<noteq> 0 then ?q else q)"
    by (simp add: append_steps_def)
  have "List.map core (steps ?q) = List.map core (steps q) @ [core u]"
    using Cons.prems by (simp add: steps_def set_steep_def take_Suc_conv_app_nth core_def copy_xym_def)
  then show ?case unfolding eq using Cons.IH [of ?q] Cons.IH [of q] Cons.prems by (simp add: set_steep_def)
qed

text \<open>When the list of all steps is taken, what is left of it rises in pressure, and its energies come from
  a stretch around the strongest step.\<close>

definition ascending :: "STEEP_UNIT list \<Rightarrow> bool" where
  "ascending us \<longleftrightarrow> sorted_wrt (\<lambda>u v. Ystart u \<le> Ystart v) us"

lemma ascending_core: "ascending (List.map core us) \<longleftrightarrow> ascending us"
  by (simp add: ascending_def sorted_wrt_map)

lemma NIBPProcessQ_steps:
  assumes q: "queue_ok q" and p: "NIBPProcessQWithEnd fp f q = (True, q')"
  shows "queue_ok q' \<and> (\<exists>i j. i \<le> j \<and> j < q_nLen q \<and> List.map core (steps q')
           = List.map core (filter (\<lambda>u. Xstart u \<noteq> 0) (rev (take (j + 1 - i) (drop i (steps q))))))"
proof -
  let ?n = "q_nLen q" and ?e = "energies q"
  obtain mx k where m: "Max_Index_N ?e ?n = (mx, k)" by fastforce
  define i where "i = scan_to (\<lambda>i. weak fp mx (?e ! i) \<or> i = 0) (rev [0..<k + 1]) 0"
  define j where "j = scan_to (\<lambda>i. weak fp mx (?e ! i) \<or> i = ?n - 1) [k..<?n] (?n - 1)"
  have k: "k \<noteq> 0" "k \<noteq> ?n - 1" and q': "q' = append_steps (rev (take (j + 1 - i) (drop i (pSteep q)))) (Queue_S_Init q)"
    and e: "\<not> length (filter (\<lambda>i. Yend (pSteep q ! i) \<noteq> Ystart (pSteep q ! i)) [0..<?n]) \<le> 4"
    using p by (auto simp: NIBPProcessQWithEnd_def m Let_def i_def j_def split: if_splits)
  have "0 < ?n" using e by (cases "?n = 0") auto
  with Max_Index_N_best(2) [OF _ m] have kn: "k < ?n" .
  have i: "i \<le> k" using scan_to_rev [of "\<lambda>i. weak fp mx (?e ! i) \<or> i = 0" k 0] by (simp add: i_def del: upt_Suc)
  have "k \<le> j \<and> j < ?n \<and> (weak fp mx (?e ! j) \<or> j = ?n - 1) \<and> (\<forall>i. k \<le> i \<and> i < j \<longrightarrow> \<not> (weak fp mx (?e ! i) \<or> i = ?n - 1))"
    unfolding j_def by (rule scan_to_upt [OF kn]) simp
  then have j: "k \<le> j" "j < ?n" by blast+
  have seg: "take (j + 1 - i) (drop i (pSteep q)) = take (j + 1 - i) (drop i (steps q))"
    using i j by (simp add: steps_def drop_take min_absorb1)
  have l: "length (pSteep (Queue_S_Init q)) = QUEUE_S_LEN" "q_nLen (Queue_S_Init q) = 0"
    using q by (simp_all add: Queue_S_Init_def queue_ok_def)
  have "length (rev (take (j + 1 - i) (drop i (pSteep q)))) \<le> QUEUE_S_LEN"
    using q j by (auto simp: queue_ok_def)
  then have "queue_ok q' \<and> List.map core (steps q')
      = List.map core (filter (\<lambda>u. Xstart u \<noteq> 0) (rev (take (j + 1 - i) (drop i (pSteep q)))))"
    unfolding q' using append_steps_core [of "Queue_S_Init q"] l by (simp add: steps_def)
  then show ?thesis unfolding seg using i j by (intro conjI exI [of _ i] exI [of _ j]) auto
qed

lemma NIBPProcessQ_ascending:
  assumes q: "queue_ok q" "descending (steps q)" and p: "NIBPProcessQWithEnd fp f q = (True, q')"
  shows "ascending (steps q')"
proof -
  obtain i j where c: "List.map core (steps q')
      = List.map core (filter (\<lambda>u. Xstart u \<noteq> 0) (rev (take (j + 1 - i) (drop i (steps q)))))"
    using NIBPProcessQ_steps [OF q(1) p] by blast
  have "sorted_wrt (\<lambda>u v. Ystart v \<le> Ystart u) (take (j + 1 - i) (drop i (steps q)))"
    using q(2) by (auto simp: descending_def intro: sorted_wrt_take sorted_wrt_drop)
  then have "ascending (filter (\<lambda>u. Xstart u \<noteq> 0) (rev (take (j + 1 - i) (drop i (steps q)))))"
    by (simp add: ascending_def sorted_wrt_rev sorted_wrt_filter)
  then show ?thesis using c ascending_core by metis
qed

section \<open>The curve of energy over pressure\<close>

definition FEATURE_LEN :: nat where "FEATURE_LEN = 1000"

record FEATURE_LIST =
  Pressure :: "int list"
  Energy :: "int list"
  f_nLen :: int

definition feature_value :: "alg_fpu \<Rightarrow> QUEUE_S \<Rightarrow> nat \<Rightarrow> real" where
  "feature_value fp q index =
     (let y0 = Ystart (pSteep q ! 0); yl = Ystart (pSteep q ! (q_nLen q - 1))
      in fadd fp (flt fp y0)
           (fmul fp (fdiv fp (flt fp (i32 (yl - y0))) (flt fp (int FEATURE_LEN))) (flt fp (int index))))"

definition feature_pressure :: "alg_fpu \<Rightarrow> QUEUE_S \<Rightarrow> nat \<Rightarrow> int" where
  "feature_pressure fp q index = cvs fp (feature_value fp q index)"

definition feature_energy :: "alg_fpu \<Rightarrow> QUEUE_S \<Rightarrow> int list \<Rightarrow> int \<Rightarrow> nat \<Rightarrow> nat \<Rightarrow> int" where
  "feature_energy fp q e P QI QA =
     (let a = pSteep q
      in cvs fp (fadd fp (flt fp (e ! QI))
           (fmul fp (fdiv fp (flt fp (i32 (e ! QA - e ! QI))) (flt fp (i32 (Ystart (a ! QA) - Ystart (a ! QI)))))
              (flt fp (i32 (P - Ystart (a ! QI)))))))"

function next_step :: "STEEP_UNIT list \<Rightarrow> nat \<Rightarrow> int \<Rightarrow> nat \<Rightarrow> nat \<Rightarrow> nat" where
  "next_step a n P QI QA =
     (if (Ystart (a ! QA) \<le> Ystart (a ! QI) \<or> P > Ystart (a ! QA)) \<and> QA + 1 < n
      then next_step a n P QI (QA + 1) else QA)"
  by pat_completeness auto
termination by (relation "measure (\<lambda>(a, n, P, QI, QA). n - QA)") auto

declare next_step.simps [simp del]

record feature_st =
  f_index :: nat
  QIndex :: nat
  QAfterIndex :: nat
  flist :: FEATURE_LIST

definition feature_advance :: "QUEUE_S \<Rightarrow> int \<Rightarrow> feature_st \<Rightarrow> nat \<times> nat" where
  "feature_advance q P s =
     (if f_index s = 0 \<or> P > Ystart (pSteep q ! QAfterIndex s)
      then (QAfterIndex s, next_step (pSteep q) (q_nLen q) P (QAfterIndex s) (QAfterIndex s + 1))
      else (QIndex s, QAfterIndex s))"

text \<open>One pass of the outer loop: it goes on to the next point only when the step behind lies above the
  step before.  An index outside the array is \<open>None\<close>.\<close>

definition feature_pass :: "alg_fpu \<Rightarrow> QUEUE_S \<Rightarrow> int list \<Rightarrow> feature_st \<Rightarrow> feature_st option" where
  "feature_pass fp q e s =
     (let a = pSteep q; i = f_index s; P = feature_pressure fp q i; F = flist s;
          F = F\<lparr>Pressure := (Pressure F)[i := P]\<rparr>;
          (QI, QA) = feature_advance q P s
      in if QA \<ge> QUEUE_S_LEN then None
         else if Ystart (a ! QA) > Ystart (a ! QI)
         then Some \<lparr>f_index = i + 1, QIndex = QI, QAfterIndex = QA,
                flist = F\<lparr>Energy := (Energy F)[i := feature_energy fp q e P QI QA], f_nLen := f_nLen F + 1\<rparr>\<rparr>
         else Some (s\<lparr>QIndex := QI, QAfterIndex := QA, flist := F\<rparr>))"

partial_function (option) feature_loop :: "alg_fpu \<Rightarrow> QUEUE_S \<Rightarrow> int list \<Rightarrow> feature_st \<Rightarrow> FEATURE_LIST option" where
  "feature_loop fp q e s =
     (if f_index s \<ge> FEATURE_LEN then Some (flist s)
      else Option.bind (feature_pass fp q e s) (feature_loop fp q e))"

definition GetFeatureList :: "alg_fpu \<Rightarrow> QUEUE_S \<Rightarrow> FEATURE_LIST \<Rightarrow> (QUEUE_S \<times> FEATURE_LIST) option" where
  "GetFeatureList fp q F =
     (let q = ForEnergy q
      in if q_nLen q = 0 then None
         else map_option (Pair q) (feature_loop fp q (energies q)
           \<lparr>f_index = 0, QIndex = 0, QAfterIndex = 0, flist = F\<lparr>f_nLen := 0\<rparr>\<rparr>))"

text \<open>What the loop needs of the single precision format: rounding is monotone, exact on the integers up
  to 24 bits and has a relative error of at most one part in two to the 23; conversion truncates.\<close>

definition single_ok :: "alg_fpu \<Rightarrow> bool" where
  "single_ok fp \<longleftrightarrow> mono (fl fp) \<and> (\<forall>n. \<bar>n\<bar> \<le> 2 ^ 24 \<longrightarrow> flt fp n = real_of_int n)
     \<and> (\<forall>r. 1 / 1000 \<le> r \<longrightarrow> fl fp r \<le> r * (1 + 1 / 2 ^ 23))
     \<and> (\<forall>r. \<bar>r\<bar> \<le> 2 ^ 24 \<longrightarrow> cvs fp r = trunc r)"

lemma exact_single_ok: "single_ok exact_alg_fpu"
  by (simp add: single_ok_def mono_def)

lemma single_prec_ok: "single_prec fp \<Longrightarrow> single_ok fp"
  unfolding single_ok_def
proof (intro conjI allI impI)
  assume fp: "single_prec fp"
  show "mono (fl fp)" using fp by (simp add: single_prec_def)
  show "flt fp n = real_of_int n" if "\<bar>n\<bar> \<le> 2 ^ 24" for n using single_prec_int [OF fp that] .
  show "cvs fp r = trunc r" if "\<bar>r\<bar> \<le> 2 ^ 24" for r using that by (intro single_precD(4) [OF fp]) simp
  show "fl fp r \<le> r * (1 + 1 / 2 ^ 23)" if "1 / 1000 \<le> r" for r
    using rounding_error(3) [OF fp, of r] that by (simp add: ulp_def mult.commute)
qed

lemma single_okD:
  assumes "single_ok fp"
  shows "x \<le> y \<Longrightarrow> fl fp x \<le> fl fp y" "\<bar>n\<bar> \<le> 2 ^ 24 \<Longrightarrow> flt fp n = real_of_int n"
    "1 / 1000 \<le> r \<Longrightarrow> fl fp r \<le> r * (1 + 1 / 2 ^ 23)" "\<bar>r\<bar> \<le> 2 ^ 24 \<Longrightarrow> cvs fp r = trunc r"
  using assms by (auto simp: single_ok_def mono_def)

lemma feature_value_range:
  assumes fp: "single_ok fp"
    and y: "0 \<le> Ystart (pSteep q ! 0)" "Ystart (pSteep q ! 0) < Ystart (pSteep q ! (q_nLen q - 1))"
      "Ystart (pSteep q ! (q_nLen q - 1)) \<le> 2 ^ 24"
  shows "index < FEATURE_LEN \<Longrightarrow> real_of_int (Ystart (pSteep q ! 0)) \<le> feature_value fp q index"
    "index < FEATURE_LEN \<Longrightarrow> feature_value fp q index \<le> real_of_int (Ystart (pSteep q ! (q_nLen q - 1)))"
    "i \<le> index \<Longrightarrow> index < FEATURE_LEN \<Longrightarrow> feature_value fp q i \<le> feature_value fp q index"
proof -
  let ?a = "Ystart (pSteep q ! 0)" and ?b = "Ystart (pSteep q ! (q_nLen q - 1))"
  let ?d = "real_of_int (?b - ?a)"
  note S = single_okD [OF fp]
  have ints: "flt fp ?a = ?a" "flt fp (i32 (?b - ?a)) = ?d" "flt fp (int FEATURE_LEN) = 1000" "fl fp 0 = 0" "flt fp ?b = ?b"
    using y S(2) [of ?a] S(2) [of "?b - ?a"] S(2) [of 1000] S(2) [of 0] S(2) [of ?b]
    by (auto simp: FEATURE_LEN_def in32_def)
  have idx: "flt fp (int k) = real k" if "k < FEATURE_LEN" for k
    using S(2) [of "int k"] that by (simp add: FEATURE_LEN_def)
  define s where "s = fl fp (?d / 1000)"
  have val: "feature_value fp q k = fl fp (real_of_int ?a + fl fp (s * real k))" if "k < FEATURE_LEN" for k
    using ints idx [OF that] by (simp add: feature_value_def Let_def s_def)
  have d: "1 \<le> ?d" using y(2) by simp
  have s: "0 \<le> s" "s \<le> ?d / 1000 * (1 + 1 / 2 ^ 23)"
    using S(1) [of 0 "?d / 1000"] S(3) [of "?d / 1000"] d ints(4) by (auto simp: s_def)
  { assume k: "index < FEATURE_LEN"
    have "s * real index \<le> ?d / 1000 * (1 + 1 / 2 ^ 23) * 999"
      using s k d by (intro mult_mono) (auto simp: FEATURE_LEN_def)
    also have "\<dots> \<le> ?d" using d by simp
    finally have "fl fp (s * real index) \<le> fl fp ?d" by (rule S(1))
    moreover have "fl fp ?d = ?d" using ints(2) y S(2) [of "?b - ?a"] by simp
    ultimately have x: "0 \<le> fl fp (s * real index)" "fl fp (s * real index) \<le> ?d"
      using S(1) [of 0 "s * real index"] s(1) ints(4) by auto
    show "real_of_int ?a \<le> feature_value fp q index" "feature_value fp q index \<le> real_of_int ?b"
      using S(1) [of "real_of_int ?a" "real_of_int ?a + fl fp (s * real index)"]
        S(1) [of "real_of_int ?a + fl fp (s * real index)" "real_of_int ?b"] x ints(1,5) by (auto simp: val k) }
  show "i \<le> index \<Longrightarrow> index < FEATURE_LEN \<Longrightarrow> feature_value fp q i \<le> feature_value fp q index"
    using s(1) by (simp add: val) (intro S(1) add_left_mono mult_left_mono, simp_all)
qed

lemma feature_pressure_floor:
  assumes fp: "single_ok fp" and "index < FEATURE_LEN"
    and y: "0 \<le> Ystart (pSteep q ! 0)" "Ystart (pSteep q ! 0) < Ystart (pSteep q ! (q_nLen q - 1))"
      "Ystart (pSteep q ! (q_nLen q - 1)) \<le> 2 ^ 24"
  shows "feature_pressure fp q index = \<lfloor>feature_value fp q index\<rfloor>"
  using feature_value_range(1,2) [OF fp y assms(2)] y single_okD(4) [OF fp, of "feature_value fp q index"]
  by (simp add: feature_pressure_def trunc_def)

lemma feature_pressure_range:
  assumes "single_ok fp" "index < FEATURE_LEN"
    "0 \<le> Ystart (pSteep q ! 0)" "Ystart (pSteep q ! 0) < Ystart (pSteep q ! (q_nLen q - 1))"
    "Ystart (pSteep q ! (q_nLen q - 1)) \<le> 2 ^ 24"
  shows "Ystart (pSteep q ! 0) \<le> feature_pressure fp q index"
    "feature_pressure fp q index \<le> Ystart (pSteep q ! (q_nLen q - 1))"
  using feature_value_range(1,2) [OF assms(1,3-5,2)] unfolding feature_pressure_floor [OF assms]
  by (auto simp: le_floor_iff floor_le_iff)

lemma next_step_spec:
  "QA < n \<Longrightarrow> QA \<le> next_step a n P QI QA \<and> next_step a n P QI QA < n
     \<and> (next_step a n P QI QA = n - 1
        \<or> Ystart (a ! QI) < Ystart (a ! next_step a n P QI QA) \<and> P \<le> Ystart (a ! next_step a n P QI QA))"
proof (induction a n P QI QA rule: next_step.induct)
  case (1 a n P QI QA)
  show ?case
  proof (cases "(Ystart (a ! QA) \<le> Ystart (a ! QI) \<or> P > Ystart (a ! QA)) \<and> QA + 1 < n")
    case True
    then have "next_step a n P QI QA = next_step a n P QI (QA + 1)"
      unfolding next_step.simps [of a n P QI QA] by (rule if_P)
    then show ?thesis using "1.IH" [OF True] True by simp
  next
    case False
    then have "next_step a n P QI QA = QA" unfolding next_step.simps [of a n P QI QA] by (rule if_not_P)
    then show ?thesis using False "1.prems" by auto
  qed
qed

text \<open>Before point \<open>i\<close> of a rising list: the two steps bracket, and the points so far have their pressures.\<close>

definition feature_inv :: "alg_fpu \<Rightarrow> QUEUE_S \<Rightarrow> feature_st \<Rightarrow> bool" where
  "feature_inv fp q s \<longleftrightarrow>
     (let y = \<lambda>i. Ystart (pSteep q ! i); n = q_nLen q; P = Pressure (flist s)
      in f_index s \<le> FEATURE_LEN \<and> length P = FEATURE_LEN \<and> length (Energy (flist s)) = FEATURE_LEN
       \<and> f_nLen (flist s) = int (f_index s)
       \<and> (\<forall>k < f_index s. P ! k = feature_pressure fp q k)
       \<and> (if f_index s = 0 then QAfterIndex s = 0
          else QIndex s < QAfterIndex s \<and> QAfterIndex s < n \<and> y (QIndex s) < y (QAfterIndex s)))"

definition rising_queue :: "QUEUE_S \<Rightarrow> bool" where
  "rising_queue q \<longleftrightarrow> queue_ok q \<and> ascending (steps q) \<and> 2 \<le> q_nLen q
     \<and> 0 \<le> Ystart (pSteep q ! 0) \<and> Ystart (pSteep q ! 0) < Ystart (pSteep q ! (q_nLen q - 1))
     \<and> Ystart (pSteep q ! (q_nLen q - 1)) \<le> 2 ^ 24"

lemma feature_pass_progress:
  assumes fp: "single_ok fp" and q: "rising_queue q" and s: "feature_inv fp q s" "f_index s < FEATURE_LEN"
  shows "\<exists>s'. feature_pass fp q e s = Some s' \<and> f_index s' = f_index s + 1 \<and> feature_inv fp q s'"
proof -
  let ?y = "\<lambda>i. Ystart (pSteep q ! i)" and ?n = "q_nLen q" and ?i = "f_index s"
  let ?P = "feature_pressure fp q ?i" and ?QA = "QAfterIndex s"
  have P: "?y 0 \<le> ?P" "?P \<le> ?y (?n - 1)"
    using feature_pressure_range [OF fp s(2)] q by (auto simp: rising_queue_def)
  have n: "?n \<le> QUEUE_S_LEN" "2 \<le> ?n" using q by (auto simp: rising_queue_def queue_ok_def)
  obtain QI' QA' where adv: "feature_advance q ?P s = (QI', QA')" by fastforce
  have "QI' < QA' \<and> QA' < ?n \<and> ?y QI' < ?y QA'"
  proof (cases "?i = 0 \<or> ?P > ?y ?QA")
    case True
    have below: "?y ?QA < ?y (?n - 1)"
    proof (cases "?i = 0")
      case True
      then show ?thesis using s(1) q by (simp add: feature_inv_def Let_def rising_queue_def)
    qed (use True P(2) in linarith)
    have "?QA < ?n" using s(1) n by (auto simp: feature_inv_def Let_def split: if_splits)
    then have "?QA + 1 < ?n" using below by (cases "?QA = ?n - 1") auto
    from next_step_spec [OF this, of "pSteep q" ?P ?QA] below True
    show ?thesis using adv by (auto simp: feature_advance_def)
  next
    case False
    then show ?thesis using s(1) adv by (simp add: feature_advance_def feature_inv_def Let_def)
  qed
  moreover have "feature_pass fp q e s = Some \<lparr>f_index = ?i + 1, QIndex = QI', QAfterIndex = QA',
      flist = (flist s)\<lparr>Pressure := (Pressure (flist s))[?i := ?P],
        Energy := (Energy (flist s))[?i := feature_energy fp q e ?P QI' QA'], f_nLen := f_nLen (flist s) + 1\<rparr>\<rparr>"
    using calculation n(1) by (simp add: feature_pass_def Let_def adv)
  ultimately show ?thesis using s P
    by (auto simp: feature_inv_def Let_def nth_list_update less_Suc_eq)
qed

lemma feature_loop_total:
  assumes fp: "single_ok fp" and q: "rising_queue q"
  shows "feature_inv fp q s \<Longrightarrow> \<exists>s'. feature_loop fp q e s = Some (flist s') \<and> feature_inv fp q s' \<and> f_index s' = FEATURE_LEN"
proof (induction "FEATURE_LEN - f_index s" arbitrary: s)
  case 0
  then have i: "f_index s = FEATURE_LEN" by (simp add: feature_inv_def Let_def)
  with 0 show ?case by (intro exI [of _ s]) (subst feature_loop.simps, simp)
next
  case (Suc k)
  then have "f_index s < FEATURE_LEN" by simp
  from feature_pass_progress [OF fp q Suc.prems this, of e] obtain s' where
    s': "feature_pass fp q e s = Some s'" "f_index s' = f_index s + 1" "feature_inv fp q s'" by blast
  have "feature_loop fp q e s = feature_loop fp q e s'"
    using \<open>f_index s < FEATURE_LEN\<close> s'(1) by (subst feature_loop.simps) simp
  with Suc.hyps(1) [of s'] Suc.hyps(2) s'(2,3) show ?case by auto
qed

lemma ForEnergy_Ystart:
  "queue_ok q \<Longrightarrow> i < QUEUE_S_LEN \<Longrightarrow> Ystart (pSteep (ForEnergy q) ! i) = Ystart (pSteep q ! i)"
  by (simp add: ForEnergy_def Let_def queue_ok_def) (subst nth_upd_loop, auto)

lemma ForEnergy_rising: "rising_queue q \<Longrightarrow> rising_queue (ForEnergy q)"
proof -
  assume q: "rising_queue q"
  then have ok: "queue_ok q" and n: "q_nLen q \<le> QUEUE_S_LEN" "2 \<le> q_nLen q" by (simp_all add: rising_queue_def queue_ok_def)
  have "Ystart (steps (ForEnergy q) ! i) = Ystart (steps q ! i)" if "i < q_nLen q" for i
    using that by (simp add: nth_steps ForEnergy_steps [OF ok])
  then have "ascending (steps (ForEnergy q))"
    using q ok by (simp add: rising_queue_def ascending_def sorted_wrt_iff_nth_less ForEnergy_steps)
  then show ?thesis using q n by (simp add: rising_queue_def ForEnergy_steps [OF ok] ForEnergy_Ystart [OF ok])
qed

definition feature_list_ok :: "FEATURE_LIST \<Rightarrow> bool" where
  "feature_list_ok F \<longleftrightarrow> length (Pressure F) = FEATURE_LEN \<and> length (Energy F) = FEATURE_LEN"

lemma GetFeatureList_total:
  assumes "single_ok fp" and q: "rising_queue q" and F: "feature_list_ok F"
  shows "\<exists>F'. GetFeatureList fp q F = Some (ForEnergy q, F') \<and> feature_list_ok F' \<and> f_nLen F' = 1000
    \<and> (\<forall>k < 1000. Pressure F' ! k = feature_pressure fp q k)"
proof -
  have ok: "queue_ok q" "2 \<le> q_nLen q" "q_nLen q \<le> QUEUE_S_LEN" using q by (simp_all add: rising_queue_def queue_ok_def)
  let ?s = "\<lparr>f_index = 0, QIndex = 0, QAfterIndex = 0, flist = F\<lparr>f_nLen := 0\<rparr>\<rparr>"
  have "feature_inv fp (ForEnergy q) ?s" using F by (simp add: feature_inv_def feature_list_ok_def)
  from feature_loop_total [OF assms(1) ForEnergy_rising [OF q] this, of "energies (ForEnergy q)"]
  obtain s' where "feature_loop fp (ForEnergy q) (energies (ForEnergy q)) ?s = Some (flist s')"
    "feature_inv fp (ForEnergy q) s'" "f_index s' = FEATURE_LEN" by blast
  moreover have "feature_pressure fp (ForEnergy q) k = feature_pressure fp q k" for k
    using ok by (simp add: feature_pressure_def feature_value_def Let_def ForEnergy_steps [OF ok(1)] ForEnergy_Ystart [OF ok(1)])
  ultimately show ?thesis using ok
    by (auto simp: GetFeatureList_def Let_def feature_inv_def feature_list_ok_def FEATURE_LEN_def
        ForEnergy_steps [OF ok(1)])
qed

lemma feature_pass_lengths:
  "feature_pass fp q e s = Some s' \<Longrightarrow> feature_list_ok (flist s) \<Longrightarrow> feature_list_ok (flist s')"
  by (auto simp: feature_pass_def Let_def feature_list_ok_def split: prod.splits if_splits)

lemma feature_loop_lengths:
  assumes "feature_loop fp q e s = Some F"
  shows "feature_list_ok (flist s) \<Longrightarrow> feature_list_ok F"
proof -
  have "feature_list_ok (flist s) \<longrightarrow> feature_list_ok F"
  proof (rule feature_loop.raw_induct [OF _ assms])
    fix loop fp q e s F
    assume IH: "\<And>fp q e s F. loop fp q e s = Some F \<Longrightarrow> feature_list_ok (flist s) \<longrightarrow> feature_list_ok F"
      and F: "(if FEATURE_LEN \<le> f_index s then Some (flist s) else Option.bind (feature_pass fp q e s) (loop fp q e)) = Some F"
    show "feature_list_ok (flist s) \<longrightarrow> feature_list_ok F"
    proof (cases "f_index s \<ge> FEATURE_LEN")
      case False
      then obtain s' where "feature_pass fp q e s = Some s'" "loop fp q e s' = Some F"
        using F by (auto split: bind_splits)
      then show ?thesis using IH feature_pass_lengths by blast
    qed (use F in simp)
  qed
  then show "feature_list_ok (flist s) \<Longrightarrow> feature_list_ok F" by blast
qed

lemma GetFeatureList_lengths:
  "GetFeatureList fp q F = Some (q', F') \<Longrightarrow> feature_list_ok F \<Longrightarrow> feature_list_ok F'"
  by (auto simp: GetFeatureList_def Let_def feature_list_ok_def [of "F\<lparr>f_nLen := 0\<rparr>"] feature_list_ok_def [of F]
      split: if_splits dest!: feature_loop_lengths)

text \<open>Where all steps have the same pressure the search for a higher one runs off the array.\<close>

lemma feature_loop_flat:
  assumes "\<And>i. i < QUEUE_S_LEN \<Longrightarrow> Ystart (pSteep q ! i) = y"
  shows "f_index s = 0 \<Longrightarrow> QAfterIndex s < QUEUE_S_LEN \<Longrightarrow> feature_loop fp q e s = None"
proof (induction "QUEUE_S_LEN - QAfterIndex s" arbitrary: s rule: less_induct)
  case less
  let ?P = "feature_pressure fp q 0"
  define QA where "QA = next_step (pSteep q) (q_nLen q) ?P (QAfterIndex s) (QAfterIndex s + 1)"
  have adv: "feature_advance q ?P s = (QAfterIndex s, QA)" using less.prems by (simp add: feature_advance_def QA_def)
  have ge: "QAfterIndex s + 1 \<le> QA"
  proof (cases "QAfterIndex s + 1 < q_nLen q")
    case True
    then show ?thesis using next_step_spec [OF True] by (simp add: QA_def)
  next
    case False
    then show ?thesis unfolding QA_def next_step.simps [of _ _ _ _ "QAfterIndex s + 1"] by simp
  qed
  show ?case
  proof (cases "QA < QUEUE_S_LEN")
    case False
    then have "feature_pass fp q e s = None" using less.prems adv by (simp add: feature_pass_def Let_def)
    then show ?thesis using less.prems by (subst feature_loop.simps) (simp add: FEATURE_LEN_def)
  next
    case True
    then obtain s' where s': "feature_pass fp q e s = Some s'" "f_index s' = 0" "QAfterIndex s' = QA"
      using less.prems adv assms [of QA] assms [of "QAfterIndex s"] by (simp add: feature_pass_def Let_def)
    have "feature_loop fp q e s' = None" using s' True ge less.prems by (intro less.hyps) auto
    then show ?thesis using less.prems s' by (subst feature_loop.simps) (simp add: FEATURE_LEN_def)
  qed
qed

lemma GetFeatureList_flat:
  "queue_ok q \<Longrightarrow> (\<And>i. i < QUEUE_S_LEN \<Longrightarrow> Ystart (pSteep q ! i) = y) \<Longrightarrow> GetFeatureList fp q F = None"
  using feature_loop_flat [of "ForEnergy q" y]
  by (simp add: GetFeatureList_def Let_def ForEnergy_Ystart QUEUE_S_LEN_def)

definition FilFeatureList :: "alg_fpu \<Rightarrow> FEATURE_LIST \<Rightarrow> FEATURE_LIST" where
  "FilFeatureList fp F =
     (let n = f_nLen F - int NIBP_FEATURE_FILTER_SIZE + 1;
          E = snd (Filter_inplace fp fFir_5_1000hz_85s NIBP_FEATURE_FILTER_SIZE (f_nLen F) n 0 (Energy F));
          EnergyMax = Max_N E (nat n)
      in F\<lparr>f_nLen := n,
           Energy := upd_loop (nat n) (\<lambda>i E. cvs fp (fadd fp
              (fmul fp (fdiv fp (flt fp (E ! i)) (flt fp EnergyMax)) (flt fp 10000)) (fl fp 0.5))) E,
           Pressure := upd_loop (nat n) (\<lambda>i P. P ! (i + NIBP_FEATURE_FILTER_SIZE div 2)) (Pressure F)\<rparr>)"

lemma FilFeatureList_length:
  "f_nLen F = 1000 \<Longrightarrow> f_nLen (FilFeatureList fp F) = 915"
  "feature_list_ok F \<Longrightarrow> feature_list_ok (FilFeatureList fp F)"
  by (simp_all add: FilFeatureList_def Let_def NIBP_FEATURE_FILTER_SIZE_def feature_list_ok_def)

text \<open>Point \<open>i\<close> of the filtered curve has the pressure in the middle of its window.\<close>

lemma FilFeatureList_pressure:
  assumes "f_nLen F = 1000" "feature_list_ok F" "i < 915"
  shows "Pressure (FilFeatureList fp F) ! i = Pressure F ! (i + 43)"
proof -
  have "Pressure (FilFeatureList fp F) ! i
      = upd_loop 915 (\<lambda>i P. P ! (i + 43)) (Pressure F) ! i"
    using assms by (simp add: FilFeatureList_def Let_def NIBP_FEATURE_FILTER_SIZE_def)
  also have "\<dots> = Pressure F ! (i + 43)"
    using assms by (subst nth_upd_loop) (auto simp: feature_list_ok_def FEATURE_LEN_def)
  finally show ?thesis .
qed

lemma feature_pressure_mono:
  assumes "single_ok fp" and q: "rising_queue q" and "i \<le> j" "j < FEATURE_LEN"
  shows "feature_pressure fp q i \<le> feature_pressure fp q j"
proof -
  have "\<lfloor>feature_value fp q i\<rfloor> \<le> \<lfloor>feature_value fp q j\<rfloor>"
    using feature_value_range(3) [OF assms(1) _ _ _ assms(3,4), of q] q by (intro floor_mono) (simp add: rising_queue_def)
  then show ?thesis using feature_pressure_floor [OF assms(1), of _ q] assms by (simp add: rising_queue_def)
qed

section \<open>The three pressures\<close>

definition MMHG_AMPLIFY_FACTOR :: int where "MMHG_AMPLIFY_FACTOR = 10000"

record nibp_vals =
  vDP :: int
  vDE :: int
  vSP :: int
  vSE :: int
  vMAP :: int
  vMAE :: int
  vBPM :: int

definition peak_index :: "FEATURE_LIST \<Rightarrow> nat" where
  "peak_index F = snd (fold (\<lambda>index (MaxData, MAPindex).
     if Energy F ! index > MaxData then (Energy F ! index, index) else (MaxData, MAPindex)) [0..<nat (f_nLen F)] (0, 0))"

text \<open>\<open>my_min(50000, Pressure[MAPindex]/10)\<close>, the least distance from the mean pressure.\<close>

definition min_distance :: "alg_fpu \<Rightarrow> int \<Rightarrow> real" where
  "min_distance fp pm = fmin (flt fp 50000) (fdiv fp (flt fp pm) (flt fp 10))"

definition sys_at :: "alg_fpu \<Rightarrow> FEATURE_LIST \<Rightarrow> nat \<Rightarrow> nat \<Rightarrow> bool" where
  "sys_at fp F m index =
     (let pm = Pressure F ! m; dp = i32 (Pressure F ! index - pm);
          KsNow = fadd fp (fdiv fp (fmul fp (flt fp pm) (fl fp (- 0.03))) (flt fp 10000)) (fl fp 51);
          KsOT = fmul fp (fmax 0 (fsub fp (fdiv fp (flt fp dp) (flt fp 10000)) (fl fp 30.5))) (fl fp 0.48)
      in flt fp (Energy F ! index) \<le> fmul fp (fmin (fl fp 60.5) (fmax (fl fp 47) (fadd fp KsNow KsOT))) (flt fp 100)
         \<and> flt fp dp > min_distance fp pm)"

definition dia_at :: "alg_fpu \<Rightarrow> FEATURE_LIST \<Rightarrow> nat \<Rightarrow> nat \<Rightarrow> bool" where
  "dia_at fp F m index =
     (let pm = Pressure F ! m; dp = i32 (pm - Pressure F ! index);
          KdNow = fadd fp (fdiv fp (fmul fp (flt fp pm) (fl fp 0.31)) (flt fp 10000)) (fl fp 47.5);
          KdOT = fmul fp (fmax 0 (fsub fp (fdiv fp (flt fp dp) (flt fp 10000)) (fl fp 12))) (fl fp (- 2.3))
      in flt fp (Energy F ! index) \<le> fmul fp (fmin (fl fp 64.5) (fmax (fl fp 60.5) (fadd fp KdNow KdOT))) (flt fp 100)
         \<and> flt fp dp > min_distance fp pm)"

text \<open>\<open>NIBPfromFeature\<close> up to the correction that ends it.\<close>

definition from_feature :: "alg_fpu \<Rightarrow> FEATURE_LIST \<Rightarrow> nibp_vals \<Rightarrow> nibp_vals" where
  "from_feature fp F v =
     (let n = nat (f_nLen F); m = peak_index F;
          v = v\<lparr>vMAP := Pressure F ! m, vMAE := Energy F ! m\<rparr>;
          v = (case List.find (sys_at fp F m) [m + 1..<n] of
                 Some i \<Rightarrow> v\<lparr>vSP := Pressure F ! i, vSE := Energy F ! i\<rparr>
               | None \<Rightarrow> if 0 < n then v\<lparr>vSP := Pressure F ! (n - 1), vSE := Energy F ! (n - 1)\<rparr> else v);
          k = nat (cvs fp (fmul fp (flt fp (f_nLen F)) (fl fp 0.1)))
      in case List.find (dia_at fp F m) (rev [0..<m]) of
           Some i \<Rightarrow> v\<lparr>vDP := Pressure F ! i, vDE := Energy F ! i\<rparr>
         | None \<Rightarrow> v\<lparr>vDP := Pressure F ! k, vDE := Energy F ! k\<rparr>)"

text \<open>The correction towards the last result of the same patient.\<close>

definition toward :: "int \<Rightarrow> int \<Rightarrow> int \<Rightarrow> int \<Rightarrow> int" where
  "toward gap step prev now =
     (if i32 (prev - now) \<ge> gap then i32 (now + step)
      else if i32 (prev - now) \<le> - gap then i32 (now - step) else now)"

definition ForResult :: "int \<Rightarrow> int \<Rightarrow> int \<Rightarrow> nibp_vals \<Rightarrow> nibp_vals" where
  "ForResult DP_Last SP_Last BPM_Last v =
     (if my_abs (i32 (DP_Last - vDP v)) \<le> 12 * MMHG_AMPLIFY_FACTOR
         \<and> my_abs (i32 (SP_Last - vSP v)) \<le> 12 * MMHG_AMPLIFY_FACTOR
         \<and> my_abs (i32 (BPM_Last - vBPM v)) \<le> 5
      then v\<lparr>vDP := toward (3 * MMHG_AMPLIFY_FACTOR) (2 * MMHG_AMPLIFY_FACTOR) DP_Last (vDP v),
             vSP := toward (3 * MMHG_AMPLIFY_FACTOR) (2 * MMHG_AMPLIFY_FACTOR) SP_Last (vSP v),
             vBPM := toward 2 1 BPM_Last (vBPM v)\<rparr>
      else v)"

definition NIBPfromFeature :: "alg_fpu \<Rightarrow> int \<Rightarrow> int \<Rightarrow> int \<Rightarrow> FEATURE_LIST \<Rightarrow> nibp_vals \<Rightarrow> nibp_vals" where
  "NIBPfromFeature fp lastDP lastSP lastBPM F v =
     (if f_nLen F < 0 then v else ForResult lastDP lastSP lastBPM (from_feature fp F v))"

lemma peak_index_less: "0 < f_nLen F \<Longrightarrow> peak_index F < nat (f_nLen F)"
proof -
  assume "0 < f_nLen F"
  let ?f = "\<lambda>index (MaxData, MAPindex).
     if Energy F ! index > MaxData then (Energy F ! index, index) else (MaxData, MAPindex)"
  have "snd (fold ?f is (x, k)) < n" if "k < n" "\<forall>i \<in> set is. i < n" for "is" x k n
    using that by (induction "is" arbitrary: x k) auto
  then show ?thesis using \<open>0 < f_nLen F\<close> by (simp add: peak_index_def)
qed

lemma find_SomeD: "List.find P xs = Some x \<Longrightarrow> x \<in> set xs \<and> P x"
  by (induction xs) (auto split: if_splits)

text \<open>On a curve whose pressures rise, with its peak at or beyond a tenth of its length, the pressures come
  out in order.\<close>

definition tenth :: "alg_fpu \<Rightarrow> FEATURE_LIST \<Rightarrow> nat" where
  "tenth fp F = nat (cvs fp (fmul fp (flt fp (f_nLen F)) (fl fp 0.1)))"

lemma from_feature_ordered:
  assumes n: "0 < f_nLen F" and mono: "\<And>i j. i \<le> j \<Longrightarrow> int j < f_nLen F \<Longrightarrow> Pressure F ! i \<le> Pressure F ! j"
    and peak: "tenth fp F \<le> peak_index F"
  shows "vDP (from_feature fp F v) \<le> vMAP (from_feature fp F v)" "vMAP (from_feature fp F v) \<le> vSP (from_feature fp F v)"
    "vMAP (from_feature fp F v) = Pressure F ! peak_index F"
proof -
  have m: "int (peak_index F) < f_nLen F" using peak_index_less [OF n] by linarith
  have up: "Pressure F ! peak_index F \<le> Pressure F ! i" if "peak_index F \<le> i" "i < nat (f_nLen F)" for i
    using mono [of "peak_index F" i] that by simp
  have down: "Pressure F ! i \<le> Pressure F ! peak_index F" if "i \<le> peak_index F" for i
    using mono [OF that m] .
  have n': "0 < nat (f_nLen F)" "peak_index F \<le> nat (f_nLen F) - 1" using n m by auto
  show "vMAP (from_feature fp F v) = Pressure F ! peak_index F"
    by (auto simp: from_feature_def Let_def split: option.split)
  show "vMAP (from_feature fp F v) \<le> vSP (from_feature fp F v)"
    using n' up [of "nat (f_nLen F) - 1"]
    by (auto simp: from_feature_def Let_def split: option.split dest!: find_SomeD intro!: up)
  show "vDP (from_feature fp F v) \<le> vMAP (from_feature fp F v)"
    using down [OF peak] n'
    by (auto simp: from_feature_def Let_def tenth_def split: option.split dest!: find_SomeD intro!: down)
qed

text \<open>The correction moves a value by at most its step, and towards the last one.\<close>

lemma toward_between:
  assumes "0 < step" "step < gap" "gap < 2 ^ 29" "in32 (prev - now)" "in32 (now + step)" "in32 (now - step)"
  shows "min prev now \<le> toward gap step prev now" "toward gap step prev now \<le> max prev now"
    "\<bar>toward gap step prev now - now\<bar> \<le> step"
  using assms by (auto simp: toward_def)

lemma ForResult_else:
  "\<not> (my_abs (i32 (DP_Last - vDP v)) \<le> 120000 \<and> my_abs (i32 (SP_Last - vSP v)) \<le> 120000
      \<and> my_abs (i32 (BPM_Last - vBPM v)) \<le> 5) \<Longrightarrow> ForResult DP_Last SP_Last BPM_Last v = v"
  by (auto simp: ForResult_def MMHG_AMPLIFY_FACTOR_def)

text \<open>Whether the searches for the systolic and the diastolic point end at a point of the curve.\<close>

definition sys_found :: "alg_fpu \<Rightarrow> FEATURE_LIST \<Rightarrow> bool" where
  "sys_found fp F \<longleftrightarrow> List.find (sys_at fp F (peak_index F)) [peak_index F + 1..<nat (f_nLen F)] \<noteq> None"

definition dia_found :: "alg_fpu \<Rightarrow> FEATURE_LIST \<Rightarrow> bool" where
  "dia_found fp F \<longleftrightarrow> List.find (dia_at fp F (peak_index F)) (rev [0..<peak_index F]) \<noteq> None"

lemma from_feature_vals:
  assumes "0 < f_nLen F"
  shows "vMAP (from_feature fp F v) = Pressure F ! peak_index F"
    "vSP (from_feature fp F v) = Pressure F ! (case List.find (sys_at fp F (peak_index F)) [peak_index F + 1..<nat (f_nLen F)] of
       Some i \<Rightarrow> i | None \<Rightarrow> nat (f_nLen F) - 1)"
    "vDP (from_feature fp F v) = Pressure F ! (case List.find (dia_at fp F (peak_index F)) (rev [0..<peak_index F]) of
       Some i \<Rightarrow> i | None \<Rightarrow> tenth fp F)"
  using assms by (auto simp: from_feature_def tenth_def Let_def split: option.split)

text \<open>From 20 mmHg on, a point further from the mean than \<open>min_distance\<close> is more than 2 mmHg from it.\<close>

lemma beyond_min_distance:
  assumes "single_ok fp" "200000 \<le> pm" "pm \<le> 2 ^ 24" "\<bar>dp\<bar> \<le> 2 ^ 24" "flt fp dp > min_distance fp pm"
  shows "20000 < dp"
proof (rule ccontr)
  note S = single_okD [OF assms(1)]
  assume "\<not> 20000 < dp"
  then have "flt fp dp \<le> 20000" using S(2) [of dp] assms(4) by simp
  moreover have "20000 \<le> fdiv fp (flt fp pm) (flt fp 10)"
    using S(1) [of 20000 "flt fp pm / flt fp 10"] S(2) [of 20000] S(2) [of 10] S(2) [of pm] assms(2,3) by simp
  moreover have "20000 \<le> flt fp 50000" using S(2) [of 50000] by simp
  ultimately show False using assms(5) by (simp add: min_distance_def fmin_def split: if_splits)
qed

lemma from_feature_found:
  assumes fp: "single_ok fp" and n: "0 < f_nLen F"
    and range: "\<And>i. int i < f_nLen F \<Longrightarrow> 0 \<le> Pressure F ! i \<and> Pressure F ! i \<le> 2 ^ 24"
    and pm: "200000 \<le> vMAP (from_feature fp F v)"
  shows "dia_found fp F \<Longrightarrow> vDP (from_feature fp F v) + 20000 < vMAP (from_feature fp F v)"
    "sys_found fp F \<Longrightarrow> vMAP (from_feature fp F v) + 20000 < vSP (from_feature fp F v)"
proof -
  let ?m = "peak_index F"
  have m: "int ?m < f_nLen F" using peak_index_less [OF n] by linarith
  have map: "vMAP (from_feature fp F v) = Pressure F ! ?m" by (auto simp: from_feature_def Let_def split: option.split)
  have d: "20000 < Pressure F ! i - Pressure F ! j"
    if "int i < f_nLen F" "int j < f_nLen F" "flt fp (i32 (Pressure F ! i - Pressure F ! j)) > min_distance fp (Pressure F ! ?m)"
    for i j
  proof -
    have "i32 (Pressure F ! i - Pressure F ! j) = Pressure F ! i - Pressure F ! j"
      using range [OF that(1)] range [OF that(2)] by (intro i32_id) (simp add: in32_def)
    moreover have "\<bar>Pressure F ! i - Pressure F ! j\<bar> \<le> 2 ^ 24" using range [OF that(1)] range [OF that(2)] by linarith
    ultimately show ?thesis
      using beyond_min_distance [OF fp, of "Pressure F ! ?m" "Pressure F ! i - Pressure F ! j"] that(3) pm map range [OF m]
      by simp
  qed
  show "dia_found fp F \<Longrightarrow> vDP (from_feature fp F v) + 20000 < vMAP (from_feature fp F v)"
  proof -
    assume "dia_found fp F"
    then obtain i where i: "List.find (dia_at fp F ?m) (rev [0..<?m]) = Some i" by (auto simp: dia_found_def)
    then have "i < ?m" "dia_at fp F ?m i" using find_SomeD [OF i] by simp_all
    then have "20000 < Pressure F ! ?m - Pressure F ! i" using d [of ?m i] m by (simp add: dia_at_def Let_def)
    moreover have "vDP (from_feature fp F v) = Pressure F ! i" using i from_feature_vals [OF n] by simp
    ultimately show ?thesis using map by simp
  qed
  show "sys_found fp F \<Longrightarrow> vMAP (from_feature fp F v) + 20000 < vSP (from_feature fp F v)"
  proof -
    assume "sys_found fp F"
    then obtain i where i: "List.find (sys_at fp F ?m) [?m + 1..<nat (f_nLen F)] = Some i" by (auto simp: sys_found_def)
    then have "int i < f_nLen F" "sys_at fp F ?m i" using find_SomeD [OF i] by auto
    then have "20000 < Pressure F ! i - Pressure F ! ?m" using d [of i ?m] m by (simp add: sys_at_def Let_def)
    moreover have "vSP (from_feature fp F v) = Pressure F ! i" using i from_feature_vals [OF n] by simp
    ultimately show ?thesis using map by simp
  qed
qed

text \<open>The correction leaves the mean pressure and moves the others by at most 2 mmHg.\<close>

lemma NIBPfromFeature_near:
  fixes fp :: alg_fpu and v :: nibp_vals and lastDP lastSP lastBPM :: int
  assumes "0 \<le> f_nLen F"
  defines "u \<equiv> from_feature fp F v" and "w \<equiv> NIBPfromFeature fp lastDP lastSP lastBPM F v"
  shows "vMAP w = vMAP u" "0 \<le> vDP u \<Longrightarrow> vDP u \<le> 2 ^ 24 \<Longrightarrow> \<bar>vDP w - vDP u\<bar> \<le> 20000"
    "0 \<le> vSP u \<Longrightarrow> vSP u \<le> 2 ^ 24 \<Longrightarrow> \<bar>vSP w - vSP u\<bar> \<le> 20000"
proof -
  have w: "w = ForResult lastDP lastSP lastBPM u" using assms(1) by (simp add: w_def u_def NIBPfromFeature_def)
  have t: "\<bar>toward g 20000 p x - x\<bar> \<le> 20000" if "0 \<le> x" "x \<le> 2 ^ 24" for g p x
    using that by (auto simp: toward_def in32_def)
  show "vMAP w = vMAP u" by (simp add: w ForResult_def)
  show "0 \<le> vDP u \<Longrightarrow> vDP u \<le> 2 ^ 24 \<Longrightarrow> \<bar>vDP w - vDP u\<bar> \<le> 20000"
    "0 \<le> vSP u \<Longrightarrow> vSP u \<le> 2 ^ 24 \<Longrightarrow> \<bar>vSP w - vSP u\<bar> \<le> 20000"
    using t by (simp_all add: w ForResult_def MMHG_AMPLIFY_FACTOR_def)
qed

lemma from_feature_points:
  assumes "0 < f_nLen F" "tenth fp F < nat (f_nLen F)"
  shows "\<exists>i < nat (f_nLen F). vDP (from_feature fp F v) = Pressure F ! i"
    "\<exists>i < nat (f_nLen F). vSP (from_feature fp F v) = Pressure F ! i"
proof -
  have m: "peak_index F < nat (f_nLen F)" using peak_index_less [OF assms(1)] .
  show "\<exists>i < nat (f_nLen F). vSP (from_feature fp F v) = Pressure F ! i"
  proof (rule exI, rule conjI)
    show "vSP (from_feature fp F v) = Pressure F ! (case List.find (sys_at fp F (peak_index F)) [peak_index F + 1..<nat (f_nLen F)] of
       Some i \<Rightarrow> i | None \<Rightarrow> nat (f_nLen F) - 1)" by (rule from_feature_vals(2) [OF assms(1)])
  qed (use assms(1) in \<open>auto split: option.split dest!: find_SomeD\<close>)
  show "\<exists>i < nat (f_nLen F). vDP (from_feature fp F v) = Pressure F ! i"
  proof (rule exI, rule conjI)
    show "vDP (from_feature fp F v) = Pressure F ! (case List.find (dia_at fp F (peak_index F)) (rev [0..<peak_index F]) of
       Some i \<Rightarrow> i | None \<Rightarrow> tenth fp F)" by (rule from_feature_vals(3) [OF assms(1)])
  qed (use assms(2) m in \<open>auto split: option.split dest!: find_SomeD\<close>)
qed


lemma NIBPfromFeature_order:
  fixes fp :: alg_fpu and v :: nibp_vals and lastDP lastSP lastBPM :: int
  assumes fp: "single_ok fp" and n: "0 < f_nLen F" "tenth fp F < nat (f_nLen F)"
    and mono: "\<And>i j. i \<le> j \<Longrightarrow> int j < f_nLen F \<Longrightarrow> Pressure F ! i \<le> Pressure F ! j"
    and range: "\<And>i. int i < f_nLen F \<Longrightarrow> 0 \<le> Pressure F ! i \<and> Pressure F ! i \<le> 2 ^ 24"
  defines "w \<equiv> NIBPfromFeature fp lastDP lastSP lastBPM F v"
  shows "vMAP w = Pressure F ! peak_index F" "vMAP w \<le> vSP w + 20000"
    "tenth fp F \<le> peak_index F \<Longrightarrow> vDP w \<le> vMAP w + 20000"
    "200000 \<le> vMAP w \<Longrightarrow> dia_found fp F \<Longrightarrow> vDP w < vMAP w"
    "200000 \<le> vMAP w \<Longrightarrow> sys_found fp F \<Longrightarrow> vMAP w < vSP w"
proof -
  define u where "u = from_feature fp F v"
  have z: "0 \<le> f_nLen F" using n(1) by simp
  obtain i j where p: "i < nat (f_nLen F)" "vDP u = Pressure F ! i" "j < nat (f_nLen F)" "vSP u = Pressure F ! j"
    using from_feature_points [OF n, of v] unfolding u_def by blast
  have r: "0 \<le> vDP u" "vDP u \<le> 2 ^ 24" "0 \<le> vSP u" "vSP u \<le> 2 ^ 24" using range [of i] range [of j] p by auto
  note N = NIBPfromFeature_near [OF z, where fp = fp and lastDP = lastDP and lastSP = lastSP and lastBPM = lastBPM and v = v,
    folded u_def w_def]
  note O = from_feature_ordered [OF n(1) mono, where fp = fp and v = v, folded u_def]
  note D = from_feature_found [OF fp n(1) range, of v, folded u_def]
  have S: "vMAP u \<le> vSP u" 
  proof -
    let ?m = "peak_index F"
    have m: "?m < nat (f_nLen F)" using peak_index_less [OF n(1)] .
    have up: "Pressure F ! ?m \<le> Pressure F ! i" if "?m \<le> i" "i < nat (f_nLen F)" for i
      using mono [of ?m i] that by simp
    show ?thesis using up [of "nat (f_nLen F) - 1"] m n(1) unfolding u_def
      by (auto simp: from_feature_def Let_def split: option.split dest!: find_SomeD intro!: up)
  qed
  show "vMAP w = Pressure F ! peak_index F" unfolding N(1) u_def by (auto simp: from_feature_def Let_def split: option.split)
  show "vMAP w \<le> vSP w + 20000" using N(1) N(3) [OF r(3,4)] S by linarith
  show "tenth fp F \<le> peak_index F \<Longrightarrow> vDP w \<le> vMAP w + 20000" using N(1) N(2) [OF r(1,2)] O(1) by linarith
  show "200000 \<le> vMAP w \<Longrightarrow> dia_found fp F \<Longrightarrow> vDP w < vMAP w" using N(1) N(2) [OF r(1,2)] D(1) by linarith
  show "200000 \<le> vMAP w \<Longrightarrow> sys_found fp F \<Longrightarrow> vMAP w < vSP w" using N(1) N(3) [OF r(3,4)] D(2) by linarith
qed


section \<open>Reliability\<close>

text \<open>The integer divisions by the greater neighbour of a height are undefined when it is 0.\<close>

definition neighbour_min :: "int list \<Rightarrow> nat \<Rightarrow> int" where "neighbour_min h i = my_min (h ! (i + 1)) (h ! (i - 1))"
definition neighbour_max :: "int list \<Rightarrow> nat \<Rightarrow> int" where "neighbour_max h i = my_max (h ! (i + 1)) (h ! (i - 1))"

text \<open>How far a height lies outside its neighbours.\<close>

definition dip :: "int list \<Rightarrow> nat \<Rightarrow> int option" where
  "dip h i =
     (if neighbour_min h i > h ! i then Some (i32 (neighbour_min h i - h ! i))
      else if h ! i > neighbour_max h i then Some (i32 (h ! i - neighbour_max h i))
      else None)"

definition add_dip :: "alg_fpu \<Rightarrow> int list \<Rightarrow> nat \<Rightarrow> real option \<Rightarrow> real option" where
  "add_dip fp h i Delta =
     (case dip h i of
        None \<Rightarrow> Delta
      | Some x \<Rightarrow> if neighbour_max h i = 0 then None
                  else let Data = flt fp (x sdiv neighbour_max h i)
                       in map_option (\<lambda>d. fadd fp d (fmul fp Data Data)) Delta)"

definition ForReliability :: "alg_fpu \<Rightarrow> int list \<Rightarrow> int list \<Rightarrow> int list \<Rightarrow> nat \<Rightarrow> nat \<Rightarrow> nat \<Rightarrow> real option" where
  "ForReliability fp MeanH_List MeanD_List Count_List ListLen StartIndex EndIndex =
     (let is = filter (\<lambda>i. Count_List ! i > 0) [StartIndex..<EndIndex + 1]; Count = int (length is)
      in if Count = 0 then Some (flt fp 100)
         else let Mean = fold (\<lambda>i m. i32 (m + MeanD_List ! i)) is 0 sdiv Count;
                  Delta = fold (\<lambda>i d. fadd fp d (flt fp (i32 (my_abs (i32 (Mean - MeanD_List ! i))
                                                     * my_abs (i32 (Mean - MeanD_List ! i)))))) is 0;
                  Delta = fdiv fp (fdiv fp (fdiv fp Delta (flt fp Count)) (flt fp Mean)) (flt fp Mean);
                  Out = Delta;
                  (MaxData, MaxIndex) = Max_Index_N MeanH_List ListLen
              in if MaxIndex < StartIndex \<or> MaxIndex > EndIndex \<or> MaxIndex = 0 \<or> MaxIndex = ListLen - 1
                 then Some (flt fp 100)
                 else if neighbour_max MeanH_List MaxIndex = 0 then None
                 else if flt fp (MeanH_List ! MaxIndex sdiv neighbour_max MeanH_List MaxIndex) \<ge> fl fp 3
                 then Some (flt fp 100)
                 else let js = filter (\<lambda>i. i \<noteq> MaxIndex) [StartIndex + 1..<EndIndex];
                          r = fold (add_dip fp MeanH_List) js (Some 0)
                      in if js = [] then Some 0
                         else case r of None \<Rightarrow> None
                              | Some d \<Rightarrow> Some (fadd fp Out (fmul fp (fdiv fp d (flt fp (int (length js)))) (fl fp 2.5))))"

section \<open>Properties\<close>

text \<open>C16: After the smoothing of three or more steps the energies rise up to the strongest step and fall
  after it, the strongest keeps its energy, every energy is one that was measured, and the pressures of the
  steps are untouched.\<close>

theorem energies_unimodal:
  assumes "queue_ok q" and "3 \<le> q_nLen q"
  shows "queue_ok (ForEnergy q) \<and> q_nLen (ForEnergy q) = q_nLen q \<and>
    (let e = energies q; a = energies (ForEnergy q); m = max_energy_index e
     in m < q_nLen q \<and> a ! m = e ! m \<and> set a \<subseteq> set e
      \<and> (\<forall>k. k < m \<longrightarrow> a ! k \<le> a ! Suc k) \<and> (\<forall>k. m < k \<longrightarrow> k < q_nLen q \<longrightarrow> a ! k \<le> a ! (k - 1)))
    \<and> (\<forall>i. i < q_nLen q \<longrightarrow> Ystart (pSteep (ForEnergy q) ! i) = Ystart (pSteep q ! i))"
proof -
  have l: "length (energies q) = q_nLen q" by (simp add: energies_def)
  note S = smooth_energies_unimodal [of "energies q", unfolded l, OF assms(2)]
  show ?thesis
    using S smooth_energies_set [of "energies q"] ForEnergy_steps [OF assms(1)] by (simp add: Let_def)
qed

definition steps_queue :: "STEEP_UNIT list \<Rightarrow> QUEUE_S" where
  "steps_queue us = \<lparr>pSteep = us @ replicate (QUEUE_S_LEN - length us) (Get_STEEP_UNIT 0 0 0 0 0 0), q_nLen = length us\<rparr>"

lemma steps_queue_simps [simp]:
  "length us \<le> QUEUE_S_LEN \<Longrightarrow> queue_ok (steps_queue us)" "q_nLen (steps_queue us) = length us"
  "steps (steps_queue us) = us" "i < length us \<Longrightarrow> pSteep (steps_queue us) ! i = us ! i"
  by (simp_all add: steps_queue_def queue_ok_def steps_def nth_append)

text \<open>Three steps at 60, 90 and 120 mmHg.\<close>

definition three_steps :: QUEUE_S where
  "three_steps = steps_queue [Get_STEEP_UNIT 10 600000 20 601000 1 0, Get_STEEP_UNIT 10 900000 20 904000 1 0,
     Get_STEEP_UNIT 10 1200000 20 1202000 1 0]"

lemma three_steps_ok: "queue_ok three_steps" "q_nLen three_steps = 3"
  by (simp_all add: three_steps_def QUEUE_S_LEN_def)

lemma energies_unimodal_witness:
  "energies (ForEnergy three_steps) ! max_energy_index (energies three_steps)
     = energies three_steps ! max_energy_index (energies three_steps)"
  using energies_unimodal [of three_steps] three_steps_ok by (simp add: Let_def)

text \<open>The order of the three values \<open>w\<close> for a filtered curve \<open>G\<close>, in ten-thousandths of a mmHg.\<close>

definition in_order :: "alg_fpu \<Rightarrow> FEATURE_LIST \<Rightarrow> nibp_vals \<Rightarrow> bool" where
  "in_order fp G w \<longleftrightarrow> vMAP w = Pressure G ! peak_index G \<and> vMAP w \<le> vSP w + 20000
     \<and> (tenth fp G \<le> peak_index G \<longrightarrow> vDP w \<le> vMAP w + 20000)
     \<and> (200000 \<le> vMAP w \<longrightarrow> (dia_found fp G \<longrightarrow> vDP w < vMAP w) \<and> (sys_found fp G \<longrightarrow> vMAP w < vSP w))"

text \<open>C7: Over a list of steps whose pressures rise, in a machine that rounds as IEEE single precision
  does, the construction of the curve ends with all its thousand points, whose pressures rise from the lowest
  step to at most the highest.  What \<open>NIBPfromFeature\<close> then makes of the filtered curve, its last step \<open>ForResult\<close>
  included and whatever the last result was, is in order: the mean pressure is that of the strongest point; from a mean
  of 20 mmHg on, a diastolic point that was found gives a pressure below the mean and a systolic point that was found
  one above it, after the correction too.  Where the search finds no point and falls back on the end or the tenth of the
  curve, the order holds only up to the 2 mmHg of the correction: mean at most systolic plus 2 mmHg, and diastolic at
  most mean plus 2 mmHg provided the peak lies at or beyond that tenth.\<close>

theorem pressures_in_order:
  assumes "single_ok fp" and "rising_queue q" and "feature_list_ok F0"
  shows "\<exists>F. GetFeatureList fp q F0 = Some (ForEnergy q, F) \<and> f_nLen F = 1000
    \<and> (\<forall>i j. i \<le> j \<longrightarrow> j < 1000 \<longrightarrow> Pressure F ! i \<le> Pressure F ! j)
    \<and> (\<forall>i < 1000. Ystart (pSteep q ! 0) \<le> Pressure F ! i \<and> Pressure F ! i \<le> Ystart (pSteep q ! (q_nLen q - 1)))
    \<and> (let G = FilFeatureList fp F in in_order fp G (NIBPfromFeature fp lastDP lastSP lastBPM G v))"
proof -
  obtain F where F: "GetFeatureList fp q F0 = Some (ForEnergy q, F)" "feature_list_ok F" "f_nLen F = 1000"
    "\<And>k. k < 1000 \<Longrightarrow> Pressure F ! k = feature_pressure fp q k"
    using GetFeatureList_total [OF assms] by blast
  have mono: "Pressure F ! i \<le> Pressure F ! j" if "i \<le> j" "j < 1000" for i j
    using feature_pressure_mono [OF assms(1,2) that(1)] that F(4) by (simp add: FEATURE_LEN_def)
  have range: "Ystart (pSteep q ! 0) \<le> Pressure F ! i \<and> Pressure F ! i \<le> Ystart (pSteep q ! (q_nLen q - 1))" if "i < 1000" for i
    using feature_pressure_range [OF assms(1), of i q] assms(2) that F(4) by (simp add: rising_queue_def FEATURE_LEN_def)
  let ?G = "FilFeatureList fp F"
  have G: "f_nLen ?G = 915" using FilFeatureList_length F by blast
  have P: "Pressure ?G ! i = Pressure F ! (i + 43)" if "int i < f_nLen ?G" for i
    using that G FilFeatureList_pressure [OF F(3,2)] by simp
  have m: "Pressure ?G ! i \<le> Pressure ?G ! j" if "i \<le> j" "int j < f_nLen ?G" for i j
    using that G P mono [of "i + 43" "j + 43"] by simp
  have r: "0 \<le> Pressure ?G ! i \<and> Pressure ?G ! i \<le> 2 ^ 24" if "int i < f_nLen ?G" for i
    using that G P range [of "i + 43"] assms(2) by (auto simp: rising_queue_def)
  have "cvs fp (fl fp (915 * fl fp (1 / 10))) < 915" if "single_ok fp"
  proof -
    note S = single_okD [OF that]
    have x: "fl fp (1 / 10) \<le> 1 / 9" using S(3) [of "1 / 10"] by simp
    have "fl fp (915 * fl fp (1 / 10)) \<le> fl fp 102" using x by (intro S(1)) simp
    also have "\<dots> = 102" using S(2) [of 102] by simp
    finally have u: "fl fp (915 * fl fp (1 / 10)) \<le> 102" .
    have "fl fp 0 \<le> fl fp (1 / 10)" by (rule S(1)) simp
    then have "0 \<le> fl fp (1 / 10)" using S(2) [of 0] by simp
    then have "fl fp 0 \<le> fl fp (915 * fl fp (1 / 10))" by (intro S(1)) simp
    then have "0 \<le> fl fp (915 * fl fp (1 / 10))" using S(2) [of 0] by simp
    with u show ?thesis using S(4) [of "fl fp (915 * fl fp (1 / 10))"] by (simp add: trunc_def floor_less_iff)
  qed
  then have t: "tenth fp ?G < nat (f_nLen ?G)" using assms(1) single_okD(2) [OF assms(1), of 915] G by (simp add: tenth_def)
  have "0 < f_nLen ?G" using G by simp
  note O = NIBPfromFeature_order [OF assms(1) this t m r, of lastDP lastSP lastBPM v]
  have "in_order fp ?G (NIBPfromFeature fp lastDP lastSP lastBPM ?G v)"
    using O by (simp add: in_order_def)
  then show ?thesis using F mono range by (auto simp: Let_def)
qed

lemma three_steps_rising: "rising_queue three_steps"
  by (simp add: rising_queue_def three_steps_def ascending_def QUEUE_S_LEN_def Get_STEEP_UNIT_def)

lemma pressures_in_order_witness:
  "\<exists>F. GetFeatureList exact_alg_fpu three_steps \<lparr>Pressure = replicate 1000 0, Energy = replicate 1000 0, f_nLen = 0\<rparr>
     = Some (ForEnergy three_steps, F) \<and> f_nLen F = 1000"
proof -
  have "feature_list_ok \<lparr>Pressure = replicate 1000 0, Energy = replicate 1000 0, f_nLen = 0\<rparr>"
    by (simp add: feature_list_ok_def FEATURE_LEN_def)
  from pressures_in_order [OF exact_single_ok three_steps_rising this] show ?thesis by blast
qed

end
