(* ===== verification/NibpAlg.thy ===== *)
theory NibpAlg
  imports NibpFeature
begin

text \<open>
  \<open>NIBPAlgorithm/NIBPAlgorithm.c\<close> and the control part of \<open>NIBPAlgorithmV1000.c\<close>: the samples of one
  pressure step are collected until the tag that ends the step arrives, then the step is analysed, by the
  search for the inflation pressure while the cuff is being inflated (\<open>NIBP_Rising_All\<close>) and by the
  evaluation of the deflation afterwards (\<open>NIBP_FallingWithEnd\<close>).  \<open>None\<close> is undefined behaviour of C.
\<close>

section \<open>State\<close>

record CNIBPIn =
  u32mmHgCur :: u32
  u32mmHgPre :: u32
  lastBPM :: int
  lastDP :: int
  lastSP :: int
  u32mmHgRising :: u16
  isOneStepDataReady :: bool

text \<open>The static variables of \<open>NIBP_Rising_All\<close>.\<close>

record rise_st =
  PowerMax :: int
  PowerMinH :: int
  PowerMinL :: int
  PressureMax :: int
  PressureMinH :: int
  PressureMinL :: int
  PressureBot :: int
  PressureTop :: int

record nibp_alg =
  algoIn :: CNIBPIn
  rawData :: "u32 list"
  rawNum :: nat
  rawMax :: nat
  filData :: "int list"
  nibpResult :: CNIBPResult
  stepLists :: step_lists
  QueuesNew2 :: QUEUE_S
  featureList :: FEATURE_LIST
  isRisingFirst :: bool
  pulse_average_ms :: int
  Reliability :: real
  riseSt :: rise_st
  nibp_patient_cur :: u8
  stack_junk :: int

definition TAG :: u32 where "TAG = 0x00FFFFFF"

text \<open>The buffer the code reads as \<open>int *\<close>.\<close>

definition raw_ints :: "nibp_alg \<Rightarrow> int list" where "raw_ints s = List.map sint (rawData s)"

section \<open>Inflation\<close>

text \<open>Filtering and pulse search of one step, shared by both directions.\<close>

definition step_pulses :: "alg_fpu \<Rightarrow> int \<Rightarrow> nibp_alg \<Rightarrow> nibp_alg" where
  "step_pulses fp DataLen s =
     (let DataUseLen = DataLen - int NIBP_DATA_FILTER_SIZE + 1;
          fil = snd (Filter fp fFir_6_100hz_35s NIBP_DATA_FILTER_SIZE (raw_ints s) DataLen DataUseLen (filData s) 0);
          q = GetSteepFalling fp fil DataUseLen WAVELET_CUT (fl fp 0.3) (fl fp 0.1) (Queue_S_Init (QueuesNew2 s))
      in s\<lparr>filData := fil, QueuesNew2 := QerrCutFalling fp q\<rparr>)"

definition NIBP_Step_Rising :: "alg_fpu \<Rightarrow> int \<Rightarrow> nibp_alg \<Rightarrow> (nat \<times> int \<times> nibp_alg) option" where
  "NIBP_Step_Rising fp DataLen s =
     (let s = step_pulses fp DataLen s; q = QueuesNew2 s; n = q_nLen q
      in case GetFallingUnitList fp (stack_junk s) (filData s) (DataLen - int NIBP_DATA_FILTER_SIZE + 1) q
                (pulse_average_ms s) (stepLists s) of
           None \<Rightarrow> None
         | Some (avg, L) \<Rightarrow>
             if n = 0 then None
             else Some (n, Sum_by (\<lambda>i. Yend (pSteep q ! i) - Ystart (pSteep q ! i)) n sdiv int n,
                        s\<lparr>pulse_average_ms := avg, stepLists := L,
                          nibpResult := (nibpResult s)\<lparr>pulse_ms := word_of_int avg\<rparr>\<rparr>))"

text \<open>The first step of a measurement starts the search.\<close>

definition rise_first :: "int \<Rightarrow> int \<Rightarrow> rise_st" where
  "rise_first P W = \<lparr>PowerMax = W, PowerMinH = W, PowerMinL = W, PressureMax = P, PressureMinH = P,
     PressureMinL = P, PressureBot = 0, PressureTop = P\<rparr>"

definition rise_track :: "int \<Rightarrow> int \<Rightarrow> rise_st \<Rightarrow> rise_st" where
  "rise_track P W r =
     (if PowerMax r < W
      then let r = r\<lparr>PressureMax := P, PowerMax := W\<rparr>
           in if PressureMax r > PressureMinH r then r\<lparr>PressureMinH := PressureMax r, PowerMinH := PowerMax r\<rparr>
              else if PressureMax r < PressureMinL r then r\<lparr>PressureMinL := PressureMax r, PowerMinL := PowerMax r\<rparr>
              else r
      else if PowerMinH r > W \<and> PressureMax r < P then r\<lparr>PressureMinH := P, PowerMinH := W\<rparr>
      else if PowerMinL r > W \<and> PressureMax r > P then r\<lparr>PressureMinL := P, PowerMinL := W\<rparr>
      else r)"

definition rise_higher :: "rise_st \<Rightarrow> int \<times> bool \<times> rise_st" where
  "rise_higher r = (i32 (PressureTop r + 40), False,
     r\<lparr>PressureBot := PressureTop r, PressureTop := i32 (PressureTop r + 40)\<rparr>)"

definition rise_decide :: "alg_fpu \<Rightarrow> int \<Rightarrow> nat \<Rightarrow> int \<Rightarrow> rise_st \<Rightarrow> int \<times> bool \<times> rise_st" where
  "rise_decide fp P StepNum W r =
     (if StepNum = 0
      then if P \<ge> PressureMax r then (P, True, r) else rise_higher r
      else let r = rise_track P W r
           in if flt fp (PowerMinH r) \<le> fmul fp (flt fp (PowerMax r)) (fl fp 0.4)
              then (i32 (10 + PressureMinH r), True, r)
              else if flt fp (PowerMinL r) < fmul fp (flt fp (PowerMax r)) (fl fp 0.8) \<and> PressureMinL r < PressureMax r
                      \<or> P < i32 (PressureBot r + 15)
              then rise_higher r
              else (i32 (P - 10), False, r))"

definition NIBP_Rising_All :: "alg_fpu \<Rightarrow> int \<Rightarrow> int \<Rightarrow> bool \<Rightarrow> nibp_alg \<Rightarrow> (int \<times> bool \<times> nibp_alg) option" where
  "NIBP_Rising_All fp DataLen P First s =
     (case NIBP_Step_Rising fp DataLen s of
        None \<Rightarrow> None
      | Some (StepNum, W, s) \<Rightarrow>
          let (x, pEnd, r) = rise_decide fp P StepNum W (if First then rise_first P W else riseSt s)
          in Some (x, pEnd, s\<lparr>riseSt := r\<rparr>))"

section \<open>Deflation\<close>

text \<open>The range of steps around the greatest mean height, for the pulse rate.\<close>

fun bpm_left :: "(nat \<Rightarrow> bool) \<Rightarrow> (nat \<Rightarrow> bool) \<Rightarrow> nat list \<Rightarrow> nat \<Rightarrow> nat" where
  "bpm_left low stop [] startIndex = startIndex"
| "bpm_left low stop (i # is) startIndex =
     (if low i then if stop i then i + 1 else bpm_left low stop is (i + 1)
      else bpm_left low stop is startIndex)"

fun bpm_right :: "(nat \<Rightarrow> bool) \<Rightarrow> (nat \<Rightarrow> bool) \<Rightarrow> nat list \<Rightarrow> nat \<Rightarrow> nat" where
  "bpm_right low stop [] endIndex = endIndex"
| "bpm_right low stop (i # is) endIndex =
     (if low i then if stop i then i - 1 else bpm_right low stop is (i - 1)
      else bpm_right low stop is endIndex)"

definition bpm_range :: "alg_fpu \<Rightarrow> step_lists \<Rightarrow> nat \<Rightarrow> nat \<times> nat" where
  "bpm_range fp L QcountBPM =
     (let (MaxData, MaxIndex) = Max_Index_N (pMeanList L) QcountBPM;
          low = (\<lambda>i. flt fp (pMeanList L ! i) < fmul fp (flt fp MaxData) (fl fp 0.45));
          stop = (\<lambda>i. pCountList L ! i > 0)
      in (bpm_left low stop (rev [0..<MaxIndex]) MaxIndex, bpm_right low stop [MaxIndex + 1..<QcountBPM] MaxIndex))"

text \<open>\<open>6000.0*count/sum+0.5\<close>; where \<open>sum\<close> is 0 the machine's quotient is an infinity, HOL's is 0.\<close>

definition bpm_value :: "alg_fpu \<Rightarrow> step_lists \<Rightarrow> nat \<Rightarrow> nat \<Rightarrow> int" where
  "bpm_value fp L startIndex endIndex =
     (let is = [startIndex..<endIndex + 1];
          count = fold (\<lambda>i c. i32 (c + pCountList L ! i)) is 0;
          sum = fold (\<lambda>i c. i32 (c + i32 (pDiffList L ! i * pCountList L ! i))) is 0
      in cvs fp (fadd fp (fdiv fp (fmul fp (flt fp 6000) (flt fp count)) (flt fp sum)) (fl fp 0.5)))"

definition vals_of :: "CNIBPResult \<Rightarrow> nibp_vals" where
  "vals_of r = \<lparr>vDP = sint (DP r), vDE = 0, vSP = sint (SP r), vSE = 0, vMAP = sint (MAP r), vMAE = 0,
     vBPM = sint (BPM r)\<rparr>"

definition put_vals :: "nibp_vals \<Rightarrow> CNIBPResult \<Rightarrow> CNIBPResult" where
  "put_vals v r = r\<lparr>DP := word_of_int (vDP v), SP := word_of_int (vSP v), MAP := word_of_int (vMAP v),
     BPM := word_of_int (vBPM v)\<rparr>"

text \<open>The list of steps is complete: rate, curve, pressures, reliability.\<close>

definition evaluate :: "alg_fpu \<Rightarrow> nat \<Rightarrow> nibp_alg \<Rightarrow> nibp_alg option" where
  "evaluate fp QcountBPM s =
     (let L = stepLists s; (startIndex, endIndex) = bpm_range fp L QcountBPM;
          i = algoIn s; v = (vals_of (nibpResult s))\<lparr>vBPM := bpm_value fp L startIndex endIndex\<rparr>
      in case GetFeatureList fp (stepQ L) (featureList s) of
           None \<Rightarrow> None
         | Some (q, F) \<Rightarrow>
             (let F = FilFeatureList fp F; v = NIBPfromFeature fp (lastDP i) (lastSP i) (lastBPM i) F v
              in case ForReliability fp (pMeanList L) (pDiffList L) (pCountList L) QcountBPM startIndex endIndex of
                   None \<Rightarrow> None
                 | Some rel \<Rightarrow> Some (s\<lparr>stepLists := L\<lparr>stepQ := q\<rparr>, featureList := F, Reliability := rel,
                                     nibpResult := put_vals v (nibpResult s)\<rparr>)))"

definition NIBP_FallingWithEnd :: "alg_fpu \<Rightarrow> int \<Rightarrow> int \<Rightarrow> bool \<Rightarrow> nibp_alg \<Rightarrow> (bool \<times> nibp_alg) option" where
  "NIBP_FallingWithEnd fp DataLen PMax End1 s =
     (let s = step_pulses fp DataLen s; l = DataLen - int NIBP_DATA_FILTER_SIZE + 1; D = raw_ints s
      in case GetFallingUnitList fp (stack_junk s) D l (QueuesNew2 s) (pulse_average_ms s) (stepLists s) of
           None \<Rightarrow> None
         | Some (avg, L) \<Rightarrow>
             (let s = s\<lparr>pulse_average_ms := avg, stepLists := L,
                        nibpResult := (nibpResult s)\<lparr>pulse_ms := word_of_int avg\<rparr>\<rparr>
              in if l < 1 then None
                 else if flt fp (D ! nat (l - 1)) < fmax (flt fp (i32 (PMax - 350000))) (fmul fp (flt fp PMax) (fl fp 0.65))
                 then let (b, q) = NIBPProcessQWithEnd fp End1 (stepQ L); s' = s\<lparr>stepLists := L\<lparr>stepQ := q\<rparr>\<rparr>
                      in if b then map_option (Pair True) (evaluate fp (q_nLen (stepQ L)) s') else Some (False, s')
                 else Some (False, s)))"

section \<open>One step, and the samples\<close>

definition NIBPRunV1000 :: "alg_fpu \<Rightarrow> nibp_alg \<Rightarrow> nibp_alg option" where
  "NIBPRunV1000 fp s =
     (let ready = (\<lambda>s. s\<lparr>algoIn := (algoIn s)\<lparr>isOneStepDataReady := False\<rparr>\<rparr>);
          P = int (unat (u32mmHgRising (algoIn s)))
      in if isAllDone (nibpResult s) \<or> \<not> isOneStepDataReady (algoIn s) then Some s
         else if rawNum s = 0 then Some (ready s)
         else if \<not> isRisingDone (nibpResult s)
         then (case NIBP_Rising_All fp (int (rawNum s)) P (isRisingFirst s) s of
                 None \<Rightarrow> None
               | Some (x, pEnd, s) \<Rightarrow>
                   let r = (nibpResult s)\<lparr>risingResult := word_of_int x\<rparr>;
                       r = (if pEnd then r\<lparr>isRisingDone := True, BPM := 0\<rparr> else r)
                   in Some ((ready s)\<lparr>nibpResult := r, isRisingFirst := False, rawNum := 0\<rparr>))
         else (case NIBP_FallingWithEnd fp (int (rawNum s)) (P * 10000) (rawData s ! 0 < 100000) s of
                 None \<Rightarrow> None
               | Some (done, s) \<Rightarrow>
                   Some ((ready s)\<lparr>nibpResult := (nibpResult s)\<lparr>isAllDone := done, reliability := Reliability s\<rparr>,
                                   rawNum := 0\<rparr>)))"

definition raw_push :: "u32 \<Rightarrow> nibp_alg \<Rightarrow> nibp_alg" where
  "raw_push x s =
     (if rawNum s < rawMax s
      then s\<lparr>rawData := (rawData s)[rawNum s := x], rawNum := rawNum s + 1\<rparr>
      else s\<lparr>rawData := (upd_loop (rawMax s - 1) (\<lambda>i a. a ! (i + 1)) (rawData s))[rawMax s - 1 := x]\<rparr>)"

definition l_nibp_PushAlgorithmData :: "alg_fpu \<Rightarrow> u32 \<Rightarrow> u16 \<Rightarrow> nibp_alg \<Rightarrow> nibp_alg option" where
  "l_nibp_PushAlgorithmData fp mmHg mmHgRising s =
     (let i = algoIn s; i = i\<lparr>u32mmHgPre := u32mmHgCur i, u32mmHgCur := mmHg, u32mmHgRising := mmHgRising\<rparr>;
          i = (if u32mmHgCur i = TAG \<and> u32mmHgPre i \<noteq> TAG then i\<lparr>isOneStepDataReady := True\<rparr> else i);
          s = s\<lparr>algoIn := i\<rparr>
      in if u32mmHgCur i = TAG then NIBPRunV1000 fp s else Some (raw_push mmHg s))"

definition l_nibp_PopAlgorithmData :: "nibp_alg \<Rightarrow> CNIBPResult" where
  "l_nibp_PopAlgorithmData s = nibpResult s"

definition l_nibp_SetAlgorithmPatient :: "u8 \<Rightarrow> nibp_alg \<Rightarrow> nibp_alg" where
  "l_nibp_SetAlgorithmPatient newType s = s\<lparr>nibp_patient_cur := newType\<rparr>"

definition l_nibp_pushLastRet :: "int \<Rightarrow> int \<Rightarrow> int \<Rightarrow> nibp_alg \<Rightarrow> nibp_alg" where
  "l_nibp_pushLastRet dp sp bpm s = s\<lparr>algoIn := (algoIn s)\<lparr>lastDP := dp, lastSP := sp, lastBPM := bpm\<rparr>\<rparr>"

definition NIBPInit :: "nibp_alg \<Rightarrow> nibp_alg" where
  "NIBPInit s = s\<lparr>stepLists := (stepLists s)\<lparr>stepQ := Queue_S_Init (stepQ (stepLists s))\<rparr>,
     featureList := (featureList s)\<lparr>f_nLen := 0\<rparr>\<rparr>"

definition NIBPInitV1000 :: "nibp_alg \<Rightarrow> nibp_alg" where
  "NIBPInitV1000 s =
     (NIBPInit s)\<lparr>
       nibpResult := \<lparr>BPM = 0, DP = 0, SP = 0, MAP = 0, risingResult = 0, pulse_ms = 0, reliability = 0,
                      isAllDone = False, isRisingDone = False\<rparr>,
       rawNum := 0, rawMax := NIBP_FILTER_WINDOW_LEN,
       algoIn := \<lparr>u32mmHgCur = TAG, u32mmHgPre = 0, lastBPM = 0, lastDP = 0, lastSP = 0, u32mmHgRising = 0,
                  isOneStepDataReady = False\<rparr>,
       isRisingFirst := True, pulse_average_ms := 0, Reliability := 0\<rparr>"


section \<open>Collecting a step\<close>

definition raw_ok :: "nibp_alg \<Rightarrow> bool" where
  "raw_ok s \<longleftrightarrow> rawMax s = NIBP_FILTER_WINDOW_LEN \<and> length (rawData s) = NIBP_FILTER_WINDOW_LEN
     \<and> rawNum s \<le> NIBP_FILTER_WINDOW_LEN"

definition samples :: "nibp_alg \<Rightarrow> u32 list" where "samples s = take (rawNum s) (rawData s)"

text \<open>The abstract buffer: the last \<open>NIBP_FILTER_WINDOW_LEN\<close> samples.\<close>

definition lastn :: "nat \<Rightarrow> 'a list \<Rightarrow> 'a list" where "lastn n xs = drop (length xs - n) xs"

lemma raw_push_frame [simp]:
  "stepLists (raw_push x s) = stepLists s" "nibpResult (raw_push x s) = nibpResult s"
  "filData (raw_push x s) = filData s" "QueuesNew2 (raw_push x s) = QueuesNew2 s"
  "featureList (raw_push x s) = featureList s"
  by (simp_all add: raw_push_def)

lemma raw_push_samples:
  assumes "raw_ok s"
  shows "raw_ok (raw_push x s)" "samples (raw_push x s) = lastn NIBP_FILTER_WINDOW_LEN (samples s @ [x])"
    "algoIn (raw_push x s) = algoIn s"
proof -
  have l: "length (samples s) = rawNum s" using assms by (simp add: samples_def raw_ok_def)
  show "raw_ok (raw_push x s)" using assms by (auto simp: raw_push_def raw_ok_def)
  show "algoIn (raw_push x s) = algoIn s" by (simp add: raw_push_def)
  show "samples (raw_push x s) = lastn NIBP_FILTER_WINDOW_LEN (samples s @ [x])"
  proof (cases "rawNum s < rawMax s")
    case True
    then show ?thesis using assms l
      by (simp add: raw_push_def samples_def raw_ok_def lastn_def take_Suc_conv_app_nth)
  next
    case False
    let ?n = "NIBP_FILTER_WINDOW_LEN"
    have n: "rawNum s = ?n" "rawMax s = ?n" "length (rawData s) = ?n" "0 < ?n"
      using False assms by (auto simp: raw_ok_def NIBP_FILTER_WINDOW_LEN_def)
    have u: "upd_loop (?n - 1) (\<lambda>i a. a ! (i + 1)) (rawData s) ! j = (if j < ?n - 1 then rawData s ! (j + 1) else rawData s ! j)"
      if "j < ?n" for j
      using that n by (subst nth_upd_loop) auto
    have "samples (raw_push x s) = (upd_loop (?n - 1) (\<lambda>i a. a ! (i + 1)) (rawData s))[?n - 1 := x]"
      using n False by (simp add: raw_push_def samples_def)
    also have "\<dots> = tl (rawData s) @ [x]"
      using n by (intro nth_equalityI) (auto simp: nth_list_update u [simplified] nth_append nth_tl)
    finally show ?thesis using n by (simp add: lastn_def samples_def drop_Suc)
  qed
qed






section \<open>The invariant of the analysis\<close>

definition alg_ok :: "nibp_alg \<Rightarrow> bool" where
  "alg_ok s \<longleftrightarrow> raw_ok s \<and> length (filData s) = NIBP_STEEP_WINDOW_LEN \<and> queue_ok (QueuesNew2 s)
     \<and> lists_ok (stepLists s) \<and> feature_list_ok (featureList s)
     \<and> (\<not> isAllDone (nibpResult s) \<longrightarrow> descending (steps (stepQ (stepLists s))))"

definition step_count :: "nibp_alg \<Rightarrow> nat" where "step_count s = q_nLen (stepQ (stepLists s))"

lemma GetSteepFalling_queue_ok: "queue_ok q \<Longrightarrow> queue_ok (GetSteepFalling fp D n a b c q)"
  using GetSteepFalling_ok [of q D n fp a b c] by (simp add: pulses_ok_def)

lemma step_pulses_ok:
  assumes "alg_ok s"
  shows "alg_ok (step_pulses fp n s)" "stepLists (step_pulses fp n s) = stepLists s"
    "rawNum (step_pulses fp n s) = rawNum s" "rawData (step_pulses fp n s) = rawData s"
    "nibpResult (step_pulses fp n s) = nibpResult s" "featureList (step_pulses fp n s) = featureList s"
  using assms
  by (simp_all add: step_pulses_def Let_def alg_ok_def raw_ok_def QerrCutFalling_ok GetSteepFalling_queue_ok)

lemma GetFallingUnitList_None:
  "\<not> q_nLen (stepQ L) < STEP_LISTS_LEN \<Longrightarrow> GetFallingUnitList fp junk D n q avg L = None"
  by (simp add: GetFallingUnitList_def Let_def split: prod.split)

lemma GetFallingUnitList_ok:
  assumes L: "lists_ok L" "descending (steps (stepQ L))" and r: "GetFallingUnitList fp junk D n q avg L = Some (avg', L')"
  shows "lists_ok L'" "descending (steps (stepQ L'))" "q_nLen (stepQ L') = q_nLen (stepQ L) + 1"
proof -
  have n: "q_nLen (stepQ L) < STEP_LISTS_LEN" using r GetFallingUnitList_None by fastforce
  obtain a b c d where m: "step_means avg q = (a, b, c, d)" by (metis prod_cases4)
  let ?u = "step_summary fp junk D n q" and ?k = "steps_above (Ystart (step_summary fp junk D n q)) (steps (stepQ L))"
  have k: "?k \<le> q_nLen (stepQ L)"
    using L(1) length_steps [of "stepQ L"] by (metis lists_ok_def steps_above_le)
  have L': "L' = (put_step ?k ?u a b c L)\<lparr>stepQ := (stepQ (put_step ?k ?u a b c L))\<lparr>q_nLen := q_nLen (stepQ L) + 1\<rparr>\<rparr>"
    using GetFallingUnitList_pos [OF L n refl m refl] r by simp
  show "lists_ok L'" unfolding L' by (rule put_step_lists [OF L(1) n k])
  have "steps (stepQ L') = insert_at ?k ?u (steps (stepQ L))" unfolding L' by (rule put_step_lists [OF L(1) n k])
  then show "descending (steps (stepQ L'))" using descending_insert [OF L(2)] by simp
  show "q_nLen (stepQ L') = q_nLen (stepQ L) + 1" unfolding L' by simp
qed

lemma Step_Rising_ok:
  assumes s: "alg_ok s" "\<not> isAllDone (nibpResult s)" and r: "NIBP_Step_Rising fp n s = Some (k, W, s')"
  shows "alg_ok s'" "\<not> isAllDone (nibpResult s')" "step_count s' = step_count s + 1"
proof -
  let ?t = "step_pulses fp n s"
  obtain avg L where L: "GetFallingUnitList fp (stack_junk ?t) (filData ?t) (n - int NIBP_DATA_FILTER_SIZE + 1)
      (QueuesNew2 ?t) (pulse_average_ms ?t) (stepLists ?t) = Some (avg, L)"
    and s': "s' = ?t\<lparr>pulse_average_ms := avg, stepLists := L,
                nibpResult := (nibpResult ?t)\<lparr>pulse_ms := word_of_int avg\<rparr>\<rparr>"
    using r by (auto simp: NIBP_Step_Rising_def Let_def split: option.splits if_splits)
  have t: "alg_ok ?t" "lists_ok (stepLists ?t)" "descending (steps (stepQ (stepLists ?t)))"
    using step_pulses_ok [OF s(1)] s by (auto simp: alg_ok_def)
  note G = GetFallingUnitList_ok [OF t(2,3) L]
  show "alg_ok s'" "\<not> isAllDone (nibpResult s')" "step_count s' = step_count s + 1"
    using t(1) G s(2) step_pulses_ok [OF s(1), of fp n] by (auto simp: s' alg_ok_def raw_ok_def step_count_def)
qed

lemma evaluate_lists:
  assumes "queue_ok (stepQ (stepLists s))" "feature_list_ok (featureList s)" and r: "evaluate fp k s = Some s'"
  shows "\<exists>q F. GetFeatureList fp (stepQ (stepLists s)) (featureList s) = Some (q, F)
    \<and> stepLists s' = (stepLists s)\<lparr>stepQ := q\<rparr> \<and> featureList s' = FilFeatureList fp F \<and> q = ForEnergy (stepQ (stepLists s))
    \<and> nibpResult s' = put_vals (NIBPfromFeature fp (lastDP (algoIn s)) (lastSP (algoIn s)) (lastBPM (algoIn s))
        (FilFeatureList fp F) ((vals_of (nibpResult s))\<lparr>vBPM := (case bpm_range fp (stepLists s) k of (a, b) \<Rightarrow>
            bpm_value fp (stepLists s) a b)\<rparr>)) (nibpResult s)
    \<and> rawData s' = rawData s \<and> rawNum s' = rawNum s \<and> rawMax s' = rawMax s \<and> filData s' = filData s
    \<and> QueuesNew2 s' = QueuesNew2 s"
  using r by (auto simp: evaluate_def Let_def GetFeatureList_def split: prod.splits option.splits if_splits)

lemma evaluate_frame:
  "evaluate fp k s = Some s' \<Longrightarrow> rawData s' = rawData s \<and> rawNum s' = rawNum s \<and> rawMax s' = rawMax s
     \<and> filData s' = filData s \<and> QueuesNew2 s' = QueuesNew2 s"
  by (auto simp: evaluate_def Let_def split: prod.splits option.splits)

lemma evaluate_ok:
  assumes "lists_ok (stepLists s)" "feature_list_ok (featureList s)" "evaluate fp k s = Some s'"
  shows "lists_ok (stepLists s')" "feature_list_ok (featureList s')" "step_count s' = step_count s"
proof -
  have q: "queue_ok (stepQ (stepLists s))" using assms(1) by (simp add: lists_ok_def)
  note E = evaluate_lists [OF q assms(2,3)]
  show "feature_list_ok (featureList s')"
    using E GetFeatureList_lengths assms(2) FilFeatureList_length(2) by metis
  show "lists_ok (stepLists s')" "step_count s' = step_count s"
    using E assms(1) ForEnergy_steps(1,2) [OF q] by (auto simp: lists_ok_def step_count_def)
qed

lemma FallingWithEnd_ok:
  assumes s: "alg_ok s" "\<not> isAllDone (nibpResult s)" and r: "NIBP_FallingWithEnd fp n pm e s = Some (b, s')"
  shows "raw_ok s'" "length (filData s') = NIBP_STEEP_WINDOW_LEN" "queue_ok (QueuesNew2 s')" "lists_ok (stepLists s')"
    "feature_list_ok (featureList s')" "\<not> b \<Longrightarrow> descending (steps (stepQ (stepLists s')))"
    "step_count s' \<le> step_count s + 1"
proof -
  let ?t = "step_pulses fp n s"
  obtain avg L where L: "GetFallingUnitList fp (stack_junk ?t) (raw_ints ?t) (n - int NIBP_DATA_FILTER_SIZE + 1)
      (QueuesNew2 ?t) (pulse_average_ms ?t) (stepLists ?t) = Some (avg, L)"
    using r by (auto simp: NIBP_FallingWithEnd_def Let_def split: option.splits)
  define u where "u = ?t\<lparr>pulse_average_ms := avg, stepLists := L, nibpResult := (nibpResult ?t)\<lparr>pulse_ms := word_of_int avg\<rparr>\<rparr>"
  obtain c q where c: "NIBPProcessQWithEnd fp e (stepQ L) = (c, q)" by fastforce
  have t: "alg_ok ?t" "lists_ok (stepLists ?t)" "descending (steps (stepQ (stepLists ?t)))"
    using step_pulses_ok [OF s(1)] s by (auto simp: alg_ok_def)
  note G = GetFallingUnitList_ok [OF t(2,3) L]
  have step: "step_count s = q_nLen (stepQ (stepLists ?t))" using step_pulses_ok [OF s(1)] by (simp add: step_count_def)
  have u: "raw_ok u" "length (filData u) = NIBP_STEEP_WINDOW_LEN" "queue_ok (QueuesNew2 u)" "stepLists u = L"
    "feature_list_ok (featureList u)"
    using t(1) by (auto simp: u_def alg_ok_def raw_ok_def)
  let ?v = "u\<lparr>stepLists := L\<lparr>stepQ := q\<rparr>\<rparr>"
  have q: "queue_ok q" "q_nLen q \<le> q_nLen (stepQ L)" if c
  proof -
    have Q: "NIBPProcessQWithEnd fp e (stepQ L) = (True, q)" using c that by simp
    from NIBPProcessQ_steps [OF _ Q] G(1) obtain i j where ij: "queue_ok q" "i \<le> j" "j < q_nLen (stepQ L)"
      "List.map core (steps q) = List.map core (filter (\<lambda>u. Xstart u \<noteq> 0) (rev (take (j + 1 - i) (drop i (steps (stepQ L))))))"
      by (auto simp: lists_ok_def)
    have "length (steps q) = length (filter (\<lambda>u. Xstart u \<noteq> 0) (rev (take (j + 1 - i) (drop i (steps (stepQ L))))))"
      using arg_cong [OF ij(4), of length] by simp
    also have "\<dots> \<le> j + 1 - i" by (rule order_trans [OF length_filter_le]) simp
    also have "\<dots> \<le> q_nLen (stepQ L)" using ij by simp
    finally show "queue_ok q" "q_nLen q \<le> q_nLen (stepQ L)" using ij(1) by simp_all
  qed
  have v: "lists_ok (stepLists ?v)" "feature_list_ok (featureList ?v)" "queue_ok (stepQ (stepLists ?v))" if c
    using q [OF that] G(1) u(5) by (auto simp: lists_ok_def)
  have unch: "q = stepQ L" if "\<not> c"
    using c that by (auto simp: NIBPProcessQWithEnd_def Let_def split: if_splits prod.splits)
  have cases: "(b \<and> c \<and> evaluate fp (q_nLen (stepQ L)) ?v = Some s') \<or> (\<not> b \<and> \<not> c \<and> s' = ?v) \<or> (\<not> b \<and> s' = u)"
    using r L c by (auto simp: NIBP_FallingWithEnd_def Let_def u_def split: option.splits if_splits)
  show "raw_ok s'" "length (filData s') = NIBP_STEEP_WINDOW_LEN" "queue_ok (QueuesNew2 s')"
    using cases u by (auto simp: raw_ok_def dest!: evaluate_frame)
  show "lists_ok (stepLists s')" "feature_list_ok (featureList s')"
    using cases u G(1) unch evaluate_ok(1,2) [OF v(1,2)] by auto
  show "\<not> b \<Longrightarrow> descending (steps (stepQ (stepLists s')))"
    using cases u(4) G(2) unch by auto
  have "step_count s' = q_nLen q" if b using cases evaluate_ok(3) [OF v(1,2)] that by (auto simp: step_count_def)
  then show "step_count s' \<le> step_count s + 1"
    using cases u(4) G(3) unch q(2) step by (auto simp: step_count_def)
qed

lemma NIBPRun_ok:
  assumes "alg_ok s" and "NIBPRunV1000 fp s = Some s'"
  shows "alg_ok s' \<and> step_count s' \<le> step_count s + 1"
proof -
  let ?P = "int (unat (u32mmHgRising (algoIn s)))"
  have fin: "lists_ok (stepLists t) \<Longrightarrow> queue_ok (QueuesNew2 t) \<Longrightarrow> raw_ok t \<Longrightarrow> feature_list_ok (featureList t) \<Longrightarrow>
    length (filData t) = NIBP_STEEP_WINDOW_LEN \<Longrightarrow> (\<not> b \<Longrightarrow> descending (steps (stepQ (stepLists t)))) \<Longrightarrow>
    alg_ok (t\<lparr>algoIn := i, nibpResult := (nibpResult t)\<lparr>isAllDone := b, reliability := rr\<rparr>, rawNum := 0\<rparr>)" for t i b rr
    by (auto simp: alg_ok_def raw_ok_def)
  show ?thesis
  proof (cases "isAllDone (nibpResult s) \<or> \<not> isOneStepDataReady (algoIn s) \<or> rawNum s = 0")
    case True
    then have "s' = s \<or> s' = s\<lparr>algoIn := (algoIn s)\<lparr>isOneStepDataReady := False\<rparr>\<rparr>"
      using assms(2) by (auto simp: NIBPRunV1000_def Let_def split: if_splits)
    then show ?thesis using assms(1) by (auto simp: alg_ok_def raw_ok_def step_count_def)
  next
    case run: False
    show ?thesis
    proof (cases "isRisingDone (nibpResult s)")
      case False
      then obtain k W t x pe r where k: "NIBP_Step_Rising fp (int (rawNum s)) s = Some (k, W, t)"
        "NIBP_Rising_All fp (int (rawNum s)) ?P (isRisingFirst s) s = Some (x, pe, t\<lparr>riseSt := r\<rparr>)"
        using assms(2) run
        by (auto simp: NIBPRunV1000_def NIBP_Rising_All_def Let_def split: option.splits prod.splits)
      note T = Step_Rising_ok [OF assms(1) _ k(1)]
      show ?thesis using assms(2) run False k(2) T
        by (auto simp: NIBPRunV1000_def Let_def alg_ok_def raw_ok_def step_count_def)
    next
      case True
      then obtain b t where b: "NIBP_FallingWithEnd fp (int (rawNum s)) (?P * 10000) (rawData s ! 0 < 100000) s = Some (b, t)"
        "s' = t\<lparr>algoIn := (algoIn t)\<lparr>isOneStepDataReady := False\<rparr>,
               nibpResult := (nibpResult t)\<lparr>isAllDone := b, reliability := Reliability t\<rparr>, rawNum := 0\<rparr>"
        using assms(2) run by (auto simp: NIBPRunV1000_def Let_def split: option.splits)
      have nd: "\<not> isAllDone (nibpResult s)" using run by simp
      note T = FallingWithEnd_ok [OF assms(1) nd b(1)]
      show ?thesis using T unfolding b(2) by (auto intro!: fin simp: step_count_def)
    qed
  qed
qed

lemma Push_ok:
  assumes "alg_ok s" and "l_nibp_PushAlgorithmData fp x r s = Some s'"
  shows "alg_ok s' \<and> step_count s' \<le> step_count s + 1"
proof -
  obtain i where i: "s' = raw_push x (s\<lparr>algoIn := i\<rparr>) \<and> x \<noteq> TAG \<or> NIBPRunV1000 fp (s\<lparr>algoIn := i\<rparr>) = Some s' \<and> x = TAG"
    using assms(2) by (auto simp: l_nibp_PushAlgorithmData_def Let_def split: if_splits)
  have "alg_ok (s\<lparr>algoIn := i\<rparr>)" using assms(1) by (simp add: alg_ok_def raw_ok_def)
  then show ?thesis using i NIBPRun_ok [of "s\<lparr>algoIn := i\<rparr>"] raw_push_samples(1) [of "s\<lparr>algoIn := i\<rparr>" x]
    by (auto simp: alg_ok_def step_count_def)
qed

lemma Init_ok:
  "length (rawData s) = NIBP_FILTER_WINDOW_LEN \<Longrightarrow> length (filData s) = NIBP_STEEP_WINDOW_LEN \<Longrightarrow>
   queue_ok (QueuesNew2 s) \<Longrightarrow> lists_ok (stepLists s) \<Longrightarrow> feature_list_ok (featureList s) \<Longrightarrow>
   alg_ok (NIBPInitV1000 s) \<and> step_count (NIBPInitV1000 s) = 0 \<and> samples (NIBPInitV1000 s) = []"
  by (simp add: alg_ok_def raw_ok_def NIBPInitV1000_def NIBPInit_def lists_ok_def feature_list_ok_def
      step_count_def samples_def descending_def Queue_S_Init_def queue_ok_def steps_def)

section \<open>A step without a pulse\<close>

lemma fir_const:
  "(\<forall>i \<in> set is. D ! (i + j) = c) \<Longrightarrow> c \<noteq> STEP_RELE_ADC_TAG \<Longrightarrow>
   fir fp f D j prev acc is = fold (\<lambda>i acc. fadd fp acc (fmul fp (fl fp (f ! i)) (flt fp c))) is acc"
  by (induction "is" arbitrary: acc) auto

lemma Filter_const:
  assumes "\<forall>i < n. D ! i = c" "c \<noteq> STEP_RELE_ADC_TAG" "36 \<le> n" "n - 35 \<le> length out"
  shows "\<exists>v. \<forall>j < n - 35. snd (Filter fp fFir_6_100hz_35s NIBP_DATA_FILTER_SIZE D (int n) (int n - 36 + 1) out 0) ! j = v"
proof -
  let ?v = "cvs fp (fold (\<lambda>i acc. fadd fp acc (fmul fp (fl fp (fFir_6_100hz_35s ! i)) (flt fp c))) [0..<36] 0)"
  have v: "fir_out fp fFir_6_100hz_35s NIBP_DATA_FILTER_SIZE D 0 j b = ?v" if "j < n - 35" for j b
    unfolding fir_out_def NIBP_DATA_FILTER_SIZE_def using assms(1,2) that by (subst fir_const) auto
  have n: "nat (int n - 35) = n - 35" by simp
  have "snd (Filter fp fFir_6_100hz_35s NIBP_DATA_FILTER_SIZE D (int n) (int n - 36 + 1) out 0) ! j = ?v" if "j < n - 35" for j
  proof -
    have "upd_loop (n - 35) (fir_out fp fFir_6_100hz_35s NIBP_DATA_FILTER_SIZE D 0) out ! j = ?v"
      using that assms(4) v by (subst nth_upd_loop) auto
    then show ?thesis using assms(3) n by (simp add: Filter_def NIBP_DATA_FILTER_SIZE_def)
  qed
  then show ?thesis by blast
qed

definition quiet :: "steep_st \<Rightarrow> bool" where
  "quiet t \<longleftrightarrow> sMode t = MODE_START \<and> MaxNow t = 0 \<and> MinNow t = 0 \<and> DeltaUpLast t = 0 \<and> DeltaDownLast t = 0"

lemma steep_step_quiet:
  assumes fp: "single_ok fp" and "quiet t" and "w ! ii = 0"
  shows "steep_step fp WAVELET_CUT b c D w n ii (t, q) = (t, q)"
proof -
  note S = single_okD(2) [OF fp]
  have z: "fl fp 0 = 0" "flt fp 400 = 400" "fl fp (- 400) = - 400" using S [of 0] S [of 400] S [of "- 400"] by simp_all
  have th: "steep_threshold fp WAVELET_CUT b c t = 400"
    using assms(2) z by (simp add: steep_threshold_def quiet_def my_max_def fmax_def WAVELET_CUT_def Let_def)
  have "steep_extrema 0 t = t" using assms(2) by (simp add: steep_extrema_def quiet_def)
  then show ?thesis using assms(2,3) th z by (simp add: steep_step_def quiet_def Let_def)
qed

lemma GetSteepFalling_const:
  assumes fp: "single_ok fp" and D: "\<forall>j < nat n. D ! j = v" and n: "n \<le> 400"
  shows "q_nLen (GetSteepFalling fp D n WAVELET_CUT b c q) = 0"
proof (cases "0 < n")
  case True
  let ?w = "Diff_N D (nat n) (replicate NIBP_STEEP_WINDOW_LEN 0)"
  have w: "?w ! j = 0" if "j < 400" for j
    using that D by (auto simp: nth_Diff_N NIBP_STEEP_WINDOW_LEN_def in32_def)
  have "fold (steep_step fp WAVELET_CUT b c D ?w m) is (t, q) = (t, q)" if "quiet t" "\<forall>i \<in> set is. i < 400" for m "is" t q
    using that by (induction "is") (auto simp: steep_step_quiet [OF fp] w)
  note fold = this
  let ?t = "\<lparr>sMode = MODE_START, MaxNow = ?w ! 0, MinNow = ?w ! 0, Start = 0, End = 0, DeltaUpLast = 0,
      DeltaDownLast = 0, DeltaUpNow = 0, DeltaDownNow = 0\<rparr>"
  have "quiet ?t" using w [of 0] by (simp add: quiet_def)
  then have "fold (steep_step fp WAVELET_CUT b c D ?w (nat n - 1)) [0..<nat n - 1] (?t, q\<lparr>q_nLen := 0\<rparr>)
      = (?t, q\<lparr>q_nLen := 0\<rparr>)" using n by (intro fold) auto
  moreover have "my_min (int NIBP_STEEP_WINDOW_LEN) n = n" using n by (simp add: my_min_eq NIBP_STEEP_WINDOW_LEN_def)
  ultimately show ?thesis using True unfolding GetSteepFalling_def Let_def by simp
next
  case False
  then show ?thesis using n by (simp add: GetSteepFalling_def my_min_def Let_def NIBP_STEEP_WINDOW_LEN_def)
qed

section \<open>Properties\<close>

text \<open>C15: When the pressure of a step is constant while the cuff is inflated, no pulse is found, and
  \<open>NIBP_Step_Rising\<close> divides the summed energies by their number, 0: the analysis is undefined, although
  \<open>NIBP_Rising_All\<close> goes on to treat a step without pulses as an ordinary case.\<close>

theorem flat_step_undefined:
  assumes "single_ok fp" and "alg_ok s" and "36 \<le> n" and "n \<le> 400"
    and "\<forall>i < n. raw_ints s ! i = c" and "c \<noteq> STEP_RELE_ADC_TAG"
  shows "NIBP_Rising_All fp (int n) P First s = None"
proof -
  let ?fil = "snd (Filter fp fFir_6_100hz_35s NIBP_DATA_FILTER_SIZE (raw_ints s) (int n) (int n - 36 + 1) (filData s) 0)"
  have "n - 35 \<le> length (filData s)" using assms(2,4) by (simp add: alg_ok_def NIBP_STEEP_WINDOW_LEN_def)
  from Filter_const [OF assms(5,6,3) this, of fp] obtain v where "\<forall>j < n - 35. ?fil ! j = v" by blast
  moreover have "nat (int n - 36 + 1) = n - 35" by simp
  ultimately have "\<forall>j < nat (int n - 36 + 1). ?fil ! j = v" by simp
  from GetSteepFalling_const [OF assms(1) this] assms(4)
  have "q_nLen (QueuesNew2 (step_pulses fp (int n) s)) = 0"
    by (simp add: step_pulses_def Let_def NIBP_DATA_FILTER_SIZE_def QerrCutFalling_def)
  then have "NIBP_Step_Rising fp (int n) s = None"
    by (simp add: NIBP_Step_Rising_def Let_def split: option.split)
  then show ?thesis by (simp add: NIBP_Rising_All_def)
qed

text \<open>A state at the start of a measurement.\<close>

definition fresh_alg :: nibp_alg where
  "fresh_alg = NIBPInitV1000 \<lparr>algoIn = \<lparr>u32mmHgCur = 0, u32mmHgPre = 0, lastBPM = 0, lastDP = 0, lastSP = 0,
       u32mmHgRising = 0, isOneStepDataReady = False\<rparr>,
     rawData = replicate NIBP_FILTER_WINDOW_LEN 50000, rawNum = 0, rawMax = 0,
     filData = replicate NIBP_STEEP_WINDOW_LEN 0,
     nibpResult = \<lparr>BPM = 0, DP = 0, SP = 0, MAP = 0, risingResult = 0, pulse_ms = 0, reliability = 0,
                   isAllDone = False, isRisingDone = False\<rparr>,
     stepLists = empty_lists, QueuesNew2 = empty_queue,
     featureList = \<lparr>Pressure = replicate FEATURE_LEN 0, Energy = replicate FEATURE_LEN 0, f_nLen = 0\<rparr>,
     isRisingFirst = True, pulse_average_ms = 0, Reliability = 0,
     riseSt = \<lparr>PowerMax = 0, PowerMinH = 0, PowerMinL = 0, PressureMax = 0, PressureMinH = 0, PressureMinL = 0,
               PressureBot = 0, PressureTop = 0\<rparr>,
     nibp_patient_cur = 1, stack_junk = 0\<rparr>"

lemma fresh_alg_ok: "alg_ok fresh_alg" "samples fresh_alg = []" "raw_ok fresh_alg" "step_count fresh_alg = 0"
  "rawData fresh_alg = replicate NIBP_FILTER_WINDOW_LEN 50000"
  using Init_ok [of "\<lparr>algoIn = \<lparr>u32mmHgCur = 0, u32mmHgPre = 0, lastBPM = 0, lastDP = 0, lastSP = 0,
       u32mmHgRising = 0, isOneStepDataReady = False\<rparr>,
     rawData = replicate NIBP_FILTER_WINDOW_LEN 50000, rawNum = 0, rawMax = 0,
     filData = replicate NIBP_STEEP_WINDOW_LEN 0,
     nibpResult = \<lparr>BPM = 0, DP = 0, SP = 0, MAP = 0, risingResult = 0, pulse_ms = 0, reliability = 0,
                   isAllDone = False, isRisingDone = False\<rparr>,
     stepLists = empty_lists, QueuesNew2 = empty_queue,
     featureList = \<lparr>Pressure = replicate FEATURE_LEN 0, Energy = replicate FEATURE_LEN 0, f_nLen = 0\<rparr>,
     isRisingFirst = True, pulse_average_ms = 0, Reliability = 0,
     riseSt = \<lparr>PowerMax = 0, PowerMinH = 0, PowerMinL = 0, PressureMax = 0, PressureMinH = 0, PressureMinL = 0,
               PressureBot = 0, PressureTop = 0\<rparr>,
     nibp_patient_cur = 1, stack_junk = 0\<rparr>"]
  by (simp_all add: fresh_alg_def [symmetric] feature_list_ok_def alg_ok_def)
     (simp add: fresh_alg_def NIBPInitV1000_def NIBPInit_def)

lemma flat_step_undefined_witness: "NIBP_Rising_All exact_alg_fpu (int 100) 60 True fresh_alg = None"
  by (rule flat_step_undefined [OF exact_single_ok fresh_alg_ok(1), where c = 50000])
     (simp_all add: raw_ints_def fresh_alg_ok(5) NIBP_FILTER_WINDOW_LEN_def STEP_RELE_ADC_TAG_def)




text \<open>Only the buffer and the inputs differ.\<close>

definition same_but_input :: "nibp_alg \<Rightarrow> nibp_alg \<Rightarrow> bool" where
  "same_but_input s t \<longleftrightarrow> t = s\<lparr>rawData := rawData t, rawNum := rawNum t, algoIn := algoIn t\<rparr>"


lemma same_but_input_in [simp]: "same_but_input s (t\<lparr>algoIn := i\<rparr>) = same_but_input s t"
  unfolding same_but_input_def by (cases s; cases t) simp










end
