(* ===== verification/NibpRising.thy ===== *)
theory NibpRising
  imports NibpFeature
begin

text \<open>
  The functions of \<open>NIBPAlgorithmV1000.c\<close> that nothing of the program calls: an earlier measurement during the
  inflation, which kept a window of the last four seconds (\<open>NIBPgetRisingQ\<close>) and searched it for pulses in the second
  derivative (\<open>GetSteepRising\<close>), and the evaluations of the queue it filled.  \<open>None\<close> is a division by zero or an
  access outside an array.
\<close>

section \<open>Medians\<close>

definition NIBP_NEW_WINDOW_LEN :: nat where "NIBP_NEW_WINDOW_LEN = 20"
definition NIBP_GET_BPM_QUEUES_COUNT :: nat where "NIBP_GET_BPM_QUEUES_COUNT = 8"

definition MedianABS :: "alg_fpu \<Rightarrow> int list \<Rightarrow> int \<Rightarrow> int" where
  "MedianABS fp DataIn DataInLen =
     (let n = nat (my_min DataInLen (int NIBP_STEEP_WINDOW_LEN));
          w = sort (List.map my_abs (take n DataIn)) @ replicate (NIBP_STEEP_WINDOW_LEN - n) 0
      in w ! nat (cvs fp (fmul fp (flt fp (int n)) (fl fp 0.4))))"

text \<open>The neighbours of a unit of mode 2 get mode 3, first those before one, then those behind one.\<close>

definition mark_neighbours :: "QUEUE_S \<Rightarrow> QUEUE_S" where
  "mark_neighbours q =
     (let mark = (\<lambda>k ii a. if Mode (a ! k) = 2 \<and> Mode (a ! ii) < 2 then a[ii := (a ! ii)\<lparr>Mode := 3\<rparr>] else a);
          a = fold (\<lambda>ii a. mark (ii + 1) ii a) [0..<q_nLen q - 1] (pSteep q);
          a = fold (\<lambda>ii a. mark (ii - 1) ii a) (rev [1..<q_nLen q]) a
      in q\<lparr>pSteep := a\<rparr>)"

text \<open>The samples that lie in no pulse, from the last one down; \<open>jj\<close> falls in every pass.\<close>

function outside_pulses :: "QUEUE_S \<Rightarrow> int \<Rightarrow> int list \<Rightarrow> int \<Rightarrow> int \<Rightarrow> int list" where
  "outside_pulses q Window DataIn ii jj =
     (let u = pSteep q ! nat ii;
          Delta = (if ii < int (q_nLen q) - 1 then (Xstart (pSteep q ! nat (ii + 1)) - Xstart u) sdiv 4 else Window)
      in if jj \<le> 0 then []
         else if ii \<le> 0 then my_abs (DataIn ! nat jj) # outside_pulses q Window DataIn ii (jj - 1)
         else if (Mode u \<ge> 2 \<and> jj \<le> Xend u * 2 - Xstart u
                    \<or> jj \<le> Xend u + my_min ((Xend u - Xstart u) sdiv 2) Delta) \<and> jj \<ge> Xstart u - Window
         then outside_pulses q Window DataIn (ii - 1) (Xstart u - Window - 1 - 1)
         else my_abs (DataIn ! nat jj) # outside_pulses q Window DataIn ii (jj - 1))"
  by pat_completeness auto
termination by (relation "measure (\<lambda>(q, w, D, ii, jj). nat jj)") auto

definition MedianButQ_Abs :: "int list \<Rightarrow> nat \<Rightarrow> int \<Rightarrow> QUEUE_S \<Rightarrow> int \<times> QUEUE_S" where
  "MedianButQ_Abs DataIn DataInLen Window q =
     (let q = (if q_nLen q > 1 then mark_neighbours q else q);
          xs = outside_pulses q Window DataIn (int (q_nLen q) - 1) (int DataInLen - 1)
      in ((sort xs @ [0]) ! (length xs div 2), q))"

section \<open>Pulses in the second derivative\<close>

definition second_derivative :: "int list \<Rightarrow> nat \<Rightarrow> int list" where
  "second_derivative DataIn DataLen =
     (let w = Diff_N DataIn DataLen (replicate NIBP_STEEP_WINDOW_LEN 0);
          w = Zoom (Diff_N_inplace w (DataLen - 1)) (DataLen - 2) 100
      in upd_loop (DataLen - 2) (\<lambda>i w. i32 (i32 (w ! i * w ! i) * GetDirection (w ! i))) w)"

record rising_st =
  newQ :: QUEUE_S
  Mode2en :: int
  Mode2start :: nat
  Mode2end :: nat

text \<open>The span of a pulse, and where the index \<open>k\<close> of its end stops.\<close>

definition rising_span :: "alg_fpu \<Rightarrow> int list \<Rightarrow> int list \<Rightarrow> nat \<Rightarrow> int \<Rightarrow> int \<Rightarrow> nat \<Rightarrow> (nat \<times> nat) option \<times> nat" where
  "rising_span fp DataIn w DataUseLen MinIn MaxIndex MinIndex =
     (case find (\<lambda>j. flt fp (w ! j) \<le> fmul fp (flt fp (w ! nat MaxIndex)) (fl fp 0.9)) (rev [0..<nat MaxIndex]) of
        None \<Rightarrow> (None, MinIndex)
      | Some j \<Rightarrow>
          if \<not> DataIn ! j > MinIn then (None, MinIndex)
          else case find (\<lambda>k. flt fp (w ! k) \<ge> fmul fp (flt fp (w ! MinIndex)) (fl fp 0.9) \<or> DataIn ! (k + 1) < DataIn ! k)
                      [MinIndex..<DataUseLen - 1] of
                 None \<Rightarrow> (None, max MinIndex (DataUseLen - 1))
               | Some k \<Rightarrow> (Some (j, k), k))"

definition add_rising :: "int list \<Rightarrow> nat \<Rightarrow> nat \<Rightarrow> int \<Rightarrow> QUEUE_S \<Rightarrow> QUEUE_S" where
  "add_rising DataIn j k md q =
     (let l = q_nLen q
      in (set_steep l ((pSteep q ! l)\<lparr>Xstart := i16 (int j), Ystart := DataIn ! j, Xend := i16 (int k),
            Yend := DataIn ! k, Mode := md\<rparr>) q)\<lparr>q_nLen := l + 1\<rparr>)"

text \<open>One pass at \<open>i\<close>: the next \<open>i\<close> and the state.\<close>

definition rising_pass :: "alg_fpu \<Rightarrow> int list \<Rightarrow> int list \<Rightarrow> nat \<Rightarrow> int \<Rightarrow> nat \<Rightarrow> nat \<Rightarrow> int \<Rightarrow> int \<Rightarrow> int \<Rightarrow> nat \<times> rising_st \<Rightarrow> nat \<times> rising_st" where
  "rising_pass fp DataIn w DataUseLen MinIn MinWindow MaxWindow MaxCut MinCut AllCut = (\<lambda>(i, r).
     let r = (if Mode2en r > 0 then r\<lparr>Mode2en := Mode2en r - 1\<rparr> else r);
         WindowEnd = min (DataUseLen - 1) (i + MaxWindow - 1); n = WindowEnd - i + 1;
         (MaxData, mx) = Max_Index_N (drop i w) n; (MinData, mn) = Min_Index_N (drop i w) n;
         MaxIndex = int i + int mx - 1; MinIndex = int i + int mn - 1;
         up = MinIndex - MaxIndex \<ge> int MinWindow; inside = MinIndex < int WindowEnd;
         half = MaxData > MaxCut sdiv 2 \<and> MinData < MinCut sdiv 2 \<and> i32 (MaxData - MinData) > AllCut sdiv 2
     in if MaxData > MaxCut \<and> MinData < MinCut \<and> i32 (MaxData - MinData) > AllCut \<and> up \<and> inside
        then let (span, k) = rising_span fp DataIn w DataUseLen MinIn MaxIndex (nat MinIndex)
             in (max (i + MaxWindow) (k + MinWindow),
                 case span of None \<Rightarrow> r | Some (j, k) \<Rightarrow> r\<lparr>newQ := add_rising DataIn j k 1 (newQ r)\<rparr>)
        else if half \<and> up \<and> inside
        then let (span, k) = rising_span fp DataIn w DataUseLen MinIn MaxIndex (nat MinIndex)
             in (k + 1, case span of None \<Rightarrow> r | Some (j, k) \<Rightarrow> r\<lparr>Mode2start := j, Mode2end := k, Mode2en := 2\<rparr>)
        else if half \<and> MaxIndex - MinIndex \<ge> int MinWindow \<and> inside \<and> Mode2en r \<ge> 1
        then (max (i + MaxWindow) (Mode2end r + MinWindow),
              r\<lparr>newQ := add_rising DataIn (Mode2start r) (Mode2end r) 2 (newQ r), Mode2en := 0\<rparr>)
        else if MaxData > MaxCut \<and> MaxIndex > int i then (nat MaxIndex, r)
        else (i + MaxWindow, r))"

text \<open>The loop, with as much fuel as there are samples; \<open>None\<close> would be a loop that goes on for longer.\<close>

fun rising_loop :: "nat \<Rightarrow> nat \<Rightarrow> (nat \<times> rising_st \<Rightarrow> nat \<times> rising_st) \<Rightarrow> nat \<times> rising_st \<Rightarrow> rising_st option" where
  "rising_loop fuel DataUseLen pass (i, r) =
     (if i \<ge> DataUseLen - 1 then Some r
      else case fuel of 0 \<Rightarrow> None | Suc fuel \<Rightarrow> rising_loop fuel DataUseLen pass (pass (i, r)))"

definition GetSteepRising :: "alg_fpu \<Rightarrow> int list \<Rightarrow> nat \<Rightarrow> nat \<Rightarrow> nat \<Rightarrow> int \<Rightarrow> int \<Rightarrow> int \<Rightarrow> QUEUE_S \<Rightarrow> QUEUE_S
    \<Rightarrow> (QUEUE_S \<times> QUEUE_S) option" where
  "GetSteepRising fp DataIn DataLen MinWindow MaxWindow MaxCut MinCut MinIn pQueueSin pQueueSnew =
     (let w = second_derivative DataIn DataLen; n = DataLen - 2;
          (Median, qin) = MedianButQ_Abs w n 1 pQueueSin; Median = my_max 1 Median;
          w = upd_loop n (\<lambda>i w. i32 (w ! i * 1000) sdiv Median) w;
          MaxCut = my_max (Max_N w n sdiv 10) (i32 (MaxCut * 1000));
          MinCut = my_min (Min_N w n sdiv 10) (i32 (MinCut * 1000));
          AllCut = cvs fp (fmul fp (flt fp (i32 (MaxCut - MinCut))) (fl fp 1.2));
          r = \<lparr>newQ = pQueueSnew, Mode2en = 0, Mode2start = 0, Mode2end = 0\<rparr>
      in case rising_loop n n (rising_pass fp DataIn w n MinIn MinWindow MaxWindow MaxCut MinCut AllCut) (0, r) of
           None \<Rightarrow> None | Some r \<Rightarrow> Some (qin, newQ r))"

section \<open>The queue\<close>

definition SteepMove :: "int \<Rightarrow> QUEUE_S \<Rightarrow> QUEUE_S" where
  "SteepMove len q =
     q\<lparr>pSteep := upd_loop (q_nLen q) (\<lambda>i a. (a ! i)\<lparr>Xstart := i16 (Xstart (a ! i) + len), Xend := i16 (Xend (a ! i) + len)\<rparr>)
                   (pSteep q)\<rparr>"

text \<open>Where a new unit goes: behind the last unit it starts after, unless one on the way is too near.\<close>

fun unit_place :: "int \<Rightarrow> STEEP_UNIT \<Rightarrow> STEEP_UNIT list \<Rightarrow> nat list \<Rightarrow> nat option" where
  "unit_place close u a [] = None"
| "unit_place close u a (j # js) =
     (if my_abs (Xstart u - Xstart (a ! j)) \<le> close \<or> my_abs (Xend u - Xend (a ! j)) \<le> close then None
      else if Xstart u > Xstart (a ! j) then Some (j + 1)
      else unit_place close u a js)"

definition GetUnitList :: "bool \<Rightarrow> QUEUE_S \<Rightarrow> QUEUE_S \<Rightarrow> QUEUE_S option" where
  "GetUnitList up QueueSnew QueueSnow =
     (if q_nLen QueueSnew = 0 then Some QueueSnow
      else if q_nLen QueueSnow < 2 then Some QueueSnew
      else let a = pSteep QueueSnow; n = q_nLen QueueSnow;
               mean = fold (\<lambda>i mean. i32 (i32 (mean + (Xstart (a ! (i + 1)) - Xstart (a ! i)))
                                           + (Xend (a ! (i + 1)) - Xend (a ! i)))) [0..<n - 1] 0;
               mean = mean sdiv ((int n - 1) * 2)
           in fold (\<lambda>i q. case q of None \<Rightarrow> None
                          | Some q \<Rightarrow> let u = pSteep QueueSnew ! i
                                      in case unit_place (mean sdiv 5) u (pSteep q) (rev [0..<q_nLen q]) of
                                           None \<Rightarrow> Some q | Some j \<Rightarrow> Queue_S_Insert up j u q)
                [0..<q_nLen QueueSnew] (Some QueueSnow))"

text \<open>The slope of each unit above \<open>FOR_BASELINE\<close> times that of the whole queue.\<close>

definition slopes :: "alg_fpu \<Rightarrow> QUEUE_S \<Rightarrow> int list option" where
  "slopes fp q =
     (let n = q_nLen q; a = pSteep q; dx = (\<lambda>i. Xend (a ! i) - Xstart (a ! i));
          base = Xend (a ! (n - 1)) - Xstart (a ! 0)
      in if base = 0 \<and> (\<exists>i \<in> set [0..<n]. dx i \<noteq> 0) then None
         else Some (List.map (\<lambda>i. if dx i = 0 then 0
                else cvs fp (fsub fp (flt fp (energy (a ! i) sdiv dx i))
                       (fmul fp (flt fp (i32 (Yend (a ! (n - 1)) - Ystart (a ! 0)) sdiv base)) (fl fp 0.8)))) [0..<n]))"

text \<open>A unit stays when its slope is more than 0.4 of the last one that stayed.\<close>

definition QerrCutRising :: "alg_fpu \<Rightarrow> QUEUE_S \<Rightarrow> QUEUE_S option" where
  "QerrCutRising fp q =
     (if q_nLen q = 0 then Some q
      else case slopes fp q of
             None \<Rightarrow> None
           | Some p \<Rightarrow>
               let (a, j, p) = fold (\<lambda>i (a, j, p).
                     if flt fp (p ! i) > fmul fp (flt fp (p ! (i - 1))) (fl fp 0.4) then (a[j := a ! i], j + 1, p)
                     else (a, j, p[i := p ! (i - 1)])) [1..<q_nLen q] (pSteep q, 1, p)
               in Some (q\<lparr>pSteep := a, q_nLen := j\<rparr>))"

definition NIBPProcessRQ :: "alg_fpu \<Rightarrow> QUEUE_S \<Rightarrow> QUEUE_S \<Rightarrow> QUEUE_S option" where
  "NIBPProcessRQ fp q new =
     (if q_nLen q = 0 then Some new
      else case slopes fp q of
             None \<Rightarrow> None
           | Some p \<Rightarrow>
               let DeltaMax = fst (Max_Index_N p (q_nLen q));
                   strong = filter (\<lambda>u. flt fp (energy u) \<ge> fmul fp (flt fp DeltaMax) (fl fp 0.4)) (steps q)
               in if q_nLen new + length strong > QUEUE_S_LEN then None
                  else Some (fold (\<lambda>u q. (set_steep (q_nLen q) u q)\<lparr>q_nLen := q_nLen q + 1\<rparr>) strong new))"

definition NIBPgetRisingQ :: "alg_fpu \<Rightarrow> bool \<Rightarrow> int list \<Rightarrow> int list \<Rightarrow> int \<Rightarrow> QUEUE_S \<Rightarrow> QUEUE_S
    \<Rightarrow> (int list \<times> int \<times> QUEUE_S \<times> QUEUE_S) option" where
  "NIBPgetRisingQ fp up pDataIn pDataFil DataFilLen q snew =
     (let old = NIBP_STEEP_WINDOW_LEN - NIBP_NEW_WINDOW_LEN; snew = Queue_S_Init snew;
          fil = memcpy_units up 0 NIBP_NEW_WINDOW_LEN old pDataFil;
          out = snd (Filter fp fFir_6_100hz_35s NIBP_DATA_FILTER_SIZE
                  (drop (NIBP_FILTER_WINDOW_LEN - NIBP_NEW_WINDOW_LEN - NIBP_DATA_FILTER_SIZE + 1) pDataIn)
                  (int (NIBP_NEW_WINDOW_LEN + NIBP_DATA_FILTER_SIZE - 1)) (int NIBP_NEW_WINDOW_LEN)
                  (drop old fil) (fil ! (old - 1)));
          fil = take old fil @ out; l = i32 (DataFilLen + int NIBP_NEW_WINDOW_LEN)
      in if l < int NIBP_STEEP_WINDOW_LEN then Some (fil, l, q, snew)
         else let q = SteepMove (- int NIBP_NEW_WINDOW_LEN) q; cutoff = (if q_nLen q \<le> 1 then 30 else 15)
              in case GetSteepRising fp fil NIBP_STEEP_WINDOW_LEN 6 24 cutoff (- cutoff) (20 * 10000) q snew of
                   None \<Rightarrow> None
                 | Some (q, snew) \<Rightarrow>
                     case GetUnitList up snew q of
                       None \<Rightarrow> None
                     | Some q \<Rightarrow> (case QerrCutRising fp q of None \<Rightarrow> None | Some q \<Rightarrow> Some (fil, l, q, snew)))"

section \<open>Evaluations\<close>

text \<open>The pulse rate from at most \<open>nLen\<close> units around the steepest.  \<open>junk\<close> is what the list of distances held
  before, read when there is no distance.\<close>

definition grow_window :: "int list \<Rightarrow> nat \<Rightarrow> nat \<times> nat \<Rightarrow> nat \<times> nat" where
  "grow_window p n = (\<lambda>(s, e).
     if s > 0 \<and> e < n - 1 then (if p ! (s - 1) > p ! (e + 1) then (s - 1, e) else (s, e + 1))
     else if s = 0 then (s, e + 1) else (s - 1, e))"

definition bpm_of :: "alg_fpu \<Rightarrow> int \<Rightarrow> int list \<Rightarrow> int" where
  "bpm_of fp junk xs =
     (let BPMout = (if xs = [] then junk else sort xs ! (length xs div 2));
          used = filter (\<lambda>d. flt fp (my_abs (d - BPMout)) < fmul fp (flt fp BPMout) (fl fp 0.4)) xs;
          BpmUse = fold (\<lambda>d s. i32 (s + d)) used 0
      in if BpmUse = 0 then BPMout
         else cvs fp (fadd fp (fdiv fp (fmul fp (flt fp 6000) (flt fp (int (length used)))) (flt fp BpmUse)) (fl fp 0.5)))"

definition NIBPgetBPM :: "alg_fpu \<Rightarrow> int \<Rightarrow> QUEUE_S \<Rightarrow> int \<Rightarrow> int option" where
  "NIBPgetBPM fp junk q nLen =
     (let n = q_nLen q; a = pSteep q;
          dx = (\<lambda>i. Xend (a ! i) - Xstart (a ! i));
          p = List.map (\<lambda>i. energy (a ! i) sdiv dx i) [0..<n]; m = snd (Max_Index_N p n);
          (s, e) = (if int n \<ge> nLen then (grow_window p n ^^ (nat (nLen - 1))) (m, m) else (0, n - 1))
      in if n < 2 then Some 0
         else if int n \<ge> nLen \<and> (\<exists>i \<in> set [0..<n]. dx i = 0) \<or> e - s > NIBP_GET_BPM_QUEUES_COUNT then None
         else Some (bpm_of fp junk (List.map (\<lambda>i. Xstart (a ! (i + 1)) - Xstart (a ! i)) [s..<e])))"

text \<open>The inflation pressure: the first unit behind the steepest one whose slope has fallen far enough, or the last
  unit when no pulse has come for long.  The inner \<open>None\<close> is the result \<open>false\<close>; with a pulse rate of 0 the pause
  is compared with infinity.\<close>

definition long_pause :: "alg_fpu \<Rightarrow> QUEUE_S \<Rightarrow> int \<Rightarrow> bool" where
  "long_pause fp q bpm \<longleftrightarrow> bpm \<noteq> 0
     \<and> flt fp (int NIBP_STEEP_WINDOW_LEN - Xend (pSteep q ! (q_nLen q - 1)))
         > fmax (flt fp 250) (fdiv fp (fmul fp (flt fp 6000) (fl fp 2.4)) (flt fp bpm))"

definition NIBPgetPressureMax :: "alg_fpu \<Rightarrow> QUEUE_S \<Rightarrow> int \<Rightarrow> int \<Rightarrow> int option option" where
  "NIBPgetPressureMax fp q bpm LatestP =
     (let n = q_nLen q
      in if n = 0 then Some None
         else case slopes fp q of
                None \<Rightarrow> None
              | Some p \<Rightarrow>
                  let (DeltaMax, k) = Max_Index_N p n;
                      below = (\<lambda>i c. flt fp (i32 (p ! i + p ! (i - 1)) sdiv 2) < fmul fp (flt fp DeltaMax) (fl fp c));
                      pause = long_pause fp q bpm;
                      ends = (\<lambda>i. DeltaMax \<ge> 1000 \<and> (pause \<and> below i 0.9 \<or> below i 0.65) \<and> LatestP > 100 * 10000)
                  in Some (map_option (\<lambda>i. i32 (Ystart (pSteep q ! (if pause \<and> below i 0.9 then n - 1 else i)) + 20 * 10000))
                            (find ends [k + 1..<n])))"

text \<open>The units around the greatest energy down to 0.4 of it on both sides, in reverse order.\<close>

definition NIBPProcessQ :: "alg_fpu \<Rightarrow> QUEUE_S \<Rightarrow> QUEUE_S \<Rightarrow> bool \<times> QUEUE_S \<times> QUEUE_S" where
  "NIBPProcessQ fp snew q =
     (let n = q_nLen q; snew = Queue_S_Init snew; p = List.map energy (steps q);
          (DeltaMax, k) = Max_Index_N p n;
          low = (\<lambda>i. flt fp (p ! i) < fmul fp (flt fp DeltaMax) (fl fp 0.4));
          startIndex = (case find (\<lambda>i. low i \<or> i = 0) (rev [0..<k + 1]) of None \<Rightarrow> 0 | Some i \<Rightarrow> i);
          endIndex = (case find (\<lambda>i. low i \<or> i = n - 1) [k..<n] of None \<Rightarrow> n - 1 | Some i \<Rightarrow> i)
      in if length (filter (\<lambda>u. Yend u \<noteq> Ystart u) (steps q)) \<le> 4 then (False, snew, q)
         else if \<not> low endIndex then (False, snew, q)
         else let part = take (endIndex - startIndex + 1) (drop startIndex (pSteep q));
                  snew = snew\<lparr>pSteep := part @ drop (length part) (pSteep snew), q_nLen := length part\<rparr>;
                  q = fold (\<lambda>u q. (set_steep (q_nLen q) (u\<lparr>eva := eva (pSteep q ! q_nLen q)\<rparr>) q)\<lparr>q_nLen := q_nLen q + 1\<rparr>)
                        (filter (\<lambda>u. Xstart u \<noteq> 0) (rev part)) (Queue_S_Init q)
              in (True, snew, q))"

text \<open>The number of waves that rise and fall by the threshold within \<open>MAX_STEP\<close> samples.\<close>

definition wave_step :: "alg_fpu \<Rightarrow> int \<Rightarrow> real \<Rightarrow> real \<Rightarrow> int list \<Rightarrow> nat \<Rightarrow> steep_st \<times> int \<Rightarrow> steep_st \<times> int" where
  "wave_step fp cut1 cut2 cut3 WaveIn ii = (\<lambda>(t, StepNum).
     let x = WaveIn ! ii; t = steep_extrema x t; th = steep_threshold fp cut1 cut2 cut3 t
     in if (sMode t = MODE_START \<or> sMode t = MODE_DOWN) \<and> flt fp x < fsub fp (flt fp (MaxNow t)) th
        then let t = t\<lparr>MinNow := x, End := ii\<rparr>;
                 c = (if sMode t = MODE_DOWN \<and> int (End t) - int (Start t) < MAX_STEP then StepNum + 1 else StepNum);
                 t = (if sMode t = MODE_DOWN then t\<lparr>DeltaUpLast := DeltaUpNow t\<rparr> else t)
             in (t\<lparr>sMode := MODE_UP\<rparr>, c)
        else if (sMode t = MODE_START \<or> sMode t = MODE_UP) \<and> flt fp x > fadd fp (flt fp (MinNow t)) th
        then let t = t\<lparr>MaxNow := x, Start := ii\<rparr>;
                 t = (if sMode t = MODE_UP then t\<lparr>DeltaDownLast := DeltaDownNow t\<rparr> else t)
             in (t\<lparr>sMode := MODE_DOWN\<rparr>, StepNum)
        else (t, StepNum))"

definition StepFromWave :: "alg_fpu \<Rightarrow> int list \<Rightarrow> int \<Rightarrow> real \<Rightarrow> real \<Rightarrow> int" where
  "StepFromWave fp WaveIn cut1 cut2 cut3 =
     (if WaveIn = [] then 0
      else snd (fold (wave_step fp cut1 cut2 cut3 WaveIn) [0..<length WaveIn]
             (\<lparr>sMode = MODE_START, MaxNow = WaveIn ! 0, MinNow = WaveIn ! 0, Start = 0, End = 0, DeltaUpLast = 0,
               DeltaDownLast = 0, DeltaUpNow = 0, DeltaDownNow = 0\<rparr>, 0)))"

definition NIBP_RisingAddUnitList :: "alg_fpu \<Rightarrow> int \<Rightarrow> int list \<Rightarrow> int \<Rightarrow> int list \<Rightarrow> int \<Rightarrow> QUEUE_S \<Rightarrow> int \<Rightarrow> step_lists
    \<Rightarrow> (int \<times> step_lists \<times> QUEUE_S) option" where
  "NIBP_RisingAddUnitList fp junk pDataIn DataInLen pDataFil DataFilLen new2 avg L =
     (let q = QerrCutFalling fp (GetSteepFalling fp pDataFil DataFilLen WAVELET_CUT (fl fp 0.3) (fl fp 0.1) (Queue_S_Init new2))
      in case GetFallingUnitList fp junk pDataIn DataInLen q avg L of
           None \<Rightarrow> None | Some (avg, L) \<Rightarrow> Some (avg, L, q))"

section \<open>The search ends\<close>

lemma rising_span_end: "MinIndex \<le> snd (rising_span fp D w n MinIn MaxIndex MinIndex)"
proof -
  have "find P [m..<k] = Some x \<Longrightarrow> m \<le> x" for P m k and x :: nat
    by (auto simp: find_Some_iff)
  then show ?thesis by (auto simp: rising_span_def split: option.split)
qed

lemma less_if: "(P \<Longrightarrow> i < a) \<Longrightarrow> (\<not> P \<Longrightarrow> i < b) \<Longrightarrow> (i :: nat) < (if P then a else b)"
  by simp

text \<open>Every pass moves the index forward when the smallest width of a pulse is at least two samples: twenty-four and
  six, the values of both calls, are such.\<close>

lemma rising_pass_forward:
  assumes "2 \<le> MinWindow" and "0 < MaxWindow"
  shows "i < fst (rising_pass fp D w n MinIn MinWindow MaxWindow MaxCut MinCut AllCut (i, r))"
proof -
  obtain a mx where mx: "Max_Index_N (drop i w) (min (n - 1) (i + MaxWindow - 1) - i + 1) = (a, mx)" by fastforce
  obtain b mn where mn: "Min_Index_N (drop i w) (min (n - 1) (i + MaxWindow - 1) - i + 1) = (b, mn)" by fastforce
  have far: "i < snd (rising_span fp D w n MinIn M (nat (int i + int mn - 1))) + 1"
    if "int mn - int mx \<ge> int MinWindow" for M
    using rising_span_end [of "nat (int i + int mn - 1)" fp D w n MinIn M] that assms(1) by linarith
  have skip: "i < nat (int i + int mx - 1)" if "Suc 0 < mx" using that by linarith
  show ?thesis
    unfolding rising_pass_def Let_def prod.case mx mn if_distrib [of fst] split_beta fst_conv
    by (intro less_if) (use far skip assms(2) in \<open>simp_all add: less_max_iff_disj\<close>)
qed

lemma rising_loop_ends:
  "(\<And>i r. i < fst (pass (i, r))) \<Longrightarrow> n \<le> fuel + i + 1 \<Longrightarrow> \<exists>r'. rising_loop fuel n pass (i, r) = Some r'"
proof (induction fuel arbitrary: i r)
  case (Suc fuel)
  have "\<exists>r'. rising_loop fuel n pass (pass (i, r)) = Some r'"
    using Suc.IH [of "fst (pass (i, r))" "snd (pass (i, r))"] Suc.prems(1) [of i r] Suc.prems by simp
  then show ?case by simp
qed simp

lemma GetSteepRising_ends:
  assumes "2 \<le> MinWindow" "0 < MaxWindow"
  shows "\<exists>qs. GetSteepRising fp D n MinWindow MaxWindow MaxCut MinCut MinIn qin qnew = Some qs"
proof -
  have "\<exists>r'. rising_loop (n - 2) (n - 2) (rising_pass fp D w (n - 2) MinIn MinWindow MaxWindow c1 c2 c3) (0, r) = Some r'"
    for w c1 c2 c3 r by (rule rising_loop_ends [OF rising_pass_forward [OF assms]]) simp
  then show ?thesis unfolding GetSteepRising_def Let_def split_beta by (metis option.simps(5))
qed

end
