(* ===== verification/AlgIO.thy ===== *)
theory AlgIO
  imports NibpSteps
begin

text \<open>
  \<open>ECGAlgorithm/ECGAlgorithm.c\<close> and \<open>RESPAlgorithm/RESPAlgorithm.c\<close>: the output queue of the two other
  analyses.  A sample enters as a new item at the end of the queue, converted to microvolts, the analysis fills in
  the item's filtered value and result, and the firmware takes finished items from the front.  The analyses are in
  the theories \<open>EcgAlg\<close> and \<open>RespAlg\<close>.
\<close>

section \<open>The output queue\<close>

text \<open>An array with the number of its used items.  A new item overwrites only its raw part, except in a full
  queue, which drops its oldest item and clears the place it gains.\<close>

definition out_push :: "nat \<Rightarrow> 'a \<Rightarrow> ('a \<Rightarrow> 'a) \<Rightarrow> 'a list \<times> nat \<Rightarrow> 'a list \<times> nat" where
  "out_push mx zero put_raw = (\<lambda>(a, n).
     if n < mx then (a[n := put_raw (a ! n)], n + 1)
     else ((upd_loop (mx - 1) (\<lambda>i a. a ! (i + 1)) a)[mx - 1 := put_raw zero], n))"

definition out_pop :: "nat \<Rightarrow> 'a list \<times> nat \<Rightarrow> 'a list \<times> 'a list \<times> nat" where
  "out_pop k = (\<lambda>(a, n).
     let l = min k n in (take l a, upd_loop (n - l) (\<lambda>i a. a ! (i + l)) a, n - l))"

definition out_items :: "'a list \<times> nat \<Rightarrow> 'a list" where
  "out_items q = take (snd q) (fst q)"

definition out_ok :: "nat \<Rightarrow> 'a list \<times> nat \<Rightarrow> bool" where
  "out_ok mx q \<longleftrightarrow> length (fst q) = mx \<and> snd q \<le> mx \<and> 0 < mx"

lemma shift_down:
  assumes "m + l \<le> length a"
  shows "take m (upd_loop m (\<lambda>i a. a ! (i + l)) a) = take m (drop l a)"
proof -
  have "upd_loop m (\<lambda>i a. a ! (i + l)) a ! j = a ! (j + l)" if "j < m" for j
    using assms that by (subst nth_upd_loop) auto
  then show ?thesis using assms by (intro nth_equalityI) (auto simp: add.commute)
qed

lemma out_push_ok: "out_ok mx q \<Longrightarrow> out_ok mx (out_push mx zero put_raw q)"
  by (auto simp: out_push_def out_ok_def split: prod.split)

lemma out_push_items:
  assumes "out_ok mx q"
  shows "out_items (out_push mx zero put_raw q)
    = (if snd q < mx then out_items q @ [put_raw (fst q ! snd q)] else tl (out_items q) @ [put_raw zero])"
proof -
  obtain a n where q: "q = (a, n)" by (cases q)
  show ?thesis
  proof (cases "n < mx")
    case True
    then show ?thesis using assms by (simp add: q out_push_def out_items_def out_ok_def take_Suc_conv_app_nth)
  next
    case False
    let ?b = "upd_loop (mx - 1) (\<lambda>i a. a ! (i + 1)) a"
    have n: "n = mx" "length a = mx" "0 < mx" using False assms by (auto simp: q out_ok_def)
    have "?b[mx - 1 := put_raw zero] = take (mx - 1) ?b @ [put_raw zero]"
      using n by (simp add: upd_conv_take_nth_drop)
    also have "take (mx - 1) ?b = take (mx - 1) (drop 1 a)" by (rule shift_down) (use n in simp)
    finally show ?thesis using n False by (simp add: q out_push_def out_items_def drop_Suc)
  qed
qed

lemma out_pop_items:
  assumes "out_ok mx q" and "out_pop k q = (xs, q')"
  shows "xs = take k (out_items q)" "out_items q' = drop k (out_items q)" "out_ok mx q'"
proof -
  obtain a n where q: "q = (a, n)" by (cases q)
  let ?l = "min k n"
  have x: "xs = take ?l a" "q' = (upd_loop (n - ?l) (\<lambda>i a. a ! (i + ?l)) a, n - ?l)"
    using assms(2) by (auto simp: q out_pop_def Let_def)
  have n: "n \<le> length a" using assms(1) by (simp add: q out_ok_def)
  show "xs = take k (out_items q)" by (simp add: x q out_items_def min.commute)
  have "out_items q' = take (n - ?l) (drop ?l a)"
    using shift_down [of "n - ?l" ?l a] n by (simp add: x out_items_def)
  then show "out_items q' = drop k (out_items q)" by (cases "k \<le> n") (simp_all add: q out_items_def drop_take)
  show "out_ok mx q'" using assms(1) by (auto simp: x q out_ok_def)
qed

section \<open>Lists of bounded length\<close>

text \<open>Appending to a full list drops its first element.\<close>

definition push_bounded :: "nat \<Rightarrow> 'a \<Rightarrow> 'a list \<Rightarrow> 'a list" where
  "push_bounded mx x l = (if length l \<ge> mx then tl l @ [x] else l @ [x])"

lemma length_push_bounded: "0 < mx \<Longrightarrow> length l \<le> mx \<Longrightarrow> length (push_bounded mx x l) \<le> mx"
  by (auto simp: push_bounded_def)

lemma set_push_bounded: "set (push_bounded mx x l) \<subseteq> insert x (set l)"
  by (cases l) (auto simp: push_bounded_def)

section \<open>ECG\<close>

definition ECG_ALGORITHM_INPUT_MAX_LEN :: nat where "ECG_ALGORITHM_INPUT_MAX_LEN = 60 * 500"

record CECGDataItem =
  d_SysTick :: u32
  s32ECG1 :: int
  s32ECG2 :: int
  s32ECG3 :: int
  s32ECG4 :: int
  s32ECG5 :: int
  s32ECG6 :: int
  s32ECG7 :: int
  d_pace :: u8

text \<open>\<open>pAlertList\<close> is null or points to the one alert list of the analysis.\<close>

record CECGResult =
  u32HeartRate :: u32
  nHRConfidence :: u32
  nSTAmpDif :: "s32 list"
  nPVCCount :: s32
  pAlertList :: bool
  u32QuickQRSTick :: u32

record CECG_Out_Item =
  stDataRaw :: CECGDataItem
  stDataFilter :: CECGDataItem
  stResult :: CECGResult

text \<open>\<open>5 V / 2^24\<close> in microvolts, a constant that single precision holds exactly.\<close>

definition ChangeToVol :: "alg_fpu \<Rightarrow> int \<Rightarrow> int" where
  "ChangeToVol fp data = cvs fp (fmul fp (fl fp 0.298023223876953125) (flt fp data))"

definition CalcOtherChannels :: "CECGDataItem \<Rightarrow> CECGDataItem" where
  "CalcOtherChannels d =
     (let d = d\<lparr>s32ECG4 := i32 (s32ECG2 d - s32ECG1 d)\<rparr>
      in d\<lparr>s32ECG5 := i32 (0 - i32 (s32ECG1 d + s32ECG2 d) sdiv 2),
           s32ECG6 := i32 (s32ECG1 d - s32ECG4 d) sdiv 2,
           s32ECG7 := i32 (s32ECG2 d + s32ECG4 d) sdiv 2\<rparr>)"

definition ecg_put_raw :: "alg_fpu \<Rightarrow> u32 \<Rightarrow> s32 \<Rightarrow> s32 \<Rightarrow> s32 \<Rightarrow> u8 \<Rightarrow> CECG_Out_Item \<Rightarrow> CECG_Out_Item" where
  "ecg_put_raw fp u32Tick i ii v pc x =
     x\<lparr>stDataRaw := CalcOtherChannels ((stDataRaw x)\<lparr>s32ECG1 := ChangeToVol fp (sint i),
        s32ECG2 := ChangeToVol fp (sint ii), s32ECG3 := ChangeToVol fp (sint v), d_SysTick := u32Tick, d_pace := pc\<rparr>)\<rparr>"

definition zero_ecg_data :: CECGDataItem where
  "zero_ecg_data = \<lparr>d_SysTick = 0, s32ECG1 = 0, s32ECG2 = 0, s32ECG3 = 0, s32ECG4 = 0, s32ECG5 = 0, s32ECG6 = 0,
     s32ECG7 = 0, d_pace = 0\<rparr>"

definition zero_ecg_item :: CECG_Out_Item where
  "zero_ecg_item = \<lparr>stDataRaw = zero_ecg_data, stDataFilter = zero_ecg_data,
     stResult = \<lparr>u32HeartRate = 0, nHRConfidence = 0, nSTAmpDif = replicate 7 0, nPVCCount = 0, pAlertList = False,
                 u32QuickQRSTick = 0\<rparr>\<rparr>"

type_synonym ecg_queue = "CECG_Out_Item list \<times> nat"

section \<open>The derived leads\<close>

lemma i32_small: "\<bar>x\<bar> < 2147483648 \<Longrightarrow> i32 x = x"
  by (rule i32_id) (auto simp: in32_def)

lemma sdiv_2: "(x :: int) sdiv 2 = (if 0 \<le> x then x div 2 else - ((- x) div 2))"
  by (auto simp: signed_divide_int_def sgn_if)

lemma half_bounds: "x - 1 \<le> 2 * ((x :: int) sdiv 2)" "2 * (x sdiv 2) \<le> x + 1"
  by (simp_all add: sdiv_2) linarith+

text \<open>With limb leads well inside 32 bits, lead III is II minus I, and the augmented leads add up to zero
  but for the rounding of the three halves.\<close>

lemma leads_sum:
  assumes "\<bar>s32ECG1 d\<bar> < 2 ^ 29" "\<bar>s32ECG2 d\<bar> < 2 ^ 29"
  shows "s32ECG4 (CalcOtherChannels d) = s32ECG2 d - s32ECG1 d"
    "\<bar>s32ECG5 (CalcOtherChannels d) + s32ECG6 (CalcOtherChannels d) + s32ECG7 (CalcOtherChannels d)\<bar> \<le> 1"
proof -
  let ?a = "s32ECG1 d" and ?b = "s32ECG2 d"
  have s: "i32 (?b - ?a) = ?b - ?a" "i32 (?a + ?b) = ?a + ?b" "i32 (?a - (?b - ?a)) = 2 * ?a - ?b"
    "i32 (?b + (?b - ?a)) = 2 * ?b - ?a" "i32 (0 - (?a + ?b) sdiv 2) = - ((?a + ?b) sdiv 2)"
    using assms by (simp_all add: i32_small sdiv_2)
  show "s32ECG4 (CalcOtherChannels d) = ?b - ?a" by (simp add: CalcOtherChannels_def Let_def s)
  have "\<bar>- ((x + y) sdiv 2) + (2 * x - y) sdiv 2 + (2 * y - x) sdiv 2\<bar> \<le> 1" for x y :: int
    using half_bounds [of "x + y"] half_bounds [of "2 * x - y"] half_bounds [of "2 * y - x"] by linarith
  then show "\<bar>s32ECG5 (CalcOtherChannels d) + s32ECG6 (CalcOtherChannels d) + s32ECG7 (CalcOtherChannels d)\<bar> \<le> 1"
    using s by (simp add: CalcOtherChannels_def Let_def)
qed

end
