(* ===== verification/EcgFilter.thy ===== *)
theory EcgFilter
  imports AlgIO
begin

text \<open>
  \<open>AlgorithmLib/DigitalFilter.c\<close>: the recursive filters of the ECG and the respiration.  A filter is a chain
  of second order sections; a section keeps its last three inputs and its last three outputs.  The buffers
  \<open>FILTER_BUFFER\<close>, \<open>FILTER_BUFFER_1\<close> and \<open>FILTER_BUFFER_2\<close> hold these for five, one and two sections: here
  they are lists of sections.
\<close>

section \<open>One section\<close>

record biquad =
  fHrX :: "real list"
  fHrY :: "real list"

definition biquad_ok :: "biquad \<Rightarrow> bool" where
  "biquad_ok q \<longleftrightarrow> length (fHrX q) = 3 \<and> length (fHrY q) = 3"

definition zero_biquad :: biquad where "zero_biquad = \<lparr>fHrX = [0, 0, 0], fHrY = [0, 0, 0]\<rparr>"

text \<open>\<open>for (j = 2; j > 0; j--) a[j] = a[j-1];  a[0] = x;\<close>\<close>

definition shift3 :: "real \<Rightarrow> real list \<Rightarrow> real list" where
  "shift3 x a = [x, a ! 0, a ! 1]"

record coeffs =
  HrB :: "real \<times> real"
  HrB1 :: "real \<times> real \<times> real"
  HrGain :: real

definition biquad_step :: "alg_fpu \<Rightarrow> coeffs \<Rightarrow> biquad \<Rightarrow> real \<Rightarrow> real \<times> biquad" where
  "biquad_step fp c q X =
     (let (b0, b1) = HrB c; (c0, c1, c2) = HrB1 c;
          hx = shift3 X (fHrX q); hy = fHrY q;
          Y = fadd fp (fmul fp (fl fp b0) (hy ! 0)) (fmul fp (fl fp b1) (hy ! 1));
          X = fmul fp (fadd fp (fadd fp (fmul fp (fl fp c0) (hx ! 0)) (fmul fp (fl fp c1) (hx ! 1)))
                               (fmul fp (fl fp c2) (hx ! 2))) (fl fp (HrGain c));
          T = fsub fp X Y
      in (T, \<lparr>fHrX = hx, fHrY = shift3 T hy\<rparr>))"

section \<open>Chains of sections\<close>

fun cascade :: "alg_fpu \<Rightarrow> coeffs list \<Rightarrow> biquad list \<Rightarrow> real \<Rightarrow> real \<times> biquad list" where
  "cascade fp (c # cs) (q # qs) X =
     (let (T, q) = biquad_step fp c q X; (T, qs) = cascade fp cs qs T in (T, q # qs))"
| "cascade fp _ qs X = (X, qs)"

definition run_filter :: "alg_fpu \<Rightarrow> coeffs list \<Rightarrow> biquad list \<Rightarrow> int \<Rightarrow> int \<times> biquad list" where
  "run_filter fp cs qs wave = (let (T, qs) = cascade fp cs qs (flt fp wave) in (cvs fp T, qs))"

definition sections :: "(real \<times> real) list \<Rightarrow> real \<times> real \<times> real \<Rightarrow> real list \<Rightarrow> coeffs list" where
  "sections bs c gs = map2 (\<lambda>b g. \<lparr>HrB = b, HrB1 = c, HrGain = g\<rparr>) bs gs"

definition s_dHr :: "coeffs list" where
  "s_dHr = sections [(-1.62978, 0.85983), (-1.43808, 0.64107), (-1.30728, 0.49181), (-1.22625, 0.39933),
                     (-1.18755, 0.35517)] (1, 2, 1) [0.05751, 0.05074, 0.04613, 0.04327, 0.04190]"

definition Filt40HzLowPass :: "alg_fpu \<Rightarrow> biquad list \<Rightarrow> int \<Rightarrow> int \<times> biquad list" where
  "Filt40HzLowPass fp = run_filter fp s_dHr"

definition s_dHr_360Hz :: "coeffs list" where
  "s_dHr_360Hz = sections [(-1.62978, 0.85983), (-1.43808, 0.64107), (-1.30728, 0.49181), (-1.22625, 0.39933),
                           (-1.18755, 0.35517)] (1, 2, 1) [0.05751, 0.05074, 0.04613, 0.04327, 0.04190]"

definition Filt40HzLowPass_360Hz :: "alg_fpu \<Rightarrow> biquad list \<Rightarrow> int \<Rightarrow> int \<times> biquad list" where
  "Filt40HzLowPass_360Hz fp = run_filter fp s_dHr_360Hz"

definition Hr_ZhenDuan :: "coeffs list" where
  "Hr_ZhenDuan = sections [(-1.99873, 0.99873), (-1.28366, 0.48000)] (1, 0, -1) [0.22148, 0.22148]"

definition Filter_ZhenDuan :: "alg_fpu \<Rightarrow> biquad list \<Rightarrow> int \<Rightarrow> int \<times> biquad list" where
  "Filter_ZhenDuan fp = run_filter fp Hr_ZhenDuan"

definition Hr_Jianhu :: "coeffs list" where
  "Hr_Jianhu = sections [(-1.99453, 0.99455), (-1.56086, 0.65974)] (1, 0, -1) [0.15647, 0.15647]"

definition Filter_Jianhu :: "alg_fpu \<Rightarrow> biquad list \<Rightarrow> int \<Rightarrow> int \<times> biquad list" where
  "Filter_Jianhu fp = run_filter fp Hr_Jianhu"

definition Hr_Shoushu :: "coeffs list" where
  "Hr_Shoushu = sections [(-1.97604, 0.97640), (-1.79202, 0.81635)] (1, 0, -1) [0.07593, 0.07593]"

definition Filter_Shoushu :: "alg_fpu \<Rightarrow> biquad list \<Rightarrow> int \<Rightarrow> int \<times> biquad list" where
  "Filter_Shoushu fp = run_filter fp Hr_Shoushu"

definition Hr_Notch50Hz :: "coeffs list" where
  "Hr_Notch50Hz = sections [(-1.59808, 0.97518)] (1, -1.61816, 1) [0.98759]"

definition Filter_Notch50Hz :: "alg_fpu \<Rightarrow> biquad list \<Rightarrow> int \<Rightarrow> int \<times> biquad list" where
  "Filter_Notch50Hz fp = run_filter fp Hr_Notch50Hz"

definition Hr_Notch60Hz :: "coeffs list" where
  "Hr_Notch60Hz = sections [(-1.43996, 0.97518)] (1, -1.45805, 1) [0.98759]"

definition Filter_Notch60Hz :: "alg_fpu \<Rightarrow> biquad list \<Rightarrow> int \<Rightarrow> int \<times> biquad list" where
  "Filter_Notch60Hz fp = run_filter fp Hr_Notch60Hz"

definition Hr_Newborn :: "coeffs list" where
  "Hr_Newborn = sections [(-1.86545, 0.86776)] (1, 0, -1) [0.06612]"

definition resp_newborn_filter :: "alg_fpu \<Rightarrow> biquad list \<Rightarrow> int \<Rightarrow> int \<times> biquad list" where
  "resp_newborn_filter fp = run_filter fp Hr_Newborn"

definition Hr_Adult :: "coeffs list" where
  "Hr_Adult = sections [(-1.85861, 0.85953)] (1, 0, -1) [0.07024]"

definition resp_adult_filter :: "alg_fpu \<Rightarrow> biquad list \<Rightarrow> int \<Rightarrow> int \<times> biquad list" where
  "resp_adult_filter fp = run_filter fp Hr_Adult"

lemma length_sections [simp]: "length (sections bs c gs) = min (length bs) (length gs)"
  by (simp add: sections_def)

end
