(* ===== verification/EcgClassify.thy ===== *)
theory EcgClassify
  imports EcgFilter
begin

text \<open>
  \<open>ECGAlgorithm/Classifier.c\<close> and the searches of \<open>ECGAlgorithmV1000.c\<close> that depend on their arguments
  only: edges of the integrated wave, triangular forms, thresholds, the level of the ST segment.  A pointer
  into an array with a length is the list of the elements it covers (\<open>window\<close>, \<open>None\<close> when it is empty or leaves the array).
\<close>

section \<open>Pointers into an array\<close>

definition window :: "'a list \<Rightarrow> int \<Rightarrow> int \<Rightarrow> 'a list option" where
  "window a i n =
     (if 0 \<le> i \<and> 0 < n \<and> i + n \<le> int (length a) then Some (take (nat n) (drop (nat i) a)) else None)"

lemma window_Some:
  "window a i n = Some w \<longleftrightarrow> 0 \<le> i \<and> 0 < n \<and> i + n \<le> int (length a) \<and> w = take (nat n) (drop (nat i) a)"
  by (auto simp: window_def)

lemma length_window: "window a i n = Some w \<Longrightarrow> int (length w) = n"
  by (auto simp: window_Some)

text \<open>The loops over edges compare neighbours: with fewer than two elements they read nothing.\<close>

definition span :: "'a list \<Rightarrow> int \<Rightarrow> int \<Rightarrow> 'a list option" where
  "span a i n = (if n \<le> 1 then Some [] else window a i n)"

text \<open>A difference of two samples as the C \<open>int\<close> it is.\<close>

abbreviation idiff :: "int \<Rightarrow> int \<Rightarrow> int" where "idiff a b \<equiv> i32 (a - b)"

text \<open>\<open>(int)(r * n)\<close> for a literal \<open>r\<close>.\<close>

definition part :: "alg_fpu \<Rightarrow> real \<Rightarrow> int \<Rightarrow> int" where
  "part fp r n = cvs fp (fmul fp (fl fp r) (flt fp n))"

section \<open>Edges\<close>

fun rise_edge :: "real list \<Rightarrow> real \<Rightarrow> nat list \<Rightarrow> nat option" where
  "rise_edge a th [] = None"
| "rise_edge a th (i # is) = (if a ! (i - 1) \<le> th \<and> a ! i \<ge> th then Some i else rise_edge a th is)"

definition CheckRiseEdgeByLine :: "real list \<Rightarrow> real \<Rightarrow> bool \<times> nat" where
  "CheckRiseEdgeByLine pt th = (case rise_edge pt th [1..<length pt] of None \<Rightarrow> (False, 0) | Some i \<Rightarrow> (True, i))"

fun fall_edge :: "real list \<Rightarrow> real \<Rightarrow> nat list \<Rightarrow> nat option" where
  "fall_edge a th [] = None"
| "fall_edge a th (i # is) = (if a ! (i - 1) \<ge> th \<and> a ! i \<le> th then Some (i - 1) else fall_edge a th is)"

definition CheckFallEdgeByLine :: "real list \<Rightarrow> real \<Rightarrow> bool \<times> nat" where
  "CheckFallEdgeByLine pt th = (case fall_edge pt th [1..<length pt] of None \<Rightarrow> (False, 0) | Some i \<Rightarrow> (True, i))"

text \<open>The two variants of \<open>CheckRiseEdge\<close> and \<open>CheckFallEdge\<close>: \<open>len\<close> is what \<open>*pIndex\<close> ends at when there is
  no edge.\<close>

fun first_index :: "(nat \<Rightarrow> bool) \<Rightarrow> nat \<Rightarrow> nat list \<Rightarrow> bool \<times> nat" where
  "first_index P n [] = (False, n)"
| "first_index P n (i # is) = (if P i then (True, i) else first_index P n is)"

definition slope_edge :: "nat \<Rightarrow> (nat \<Rightarrow> bool) \<Rightarrow> bool \<times> nat" where
  "slope_edge len P = (if len < 4 then (False, 0) else first_index P len [3..<len])"

definition CheckRiseEdge_N :: "alg_fpu \<Rightarrow> int list \<Rightarrow> real \<Rightarrow> bool \<times> nat" where
  "CheckRiseEdge_N fp pt th = slope_edge (length pt) (\<lambda>i. flt fp (idiff (pt ! i) (pt ! (i - 3))) > th)"

definition CheckRiseEdge_F :: "alg_fpu \<Rightarrow> real list \<Rightarrow> real \<Rightarrow> bool \<times> nat" where
  "CheckRiseEdge_F fp pt th = slope_edge (length pt) (\<lambda>i. fsub fp (pt ! i) (pt ! (i - 3)) > th)"

definition CheckFallEdge_N :: "alg_fpu \<Rightarrow> int list \<Rightarrow> real \<Rightarrow> bool \<times> nat" where
  "CheckFallEdge_N fp pt th = slope_edge (length pt) (\<lambda>i. flt fp (idiff (pt ! (i - 3)) (pt ! i)) > th)"

definition CheckFallEdge_F :: "alg_fpu \<Rightarrow> real list \<Rightarrow> real \<Rightarrow> bool \<times> nat" where
  "CheckFallEdge_F fp pt th = slope_edge (length pt) (\<lambda>i. fsub fp (pt ! (i - 3)) (pt ! i) > th)"

definition CheckIsDoubleRise :: "alg_fpu \<Rightarrow> real list \<Rightarrow> real \<Rightarrow> int list \<Rightarrow> real \<Rightarrow> bool \<times> nat" where
  "CheckIsDoubleRise fp pt1 th1 pt2 th2 =
     (let (b, i) = CheckRiseEdge_F fp pt1 th1 in if b then CheckRiseEdge_N fp pt2 th2 else (b, i))"

text \<open>The second component is \<open>*pIndex\<close> when it is set.\<close>

definition CheckRWave :: "alg_fpu \<Rightarrow> int list \<Rightarrow> real \<Rightarrow> real \<Rightarrow> (bool \<times> nat option)" where
  "CheckRWave fp pt th1 th2 =
     (let (m, mx) = Max_Index_N pt (length pt)
      in if length pt - mx > 5 \<and> mx > 5
         then let ra = fdiv fp (flt fp (idiff m (pt ! (mx - 5)))) (flt fp 5);
                  rb = fdiv fp (flt fp (idiff m (pt ! (mx + 5)))) (flt fp 5)
              in if ra > th1 \<and> rb > th2 then (True, Some mx) else (False, None)
         else (False, None))"

text \<open>\<open>FindIntegralWave\<close>: the last rising edge before the first falling edge behind one; result \<open>pPpos\<close>,
  \<open>pPos\<close>, \<open>pMaximum\<close>.\<close>

fun integral_wave :: "real list \<Rightarrow> real \<Rightarrow> nat option \<Rightarrow> nat list \<Rightarrow> (nat \<times> nat) option" where
  "integral_wave a th posA [] = None"
| "integral_wave a th posA (i # is) =
     (if a ! (i - 1) \<le> th \<and> a ! i \<ge> th then integral_wave a th (Some i) is
      else if a ! (i - 1) \<ge> th \<and> a ! i \<le> th
      then (case posA of None \<Rightarrow> integral_wave a th None is | Some p \<Rightarrow> Some (p, i - 1))
      else integral_wave a th posA is)"

definition FindIntegralWave :: "real list \<Rightarrow> real \<Rightarrow> nat \<times> nat \<times> real" where
  "FindIntegralWave dataBuf th =
     (case integral_wave dataBuf th None [1..<length dataBuf] of
        None \<Rightarrow> (0, 0, 0)
      | Some (p, q) \<Rightarrow> (p, q, Max_F (drop p dataBuf) (q - p)))"

section \<open>The classifiers\<close>

text \<open>How rough the samples are around a point, relative to the height of the wave.\<close>

definition roughness :: "alg_fpu \<Rightarrow> int list \<Rightarrow> real \<Rightarrow> nat \<Rightarrow> real" where
  "roughness fp pData d i =
     (let mean = i32 (pData ! i + pData ! (i + 1) + pData ! (i + 2)) sdiv 3;
          sum = fold (\<lambda>j sum. let tmp = idiff (pData ! (i + j)) mean in fadd fp sum (flt fp (i32 (tmp * tmp)))) [0..<3] 0
      in fdiv fp (fdiv fp sum (flt fp 3)) d)"

fun joint_point :: "(nat \<Rightarrow> real) \<Rightarrow> real \<Rightarrow> nat list \<Rightarrow> nat" where
  "joint_point t1 thre [] = 0"
| "joint_point t1 thre (ii # iis) =
     (if t1 ii < thre \<and> t1 (ii - 1) < thre \<and> t1 (ii - 2) < thre \<and> t1 (ii - 3) < thre \<and> t1 (ii - 4) < thre
      then ii else joint_point t1 thre iis)"

text \<open>Result, \<open>*pIndex\<close> and \<open>*pHigh\<close>; a result of -1 leaves the two as the callers set them, 0.\<close>

definition QuickRClassifier :: "alg_fpu \<Rightarrow> int list \<Rightarrow> int \<Rightarrow> int \<times> nat \<times> int" where
  "QuickRClassifier fp pData FS =
     (let len = length pData
      in if len > 500 \<or> len < 50 then (- 1, 0, 0)
         else let (maxD, mindex) = Max_Index_N pData len
              in if \<not> mindex > len div 2 then (0, 0, 0)
                 else if len - mindex < 3 then (0, mindex, 0)
                 else let d0 = flt fp (idiff maxD (Min_N pData len));
                          d = fdiv fp (fmul fp d0 d0) (flt fp 10000);
                          joint = joint_point (roughness fp pData d) (flt fp 4) (rev [6..<mindex - 2]);
                          halfWide = fmul fp (fdiv fp (flt fp (int mindex - int joint)) (flt fp FS)) (flt fp 1000);
                          count1 = part fp 0.083 FS; count2 = part fp 0.028 FS
                      in if joint = 0 \<or> halfWide < fl fp 12.5 \<or> halfWide > flt fp 75
                            \<or> int joint < count1 \<or> int joint < count2 \<or> count1 > int len \<or> count2 > int len
                         then (0, mindex, 0)
                         else let dd = flt fp (idiff maxD (pData ! joint));
                                  v4 = fold (\<lambda>i v4. fmax (fdiv fp (flt fp (idiff (pData ! nat (int joint - count1 + int i))
                                                                           (pData ! joint))) dd) v4)
                                         [0..<nat (count1 - count2)] 0
                              in if v4 > flt fp 22 then (0, mindex, 0) else (1, mindex, cvs fp dd))"

text \<open>\<open>x * 100.0 / y < 20\<close> of the machine, where a division by 0 is infinite or not a number.\<close>

definition below20 :: "alg_fpu \<Rightarrow> int \<Rightarrow> int \<Rightarrow> bool" where
  "below20 fp x y =
     (if y = 0 then x < 0
      else fdiv fp (fmul fp (flt fp x) (flt fp 100)) (flt fp y) < flt fp 20)"

definition FullRClassifier :: "alg_fpu \<Rightarrow> int list \<Rightarrow> int \<Rightarrow> int \<times> nat \<times> int" where
  "FullRClassifier fp pData FS =
     (let len = length pData
      in if len > 500 \<or> len < 100 then (- 1, 0, 0)
         else let (maxD, m) = Max_Index_N (drop (len div 4) pData) (len div 2);
                  mindex = m + len div 4;
                  leftWide = part fp 0.15 FS; rightWide = part fp 0.02 FS
              in if int mindex < leftWide \<or> int mindex + rightWide \<ge> int len then (0, 0, 0)
                 else let (bIs, i, high) = QuickRClassifier fp
                            (take (nat (leftWide + rightWide)) (drop (nat (int mindex - leftWide)) pData)) FS
                      in if bIs = 0 then (bIs, i, high)
                         else let me = Mean_N fp (drop mindex pData) (int (len - mindex))
                              in if below20 fp (idiff maxD me) high then (0, i, high) else (bIs, mindex, high))"

text \<open>The state \<open>(flag, p1, p2)\<close> of the search for three crossings in a row: over \<open>a\<close> in the first direction,
  back over it, then over \<open>b\<close>.\<close>

definition crossing :: "(int \<Rightarrow> int \<Rightarrow> bool) \<Rightarrow> int \<Rightarrow> int list \<Rightarrow> nat \<Rightarrow> bool" where
  "crossing le line a i \<longleftrightarrow> le (a ! i) line \<and> le line (a ! (i + 1))"

fun pvc_scan :: "(int \<Rightarrow> int \<Rightarrow> bool) \<Rightarrow> int list \<Rightarrow> int \<Rightarrow> int \<Rightarrow> nat \<times> nat \<times> nat \<Rightarrow> nat list \<Rightarrow> nat \<times> nat \<times> nat" where
  "pvc_scan le pData line1 line2 (flag, p1, p2) [] = (flag, p1, p2)"
| "pvc_scan le pData line1 line2 (flag, p1, p2) (i # is) =
     (if crossing le line1 pData i then pvc_scan le pData line1 line2 (1, i, p2) is
      else if crossing (\<lambda>x y. le y x) line1 pData i
      then pvc_scan le pData line1 line2 (if flag = 1 then (2, p1, i + 1) else (flag, p1, p2)) is
      else if crossing (\<lambda>x y. le y x) line2 pData i
      then (if flag = 2 then (3, p1, p2) else pvc_scan le pData line1 line2 (flag, p1, p2) is)
      else pvc_scan le pData line1 line2 (flag, p1, p2) is)"

text \<open>Result 1 is a hump on the left, 2 one on the right.\<close>

definition PVCClassifier :: "alg_fpu \<Rightarrow> int list \<Rightarrow> int \<Rightarrow> int \<times> nat" where
  "PVCClassifier fp pData FS =
     (let len = length pData
      in if len > 500 \<or> len < 200 then (- 1, 0)
         else let (maxV, maxI) = Max_Index_N pData len; (minV, minI) = Min_Index_N pData len;
                  midLine = i32 (maxV + minV) sdiv 2; di = idiff maxV minV;
                  upLine = cvs fp (fadd fp (flt fp midLine) (fmul fp (fl fp 0.45) (flt fp di)));
                  downLine = cvs fp (fsub fp (flt fp midLine) (fmul fp (fl fp 0.45) (flt fp di)));
                  left = maxI < minI;
                  (flag, p1, p2) = (if left then pvc_scan (\<le>) pData upLine downLine (0, 0, 0) [0..<len - 1]
                                    else pvc_scan (\<ge>) pData downLine upLine (0, 0, 0) [0..<len - 1]);
                  wide = (if flag = 3 then fmul fp (fdiv fp (flt fp (int p2 - int p1)) (flt fp FS)) (flt fp 1000) else 0)
              in (if flag \<noteq> 3 \<or> wide < flt fp 9 \<or> wide > flt fp 46 then 0 else if left then 1 else 2, maxI))"

section \<open>Triangular forms\<close>

type_synonym point = "int \<times> int"

record CTriangle_Form =
  stLeft :: point
  stPeak :: point
  stRight :: point

record tri_st =
  tri_stat :: nat
  leftLow :: point
  tri_high :: point
  rigthLow :: point
  pTFList :: "CTriangle_Form list"

text \<open>The foot of the left flank: back from the peak to a point lower by the threshold, then down to where
  the flank ends.\<close>

fun left_foot :: "int list \<Rightarrow> int \<Rightarrow> int \<Rightarrow> bool \<Rightarrow> nat list \<Rightarrow> nat option" where
  "left_foot D hy threshold low [] = None"
| "left_foot D hy threshold low (j # js) =
     (if \<not> low then left_foot D hy threshold (idiff hy (D ! j) \<ge> threshold) js
      else if D ! j \<ge> D ! (j + 1) then Some (j + 1) else left_foot D hy threshold True js)"

definition tri_restart :: "point \<Rightarrow> tri_st \<Rightarrow> tri_st" where
  "tri_restart p t = t\<lparr>tri_stat := 0, leftLow := p, tri_high := p, rigthLow := p\<rparr>"

definition tri_step :: "int list \<Rightarrow> int \<Rightarrow> nat \<Rightarrow> nat \<Rightarrow> tri_st \<Rightarrow> tri_st" where
  "tri_step D threshold nMaxLen i t =
     (if length (pTFList t) \<ge> nMaxLen then t
      else let y = D ! i; p = (int i, y)
      in if tri_stat t = 0
         then (if y \<le> snd (leftLow t) then t\<lparr>leftLow := p, tri_high := p, rigthLow := p\<rparr>
               else t\<lparr>tri_stat := 1, tri_high := p, rigthLow := p\<rparr>)
         else if tri_stat t = 1
         then (if y \<ge> snd (tri_high t) then t\<lparr>tri_high := p, rigthLow := p\<rparr>
               else let di = idiff (snd (tri_high t)) y
               in if y > snd (leftLow t) then t\<lparr>tri_stat := if di \<ge> threshold then 2 else 1, rigthLow := p\<rparr>
                  else if di \<ge> threshold \<and> idiff (snd (tri_high t)) (snd (leftLow t)) \<ge> threshold
                  then t\<lparr>tri_stat := 2\<rparr> else tri_restart p t)
         else if y \<ge> snd (rigthLow t)
         then tri_restart p
                (case left_foot D (snd (tri_high t)) threshold False (rev [0..<nat (fst (tri_high t)) + 1]) of
                   None \<Rightarrow> t
                 | Some l \<Rightarrow> t\<lparr>pTFList := pTFList t @ [\<lparr>stLeft = (int l, D ! l), stPeak = tri_high t,
                                                      stRight = rigthLow t\<rparr>]\<rparr>)
         else t\<lparr>rigthLow := p\<rparr>)"

definition FindTriangleForm :: "int list \<Rightarrow> int \<Rightarrow> nat \<Rightarrow> CTriangle_Form list" where
  "FindTriangleForm pData threshold nMaxLen =
     pTFList (fold (tri_step pData threshold nMaxLen) [0..<length pData]
                (tri_restart (0, pData ! 0) \<lparr>tri_stat = 0, leftLow = (0, 0), tri_high = (0, 0), rigthLow = (0, 0), pTFList = []\<rparr>))"

text \<open>The second feature of a form, its width in microseconds at 500 samples per second; the first is never
  set.\<close>

definition Calc_Feature2 :: "CTriangle_Form \<Rightarrow> int" where
  "Calc_Feature2 TF = (fst (stRight TF) - fst (stLeft TF) + 1 - 1) * 1000 * 2"

definition TRIANGLE_FORM_SIZE :: nat where "TRIANGLE_FORM_SIZE = 100"

datatype TFLabel = TFL_UNKNOWN | TFL_R | TFL_PVC_LU | TFL_PVC_RD | TFL_PVC_RU | TFL_PVC_LD | TFL_Q | TFL_S | TFL_P | TFL_T

text \<open>Which forms are R waves, and how many.\<close>

definition FindRForm :: "CTriangle_Form list \<Rightarrow> nat \<times> TFLabel list" where
  "FindRForm tfs =
     (let labels = List.map (\<lambda>TF. if Calc_Feature2 TF \<ge> 40000 \<and> Calc_Feature2 TF \<le> 145000 then TFL_R else TFL_UNKNOWN)
                     (take TRIANGLE_FORM_SIZE tfs)
      in (length (filter (\<lambda>l. l = TFL_R) labels), labels))"

section \<open>Thresholds and the ST level\<close>

text \<open>The steepest rise over four samples.\<close>

definition steepest :: "(nat \<Rightarrow> real) \<Rightarrow> nat \<Rightarrow> real" where
  "steepest diff len = fold (\<lambda>i m. if m < diff i then diff i else m) [4..<len] 0"

text \<open>\<open>pt1\<close> and \<open>pt2\<close> point \<open>base\<close> elements into the arrays; the samples five before and after the peak may lie
  outside the length given, but not outside the array.  The quotients are those of integers.\<close>

definition CalcThreshold1 :: "alg_fpu \<Rightarrow> int list \<Rightarrow> real list \<Rightarrow> int \<Rightarrow> int \<Rightarrow> (real \<times> real \<times> real \<times> real) option" where
  "CalcThreshold1 fp raw inte base len =
     (case (window raw base len, window inte base len) of
        (Some pt1, Some pt2) \<Rightarrow>
          (let m1 = steepest (\<lambda>i. flt fp (idiff (pt1 ! i) (pt1 ! (i - 4)))) (length pt1);
               m2 = steepest (\<lambda>i. fsub fp (pt2 ! i) (pt2 ! (i - 4))) (length pt2);
               (mx, index) = Max_Index_N pt1 (length pt1); k = base + int index
           in if k < 5 \<or> k + 5 \<ge> int (length raw) then None
              else let ra = flt fp (idiff mx (raw ! nat (k - 5)) sdiv 5); rb = flt fp (idiff mx (raw ! nat (k + 5)) sdiv 5)
                   in Some (fdiv fp m1 (flt fp 2), fdiv fp m2 (fl fp 2.5), fmul fp (fl fp 0.6) ra, fmul fp (fl fp 0.6) rb))
      | _ \<Rightarrow> None)"

text \<open>Mean level after the wave less the mean level before it.  The inner \<open>None\<close> is the result 0, the outer
  one a division by zero.\<close>

definition CalcSingleSTVolt :: "alg_fpu \<Rightarrow> int list \<Rightarrow> int \<Rightarrow> int \<Rightarrow> real \<Rightarrow> real \<Rightarrow> int option option" where
  "CalcSingleSTVolt fp pt index FS ISO ST =
     (let i = flt fp index; n = flt fp FS; len = int (length pt);
          Aindex = cvs fp (fsub fp i (fmul fp (fadd fp ISO (fl fp 0.02)) n));
          Bindex = cvs fp (fsub fp i (fmul fp (fsub fp ISO (fl fp 0.02)) n));
          Cindex = cvs fp (fadd fp i (fmul fp (fsub fp ST (fl fp 0.02)) n));
          Dindex = cvs fp (fadd fp i (fmul fp (fadd fp ST (fl fp 0.02)) n))
      in if Aindex < 0 \<or> Aindex > len \<or> Bindex < 0 \<or> Bindex > len \<or> Cindex < 0 \<or> Cindex > len
            \<or> Dindex < 0 \<or> Dindex > len then Some None
         else if Bindex = Aindex \<or> Dindex = Cindex then None
         else let Vpq = fold (\<lambda>i v. i32 (v + pt ! i)) [nat Aindex..<nat Bindex] 0 sdiv (Bindex - Aindex);
                  Vst = fold (\<lambda>i v. i32 (v + pt ! i)) [nat Cindex..<nat Dindex] 0 sdiv (Dindex - Cindex)
              in Some (Some (idiff Vst Vpq)))"

end
