(* ===== verification/EcgAlg.thy ===== *)
theory EcgAlg
  imports EcgClassify
begin

text \<open>
  \<open>ECGAlgorithm/ECGAlgorithmV1000.c\<close> with \<open>ECGAlgorithm.c\<close>: the analysis of the ECG.  Every sample is
  filtered twice, for the display and for the analysis, and enters the analysis buffers; every eighth sample
  the search for the next beat goes on, in three modes (edge of the integrated wave, R wave, premature beat),
  the heart rate and the arrhythmia flags are computed, and the result is stored in the newest item of the
  output queue.  \<open>None\<close> is an access outside the memory of an array.

  An array with a counter is the list of its used elements: the labels (\<open>LabelIndexList\<close> and
  \<open>LabelClassList\<close> with \<open>LabelCount\<close>), the premature beats, the alerts and the ST history.
  \<open>pECG_Cal_Buf\<close> is one block of seven rows; the code searches row 0 and may run on into row 1, so a search
  reads the rows joined (\<open>raw\<close>).  Only lead 0 of the ST levels is ever written, so one lead is kept.
\<close>

section \<open>State\<close>

definition ECG_CAL_DATA_LEN :: nat where "ECG_CAL_DATA_LEN = 10 * 500"
definition ECG_UPDATE_DATA_LEN :: nat where "ECG_UPDATE_DATA_LEN = 8"
definition ST_VOLT_HIS_MAX_LEN :: nat where "ST_VOLT_HIS_MAX_LEN = 20"
definition PVC_LIST_MAX_LEN :: nat where "PVC_LIST_MAX_LEN = 350"
definition ECG_LABEL_MAX_SIZE :: nat where "ECG_LABEL_MAX_SIZE = 100"
definition ECG_ALERT_MAX_NUM :: nat where "ECG_ALERT_MAX_NUM = 10"

abbreviation "CAL \<equiv> (5000 :: int)"

datatype AlertType_TypeDef =
  ASYSTOLE | VFIB | VTAC | VRONT | VRUN | VRHYTHM | VCOUPLET | VBIG | VTRIG | VMULTIFOCAL | IRREGULAR | TAC | BRD
| NON_CAPTURE | NON_FIRE | MISSING_QRS | LEARN | NORMAL | NOISE | SIGLE_PVC

record CAlert_Item =
  alert_type :: AlertType_TypeDef
  u32AlertIndex :: u32
  alert_time :: u32

record ARRHYTHMIA_ANALYSIS_RESULT1 =
  PVCsCount :: int
  RCount :: int
  UnKCount :: int
  PVCRate :: real
  Is_VENT_FIB :: bool
  Is_ASYSTOLE :: bool
  Is_VENT_TACH :: bool
  Is_PAIR_PVC :: bool
  Is_SIGLE_PVC :: bool
  Is_TRIGENINY :: bool
  Is_BIGENINY :: bool
  Is_MISSED_BEAT :: bool
  Is_TACHYCARDIA :: bool
  Is_R_ON_T :: bool
  Is_BRADYCARDIA :: bool

text \<open>Settings, filters, buffers, marks, thresholds, results.  \<open>HR_junk\<close> is an input: what the heart rate
  becomes when its formula reads before the list or divides by zero.\<close>

record ecg_cfg =
  alg_WorkMode :: u8
  PaceMode :: u8
  PaceShowMode :: u8
  NotchMode :: u8
  Tachycardia_Limit :: int
  Bradycardia_Limit :: int
  ISO_Interval :: real
  ST_Interval :: real
  u8STAnalysis_sw :: u8
  u8ArrhythmiaAnalysis_sw :: u8

record ecg_bufs =
  FilterNotch50 :: "biquad list list"
  FilterNotch60 :: "biquad list list"
  FilterNotch50Show :: "biquad list list"
  FilterNotch60Show :: "biquad list list"
  FilterBuffer :: "biquad list list"
  FilterBufferShow :: "biquad list list"
  paceBuffer :: "int list list"
  derivBuffer :: "real list"
  g_inteBuffer :: "real list"
  IntegrationBuffer :: "real list"
  pECG_Cal_Buf :: "int list list"
  pECG_SysTick :: "u32 list"

record ecg_alg =
  cfg :: ecg_cfg
  bufs :: ecg_bufs
  isIntializedRRInterval :: bool
  proccessMode :: nat
  isFindRwave :: bool
  calcInterval :: int
  calcCount :: int
  PrePosX :: int
  PreQRS :: int
  InteDataRiseEdge :: int
  InteDataFallEdge :: int
  currentRwaveIndex :: int
  PVCCheckPoint :: int
  QuickQRSTick :: u32
  SampleRate :: int
  RRInterval1 :: int
  InteWaveThreshold :: real
  thresholdIy :: real
  thresholdRawData :: real
  RWaveThreshold1 :: real
  RWaveThreshold2 :: real
  preInteThres :: real
  RHighThreshold :: real
  fAmpThreshold :: real
  Asystole_Time_Limit :: real
  nECG_Calc_Data_Num :: nat
  inSysTick :: u32
  inPace :: u8
  ecgOut :: ecg_queue
  stAlertList :: "CAlert_Item list"
  labels :: "(int \<times> TFLabel) list"
  HR :: int
  HR_junk :: int
  AAResult1 :: ARRHYTHMIA_ANALYSIS_RESULT1
  ST_Volt_His :: "real list"
  ST_Volt_Val :: real
  PVCList :: "int list"
  PVCCheckTimeCount :: int
  fAmpDif :: real

definition raw :: "ecg_alg \<Rightarrow> int list" where "raw s = concat (pECG_Cal_Buf (bufs s))"
definition inte :: "ecg_alg \<Rightarrow> real list" where "inte s = IntegrationBuffer (bufs s)"

section \<open>Lists of bounded length\<close>

definition append_Label :: "int \<Rightarrow> TFLabel \<Rightarrow> ecg_alg \<Rightarrow> ecg_alg" where
  "append_Label index clas s = s\<lparr>labels := push_bounded ECG_LABEL_MAX_SIZE (index, clas) (labels s)\<rparr>"

definition AlertList_Clear :: "ecg_alg \<Rightarrow> ecg_alg" where
  "AlertList_Clear s = s\<lparr>stAlertList := []\<rparr>"

definition AlertList_Append :: "CAlert_Item \<Rightarrow> ecg_alg \<Rightarrow> ecg_alg" where
  "AlertList_Append item s = s\<lparr>stAlertList := push_bounded ECG_ALERT_MAX_NUM item (stAlertList s)\<rparr>"

definition InsertPVC :: "int \<Rightarrow> ecg_alg \<Rightarrow> ecg_alg" where
  "InsertPVC systick s = s\<lparr>PVCList := push_bounded PVC_LIST_MAX_LEN systick (PVCList s)\<rparr>"

text \<open>\<open>delayTime < 60\<close>, unsigned, in units of a second.\<close>

definition recent :: "int \<Rightarrow> int \<Rightarrow> bool" where
  "recent systick t \<longleftrightarrow> (word_of_int (idiff systick t sdiv 10000) :: u32) < 60"

definition CheckPVCList :: "int \<Rightarrow> ecg_alg \<Rightarrow> ecg_alg" where
  "CheckPVCList systick s =
     (let firstIndex = fold (\<lambda>i k. if recent systick (PVCList s ! i) then i else k) [0..<length (PVCList s)] 0
      in s\<lparr>PVCList := drop firstIndex (PVCList s)\<rparr>)"

section \<open>Preprocessing\<close>

definition Derivative_Squaring_Integration :: "alg_fpu \<Rightarrow> real \<Rightarrow> ecg_bufs \<Rightarrow> real \<times> ecg_bufs" where
  "Derivative_Squaring_Integration fp dataIn b =
     (let d = tl (derivBuffer b) @ [dataIn];
          deriv = fmul fp (fl fp 0.125)
                    (fsub fp (fsub fp (fadd fp (d ! 4) (fmul fp (flt fp 2) (d ! 3))) (fmul fp (flt fp 2) (d ! 1))) (d ! 0));
          square = fmul fp deriv deriv; q = tl (g_inteBuffer b) @ [square];
          dataOut = fold (\<lambda>x acc. fadd fp acc x) q 0
      in (if dataOut = 0 then 0 else fdiv fp dataOut (flt fp 80), b\<lparr>derivBuffer := d, g_inteBuffer := q\<rparr>))"

definition CalcOtherFiltedChannels1 :: "int list \<Rightarrow> int list" where
  "CalcOtherFiltedChannels1 p =
     (let d3 = i32 (p ! 1 - p ! 0)
      in [p ! 0, p ! 1, p ! 2, d3, i32 (0 - i32 (p ! 0 + p ! 1) sdiv 2), i32 (p ! 0 - d3) sdiv 2, i32 (p ! 1 + d3) sdiv 2])"

text \<open>With the pace flag the sample is replaced by an extrapolation of the samples before it.\<close>

definition PaceProccess :: "alg_fpu \<Rightarrow> int list \<Rightarrow> int \<Rightarrow> u8 \<Rightarrow> int \<times> int list" where
  "PaceProccess fp dataBuf x flag =
     (let b = tl dataBuf;
          b3 = b ! 3; b2 = b ! 2; b0 = b ! 0;
          result = (if flag = 1
                    then cvs fp (fmul fp (fl fp 0.5) (flt fp (i32 (i32 (i32 (b3 + b3) - b2) + i32 (i32 (b2 + b2) - b0)))))
                    else x)
      in (result, b @ [result]))"

text \<open>One operation on each of the three measured leads with its own memory.\<close>

definition on_leads :: "('m \<Rightarrow> int \<Rightarrow> int \<times> 'm) \<Rightarrow> 'm list \<Rightarrow> int list \<Rightarrow> int list \<times> 'm list" where
  "on_leads f ms xs = (let r = map2 f ms xs in (List.map fst r, List.map snd r))"

definition notch :: "alg_fpu \<Rightarrow> u8 \<Rightarrow> biquad list list \<Rightarrow> biquad list list \<Rightarrow> int list
    \<Rightarrow> int list \<times> biquad list list \<times> biquad list list" where
  "notch fp mode n50 n60 xs =
     (if mode = 1 then let (ys, n50) = on_leads (Filter_Notch50Hz fp) n50 xs in (ys, n50, n60)
      else if mode = 2 then let (ys, n60) = on_leads (Filter_Notch60Hz fp) n60 xs in (ys, n50, n60)
      else if mode = 3
      then let (ys, n50) = on_leads (Filter_Notch50Hz fp) n50 xs; (ys, n60) = on_leads (Filter_Notch60Hz fp) n60 ys
           in (ys, n50, n60)
      else (xs, n50, n60))"

definition raw_leads :: "CECGDataItem \<Rightarrow> int list" where
  "raw_leads d = [s32ECG1 d, s32ECG2 d, s32ECG3 d]"

definition put_leads :: "int list \<Rightarrow> u32 \<Rightarrow> CECGDataItem \<Rightarrow> CECGDataItem" where
  "put_leads p t d = d\<lparr>s32ECG1 := p ! 0, s32ECG2 := p ! 1, s32ECG3 := p ! 2, s32ECG4 := p ! 3, s32ECG5 := p ! 4,
     s32ECG6 := p ! 5, s32ECG7 := p ! 6, d_SysTick := t\<rparr>"

text \<open>The samples for the analysis and those for the display.\<close>

definition pace_leads :: "alg_fpu \<Rightarrow> ecg_cfg \<Rightarrow> u8 \<Rightarrow> int list \<Rightarrow> ecg_bufs \<Rightarrow> int list \<times> int list \<times> ecg_bufs" where
  "pace_leads fp c pace xs b =
     (if PaceMode c = 1
      then let (ps, m) = on_leads (\<lambda>m x. PaceProccess fp m x pace) (paceBuffer b) xs
           in (ps, if PaceShowMode c = 1 then ps else xs, b\<lparr>paceBuffer := m\<rparr>)
      else (xs, xs, b))"

definition analysis_filter :: "alg_fpu \<Rightarrow> ecg_cfg \<Rightarrow> int list \<Rightarrow> ecg_bufs \<Rightarrow> int list \<times> ecg_bufs" where
  "analysis_filter fp c xs b =
     (let (xs, n50, n60) = notch fp (NotchMode c) (FilterNotch50 b) (FilterNotch60 b) xs;
          (xs, m) = on_leads (Filter_Jianhu fp) (FilterBuffer b) xs
      in (CalcOtherFiltedChannels1 xs, b\<lparr>FilterNotch50 := n50, FilterNotch60 := n60, FilterBuffer := m\<rparr>))"

text \<open>In a work mode beyond 2 the display would show an array that was never set.\<close>

definition display_filter :: "alg_fpu \<Rightarrow> ecg_cfg \<Rightarrow> int list \<Rightarrow> ecg_bufs \<Rightarrow> (int list \<times> ecg_bufs) option" where
  "display_filter fp c xs b =
     (if alg_WorkMode c > 2 then None
      else let (xs, n50, n60) = (if alg_WorkMode c = 0
                                 then notch fp (NotchMode c) (FilterNotch50Show b) (FilterNotch60Show b) xs
                                 else (xs, FilterNotch50Show b, FilterNotch60Show b));
               f = (if alg_WorkMode c = 0 then Filter_ZhenDuan fp else if alg_WorkMode c = 1 then Filter_Jianhu fp
                    else Filter_Shoushu fp);
               (xs, m) = on_leads f (FilterBufferShow b) xs
           in Some (CalcOtherFiltedChannels1 xs,
                    b\<lparr>FilterNotch50Show := n50, FilterNotch60Show := n60, FilterBufferShow := m\<rparr>))"

definition on_item :: "nat \<Rightarrow> (CECG_Out_Item \<Rightarrow> CECG_Out_Item) \<Rightarrow> ecg_queue \<Rightarrow> ecg_queue" where
  "on_item k f q = ((fst q)[k := f (fst q ! k)], snd q)"

definition DataPreProccess :: "alg_fpu \<Rightarrow> nat \<Rightarrow> ecg_alg \<Rightarrow> ecg_alg option" where
  "DataPreProccess fp idx s =
     (let n = nECG_Calc_Data_Num s; t = inSysTick s;
          (alg, shown, b) = pace_leads fp (cfg s) (inPace s) (raw_leads (stDataRaw (fst (ecgOut s) ! idx))) (bufs s);
          (F, b) = analysis_filter fp (cfg s) alg b;
          b = b\<lparr>pECG_Cal_Buf := map2 (\<lambda>row x. row[n := x]) (pECG_Cal_Buf b) F, pECG_SysTick := (pECG_SysTick b)[n := t]\<rparr>
      in if n \<ge> ECG_CAL_DATA_LEN then None
         else case display_filter fp (cfg s) shown b of
                None \<Rightarrow> None
              | Some (S, b) \<Rightarrow>
                  Some (s\<lparr>bufs := b,
                          ecgOut := on_item idx (\<lambda>x. x\<lparr>stDataFilter := put_leads S t (stDataFilter x)\<rparr>) (ecgOut s)\<rparr>))"

definition CalcOtherFiltedChannels :: "nat \<Rightarrow> ecg_queue \<Rightarrow> ecg_queue" where
  "CalcOtherFiltedChannels idx = on_item idx (\<lambda>x. x\<lparr>stDataFilter := CalcOtherChannels (stDataFilter x)\<rparr>)"

section \<open>Heart rate and arrhythmia\<close>

definition beats_used :: "int \<Rightarrow> nat" where
  "beats_used hr = (if hr \<ge> 0 \<and> hr < 60 then 5 else if hr \<ge> 80 \<and> hr < 100 then 8 else 10)"

definition CalcHeartRate :: "alg_fpu \<Rightarrow> ecg_alg \<Rightarrow> int" where
  "CalcHeartRate fp s =
     (let n = length (labels s); L = min (beats_used (HR s)) n;
          interval = idiff (fst (labels s ! (n - 1))) (fst (labels s ! (n - L)))
      in if n < 2 \<or> interval = 0 then HR_junk s
         else cvs fp (fadd fp (fdiv fp (fmul fp (flt fp 60) (flt fp (SampleRate s)))
                                       (fdiv fp (flt fp interval) (flt fp (int L - 1)))) (fl fp 0.5)))"

definition Init_ARRHYTHMIA_ANALYSIS_RESULT1 :: "ARRHYTHMIA_ANALYSIS_RESULT1 \<Rightarrow> ARRHYTHMIA_ANALYSIS_RESULT1" where
  "Init_ARRHYTHMIA_ANALYSIS_RESULT1 a = a\<lparr>PVCsCount := 0, RCount := 0, UnKCount := 0, PVCRate := 0, Is_ASYSTOLE := False,
     Is_BIGENINY := False, Is_BRADYCARDIA := False, Is_MISSED_BEAT := False, Is_PAIR_PVC := False, Is_R_ON_T := False,
     Is_SIGLE_PVC := False, Is_TACHYCARDIA := False, Is_TRIGENINY := False, Is_VENT_FIB := False, Is_VENT_TACH := False\<rparr>"

fun first_label :: "int \<Rightarrow> (int \<times> TFLabel) list \<Rightarrow> (int \<times> TFLabel) list option" where
  "first_label least [] = None"
| "first_label least (l # ls) = (if fst l > least then Some (l # ls) else first_label least ls)"

definition count_class :: "(TFLabel \<Rightarrow> bool) \<Rightarrow> (int \<times> TFLabel) list \<Rightarrow> int" where
  "count_class P ls = int (length (filter (\<lambda>l. P (snd l)) ls))"

definition count_labels :: "ecg_alg \<Rightarrow> ARRHYTHMIA_ANALYSIS_RESULT1 \<Rightarrow> ARRHYTHMIA_ANALYSIS_RESULT1" where
  "count_labels s a =
     (let ls = (case first_label (CAL - SampleRate s * 30) (labels s) of None \<Rightarrow> labels s | Some ls \<Rightarrow> ls)
      in a\<lparr>RCount := count_class (\<lambda>c. c = TFL_R) ls,
           PVCsCount := count_class (\<lambda>c. c = TFL_PVC_LU \<or> c = TFL_PVC_RU) ls,
           UnKCount := count_class (\<lambda>c. c \<noteq> TFL_R \<and> c \<noteq> TFL_PVC_LU \<and> c \<noteq> TFL_PVC_RU) ls\<rparr>)"

definition asystole :: "alg_fpu \<Rightarrow> ecg_alg \<Rightarrow> bool" where
  "asystole fp s \<longleftrightarrow> labels s = []
     \<or> fdiv fp (fsub fp (flt fp CAL) (flt fp (fst (last (labels s))))) (flt fp (SampleRate s)) \<ge> Asystole_Time_Limit s"

text \<open>The patterns of beats, as the numbers of the labels stand for them: 1, 2 and 4.\<close>

abbreviation "nb \<equiv> TFL_R"
abbreviation "pl \<equiv> TFL_PVC_LU"
abbreviation "pr \<equiv> TFL_PVC_RU"

definition SinglePVCTemp :: "TFLabel list list" where
  "SinglePVCTemp = [[nb, pl, nb, nb, nb], [nb, pr, nb, nb, nb]]"

definition PairPVCTemp :: "TFLabel list list" where
  "PairPVCTemp = [[nb, pl, pl, nb, nb], [nb, pr, pr, nb, nb], [nb, pl, pr, nb, nb], [nb, pr, pl, nb, nb]]"

definition BigeninyTemp :: "TFLabel list list" where
  "BigeninyTemp = [[nb, pl, nb, pl, nb], [nb, pr, nb, pr, nb], [nb, pl, nb, pr, nb], [nb, pr, nb, pl, nb]]"

definition TrigeninyTemp :: "TFLabel list list" where
  "TrigeninyTemp = [[nb, pl, nb, nb, pl, nb], [nb, pr, nb, nb, pr, nb], [nb, pl, nb, nb, pr, nb], [nb, pr, nb, nb, pl, nb]]"

definition TemplateCompare :: "TFLabel list \<Rightarrow> TFLabel list \<Rightarrow> bool" where
  "TemplateCompare pTest pTemplate \<longleftrightarrow> (\<forall>i \<in> set [0..<length pTemplate]. pTest ! i = pTemplate ! i)"

definition too_old :: "alg_fpu \<Rightarrow> ecg_alg \<Rightarrow> nat \<Rightarrow> bool" where
  "too_old fp s i \<longleftrightarrow>
     fdiv fp (flt fp (CAL - fst (labels s ! (length (labels s) - i - 3)))) (flt fp (SampleRate s)) \<ge> fl fp 4.5"

definition recent_beats :: "nat \<Rightarrow> nat \<Rightarrow> ecg_alg \<Rightarrow> TFLabel list" where
  "recent_beats k i s = List.map snd (take k (drop (length (labels s) - i - k) (labels s)))"

text \<open>The first window, from the newest beats back, that one of the groups of patterns fits, and the group.\<close>

fun find_pattern :: "(nat \<Rightarrow> bool) \<Rightarrow> (nat \<Rightarrow> TFLabel list) \<Rightarrow> TFLabel list list list \<Rightarrow> nat list \<Rightarrow> nat option" where
  "find_pattern old beats groups [] = None"
| "find_pattern old beats groups (i # is) =
     (if old i then None
      else case find (\<lambda>g. \<exists>t \<in> set (groups ! g). TemplateCompare (beats i) t) [0..<length groups] of
             Some g \<Rightarrow> Some g
           | None \<Rightarrow> find_pattern old beats groups is)"

definition missed_beat :: "alg_fpu \<Rightarrow> ecg_alg \<Rightarrow> bool" where
  "missed_beat fp s \<longleftrightarrow> length (labels s) > 5 \<and>
     (let n = length (labels s);
          d = (\<lambda>i. flt fp (idiff (fst (labels s ! (n - 6 + i + 1))) (fst (labels s ! (n - 6 + i)))));
          a = fmul fp (flt fp 4) (d 2); b = fadd fp (fadd fp (fadd fp (d 0) (d 1)) (d 3)) (d 4)
      in if b = 0 then a > 0 else fdiv fp a b \<ge> fl fp 1.96)"

text \<open>The rhythm, when there is no asystole; the rate is brought into its range before it is shown.\<close>

definition rhythm :: "alg_fpu \<Rightarrow> ecg_alg \<Rightarrow> ARRHYTHMIA_ANALYSIS_RESULT1 \<Rightarrow> ARRHYTHMIA_ANALYSIS_RESULT1" where
  "rhythm fp s a =
     (let a = (if HR s \<ge> Tachycardia_Limit (cfg s)
               then if PVCsCount a > 1 then a\<lparr>Is_VENT_TACH := True\<rparr> else a\<lparr>Is_TACHYCARDIA := True\<rparr>
               else if HR s \<le> Bradycardia_Limit (cfg s) \<and> HR s \<noteq> 0 then a\<lparr>Is_BRADYCARDIA := True\<rparr> else a);
          a = (if missed_beat fp s then a\<lparr>Is_MISSED_BEAT := True\<rparr> else a);
          n = length (labels s)
      in case find_pattern (too_old fp s) (\<lambda>i. recent_beats 5 i s) [SinglePVCTemp, PairPVCTemp, BigeninyTemp] [0..<n - 4] of
           Some g \<Rightarrow> (if g = 0 then a\<lparr>Is_SIGLE_PVC := True\<rparr> else if g = 1 then a\<lparr>Is_PAIR_PVC := True\<rparr>
                      else a\<lparr>Is_BIGENINY := True\<rparr>)
         | None \<Rightarrow> (case find_pattern (too_old fp s) (\<lambda>i. recent_beats 6 i s) [TrigeninyTemp] [0..<n - 5] of
                      Some _ \<Rightarrow> a\<lparr>Is_TRIGENINY := True\<rparr> | None \<Rightarrow> a))"

definition clamp_rate :: "int \<Rightarrow> int" where
  "clamp_rate hr = (if hr > 350 then 350 else if hr < 0 then 0 else hr)"

definition ArrhythmiaAnalysis :: "alg_fpu \<Rightarrow> ecg_alg \<Rightarrow> ecg_alg" where
  "ArrhythmiaAnalysis fp s =
     (let a = Init_ARRHYTHMIA_ANALYSIS_RESULT1 (AAResult1 s);
          a = (if labels s \<noteq> [] then count_labels s a else a)
      in if asystole fp s then s\<lparr>AAResult1 := a\<lparr>Is_ASYSTOLE := True\<rparr>, HR := 0\<rparr>
         else s\<lparr>AAResult1 := rhythm fp s a, HR := clamp_rate (HR s)\<rparr>)"

definition reports :: "ARRHYTHMIA_ANALYSIS_RESULT1 \<Rightarrow> AlertType_TypeDef list" where
  "reports a = List.map snd (filter fst
     [(Is_ASYSTOLE a, ASYSTOLE), (Is_BIGENINY a, VBIG), (Is_BRADYCARDIA a, BRD), (Is_MISSED_BEAT a, MISSING_QRS),
      (Is_PAIR_PVC a, VCOUPLET), (Is_R_ON_T a, VRONT), (Is_SIGLE_PVC a, SIGLE_PVC), (Is_TACHYCARDIA a, TAC),
      (Is_TRIGENINY a, VTRIG), (Is_VENT_FIB a, VFIB), (Is_VENT_TACH a, VTAC)])"

definition ReportArrhythmiaAnalysis :: "ecg_alg \<Rightarrow> ecg_alg" where
  "ReportArrhythmiaAnalysis s =
     (if u8ArrhythmiaAnalysis_sw (cfg s) = 0 then s
      else fold (\<lambda>t s. AlertList_Append \<lparr>alert_type = t, u32AlertIndex = 0, alert_time = inSysTick s\<rparr> s)
             (reports (AAResult1 s)) s)"

definition fillResult :: "alg_fpu \<Rightarrow> ecg_alg \<Rightarrow> ecg_alg" where
  "fillResult fp s =
     s\<lparr>ecgOut := on_item (snd (ecgOut s) - 1) (\<lambda>x. x\<lparr>stResult := (stResult x)
          \<lparr>u32HeartRate := word_of_int (HR s),
            nSTAmpDif := (nSTAmpDif (stResult x))[0 := word_of_int (cvs fp (ST_Volt_Val s))],
            nPVCCount := word_of_int (int (length (PVCList s))), pAlertList := True,
            u32QuickQRSTick := QuickQRSTick s\<rparr>\<rparr>) (ecgOut s),
       QuickQRSTick := 0\<rparr>"

section \<open>Initialisation of the search\<close>

definition InsertSTVolt :: "alg_fpu \<Rightarrow> int \<Rightarrow> ecg_alg \<Rightarrow> ecg_alg option" where
  "InsertSTVolt fp QRSIndex s =
     (case CalcSingleSTVolt fp (pECG_Cal_Buf (bufs s) ! 0) QRSIndex (SampleRate s) (fl fp 0.084) (fl fp 0.072) of
        None \<Rightarrow> None
      | Some None \<Rightarrow> Some s
      | Some (Some r) \<Rightarrow> Some (s\<lparr>ST_Volt_His := push_bounded ST_VOLT_HIS_MAX_LEN (flt fp r) (ST_Volt_His s),
                              ST_Volt_Val := flt fp r\<rparr>))"

definition shift_form :: "int \<Rightarrow> CTriangle_Form \<Rightarrow> CTriangle_Form" where
  "shift_form k f = f\<lparr>stPeak := (fst (stPeak f) + k, snd (stPeak f)), stLeft := (fst (stLeft f) + k, snd (stLeft f)),
     stRight := (fst (stRight f) + k, snd (stRight f))\<rparr>"

text \<open>The peak of the second R wave, 0 when there is none.\<close>

definition second_R :: "CTriangle_Form list \<Rightarrow> TFLabel list \<Rightarrow> int" where
  "second_R tfs ls =
     (case drop 1 (filter (\<lambda>i. ls ! i = TFL_R) [0..<length tfs]) of [] \<Rightarrow> 0 | i # _ \<Rightarrow> fst (stPeak (tfs ! i)))"

definition InializingProgress :: "alg_fpu \<Rightarrow> int \<Rightarrow> ecg_alg \<Rightarrow> (bool \<times> ecg_alg) option" where
  "InializingProgress fp headIndex s =
     (let s = s\<lparr>fAmpThreshold := fmul fp (fl fp 0.30) (fAmpDif s)\<rparr>
      in case window (raw s) headIndex (CAL - headIndex) of
           None \<Rightarrow> None
         | Some w \<Rightarrow>
             let tfs = List.map (shift_form headIndex) (FindTriangleForm w (cvs fp (fAmpThreshold s)) TRIANGLE_FORM_SIZE);
                 (RFormCount, ls) = FindRForm tfs; n = length tfs
             in if RFormCount < 4 then Some (False, s)
                else let sum = fold (\<lambda>i sum. sum + (fst (stPeak (tfs ! i)) - fst (stPeak (tfs ! (i - 1))))) [1..<n] 0;
                         l = fst (stLeft (tfs ! (n - 3))); index = second_R tfs ls; SR = SampleRate s;
                         A = cvs fp (fsub fp (flt fp index) (fmul fp (fl fp 0.22) (flt fp SR)));
                         B = cvs fp (fadd fp (flt fp index) (fmul fp (fl fp 0.22) (flt fp SR)))
                     in case (window (inte s) l (CAL - l), CalcThreshold1 fp (raw s) (inte s) A (B - A)) of
                          (Some v, Some (t1, t2, t3, t4)) \<Rightarrow>
                            Some (True, s\<lparr>isIntializedRRInterval := True, RRInterval1 := sum sdiv (int n - 1),
                              InteWaveThreshold := Max_F v (length v), PrePosX := fst (stRight (tfs ! (n - 1))),
                              PreQRS := fst (stRight (tfs ! (n - 1))), thresholdRawData := t1, thresholdIy := t2,
                              RWaveThreshold1 := t3, RWaveThreshold2 := t4,
                              RHighThreshold := fmul fp (fl fp 0.2) (fAmpDif s)\<rparr>)
                        | _ \<Rightarrow> None)"

section \<open>The search for the next beat\<close>

text \<open>The mark moves back with the data, but never below 7.\<close>

definition mark_back :: "int \<Rightarrow> int" where
  "mark_back i = (if i > int ECG_UPDATE_DATA_LEN - 1 then i - int ECG_UPDATE_DATA_LEN else int ECG_UPDATE_DATA_LEN - 1)"

definition marks_back :: "ecg_alg \<Rightarrow> ecg_alg" where
  "marks_back s = s\<lparr>labels := List.map (\<lambda>(i, c). (mark_back i, c)) (labels s), PrePosX := mark_back (PrePosX s),
     PreQRS := mark_back (PreQRS s), InteDataRiseEdge := mark_back (InteDataRiseEdge s),
     InteDataFallEdge := mark_back (InteDataFallEdge s), currentRwaveIndex := mark_back (currentRwaveIndex s),
     PVCCheckPoint := mark_back (PVCCheckPoint s), calcCount := i32 (calcCount s + int ECG_UPDATE_DATA_LEN)\<rparr>"

text \<open>Nothing found for more than five seconds: learn again from what came after.\<close>

definition relearn :: "alg_fpu \<Rightarrow> ecg_alg \<Rightarrow> ecg_alg option" where
  "relearn fp s =
     (if (CAL - PreQRS s) sdiv SampleRate s > 5
      then case InializingProgress fp (PreQRS s + SampleRate s) s of
             None \<Rightarrow> None
           | Some (b, s) \<Rightarrow> Some (if b then s\<lparr>PrePosX := CAL - 1, PreQRS := CAL - 1\<rparr> else s)
      else Some s)"

definition edge_found :: "real \<Rightarrow> int \<Rightarrow> ecg_alg \<Rightarrow> ecg_alg" where
  "edge_found thre index s =
     s\<lparr>proccessMode := 1, preInteThres := thre, InteDataRiseEdge := index, isFindRwave := False\<rparr>"

text \<open>Mode 0: a rising edge of the integrated wave, with a threshold from the last beats; after 0.4 seconds
  without one, with a threshold from the wave itself.\<close>

definition find_edge :: "alg_fpu \<Rightarrow> ecg_alg \<Rightarrow> ecg_alg option" where
  "find_edge fp s =
     (let SR = SampleRate s; X = PrePosX s; minIyLen = part fp 0.8 SR
      in case (window (inte s) (CAL - minIyLen) minIyLen, span (inte s) X (CAL - X)) of
           (Some m, Some w) \<Rightarrow>
             (let minIy = Min_F m (length m);
                  thre = fadd fp (fdiv fp (fsub fp (InteWaveThreshold s) minIy) (flt fp 4)) minIy;
                  (bIs, index) = CheckRiseEdgeByLine w thre
              in if bIs then Some (edge_found thre (int index + X) s)
                 else if flt fp (CAL - X) > fmul fp (fl fp 0.4) (flt fp SR)
                 then (case window (inte s) X (CAL - X) of
                         None \<Rightarrow> None
                       | Some w \<Rightarrow>
                           (let mi = Min_F w (length w); di = fsub fp (Max_F w (length w)) mi
                            in if di > fmul fp (fl fp 0.15) (InteWaveThreshold s)
                               then let thre = fadd fp mi (fmul fp (fl fp 0.15) di);
                                        (bIs, index) = CheckRiseEdgeByLine w thre
                                    in Some (if bIs then edge_found thre (int index + X) s else s\<lparr>PrePosX := CAL - 1\<rparr>)
                               else Some (s\<lparr>PrePosX := cvs fp (fsub fp (fsub fp (flt fp CAL)
                                                      (fmul fp (fl fp 0.2) (flt fp SR))) (flt fp 1))\<rparr>)))
                 else Some s)
         | _ \<Rightarrow> None)"

text \<open>Mode 1, first part: a steep rise of the wave itself, taken for an R wave at once.\<close>

definition quick_R :: "alg_fpu \<Rightarrow> ecg_alg \<Rightarrow> ecg_alg option" where
  "quick_R fp s =
     (let SR = SampleRate s; i = cvs fp (fsub fp (flt fp CAL) (fmul fp (flt fp SR) (fl fp 0.1)));
          count = cvs fp (fmul fp (flt fp SR) (fl fp 0.2))
      in if isFindRwave s then Some s
         else case (window (raw s) i (CAL - i), window (raw s) (CAL - count) count) of
                (Some w, Some v) \<Rightarrow>
                  Some (if fst (CheckRiseEdge_N fp w (thresholdRawData s))
                        then let (result, index, high) = QuickRClassifier fp v SR
                             in if result = 1
                                then s\<lparr>isFindRwave := True, currentRwaveIndex := int index + CAL - count,
                                       QuickQRSTick := inSysTick s\<rparr>
                                else s
                        else s)
              | _ \<Rightarrow> None)"

definition mean_interval :: "(int \<times> TFLabel) list \<Rightarrow> int" where
  "mean_interval ls =
     fold (\<lambda>i acc. i32 (acc + (fst (ls ! (i + 1)) - fst (ls ! i)))) [0..<length ls - 1] 0 sdiv (int (length ls) - 1)"

definition adapt_interval :: "alg_fpu \<Rightarrow> ecg_alg \<Rightarrow> ecg_alg" where
  "adapt_interval fp s =
     (if length (labels s) > 1
      then let RRData = mean_interval (labels s)
           in if flt fp (my_abs (idiff RRData (RRInterval1 s))) < fmul fp (fl fp 0.5) (flt fp (RRInterval1 s))
              then s\<lparr>RRInterval1 := RRData\<rparr> else s
      else s)"

text \<open>The R wave is confirmed: label it, adapt the thresholds, measure the ST segment.\<close>

definition accept_R :: "alg_fpu \<Rightarrow> int \<Rightarrow> ecg_alg \<Rightarrow> ecg_alg option" where
  "accept_R fp high s =
     (let SR = SampleRate s; R = currentRwaveIndex s; rise = InteDataRiseEdge s; len1 = part fp 0.2 SR;
          s = append_Label R TFL_R
                (s\<lparr>PreQRS := R, PrePosX := cvs fp (fadd fp (flt fp R) (fmul fp (fl fp 0.06) (flt fp SR)))\<rparr>)
      in case (window (inte s) rise (CAL - rise), window (raw s) (R - len1) len1) of
           (Some w, Some pt) \<Rightarrow>
             (let m1 = steepest (\<lambda>i. flt fp (idiff (pt ! i) (pt ! (i - 4)))) (length pt);
                  s = s\<lparr>InteWaveThreshold := Max_F w (length w), RHighThreshold := fmul fp (fl fp 0.2) (flt fp high),
                        thresholdRawData := fdiv fp m1 (flt fp 2)\<rparr>
              in map_option (\<lambda>s. s\<lparr>proccessMode := 0\<rparr>) (InsertSTVolt fp R (adapt_interval fp s)))
         | _ \<Rightarrow> None)"

text \<open>The beat behind the falling edge of the integrated wave.\<close>

definition judge_R :: "alg_fpu \<Rightarrow> ecg_alg \<Rightarrow> ecg_alg option" where
  "judge_R fp s =
     (let SR = SampleRate s; rise = InteDataRiseEdge s; fall = InteDataFallEdge s;
          wide = fmul fp (fdiv fp (flt fp (fall - rise)) (flt fp SR)) (flt fp 1000);
          llen = part fp 0.015 SR; mid = (fall + rise) sdiv 2; leftWide = part fp 0.25 SR; rightWide = part fp 0.08 SR;
          peak = (if currentRwaveIndex s \<le> PreQRS s
                  then map_option (\<lambda>w. snd (Max_Index_N w (length w))) (window (raw s) (rise - llen) (part fp 0.030 SR))
                  else Some 0)
      in case peak of
           None \<Rightarrow> None
         | Some k \<Rightarrow>
             (let s = (if currentRwaveIndex s \<le> PreQRS s then s\<lparr>currentRwaveIndex := int k + rise - llen\<rparr> else s)
              in if wide > flt fp 50
                 then (case window (raw s) (mid - leftWide) (leftWide + rightWide) of
                         None \<Rightarrow> None
                       | Some w \<Rightarrow>
                           (let (result, _, high) = FullRClassifier fp w SR
                            in if result \<noteq> 0 then accept_R fp high s
                               else Some (s\<lparr>PVCCheckPoint := cvs fp (fsub fp (flt fp rise) (fmul fp (fl fp 0.09) (flt fp SR))),
                                           proccessMode := 2\<rparr>)))
                 else Some (s\<lparr>PrePosX := fall, proccessMode := 0\<rparr>)))"

definition find_R :: "alg_fpu \<Rightarrow> ecg_alg \<Rightarrow> ecg_alg option" where
  "find_R fp s =
     (case quick_R fp s of
        None \<Rightarrow> None
      | Some s \<Rightarrow>
          (case span (inte s) (InteDataRiseEdge s) (CAL - InteDataRiseEdge s) of
             None \<Rightarrow> None
           | Some w \<Rightarrow>
               (let (bIs, index) = CheckFallEdgeByLine w (preInteThres s)
                in if bIs then judge_R fp (s\<lparr>InteDataFallEdge := int index + InteDataRiseEdge s\<rparr>) else Some s)))"

text \<open>Mode 2: enough of the wave has come in to look for a premature beat.\<close>

definition find_PVC :: "alg_fpu \<Rightarrow> ecg_alg \<Rightarrow> ecg_alg option" where
  "find_PVC fp s =
     (let SR = SampleRate s; wide = part fp 0.4 SR
      in if PVCCheckPoint s + wide < CAL
         then case window (raw s) (PVCCheckPoint s) wide of
                None \<Rightarrow> None
              | Some w \<Rightarrow>
                  (let (result, index) = PVCClassifier fp w SR; Q = int index + PVCCheckPoint s
                   in Some (if result = 1 \<or> result = 2
                        then InsertPVC (sint (inSysTick s))
                               (append_Label Q (if result = 1 then TFL_PVC_LU else TFL_PVC_RD)
                                 (s\<lparr>PreQRS := Q, PrePosX := cvs fp (fadd fp (flt fp (InteDataFallEdge s))
                                                               (fmul fp (fl fp 0.19) (flt fp SR))),
                                    QuickQRSTick := inSysTick s, proccessMode := 0\<rparr>))
                        else s\<lparr>PrePosX := InteDataFallEdge s, proccessMode := 0\<rparr>))
         else Some s)"

definition search_beat :: "alg_fpu \<Rightarrow> ecg_alg \<Rightarrow> ecg_alg option" where
  "search_beat fp s =
     (if proccessMode s = 0 then find_edge fp s else if proccessMode s = 1 then find_R fp s
      else if proccessMode s = 2 then find_PVC fp s else Some s)"

section \<open>One sample\<close>

definition update_step :: "alg_fpu \<Rightarrow> ecg_alg \<Rightarrow> ecg_alg option" where
  "update_step fp s =
     (case relearn fp (marks_back s) of
        None \<Rightarrow> None
      | Some s \<Rightarrow>
          map_option ReportArrhythmiaAnalysis
            (if fAmpDif s > flt fp 690
             then if flt fp (CAL - PreQRS s) \<ge> fmul fp (fl fp 0.3) (flt fp (RRInterval1 s)) \<and> calcCount s \<ge> calcInterval s
                  then map_option (\<lambda>s. fillResult fp (ArrhythmiaAnalysis fp (s\<lparr>HR := CalcHeartRate fp s\<rparr>)))
                         (search_beat fp (s\<lparr>calcCount := 0\<rparr>))
                  else Some (fillResult fp s)
             else Some (fillResult fp (s\<lparr>AAResult1 := (AAResult1 s)\<lparr>Is_ASYSTOLE := True\<rparr>, HR := 0\<rparr>))))"

text \<open>The oldest eight elements go; \<open>memcpy\<close> copies upwards.\<close>

definition drop_oldest :: "'a list \<Rightarrow> 'a list" where
  "drop_oldest a = drop ECG_UPDATE_DATA_LEN a @ drop (length a - ECG_UPDATE_DATA_LEN) a"

definition shift_bufs :: "ecg_alg \<Rightarrow> ecg_alg" where
  "shift_bufs s = s\<lparr>nECG_Calc_Data_Num := ECG_CAL_DATA_LEN - ECG_UPDATE_DATA_LEN,
     bufs := (bufs s)\<lparr>pECG_Cal_Buf := List.map drop_oldest (pECG_Cal_Buf (bufs s)),
                      pECG_SysTick := drop_oldest (pECG_SysTick (bufs s)),
                      IntegrationBuffer := drop_oldest (IntegrationBuffer (bufs s))\<rparr>\<rparr>"

definition integrate :: "alg_fpu \<Rightarrow> ecg_alg \<Rightarrow> ecg_alg" where
  "integrate fp s =
     (let n = nECG_Calc_Data_Num s;
          (y, b) = Derivative_Squaring_Integration fp (flt fp (pECG_Cal_Buf (bufs s) ! 0 ! n)) (bufs s);
          b = b\<lparr>IntegrationBuffer := (IntegrationBuffer b)[n := y]\<rparr>;
          w = drop 3000 (pECG_Cal_Buf b ! 0)
      in s\<lparr>bufs := b, fAmpDif := flt fp (idiff (Max_N w 2000) (Min_N w 2000))\<rparr>)"

definition count_PVC :: "ecg_alg \<Rightarrow> ecg_alg" where
  "count_PVC s =
     (if i32 (PVCCheckTimeCount s + 1) > 2 * SampleRate s
      then CheckPVCList (sint (inSysTick s)) (s\<lparr>PVCCheckTimeCount := 0\<rparr>)
      else s\<lparr>PVCCheckTimeCount := i32 (PVCCheckTimeCount s + 1)\<rparr>)"

definition ECGAlgoRun :: "alg_fpu \<Rightarrow> ecg_alg \<Rightarrow> ecg_alg option" where
  "ECGAlgoRun fp s =
     (case DataPreProccess fp (snd (ecgOut s) - 1) s of
        None \<Rightarrow> None
      | Some s \<Rightarrow>
          let s = AlertList_Clear ((count_PVC (integrate fp s))\<lparr>nECG_Calc_Data_Num := nECG_Calc_Data_Num s + 1\<rparr>)
          in if nECG_Calc_Data_Num s \<noteq> ECG_CAL_DATA_LEN then Some s
             else map_option shift_bufs
                    (if isIntializedRRInterval s then update_step fp s
                     else map_option snd (InializingProgress fp 0 s)))"

section \<open>Interface\<close>

definition ECGAlgoInit :: "alg_fpu \<Rightarrow> int \<Rightarrow> ecg_alg \<Rightarrow> ecg_alg" where
  "ECGAlgoInit fp FS s =
     s\<lparr>SampleRate := FS, calcInterval := 3, Asystole_Time_Limit := flt fp 3,
       labels := List.map (\<lambda>(_, c). (0, c)) (labels s), ST_Volt_His := [], ST_Volt_Val := 0,
       bufs := (bufs s)\<lparr>pECG_SysTick := replicate ECG_CAL_DATA_LEN 0, IntegrationBuffer := replicate ECG_CAL_DATA_LEN 0\<rparr>,
       ecgOut := (fst (ecgOut s), 0), stAlertList := [], isIntializedRRInterval := False,
       nECG_Calc_Data_Num := ECG_CAL_DATA_LEN - ECG_UPDATE_DATA_LEN,
       cfg := (cfg s)\<lparr>Tachycardia_Limit := 100, Bradycardia_Limit := 40, ISO_Interval := fl fp 0.084,
                      ST_Interval := fl fp 0.072, u8STAnalysis_sw := 1, u8ArrhythmiaAnalysis_sw := 1\<rparr>\<rparr>"

definition l_ecg_AlgorithmInit :: "alg_fpu \<Rightarrow> ecg_alg \<Rightarrow> ecg_alg" where
  "l_ecg_AlgorithmInit fp s = ECGAlgoInit fp 500 s"

definition l_ecg_PushAlgorithmData :: "alg_fpu \<Rightarrow> u32 \<Rightarrow> s32 \<Rightarrow> s32 \<Rightarrow> s32 \<Rightarrow> u8 \<Rightarrow> ecg_alg \<Rightarrow> ecg_alg option" where
  "l_ecg_PushAlgorithmData fp u32Tick i ii v pc s =
     ECGAlgoRun fp (s\<lparr>inSysTick := u32Tick, inPace := pc,
       ecgOut := out_push ECG_ALGORITHM_INPUT_MAX_LEN zero_ecg_item (ecg_put_raw fp u32Tick i ii v pc) (ecgOut s)\<rparr>)"

definition l_ecg_PopAlgorithmData :: "nat \<Rightarrow> ecg_alg \<Rightarrow> CECG_Out_Item list \<times> ecg_alg" where
  "l_ecg_PopAlgorithmData k s = (let (xs, q) = out_pop k (ecgOut s) in (xs, s\<lparr>ecgOut := q\<rparr>))"

datatype ECG_ALG_DEBUG_TypeDef =
  ECG_FILTER_SEL | ECG_ST_SW | ECG_ST_MEASURE_SETTING | ECG_ARRHYTHMIA_SW | ECG_NOTCH_SELECT | ECG_PACE_SW
| ECG_PACE_OVERSHOOT_SW | ECG_Tachycardia_Limit_SET | ECG_Bradycardia_Limit_SET

definition ECGV1000_setFilter :: "u8 \<Rightarrow> ecg_cfg \<Rightarrow> ecg_cfg" where
  "ECGV1000_setFilter newSel c =
     (if newSel = 1 then c\<lparr>alg_WorkMode := 2\<rparr>
      else if newSel = 2 then c\<lparr>alg_WorkMode := 1, NotchMode := 3\<rparr>
      else if newSel = 3 then c\<lparr>alg_WorkMode := 0, NotchMode := 0\<rparr>
      else c)"

definition be16 :: "u8 \<Rightarrow> u8 \<Rightarrow> u16" where "be16 h l = push_bit 8 (ucast h) OR ucast l"

definition ECGV1000DebugInterface :: "alg_fpu \<Rightarrow> ECG_ALG_DEBUG_TypeDef \<Rightarrow> u8 list \<Rightarrow> u8 \<Rightarrow> ecg_cfg \<Rightarrow> int \<times> ecg_cfg" where
  "ECGV1000DebugInterface fp ty pVal nLen c =
     (let on = (if pVal ! 0 = 0 then 0 else 1);
          sec = (\<lambda>h l. flt fp (int (unat (be16 h l) div 1000)))
      in case ty of
           ECG_FILTER_SEL \<Rightarrow> (0, ECGV1000_setFilter (pVal ! 0) c)
         | ECG_NOTCH_SELECT \<Rightarrow> (0, c\<lparr>NotchMode := pVal ! 0\<rparr>)
         | ECG_PACE_SW \<Rightarrow> (0, c\<lparr>PaceMode := on\<rparr>)
         | ECG_PACE_OVERSHOOT_SW \<Rightarrow> (0, c\<lparr>PaceShowMode := on\<rparr>)
         | ECG_ST_SW \<Rightarrow> (0, c\<lparr>u8STAnalysis_sw := on\<rparr>)
         | ECG_ST_MEASURE_SETTING \<Rightarrow>
             (if nLen \<noteq> 4 then (- 1, c)
              else (0, c\<lparr>ISO_Interval := sec (pVal ! 0) (pVal ! 1), ST_Interval := sec (pVal ! 2) (pVal ! 3)\<rparr>))
         | ECG_ARRHYTHMIA_SW \<Rightarrow> (0, c\<lparr>u8ArrhythmiaAnalysis_sw := on\<rparr>)
         | ECG_Tachycardia_Limit_SET \<Rightarrow> (0, c\<lparr>Tachycardia_Limit := int (unat (be16 (pVal ! 0) (pVal ! 1)))\<rparr>)
         | ECG_Bradycardia_Limit_SET \<Rightarrow> (0, c\<lparr>Bradycardia_Limit := int (unat (be16 (pVal ! 0) (pVal ! 1)))\<rparr>))"

definition l_ecg_DebugInterface_alg :: "alg_fpu \<Rightarrow> ECG_ALG_DEBUG_TypeDef \<Rightarrow> u8 list \<Rightarrow> u8 \<Rightarrow> ecg_alg \<Rightarrow> int \<times> ecg_alg" where
  "l_ecg_DebugInterface_alg fp ty pVal nLen s =
     (let (r, c) = ECGV1000DebugInterface fp ty pVal nLen (cfg s) in (r, s\<lparr>cfg := c\<rparr>))"

end
