(* ===== verification/EcgProps.thy ===== *)
theory EcgProps
  imports EcgAlg
begin

text \<open>
  What the analysis of the ECG keeps and what it reports: the frame of the search for beats, the range of the
  heart rate, the premature beats that no alarm counts, the count of premature beats, the triangular forms.
\<close>

section \<open>What the search leaves alone\<close>

definition found_classes :: "TFLabel set" where "found_classes = {TFL_R, TFL_PVC_LU, TFL_PVC_RD}"

definition classes :: "ecg_alg \<Rightarrow> TFLabel set" where "classes s = snd ` set (labels s)"

definition frame :: "ecg_alg \<Rightarrow> ecg_alg \<Rightarrow> bool" where
  "frame s t \<longleftrightarrow> HR t = HR s \<and> ecgOut t = ecgOut s \<and> bufs t = bufs s \<and> cfg t = cfg s
     \<and> nECG_Calc_Data_Num t = nECG_Calc_Data_Num s \<and> classes t \<subseteq> classes s \<union> found_classes
     \<and> (length (labels s) \<le> ECG_LABEL_MAX_SIZE \<longrightarrow> length (labels t) \<le> ECG_LABEL_MAX_SIZE)"

lemma frame_refl [simp]: "frame s s"
  by (simp add: frame_def)

lemma frame_trans: "frame s t \<Longrightarrow> frame t u \<Longrightarrow> frame s u"
  by (auto simp: frame_def)

lemma frame_upd [simp]:
  "frame s (t\<lparr>isIntializedRRInterval := x0\<rparr>) = frame s t"
  "frame s (t\<lparr>proccessMode := x1\<rparr>) = frame s t"
  "frame s (t\<lparr>isFindRwave := x2\<rparr>) = frame s t"
  "frame s (t\<lparr>calcCount := x3\<rparr>) = frame s t"
  "frame s (t\<lparr>PrePosX := x4\<rparr>) = frame s t"
  "frame s (t\<lparr>PreQRS := x5\<rparr>) = frame s t"
  "frame s (t\<lparr>InteDataRiseEdge := x6\<rparr>) = frame s t"
  "frame s (t\<lparr>InteDataFallEdge := x7\<rparr>) = frame s t"
  "frame s (t\<lparr>currentRwaveIndex := x8\<rparr>) = frame s t"
  "frame s (t\<lparr>PVCCheckPoint := x9\<rparr>) = frame s t"
  "frame s (t\<lparr>QuickQRSTick := x10\<rparr>) = frame s t"
  "frame s (t\<lparr>RRInterval1 := x11\<rparr>) = frame s t"
  "frame s (t\<lparr>InteWaveThreshold := x12\<rparr>) = frame s t"
  "frame s (t\<lparr>thresholdIy := x13\<rparr>) = frame s t"
  "frame s (t\<lparr>thresholdRawData := x14\<rparr>) = frame s t"
  "frame s (t\<lparr>RWaveThreshold1 := x15\<rparr>) = frame s t"
  "frame s (t\<lparr>RWaveThreshold2 := x16\<rparr>) = frame s t"
  "frame s (t\<lparr>preInteThres := x17\<rparr>) = frame s t"
  "frame s (t\<lparr>RHighThreshold := x18\<rparr>) = frame s t"
  "frame s (t\<lparr>fAmpThreshold := x19\<rparr>) = frame s t"
  "frame s (t\<lparr>PVCList := x20\<rparr>) = frame s t"
  "frame s (t\<lparr>PVCCheckTimeCount := x21\<rparr>) = frame s t"
  "frame s (t\<lparr>ST_Volt_His := x22\<rparr>) = frame s t"
  "frame s (t\<lparr>ST_Volt_Val := x23\<rparr>) = frame s t"
  "frame s (t\<lparr>stAlertList := x24\<rparr>) = frame s t"
  "frame s (t\<lparr>AAResult1 := x25\<rparr>) = frame s t"
  "frame s (t\<lparr>fAmpDif := x26\<rparr>) = frame s t"
  by (simp_all add: frame_def classes_def)

lemma frame_upd_from [simp]:
  "frame (s\<lparr>isIntializedRRInterval := y0\<rparr>) t = frame s t"
  "frame (s\<lparr>proccessMode := y1\<rparr>) t = frame s t"
  "frame (s\<lparr>isFindRwave := y2\<rparr>) t = frame s t"
  "frame (s\<lparr>calcCount := y3\<rparr>) t = frame s t"
  "frame (s\<lparr>PrePosX := y4\<rparr>) t = frame s t"
  "frame (s\<lparr>PreQRS := y5\<rparr>) t = frame s t"
  "frame (s\<lparr>InteDataRiseEdge := y6\<rparr>) t = frame s t"
  "frame (s\<lparr>InteDataFallEdge := y7\<rparr>) t = frame s t"
  "frame (s\<lparr>currentRwaveIndex := y8\<rparr>) t = frame s t"
  "frame (s\<lparr>PVCCheckPoint := y9\<rparr>) t = frame s t"
  "frame (s\<lparr>QuickQRSTick := y10\<rparr>) t = frame s t"
  "frame (s\<lparr>RRInterval1 := y11\<rparr>) t = frame s t"
  "frame (s\<lparr>InteWaveThreshold := y12\<rparr>) t = frame s t"
  "frame (s\<lparr>thresholdIy := y13\<rparr>) t = frame s t"
  "frame (s\<lparr>thresholdRawData := y14\<rparr>) t = frame s t"
  "frame (s\<lparr>RWaveThreshold1 := y15\<rparr>) t = frame s t"
  "frame (s\<lparr>RWaveThreshold2 := y16\<rparr>) t = frame s t"
  "frame (s\<lparr>preInteThres := y17\<rparr>) t = frame s t"
  "frame (s\<lparr>RHighThreshold := y18\<rparr>) t = frame s t"
  "frame (s\<lparr>fAmpThreshold := y19\<rparr>) t = frame s t"
  "frame (s\<lparr>PVCList := y20\<rparr>) t = frame s t"
  "frame (s\<lparr>PVCCheckTimeCount := y21\<rparr>) t = frame s t"
  "frame (s\<lparr>ST_Volt_His := y22\<rparr>) t = frame s t"
  "frame (s\<lparr>ST_Volt_Val := y23\<rparr>) t = frame s t"
  "frame (s\<lparr>stAlertList := y24\<rparr>) t = frame s t"
  "frame (s\<lparr>AAResult1 := y25\<rparr>) t = frame s t"
  "frame (s\<lparr>fAmpDif := y26\<rparr>) t = frame s t"
  by (simp_all add: frame_def classes_def)

lemma append_Label_frame: "c \<in> found_classes \<Longrightarrow> frame s (append_Label i c s)"
  using set_push_bounded [of ECG_LABEL_MAX_SIZE "(i, c)" "labels s"]
    length_push_bounded [of ECG_LABEL_MAX_SIZE "labels s" "(i, c)"]
  by (auto simp: frame_def append_Label_def classes_def ECG_LABEL_MAX_SIZE_def)

lemma InsertPVC_frame: "frame s (InsertPVC t s)"
  by (simp add: frame_def InsertPVC_def classes_def)

lemma InsertSTVolt_frame: "InsertSTVolt fp q s = Some t \<Longrightarrow> frame s t"
  by (auto simp: frame_def InsertSTVolt_def classes_def split: option.splits)

lemma marks_back_frame: "frame s (marks_back s)"
  by (auto simp: frame_def marks_back_def classes_def image_image case_prod_unfold)

lemma InializingProgress_frame: "InializingProgress fp k s = Some (b, t) \<Longrightarrow> frame s t"
  by (auto simp: frame_def InializingProgress_def classes_def Let_def split: option.splits prod.splits if_splits)

lemma relearn_frame: "relearn fp s = Some t \<Longrightarrow> frame s t"
  by (auto simp: relearn_def dest: InializingProgress_frame split: option.splits prod.splits if_splits)

lemma find_edge_frame: "find_edge fp s = Some t \<Longrightarrow> frame s t"
  by (auto simp: find_edge_def edge_found_def Let_def split: option.splits prod.splits if_splits)

lemma quick_R_frame: "quick_R fp s = Some t \<Longrightarrow> frame s t"
  by (auto simp: quick_R_def Let_def split: option.splits prod.splits if_splits)

lemma adapt_interval_frame [simp]: "frame (adapt_interval fp s) t = frame s t"
  by (simp add: adapt_interval_def Let_def)

lemma append_Label_from: "frame (append_Label i c s) t \<Longrightarrow> c \<in> found_classes \<Longrightarrow> frame s t"
  using append_Label_frame frame_trans by blast

lemma accept_R_frame: "accept_R fp h s = Some t \<Longrightarrow> frame s t"
  by (auto simp: accept_R_def Let_def found_classes_def dest!: InsertSTVolt_frame append_Label_from
      split: option.splits)

lemma judge_R_frame: "judge_R fp s = Some t \<Longrightarrow> frame s t"
  by (auto simp: judge_R_def Let_def dest!: accept_R_frame split: option.splits prod.splits if_splits)

lemma find_R_frame: "find_R fp s = Some t \<Longrightarrow> frame s t"
  by (auto simp: find_R_def dest!: quick_R_frame judge_R_frame intro: frame_trans
      split: option.splits prod.splits if_splits)

lemma label_PVC_frame:
  "frame s u \<Longrightarrow> c \<in> found_classes \<Longrightarrow> frame s (InsertPVC t (append_Label i c u))"
  using append_Label_from [OF InsertPVC_frame] frame_trans by blast

lemma find_PVC_frame: "find_PVC fp s = Some t \<Longrightarrow> frame s t"
  by (auto simp: find_PVC_def Let_def found_classes_def intro!: label_PVC_frame
      split: option.splits prod.splits if_splits)

lemma search_beat_frame: "search_beat fp s = Some t \<Longrightarrow> frame s t"
  by (auto simp: search_beat_def dest: find_edge_frame find_R_frame find_PVC_frame split: if_splits)

section \<open>The invariant of the analysis\<close>

definition leads_ok :: "('m \<Rightarrow> bool) \<Rightarrow> 'm list \<Rightarrow> bool" where
  "leads_ok P ms \<longleftrightarrow> length ms = 3 \<and> (\<forall>m \<in> set ms. P m)"

definition sections_ok :: "nat \<Rightarrow> biquad list \<Rightarrow> bool" where
  "sections_ok k qs \<longleftrightarrow> length qs = k \<and> (\<forall>q \<in> set qs. biquad_ok q)"

definition bufs_ok :: "ecg_bufs \<Rightarrow> bool" where
  "bufs_ok b \<longleftrightarrow> leads_ok (sections_ok 1) (FilterNotch50 b) \<and> leads_ok (sections_ok 1) (FilterNotch60 b)
     \<and> leads_ok (sections_ok 1) (FilterNotch50Show b) \<and> leads_ok (sections_ok 1) (FilterNotch60Show b)
     \<and> leads_ok (sections_ok 2) (FilterBuffer b) \<and> leads_ok (sections_ok 2) (FilterBufferShow b)
     \<and> leads_ok (\<lambda>m. length m = 5) (paceBuffer b) \<and> length (derivBuffer b) = 5 \<and> length (g_inteBuffer b) = 80
     \<and> length (IntegrationBuffer b) = ECG_CAL_DATA_LEN \<and> length (pECG_SysTick b) = ECG_CAL_DATA_LEN
     \<and> length (pECG_Cal_Buf b) = 7 \<and> (\<forall>row \<in> set (pECG_Cal_Buf b). length row = ECG_CAL_DATA_LEN)"

definition rates_ok :: "ecg_queue \<Rightarrow> bool" where
  "rates_ok q \<longleftrightarrow> (\<forall>x \<in> set (fst q). u32HeartRate (stResult x) \<le> 350)"

definition ecg_inv :: "ecg_alg \<Rightarrow> bool" where
  "ecg_inv s \<longleftrightarrow> bufs_ok (bufs s) \<and> alg_WorkMode (cfg s) \<le> 2
     \<and> ECG_CAL_DATA_LEN - ECG_UPDATE_DATA_LEN \<le> nECG_Calc_Data_Num s \<and> nECG_Calc_Data_Num s < ECG_CAL_DATA_LEN
     \<and> length (labels s) \<le> ECG_LABEL_MAX_SIZE \<and> classes s \<subseteq> found_classes
     \<and> out_ok ECG_ALGORITHM_INPUT_MAX_LEN (ecgOut s) \<and> rates_ok (ecgOut s) \<and> 0 \<le> HR s \<and> HR s \<le> 350"

subsection \<open>Buffers\<close>

lemma length_shift3 [simp]: "length (shift3 x a) = 3"
  by (simp add: shift3_def)

lemma biquad_step_ok: "biquad_ok q \<Longrightarrow> biquad_ok (snd (biquad_step fp c q X))"
  by (simp add: biquad_step_def biquad_ok_def Let_def split: prod.split)

lemma cascade_ok: "sections_ok k qs \<Longrightarrow> sections_ok k (snd (cascade fp cs qs X))"
proof (induction fp cs qs X arbitrary: k rule: cascade.induct)
  case (1 fp c cs q qs X)
  obtain T q' where q': "biquad_step fp c q X = (T, q')" by fastforce
  obtain U qs' where qs': "cascade fp cs qs T = (U, qs')" by fastforce
  have "sections_ok (length qs) qs" "biquad_ok q" using "1.prems" by (auto simp: sections_ok_def)
  then have "sections_ok (length qs) qs'" "biquad_ok q'"
    using "1.IH" [OF q' [symmetric] refl, of "length qs"] qs' biquad_step_ok [of q fp c X] q' by simp_all
  then show ?case using "1.prems" q' qs' by (simp add: sections_ok_def)
qed simp_all

lemma run_filter_ok: "sections_ok k qs \<Longrightarrow> sections_ok k (snd (run_filter fp cs qs x))"
  using cascade_ok [of k qs fp cs "flt fp x"] by (auto simp: run_filter_def split: prod.split)

lemma filters_ok:
  "sections_ok k qs \<Longrightarrow> sections_ok k (snd (Filter_Notch50Hz fp qs x))"
  "sections_ok k qs \<Longrightarrow> sections_ok k (snd (Filter_Notch60Hz fp qs x))"
  "sections_ok k qs \<Longrightarrow> sections_ok k (snd (Filter_Jianhu fp qs x))"
  "sections_ok k qs \<Longrightarrow> sections_ok k (snd (Filter_ZhenDuan fp qs x))"
  "sections_ok k qs \<Longrightarrow> sections_ok k (snd (Filter_Shoushu fp qs x))"
  by (simp_all add: Filter_Notch50Hz_def Filter_Notch60Hz_def Filter_Jianhu_def Filter_ZhenDuan_def
      Filter_Shoushu_def run_filter_ok)

lemma on_leads_ok:
  assumes "on_leads f ms xs = (ys, ns)" and "leads_ok P ms" and "length xs = 3"
    and "\<And>m x. P m \<Longrightarrow> P (snd (f m x))"
  shows "length ys = 3" "leads_ok P ns"
  using assms by (auto simp: on_leads_def leads_ok_def Let_def set_zip)

lemma notch_ok:
  assumes "notch fp mode a b xs = (ys, c, d)" and "leads_ok (sections_ok 1) a" and "leads_ok (sections_ok 1) b"
    and "length xs = 3"
  shows "length ys = 3" "leads_ok (sections_ok 1) c" "leads_ok (sections_ok 1) d"
  using assms(1) on_leads_ok [OF _ assms(2,4), of "Filter_Notch50Hz fp", OF _ filters_ok(1)]
    on_leads_ok [OF _ assms(3), of "Filter_Notch60Hz fp", OF _ _ filters_ok(2)] assms(2-4)
  by (auto simp: notch_def Let_def split: prod.splits if_splits)

lemma pace_leads_ok:
  assumes "pace_leads fp c pace xs b = (ys, zs, b')" and "bufs_ok b" and "length xs = 3"
  shows "length ys = 3 \<and> length zs = 3 \<and> bufs_ok b'"
proof -
  have "length (snd (PaceProccess fp m x pace)) = 5" if "length m = 5" for m x
    using that by (simp add: PaceProccess_def Let_def)
  note L = on_leads_ok [of "\<lambda>m x. PaceProccess fp m x pace" "paceBuffer b" xs _ _ "\<lambda>m. length m = 5", OF _ _ assms(3) this]
  from assms show ?thesis
    using L by (auto simp: pace_leads_def bufs_ok_def Let_def split: prod.splits if_splits)
qed

lemma length_seven [simp]: "length (CalcOtherFiltedChannels1 p) = 7"
  by (simp add: CalcOtherFiltedChannels1_def Let_def)

lemma analysis_filter_ok:
  assumes "analysis_filter fp c xs b = (F, b')" and "bufs_ok b" and "length xs = 3"
  shows "length F = 7 \<and> bufs_ok b'"
proof -
  obtain ys n50 n60 where n: "notch fp (NotchMode c) (FilterNotch50 b) (FilterNotch60 b) xs = (ys, n50, n60)"
    using prod_cases3 by blast
  obtain zs m where m: "on_leads (Filter_Jianhu fp) (FilterBuffer b) ys = (zs, m)" by fastforce
  have b: "leads_ok (sections_ok 1) (FilterNotch50 b)" "leads_ok (sections_ok 1) (FilterNotch60 b)"
    "leads_ok (sections_ok 2) (FilterBuffer b)" using assms(2) by (simp_all add: bufs_ok_def)
  note N = notch_ok [OF n b(1,2) assms(3)]
  note M = on_leads_ok [OF m b(3) N(1), OF filters_ok(3)]
  show ?thesis using assms(1,2) n m N M by (auto simp: analysis_filter_def Let_def bufs_ok_def)
qed

lemma display_filter_ok:
  assumes "bufs_ok b" and "length xs = 3" and "alg_WorkMode c \<le> 2"
  obtains F b' where "display_filter fp c xs b = Some (F, b')" "bufs_ok b'" "length F = 7"
proof -
  let ?f = "if alg_WorkMode c = 0 then Filter_ZhenDuan fp else if alg_WorkMode c = 1 then Filter_Jianhu fp else Filter_Shoushu fp"
  let ?n = "if alg_WorkMode c = 0 then notch fp (NotchMode c) (FilterNotch50Show b) (FilterNotch60Show b) xs
            else (xs, FilterNotch50Show b, FilterNotch60Show b)"
  obtain ys n50 n60 where n: "?n = (ys, n50, n60)" using prod_cases3 by blast
  obtain zs m where m: "on_leads ?f (FilterBufferShow b) ys = (zs, m)" by fastforce
  have b: "leads_ok (sections_ok 1) (FilterNotch50Show b)" "leads_ok (sections_ok 1) (FilterNotch60Show b)"
    "leads_ok (sections_ok 2) (FilterBufferShow b)" using assms(1) by (simp_all add: bufs_ok_def)
  have N: "length ys = 3 \<and> leads_ok (sections_ok 1) n50 \<and> leads_ok (sections_ok 1) n60"
    using n notch_ok [OF _ b(1,2) assms(2)] b(1,2) assms(2) by (auto split: if_splits)
  have "sections_ok 2 q \<Longrightarrow> sections_ok 2 (snd (?f q x))" for q x using filters_ok by simp
  note M = on_leads_ok [OF m b(3) conjunct1 [OF N], OF this]
  have "display_filter fp c xs b = Some (CalcOtherFiltedChannels1 zs,
      b\<lparr>FilterNotch50Show := n50, FilterNotch60Show := n60, FilterBufferShow := m\<rparr>)"
    unfolding display_filter_def n Let_def using m assms(3) by (simp add: n linorder_not_less)
  moreover have "bufs_ok (b\<lparr>FilterNotch50Show := n50, FilterNotch60Show := n60, FilterBufferShow := m\<rparr>)"
    using assms(1) N M by (simp add: bufs_ok_def)
  ultimately show thesis by (rule that) simp
qed

lemma on_item_simps [simp]: "length (fst (on_item k f q)) = length (fst q)" "snd (on_item k f q) = snd q"
  by (simp_all add: on_item_def)

lemma out_ok_on_item [simp]: "out_ok mx (on_item k f q) = out_ok mx q"
  by (simp add: out_ok_def)

lemma rates_ok_on_item:
  "rates_ok q \<Longrightarrow> (\<And>x. u32HeartRate (stResult x) \<le> 350 \<Longrightarrow> u32HeartRate (stResult (f x)) \<le> 350) \<Longrightarrow> rates_ok (on_item k f q)"
  using set_update_subset_insert [of "fst q" k "f (fst q ! k)"]
  by (cases "k < length (fst q)") (fastforce simp: rates_ok_def on_item_def, simp add: rates_ok_def on_item_def not_less list_update_beyond)

lemma DataPreProccess_ok:
  assumes "ecg_inv s"
  obtains t where "DataPreProccess fp k s = Some t" "ecg_inv t" "snd (ecgOut t) = snd (ecgOut s)"
    "nECG_Calc_Data_Num t = nECG_Calc_Data_Num s"
proof -
  let ?xs = "raw_leads (stDataRaw (fst (ecgOut s) ! k))" and ?n = "nECG_Calc_Data_Num s"
  have b: "bufs_ok (bufs s)" "alg_WorkMode (cfg s) \<le> 2" "\<not> ECG_CAL_DATA_LEN \<le> ?n"
    using assms by (simp_all add: ecg_inv_def)
  obtain ys zs b1 where 1: "pace_leads fp (cfg s) (inPace s) ?xs (bufs s) = (ys, zs, b1)" using prod_cases3 by blast
  have l1: "length ys = 3 \<and> length zs = 3 \<and> bufs_ok b1"
    by (rule pace_leads_ok [OF 1 b(1)]) (simp add: raw_leads_def)
  obtain F b2 where 2: "analysis_filter fp (cfg s) ys b1 = (F, b2)" by fastforce
  have l2: "length F = 7 \<and> bufs_ok b2" using analysis_filter_ok [OF 2] l1 by blast
  let ?b = "b2\<lparr>pECG_Cal_Buf := map2 (\<lambda>row x. row[?n := x]) (pECG_Cal_Buf b2) F, pECG_SysTick := (pECG_SysTick b2)[?n := inSysTick s]\<rparr>"
  have "bufs_ok ?b" using l2 by (auto simp: bufs_ok_def set_zip)
  then obtain S b3 where 3: "display_filter fp (cfg s) zs ?b = Some (S, b3)" "bufs_ok b3"
    using display_filter_ok [OF _ _ b(2)] l1 by blast
  show thesis
  proof (rule that)
    show "DataPreProccess fp k s = Some (s\<lparr>bufs := b3,
        ecgOut := on_item k (\<lambda>x. x\<lparr>stDataFilter := put_leads S (inSysTick s) (stDataFilter x)\<rparr>) (ecgOut s)\<rparr>)" (is "_ = Some ?t")
      using b(3) 1 2 3 by (simp add: DataPreProccess_def Let_def)
    show "ecg_inv ?t" using assms 3(2) by (simp add: ecg_inv_def classes_def rates_ok_on_item)
    show "snd (ecgOut ?t) = snd (ecgOut s)" "nECG_Calc_Data_Num ?t = nECG_Calc_Data_Num s" by simp_all
  qed
qed

subsection \<open>The steps of a sample\<close>

lemma frame_inv: "frame s t \<Longrightarrow> ecg_inv s \<Longrightarrow> ecg_inv t"
  by (auto simp: frame_def ecg_inv_def)

text \<open>Between the two ends of a sample the counter may stand at the full length.\<close>

definition ecg_inv_full :: "ecg_alg \<Rightarrow> bool" where
  "ecg_inv_full s \<longleftrightarrow> ecg_inv (s\<lparr>nECG_Calc_Data_Num := ECG_CAL_DATA_LEN - 1\<rparr>)"

lemma frame_inv_full: "frame s t \<Longrightarrow> ecg_inv_full s \<Longrightarrow> ecg_inv_full t"
  by (auto simp: frame_def ecg_inv_full_def ecg_inv_def classes_def)

lemma CAL_lens [simp]: "ECG_CAL_DATA_LEN = 5000" "ECG_UPDATE_DATA_LEN = 8"
  by (simp_all add: ECG_CAL_DATA_LEN_def ECG_UPDATE_DATA_LEN_def)

lemma integrate_inv:
  assumes "ecg_inv s"
  shows "ecg_inv (integrate fp s)" "ecgOut (integrate fp s) = ecgOut s"
    "nECG_Calc_Data_Num (integrate fp s) = nECG_Calc_Data_Num s"
  using assms
  by (auto simp: integrate_def Derivative_Squaring_Integration_def Let_def ecg_inv_def bufs_ok_def classes_def)

lemma count_PVC_frame: "frame s (count_PVC s)"
  by (simp add: count_PVC_def CheckPVCList_def Let_def)

lemma clamp_range: "0 \<le> clamp_rate hr \<and> clamp_rate hr \<le> 350"
  by (simp add: clamp_rate_def)

lemma rate_word: "0 \<le> hr \<Longrightarrow> hr \<le> 350 \<Longrightarrow> (word_of_int hr :: u32) \<le> 350"
  by (simp add: word_le_def uint_word_of_int)

lemma fillResult_inv: "ecg_inv_full s \<Longrightarrow> ecg_inv_full (fillResult fp s)"
  by (simp add: ecg_inv_full_def ecg_inv_def fillResult_def classes_def rates_ok_on_item rate_word)

lemma ArrhythmiaAnalysis_inv:
  assumes "ecg_inv_full (s\<lparr>HR := 0\<rparr>)"
  shows "ecg_inv_full (ArrhythmiaAnalysis fp s)"
proof -
  have "\<exists>a hr. ArrhythmiaAnalysis fp s = s\<lparr>AAResult1 := a, HR := hr\<rparr> \<and> 0 \<le> hr \<and> hr \<le> 350"
  proof (cases "asystole fp s")
    case True
    then show ?thesis unfolding ArrhythmiaAnalysis_def Let_def by (simp only: if_True) (intro exI conjI, rule refl, simp_all)
  next
    case False
    then show ?thesis unfolding ArrhythmiaAnalysis_def Let_def
      by (simp only: if_False) (intro exI conjI, rule refl, simp_all add: clamp_range)
  qed
  then obtain a hr where "ArrhythmiaAnalysis fp s = s\<lparr>AAResult1 := a, HR := hr\<rparr>" "0 \<le> hr" "hr \<le> 350" by blast
  then show ?thesis using assms by (simp add: ecg_inv_full_def ecg_inv_def classes_def)
qed

lemma Report_frame: "frame s (ReportArrhythmiaAnalysis s)"
proof -
  have "frame s u \<Longrightarrow> frame s (fold (\<lambda>t s. AlertList_Append \<lparr>alert_type = t, u32AlertIndex = 0, alert_time = inSysTick s\<rparr> s) ts u)"
    for ts u by (induction ts arbitrary: u) (simp_all add: AlertList_Append_def)
  then show ?thesis by (simp add: ReportArrhythmiaAnalysis_def)
qed

lemma update_step_inv:
  assumes "ecg_inv_full s" and "update_step fp s = Some t"
  shows "ecg_inv_full t"
proof -
  obtain u where u: "relearn fp (marks_back s) = Some u" using assms(2) by (auto simp: update_step_def split: option.splits)
  have "ecg_inv_full u" using frame_inv_full [OF frame_trans [OF marks_back_frame relearn_frame [OF u]] assms(1)] .
  have analysed: "ecg_inv_full (fillResult fp (ArrhythmiaAnalysis fp (v\<lparr>HR := CalcHeartRate fp v\<rparr>)))"
    if "search_beat fp (u\<lparr>calcCount := 0\<rparr>) = Some v" for v
  proof -
    have "ecg_inv_full v" using frame_inv_full [OF search_beat_frame [OF that]] \<open>ecg_inv_full u\<close>
      by (simp add: ecg_inv_full_def ecg_inv_def classes_def)
    then have "ecg_inv_full (v\<lparr>HR := CalcHeartRate fp v, HR := 0\<rparr>)"
      by (simp add: ecg_inv_full_def ecg_inv_def classes_def)
    then show ?thesis by (intro fillResult_inv ArrhythmiaAnalysis_inv)
  qed
  have still: "ecg_inv_full (fillResult fp (u\<lparr>AAResult1 := a, HR := 0\<rparr>))" for a
    using \<open>ecg_inv_full u\<close> by (intro fillResult_inv) (simp add: ecg_inv_full_def ecg_inv_def classes_def)
  show ?thesis
    using assms(2) u analysed still fillResult_inv [OF \<open>ecg_inv_full u\<close>]
    by (auto simp: update_step_def intro!: frame_inv_full [OF Report_frame] split: if_splits)
qed

lemma shift_bufs_inv: "ecg_inv_full s \<Longrightarrow> ecg_inv (shift_bufs s)"
  by (auto simp: ecg_inv_full_def ecg_inv_def shift_bufs_def bufs_ok_def drop_oldest_def classes_def)

lemma ECGAlgoRun_inv:
  assumes "ecg_inv s" and "ECGAlgoRun fp s = Some t"
  shows "ecg_inv t"
proof -
  obtain u where u: "DataPreProccess fp (snd (ecgOut s) - 1) s = Some u" "ecg_inv u"
    using DataPreProccess_ok [OF assms(1)] by blast
  let ?v = "AlertList_Clear ((count_PVC (integrate fp u))\<lparr>nECG_Calc_Data_Num := nECG_Calc_Data_Num u + 1\<rparr>)"
  have c: "ecg_inv (count_PVC (integrate fp u))" by (rule frame_inv [OF count_PVC_frame integrate_inv(1) [OF u(2)]])
  then have full: "ecg_inv_full ?v" by (simp add: ecg_inv_full_def ecg_inv_def AlertList_Clear_def classes_def)
  have v: "ecg_inv ?v" if "nECG_Calc_Data_Num u + 1 \<noteq> 5000"
    using c u(2) that by (simp add: ecg_inv_def AlertList_Clear_def classes_def)
  have "ecg_inv_full w" if "InializingProgress fp 0 ?v = Some (b, w)" for b w
    by (rule frame_inv_full [OF InializingProgress_frame [OF that] full])
  then show ?thesis
    using assms(2) u(1) v update_step_inv [OF full]
    by (auto simp: ECGAlgoRun_def Let_def AlertList_Clear_def intro!: shift_bufs_inv split: if_splits)
qed

lemma ECGAlgoRun_defined:
  assumes "ecg_inv s" and "nECG_Calc_Data_Num s < 4999"
  shows "\<exists>t. ECGAlgoRun fp s = Some t \<and> HR t = HR s"
proof -
  obtain u where u: "DataPreProccess fp (snd (ecgOut s) - 1) s = Some u" "nECG_Calc_Data_Num u = nECG_Calc_Data_Num s"
    using DataPreProccess_ok [OF assms(1)] by blast
  have "HR (count_PVC (integrate fp u)) = HR u"
    by (simp add: count_PVC_def CheckPVCList_def integrate_def Let_def case_prod_unfold)
  moreover have "HR u = HR s" using u(1) by (auto simp: DataPreProccess_def Let_def split: option.splits prod.splits if_splits)
  ultimately show ?thesis using u assms(2) by (simp add: ECGAlgoRun_def Let_def AlertList_Clear_def)
qed

subsection \<open>The interface\<close>

lemma set_upd_loop_shift:
  "m + l \<le> length a \<Longrightarrow> set (upd_loop m (\<lambda>i a. a ! (i + l)) a) \<subseteq> set a"
proof (induction m)
  case (Suc m)
  let ?b = "upd_loop m (\<lambda>i a. a ! (i + l)) a"
  have "length ?b = length a" by simp
  then have "?b ! (m + l) \<in> set ?b" using Suc.prems by simp
  then have "insert (?b ! (m + l)) (set ?b) \<subseteq> set a" using Suc by auto
  then have "set (?b[m := ?b ! (m + l)]) \<subseteq> set a" using set_update_subset_insert [of ?b m "?b ! (m + l)"] by blast
  then show ?case by (simp add: upd_loop_Suc Let_def)
qed simp

lemma out_push_all:
  assumes "out_ok mx q" and "\<forall>x \<in> set (fst q). P x" and "P z" and "\<And>x. P x \<Longrightarrow> P (f x)"
  shows "\<forall>x \<in> set (fst (out_push mx z f q)). P x"
proof -
  obtain a n where q: "q = (a, n)" by (cases q)
  have a: "length a = mx" "0 < mx" "\<forall>x \<in> set a. P x" using assms(1,2) by (auto simp: q out_ok_def)
  show ?thesis
  proof (cases "n < mx")
    case True
    then have "P (f (a ! n))" using a assms(4) by simp
    then show ?thesis using True a(3) set_update_subset_insert [of a n "f (a ! n)"] by (auto simp: q out_push_def)
  next
    case False
    let ?b = "upd_loop (mx - 1) (\<lambda>i a. a ! (i + 1)) a"
    have "set ?b \<subseteq> set a" using set_upd_loop_shift [of "mx - 1" 1 a] a by simp
    then show ?thesis using False a(3) assms(3,4) set_update_subset_insert [of ?b "mx - 1" "f z"]
      by (auto simp: q out_push_def)
  qed
qed

lemma out_pop_all:
  assumes "out_ok mx q" and "\<forall>x \<in> set (fst q). P x" and "out_pop k q = (xs, q')"
  shows "\<forall>x \<in> set xs. P x" "\<forall>x \<in> set (fst q'). P x"
proof -
  obtain a n where q: "q = (a, n)" by (cases q)
  have x: "xs = take (min k n) a" "q' = (upd_loop (n - min k n) (\<lambda>i a. a ! (i + min k n)) a, n - min k n)"
    using assms(3) by (auto simp: q out_pop_def Let_def)
  have n: "n - min k n + min k n \<le> length a" using assms(1) by (simp add: q out_ok_def)
  show "\<forall>x \<in> set xs. P x" using assms(2) in_set_takeD by (fastforce simp: x q)
  show "\<forall>x \<in> set (fst q'). P x" using assms(2) set_upd_loop_shift [OF n] by (auto simp: x q)
qed

inductive ecg_call :: "alg_fpu \<Rightarrow> ecg_alg \<Rightarrow> ecg_alg \<Rightarrow> bool" for fp where
  push: "l_ecg_PushAlgorithmData fp tk i ii v pc s = Some t \<Longrightarrow> ecg_call fp s t"
| pop: "l_ecg_PopAlgorithmData k s = (xs, t) \<Longrightarrow> ecg_call fp s t"
| command: "l_ecg_DebugInterface_alg fp ty p n s = (r, t) \<Longrightarrow> ecg_call fp s t"

lemma ecg_queue_inv:
  assumes "ecg_inv s" and "out_ok ECG_ALGORITHM_INPUT_MAX_LEN q" and "rates_ok q"
  shows "ecg_inv (s\<lparr>inSysTick := tk, inPace := pc, ecgOut := q\<rparr>)" "ecg_inv (s\<lparr>ecgOut := q\<rparr>)"
  using assms by (simp_all add: ecg_inv_def classes_def)

lemma rate_zero [simp]: "u32HeartRate (stResult zero_ecg_item) = 0"
  by (simp add: zero_ecg_item_def)

lemma stResult_put_raw [simp]: "stResult (ecg_put_raw fp tk i ii v pc x) = stResult x"
  by (simp add: ecg_put_raw_def)

lemma pushed_inv:
  assumes "ecg_inv s"
  shows "ecg_inv (s\<lparr>inSysTick := tk, inPace := pc,
    ecgOut := out_push ECG_ALGORITHM_INPUT_MAX_LEN zero_ecg_item (ecg_put_raw fp tk i ii v pc) (ecgOut s)\<rparr>)"
proof (rule ecg_queue_inv(1) [OF assms])
  have q: "out_ok ECG_ALGORITHM_INPUT_MAX_LEN (ecgOut s)" "rates_ok (ecgOut s)" using assms by (simp_all add: ecg_inv_def)
  show "out_ok ECG_ALGORITHM_INPUT_MAX_LEN
      (out_push ECG_ALGORITHM_INPUT_MAX_LEN zero_ecg_item (ecg_put_raw fp tk i ii v pc) (ecgOut s))"
    by (rule out_push_ok [OF q(1)])
  show "rates_ok (out_push ECG_ALGORITHM_INPUT_MAX_LEN zero_ecg_item (ecg_put_raw fp tk i ii v pc) (ecgOut s))"
    unfolding rates_ok_def by (rule out_push_all [OF q(1)]) (use q(2) in \<open>simp_all add: rates_ok_def\<close>)
qed

lemma command_mode:
  "alg_WorkMode c \<le> 2 \<Longrightarrow> alg_WorkMode (snd (ECGV1000DebugInterface fp ty p n c)) \<le> 2"
  by (cases ty) (simp_all add: ECGV1000DebugInterface_def ECGV1000_setFilter_def Let_def)

lemma ecg_call_inv: "ecg_call fp s t \<Longrightarrow> ecg_inv s \<Longrightarrow> ecg_inv t"
proof (induction rule: ecg_call.induct)
  case (push tk i ii v pc s t)
  then show ?case using ECGAlgoRun_inv [OF pushed_inv] by (simp add: l_ecg_PushAlgorithmData_def)
next
  case (pop k s xs t)
  then obtain q where q: "out_pop k (ecgOut s) = (xs, q)" "t = s\<lparr>ecgOut := q\<rparr>"
    by (auto simp: l_ecg_PopAlgorithmData_def split: prod.splits)
  have o: "out_ok ECG_ALGORITHM_INPUT_MAX_LEN (ecgOut s)" "rates_ok (ecgOut s)" using pop by (simp_all add: ecg_inv_def)
  show ?case unfolding q(2)
  proof (rule ecg_queue_inv(2) [OF pop.prems])
    show "out_ok ECG_ALGORITHM_INPUT_MAX_LEN q" by (rule out_pop_items(3) [OF o(1) q(1)])
    show "rates_ok q" using out_pop_all(2) [OF o(1) _ q(1)] o(2) by (simp add: rates_ok_def)
  qed
next
  case (command ty p n s r t)
  then obtain c where "t = s\<lparr>cfg := c\<rparr>" "c = snd (ECGV1000DebugInterface fp ty p n (cfg s))"
    by (auto simp: l_ecg_DebugInterface_alg_def split: prod.splits)
  then show ?case using command.prems command_mode [of "cfg s" fp ty p n] by (simp add: ecg_inv_def classes_def)
qed

text \<open>The memory of the program before anything has run.\<close>

definition ecg_memory :: ecg_alg where
  "ecg_memory = \<lparr>cfg = \<lparr>alg_WorkMode = 0, PaceMode = 0, PaceShowMode = 0, NotchMode = 1, Tachycardia_Limit = 0,
       Bradycardia_Limit = 0, ISO_Interval = 0, ST_Interval = 0, u8STAnalysis_sw = 0, u8ArrhythmiaAnalysis_sw = 0\<rparr>,
     bufs = \<lparr>FilterNotch50 = replicate 3 (replicate 1 zero_biquad), FilterNotch60 = replicate 3 (replicate 1 zero_biquad),
       FilterNotch50Show = replicate 3 (replicate 1 zero_biquad), FilterNotch60Show = replicate 3 (replicate 1 zero_biquad),
       FilterBuffer = replicate 3 (replicate 2 zero_biquad), FilterBufferShow = replicate 3 (replicate 2 zero_biquad),
       paceBuffer = replicate 3 (replicate 5 0), derivBuffer = replicate 5 0, g_inteBuffer = replicate 80 0,
       IntegrationBuffer = replicate ECG_CAL_DATA_LEN 0, pECG_Cal_Buf = replicate 7 (replicate ECG_CAL_DATA_LEN 0),
       pECG_SysTick = replicate ECG_CAL_DATA_LEN 0\<rparr>,
     isIntializedRRInterval = False, proccessMode = 0, isFindRwave = False, calcInterval = 0, calcCount = 0, PrePosX = 0,
     PreQRS = 0, InteDataRiseEdge = 0, InteDataFallEdge = 0, currentRwaveIndex = 0, PVCCheckPoint = 0, QuickQRSTick = 0,
     SampleRate = 0, RRInterval1 = 0, InteWaveThreshold = 0, thresholdIy = 0, thresholdRawData = 0, RWaveThreshold1 = 0,
     RWaveThreshold2 = 0, preInteThres = 0, RHighThreshold = 0, fAmpThreshold = 0, Asystole_Time_Limit = 0,
     nECG_Calc_Data_Num = 0, inSysTick = 0, inPace = 0, ecgOut = (replicate ECG_ALGORITHM_INPUT_MAX_LEN zero_ecg_item, 0),
     stAlertList = [], labels = [], HR = 0, HR_junk = 0,
     AAResult1 = \<lparr>PVCsCount = 0, RCount = 0, UnKCount = 0, PVCRate = 0, Is_VENT_FIB = False, Is_ASYSTOLE = False,
       Is_VENT_TACH = False, Is_PAIR_PVC = False, Is_SIGLE_PVC = False, Is_TRIGENINY = False, Is_BIGENINY = False,
       Is_MISSED_BEAT = False, Is_TACHYCARDIA = False, Is_R_ON_T = False, Is_BRADYCARDIA = False\<rparr>,
     ST_Volt_His = [], ST_Volt_Val = 0, PVCList = [], PVCCheckTimeCount = 0, fAmpDif = 0\<rparr>"

lemma ecg_start_inv: "ecg_inv (l_ecg_AlgorithmInit fp (ecg_memory\<lparr>HR_junk := j\<rparr>))"
  by (simp add: ecg_inv_def l_ecg_AlgorithmInit_def ECGAlgoInit_def ecg_memory_def bufs_ok_def leads_ok_def
      sections_ok_def zero_biquad_def biquad_ok_def classes_def out_ok_def rates_ok_def ECG_ALGORITHM_INPUT_MAX_LEN_def)

lemma ecg_reach_inv:
  "(ecg_call fp)\<^sup>*\<^sup>* (l_ecg_AlgorithmInit fp (ecg_memory\<lparr>HR_junk := j\<rparr>)) s \<Longrightarrow> ecg_inv s"
  by (induction rule: rtranclp_induct) (auto simp: ecg_start_inv intro: ecg_call_inv)

section \<open>Premature beats\<close>

text \<open>The searches label a beat \<open>TFL_R\<close>, \<open>TFL_PVC_LU\<close> or \<open>TFL_PVC_RD\<close>; the statistics and the patterns
  know \<open>TFL_PVC_RU\<close> instead of the last.\<close>

lemma find_pattern_None:
  assumes "\<forall>g < length groups. \<forall>t \<in> set (groups ! g). \<forall>i \<in> set is. \<not> TemplateCompare (beats i) t"
  shows "find_pattern old beats groups is = None"
  using assms
proof (induction "is")
  case (Cons i js)
  have "find (\<lambda>g. \<exists>t \<in> set (groups ! g). TemplateCompare (beats i) t) [0..<length groups] = None"
    using Cons.prems by (auto simp: find_None_iff)
  then show ?case using Cons by simp
qed simp

definition has_premature :: "TFLabel list \<Rightarrow> bool" where
  "has_premature t \<longleftrightarrow> TFL_PVC_LU \<in> set t \<or> TFL_PVC_RU \<in> set t"

lemma templates_premature:
  "\<forall>g < 3. \<forall>t \<in> set ([SinglePVCTemp, PairPVCTemp, BigeninyTemp] ! g). has_premature t \<and> length t = 5"
  "\<forall>t \<in> set TrigeninyTemp. has_premature t \<and> length t = 6"
  by (auto simp: SinglePVCTemp_def PairPVCTemp_def BigeninyTemp_def TrigeninyTemp_def has_premature_def
      less_Suc_eq numeral_3_eq_3)

lemma no_match:
  assumes "has_premature t" and "length b = length t" and "TFL_PVC_LU \<notin> set b" and "TFL_PVC_RU \<notin> set b"
  shows "\<not> TemplateCompare b t"
proof
  assume "TemplateCompare b t"
  then have "b = t" using assms(2) by (intro nth_equalityI) (auto simp: TemplateCompare_def)
  with assms show False by (simp add: has_premature_def)
qed

lemma recent_beats_length: "i + k \<le> length (labels s) \<Longrightarrow> length (recent_beats k i s) = k"
  by (simp add: recent_beats_def)

lemma recent_beats_set: "set (recent_beats k i s) \<subseteq> classes s"
  by (auto simp: recent_beats_def classes_def dest: in_set_takeD in_set_dropD)

lemma first_label_set: "first_label x ls = Some ms \<Longrightarrow> set ms \<subseteq> set ls"
  by (induction ls) (auto split: if_splits)

lemma count_class_0: "(\<And>l. l \<in> set ls \<Longrightarrow> \<not> P (snd l)) \<Longrightarrow> count_class P ls = 0"
  by (auto simp: count_class_def filter_empty_conv)

lemma no_pattern:
  assumes "TFL_PVC_LU \<notin> classes s" and "TFL_PVC_RU \<notin> classes s"
    and "\<forall>g < length groups. \<forall>t \<in> set (groups ! g). has_premature t \<and> length t = k" and "0 < k"
  shows "find_pattern old (\<lambda>i. recent_beats k i s) groups [0..<length (labels s) - (k - 1)] = None"
proof (rule find_pattern_None, intro allI impI ballI)
  fix g t i assume "g < length groups" "t \<in> set (groups ! g)" "i \<in> set [0..<length (labels s) - (k - 1)]"
  then have t: "has_premature t" "length t = k" and i: "i + k \<le> length (labels s)" using assms(3,4) by auto
  show "\<not> TemplateCompare (recent_beats k i s) t"
    by (rule no_match [OF t(1)]) (use recent_beats_set assms(1,2) recent_beats_length [OF i] t(2) in auto)
qed

definition premature_flags :: "ARRHYTHMIA_ANALYSIS_RESULT1 \<Rightarrow> bool list" where
  "premature_flags a = [Is_VENT_TACH a, Is_PAIR_PVC a, Is_SIGLE_PVC a, Is_TRIGENINY a, Is_BIGENINY a]"

lemma rhythm_no_premature:
  assumes "TFL_PVC_LU \<notin> classes s" and "TFL_PVC_RU \<notin> classes s" and "PVCsCount a = 0"
    and "premature_flags a = replicate 5 False"
  shows "PVCsCount (rhythm fp s a) = 0 \<and> premature_flags (rhythm fp s a) = replicate 5 False"
proof -
  have "find_pattern (too_old fp s) (\<lambda>i. recent_beats 5 i s) [SinglePVCTemp, PairPVCTemp, BigeninyTemp] [0..<length (labels s) - 4] = None"
    using no_pattern [OF assms(1,2), of "[SinglePVCTemp, PairPVCTemp, BigeninyTemp]" 5 "too_old fp s"]
      templates_premature(1) by (simp add: numeral_3_eq_3)
  moreover have "find_pattern (too_old fp s) (\<lambda>i. recent_beats 6 i s) [TrigeninyTemp] [0..<length (labels s) - 5] = None"
    using no_pattern [OF assms(1,2), of "[TrigeninyTemp]" 6 "too_old fp s"] templates_premature(2) by simp
  ultimately show ?thesis using assms(3,4) by (simp add: rhythm_def Let_def premature_flags_def numeral_eq_Suc)
qed

lemma count_no_premature:
  assumes "TFL_PVC_LU \<notin> classes s" and "TFL_PVC_RU \<notin> classes s"
  shows "PVCsCount (count_labels s a) = 0 \<and> premature_flags (count_labels s a) = premature_flags a"
proof -
  let ?ls = "case first_label (CAL - SampleRate s * 30) (labels s) of None \<Rightarrow> labels s | Some ls \<Rightarrow> ls"
  have "set ?ls \<subseteq> set (labels s)" by (auto split: option.split dest: first_label_set)
  then have "count_class (\<lambda>c. c = TFL_PVC_LU \<or> c = TFL_PVC_RU) ?ls = 0"
    using assms by (intro count_class_0) (fastforce simp: classes_def image_iff dest: subsetD)
  then show ?thesis by (simp add: count_labels_def Let_def premature_flags_def)
qed

lemma analysis_no_premature:
  assumes "TFL_PVC_LU \<notin> classes s" and "TFL_PVC_RU \<notin> classes s"
  shows "PVCsCount (AAResult1 (ArrhythmiaAnalysis fp s)) = 0
    \<and> premature_flags (AAResult1 (ArrhythmiaAnalysis fp s)) = replicate 5 False"
proof -
  let ?i = "Init_ARRHYTHMIA_ANALYSIS_RESULT1 (AAResult1 s)"
  let ?a = "if labels s \<noteq> [] then count_labels s ?i else ?i"
  have i: "PVCsCount ?i = 0 \<and> premature_flags ?i = replicate 5 False"
    by (simp add: Init_ARRHYTHMIA_ANALYSIS_RESULT1_def premature_flags_def numeral_eq_Suc)
  then have a: "PVCsCount ?a = 0 \<and> premature_flags ?a = replicate 5 False"
    using count_no_premature [OF assms, of ?i] by simp
  moreover have "premature_flags (x\<lparr>Is_ASYSTOLE := True\<rparr>) = premature_flags x" for x
    by (simp add: premature_flags_def)
  ultimately show ?thesis
    using rhythm_no_premature [OF assms, of ?a fp] by (simp add: ArrhythmiaAnalysis_def Let_def)
qed

text \<open>C12: The arrhythmia analysis does not see a premature beat with its hump on the right: as long as the beats found are
  normal ones and right-hand premature ones, which are labelled 3, its statistics (\<open>AAResult1\<close>) count no premature beat and
  it raises none of the five alarms about them (ventricular tachycardia, couplet, single premature beat, trigeminy,
  bigeminy), because its statistics and patterns use the label 4, that no search ever assigns.  (The list of premature
  beats that is shown as \<open>nPVCCount\<close> is kept apart from the labels, by \<open>InsertPVC\<close>, and has the beat.)\<close>

theorem right_premature_unnoticed:
  assumes "classes s \<subseteq> {TFL_R, TFL_PVC_RD}"
  shows "let a = AAResult1 (ArrhythmiaAnalysis fp s)
    in PVCsCount a = 0 \<and> set (reports a) \<inter> {VTAC, VCOUPLET, SIGLE_PVC, VTRIG, VBIG} = {}"
proof -
  have "TFL_PVC_LU \<notin> classes s" "TFL_PVC_RU \<notin> classes s" using assms by auto
  from analysis_no_premature [OF this, of fp] show ?thesis
    by (auto simp: Let_def premature_flags_def reports_def numeral_eq_Suc split: if_splits)
qed

text \<open>Six beats, of which the second is a right-hand premature one, as the label lists hold them.\<close>

definition right_premature :: ecg_alg where
  "right_premature = ecg_memory\<lparr>SampleRate := 500, Asystole_Time_Limit := 3,
     labels := [(2000, TFL_R), (2300, TFL_PVC_RD), (2900, TFL_R), (3400, TFL_R), (3900, TFL_R), (4400, TFL_R)]\<rparr>"

lemma right_premature_unnoticed_witness:
  "SIGLE_PVC \<notin> set (reports (AAResult1 (ArrhythmiaAnalysis exact_alg_fpu right_premature)))"
  using right_premature_unnoticed [of right_premature exact_alg_fpu]
  by (simp add: right_premature_def classes_def Let_def)

text \<open>C8: Whatever samples are pushed, items are popped and commands arrive after the start, and whatever the
  rate formula delivers when it reads before its list or divides by zero, the heart rate shown stays between
  0 and 350, in the state and in every item of the output queue; the analysis buffers keep their sizes, the labels are at
  most 100 and of the three kinds the searches assign, and a sample that does not complete an update of eight
  is always analysed without undefined behaviour.\<close>

theorem heart_rate_in_range:
  assumes "(ecg_call fp)\<^sup>*\<^sup>* (l_ecg_AlgorithmInit fp (ecg_memory\<lparr>HR_junk := j\<rparr>)) s"
  shows "0 \<le> HR s \<and> HR s \<le> 350 \<and> (\<forall>x \<in> set (fst (ecgOut s)). u32HeartRate (stResult x) \<le> 350)
    \<and> bufs_ok (bufs s) \<and> length (labels s) \<le> 100 \<and> classes s \<subseteq> {TFL_R, TFL_PVC_LU, TFL_PVC_RD}
    \<and> (nECG_Calc_Data_Num s < 4999 \<longrightarrow> (\<exists>t. l_ecg_PushAlgorithmData fp tk i ii v pc s = Some t))"
proof -
  have I: "ecg_inv s" by (rule ecg_reach_inv [OF assms])
  have "\<exists>t. l_ecg_PushAlgorithmData fp tk i ii v pc s = Some t" if "nECG_Calc_Data_Num s < 4999"
    using ECGAlgoRun_defined [OF pushed_inv [OF I]] that by (force simp: l_ecg_PushAlgorithmData_def)
  with I show ?thesis by (auto simp: ecg_inv_def rates_ok_def found_classes_def ECG_LABEL_MAX_SIZE_def)
qed

lemma heart_rate_in_range_witness:
  "\<exists>t. l_ecg_PushAlgorithmData exact_alg_fpu 7 1 2 3 0 (l_ecg_AlgorithmInit exact_alg_fpu (ecg_memory\<lparr>HR_junk := -9\<rparr>)) = Some t"
  using heart_rate_in_range [of exact_alg_fpu "-9" _ 7 1 2 3 0, OF rtranclp.rtrancl_refl]
  by (simp add: l_ecg_AlgorithmInit_def ECGAlgoInit_def)

section \<open>The count of premature beats\<close>

lemma last_index:
  "(\<forall>i. k < i \<longrightarrow> i < n \<longrightarrow> \<not> P i) \<Longrightarrow> k < n \<Longrightarrow> P k \<Longrightarrow> fold (\<lambda>i k. if P i then i else k) [0..<n] z = (k :: nat)"
  by (induction n) (auto simp: less_Suc_eq)

lemma no_index: "(\<forall>i < n. \<not> P i) \<Longrightarrow> fold (\<lambda>i k. if P i then i else k) [0..<n] z = (z :: nat)"
  by (induction n) auto

text \<open>C13: The list of premature beats, which is meant to hold those of the last minute, is cut the wrong way
  round: the check drops every beat before the newest one of the last minute, however recent, so that at most
  one recent beat remains in front of older marks, and when no beat is recent it drops nothing.\<close>

theorem premature_count_collapses:
  assumes "\<forall>t \<in> set ys. \<not> recent now t"
  shows "(recent now t \<longrightarrow> PVCList (CheckPVCList now (s\<lparr>PVCList := xs @ t # ys\<rparr>)) = t # ys)
    \<and> PVCList (CheckPVCList now (s\<lparr>PVCList := ys\<rparr>)) = ys"
proof -
  let ?l = "xs @ t # ys"
  have "fold (\<lambda>i k. if recent now (?l ! i) then i else k) [0..<length ?l] 0 = length xs" if "recent now t"
  proof (rule last_index)
    show "\<forall>i. length xs < i \<longrightarrow> i < length ?l \<longrightarrow> \<not> recent now (?l ! i)"
    proof (intro allI impI)
      fix i assume i: "length xs < i" "i < length ?l"
      then have "?l ! i = ys ! (i - length xs - 1)" by (simp add: nth_append nth_Cons')
      moreover have "i - length xs - 1 < length ys" using i by auto
      ultimately show "\<not> recent now (?l ! i)" using assms by simp
    qed
  qed (use that in simp_all)
  then show ?thesis using assms by (simp add: CheckPVCList_def no_index)
qed

text \<open>Three beats of the last two seconds, of which one is left.\<close>

lemma premature_count_collapses_witness:
  "PVCList (CheckPVCList 30000 (ecg_memory\<lparr>PVCList := [10000, 15000, 20000]\<rparr>)) = [20000]"
proof -
  have "recent 30000 20000" by (simp add: recent_def sdiv_2 signed_divide_int_def i32_small)
  with premature_count_collapses [where ys = "[]" and now = 30000 and t = 20000 and s = ecg_memory and xs = "[10000, 15000]"]
  show ?thesis by simp
qed

section \<open>The ST settings\<close>

text \<open>Two states that differ in the settings of the ST measurement and in its switch only.\<close>

definition set_ST :: "real \<Rightarrow> real \<Rightarrow> u8 \<Rightarrow> ecg_alg \<Rightarrow> ecg_alg" where
  "set_ST x y w s = s\<lparr>cfg := (cfg s)\<lparr>ISO_Interval := x, ST_Interval := y, u8STAnalysis_sw := w\<rparr>\<rparr>"

lemma set_ST_sel [simp]:
  "bufs (set_ST x y w s) = bufs s"
  "isIntializedRRInterval (set_ST x y w s) = isIntializedRRInterval s"
  "proccessMode (set_ST x y w s) = proccessMode s"
  "isFindRwave (set_ST x y w s) = isFindRwave s"
  "calcInterval (set_ST x y w s) = calcInterval s"
  "calcCount (set_ST x y w s) = calcCount s"
  "PrePosX (set_ST x y w s) = PrePosX s"
  "PreQRS (set_ST x y w s) = PreQRS s"
  "InteDataRiseEdge (set_ST x y w s) = InteDataRiseEdge s"
  "InteDataFallEdge (set_ST x y w s) = InteDataFallEdge s"
  "currentRwaveIndex (set_ST x y w s) = currentRwaveIndex s"
  "PVCCheckPoint (set_ST x y w s) = PVCCheckPoint s"
  "QuickQRSTick (set_ST x y w s) = QuickQRSTick s"
  "SampleRate (set_ST x y w s) = SampleRate s"
  "RRInterval1 (set_ST x y w s) = RRInterval1 s"
  "InteWaveThreshold (set_ST x y w s) = InteWaveThreshold s"
  "thresholdIy (set_ST x y w s) = thresholdIy s"
  "thresholdRawData (set_ST x y w s) = thresholdRawData s"
  "RWaveThreshold1 (set_ST x y w s) = RWaveThreshold1 s"
  "RWaveThreshold2 (set_ST x y w s) = RWaveThreshold2 s"
  "preInteThres (set_ST x y w s) = preInteThres s"
  "RHighThreshold (set_ST x y w s) = RHighThreshold s"
  "fAmpThreshold (set_ST x y w s) = fAmpThreshold s"
  "Asystole_Time_Limit (set_ST x y w s) = Asystole_Time_Limit s"
  "nECG_Calc_Data_Num (set_ST x y w s) = nECG_Calc_Data_Num s"
  "inSysTick (set_ST x y w s) = inSysTick s"
  "inPace (set_ST x y w s) = inPace s"
  "ecgOut (set_ST x y w s) = ecgOut s"
  "stAlertList (set_ST x y w s) = stAlertList s"
  "labels (set_ST x y w s) = labels s"
  "HR (set_ST x y w s) = HR s"
  "HR_junk (set_ST x y w s) = HR_junk s"
  "AAResult1 (set_ST x y w s) = AAResult1 s"
  "ST_Volt_His (set_ST x y w s) = ST_Volt_His s"
  "ST_Volt_Val (set_ST x y w s) = ST_Volt_Val s"
  "PVCList (set_ST x y w s) = PVCList s"
  "PVCCheckTimeCount (set_ST x y w s) = PVCCheckTimeCount s"
  "fAmpDif (set_ST x y w s) = fAmpDif s"
  by (simp_all add: set_ST_def)

lemma set_ST_upd [simp]:
  "(set_ST x y w s)\<lparr>bufs := z0\<rparr> = set_ST x y w (s\<lparr>bufs := z0\<rparr>)"
  "(set_ST x y w s)\<lparr>isIntializedRRInterval := z1\<rparr> = set_ST x y w (s\<lparr>isIntializedRRInterval := z1\<rparr>)"
  "(set_ST x y w s)\<lparr>proccessMode := z2\<rparr> = set_ST x y w (s\<lparr>proccessMode := z2\<rparr>)"
  "(set_ST x y w s)\<lparr>isFindRwave := z3\<rparr> = set_ST x y w (s\<lparr>isFindRwave := z3\<rparr>)"
  "(set_ST x y w s)\<lparr>calcInterval := z4\<rparr> = set_ST x y w (s\<lparr>calcInterval := z4\<rparr>)"
  "(set_ST x y w s)\<lparr>calcCount := z5\<rparr> = set_ST x y w (s\<lparr>calcCount := z5\<rparr>)"
  "(set_ST x y w s)\<lparr>PrePosX := z6\<rparr> = set_ST x y w (s\<lparr>PrePosX := z6\<rparr>)"
  "(set_ST x y w s)\<lparr>PreQRS := z7\<rparr> = set_ST x y w (s\<lparr>PreQRS := z7\<rparr>)"
  "(set_ST x y w s)\<lparr>InteDataRiseEdge := z8\<rparr> = set_ST x y w (s\<lparr>InteDataRiseEdge := z8\<rparr>)"
  "(set_ST x y w s)\<lparr>InteDataFallEdge := z9\<rparr> = set_ST x y w (s\<lparr>InteDataFallEdge := z9\<rparr>)"
  "(set_ST x y w s)\<lparr>currentRwaveIndex := z10\<rparr> = set_ST x y w (s\<lparr>currentRwaveIndex := z10\<rparr>)"
  "(set_ST x y w s)\<lparr>PVCCheckPoint := z11\<rparr> = set_ST x y w (s\<lparr>PVCCheckPoint := z11\<rparr>)"
  "(set_ST x y w s)\<lparr>QuickQRSTick := z12\<rparr> = set_ST x y w (s\<lparr>QuickQRSTick := z12\<rparr>)"
  "(set_ST x y w s)\<lparr>SampleRate := z13\<rparr> = set_ST x y w (s\<lparr>SampleRate := z13\<rparr>)"
  "(set_ST x y w s)\<lparr>RRInterval1 := z14\<rparr> = set_ST x y w (s\<lparr>RRInterval1 := z14\<rparr>)"
  "(set_ST x y w s)\<lparr>InteWaveThreshold := z15\<rparr> = set_ST x y w (s\<lparr>InteWaveThreshold := z15\<rparr>)"
  "(set_ST x y w s)\<lparr>thresholdIy := z16\<rparr> = set_ST x y w (s\<lparr>thresholdIy := z16\<rparr>)"
  "(set_ST x y w s)\<lparr>thresholdRawData := z17\<rparr> = set_ST x y w (s\<lparr>thresholdRawData := z17\<rparr>)"
  "(set_ST x y w s)\<lparr>RWaveThreshold1 := z18\<rparr> = set_ST x y w (s\<lparr>RWaveThreshold1 := z18\<rparr>)"
  "(set_ST x y w s)\<lparr>RWaveThreshold2 := z19\<rparr> = set_ST x y w (s\<lparr>RWaveThreshold2 := z19\<rparr>)"
  "(set_ST x y w s)\<lparr>preInteThres := z20\<rparr> = set_ST x y w (s\<lparr>preInteThres := z20\<rparr>)"
  "(set_ST x y w s)\<lparr>RHighThreshold := z21\<rparr> = set_ST x y w (s\<lparr>RHighThreshold := z21\<rparr>)"
  "(set_ST x y w s)\<lparr>fAmpThreshold := z22\<rparr> = set_ST x y w (s\<lparr>fAmpThreshold := z22\<rparr>)"
  "(set_ST x y w s)\<lparr>Asystole_Time_Limit := z23\<rparr> = set_ST x y w (s\<lparr>Asystole_Time_Limit := z23\<rparr>)"
  "(set_ST x y w s)\<lparr>nECG_Calc_Data_Num := z24\<rparr> = set_ST x y w (s\<lparr>nECG_Calc_Data_Num := z24\<rparr>)"
  "(set_ST x y w s)\<lparr>inSysTick := z25\<rparr> = set_ST x y w (s\<lparr>inSysTick := z25\<rparr>)"
  "(set_ST x y w s)\<lparr>inPace := z26\<rparr> = set_ST x y w (s\<lparr>inPace := z26\<rparr>)"
  "(set_ST x y w s)\<lparr>ecgOut := z27\<rparr> = set_ST x y w (s\<lparr>ecgOut := z27\<rparr>)"
  "(set_ST x y w s)\<lparr>stAlertList := z28\<rparr> = set_ST x y w (s\<lparr>stAlertList := z28\<rparr>)"
  "(set_ST x y w s)\<lparr>labels := z29\<rparr> = set_ST x y w (s\<lparr>labels := z29\<rparr>)"
  "(set_ST x y w s)\<lparr>HR := z30\<rparr> = set_ST x y w (s\<lparr>HR := z30\<rparr>)"
  "(set_ST x y w s)\<lparr>HR_junk := z31\<rparr> = set_ST x y w (s\<lparr>HR_junk := z31\<rparr>)"
  "(set_ST x y w s)\<lparr>AAResult1 := z32\<rparr> = set_ST x y w (s\<lparr>AAResult1 := z32\<rparr>)"
  "(set_ST x y w s)\<lparr>ST_Volt_His := z33\<rparr> = set_ST x y w (s\<lparr>ST_Volt_His := z33\<rparr>)"
  "(set_ST x y w s)\<lparr>ST_Volt_Val := z34\<rparr> = set_ST x y w (s\<lparr>ST_Volt_Val := z34\<rparr>)"
  "(set_ST x y w s)\<lparr>PVCList := z35\<rparr> = set_ST x y w (s\<lparr>PVCList := z35\<rparr>)"
  "(set_ST x y w s)\<lparr>PVCCheckTimeCount := z36\<rparr> = set_ST x y w (s\<lparr>PVCCheckTimeCount := z36\<rparr>)"
  "(set_ST x y w s)\<lparr>fAmpDif := z37\<rparr> = set_ST x y w (s\<lparr>fAmpDif := z37\<rparr>)"
  by (simp_all add: set_ST_def)

lemma set_ST_cfg [simp]:
  "alg_WorkMode (cfg (set_ST x y w s)) = alg_WorkMode (cfg s)" "NotchMode (cfg (set_ST x y w s)) = NotchMode (cfg s)"
  "PaceMode (cfg (set_ST x y w s)) = PaceMode (cfg s)" "PaceShowMode (cfg (set_ST x y w s)) = PaceShowMode (cfg s)"
  "Tachycardia_Limit (cfg (set_ST x y w s)) = Tachycardia_Limit (cfg s)"
  "Bradycardia_Limit (cfg (set_ST x y w s)) = Bradycardia_Limit (cfg s)"
  "u8ArrhythmiaAnalysis_sw (cfg (set_ST x y w s)) = u8ArrhythmiaAnalysis_sw (cfg s)"
  "raw (set_ST x y w s) = raw s" "inte (set_ST x y w s) = inte s"
  by (simp_all add: set_ST_def raw_def inte_def)

named_theorems ST_free

lemma DataPreProccess_ST [ST_free]: "DataPreProccess fp k (set_ST x y w s) = map_option (set_ST x y w) (DataPreProccess fp k s)"
  by (simp add: DataPreProccess_def pace_leads_def analysis_filter_def display_filter_def Let_def
      split: option.split prod.split)

lemma integrate_ST [ST_free]: "integrate fp (set_ST x y w s) = set_ST x y w (integrate fp s)"
  by (simp add: integrate_def Let_def split: prod.split)

lemma count_PVC_ST [ST_free]: "count_PVC (set_ST x y w s) = set_ST x y w (count_PVC s)"
  by (simp add: count_PVC_def CheckPVCList_def Let_def)

lemma small_ST [ST_free]:
  "AlertList_Clear (set_ST x y w s) = set_ST x y w (AlertList_Clear s)"
  "AlertList_Append i (set_ST x y w s) = set_ST x y w (AlertList_Append i s)"
  "append_Label k c (set_ST x y w s) = set_ST x y w (append_Label k c s)"
  "InsertPVC t (set_ST x y w s) = set_ST x y w (InsertPVC t s)"
  "marks_back (set_ST x y w s) = set_ST x y w (marks_back s)"
  "edge_found r k (set_ST x y w s) = set_ST x y w (edge_found r k s)"
  "adapt_interval fp (set_ST x y w s) = set_ST x y w (adapt_interval fp s)"
  "fillResult fp (set_ST x y w s) = set_ST x y w (fillResult fp s)"
  "shift_bufs (set_ST x y w s) = set_ST x y w (shift_bufs s)"
  by (simp_all add: AlertList_Clear_def AlertList_Append_def append_Label_def InsertPVC_def marks_back_def
      edge_found_def adapt_interval_def fillResult_def shift_bufs_def Let_def)

lemma InsertSTVolt_ST [ST_free]: "InsertSTVolt fp q (set_ST x y w s) = map_option (set_ST x y w) (InsertSTVolt fp q s)"
  by (simp add: InsertSTVolt_def split: option.split)

lemma InializingProgress_ST [ST_free]:
  "InializingProgress fp k (set_ST x y w s) = map_option (map_prod id (set_ST x y w)) (InializingProgress fp k s)"
  by (simp add: InializingProgress_def Let_def split: option.split prod.split)

lemma relearn_ST [ST_free]: "relearn fp (set_ST x y w s) = map_option (set_ST x y w) (relearn fp s)"
  by (simp add: relearn_def ST_free split: option.split prod.split)

lemma find_edge_ST [ST_free]: "find_edge fp (set_ST x y w s) = map_option (set_ST x y w) (find_edge fp s)"
  by (simp add: find_edge_def ST_free Let_def split: option.split prod.split)

lemma quick_R_ST [ST_free]: "quick_R fp (set_ST x y w s) = map_option (set_ST x y w) (quick_R fp s)"
  by (simp add: quick_R_def Let_def split: option.split prod.split)

lemma accept_R_ST [ST_free]: "accept_R fp h (set_ST x y w s) = map_option (set_ST x y w) (accept_R fp h s)"
  by (simp add: accept_R_def ST_free Let_def option.map_comp o_def split: option.split prod.split)

lemma judge_R_ST [ST_free]: "judge_R fp (set_ST x y w s) = map_option (set_ST x y w) (judge_R fp s)"
  by (simp add: judge_R_def ST_free Let_def split: option.split prod.split)

lemma find_R_ST [ST_free]: "find_R fp (set_ST x y w s) = map_option (set_ST x y w) (find_R fp s)"
  by (simp add: find_R_def ST_free Let_def split: option.split prod.split)

lemma find_PVC_ST [ST_free]: "find_PVC fp (set_ST x y w s) = map_option (set_ST x y w) (find_PVC fp s)"
  by (simp add: find_PVC_def ST_free Let_def split: option.split prod.split)

lemma search_beat_ST [ST_free]: "search_beat fp (set_ST x y w s) = map_option (set_ST x y w) (search_beat fp s)"
  by (simp add: search_beat_def ST_free)

lemma analysis_parts_ST [ST_free]:
  "CalcHeartRate fp (set_ST x y w s) = CalcHeartRate fp s" "asystole fp (set_ST x y w s) = asystole fp s"
  "count_labels (set_ST x y w s) a = count_labels s a"
  by (simp_all add: CalcHeartRate_def asystole_def count_labels_def Let_def split: option.split)

lemma rhythm_ST [ST_free]: "rhythm fp (set_ST x y w s) a = rhythm fp s a"
proof -
  have "too_old fp (set_ST x y w s) = too_old fp s" "missed_beat fp (set_ST x y w s) = missed_beat fp s"
    "recent_beats k i (set_ST x y w s) = recent_beats k i s" for k i
    by (simp_all add: fun_eq_iff too_old_def missed_beat_def recent_beats_def Let_def)
  then show ?thesis by (simp add: rhythm_def Let_def cong: option.case_cong)
qed

lemma ArrhythmiaAnalysis_ST [ST_free]: "ArrhythmiaAnalysis fp (set_ST x y w s) = set_ST x y w (ArrhythmiaAnalysis fp s)"
  by (simp add: ArrhythmiaAnalysis_def ST_free Let_def)

lemma Report_ST [ST_free]: "ReportArrhythmiaAnalysis (set_ST x y w s) = set_ST x y w (ReportArrhythmiaAnalysis s)"
proof -
  have "fold (\<lambda>t s. AlertList_Append \<lparr>alert_type = t, u32AlertIndex = 0, alert_time = inSysTick s\<rparr> s) ts (set_ST x y w s)
      = set_ST x y w (fold (\<lambda>t s. AlertList_Append \<lparr>alert_type = t, u32AlertIndex = 0, alert_time = inSysTick s\<rparr> s) ts s)" for ts s
    by (induction ts arbitrary: s) (simp_all add: ST_free)
  then show ?thesis by (simp add: ReportArrhythmiaAnalysis_def)
qed

lemma update_step_ST [ST_free]: "update_step fp (set_ST x y w s) = map_option (set_ST x y w) (update_step fp s)"
  by (simp add: update_step_def ST_free option.map_comp o_def split: option.split)

lemma ECGAlgoRun_ST [ST_free]: "ECGAlgoRun fp (set_ST x y w s) = map_option (set_ST x y w) (ECGAlgoRun fp s)"
  by (simp add: ECGAlgoRun_def ST_free Let_def option.map_comp o_def split: option.split)

type_synonym ecg_sample = "u32 \<times> s32 \<times> s32 \<times> s32 \<times> u8"

fun ecg_feed :: "alg_fpu \<Rightarrow> ecg_sample list \<Rightarrow> ecg_alg \<Rightarrow> ecg_alg option" where
  "ecg_feed fp [] s = Some s"
| "ecg_feed fp ((tk, i, ii, v, pc) # xs) s =
     (case l_ecg_PushAlgorithmData fp tk i ii v pc s of None \<Rightarrow> None | Some s \<Rightarrow> ecg_feed fp xs s)"

lemma ecg_feed_ST: "ecg_feed fp xs (set_ST x y w s) = map_option (set_ST x y w) (ecg_feed fp xs s)"
proof (induction fp xs s rule: ecg_feed.induct)
  case (2 fp tk i ii v pc xs s)
  then show ?case by (simp add: l_ecg_PushAlgorithmData_def ST_free split: option.split)
qed simp

text \<open>C14: The two commands that configure the ST measurement have no effect: whatever bytes they carry, the
  items the analysis delivers for the samples that follow, with the ST levels and all other results in them,
  are the same as if the command had not been given.\<close>

theorem st_commands_ineffective:
  "map_option ecgOut (ecg_feed fp xs (snd (l_ecg_DebugInterface_alg fp ECG_ST_MEASURE_SETTING p n s)))
     = map_option ecgOut (ecg_feed fp xs s)
   \<and> map_option ecgOut (ecg_feed fp xs (snd (l_ecg_DebugInterface_alg fp ECG_ST_SW p n s)))
     = map_option ecgOut (ecg_feed fp xs s)"
proof -
  have same: "map_option ecgOut (ecg_feed fp xs (set_ST x y w s)) = map_option ecgOut (ecg_feed fp xs s)" for x y w
    by (simp add: ecg_feed_ST option.map_comp o_def)
  have id: "set_ST (ISO_Interval (cfg s)) (ST_Interval (cfg s)) (u8STAnalysis_sw (cfg s)) s = s" by (simp add: set_ST_def)
  have "\<exists>x y w. snd (l_ecg_DebugInterface_alg fp ECG_ST_MEASURE_SETTING p n s) = set_ST x y w s"
  proof (cases "n = 4")
    case True
    let ?sec = "\<lambda>h l. flt fp (int (unat (be16 h l) div 1000))"
    from True have "snd (l_ecg_DebugInterface_alg fp ECG_ST_MEASURE_SETTING p n s)
        = set_ST (?sec (p ! 0) (p ! 1)) (?sec (p ! 2) (p ! 3)) (u8STAnalysis_sw (cfg s)) s"
      by (simp add: l_ecg_DebugInterface_alg_def ECGV1000DebugInterface_def Let_def set_ST_def)
    then show ?thesis by blast
  next
    case False
    then have "snd (l_ecg_DebugInterface_alg fp ECG_ST_MEASURE_SETTING p n s) = s"
      by (simp add: l_ecg_DebugInterface_alg_def ECGV1000DebugInterface_def Let_def)
    with id show ?thesis by metis
  qed
  moreover have "snd (l_ecg_DebugInterface_alg fp ECG_ST_SW p n s)
      = set_ST (ISO_Interval (cfg s)) (ST_Interval (cfg s)) (if p ! 0 = 0 then 0 else 1) s"
    by (simp add: l_ecg_DebugInterface_alg_def ECGV1000DebugInterface_def Let_def set_ST_def)
  ultimately show ?thesis using same by auto
qed

end
