(* ===== verification/Triangles.thy ===== *)
theory Triangles
  imports EcgClassify
begin

text \<open>
  What \<open>FindTriangleForm\<close> finds, the search both the ECG and the respiration analysis rest on: forms in the
  order of time, each with its three points on the wave and a left flank of the height asked for.
\<close>

section \<open>The left flank\<close>

lemma left_foot_down:
  "left_foot D hy th True (rev [0..<n]) = Some l \<Longrightarrow> l \<le> n \<and> D ! l \<le> D ! n"
proof (induction n)
  case (Suc n)
  then show ?case by (cases "D ! n \<ge> D ! Suc n") (auto simp: not_le)
qed simp

lemma left_foot_flank:
  "left_foot D hy th False (rev [0..<n]) = Some l \<Longrightarrow> \<exists>m < n. l \<le> m \<and> D ! l \<le> D ! m \<and> idiff hy (D ! m) \<ge> th"
proof (induction n)
  case (Suc n)
  show ?case
  proof (cases "idiff hy (D ! n) \<ge> th")
    case True
    then have "left_foot D hy th True (rev [0..<n]) = Some l" using Suc.prems by simp
    with True left_foot_down show ?thesis by blast
  next
    case False
    then have "left_foot D hy th False (rev [0..<n]) = Some l" using Suc.prems by simp
    with Suc.IH show ?thesis using less_SucI by blast
  qed
qed simp

section \<open>The forms\<close>

definition on_wave :: "int list \<Rightarrow> nat \<Rightarrow> point \<Rightarrow> bool" where
  "on_wave D k p \<longleftrightarrow> 0 \<le> fst p \<and> fst p < int k \<and> snd p = D ! nat (fst p)"

definition flank :: "int list \<Rightarrow> int \<Rightarrow> CTriangle_Form \<Rightarrow> bool" where
  "flank D threshold f \<longleftrightarrow> (\<exists>m. fst (stLeft f) \<le> int m \<and> int m < fst (stPeak f) \<and> snd (stLeft f) \<le> D ! m
     \<and> idiff (snd (stPeak f)) (D ! m) \<ge> threshold)"

definition form_ok :: "int list \<Rightarrow> int \<Rightarrow> nat \<Rightarrow> CTriangle_Form \<Rightarrow> bool" where
  "form_ok D threshold k f \<longleftrightarrow> on_wave D k (stLeft f) \<and> on_wave D k (stPeak f) \<and> on_wave D k (stRight f)
     \<and> fst (stPeak f) \<le> fst (stRight f) \<and> snd (stRight f) \<le> snd (stPeak f) \<and> flank D threshold f"

definition in_time_order :: "CTriangle_Form list \<Rightarrow> bool" where
  "in_time_order fs \<longleftrightarrow> sorted_wrt (\<lambda>f g. fst (stRight f) < fst (stPeak g)) fs"

definition tri_inv :: "int list \<Rightarrow> int \<Rightarrow> nat \<Rightarrow> nat \<Rightarrow> tri_st \<Rightarrow> bool" where
  "tri_inv D threshold mx k t \<longleftrightarrow> on_wave D k (leftLow t) \<and> on_wave D k (tri_high t) \<and> on_wave D k (rigthLow t)
     \<and> fst (tri_high t) \<le> fst (rigthLow t) \<and> snd (rigthLow t) \<le> snd (tri_high t) \<and> length (pTFList t) \<le> mx
     \<and> in_time_order (pTFList t) \<and> (\<forall>f \<in> set (pTFList t). form_ok D threshold k f \<and> fst (stRight f) < fst (tri_high t))"

lemma on_wave_mono: "on_wave D k p \<Longrightarrow> k \<le> m \<Longrightarrow> on_wave D m p"
  by (auto simp: on_wave_def)

lemma form_ok_mono: "form_ok D th k f \<Longrightarrow> k \<le> m \<Longrightarrow> form_ok D th m f"
  unfolding form_ok_def using on_wave_mono by blast

lemma tri_inv_mono: "tri_inv D th mx k t \<Longrightarrow> k \<le> m \<Longrightarrow> tri_inv D th mx m t"
  unfolding tri_inv_def using on_wave_mono form_ok_mono by blast

lemma new_form:
  assumes "0 < th" and "tri_inv D th mx k t"
    and "left_foot D (snd (tri_high t)) th False (rev [0..<nat (fst (tri_high t)) + 1]) = Some l"
  shows "form_ok D th k \<lparr>stLeft = (int l, D ! l), stPeak = tri_high t, stRight = rigthLow t\<rparr>"
proof -
  let ?h = "nat (fst (tri_high t))"
  have h: "on_wave D k (tri_high t)" using assms(2) by (simp add: tri_inv_def)
  then have hl: "snd (tri_high t) = D ! ?h" "int ?h = fst (tri_high t)" by (auto simp: on_wave_def)
  obtain m where m: "m < ?h + 1" "l \<le> m" "D ! l \<le> D ! m" "idiff (snd (tri_high t)) (D ! m) \<ge> th"
    using left_foot_flank [OF assms(3)] by blast
  have "m \<noteq> ?h" using m(4) hl(1) assms(1) by (auto simp: in32_def)
  with m(1) have mh: "int m < fst (tri_high t)" using hl(2) by linarith
  have "on_wave D k (int l, D ! l)" using mh m(2) h by (auto simp: on_wave_def)
  moreover have "flank D th \<lparr>stLeft = (int l, D ! l), stPeak = tri_high t, stRight = rigthLow t\<rparr>"
    unfolding flank_def using mh m(2,3,4) by (intro exI [of _ m]) simp
  ultimately show ?thesis using assms(2) by (simp add: form_ok_def tri_inv_def)
qed

text \<open>What a step keeps of the forms found before, and the start of the search for the next one.\<close>

definition forms_ok :: "int list \<Rightarrow> int \<Rightarrow> nat \<Rightarrow> nat \<Rightarrow> CTriangle_Form list \<Rightarrow> bool" where
  "forms_ok D th mx k fs \<longleftrightarrow> in_time_order fs \<and> length fs \<le> mx
     \<and> (\<forall>f \<in> set fs. form_ok D th (Suc k) f \<and> fst (stRight f) < int k)"

lemma tri_restart_inv:
  "forms_ok D th mx k (pTFList t) \<Longrightarrow> tri_inv D th mx (Suc k) (tri_restart (int k, D ! k) t)"
  by (simp add: forms_ok_def tri_inv_def tri_restart_def on_wave_def)

lemma forms_ok_old:
  assumes "tri_inv D th mx k t"
  shows "forms_ok D th mx k (pTFList t)"
proof -
  have "fst (tri_high t) < int k" using assms by (simp add: tri_inv_def on_wave_def)
  then show ?thesis using assms form_ok_mono [of D th k _ "Suc k"]
    unfolding forms_ok_def tri_inv_def by fastforce
qed

lemma forms_ok_new:
  assumes "tri_inv D th mx k t" and "form_ok D th k f" and "stPeak f = tri_high t" "stRight f = rigthLow t"
    and "length (pTFList t) < mx"
  shows "forms_ok D th mx k (pTFList t @ [f])"
proof -
  have "fst (rigthLow t) < int k" using assms(1) by (simp add: tri_inv_def on_wave_def)
  moreover have "in_time_order (pTFList t @ [f])"
    using assms(1,3) by (simp add: in_time_order_def sorted_wrt_append tri_inv_def)
  ultimately show ?thesis using forms_ok_old [OF assms(1)] form_ok_mono [OF assms(2), of "Suc k"] assms(4,5)
    unfolding forms_ok_def by simp
qed

text \<open>The step, without its branches on the state of the search: stay, move the right point or both, start
  over, or close a form and start over.\<close>

lemma tri_step_cases:
  obtains (stay) st where "tri_step D th mx k t = t\<lparr>tri_stat := st\<rparr>"
  | (right) st where "D ! k < snd (tri_high t) \<or> D ! k < snd (rigthLow t)"
      "tri_step D th mx k t = t\<lparr>tri_stat := st, rigthLow := (int k, D ! k)\<rparr>"
  | (up) st where "tri_step D th mx k t = t\<lparr>tri_stat := st, tri_high := (int k, D ! k), rigthLow := (int k, D ! k)\<rparr>"
  | (restart) "tri_step D th mx k t = tri_restart (int k, D ! k) t"
  | (form) l where "length (pTFList t) < mx"
      "left_foot D (snd (tri_high t)) th False (rev [0..<nat (fst (tri_high t)) + 1]) = Some l"
      "tri_step D th mx k t = tri_restart (int k, D ! k)
         (t\<lparr>pTFList := pTFList t @ [\<lparr>stLeft = (int l, D ! l), stPeak = tri_high t, stRight = rigthLow t\<rparr>]\<rparr>)"
proof -
  let ?lf = "left_foot D (snd (tri_high t)) th False (rev [0..<nat (fst (tri_high t)) + 1])"
  consider "length (pTFList t) \<ge> mx" | "length (pTFList t) < mx" "tri_stat t = 0" | "length (pTFList t) < mx" "tri_stat t = 1"
    | "length (pTFList t) < mx" "tri_stat t \<noteq> 0" "tri_stat t \<noteq> 1" by fastforce
  then show thesis
  proof cases
    case 1
    then have "tri_step D th mx k t = t\<lparr>tri_stat := tri_stat t\<rparr>" by (simp add: tri_step_def)
    then show ?thesis by (rule stay)
  next
    case 2
    show ?thesis
    proof (cases "D ! k \<le> snd (leftLow t)")
      case True
      with 2 have "tri_step D th mx k t = tri_restart (int k, D ! k) t"
        by (cases t) (simp add: tri_step_def tri_restart_def Let_def)
      then show ?thesis by (rule restart)
    next
      case False
      with 2 show ?thesis by (intro up [of 1]) (simp add: tri_step_def Let_def)
    qed
  next
    case 3
    show ?thesis
    proof (cases "D ! k \<ge> snd (tri_high t)")
      case True
      with 3 show ?thesis by (intro up [of 1]) (simp add: tri_step_def Let_def)
    next
      case high: False
      let ?di = "idiff (snd (tri_high t)) (D ! k)"
      consider "D ! k > snd (leftLow t)"
        | "\<not> D ! k > snd (leftLow t)" "?di \<ge> th \<and> idiff (snd (tri_high t)) (snd (leftLow t)) \<ge> th"
        | "\<not> D ! k > snd (leftLow t)" "\<not> (?di \<ge> th \<and> idiff (snd (tri_high t)) (snd (leftLow t)) \<ge> th)" by blast
      then show ?thesis
      proof cases
        case 1
        with 3 high show ?thesis by (intro right [of "if ?di \<ge> th then 2 else 1"]) (simp_all add: tri_step_def Let_def)
      next
        case 2
        with 3 high show ?thesis by (intro stay [of 2]) (simp add: tri_step_def Let_def)
      next
        case f: 3
        with 3 high show ?thesis by (intro restart) (simp add: tri_step_def Let_def del: de_Morgan_conj)
      qed
    qed
  next
    case 4
    show ?thesis
    proof (cases "D ! k \<ge> snd (rigthLow t)")
      case True
      show ?thesis
      proof (cases ?lf)
        case None
        with 4 True show ?thesis by (intro restart) (simp add: tri_step_def Let_def del: upt_Suc)
      next
        case (Some l)
        with 4 True show ?thesis by (intro form [of l]) (simp_all add: tri_step_def Let_def del: upt_Suc)
      qed
    next
      case False
      with 4 show ?thesis by (intro right [of "tri_stat t"]) (simp_all add: tri_step_def Let_def)
    qed
  qed
qed

lemma tri_step_inv:
  assumes "0 < th" and inv: "tri_inv D th mx k t"
  shows "tri_inv D th mx (Suc k) (tri_step D th mx k t)"
proof -
  have same: "tri_inv D th mx (Suc k) t" by (rule tri_inv_mono [OF inv]) simp
  have p: "on_wave D (Suc k) (int k, D ! k)" by (simp add: on_wave_def)
  have hk: "fst (tri_high t) < int k" using inv by (simp add: tri_inv_def on_wave_def)
  show ?thesis
  proof (cases D th mx k t rule: tri_step_cases)
    case stay
    with same show ?thesis by (simp add: tri_inv_def)
  next
    case right
    with same p hk show ?thesis unfolding tri_inv_def by auto
  next
    case up
    with same forms_ok_old [OF inv] p show ?thesis by (simp add: tri_inv_def forms_ok_def)
  next
    case restart
    then show ?thesis using tri_restart_inv [OF forms_ok_old [OF inv]] by simp
  next
    case (form l)
    let ?f = "\<lparr>stLeft = (int l, D ! l), stPeak = tri_high t, stRight = rigthLow t\<rparr>"
    have "forms_ok D th mx k (pTFList t @ [?f])"
      using forms_ok_new [OF inv new_form [OF assms(1) inv form(2)]] form(1) by simp
    then show ?thesis using tri_restart_inv [of D th mx k "t\<lparr>pTFList := pTFList t @ [?f]\<rparr>"] form(3) by simp
  qed
qed

lemma tri_fold_inv:
  assumes "0 < th" and "tri_inv D th mx k t" and "k \<le> n"
  shows "tri_inv D th mx n (fold (tri_step D th mx) [k..<n] t)"
  using assms(3)
proof (induction n)
  case (Suc n)
  then show ?case using assms(2) tri_step_inv [OF assms(1)] by (cases "k = Suc n") auto
qed (use assms(2) in simp)

lemma FindTriangleForm_inv:
  assumes "0 < th"
  obtains t where "FindTriangleForm D th mx = pTFList t" and "D \<noteq> [] \<Longrightarrow> tri_inv D th mx (length D) t"
    and "D = [] \<Longrightarrow> pTFList t = []"
proof -
  let ?s = "tri_restart (0, D ! 0) \<lparr>tri_stat = 0, leftLow = (0, 0), tri_high = (0, 0), rigthLow = (0, 0), pTFList = []\<rparr>"
  have s: "tri_inv D th mx 1 ?s" by (simp add: tri_inv_def tri_restart_def on_wave_def in_time_order_def)
  have first: "tri_step D th mx 0 ?s = ?s" by (simp add: tri_step_def tri_restart_def Let_def)
  show thesis
  proof (rule that)
    show "FindTriangleForm D th mx = pTFList (fold (tri_step D th mx) [0..<length D] ?s)"
      by (simp add: FindTriangleForm_def)
    show "tri_inv D th mx (length D) (fold (tri_step D th mx) [0..<length D] ?s)" if "D \<noteq> []"
    proof -
      have "[0..<length D] = 0 # [1..<length D]" using that by (simp add: upt_conv_Cons)
      then show ?thesis using tri_fold_inv [OF assms s, of "length D"] that first by (simp add: Suc_leI)
    qed
  qed (simp add: tri_restart_def)
qed

lemma FindTriangleForm_forms:
  assumes "0 < th"
  shows "in_time_order (FindTriangleForm D th mx)" "length (FindTriangleForm D th mx) \<le> mx"
    "f \<in> set (FindTriangleForm D th mx) \<Longrightarrow> form_ok D th (length D) f"
proof -
  obtain t where "FindTriangleForm D th mx = pTFList t" "D \<noteq> [] \<Longrightarrow> tri_inv D th mx (length D) t"
    "D = [] \<Longrightarrow> pTFList t = []" using FindTriangleForm_inv [OF assms, of D mx] by metis
  then show "in_time_order (FindTriangleForm D th mx)" "length (FindTriangleForm D th mx) \<le> mx"
    "f \<in> set (FindTriangleForm D th mx) \<Longrightarrow> form_ok D th (length D) f"
    by (cases "D = []"; auto simp: tri_inv_def in_time_order_def)+
qed

text \<open>The distances of neighbouring peaks, what the rate is computed from, are positive.\<close>

lemma peaks_apart:
  assumes "0 < th" and "Suc i < length (FindTriangleForm D th mx)"
  shows "fst (stPeak (FindTriangleForm D th mx ! i)) < fst (stPeak (FindTriangleForm D th mx ! Suc i))"
proof -
  let ?F = "FindTriangleForm D th mx"
  have "form_ok D th (length D) (?F ! i)" using assms(2) FindTriangleForm_forms(3) [OF assms(1), of "?F ! i" D mx] by simp
  moreover have "fst (stRight (?F ! i)) < fst (stPeak (?F ! Suc i))"
    using FindTriangleForm_forms(1) [OF assms(1), of D mx] assms(2)
    by (auto simp: in_time_order_def sorted_wrt_iff_nth_less)
  ultimately show ?thesis by (simp add: form_ok_def)
qed

section \<open>Soundness of the search\<close>

definition bounded_wave :: "int list \<Rightarrow> bool" where
  "bounded_wave D \<longleftrightarrow> (\<forall>x \<in> set D. \<bar>x\<bar> \<le> 1073741823)"

lemma idiff_bounded:
  assumes "bounded_wave D" "i < length D" "j < length D"
  shows "idiff (D ! i) (D ! j) = D ! i - D ! j"
proof -
  have "\<bar>D ! i\<bar> \<le> 1073741823" "\<bar>D ! j\<bar> \<le> 1073741823" using assms by (simp_all add: bounded_wave_def)
  then show ?thesis by (intro i32_small) arith
qed

text \<open>\<open>triangle\<close>: the three points are points of the wave in the order left, peak, right, the flank rises by
  at least the threshold and the right point is no higher than the peak.\<close>

definition triangle :: "int list \<Rightarrow> int \<Rightarrow> CTriangle_Form \<Rightarrow> bool" where
  "triangle D threshold f \<longleftrightarrow>
     on_wave D (length D) (stLeft f) \<and> on_wave D (length D) (stPeak f) \<and> on_wave D (length D) (stRight f)
     \<and> fst (stLeft f) < fst (stPeak f) \<and> fst (stPeak f) \<le> fst (stRight f)
     \<and> snd (stPeak f) - snd (stLeft f) \<ge> threshold \<and> snd (stRight f) \<le> snd (stPeak f)"

lemma form_ok_triangle:
  assumes "bounded_wave D" and "form_ok D th (length D) f"
  shows "triangle D th f"
proof -
  obtain m where m: "fst (stLeft f) \<le> int m" "int m < fst (stPeak f)" "snd (stLeft f) \<le> D ! m"
    "idiff (snd (stPeak f)) (D ! m) \<ge> th" using assms(2) by (auto simp: form_ok_def flank_def)
  have p: "nat (fst (stPeak f)) < length D" "snd (stPeak f) = D ! nat (fst (stPeak f))"
    using assms(2) by (auto simp: form_ok_def on_wave_def)
  have "m < length D" using m(2) p(1) by linarith
  then have "snd (stPeak f) - D ! m \<ge> th" using m(4) p idiff_bounded [OF assms(1)] by simp
  then show ?thesis using assms(2) m(1-3) by (simp add: triangle_def form_ok_def)
qed

text \<open>C11: On a wave whose samples lie within 30 bits, every form the search returns is a triangle of the wave
  (its points are samples, in order, its left flank rises by at least the threshold), there are at most as many
  as the caller has room for, and they come in the order of time without overlapping: the right foot of each
  lies before the peak of the next.\<close>

theorem triangles_sound:
  assumes "bounded_wave D" and "0 < threshold"
  shows "length (FindTriangleForm D threshold mx) \<le> mx
     \<and> (\<forall>f \<in> set (FindTriangleForm D threshold mx). triangle D threshold f)
     \<and> in_time_order (FindTriangleForm D threshold mx)"
  using FindTriangleForm_forms [OF assms(2)] form_ok_triangle [OF assms(1)] by blast

lemma triangles_example:
  "FindTriangleForm [6, 5, 1, 2, 9, 3, 4] 4 3 = [\<lparr>stLeft = (2, 1), stPeak = (4, 9), stRight = (5, 3)\<rparr>]"
  by code_simp

lemma triangles_sound_witness:
  "triangle [6, 5, 1, 2, 9, 3, 4] 4 \<lparr>stLeft = (2, 1), stPeak = (4, 9), stRight = (5, 3)\<rparr>"
  using triangles_sound [of "[6, 5, 1, 2, 9, 3, 4]" 4 3] by (simp add: triangles_example bounded_wave_def)

end
