(* ===== verification/RespAlg.thy ===== *)
theory RespAlg
  imports Triangles
begin

text \<open>
  \<open>RESPAlgorithm/RESPAlgorithm.c\<close> with \<open>RESP_V1001.cpp\<close>: the analysis of the respiration.  Every sample is
  filtered and enters a buffer of twenty seconds; every fiftieth sample the peaks of the buffer are searched
  (\<open>FindTriangleForm\<close>), the breaths of the last 10, 15 and 20 seconds give three estimates of the rate that are
  weighted by their spread, and a second average of the same form runs over the rates of the last minute.
  Every sample also checks the alarms.  \<open>None\<close> is an access outside the memory of an array or a division by zero.

  An array with a counter is the list of its used elements: the alerts, the rate histories \<open>hisRespRate\<close> and
  \<open>hisR\<close>, and the forms \<open>TF\<close>.  The library function \<open>exp\<close> is the argument \<open>ex\<close>.
\<close>

section \<open>State\<close>

definition RESP_ALGORITHM_OUTPUT_MAX_LEN :: nat where "RESP_ALGORITHM_OUTPUT_MAX_LEN = 100"
definition RESP_ALGORITHM_INPUT_FS :: int where "RESP_ALGORITHM_INPUT_FS = 100"
definition RESP_CAL_DATA_LEN :: nat where "RESP_CAL_DATA_LEN = 20 * 100"
definition RESP_UPDATE_DATA_LEN :: nat where "RESP_UPDATE_DATA_LEN = 50"
definition RESP_ALERT_MAX_NUM :: nat where "RESP_ALERT_MAX_NUM = 10"

text \<open>\<open>r_alerts\<close> is whether the pointer to the one alert list is set.\<close>

record CRESP_Out_Item =
  r_raw :: "u32 \<times> int"
  r_filter :: "u32 \<times> int"
  r_rate :: u32
  r_alerts :: bool

record CRESPAlertItem =
  ra_type :: RESP_AlertType
  ra_time :: u32
  ra_index :: u32

record resp_alg =
  respOut :: "CRESP_Out_Item list \<times> nat"
  pRESP_Cal_Buf :: "int list"
  nRESP_Calc_Data_Num :: nat
  resp_AlertList :: "CRESPAlertItem list"
  pushCount :: nat
  TriAmp :: real
  hisRespRate :: "real list"
  RespRate :: int
  resp_FilterBuffer :: "biquad list"
  FilterMode :: u8
  HighBoundary :: real
  LowBoundary :: real
  SuffocationAlertDelay :: real
  SuffocationSysTick :: u32
  isSuffocation :: bool
  hisR :: "real list"
  TF :: "CTriangle_Form list"

definition resp_AlertList_Append :: "CRESPAlertItem \<Rightarrow> resp_alg \<Rightarrow> resp_alg" where
  "resp_AlertList_Append item s = s\<lparr>resp_AlertList := push_bounded RESP_ALERT_MAX_NUM item (resp_AlertList s)\<rparr>"

definition resp_AlertList_Clear :: "resp_alg \<Rightarrow> resp_alg" where
  "resp_AlertList_Clear s = s\<lparr>resp_AlertList := []\<rparr>"

section \<open>Estimates of the rate\<close>

text \<open>The file has a copy of the search of \<open>ECGAlgorithmV1000.c\<close>, statement by statement the same.\<close>

definition resp_FindTriangleForm :: "int list \<Rightarrow> int \<Rightarrow> nat \<Rightarrow> CTriangle_Form list" where
  "resp_FindTriangleForm = FindTriangleForm"

text \<open>How much of the old amplitude threshold is kept, from the relative change of the new one.\<close>

definition FcoeH :: "alg_fpu \<Rightarrow> (real \<Rightarrow> real) \<Rightarrow> real \<Rightarrow> real \<Rightarrow> real \<Rightarrow> real" where
  "FcoeH fp ex x B C =
     (let a = fsub fp (flt fp 2) (fmul fp (flt fp 2) B);
          p1 = fdiv fp 1 (fadd fp 1 (fl fp (ex (fmul fp (fsub fp 0 C) x))))
      in fadd fp (fsub fp 1 a) (fmul fp a p1))"

text \<open>Distances of neighbouring peaks, in samples.\<close>

definition peak_distances :: "CTriangle_Form list \<Rightarrow> int list" where
  "peak_distances pTF =
     List.map (\<lambda>i. idiff (fst (stPeak (pTF ! (i + 1)))) (fst (stPeak (pTF ! i)))) [0..<length pTF - 1]"

definition rate_of_two :: "alg_fpu \<Rightarrow> CTriangle_Form list \<Rightarrow> int \<Rightarrow> real option" where
  "rate_of_two fp pTF Fs =
     (let d = peak_distances pTF ! 0
      in if d = 0 then None else Some (fdiv fp (fmul fp (flt fp 60) (flt fp Fs)) (flt fp d)))"

text \<open>An earlier estimate, not called: the fullest of five overlapping classes of breath lengths.\<close>

definition CalcRESPRate :: "alg_fpu \<Rightarrow> CTriangle_Form list \<Rightarrow> int \<Rightarrow> real option" where
  "CalcRESPRate fp pTF Fs =
     (let nTFCount = length pTF; y = peak_distances pTF
      in if nTFCount = 1 \<or> nTFCount > 100 then Some 0
         else if nTFCount = 2 then rate_of_two fp pTF Fs
         else if nTFCount = 0 then None
         else let mx = Max_N y (length y);
                  cubes = List.map (\<lambda>k. let head = mx - 50 * int k in filter (\<lambda>v. v \<le> head \<and> v > head - 100) y) [0..<5];
                  index = snd (Max_Index_N (List.map (int \<circ> length) cubes) 5);
                  summ = fold (\<lambda>v summ. i32 (summ + v)) (cubes ! index) 0
              in if summ = 0 then None
                 else Some (fdiv fp (fmul fp (flt fp 60) (flt fp Fs))
                              (fdiv fp (flt fp summ) (flt fp (int (length (cubes ! index)))))))"

text \<open>An earlier average, not called: weights that fall linearly with the age.\<close>

definition CalcRESPRate1 :: "alg_fpu \<Rightarrow> real list \<Rightarrow> real \<Rightarrow> real" where
  "CalcRESPRate1 fp pHisRespRate r =
     (if length pHisRespRate = 1 then pHisRespRate ! 0
      else let n = flt fp (int (length pHisRespRate));
               a = fdiv fp (flt fp 2) (fadd fp n (fmul fp n r));
               R = fdiv fp (fmul fp a (fsub fp 1 r)) (fsub fp 1 n)
           in fold (\<lambda>i rate. fadd fp rate (fmul fp (fadd fp a (fmul fp R (flt fp (int i)))) (pHisRespRate ! i)))
                [0..<length pHisRespRate] 0)"

text \<open>Mean and variance of the values from \<open>i\<close> on, a variance of 0 replaced by a small one.\<close>

definition add_up :: "alg_fpu \<Rightarrow> real list \<Rightarrow> real" where
  "add_up fp xs = fold (\<lambda>x sum. fadd fp sum x) xs 0"

definition seg_mean :: "alg_fpu \<Rightarrow> real list \<Rightarrow> nat \<Rightarrow> real" where
  "seg_mean fp y i = fdiv fp (add_up fp (drop i y)) (flt fp (int (length y - i)))"

definition seg_var :: "alg_fpu \<Rightarrow> real list \<Rightarrow> nat \<Rightarrow> real" where
  "seg_var fp y i =
     (let sq = List.map (\<lambda>x. let di = fsub fp x (seg_mean fp y i) in fmul fp di di) (drop i y);
          v = fdiv fp (add_up fp sq) (flt fp (int (length y - i)))
      in if v = 0 then fl fp 0.00001 else v)"

text \<open>The rest of \<open>CalcRESPByWave\<close> and \<open>CalcRESPByHisRESP\<close>, the same code in both: the segments' means are
  averaged, each weighted by its prior over its variance.\<close>

definition normalise :: "alg_fpu \<Rightarrow> real list \<Rightarrow> real list" where
  "normalise fp b = (let bsum = add_up fp b in List.map (\<lambda>x. fdiv fp x bsum) b)"

definition weighted_rate :: "alg_fpu \<Rightarrow> real list \<Rightarrow> real list \<Rightarrow> nat list \<Rightarrow> real" where
  "weighted_rate fp Pi y indexArr =
     (let Mi = List.map (seg_mean fp y) indexArr; Vi = List.map (seg_var fp y) indexArr;
          Ai = normalise fp (List.map (\<lambda>v. fdiv fp 1 v) Vi);
          Ci = normalise fp (map2 (\<lambda>p a. fmul fp p a) Pi Ai)
      in add_up fp (map2 (\<lambda>c m. fmul fp c m) Ci Mi))"

text \<open>Where the segment of the last \<open>len\<close> samples starts.\<close>

fun seg_start :: "alg_fpu \<Rightarrow> real list \<Rightarrow> int \<Rightarrow> int \<Rightarrow> nat list \<Rightarrow> nat" where
  "seg_start fp y len acc [] = 0"
| "seg_start fp y len acc (j # js) =
     (let acc = cvs fp (fadd fp (flt fp acc) (y ! j)) in if acc \<ge> len then j else seg_start fp y len acc js)"

definition CalcRESPByWave :: "alg_fpu \<Rightarrow> CTriangle_Form list \<Rightarrow> int \<Rightarrow> real option" where
  "CalcRESPByWave fp pTF Fs =
     (let nTFCount = length pTF
      in if nTFCount = 1 \<or> nTFCount > 100 \<or> nTFCount = 0 then Some 0
         else if nTFCount = 2 then rate_of_two fp pTF Fs
         else let y = List.map (flt fp) (peak_distances pTF); yCount = length y;
                  indexArr = List.map (\<lambda>t. seg_start fp y (cvs fp (fmul fp t (flt fp Fs))) 0 (rev [0..<yCount])) [10, 15, 20]
              in if 0 \<in> set y then None
                 else Some (weighted_rate fp [4, 3, 1] (List.map (\<lambda>v. fdiv fp (flt fp (i32 (60 * Fs))) v) y) indexArr))"

text \<open>Where the segment of the last \<open>t\<close> seconds starts in a history of \<open>n\<close> rates.\<close>

definition his_start :: "alg_fpu \<Rightarrow> real \<Rightarrow> nat \<Rightarrow> real \<Rightarrow> nat" where
  "his_start fp updateTimeLen n t =
     (let count = int n - cvs fp (fdiv fp t updateTimeLen)
      in if count < 0 then 0 else if count \<ge> int n then n - 1 else nat count)"

definition CalcRESPByHisRESP :: "alg_fpu \<Rightarrow> real list \<Rightarrow> real \<Rightarrow> real \<Rightarrow> real \<times> real list" where
  "CalcRESPByHisRESP fp phisR curRESP updateTimeLen =
     (let h = push_bounded 120 curRESP phisR
      in (weighted_rate fp [10, 2, 1] h (List.map (his_start fp updateTimeLen (length h)) [2, 5, 20]), h))"

section \<open>Alarms\<close>

definition add_alert :: "RESP_AlertType \<Rightarrow> u32 \<Rightarrow> resp_alg \<Rightarrow> resp_alg" where
  "add_alert ty systick = resp_AlertList_Append \<lparr>ra_type = ty, ra_time = systick, ra_index = 0\<rparr>"

definition boundary_alert :: "alg_fpu \<Rightarrow> u32 \<Rightarrow> resp_alg \<Rightarrow> resp_alg" where
  "boundary_alert fp systick s =
     (if flt fp (RespRate s) > HighBoundary s then add_alert High_Boundary systick s
      else if flt fp (RespRate s) < LowBoundary s then add_alert Low_Boundary systick s else s)"

text \<open>No breath for longer than four seconds: the rate is 0.\<close>

definition stale_rate :: "alg_fpu \<Rightarrow> int \<Rightarrow> int \<Rightarrow> resp_alg \<Rightarrow> resp_alg" where
  "stale_rate fp calDataLen Fs s =
     (if TF s \<noteq> [] \<and> flt fp (idiff calDataLen (fst (stPeak (last (TF s)))) sdiv Fs) > flt fp 4
      then s\<lparr>RespRate := 0\<rparr> else s)"

definition suffocation_alert :: "alg_fpu \<Rightarrow> u32 \<Rightarrow> resp_alg \<Rightarrow> resp_alg" where
  "suffocation_alert fp systick s =
     (if RespRate s = 0
      then if \<not> isSuffocation s then s\<lparr>isSuffocation := True, SuffocationSysTick := systick\<rparr>
           else let delayTime = (systick - SuffocationSysTick s) div 10000
                in if flt fp (uint delayTime) > fsub fp (SuffocationAlertDelay s) (flt fp 6)
                   then add_alert Suffocation systick s else s
      else s\<lparr>isSuffocation := False\<rparr>)"

definition CheckAlert :: "alg_fpu \<Rightarrow> u32 \<Rightarrow> int \<Rightarrow> int \<Rightarrow> resp_alg \<Rightarrow> resp_alg" where
  "CheckAlert fp systick calDataLen Fs s =
     suffocation_alert fp systick (stale_rate fp calDataLen Fs (boundary_alert fp systick s))"

section \<open>One sample\<close>

definition RespAlgoInit :: "resp_alg \<Rightarrow> resp_alg" where
  "RespAlgoInit s = s\<lparr>pushCount := 0, TriAmp := 5000, RespRate := 0, hisRespRate := []\<rparr>"

text \<open>The filter takes the sample as it came, and the newest item of the queue gets it back in place of the
  microvolts it held.\<close>

definition take_sample :: "alg_fpu \<Rightarrow> u32 \<Rightarrow> int \<Rightarrow> nat \<Rightarrow> resp_alg \<Rightarrow> resp_alg" where
  "take_sample fp t x cal_data_len s =
     (let (filteddata, m) = (if FilterMode s = 0 then resp_newborn_filter fp (resp_FilterBuffer s) x
                             else if FilterMode s = 1 then resp_adult_filter fp (resp_FilterBuffer s) x
                             else (0, resp_FilterBuffer s));
          currentIndex = snd (respOut s) - 1; n = nRESP_Calc_Data_Num s;
          s = s\<lparr>pushCount := pushCount s + 1, resp_FilterBuffer := m,
                respOut := ((fst (respOut s))[currentIndex :=
                   (fst (respOut s) ! currentIndex)\<lparr>r_raw := (t, x), r_filter := (t, filteddata)\<rparr>], snd (respOut s))\<rparr>
      in resp_AlertList_Clear
           (if n < cal_data_len
            then s\<lparr>pRESP_Cal_Buf := (pRESP_Cal_Buf s)[n := filteddata], nRESP_Calc_Data_Num := n + 1\<rparr> else s))"

text \<open>The range of the last 4 or 8 seconds; \<open>None\<close> when they leave the buffer.\<close>

definition wave_range :: "alg_fpu \<Rightarrow> int \<Rightarrow> resp_alg \<Rightarrow> real option" where
  "wave_range fp algorithm_input_fs s =
     (let timeLen = (if RespRate s > 0 \<and> RespRate s < 40 then 8 else 4);
          cLen = cvs fp (fmul fp (flt fp algorithm_input_fs) (flt fp timeLen))
      in case window (pRESP_Cal_Buf s) (int (nRESP_Calc_Data_Num s) - cLen) cLen of
           None \<Rightarrow> None
         | Some w \<Rightarrow> Some (flt fp (idiff (Max_N w (length w)) (Min_N w (length w)))))"

definition next_TriAmp :: "alg_fpu \<Rightarrow> (real \<Rightarrow> real) \<Rightarrow> real \<Rightarrow> real \<Rightarrow> real" where
  "next_TriAmp fp ex delta amp =
     (let curAmp = fmul fp (fl fp 0.35) delta; d = fsub fp curAmp amp;
          di = fdiv fp (if d > 0 then d else fsub fp 0 d) amp;
          coeH = FcoeH fp ex di (fl fp 0.98) (flt fp 2)
      in fadd fp (fmul fp (fsub fp 1 coeH) curAmp) (fmul fp coeH amp))"

definition update_rate :: "alg_fpu \<Rightarrow> (real \<Rightarrow> real) \<Rightarrow> nat \<Rightarrow> int \<Rightarrow> resp_alg \<Rightarrow> resp_alg option" where
  "update_rate fp ex update_data_len algorithm_input_fs s =
     (case wave_range fp algorithm_input_fs s of
        None \<Rightarrow> None
      | Some delta \<Rightarrow>
          if delta < flt fp 10000
          then Some (s\<lparr>RespRate := 0, hisRespRate := push_bounded 60 0 (hisRespRate s)\<rparr>)
          else let amp = next_TriAmp fp ex delta (TriAmp s);
                   tf = resp_FindTriangleForm (take (nRESP_Calc_Data_Num s) (pRESP_Cal_Buf s)) (cvs fp amp) 100
               in case CalcRESPByWave fp tf algorithm_input_fs of
                    None \<Rightarrow> None
                  | Some cur \<Rightarrow>
                      let cur = (if cur < 0 \<or> cur > flt fp 400 then 0 else cur);
                          (r, h) = CalcRESPByHisRESP fp (hisR s) cur
                                     (fdiv fp (flt fp (int update_data_len)) (flt fp algorithm_input_fs))
                      in Some (s\<lparr>TriAmp := amp, TF := tf, hisR := h, RespRate := cvs fp (fadd fp r (fl fp 0.5))\<rparr>))"

definition put_rate :: "resp_alg \<Rightarrow> resp_alg" where
  "put_rate s =
     (let (a, n) = respOut s
      in s\<lparr>respOut := (a[n - 1 := (a ! (n - 1))\<lparr>r_rate := word_of_int (RespRate s), r_alerts := True\<rparr>], n)\<rparr>)"

definition drop_old :: "nat \<Rightarrow> nat \<Rightarrow> resp_alg \<Rightarrow> resp_alg" where
  "drop_old cal_data_len update_data_len s =
     s\<lparr>pRESP_Cal_Buf := upd_loop (cal_data_len - update_data_len) (\<lambda>i b. b ! (i + update_data_len)) (pRESP_Cal_Buf s),
       nRESP_Calc_Data_Num := nRESP_Calc_Data_Num s - update_data_len\<rparr>"

definition RespAlgoRun :: "alg_fpu \<Rightarrow> (real \<Rightarrow> real) \<Rightarrow> u32 \<Rightarrow> int \<Rightarrow> nat \<Rightarrow> nat \<Rightarrow> int \<Rightarrow> resp_alg \<Rightarrow> resp_alg option" where
  "RespAlgoRun fp ex t x cal_data_len update_data_len fs s =
     (let s = take_sample fp t x cal_data_len s
      in if pushCount s \<ge> update_data_len
         then (case update_rate fp ex update_data_len fs (s\<lparr>pushCount := 0\<rparr>) of
                 None \<Rightarrow> None
               | Some s \<Rightarrow> Some (drop_old cal_data_len update_data_len
                                  (CheckAlert fp t (int cal_data_len) fs (put_rate s))))
         else Some (CheckAlert fp t (int cal_data_len) fs (put_rate s)))"

text \<open>\<open>char\<close> is signed.\<close>

datatype RESP_ALG_DEBUG_TypeDef =
  RESP_FILTER_SEL | RESP_SetHighBoundary | RESP_SetLowBoundary | RESP_SetSuffocationAlertDelay

definition RespAlgoDebugInterface :: "RESP_ALG_DEBUG_TypeDef \<Rightarrow> u8 \<Rightarrow> resp_alg \<Rightarrow> resp_alg" where
  "RespAlgoDebugInterface ty b s =
     (case ty of
        RESP_FILTER_SEL \<Rightarrow> s\<lparr>FilterMode := if b = 0 then 0 else 1\<rparr>
      | RESP_SetHighBoundary \<Rightarrow> s\<lparr>HighBoundary := real_of_int (sint b)\<rparr>
      | RESP_SetLowBoundary \<Rightarrow> s\<lparr>LowBoundary := real_of_int (sint b)\<rparr>
      | RESP_SetSuffocationAlertDelay \<Rightarrow> s\<lparr>SuffocationAlertDelay := real_of_int (sint b)\<rparr>)"

section \<open>RESPAlgorithm.c\<close>

definition zero_resp_item :: CRESP_Out_Item where
  "zero_resp_item = \<lparr>r_raw = (0, 0), r_filter = (0, 0), r_rate = 0, r_alerts = False\<rparr>"

definition MainInit :: "resp_alg \<Rightarrow> resp_alg" where
  "MainInit s =
     RespAlgoInit (s\<lparr>respOut := (replicate RESP_ALGORITHM_OUTPUT_MAX_LEN zero_resp_item, 0),
       resp_AlertList := [], nRESP_Calc_Data_Num := RESP_CAL_DATA_LEN - RESP_UPDATE_DATA_LEN,
       pRESP_Cal_Buf := replicate RESP_CAL_DATA_LEN 0\<rparr>)"

definition MainRun :: "alg_fpu \<Rightarrow> (real \<Rightarrow> real) \<Rightarrow> u32 \<Rightarrow> int \<Rightarrow> resp_alg \<Rightarrow> resp_alg option" where
  "MainRun fp ex t x = RespAlgoRun fp ex t x RESP_CAL_DATA_LEN RESP_UPDATE_DATA_LEN RESP_ALGORITHM_INPUT_FS"

definition l_resp_PushAlgorithmData :: "alg_fpu \<Rightarrow> (real \<Rightarrow> real) \<Rightarrow> u32 \<Rightarrow> s32 \<Rightarrow> resp_alg \<Rightarrow> resp_alg option" where
  "l_resp_PushAlgorithmData fp ex u32Tick x s =
     MainRun fp ex u32Tick (sint x)
       (s\<lparr>respOut := out_push RESP_ALGORITHM_OUTPUT_MAX_LEN zero_resp_item
                       (\<lambda>r. r\<lparr>r_raw := (u32Tick, ChangeToVol fp (sint x))\<rparr>) (respOut s)\<rparr>)"

definition l_resp_PopAlgorithmData :: "nat \<Rightarrow> resp_alg \<Rightarrow> CRESP_Out_Item list \<times> resp_alg" where
  "l_resp_PopAlgorithmData k s = (let (xs, q) = out_pop k (respOut s) in (xs, s\<lparr>respOut := q\<rparr>))"

text \<open>The static variables as the program starts.\<close>

definition resp_boot :: resp_alg where
  "resp_boot = \<lparr>respOut = ([], 0), pRESP_Cal_Buf = [], nRESP_Calc_Data_Num = 0, resp_AlertList = [], pushCount = 0,
     TriAmp = 0, hisRespRate = [], RespRate = 0, resp_FilterBuffer = [zero_biquad], FilterMode = 0, HighBoundary = 60,
     LowBoundary = 10, SuffocationAlertDelay = 20, SuffocationSysTick = 0, isSuffocation = False, hisR = [], TF = []\<rparr>"

end
