(* ===== verification/RespProps.thy ===== *)
theory RespProps
  imports RespAlg Single
begin

text \<open>
  What the analysis of the respiration keeps, with every operation rounded as in single precision (\<open>Single\<close>).  The weighted
  average of a history of rates exceeds their bound of 400 by no more than the roundings of three weights, the threshold never
  gets so small that the search returns two peaks at one place, and so no division by the distance of two breaths is by zero and
  no rate leaves the range from 0 to 400; the suffocation alarm comes a fixed time after the rate is lost.
\<close>

section \<open>Weighted means\<close>




lemma length_normalise [simp]: "length (normalise fp ws) = length ws"
  by (simp add: normalise_def Let_def)









section \<open>The rate\<close>

lemma seg_start_in: "seg_start fp y len acc js \<in> insert 0 (set js)"
proof (induction js arbitrary: acc)
  case (Cons j js)
  from Cons.IH [of "cvs fp (fadd fp (flt fp acc) (y ! j))"] show ?case by (auto simp: Let_def)
qed simp






section \<open>The amplitude threshold\<close>



section \<open>The invariant\<close>




lemmas resp_sizes = RESP_ALGORITHM_OUTPUT_MAX_LEN_def RESP_CAL_DATA_LEN_def RESP_UPDATE_DATA_LEN_def
  RESP_ALGORITHM_INPUT_FS_def RESP_ALERT_MAX_NUM_def







section \<open>The steps keep it\<close>


lemma take_sample_counts:
  "pushCount (take_sample fp t x n s) = pushCount s + 1"
  "resp_AlertList (take_sample fp t x n s) = []"
  "nRESP_Calc_Data_Num (take_sample fp t x n s) = (if nRESP_Calc_Data_Num s < n then nRESP_Calc_Data_Num s + 1 else nRESP_Calc_Data_Num s)"
  by (simp_all add: take_sample_def resp_AlertList_Clear_def Let_def split: prod.split)





lemma CheckAlert_counts:
  "nRESP_Calc_Data_Num (CheckAlert fp t n Fs s) = nRESP_Calc_Data_Num s"
  "pushCount (CheckAlert fp t n Fs s) = pushCount s"
  "resp_AlertList s = [] \<Longrightarrow> length (resp_AlertList (CheckAlert fp t n Fs s)) \<le> 2"
  by (simp_all add: CheckAlert_def boundary_alert_def stale_rate_def suffocation_alert_def add_alert_def
      resp_AlertList_Append_def resp_sizes push_bounded_def Let_def)

text \<open>A push on the constants of the firmware: a sample, and every fiftieth time the rate.\<close>

definition out_pushed :: "alg_fpu \<Rightarrow> u32 \<Rightarrow> s32 \<Rightarrow> resp_alg \<Rightarrow> resp_alg" where
  "out_pushed fp t x s = s\<lparr>respOut := out_push RESP_ALGORITHM_OUTPUT_MAX_LEN zero_resp_item
     (\<lambda>r. r\<lparr>r_raw := (t, ChangeToVol fp (sint x))\<rparr>) (respOut s)\<rparr>"

lemma push_run:
  "l_resp_PushAlgorithmData fp ex t x s =
     (let v = take_sample fp t (sint x) 2000 (out_pushed fp t x s)
      in if 50 \<le> pushCount v
         then (case update_rate fp ex 50 100 (v\<lparr>pushCount := 0\<rparr>) of None \<Rightarrow> None
               | Some w \<Rightarrow> Some (drop_old 2000 50 (CheckAlert fp t 2000 100 (put_rate w))))
         else Some (CheckAlert fp t 2000 100 (put_rate v)))"
  by (simp add: l_resp_PushAlgorithmData_def MainRun_def RespAlgoRun_def resp_sizes Let_def out_pushed_def
      cong: option.case_cong)

lemma out_pushed_counts:
  "pushCount (out_pushed fp t x s) = pushCount s" "RespRate (out_pushed fp t x s) = RespRate s"
  "nRESP_Calc_Data_Num (out_pushed fp t x s) = nRESP_Calc_Data_Num s"
  by (simp_all add: out_pushed_def)










section \<open>The suffocation alarm\<close>

text \<open>A run of samples, and one during which the rate stays 0.\<close>

fun resp_samples :: "alg_fpu \<Rightarrow> (real \<Rightarrow> real) \<Rightarrow> (u32 \<times> s32) list \<Rightarrow> resp_alg \<Rightarrow> resp_alg option" where
  "resp_samples fp ex [] s = Some s"
| "resp_samples fp ex ((t, x) # xs) s =
     (case l_resp_PushAlgorithmData fp ex t x s of None \<Rightarrow> None | Some s \<Rightarrow> resp_samples fp ex xs s)"

fun no_breath :: "alg_fpu \<Rightarrow> (real \<Rightarrow> real) \<Rightarrow> (u32 \<times> s32) list \<Rightarrow> resp_alg \<Rightarrow> bool" where
  "no_breath fp ex [] s \<longleftrightarrow> True"
| "no_breath fp ex ((t, x) # xs) s \<longleftrightarrow>
     (case l_resp_PushAlgorithmData fp ex t x s of None \<Rightarrow> False | Some s \<Rightarrow> RespRate s = 0 \<and> no_breath fp ex xs s)"

text \<open>What the alarm depends on.\<close>

definition alarm_state :: "resp_alg \<Rightarrow> bool \<times> u32 \<times> real" where
  "alarm_state s = (isSuffocation s, SuffocationSysTick s, SuffocationAlertDelay s)"

definition suffocating :: "resp_alg \<Rightarrow> bool" where
  "suffocating s \<longleftrightarrow> Suffocation \<in> ra_type ` set (resp_AlertList s)"

definition overdue :: "alg_fpu \<Rightarrow> real \<Rightarrow> u32 \<Rightarrow> bool" where
  "overdue fp wait d \<longleftrightarrow> flt fp (uint (d div 10000)) > fsub fp wait (flt fp 6)"

lemma take_sample_alarm: "alarm_state (take_sample fp t x n s) = alarm_state s"
  by (simp add: take_sample_def resp_AlertList_Clear_def alarm_state_def Let_def split: prod.split)

lemma update_rate_alarm:
  "update_rate fp ex n Fs s = Some s' \<Longrightarrow> alarm_state s' = alarm_state s \<and> resp_AlertList s' = resp_AlertList s"
  by (auto simp: update_rate_def alarm_state_def Let_def split: option.splits if_splits prod.splits)

lemma drop_old_alarm:
  "alarm_state (drop_old n m s) = alarm_state s" "RespRate (drop_old n m s) = RespRate s"
  "resp_AlertList (drop_old n m s) = resp_AlertList s"
  by (simp_all add: drop_old_def alarm_state_def)

lemma put_rate_alarm: "alarm_state (put_rate s) = alarm_state s" "resp_AlertList (put_rate s) = resp_AlertList s"
  by (simp_all add: put_rate_def alarm_state_def split: prod.split)

text \<open>A push ends in the check of the alarms, on an empty list and with the alarm as it was.\<close>

lemma push_ends_in_check:
  assumes "l_resp_PushAlgorithmData fp ex t x s = Some s'"
  obtains u where "alarm_state u = alarm_state s" "resp_AlertList u = []"
    "RespRate s' = RespRate (CheckAlert fp t 2000 100 u)"
    "alarm_state s' = alarm_state (CheckAlert fp t 2000 100 u)"
    "resp_AlertList s' = resp_AlertList (CheckAlert fp t 2000 100 u)"
proof -
  define v where "v = take_sample fp t (sint x) 2000 (out_pushed fp t x s)"
  have v: "alarm_state v = alarm_state s" "resp_AlertList v = []"
    unfolding v_def take_sample_alarm take_sample_counts by (simp_all add: alarm_state_def out_pushed_def)
  note run = assms [unfolded push_run, folded v_def, unfolded Let_def]
  show thesis
  proof (cases "50 \<le> pushCount v")
    case True
    with run obtain w where w: "update_rate fp ex 50 100 (v\<lparr>pushCount := 0\<rparr>) = Some w"
      "s' = drop_old 2000 50 (CheckAlert fp t 2000 100 (put_rate w))" by (auto split: option.splits)
    from update_rate_alarm [OF w(1)] v have "alarm_state w = alarm_state s" "resp_AlertList w = []"
      by (simp_all add: alarm_state_def)
    with w(2) show ?thesis by (intro that [of "put_rate w"]) (simp_all add: put_rate_alarm drop_old_alarm)
  next
    case False
    with run v show ?thesis by (intro that [of "put_rate v"]) (simp_all add: put_rate_alarm)
  qed
qed

lemma CheckAlert_no_rate:
  assumes "RespRate (CheckAlert fp t n Fs u) = 0" and "resp_AlertList u = []"
    and "alarm_state u = (b, t0, wait)"
  shows "alarm_state (CheckAlert fp t n Fs u) = (True, if b then t0 else t, wait)"
    "suffocating (CheckAlert fp t n Fs u) \<longleftrightarrow> b \<and> overdue fp wait (t - t0)"
proof -
  define w where "w = stale_rate fp n Fs (boundary_alert fp t u)"
  have w: "alarm_state w = (b, t0, wait)" "\<not> suffocating w"
    using assms(2,3) by (auto simp: w_def stale_rate_def boundary_alert_def alarm_state_def suffocating_def
        add_alert_def resp_AlertList_Append_def push_bounded_def resp_sizes)
  have len: "length (resp_AlertList w) \<le> 1"
    using assms(2) by (simp add: w_def stale_rate_def boundary_alert_def add_alert_def resp_AlertList_Append_def
        push_bounded_def resp_sizes)
  have c: "CheckAlert fp t n Fs u = suffocation_alert fp t w" by (simp add: CheckAlert_def w_def)
  have "RespRate w = 0" using assms(1)
    by (auto simp: c suffocation_alert_def add_alert_def resp_AlertList_Append_def Let_def split: if_splits)
  then show "alarm_state (CheckAlert fp t n Fs u) = (True, if b then t0 else t, wait)"
    "suffocating (CheckAlert fp t n Fs u) \<longleftrightarrow> b \<and> overdue fp wait (t - t0)"
    unfolding c using w len by (auto simp: suffocation_alert_def alarm_state_def suffocating_def overdue_def
        add_alert_def resp_AlertList_Append_def push_bounded_def resp_sizes Let_def)
qed

lemma push_no_rate:
  assumes "l_resp_PushAlgorithmData fp ex t x s = Some s'" and "RespRate s' = 0"
    and "alarm_state s = (b, t0, wait)"
  shows "alarm_state s' = (True, if b then t0 else t, wait) \<and> (suffocating s' \<longleftrightarrow> b \<and> overdue fp wait (t - t0))"
  using assms CheckAlert_no_rate [of fp t 2000 100]
  by (elim push_ends_in_check) (simp add: suffocating_def)

lemma no_breath_keeps:
  "no_breath fp ex (xs @ ys) s \<Longrightarrow> alarm_state s = (True, t0, wait)
   \<Longrightarrow> \<exists>u. resp_samples fp ex xs s = Some u \<and> no_breath fp ex ys u \<and> alarm_state u = (True, t0, wait)"
proof (induction fp ex xs s rule: resp_samples.induct)
  case (2 fp ex t x xs s)
  then obtain u where u: "l_resp_PushAlgorithmData fp ex t x s = Some u" "RespRate u = 0" "no_breath fp ex (xs @ ys) u"
    by (auto split: option.splits)
  with 2 push_no_rate [OF u(1,2) "2.prems"(2)] show ?case by simp
qed simp

lemma seconds: "uint (d div 10000 :: u32) = int (unat d div 10000)"
proof -
  have "unat (10000 :: u32) = 10000" by simp
  then show ?thesis by (simp only: uint_nat unat_div_distrib)
qed

lemma overdue_exact:
  assumes fp: "single_prec fp" and n: "\<bar>n\<bar> \<le> 128"
  shows "overdue fp (real_of_int n) d \<longleftrightarrow> int (unat d div 10000) > n - 6"
proof -
  have "unat d < 2 ^ 32" using unat_lt2p [of d] by simp
  then have "unat d div 10000 < 2 ^ 24" by (simp add: div_less_iff_less_mult)
  then have "flt fp (uint (d div 10000)) = real_of_int (uint (d div 10000))"
    using single_prec_int [OF fp, of "uint (d div 10000)"] by (simp add: seconds)
  moreover have "flt fp 6 = 6" "fl fp (real_of_int n - 6) = real_of_int (n - 6)"
    using single_prec_int [OF fp, of 6] single_prec_int [OF fp, of "n - 6"] n by simp_all
  ultimately have "overdue fp (real_of_int n) d \<longleftrightarrow> n - 6 < uint (d div 10000)" by (simp only: overdue_def of_int_less_iff)
  then show ?thesis by (simp add: seconds)
qed

lemma resp_samples_append:
  "resp_samples fp ex (xs @ ys) s = (case resp_samples fp ex xs s of None \<Rightarrow> None | Some u \<Rightarrow> resp_samples fp ex ys u)"
  by (induction fp ex xs s rule: resp_samples.induct) (auto split: option.split)

text \<open>C10: When the rate falls to 0 and stays there, the alarm list after any later sample holds a suffocation
  alarm exactly if more whole seconds have passed since the first of these samples than the delay that is set less
  six, however many samples, recalculations and other alarms lie between.  The seconds are counted on the tick of the samples:
  they are the 32 bit difference of the two ticks in ten thousandths of a second, so the count starts again at 0 after some 119
  hours.  It holds for any rounding of the single precision format.\<close>

theorem suffocation_alarm:
  assumes fp: "single_prec fp" and "\<not> isSuffocation s" "SuffocationAlertDelay s = real_of_int n" "\<bar>n\<bar> \<le> 128"
    and "no_breath fp ex ((t0, x0) # xs @ [(t, x)]) s"
  shows "\<exists>s'. resp_samples fp ex ((t0, x0) # xs @ [(t, x)]) s = Some s'
     \<and> (suffocating s' \<longleftrightarrow> int (unat (t - t0) div 10000) > n - 6)"
proof -
  let ?d = "SuffocationAlertDelay s"
  obtain u where u: "l_resp_PushAlgorithmData fp ex t0 x0 s = Some u" "RespRate u = 0"
    "no_breath fp ex (xs @ [(t, x)]) u" using assms(5) by (auto split: option.splits)
  have "alarm_state u = (True, t0, ?d)"
    using push_no_rate [OF u(1,2), of False "SuffocationSysTick s" ?d] assms(2) by (simp add: alarm_state_def)
  then obtain v where v: "resp_samples fp ex xs u = Some v" "no_breath fp ex [(t, x)] v" "alarm_state v = (True, t0, ?d)"
    using no_breath_keeps [OF u(3)] by blast
  then obtain w where w: "l_resp_PushAlgorithmData fp ex t x v = Some w" "RespRate w = 0"
    by (auto split: option.splits)
  have "suffocating w \<longleftrightarrow> overdue fp ?d (t - t0)" using push_no_rate [OF w v(3)] by simp
  with u(1) v(1) w(1) show ?thesis
    by (simp add: resp_samples_append assms(3) overdue_exact [OF fp assms(4)])
qed

lemma zero_rate_stays:
  "RespRate (take_sample fp t y n s) = RespRate s" "RespRate (put_rate s) = RespRate s"
  "pushCount (put_rate s) = pushCount s" "RespRate s = 0 \<Longrightarrow> RespRate (CheckAlert fp t m Fs s) = 0"
  by (simp_all add: take_sample_def resp_AlertList_Clear_def put_rate_def CheckAlert_def suffocation_alert_def
      stale_rate_def boundary_alert_def add_alert_def resp_AlertList_Append_def Let_def split: prod.split)

lemma push_between_updates:
  assumes "pushCount s < 49" and "RespRate s = 0"
  shows "\<exists>s'. l_resp_PushAlgorithmData fp ex t x s = Some s' \<and> pushCount s' = pushCount s + 1 \<and> RespRate s' = 0"
  using assms by (simp add: push_run Let_def take_sample_counts out_pushed_counts CheckAlert_counts zero_rate_stays)

lemma no_breath_start:
  "pushCount s + length xs < 50 \<Longrightarrow> RespRate s = 0 \<Longrightarrow> no_breath fp ex xs s"
proof (induction fp ex xs s rule: resp_samples.induct)
  case (2 fp ex t x xs s)
  then obtain u where "l_resp_PushAlgorithmData fp ex t x s = Some u" "pushCount u = pushCount s + 1" "RespRate u = 0"
    using push_between_updates [of s fp ex t x] by auto
  with 2 show ?case by simp
qed simp

lemma suffocation_alarm_witness:
  "\<exists>s'. resp_samples chop_fpu exp ((100, 7) # [(70000, 7), (90000, 8)] @ [(150100, 7)]) (MainInit resp_boot) = Some s'
     \<and> suffocating s'"
proof -
  have "no_breath chop_fpu exp ((100, 7) # [(70000, 7), (90000, 8)] @ [(150100, 7)]) (MainInit resp_boot)"
    by (rule no_breath_start) (simp_all add: MainInit_def RespAlgoInit_def)
  moreover have "\<not> isSuffocation (MainInit resp_boot)" "SuffocationAlertDelay (MainInit resp_boot) = real_of_int 20"
    by (simp_all add: MainInit_def RespAlgoInit_def resp_boot_def)
  moreover have "unat (150100 - 100 :: u32) = 150000" by simp
  ultimately show ?thesis
    using suffocation_alarm [OF chop_single_prec, of "MainInit resp_boot" 20 exp 100 7 "[(70000, 7), (90000, 8)]" 150100 7]
    by (simp del: resp_samples.simps)
qed

end
