(* ===== verification/SdramTest.thy ===== *)
theory SdramTest
  imports Prelude
begin

text \<open>
  The memory test of \<open>system_sdram.c\<close>.  The memory is a function from cells to half words; \<open>phys\<close> is the cell an
  address reaches and \<open>rd c v\<close> what cell \<open>c\<close> gives back when it holds \<open>v\<close>: both are the identity in a memory
  without fault.  Messages are left out.  A wrong cell is reported in a loop that never ends: \<open>Some i\<close>, with the place \<open>i\<close>.
\<close>

definition sdram_pattern :: "nat \<Rightarrow> u16" where
  "sdram_pattern i = (if i mod 2 \<noteq> 0 then 0xAAAA else 0x5555)"

definition speed_w_test_2 :: "(nat \<Rightarrow> nat) \<Rightarrow> nat \<Rightarrow> (nat \<Rightarrow> u16) \<Rightarrow> nat \<Rightarrow> u16" where
  "speed_w_test_2 phys n m = fold (\<lambda>i m. m(phys i := sdram_pattern i)) [0..<n] m"

definition speed_r_test_2 :: "(nat \<Rightarrow> nat) \<Rightarrow> (nat \<Rightarrow> u16 \<Rightarrow> u16) \<Rightarrow> nat \<Rightarrow> (nat \<Rightarrow> u16) \<Rightarrow> nat option" where
  "speed_r_test_2 phys rd n m = find (\<lambda>i. rd (phys i) (m (phys i)) \<noteq> sdram_pattern i) [0..<n]"

text \<open>\<open>n\<close> is \<open>SDRAM_END_ADDR/2\<close>, one less than the number of half words: the last one is not tested.\<close>

definition SDRAM_END_ADDR :: nat where "SDRAM_END_ADDR = 0xFFFFFF"

definition SDRAM_SelfCheck :: "(nat \<Rightarrow> nat) \<Rightarrow> (nat \<Rightarrow> u16 \<Rightarrow> u16) \<Rightarrow> (nat \<Rightarrow> u16) \<Rightarrow> nat option" where
  "SDRAM_SelfCheck phys rd m =
     (let n = SDRAM_END_ADDR div 2 in speed_r_test_2 phys rd n (speed_w_test_2 phys n m))"

lemma written:
  assumes "\<And>i j. i < n \<Longrightarrow> j < n \<Longrightarrow> phys i = phys j \<Longrightarrow> i mod 2 = j mod 2" and "i < n"
  shows "speed_w_test_2 phys n m (phys i) = sdram_pattern i"
  using assms
proof (induction n)
  case (Suc n)
  show ?case
  proof (cases "phys i = phys n")
    case True
    then have "i mod 2 = n mod 2" by (intro Suc.prems(1)) (use Suc.prems(2) in simp_all)
    then show ?thesis using True by (simp add: speed_w_test_2_def sdram_pattern_def)
  next
    case False
    with Suc.prems(2) have "i < n" by (auto simp: less_Suc_eq)
    have "speed_w_test_2 phys n m (phys i) = sdram_pattern i"
      by (rule Suc.IH [OF _ \<open>i < n\<close>]) (rule Suc.prems(1); simp)
    with False show ?thesis by (simp add: speed_w_test_2_def)
  qed
qed simp

text \<open>With a sound address bus the test ends exactly when every cell gives back its pattern.\<close>

lemma test_passes:
  assumes "\<And>i j. i < n \<Longrightarrow> j < n \<Longrightarrow> phys i = phys j \<Longrightarrow> i mod 2 = j mod 2"
  shows "speed_r_test_2 phys rd n (speed_w_test_2 phys n m) = None
    \<longleftrightarrow> (\<forall>i < n. rd (phys i) (sdram_pattern i) = sdram_pattern i)"
  using written [OF assms, of n] by (auto simp: speed_r_test_2_def find_None_iff)

lemma SelfCheck_exact:
  assumes "inj phys"
  shows "SDRAM_SelfCheck phys rd m = None
    \<longleftrightarrow> (\<forall>i < SDRAM_END_ADDR div 2. rd (phys i) (sdram_pattern i) = sdram_pattern i)"
  unfolding SDRAM_SelfCheck_def Let_def by (rule test_passes) (use assms in \<open>auto dest: injD\<close>)

text \<open>The pattern repeats every second cell, so address lines above the lowest one are not tested: a memory of
  which only two cells can be reached passes.\<close>

lemma SelfCheck_misses_address_faults: "SDRAM_SelfCheck (\<lambda>i. i mod 2) (\<lambda>_ v. v) m = None"
  unfolding SDRAM_SelfCheck_def Let_def by (subst test_passes) simp_all

end
