(* ===== verification/StmMaster.thy ===== *)
theory StmMaster
  imports StmI2c
begin

text \<open>
  The master transfers of \<open>i2c_int.c\<close>, which nothing of the program calls: a byte with every phase polled, and a
  buffer moved by the interrupt handler while the caller waits for its length to reach 0.
\<close>

section \<open>Bytes\<close>

text \<open>What a transfer does on the bus.  \<open>I2C_Send7bitAddress\<close> sets or clears the lowest bit of the address.\<close>

datatype i2c_wire = Start | Address u8 | Data u8 | Ack bool | Stop

definition Send7bitAddress :: "u8 \<Rightarrow> bool \<Rightarrow> i2c_wire" where
  "Send7bitAddress a receiver = Address (if receiver then a OR 1 else a AND NOT 1)"

text \<open>\<open>polls i\<close> is how often the \<open>i\<close>-th wait polls in vain; \<open>late\<close> is the branch a failed wait takes.\<close>

definition late :: "(nat \<Rightarrow> nat) \<Rightarrow> nat \<Rightarrow> int \<Rightarrow> int \<Rightarrow> int" where
  "late polls i e ret = (if i2c_check_event (polls i) \<noteq> 0 then e else ret)"

definition i2c_write_byte :: "(nat \<Rightarrow> nat) \<Rightarrow> u8 \<Rightarrow> u16 \<Rightarrow> u8 \<Rightarrow> int \<times> i2c_wire list" where
  "i2c_write_byte polls dev_addr sub_addr data =
     (let ret = 0; ret = late polls 0 (- 1) ret; ret = late polls 1 (- 1) ret;
          ret = late polls 2 (- 2) ret; ret = late polls 3 (- 3) ret
      in (ret, [Start, Send7bitAddress dev_addr False, Data (ucast sub_addr), Data data, Stop]))"

text \<open>The byte of the data register replaces whatever error was noted.\<close>

definition i2c_read_byte :: "(nat \<Rightarrow> nat) \<Rightarrow> u8 \<Rightarrow> u8 \<Rightarrow> u16 \<Rightarrow> u8 \<times> i2c_wire list" where
  "i2c_read_byte polls dr dev_addr sub_addr =
     (let ret = 0; ret = late polls 0 (- 1) ret; ret = late polls 1 (- 2) ret; ret = late polls 2 (- 3) ret;
          ret = late polls 3 (- 4) ret; ret = late polls 4 (- 5) ret; ret = late polls 5 (- 6) ret;
          ret = uint dr
      in (word_of_int ret, [Start, Send7bitAddress dev_addr False, Data (ucast sub_addr), Start,
                            Send7bitAddress dev_addr True, Ack False, Stop, Ack True]))"

section \<open>Buffers\<close>

text \<open>\<open>while (pDev->len && timeout--)\<close>: between two polls the interrupt handler \<open>h\<close> runs for the events of that
  moment; after the end of the list nothing happens any more.\<close>

fun wait_len :: "(i2c_event \<Rightarrow> i2c_device \<Rightarrow> i2c_device) \<Rightarrow> nat \<Rightarrow> i2c_event list list \<Rightarrow> i2c_device \<Rightarrow> int \<times> i2c_device" where
  "wait_len h 0 evs d = (- 1, d)"
| "wait_len h (Suc timeout) evs d =
     (if i2c_len d = 0 then (if Suc timeout > 1 then 0 else - 1, d)
      else wait_len h timeout (tl evs) (case evs of [] \<Rightarrow> d | e # _ \<Rightarrow> fold h e d))"

text \<open>The handler of the first device with its transmit buffer set to the caller's (where it stays, so that the slave
  answers from it afterwards); a byte beyond it is \<open>mem\<close>.\<close>

definition on_event :: "(nat \<Rightarrow> u8) \<Rightarrow> bytes \<Rightarrow> i2c_event \<Rightarrow> i2c_device \<Rightarrow> i2c_device" where
  "on_event mem buf ev d =
     (let tx = (\<lambda>i. if i < length buf then buf ! i else mem i)
      in if ie_event ev AND BIT_MASTER \<noteq> 0 then snd (master_event tx STM32_I2C_TX_SIZE ev d) else slave_event tx ev d)"

text \<open>The result of the wait is dropped: both return 0 in any case.\<close>

definition i2c_write_buf :: "(nat \<Rightarrow> u8) \<Rightarrow> i2c_event list list \<Rightarrow> u8 \<Rightarrow> u16 \<Rightarrow> u16 \<Rightarrow> bytes \<Rightarrow> u8 \<Rightarrow> i2c_device \<Rightarrow> int \<times> i2c_device" where
  "i2c_write_buf mem evs dev_addr sub_addr sub_addr_len buf len d =
     (let d = d\<lparr>i2c_addr := dev_addr, i2c_sub_addr := sub_addr, i2c_sub_addr_len := sub_addr_len, i2c_len := ucast len,
                i2c_tx_len := 0\<rparr>
      in (0, snd (wait_len (on_event mem buf) 10000 evs d)))"

definition i2c_read_buf :: "(nat \<Rightarrow> u8) \<Rightarrow> bytes \<Rightarrow> i2c_event list list \<Rightarrow> u8 \<Rightarrow> u16 \<Rightarrow> u8 \<Rightarrow> bytes \<Rightarrow> u8 \<Rightarrow> i2c_device \<Rightarrow> int \<times> i2c_device" where
  "i2c_read_buf mem txb evs dev_addr sub_addr sub_addr_len buf len d =
     (let d = d\<lparr>i2c_addr := dev_addr OR 1, i2c_sub_addr := sub_addr, i2c_sub_addr_len := ucast sub_addr_len, i2c_len := ucast len,
                i2c_rx_buf := buf, i2c_rx_len := 0\<rparr>
      in (0, snd (wait_len (on_event mem txb) 10000 evs d)))"

section \<open>What they do\<close>

lemma i2c_check_event_iff: "i2c_check_event k \<noteq> 0 \<longleftrightarrow> k \<ge> 9999"
  by (auto simp: i2c_check_event_def Let_def)

text \<open>A written byte reports the last phase that was late, and sends everything all the same.\<close>

lemma i2c_write_byte_result:
  "fst (i2c_write_byte polls a r b) = 0 \<longleftrightarrow> polls 0 < 9999 \<and> polls 1 < 9999 \<and> polls 2 < 9999 \<and> polls 3 < 9999"
  unfolding i2c_write_byte_def late_def i2c_check_event_iff Let_def fst_conv by (simp add: not_le split: if_split)

text \<open>A read byte never reports an error.\<close>

lemma i2c_read_byte_no_error: "fst (i2c_read_byte polls dr a r) = dr"
  by (simp add: i2c_read_byte_def)

text \<open>The modulus of the handler is the size of the status block, so a transfer of more than three bytes repeats
  the first three.\<close>

definition txe :: i2c_event where "txe = \<lparr>ie_event = 0x50080, ie_data = 0, ie_sr1 = 0\<rparr>"

lemma on_event_txe:
  assumes "i2c_sub_addr_len d = 0" "i2c_len d \<noteq> 0" "i2c_tx_len d < length buf"
  shows "on_event mem buf txe d = d\<lparr>i2c_sent := i2c_sent d @ [buf ! i2c_tx_len d], i2c_tx_len := (i2c_tx_len d + 1) mod 3,
    i2c_len := i2c_len d - 1\<rparr>"
  using assms by (simp add: on_event_def txe_def master_event_def has_def Let_def I2C_SendData_def)

lemma wait_len_event:
  "0 < t \<Longrightarrow> i2c_len d \<noteq> 0 \<Longrightarrow> wait_len h t (e # evs) d = wait_len h (t - 1) evs (fold h e d)"
  by (cases t) simp_all

lemma wait_len_over: "i2c_len d = 0 \<Longrightarrow> snd (wait_len h t evs d) = d"
  by (cases t) simp_all

lemma long_transfer_repeats:
  assumes "length buf = 5"
  shows "i2c_sent (snd (i2c_write_buf mem [[txe], [txe], [txe], [txe], [txe]] a r 0 buf 5 d))
    = i2c_sent d @ [buf ! 0, buf ! 1, buf ! 2, buf ! 0, buf ! 1]"
  using assms by (simp add: i2c_write_buf_def wait_len_event wait_len_over on_event_txe) (simp add: numeral_2_eq_2)

text \<open>When the other side never answers, the transfer ends after its 10000 polls, with nothing moved and the result 0.\<close>

lemma wait_len_silent: "snd (wait_len h t [] d) = d"
  by (induction t) simp_all

lemma silent_transfer: "fst (i2c_write_buf mem [] a r k buf n d) = 0" "i2c_sent (snd (i2c_write_buf mem [] a r k buf n d)) = i2c_sent d"
  by (simp_all add: i2c_write_buf_def wait_len_silent)

end
