(* ===== verification/Spec2Isabelle.thy ===== *)
theory Spec2Isabelle
  imports AllInOneDSP BoardLink Iap NibpStop NibpAlg NibpRising EcgProps RespProps SdramTest StmMaster
begin

text \<open>
  Verification development for the firmware of the "All In One" patient monitor board (sources under \<open>src/\<close>).

  \<^bold>\<open>The program.\<close>  Two processors share the board.  A Blackfin BF512 (\<open>AllInOneDSP/src\<close>) measures ECG,
  respiration, temperature and non-invasive blood pressure, passes on the packets of an oxygen saturation module, and
  speaks a packet protocol over UART1 with the control unit that commands it.  An STM32 (\<open>AllInOneSTM32/Usr\<close>), its slave
  on the two-wire bus, detects loose electrodes, watches the supply, and opens the valve of the cuff when the pressure
  passes a limit, whatever the first processor does.  The STM32 starts in a boot loader (\<open>booloader/aio_stm_bootloader\<close>)
  that the first processor can feed with a new image.  The measurement algorithms (\<open>AllInOneDSP/src/AlgorithmLib\<close>) are
  called by the modules of the first processor.

  \<^bold>\<open>Signal processor\<close> (\<open>AllInOneDSP/src/source\<close>).  The state is one record, extended module by module along the chain
  of theories, a field for every global variable; an operation takes the state to the state.

  \<^item> \<open>Prelude\<close>, \<open>Hw\<close>, \<open>Ring\<close>, \<open>Globals\<close>: the C types and enumerations of \<open>header/utilities.h\<close>, the register file with
    the log of effects, the interfaces of circular buffers, variables several modules write, and \<open>external_watchdog.c\<close>.
  \<^item> \<open>SysTick\<close>: \<open>system_tick.c\<close>.  \<open>AioUart\<close>: \<open>system_uart.c\<close>.  \<open>Protocol\<close> and \<open>Dispatch\<close>: \<open>uart_protocol.c\<close>.
    \<open>Twi\<close>: \<open>system_twi.c\<close>.  \<open>Spo2\<close>: \<open>module_spo2_uart.c\<close>.  \<open>Eeprom\<close>: \<open>eeprom.c\<close>.  \<open>Stm32\<close>:
    \<open>module_onboard_stm32.c\<close>.  \<open>Temperature\<close>: \<open>sn74hc595.c\<close>, \<open>module_temperature.c\<close>.
  \<^item> \<open>Resp\<close>, \<open>Ecg\<close>: \<open>module_resp.c\<close>, \<open>module_ecg.c\<close> and their \<open>algorithm_*.c\<close>.  \<open>AdcIo\<close> and \<open>Sampling\<close>:
    \<open>external_adc_*.c\<close> and the interrupt handlers that take the samples.
  \<^item> \<open>Nibp\<close>, \<open>NibpCmd\<close>, \<open>NibpSafety\<close>, \<open>NibpStop\<close>: \<open>module_nibp.c\<close>, \<open>algorithm_nibp.c\<close>, \<open>module_ibp.c\<close>, \<open>common_handle.c\<close>;
    \<open>NibpSafety\<close> has the conversion between pressure and sample, \<open>NibpStop\<close> the stop at an overpressure over runs of samples.
  \<^item> \<open>Sflash\<close>, \<open>Board\<close>, \<open>SdramTest\<close>: \<open>system_gpio.c\<close>, \<open>system_spi.c\<close>, \<open>system_sflash.c\<close>, \<open>system_clock.c\<close>, \<open>system_sdram.c\<close>,
    \<open>system_power.c\<close>, \<open>system_check.c\<close>, \<open>test_led_lamp.c\<close>.
  \<^item> \<open>AllInOneDSP\<close>: \<open>AllInOneDSP.c\<close>, the initialisation, one pass of the main loop, and the step relation \<open>dsp_step\<close>
    that lets interrupts run between the handlers of a pass.

  \<^bold>\<open>Algorithms\<close> (\<open>AllInOneDSP/src/AlgorithmLib\<close>).  \<open>AlgLib\<close>: the array routines of \<open>AlgLib.c\<close>.  \<open>AlgQueue\<close>: the
  queue of pulses, \<open>queue.c\<close>.  \<open>NibpSteps\<close>, \<open>NibpFeature\<close>, \<open>NibpAlg\<close>: \<open>NIBPAlgorithmV1000.c\<close> and
  \<open>NIBPAlgorithm.c\<close>, from the samples of one pressure step over its pulses and the list of steps to the curve of
  energy over pressure and the three blood pressures.  \<open>Single\<close>: the single precision format.  \<open>NibpRising\<close>: the functions of that file nothing calls any
  more.  \<open>AlgIO\<close>: the output queue of the two other algorithms.  \<open>EcgFilter\<close>: \<open>DigitalFilter.c\<close>.  \<open>EcgClassify\<close>:
  \<open>Classifier.c\<close> and the searches of \<open>ECGAlgorithmV1000.c\<close> over their arguments.  \<open>EcgAlg\<close>: the state of that file and its
  operations, one sample after the other, with \<open>ECGAlgorithm.c\<close>.  \<open>EcgProps\<close>: what they keep and report.
  \<open>Triangles\<close>: what the search for triangular forms finds, which ECG and respiration share.  \<open>RespAlg\<close>:
  \<open>RESP_V1001.cpp\<close> with \<open>RESPAlgorithm.c\<close>, from the sample over the forms of the last twenty seconds to the rate
  and its alarms.  \<open>RespProps\<close>: the range of the rate and the suffocation alarm.

  \<^bold>\<open>Second processor\<close> (\<open>AllInOneSTM32/Usr/src\<close>).  \<open>StmCore\<close>: tick, watchdog, lamp, converter, supply, self check.
  \<open>StmModules\<close>: \<open>module_nibp.c\<close>, \<open>module_ecg.c\<close>.  \<open>StmI2c\<close> and \<open>StmMaster\<close>: \<open>i2c_int.c\<close>.  \<open>StmUart\<close>: \<open>uart.c\<close>.  \<open>StmMain\<close>:
  \<open>main.c\<close>.  \<open>BoardLink\<close> joins both processors over the bus.  \<open>Iap\<close> is the boot loader with the operations of the
  vendor's flash library it uses.

  \<^bold>\<open>Interfaces.\<close>  \<open>drop_oldest_queue\<close>, \<open>ring_reader\<close> and \<open>two_readers\<close> (theory \<open>Ring\<close>) are the contracts of the
  circular buffers, interpreted on every buffer of the firmware that keeps them; \<open>byte_source\<close> (\<open>Protocol\<close>) is
  what the packet receiver asks of a UART; \<open>periodic_task\<close> (\<open>SysTick\<close>) is the pattern of the
  periodic handlers; \<open>better_than\<close> (\<open>AlgLib\<close>) is the order behind the searches for a greatest or least element.

  \<^bold>\<open>What the theorems show.\<close>  Safety of the cuff pressure: after how many samples over the limit the cuff is
  stopped, for any run of samples through the sampling task, and how a run of samples over the range instead starts the
  inflation again; the independent protection of the second processor, and the write that defeats it.  Integrity of the links: a damaged packet is
  refused, the UART rings are bounded queues that drop their oldest byte, packets leave in order whatever the interrupts of the UART
  do, limits written over the bus are the limits read back.  Storage: page writes of EEPROM and serial flash cover exactly the bytes asked for, with every
  frame the serial flash is sent accounted for; an erasure clears which blocks it clears; and a downloaded image is the image in the flash.  Time: deadlines and delays over the wrap-around of the tick counter, the
  watchdog is fed while the loop runs, the boot loader starts the application after five seconds.  The blood pressure algorithm: the pulses of a step are apart by more than 30 samples,
  a step is analysed when its second tag comes, with exactly the samples before the first, and enters the list at the place of
  its pressure; the smoothed energies have one peak, the points of the curve ascend, and the three pressures come out in their
  order where the last correction leaves them.  The ECG algorithm: whatever calls it receives
  (\<open>ecg_call\<close>), its buffers and labels stay in bounds and the heart rate it shows stays between 0 and 350.
  The respiration algorithm: what the search returns are triangles of the wave, in order; no rate exceeds 400, with
  every operation rounded; the suffocation alarm comes after a known time.  Some theorems are about what the code does wrong, so that the
  behaviour is known exactly: a flat step is a division by zero, a repeated packet loses its page, the self check
  never reports a fault, one electrode is never measured, the arrhythmia analysis does not see one kind of premature beat and the list of
  the beats collapses, the ST settings are never used, the debug print of an interrupt handler can wait for ever, a packet of the oxygen
  module that declares 255 bytes stops the receiver, a send that another one interrupts is torn apart, and the bus interface of the
  second processor sends what lies behind its buffer.

  \<^bold>\<open>Conventions.\<close>  A fixed width C integer is a word; the algorithms, which use \<open>int\<close> only, have integers brought back to 32
  bits (\<open>i32\<close>).  Floating point is a parameter: \<open>fl fp\<close> rounds every result and \<open>cvs fp\<close>, \<open>cv32 fp\<close>, \<open>cv16 fp\<close> convert; \<open>float\<close> and
  \<open>double\<close> are the same 32-bit format on this compiler.  \<open>single_prec fp\<close> (\<open>Single\<close>)
  is what IEEE 754 says of every rounding of the single precision format, and \<open>single_ok fp\<close> the part of it the theorems on the curve use;
  \<open>chop_fpu\<close> is a rounding that has both, and \<open>exact_fpu\<close>, which does not round, serves examples and the lemmas about the
  calibration only.  Overflow, infinities and NaN are not modelled.  What the
  outside world does (bytes received, pin levels, status bits, interrupts taken while a loop polls) is a list in the state,
  consumed as the code asks.  The theorems hold for all such lists, save those on the packet receiver of the serial
  protocol (\<open>burst_rejected\<close>, \<open>upload_roundtrip\<close>, \<open>stop_command\<close>), which have the whole frame in the ring and no
  interrupt while it is read (\<open>aio_quiet\<close>).

  \<^bold>\<open>Loops.\<close>  A wait for a flag is recursion over the list of polls; where that list ends the wait never ends, and the
  result is \<open>None\<close>.  The packet receiver polls each byte as many times as \<open>uart_protocol.c\<close> allows, 500 (\<open>TRY_MAX_COUNT\<close>), and the two-wire
  bus gives up after the number of its source, so no fuel beyond the code's own bounds is used.  Loops over arrays are folds or
  recursion on the index with a measure.  \<open>rising_loop\<close> has the number of samples as its fuel, which
  \<open>GetSteepRising_ends\<close> shows to be enough.  \<open>feature_loop\<close> is a \<open>partial_function (option)\<close>, because the code's loop can
  leave its array; \<open>GetFeatureList_total\<close> shows that it ends on the lists the algorithm is built for, and
  \<open>GetFeatureList_flat\<close> that it does not on others.

  \<^bold>\<open>Interrupts.\<close>  A handler runs as a whole, at the points where the foreground reads a variable the handler writes, or
  between two handlers of the main loop.

  \<^bold>\<open>Not modelled.\<close>  \<open>RESPAlgorithmV1000.c\<close>, an earlier analysis of the respiration that is not part of the build.
  The modules of the first processor take the results of the algorithms as inputs, so that their properties hold
  whatever an algorithm delivers; both sides are not composed into one state.  Third-party code: U-Boot
  (\<open>booloader/aio_dsp_uboot\<close>), the Blackfin and STM32 vendor libraries beyond the flash operations, and the start-up
  code.
\<close>

end
